(* ===== verification/Prelude.thy ===== *)
theory Prelude
  imports Complex_Main "HOL-Library.AList" "HOL-Library.Sublist" "HOL-Library.List_Lexorder"
    "HOL-Library.Char_ord"
begin

text \<open>
  What every component shares: exceptions as values, the sum-type sequencing used to write
  handlers, the list operations of the language that the sources call, and Python's
  dictionaries (insertion-ordered association lists).

  Strings are lists of code points below 256. Binary64 numbers are the rationals they
  denote. Times are integers (microseconds since the epoch, UTC).
\<close>

named_theorems exn_simps \<open>facts about sequencing of operations that may raise\<close>
named_theorems frame_simps \<open>which fields of the state an operation leaves alone\<close>

type_synonym datetime = int

section \<open>Exceptions\<close>

text \<open>
  The exception classes that the modelled code raises or catches by class. The argument of
  each is the text of \<^verbatim>\<open>str(exc)\<close>; \<open>HTTPException\<close> also carries its status code.
  \<open>OtherError\<close> is any other subclass of \<^verbatim>\<open>Exception\<close>, with its class name.
\<close>

datatype exn =
    HTTPException int string
  | ValueError string
  | ValidationError string
  | AuditChainError string
  | TypeError string
  | KeyError string
  | EvidenceJudgeError string
  | RubricDraftError string
  | StoreConflictError string
  | OtherError string string

text \<open>\<^verbatim>\<open>isinstance(exc, ValueError)\<close>: pydantic's \<open>ValidationError\<close> and
  \<open>AuditChainError\<close> are subclasses.\<close>

fun is_value_error :: "exn \<Rightarrow> bool" where
  "is_value_error (ValueError _) = True"
| "is_value_error (ValidationError _) = True"
| "is_value_error (AuditChainError _) = True"
| "is_value_error _ = False"

fun exn_name :: "exn \<Rightarrow> string" where
  "exn_name (HTTPException _ _) = ''HTTPException''"
| "exn_name (ValueError _) = ''ValueError''"
| "exn_name (ValidationError _) = ''ValidationError''"
| "exn_name (AuditChainError _) = ''AuditChainError''"
| "exn_name (TypeError _) = ''TypeError''"
| "exn_name (KeyError _) = ''KeyError''"
| "exn_name (EvidenceJudgeError _) = ''EvidenceJudgeError''"
| "exn_name (RubricDraftError _) = ''RubricDraftError''"
| "exn_name (StoreConflictError _) = ''StoreConflictError''"
| "exn_name (OtherError c _) = c"

type_synonym 'a result = "exn + 'a"

text \<open>Sequencing: the first exception ends the computation.\<close>

definition ebind :: "'e + 'a \<Rightarrow> ('a \<Rightarrow> 'e + 'b) \<Rightarrow> 'e + 'b" where
  "ebind m f = (case m of Inl e \<Rightarrow> Inl e | Inr x \<Rightarrow> f x)"

lemma ebind_Inl [simp]: "ebind (Inl e) f = Inl e"
  by (simp add: ebind_def)

lemma ebind_Inr [simp]: "ebind (Inr x) f = f x"
  by (simp add: ebind_def)

lemma ebind_eq_Inr [exn_simps]:
  "ebind m f = Inr y \<longleftrightarrow> (\<exists>x. m = Inr x \<and> f x = Inr y)"
  by (cases m) auto

lemma ebind_eq_Inl [exn_simps]:
  "ebind m f = Inl e \<longleftrightarrow> m = Inl e \<or> (\<exists>x. m = Inr x \<and> f x = Inl e)"
  by (cases m) auto

lemma ebindE:
  assumes "ebind m f = Inr y"
  obtains x where "m = Inr x" and "f x = Inr y"
  using assms by (auto simp: exn_simps)

lemma ebind_assoc: "ebind (ebind m f) g = ebind m (\<lambda>x. ebind (f x) g)"
  by (cases m) auto

text \<open>\<^verbatim>\<open>if guard: raise e\<close> followed by the rest.\<close>

definition raise_if :: "bool \<Rightarrow> 'e \<Rightarrow> 'e + 'a \<Rightarrow> 'e + 'a" where
  "raise_if b e rest = (if b then Inl e else rest)"

lemma raise_if_eq_Inr [exn_simps]: "raise_if b e r = Inr y \<longleftrightarrow> \<not> b \<and> r = Inr y"
  by (simp add: raise_if_def)

lemma raise_if_eq_Inl [exn_simps]:
  "raise_if b e r = Inl e' \<longleftrightarrow> (b \<and> e' = e) \<or> (\<not> b \<and> r = Inl e')"
  by (auto simp: raise_if_def)

lemma raise_if_True [simp]: "raise_if True e r = Inl e"
  by (simp add: raise_if_def)

lemma raise_if_False [simp]: "raise_if False e r = r"
  by (simp add: raise_if_def)

text \<open>A \<^verbatim>\<open>for\<close> loop whose body may raise, threading the state.\<close>

fun efold :: "('x \<Rightarrow> 's \<Rightarrow> 'e + 's) \<Rightarrow> 'x list \<Rightarrow> 's \<Rightarrow> 'e + 's" where
  "efold f [] s = Inr s"
| "efold f (x # xs) s = ebind (f x s) (efold f xs)"

text \<open>A comprehension whose element expression may raise.\<close>

fun emap :: "('x \<Rightarrow> 'e + 'y) \<Rightarrow> 'x list \<Rightarrow> 'e + 'y list" where
  "emap f [] = Inr []"
| "emap f (x # xs) = ebind (f x) (\<lambda>y. ebind (emap f xs) (\<lambda>ys. Inr (y # ys)))"

text \<open>Loop invariants: what every iteration keeps, the loop keeps.\<close>

lemma efold_invariant:
  assumes "efold f xs s = Inr s'" and "P s"
    and "\<And>x t t'. x \<in> set xs \<Longrightarrow> P t \<Longrightarrow> f x t = Inr t' \<Longrightarrow> P t'"
  shows "P s'"
  using assms
proof (induction xs arbitrary: s)
  case Nil
  then show ?case by simp
next
  case (Cons x xs)
  from Cons.prems(1) obtain t where t: "f x s = Inr t" and rest: "efold f xs t = Inr s'"
    by (auto simp: exn_simps)
  have "P t" using Cons.prems(2,3) t by auto
  with rest show ?case using Cons.IH Cons.prems(3) by auto
qed

lemma efold_append:
  "efold f (xs @ ys) s = ebind (efold f xs s) (efold f ys)"
  by (induction xs arbitrary: s) (auto simp: ebind_def split: sum.splits)

lemma emap_length: "emap f xs = Inr ys \<Longrightarrow> length ys = length xs"
  by (induction xs arbitrary: ys) (auto simp: exn_simps)

lemma emap_set: "emap f xs = Inr ys \<Longrightarrow> y \<in> set ys \<Longrightarrow> \<exists>x\<in>set xs. f x = Inr y"
  by (induction xs arbitrary: ys) (auto simp: exn_simps)

lemma emap_nth: "emap f xs = Inr ys \<Longrightarrow> i < length xs \<Longrightarrow> f (xs ! i) = Inr (ys ! i)"
  by (induction xs arbitrary: ys i) (auto simp: exn_simps nth_Cons split: nat.splits)

lemma emap_Inr_map:
  assumes "\<And>x y. f x = Inr y \<longleftrightarrow> P x \<and> y = g x"
  shows "emap f xs = Inr ys \<longleftrightarrow> (\<forall>x\<in>set xs. P x) \<and> ys = map g xs"
  using assms by (induction xs arbitrary: ys) (auto simp: exn_simps)

section \<open>Lists\<close>

text \<open>\<^verbatim>\<open>next((x for x in reversed(xs) if p(x)), None)\<close>.\<close>

definition find_last :: "('a \<Rightarrow> bool) \<Rightarrow> 'a list \<Rightarrow> 'a option" where
  "find_last p xs = find p (rev xs)"

text \<open>Mutation, through a reference obtained by \<^verbatim>\<open>next(x for x in xs if p(x))\<close>, of the
  first element that satisfies \<open>p\<close>.\<close>

fun update_first :: "('a \<Rightarrow> bool) \<Rightarrow> ('a \<Rightarrow> 'a) \<Rightarrow> 'a list \<Rightarrow> 'a list" where
  "update_first p f [] = []"
| "update_first p f (x # xs) = (if p x then f x # xs else x # update_first p f xs)"

text \<open>\<^verbatim>\<open>list(dict.fromkeys(xs))\<close>: duplicates removed, first occurrences kept.\<close>

fun fromkeys :: "'a list \<Rightarrow> 'a list" where
  "fromkeys [] = []"
| "fromkeys (x # xs) = x # filter (\<lambda>y. y \<noteq> x) (fromkeys xs)"

lemma find_SomeD: "find p xs = Some x \<Longrightarrow> x \<in> set xs \<and> p x"
  by (induction xs) (auto split: if_splits)

lemma find_None_iff_ball: "find p xs = None \<longleftrightarrow> (\<forall>x\<in>set xs. \<not> p x)"
  by (induction xs) auto

lemma find_append:
  "find p (xs @ ys) = (case find p xs of None \<Rightarrow> find p ys | Some x \<Rightarrow> Some x)"
  by (induction xs) auto

lemma find_last_SomeD: "find_last p xs = Some x \<Longrightarrow> x \<in> set xs \<and> p x"
  unfolding find_last_def by (auto dest: find_SomeD)

lemma find_last_append1:
  "find_last p (xs @ [x]) = (if p x then Some x else find_last p xs)"
  by (simp add: find_last_def)

lemma length_update_first [simp]: "length (update_first p f xs) = length xs"
  by (induction xs) auto

lemma update_first_none: "\<forall>x\<in>set xs. \<not> p x \<Longrightarrow> update_first p f xs = xs"
  by (induction xs) auto

lemma map_update_first:
  "(\<And>x. p x \<Longrightarrow> g (f x) = g x) \<Longrightarrow> map g (update_first p f xs) = map g xs"
  by (induction xs) auto

lemma set_update_first_subset:
  "set (update_first p f xs) \<subseteq> set xs \<union> f ` {x \<in> set xs. p x}"
  by (induction xs) auto

lemma update_first_split:
  assumes "find p xs = Some x"
  obtains ys zs where "xs = ys @ x # zs" and "\<forall>y\<in>set ys. \<not> p y" and "p x"
    and "update_first p f xs = ys @ f x # zs"
proof -
  have "\<exists>ys zs. xs = ys @ x # zs \<and> (\<forall>y\<in>set ys. \<not> p y) \<and> p x
      \<and> update_first p f xs = ys @ f x # zs"
    using assms
  proof (induction xs)
    case Nil
    then show ?case by simp
  next
    case (Cons a xs)
    show ?case
    proof (cases "p a")
      case True
      with Cons.prems have "x = a" by simp
      with True show ?thesis by (intro exI [of _ "[]"] exI [of _ xs]) simp
    next
      case False
      with Cons obtain ys zs where "xs = ys @ x # zs" "\<forall>y\<in>set ys. \<not> p y" "p x"
        "update_first p f xs = ys @ f x # zs" by auto
      with False show ?thesis by (intro exI [of _ "a # ys"] exI [of _ zs]) simp
    qed
  qed
  then show ?thesis using that by blast
qed

lemma set_fromkeys [simp]: "set (fromkeys xs) = set xs"
  by (induction xs) auto

lemma distinct_fromkeys [simp]: "distinct (fromkeys xs)"
  by (induction xs) auto

lemma fromkeys_Nil_iff [simp]: "fromkeys xs = [] \<longleftrightarrow> xs = []"
  by (cases xs) auto

lemma fromkeys_distinct: "distinct xs \<Longrightarrow> fromkeys xs = xs"
  by (induction xs) (auto simp: filter_id_conv)

section \<open>Dictionaries\<close>

text \<open>
  A Python dictionary keeps the insertion order of its keys; assignment to a present key
  keeps its place. That is \<open>AList.update\<close> on an association list with distinct keys.
\<close>

type_synonym ('k, 'v) dict = "('k \<times> 'v) list"

abbreviation dict_get :: "('k, 'v) dict \<Rightarrow> 'k \<Rightarrow> 'v option" where
  "dict_get d k \<equiv> map_of d k"

abbreviation dict_set :: "'k \<Rightarrow> 'v \<Rightarrow> ('k, 'v) dict \<Rightarrow> ('k, 'v) dict" where
  "dict_set k v d \<equiv> AList.update k v d"

definition dict_del :: "'k \<Rightarrow> ('k, 'v) dict \<Rightarrow> ('k, 'v) dict" where
  "dict_del k d = filter (\<lambda>(k', v). k' \<noteq> k) d"

text \<open>\<^verbatim>\<open>d.setdefault(k, v)\<close>.\<close>

definition dict_setdefault :: "'k \<Rightarrow> 'v \<Rightarrow> ('k, 'v) dict \<Rightarrow> ('k, 'v) dict" where
  "dict_setdefault k v d = (case dict_get d k of None \<Rightarrow> dict_set k v d | Some _ \<Rightarrow> d)"

text \<open>Mutation of every value in place, \<^verbatim>\<open>for k, v in d.items(): ...\<close>.\<close>

definition dict_map :: "('k \<Rightarrow> 'v \<Rightarrow> 'w) \<Rightarrow> ('k, 'v) dict \<Rightarrow> ('k, 'w) dict" where
  "dict_map f d = map (\<lambda>(k, v). (k, f k v)) d"

declare map_of_eq_Some_iff [simp del] Some_eq_map_of_iff [simp del]

lemma dict_get_set [simp]:
  "dict_get (dict_set k v d) k' = (if k' = k then Some v else dict_get d k')"
  by (simp add: update_conv')

lemma dict_get_del [simp]:
  "dict_get (dict_del k d) k' = (if k' = k then None else dict_get d k')"
  by (induction d) (auto simp: dict_del_def)

lemma dict_get_setdefault:
  "dict_get (dict_setdefault k v d) k'
     = (if k' = k \<and> dict_get d k = None then Some v else dict_get d k')"
  by (auto simp: dict_setdefault_def split: option.splits)

lemma keys_dict_set: "set (map fst (dict_set k v d)) = insert k (set (map fst d))"
  by (induction d) auto

lemma distinct_dict_set: "distinct (map fst d) \<Longrightarrow> distinct (map fst (dict_set k v d))"
  by (rule distinct_update)

lemma map_fst_dict_set_present:
  "dict_get d k \<noteq> None \<Longrightarrow> map fst (dict_set k v d) = map fst d"
  by (induction d) auto

lemma map_fst_dict_set_absent:
  "dict_get d k = None \<Longrightarrow> dict_set k v d = d @ [(k, v)]"
  by (induction d) (auto split: if_splits)

lemma distinct_dict_del: "distinct (map fst d) \<Longrightarrow> distinct (map fst (dict_del k d))"
  by (induction d) (auto simp: dict_del_def)

lemma keys_dict_map [simp]: "map fst (dict_map f d) = map fst d"
  by (simp add: dict_map_def case_prod_unfold comp_def)

lemma dict_map_dict_map [simp]: "dict_map f (dict_map g d) = dict_map (\<lambda>k v. f k (g k v)) d"
  by (simp add: dict_map_def case_prod_unfold comp_def)

lemma dict_get_dict_map: "dict_get (dict_map f d) k = map_option (f k) (dict_get d k)"
  by (induction d) (auto simp: dict_map_def)

lemma dict_map_cong:
  "(\<And>k v. (k, v) \<in> set d \<Longrightarrow> f k v = g k v) \<Longrightarrow> dict_map f d = dict_map g d"
  by (auto simp: dict_map_def)

lemma dict_map_id: "(\<And>k v. (k, v) \<in> set d \<Longrightarrow> f k v = v) \<Longrightarrow> dict_map f d = d"
  unfolding dict_map_def by (rule map_idI) auto

lemma set_dict_map: "set (dict_map f d) = (\<lambda>(k, v). (k, f k v)) ` set d"
  by (simp add: dict_map_def)

lemma dict_set_as_map:
  assumes "distinct (map fst d)" and "dict_get d k = Some v"
  shows "dict_set k w d = dict_map (\<lambda>k' v'. if k' = k then w else v') d"
  using assms
proof (induction d)
  case Nil
  then show ?case by simp
next
  case (Cons p d)
  obtain k' v' where p: "p = (k', v')" by (cases p)
  show ?case
  proof (cases "k' = k")
    case True
    then have "dict_map (\<lambda>k' v'. if k' = k then w else v') d = d"
      using Cons.prems(1) p by (intro dict_map_id) force
    then show ?thesis using True p by (simp add: dict_map_def)
  next
    case False
    then show ?thesis using Cons p by (simp add: dict_map_def)
  qed
qed

lemma dict_get_mem: "distinct (map fst d) \<Longrightarrow> (k, v) \<in> set d \<Longrightarrow> dict_get d k = Some v"
  by (simp add: map_of_eq_Some_iff)

lemma dict_get_key: "k \<in> set (map fst d) \<Longrightarrow> \<exists>v. dict_get d k = Some v"
  by (cases "dict_get d k") (auto simp: map_of_eq_None_iff)

lemma mem_dict_set: "p \<in> set (dict_set k v d) \<Longrightarrow> p = (k, v) \<or> p \<in> set d"
  by (induction d) (auto split: if_splits)

end
