(* ===== verification/Py_Text.thy ===== *)
theory Py_Text
  imports Prelude
begin

text \<open>
  Python's text operations (\<^verbatim>\<open>str.strip\<close>, \<^verbatim>\<open>in\<close>, \<^verbatim>\<open>startswith\<close>, \<^verbatim>\<open>repr\<close>, decimal
  printing, the regular expression \<^verbatim>\<open>\w+\<close>) on code points below 256, JSON values with
  Python's truth value, and the canonical JSON encoder.
\<close>

section \<open>Strings\<close>

definition startswith :: "string \<Rightarrow> string \<Rightarrow> bool" where
  "startswith s p = prefix p s"

text \<open>\<^verbatim>\<open>q in s\<close> for strings.\<close>

definition str_in :: "string \<Rightarrow> string \<Rightarrow> bool" where
  "str_in q s = sublist q s"

lemma startswith_append [simp]: "startswith (p @ s) p"
  by (simp add: startswith_def)

lemma str_in_refl [simp]: "str_in s s"
  by (simp add: str_in_def)

lemma str_in_Nil [simp]: "str_in [] s"
  by (simp add: str_in_def)

text \<open>The white space of \<^verbatim>\<open>str.isspace\<close> below 256.\<close>

definition is_space :: "char \<Rightarrow> bool" where
  "is_space c = (let n = (of_char c :: nat) in
     (9 \<le> n \<and> n \<le> 13) \<or> (28 \<le> n \<and> n \<le> 32) \<or> n = 133 \<or> n = 160)"

definition strip :: "string \<Rightarrow> string" where
  "strip s = rev (dropWhile is_space (rev (dropWhile is_space s)))"

text \<open>The characters that \<^verbatim>\<open>\w\<close> matches below 256.\<close>

definition is_word_char :: "char \<Rightarrow> bool" where
  "is_word_char c = (let n = (of_char c :: nat) in
     (48 \<le> n \<and> n \<le> 57) \<or> (65 \<le> n \<and> n \<le> 90) \<or> n = 95 \<or> (97 \<le> n \<and> n \<le> 122)
     \<or> n \<in> {170, 178, 179, 181, 185, 186, 188, 189, 190}
     \<or> (192 \<le> n \<and> n \<le> 255 \<and> n \<noteq> 215 \<and> n \<noteq> 247))"

text \<open>\<^verbatim>\<open>re.compile(r"\w+").findall(s)\<close>: the maximal runs of word characters.\<close>

fun findall_words_aux :: "string \<Rightarrow> string \<Rightarrow> string list" where
  "findall_words_aux acc [] = (if acc = [] then [] else [rev acc])"
| "findall_words_aux acc (c # cs) =
     (if is_word_char c then findall_words_aux (c # acc) cs
      else if acc = [] then findall_words_aux [] cs
      else rev acc # findall_words_aux [] cs)"

definition findall_words :: "string \<Rightarrow> string list" where
  "findall_words s = findall_words_aux [] s"

lemma strip_Nil [simp]: "strip [] = []"
  by (simp add: strip_def)

lemma strip_eq_Nil: "strip s = [] \<longleftrightarrow> (\<forall>c\<in>set s. is_space c)"
proof -
  have "dropWhile is_space (rev (dropWhile is_space s)) = []
      \<longleftrightarrow> (\<forall>c\<in>set (dropWhile is_space s). is_space c)"
    by (simp add: dropWhile_eq_Nil_conv)
  also have "\<dots> \<longleftrightarrow> (\<forall>c\<in>set s. is_space c)"
    by (induction s) auto
  finally show ?thesis by (simp add: strip_def)
qed

lemma findall_words_aux_word:
  "\<forall>c\<in>set acc. is_word_char c \<Longrightarrow> w \<in> set (findall_words_aux acc s)
     \<Longrightarrow> w \<noteq> [] \<and> (\<forall>c\<in>set w. is_word_char c)"
proof (induction acc s rule: findall_words_aux.induct)
  case (1 acc)
  then show ?case by (cases "acc = []") simp_all
next
  case (2 acc c cs)
  show ?case
  proof (cases "is_word_char c")
    case True
    with "2.prems"(2) have "w \<in> set (findall_words_aux (c # acc) cs)" by simp
    moreover have "\<forall>x\<in>set (c # acc). is_word_char x" using True "2.prems"(1) by simp
    ultimately show ?thesis using "2.IH"(1) True by blast
  next
    case False
    consider "w \<in> set (findall_words_aux [] cs)" | "w = rev acc" and "acc \<noteq> []"
      using "2.prems"(2) False by (cases "acc = []") auto
    then show ?thesis
    proof cases
      case 1
      have "\<forall>x\<in>set []. is_word_char x" by simp
      with 1 "2.IH"(2,3) False show ?thesis by blast
    next
      case 2
      then show ?thesis using "2.prems"(1) by simp
    qed
  qed
qed

lemma findall_words_word:
  "w \<in> set (findall_words s) \<Longrightarrow> w \<noteq> [] \<and> (\<forall>c\<in>set w. is_word_char c)"
  using findall_words_aux_word [of "[]"] by (simp add: findall_words_def)

text \<open>Decimal printing of integers, \<^verbatim>\<open>str(n)\<close>.\<close>

definition digit_char :: "nat \<Rightarrow> char" where
  "digit_char d = char_of (48 + d)"

fun show_nat :: "nat \<Rightarrow> string" where
  "show_nat n = (if n < 10 then [digit_char n] else show_nat (n div 10) @ [digit_char (n mod 10)])"

declare show_nat.simps [simp del]

definition show_int :: "int \<Rightarrow> string" where
  "show_int i = (if i < 0 then CHR ''-'' # show_nat (nat (- i)) else show_nat (nat i))"

definition is_digit :: "char \<Rightarrow> bool" where
  "is_digit c = (let n = (of_char c :: nat) in 48 \<le> n \<and> n \<le> 57)"

lemma of_char_digit [simp]: "d < 10 \<Longrightarrow> (of_char (digit_char d) :: nat) = 48 + d"
  by (simp add: digit_char_def)

lemma is_digit_digit_char [simp]: "d < 10 \<Longrightarrow> is_digit (digit_char d)"
  by (simp add: is_digit_def)

lemma digit_char_inj: "d < 10 \<Longrightarrow> e < 10 \<Longrightarrow> digit_char d = digit_char e \<Longrightarrow> d = e"
  by (metis of_char_digit add_left_imp_eq)

lemma show_nat_nonempty [simp]: "show_nat n \<noteq> []"
  by (subst show_nat.simps) simp

lemma show_nat_digits: "c \<in> set (show_nat n) \<Longrightarrow> is_digit c"
proof (induction n rule: show_nat.induct)
  case (1 n)
  then show ?case by (subst (asm) show_nat.simps) (auto split: if_splits)
qed

text \<open>Reading a decimal back: the left inverse that makes printing injective.\<close>

fun read_nat :: "nat \<Rightarrow> string \<Rightarrow> nat" where
  "read_nat acc [] = acc"
| "read_nat acc (c # cs) = read_nat (10 * acc + (of_char c - 48)) cs"

lemma read_nat_append: "read_nat acc (xs @ ys) = read_nat (read_nat acc xs) ys"
  by (induction xs arbitrary: acc) auto

lemma read_show_nat: "read_nat 0 (show_nat n) = n"
proof (induction n rule: show_nat.induct)
  case (1 n)
  then show ?case by (subst show_nat.simps) (auto simp: read_nat_append)
qed

lemma show_nat_inj: "show_nat m = show_nat n \<Longrightarrow> m = n"
  by (metis read_show_nat)

lemma show_int_inj: "show_int i = show_int j \<Longrightarrow> i = j"
proof -
  have minus: "show_nat n \<noteq> CHR ''-'' # xs" for n xs
  proof
    assume "show_nat n = CHR ''-'' # xs"
    then have "is_digit (CHR ''-'')" using show_nat_digits [of "CHR ''-''" n] by simp
    then show False by (simp add: is_digit_def)
  qed
  assume eq: "show_int i = show_int j"
  show ?thesis
  proof (cases "i < 0"; cases "j < 0")
    assume "i < 0" "j < 0"
    with eq show ?thesis by (auto simp: show_int_def dest!: show_nat_inj)
  next
    assume "\<not> i < 0" "\<not> j < 0"
    with eq show ?thesis by (auto simp: show_int_def dest!: show_nat_inj)
  qed (use eq minus minus [symmetric] in \<open>auto simp: show_int_def\<close>)
qed

text \<open>\<^verbatim>\<open>repr\<close> of a string and of a list of strings, as f-strings print them.\<close>

definition hex_digit :: "nat \<Rightarrow> char" where
  "hex_digit d = (if d < 10 then digit_char d else char_of (87 + d))"

definition repr_char :: "char \<Rightarrow> char \<Rightarrow> string" where
  "repr_char q c = (let n = (of_char c :: nat) in
     if c = q \<or> n = 92 then [CHR 0x5C, c]
     else if n = 9 then [CHR 0x5C, CHR ''t'']
     else if n = 10 then [CHR 0x5C, CHR ''n'']
     else if n = 13 then [CHR 0x5C, CHR ''r'']
     else if n < 32 \<or> (127 \<le> n \<and> n \<le> 160) \<or> n = 173
     then [CHR 0x5C, CHR ''x'', hex_digit (n div 16), hex_digit (n mod 16)]
     else [c])"

definition repr_str :: "string \<Rightarrow> string" where
  "repr_str s = (let q = (if CHR 0x27 \<in> set s \<and> CHR 0x22 \<notin> set s then CHR 0x22 else CHR 0x27)
     in q # concat (map (repr_char q) s) @ [q])"

text \<open>\<^verbatim>\<open>str(exc)\<close>.\<close>

fun exn_str :: "exn \<Rightarrow> string" where
  "exn_str (HTTPException c m) = show_int c @ '': '' @ m"
| "exn_str (ValueError m) = m"
| "exn_str (ValidationError m) = m"
| "exn_str (AuditChainError m) = m"
| "exn_str (TypeError m) = m"
| "exn_str (KeyError m) = repr_str m"
| "exn_str (EvidenceJudgeError m) = m"
| "exn_str (RubricDraftError m) = m"
| "exn_str (StoreConflictError m) = m"
| "exn_str (OtherError _ m) = m"

fun join :: "string \<Rightarrow> string list \<Rightarrow> string" where
  "join sep [] = []"
| "join sep [x] = x"
| "join sep (x # y # ys) = x @ sep @ join sep (y # ys)"

definition repr_str_list :: "string list \<Rightarrow> string" where
  "repr_str_list xs = ''['' @ join '', '' (map repr_str xs) @ '']''"

text \<open>\<^verbatim>\<open>sorted(set(xs))\<close> for strings.\<close>

definition sorted_set :: "string list \<Rightarrow> string list" where
  "sorted_set xs = sort (remdups xs)"

lemma set_sorted_set [simp]: "set (sorted_set xs) = set xs"
  by (simp add: sorted_set_def)

lemma sorted_set_Nil_iff [simp]: "sorted_set xs = [] \<longleftrightarrow> xs = []"
  by (metis set_empty set_sorted_set)

section \<open>JSON values\<close>

text \<open>The values that \<^verbatim>\<open>dict[str, Any]\<close> payloads and metadata hold.\<close>

datatype json =
    JNull
  | JBool bool
  | JInt int
  | JFloat rat
  | JStr string
  | JList "json list"
  | JObj "(string \<times> json) list"

type_synonym jdict = "(string, json) dict"

text \<open>Python's \<^verbatim>\<open>bool(v)\<close>.\<close>

fun truthy :: "json \<Rightarrow> bool" where
  "truthy JNull = False"
| "truthy (JBool b) = b"
| "truthy (JInt i) = (i \<noteq> 0)"
| "truthy (JFloat q) = (q \<noteq> 0)"
| "truthy (JStr s) = (s \<noteq> [])"
| "truthy (JList xs) = (xs \<noteq> [])"
| "truthy (JObj d) = (d \<noteq> [])"

text \<open>\<^verbatim>\<open>d.get(k)\<close> with the default \<^verbatim>\<open>None\<close>, and the truth of the result.\<close>

definition jget :: "jdict \<Rightarrow> string \<Rightarrow> json" where
  "jget d k = (case dict_get d k of None \<Rightarrow> JNull | Some v \<Rightarrow> v)"

definition jopt_str :: "string option \<Rightarrow> json" where
  "jopt_str s = (case s of None \<Rightarrow> JNull | Some x \<Rightarrow> JStr x)"

definition jopt_int :: "int option \<Rightarrow> json" where
  "jopt_int i = (case i of None \<Rightarrow> JNull | Some x \<Rightarrow> JInt x)"

definition jopt_float :: "rat option \<Rightarrow> json" where
  "jopt_float i = (case i of None \<Rightarrow> JNull | Some x \<Rightarrow> JFloat x)"

definition jopt_bool :: "bool option \<Rightarrow> json" where
  "jopt_bool i = (case i of None \<Rightarrow> JNull | Some x \<Rightarrow> JBool x)"

definition jstrs :: "string list \<Rightarrow> json" where
  "jstrs xs = JList (map JStr xs)"

section \<open>Canonical JSON text\<close>

text \<open>
  \<^verbatim>\<open>json.dumps(v, ensure_ascii=False, sort_keys=True, separators=(",", ":"))\<close>. The printing of a
  float is the runtime's \<^verbatim>\<open>float.__repr__\<close>, a parameter.
\<close>

definition json_escape :: "char \<Rightarrow> string" where
  "json_escape c = (let n = (of_char c :: nat) in
     if n = 34 \<or> n = 92 then [CHR 0x5C, c]
     else if n = 10 then [CHR 0x5C, CHR ''n'']
     else if n = 13 then [CHR 0x5C, CHR ''r'']
     else if n = 9 then [CHR 0x5C, CHR ''t'']
     else if n = 8 then [CHR 0x5C, CHR ''b'']
     else if n = 12 then [CHR 0x5C, CHR ''f'']
     else if n < 32 then [CHR 0x5C, CHR ''u'', CHR ''0'', CHR ''0'', hex_digit (n div 16), hex_digit (n mod 16)]
     else [c])"

definition json_quote :: "string \<Rightarrow> string" where
  "json_quote s = CHR 0x22 # concat (map json_escape s) @ [CHR 0x22]"

fun json_dumps :: "(rat \<Rightarrow> string) \<Rightarrow> json \<Rightarrow> string" where
  "json_dumps fr JNull = ''null''"
| "json_dumps fr (JBool b) = (if b then ''true'' else ''false'')"
| "json_dumps fr (JInt i) = show_int i"
| "json_dumps fr (JFloat q) = fr q"
| "json_dumps fr (JStr s) = json_quote s"
| "json_dumps fr (JList xs) = ''['' @ join '','' (map (json_dumps fr) xs) @ '']''"
| "json_dumps fr (JObj kvs) =
     CHR 0x7B # join '','' (map (\<lambda>(k, t). json_quote k @ '':'' @ t)
       (sort_key fst (map (\<lambda>kv. (fst kv, json_dumps fr (snd kv))) kvs))) @ [CHR 0x7D]"

section \<open>Text of values\<close>

text \<open>\<^verbatim>\<open>repr(v)\<close> and \<^verbatim>\<open>str(v)\<close> of a JSON value; the printing of a float is a parameter.\<close>

fun py_repr :: "(rat \<Rightarrow> string) \<Rightarrow> json \<Rightarrow> string" where
  "py_repr fr JNull = ''None''"
| "py_repr fr (JBool b) = (if b then ''True'' else ''False'')"
| "py_repr fr (JInt i) = show_int i"
| "py_repr fr (JFloat q) = fr q"
| "py_repr fr (JStr s) = repr_str s"
| "py_repr fr (JList xs) = ''['' @ join '', '' (map (py_repr fr) xs) @ '']''"
| "py_repr fr (JObj kvs) = CHR 0x7B # join '', ''
     (map (\<lambda>kv. repr_str (fst kv) @ '': '' @ py_repr fr (snd kv)) kvs) @ [CHR 0x7D]"

definition py_str :: "(rat \<Rightarrow> string) \<Rightarrow> json \<Rightarrow> string" where
  "py_str fr v = (case v of JStr s \<Rightarrow> s | _ \<Rightarrow> py_repr fr v)"

lemma py_str_JStr [simp]: "py_str fr (JStr s) = s"
  by (simp add: py_str_def)

text \<open>A string as \<^verbatim>\<open>json.dumps\<close> prints it by default: everything but printable ASCII escaped.\<close>

definition json_ascii_escape :: "char \<Rightarrow> string" where
  "json_ascii_escape c = (let n = (of_char c :: nat) in
     if 127 \<le> n then [CHR 0x5C, CHR ''u'', CHR ''0'', CHR ''0'', hex_digit (n div 16), hex_digit (n mod 16)]
     else json_escape c)"

definition json_dumps_strs :: "string list \<Rightarrow> string" where
  "json_dumps_strs xs = ''['' @ join '', ''
     (map (\<lambda>s. CHR 0x22 # concat (map json_ascii_escape s) @ [CHR 0x22]) xs) @ '']''"

text \<open>\<^verbatim>\<open>str.splitlines()\<close>.\<close>

definition is_line_end :: "char \<Rightarrow> bool" where
  "is_line_end c = ((of_char c :: nat) \<in> {10, 11, 12, 13, 28, 29, 30, 133})"

fun splitlines_aux :: "string \<Rightarrow> string \<Rightarrow> string list" where
  "splitlines_aux acc [] = (if acc = [] then [] else [rev acc])"
| "splitlines_aux acc [c] = (if is_line_end c then [rev acc] else [rev (c # acc)])"
| "splitlines_aux acc (c # d # cs) =
     (if c = CHR 0x0D \<and> d = CHR 0x0A then rev acc # splitlines_aux [] cs
      else if is_line_end c then rev acc # splitlines_aux [] (d # cs)
      else splitlines_aux (c # acc) (d # cs))"

definition splitlines :: "string \<Rightarrow> string list" where
  "splitlines s = splitlines_aux [] s"

text \<open>\<^verbatim>\<open>d.get(k, v)\<close>.\<close>

definition dict_get_or :: "('k, 'v) dict \<Rightarrow> 'k \<Rightarrow> 'v \<Rightarrow> 'v" where
  "dict_get_or d k v = (case dict_get d k of None \<Rightarrow> v | Some w \<Rightarrow> w)"

end
