(* ===== verification/Models.thy ===== *)
theory Models
  imports Py_Text
begin

text \<open>
  The data model of \<^verbatim>\<open>models.py\<close>: every enumeration is a datatype with the source's members
  (prefixed where two enumerations share a member), every pydantic model a record with the
  source's fields (prefixed where two models share a field), and the constraints that
  pydantic enforces on a model are a boolean \<open>..._ok\<close> on its record. Identifiers are
  strings; confidences and weights are the rationals their binary64 values denote.
\<close>

section \<open>Enumerations\<close>

datatype session_status = CREATED | RUNNING | COMPLETED | CANCELLED

fun status_value :: "session_status \<Rightarrow> string" where
  "status_value CREATED = ''created''"
| "status_value RUNNING = ''running''"
| "status_value COMPLETED = ''completed''"
| "status_value CANCELLED = ''cancelled''"

datatype speaker = INTERVIEWER | CANDIDATE | SYSTEM

fun speaker_value :: "speaker \<Rightarrow> string" where
  "speaker_value INTERVIEWER = ''interviewer''"
| "speaker_value CANDIDATE = ''candidate''"
| "speaker_value SYSTEM = ''system''"

datatype question_lane = ANCHOR | ADAPTIVE | CLOSING

fun lane_value :: "question_lane \<Rightarrow> string" where
  "lane_value ANCHOR = ''anchor''"
| "lane_value ADAPTIVE = ''adaptive''"
| "lane_value CLOSING = ''closing''"

datatype evidence_state = UNKNOWN | CLAIMED | DEMONSTRATED | VERIFIED | CONTRADICTED | INSUFFICIENT

fun evidence_state_value :: "evidence_state \<Rightarrow> string" where
  "evidence_state_value UNKNOWN = ''unknown''"
| "evidence_state_value CLAIMED = ''claimed''"
| "evidence_state_value DEMONSTRATED = ''demonstrated''"
| "evidence_state_value VERIFIED = ''verified''"
| "evidence_state_value CONTRADICTED = ''contradicted''"
| "evidence_state_value INSUFFICIENT = ''insufficient_evidence''"

datatype appeal_status = AppealPENDING | AppealREVIEWED

datatype integrity_review_status = IntegrityPENDING | IntegrityREVIEWED

datatype review_assignment_status =
  AssignmentOPEN | AssignmentIN_REVIEW | AssignmentCOMPLETED | AssignmentCANCELLED

datatype integrity_level = LevelNONE | IDENTITY | PASSIVE_SIGNALS | SECURE | PROCTORED

fun integrity_level_value :: "integrity_level \<Rightarrow> string" where
  "integrity_level_value LevelNONE = ''none''"
| "integrity_level_value IDENTITY = ''identity''"
| "integrity_level_value PASSIVE_SIGNALS = ''passive_signals''"
| "integrity_level_value SECURE = ''secure''"
| "integrity_level_value PROCTORED = ''proctored''"

datatype control_kind =
  REPEAT | CLARIFY | THINKING_TIME | RESUME | CORRECT_LAST_ANSWER | CANDIDATE_QUESTION

fun control_value :: "control_kind \<Rightarrow> string" where
  "control_value REPEAT = ''repeat''"
| "control_value CLARIFY = ''clarify''"
| "control_value THINKING_TIME = ''thinking_time''"
| "control_value RESUME = ''resume''"
| "control_value CORRECT_LAST_ANSWER = ''correct_last_answer''"
| "control_value CANDIDATE_QUESTION = ''candidate_question''"

datatype tool_kind = CODING | CASE_STUDY | WHITEBOARD | DOCUMENT | DATASET

fun tool_kind_value :: "tool_kind \<Rightarrow> string" where
  "tool_kind_value CODING = ''coding''"
| "tool_kind_value CASE_STUDY = ''case_study''"
| "tool_kind_value WHITEBOARD = ''whiteboard''"
| "tool_kind_value DOCUMENT = ''document''"
| "tool_kind_value DATASET = ''dataset''"

datatype tool_status = ToolOPEN | ToolSUBMITTED | ToolEVALUATED | ToolCANCELLED

fun tool_status_value :: "tool_status \<Rightarrow> string" where
  "tool_status_value ToolOPEN = ''open''"
| "tool_status_value ToolSUBMITTED = ''submitted''"
| "tool_status_value ToolEVALUATED = ''evaluated''"
| "tool_status_value ToolCANCELLED = ''cancelled''"

datatype event_type =
    SESSION_CREATED | INTERVIEW_STARTED | INTERVIEWER_TURN | CANDIDATE_TURN
  | CANDIDATE_CONTROL | TRANSCRIPT_CORRECTED | APPEAL_SUBMITTED | APPEAL_REVIEWED
  | EVIDENCE_OBSERVED | EVIDENCE_JUDGE_FAILED | EVIDENCE_JUDGE_DISAGREEMENT
  | EVIDENCE_JUDGE_RUN_RECORDED | EVIDENCE_SUPERSEDED | INTEGRITY_SIGNAL
  | INTEGRITY_REVIEWED | REVIEW_ASSIGNED | REVIEW_STARTED | REVIEW_COMPLETED
  | REVIEW_ASSIGNMENT_CANCELLED | TOOL_OPENED | TOOL_SUBMITTED | TOOL_EVALUATED
  | TOOL_CANCELLED | VOICE_SPEECH_STARTED | VOICE_TRANSCRIPT_PARTIAL
  | VOICE_TRANSCRIPT_FINAL | VOICE_RESPONSE_READY | VOICE_TTS_STARTED
  | VOICE_TTS_COMPLETED | VOICE_TTS_CANCELLED | VOICE_BARGE_IN | VOICE_PROVIDER_FAILED
  | VOICE_TRANSPORT_SELECTED | VOICE_TRANSPORT_FALLBACK | VOICE_VAD_ENDPOINT
  | ARTIFACT_CREATED | ARTIFACT_ACCESSED | ARTIFACT_DELETED | WEBHOOK_DELIVERY
  | SESSION_COMPLETED | SESSION_CANCELLED

fun event_type_value :: "event_type \<Rightarrow> string" where
  "event_type_value SESSION_CREATED = ''session_created''"
| "event_type_value INTERVIEW_STARTED = ''interview_started''"
| "event_type_value INTERVIEWER_TURN = ''interviewer_turn''"
| "event_type_value CANDIDATE_TURN = ''candidate_turn''"
| "event_type_value CANDIDATE_CONTROL = ''candidate_control''"
| "event_type_value TRANSCRIPT_CORRECTED = ''transcript_corrected''"
| "event_type_value APPEAL_SUBMITTED = ''appeal_submitted''"
| "event_type_value APPEAL_REVIEWED = ''appeal_reviewed''"
| "event_type_value EVIDENCE_OBSERVED = ''evidence_observed''"
| "event_type_value EVIDENCE_JUDGE_FAILED = ''evidence_judge_failed''"
| "event_type_value EVIDENCE_JUDGE_DISAGREEMENT = ''evidence_judge_disagreement''"
| "event_type_value EVIDENCE_JUDGE_RUN_RECORDED = ''evidence_judge_run_recorded''"
| "event_type_value EVIDENCE_SUPERSEDED = ''evidence_superseded''"
| "event_type_value INTEGRITY_SIGNAL = ''integrity_signal''"
| "event_type_value INTEGRITY_REVIEWED = ''integrity_reviewed''"
| "event_type_value REVIEW_ASSIGNED = ''review_assigned''"
| "event_type_value REVIEW_STARTED = ''review_started''"
| "event_type_value REVIEW_COMPLETED = ''review_completed''"
| "event_type_value REVIEW_ASSIGNMENT_CANCELLED = ''review_assignment_cancelled''"
| "event_type_value TOOL_OPENED = ''tool_opened''"
| "event_type_value TOOL_SUBMITTED = ''tool_submitted''"
| "event_type_value TOOL_EVALUATED = ''tool_evaluated''"
| "event_type_value TOOL_CANCELLED = ''tool_cancelled''"
| "event_type_value VOICE_SPEECH_STARTED = ''voice_speech_started''"
| "event_type_value VOICE_TRANSCRIPT_PARTIAL = ''voice_transcript_partial''"
| "event_type_value VOICE_TRANSCRIPT_FINAL = ''voice_transcript_final''"
| "event_type_value VOICE_RESPONSE_READY = ''voice_response_ready''"
| "event_type_value VOICE_TTS_STARTED = ''voice_tts_started''"
| "event_type_value VOICE_TTS_COMPLETED = ''voice_tts_completed''"
| "event_type_value VOICE_TTS_CANCELLED = ''voice_tts_cancelled''"
| "event_type_value VOICE_BARGE_IN = ''voice_barge_in''"
| "event_type_value VOICE_PROVIDER_FAILED = ''voice_provider_failed''"
| "event_type_value VOICE_TRANSPORT_SELECTED = ''voice_transport_selected''"
| "event_type_value VOICE_TRANSPORT_FALLBACK = ''voice_transport_fallback''"
| "event_type_value VOICE_VAD_ENDPOINT = ''voice_vad_endpoint''"
| "event_type_value ARTIFACT_CREATED = ''artifact_created''"
| "event_type_value ARTIFACT_ACCESSED = ''artifact_accessed''"
| "event_type_value ARTIFACT_DELETED = ''artifact_deleted''"
| "event_type_value WEBHOOK_DELIVERY = ''webhook_delivery''"
| "event_type_value SESSION_COMPLETED = ''session_completed''"
| "event_type_value SESSION_CANCELLED = ''session_cancelled''"

section \<open>Jobs\<close>

record job_tool_template =
  jtt_template_id :: string
  jtt_purpose :: string
  jtt_competency_ids :: "string list"

record competency =
  competency_key :: string
  competency_description :: string
  competency_weight :: rat
  anchor_question :: "string option"

record rubric_provenance =
  prov_draft_id :: string
  prov_drafter_id :: string
  prov_approved_by :: string
  prov_approved_at :: datetime
  prov_review_note :: "string option"
  prov_edit_summary :: jdict

record job_spec =
  job_key :: string
  job_organization_id :: "string option"
  job_title :: string
  job_description :: string
  competencies :: "competency list"
  max_questions :: int
  anchor_ratio :: rat
  tool_templates :: "job_tool_template list"
  max_tools :: int
  job_rubric_provenance :: "rubric_provenance option"

text \<open>The constraints of the field declarations.\<close>

definition opt_all :: "('a \<Rightarrow> bool) \<Rightarrow> 'a option \<Rightarrow> bool" where
  "opt_all p x = (case x of None \<Rightarrow> True | Some y \<Rightarrow> p y)"

definition len_between :: "nat \<Rightarrow> nat \<Rightarrow> string \<Rightarrow> bool" where
  "len_between lo hi s = (lo \<le> length s \<and> length s \<le> hi)"

definition job_tool_template_ok :: "job_tool_template \<Rightarrow> bool" where
  "job_tool_template_ok t = (len_between 1 160 (jtt_template_id t) \<and> len_between 2 1000 (jtt_purpose t))"

definition competency_ok :: "competency \<Rightarrow> bool" where
  "competency_ok c = (competency_key c \<noteq> [] \<and> competency_description c \<noteq> []
     \<and> 0 < competency_weight c \<and> opt_all (\<lambda>q. 4 \<le> length q) (anchor_question c))"

definition rubric_provenance_ok :: "rubric_provenance \<Rightarrow> bool" where
  "rubric_provenance_ok p = (prov_draft_id p \<noteq> [] \<and> len_between 1 500 (prov_drafter_id p)
     \<and> len_between 1 256 (prov_approved_by p)
     \<and> opt_all (\<lambda>n. length n \<le> 5000) (prov_review_note p))"

definition job_spec_fields_ok :: "job_spec \<Rightarrow> bool" where
  "job_spec_fields_ok j = (opt_all (len_between 1 256) (job_organization_id j)
     \<and> 2 \<le> length (job_title j) \<and> 5 \<le> length (job_description j)
     \<and> competencies j \<noteq> [] \<and> list_all competency_ok (competencies j)
     \<and> 1 \<le> max_questions j \<and> max_questions j \<le> 30
     \<and> 0 \<le> anchor_ratio j \<and> anchor_ratio j \<le> 1
     \<and> list_all job_tool_template_ok (tool_templates j)
     \<and> 0 \<le> max_tools j \<and> max_tools j \<le> 10
     \<and> opt_all rubric_provenance_ok (job_rubric_provenance j))"

definition competency_ids_of :: "job_spec \<Rightarrow> string list" where
  "competency_ids_of j = map competency_key (competencies j)"

text \<open>\<^verbatim>\<open>validate_job_contract\<close>, the validator that runs after the fields.\<close>

definition validate_job_contract :: "job_spec \<Rightarrow> job_spec result" where
  "validate_job_contract j =
     (let ids = competency_ids_of j;
          template_ids = map jtt_template_id (tool_templates j)
      in raise_if (\<not> distinct ids) (ValueError ''competency ids must be unique'')
        (raise_if (\<not> distinct template_ids) (ValueError ''job tool template ids must be unique'')
          (ebind (efold (\<lambda>item _.
              let unknown = sorted_set (filter (\<lambda>c. c \<notin> set ids) (jtt_competency_ids item))
              in raise_if (unknown \<noteq> [])
                   (ValueError (''tool template '' @ repr_str (jtt_template_id item)
                      @ '' references unknown competencies: '' @ repr_str_list unknown))
                   (Inr ()))
             (tool_templates j) ())
            (\<lambda>_. Inr j))))"

text \<open>\<^verbatim>\<open>JobSpec(...)\<close>: the fields, then the validator; pydantic reports either as a
  \<open>ValidationError\<close>.\<close>

definition JobSpec :: "job_spec \<Rightarrow> job_spec result" where
  "JobSpec j = raise_if (\<not> job_spec_fields_ok j) (ValidationError ''JobSpec'')
     (case validate_job_contract j of Inl e \<Rightarrow> Inl (ValidationError (exn_str e)) | Inr j' \<Rightarrow> Inr j')"

definition job_spec_ok :: "job_spec \<Rightarrow> bool" where
  "job_spec_ok j \<longleftrightarrow> job_spec_fields_ok j \<and> distinct (competency_ids_of j)
     \<and> distinct (map jtt_template_id (tool_templates j))
     \<and> list_all (\<lambda>t. set (jtt_competency_ids t) \<subseteq> set (competency_ids_of j)) (tool_templates j)"

lemma efold_unit_check:
  "efold (\<lambda>x _. raise_if (b x) (e x) (Inr ())) xs () = Inr () \<longleftrightarrow> (\<forall>x\<in>set xs. \<not> b x)"
  by (induction xs) (auto simp: raise_if_def)

lemma validate_job_contract_Inr:
  "validate_job_contract j = Inr j' \<longleftrightarrow> j' = j \<and> distinct (competency_ids_of j)
     \<and> distinct (map jtt_template_id (tool_templates j))
     \<and> list_all (\<lambda>t. set (jtt_competency_ids t) \<subseteq> set (competency_ids_of j)) (tool_templates j)"
  by (auto simp: validate_job_contract_def Let_def exn_simps efold_unit_check list_all_iff
      filter_empty_conv)

lemma JobSpec_Inr: "JobSpec j = Inr j' \<longleftrightarrow> j' = j \<and> job_spec_ok j"
  using validate_job_contract_Inr [of j j] validate_job_contract_Inr [of j j']
  by (cases "validate_job_contract j") (auto simp: JobSpec_def job_spec_ok_def raise_if_def)

section \<open>Requests, turns and controls\<close>

record create_session_request =
  req_job_id :: string
  req_candidate_ref :: string
  req_locale :: string
  consent_to_ai_interview :: bool
  consent_to_transcript :: bool
  req_integrity_level :: integrity_level

record turn =
  turn_id :: string
  speaker :: speaker
  turn_text :: string
  parent_turn_id :: "string option"
  competency_tags :: "string list"
  response_latency_ms :: "int option"
  metadata :: jdict

record candidate_control_request =
  control_kind :: control_kind
  control_text :: "string option"

record candidate_control_result =
  result_kind :: control_kind
  acknowledged :: bool
  result_turn :: "turn option"
  target_turn_id :: "string option"
  pauses_interview :: bool

section \<open>Evidence\<close>

record evidence_item =
  ev_id :: string
  ev_turn_id :: string
  ev_state :: evidence_state
  ev_confidence :: rat
  ev_quote :: "string option"
  ev_note :: string
  ev_source :: string
  ev_judge_run_id :: "string option"
  ev_active :: bool

record evidence_judge_run =
  run_id :: string
  run_judge_id :: string
  run_question_turn_id :: string
  run_answer_turn_id :: string
  run_competency_ids :: "string list"
  run_created_at :: datetime
  run_transcript_revision_count :: int
  run_observation_ids :: "string list"
  run_audit :: jdict
  run_error_type :: "string option"
  run_error :: "string option"
  run_supersedes_run_id :: "string option"

record competency_evidence =
  node_competency_id :: string
  node_state :: evidence_state
  node_confidence :: "rat option"
  node_evidence :: "evidence_item list"

record evidence_observation =
  obs_competency_id :: string
  obs_turn_id :: string
  obs_state :: evidence_state
  obs_confidence :: rat
  obs_quote :: "string option"
  obs_note :: string
  obs_source :: string
  obs_judge_run_id :: "string option"

definition evidence_observation_ok :: "evidence_observation \<Rightarrow> bool" where
  "evidence_observation_ok ob = (0 \<le> obs_confidence ob \<and> obs_confidence ob \<le> 1
     \<and> opt_all (\<lambda>q. length q \<le> 4000) (obs_quote ob) \<and> obs_note ob \<noteq> []
     \<and> len_between 1 160 (obs_source ob)
     \<and> opt_all (\<lambda>r. length r \<le> 160) (obs_judge_run_id ob))"

section \<open>Transcript, appeals, integrity and review assignments\<close>

record transcript_revision =
  rev_id :: string
  rev_turn_id :: string
  rev_original_text :: string
  rev_corrected_text :: string
  rev_reason :: "string option"

record transcript_correction_request =
  corr_turn_id :: string
  corr_text :: string
  corr_reason :: "string option"

record candidate_appeal =
  appeal_id :: string
  appeal_message :: string
  appeal_turn_ids :: "string list"
  appeal_status :: appeal_status
  appeal_reviewed_by :: "string option"
  appeal_review_note :: "string option"

record appeal_request =
  appeal_req_message :: string
  appeal_req_turn_ids :: "string list"

record review_request =
  reviewer_id :: string
  review_note :: string

record integrity_signal =
  signal_id :: string
  signal_kind :: string
  signal_confidence :: rat
  signal_note :: string
  signal_evidence :: jdict
  requires_human_review :: bool
  signal_review_status :: integrity_review_status
  signal_reviewed_by :: "string option"
  signal_review_note :: "string option"

record integrity_signal_request =
  sig_req_kind :: string
  sig_req_confidence :: rat
  sig_req_note :: string
  sig_req_evidence :: jdict

record review_assignment =
  asg_id :: string
  asg_reviewer_id :: string
  asg_assigned_by :: string
  asg_status :: review_assignment_status
  asg_created_at :: datetime
  asg_started_at :: "datetime option"
  asg_completed_at :: "datetime option"
  asg_cancelled_at :: "datetime option"
  asg_note :: "string option"
  asg_completion_note :: "string option"
  asg_cancellation_reason :: "string option"

section \<open>Practical tools and artifacts\<close>

record tool_invocation =
  tool_id :: string
  tool_kind :: tool_kind
  tool_title :: string
  tool_instructions :: string
  tool_competency_tags :: "string list"
  tool_status :: tool_status
  tool_payload :: jdict
  opened_from_turn_id :: "string option"

record tool_submission =
  sub_id :: string
  sub_tool_id :: string
  sub_content :: jdict

record tool_evaluation =
  eval_tool_id :: string
  eval_submission_id :: string
  eval_passed :: "bool option"
  eval_score :: "rat option"
  eval_summary :: string
  eval_evidence :: jdict

record artifact_record =
  art_id :: string
  art_storage_key :: string
  art_kind :: string
  art_media_type :: string
  art_size_bytes :: int
  art_sha256 :: string
  art_created_at :: datetime
  art_created_by :: string
  art_deleted_at :: "datetime option"
  art_deleted_by :: "string option"
  art_deletion_reason :: "string option"

section \<open>Events and sessions\<close>

record interview_event =
  event_seq :: int
  event_type :: event_type
  event_turn_id :: "string option"
  event_payload :: jdict
  event_created_at :: datetime
  hash_version :: "int option"
  prev_hash :: "string option"
  event_hash :: "string option"

text \<open>
  The last field is not a field of the source but its heap: the identifiers of the candidate
  turns whose \<^verbatim>\<open>metadata\<close> dictionary is the very object that the payload of their
  \<^verbatim>\<open>candidate_turn\<close> event holds under the key \<^verbatim>\<open>metadata\<close>. \<^verbatim>\<open>answer\<close> creates this sharing;
  \<^verbatim>\<open>copy.deepcopy\<close> keeps it, a round trip through serialised text ends it.
\<close>

record interview_session =
  session_id :: string
  version :: int
  created_at :: datetime
  completed_at :: "datetime option"
  cancelled_at :: "datetime option"
  cancellation_reason :: "string option"
  session_job_id :: string
  candidate_ref :: string
  organization_id :: "string option"
  session_locale :: string
  integrity_level :: integrity_level
  status :: session_status
  paused :: bool
  turns :: "turn list"
  covered_competencies :: "string list"
  followups_by_competency :: "(string, int) dict"
  asked_anchor_competencies :: "string list"
  asked_questions :: int
  evidence_graph :: "(string, competency_evidence) dict"
  evidence_judge_runs :: "evidence_judge_run list"
  transcript_revisions :: "transcript_revision list"
  appeals :: "candidate_appeal list"
  integrity_signals :: "integrity_signal list"
  review_assignments :: "review_assignment list"
  tools :: "tool_invocation list"
  tool_submissions :: "tool_submission list"
  tool_evaluations :: "tool_evaluation list"
  artifacts :: "artifact_record list"
  events :: "interview_event list"
  shared_metadata :: "string list"

text \<open>\<^verbatim>\<open>InterviewSession(...)\<close> with its declared defaults.\<close>

definition new_session :: "string \<Rightarrow> datetime \<Rightarrow> string \<Rightarrow> string \<Rightarrow> string option \<Rightarrow> string
    \<Rightarrow> integrity_level \<Rightarrow> interview_session" where
  "new_session sid now job_id cand org loc lvl =
     \<lparr> session_id = sid, version = 0, created_at = now, completed_at = None, cancelled_at = None,
       cancellation_reason = None, session_job_id = job_id, candidate_ref = cand,
       organization_id = org, session_locale = loc, integrity_level = lvl, status = CREATED,
       paused = False, turns = [], covered_competencies = [], followups_by_competency = [],
       asked_anchor_competencies = [], asked_questions = 0, evidence_graph = [],
       evidence_judge_runs = [], transcript_revisions = [], appeals = [],
       integrity_signals = [], review_assignments = [], tools = [], tool_submissions = [],
       tool_evaluations = [], artifacts = [], events = [], shared_metadata = [] \<rparr>"

section \<open>Decisions and results of a step\<close>

record agent_decision =
  decision_text :: string
  decision_tags :: "string list"
  decision_parent :: "string option"
  completes_interview :: bool
  tool_request :: "string option"
  decision_reason :: string

record session_step =
  step_session_id :: string
  step_status :: session_status
  step_turn :: "turn option"
  step_tool :: "tool_invocation option"

record tool_step =
  tstep_tool_id :: string
  tstep_evaluation :: tool_evaluation
  tstep_turn :: "turn option"
  tstep_next_tool :: "tool_invocation option"
  tstep_status :: session_status

section \<open>What the runtime supplies\<close>

text \<open>
  The runtime functions that the audit chain relies on: SHA-256 of the UTF-8 encoding, in
  hexadecimal, the printing of a float and of a timestamp.
\<close>

record runtime =
  sha256_hex :: "string \<Rightarrow> string"
  float_repr :: "rat \<Rightarrow> string"
  isoformat :: "datetime \<Rightarrow> string"

text \<open>
  What one request draws: the identifier that \<^verbatim>\<open>uuid4()\<close> returns for the object of a class at
  a position of its list, the clock reading taken for it, and the correlation identifier of
  the context variable. No two draws of one request have the same class and position, so
  every behaviour of the generator and of the clock is one such pair of functions.
\<close>

record env =
  rt :: runtime
  new_id :: "string \<Rightarrow> nat \<Rightarrow> string"
  now_at :: "string \<Rightarrow> nat \<Rightarrow> datetime"
  correlation_id :: "string option"

end
