(* ===== verification/Audit_Chain.thy ===== *)
theory Audit_Chain
  imports Models
begin

text \<open>
  \<^verbatim>\<open>audit.py\<close>: the SHA-256 hash chain over the events of a session. \<open>verify_event_chain\<close>
  checks a history, \<open>seal_event_chain\<close> seals a legacy history or checks a sealed one, and
  \<open>append_event\<close>, which every state change of the program goes through, seals, then appends
  one event. The predicate \<open>sealed\<close> is the abstract specification: each event carries the hash
  of its own material, which contains the hash of the event before it.
\<close>

section \<open>The code\<close>

definition HASH_VERSION :: int where
  "HASH_VERSION = 1"

definition hash_material :: "runtime \<Rightarrow> interview_event \<Rightarrow> string option \<Rightarrow> string" where
  "hash_material R e prev = json_dumps (float_repr R) (JObj
     [(''hash_version'', JInt HASH_VERSION),
      (''seq'', JInt (event_seq e)),
      (''type'', JStr (event_type_value (event_type e))),
      (''turn_id'', jopt_str (event_turn_id e)),
      (''payload'', JObj (event_payload e)),
      (''created_at'', JStr (isoformat R (event_created_at e))),
      (''prev_hash'', jopt_str prev)])"

definition compute_event_hash :: "runtime \<Rightarrow> interview_event \<Rightarrow> string option \<Rightarrow> string" where
  "compute_event_hash R e prev = sha256_hex R (hash_material R e prev)"

definition hashed_flag :: "interview_event \<Rightarrow> bool" where
  "hashed_flag e = (hash_version e \<noteq> None \<or> prev_hash e \<noteq> None \<or> event_hash e \<noteq> None)"

definition repr_opt_int :: "int option \<Rightarrow> string" where
  "repr_opt_int i = (case i of None \<Rightarrow> ''None'' | Some n \<Rightarrow> show_int n)"

fun verify_loop :: "runtime \<Rightarrow> string option \<Rightarrow> interview_event list \<Rightarrow> string option result" where
  "verify_loop R expected_prev [] = Inr expected_prev"
| "verify_loop R expected_prev (e # es) =
     raise_if (hash_version e \<noteq> Some HASH_VERSION)
       (AuditChainError (''unsupported audit hash version at seq '' @ show_int (event_seq e)
          @ '': '' @ repr_opt_int (hash_version e)))
     (raise_if (prev_hash e \<noteq> expected_prev)
       (AuditChainError (''audit previous-hash mismatch at seq '' @ show_int (event_seq e)))
     (raise_if (event_hash e \<noteq> Some (compute_event_hash R e expected_prev))
       (AuditChainError (''audit event hash mismatch at seq '' @ show_int (event_seq e)))
     (verify_loop R (event_hash e) es)))"

definition verify_event_chain :: "runtime \<Rightarrow> interview_event list \<Rightarrow> string option result" where
  "verify_event_chain R es =
     (if es = [] then Inr None
      else if \<not> list_ex hashed_flag es then Inr None
      else if \<not> list_all hashed_flag es
      then Inl (AuditChainError ''mixed legacy and hashed audit events are not a valid sealed chain'')
      else verify_loop R None es)"

fun seal_loop :: "runtime \<Rightarrow> string option \<Rightarrow> interview_event list \<Rightarrow> interview_event list" where
  "seal_loop R prev [] = []"
| "seal_loop R prev (e # es) =
     (let h = compute_event_hash R e prev
      in e\<lparr>hash_version := Some HASH_VERSION, prev_hash := prev, event_hash := Some h\<rparr>
         # seal_loop R (Some h) es)"

definition head_hash :: "interview_event list \<Rightarrow> string option" where
  "head_hash es = (if es = [] then None else event_hash (last es))"

text \<open>The list is sealed in place; the model returns it with the head hash.\<close>

definition seal_event_chain ::
    "runtime \<Rightarrow> interview_event list \<Rightarrow> (interview_event list \<times> string option) result" where
  "seal_event_chain R es =
     (if es = [] then Inr ([], None)
      else if list_ex hashed_flag es
      then ebind (verify_event_chain R es) (\<lambda>h. Inr (es, h))
      else let es' = seal_loop R None es in Inr (es', head_hash es'))"

text \<open>\<^verbatim>\<open>trace.setdefault("correlation_id", ...)\<close> on the payload's \<^verbatim>\<open>_trace\<close> entry.\<close>

definition with_trace :: "string option \<Rightarrow> jdict \<Rightarrow> jdict" where
  "with_trace cid payload =
     (case cid of
        None \<Rightarrow> payload
      | Some c \<Rightarrow>
          if c = [] then payload
          else let trace = (case jget payload ''_trace'' of JObj d \<Rightarrow> d | _ \<Rightarrow> [])
               in dict_set ''_trace''
                    (JObj (dict_setdefault ''correlation_id'' (JStr c) trace)) payload)"

definition new_event :: "env \<Rightarrow> event_type \<Rightarrow> string option \<Rightarrow> jdict \<Rightarrow> nat \<Rightarrow> string option
    \<Rightarrow> interview_event" where
  "new_event E ty tid payload n prev =
     (let e = \<lparr> event_seq = int n + 1, event_type = ty, event_turn_id = tid,
                event_payload = with_trace (correlation_id E) payload,
                event_created_at = now_at E ''event'' n,
                hash_version = Some HASH_VERSION, prev_hash = prev, event_hash = None \<rparr>
      in e\<lparr>event_hash := Some (compute_event_hash (rt E) e prev)\<rparr>)"

definition append_event :: "env \<Rightarrow> event_type \<Rightarrow> turn option \<Rightarrow> jdict
    \<Rightarrow> interview_session \<Rightarrow> interview_session result" where
  "append_event E ty t payload s =
     ebind (seal_event_chain (rt E) (events s)) (\<lambda>(es, prev).
       Inr (s\<lparr>events := es @ [new_event E ty (map_option turn_id t) payload (length es) prev]\<rparr>))"

section \<open>The specification\<close>

fun sealed :: "runtime \<Rightarrow> string option \<Rightarrow> interview_event list \<Rightarrow> bool" where
  "sealed R prev [] \<longleftrightarrow> True"
| "sealed R prev (e # es) \<longleftrightarrow> hash_version e = Some HASH_VERSION \<and> prev_hash e = prev
     \<and> event_hash e = Some (compute_event_hash R e prev) \<and> sealed R (event_hash e) es"

text \<open>Event numbers count from 1.\<close>

definition seq_ok :: "interview_event list \<Rightarrow> bool" where
  "seq_ok es \<longleftrightarrow> map event_seq es = map int [1 ..< Suc (length es)]"

definition audit_ok :: "runtime \<Rightarrow> interview_session \<Rightarrow> bool" where
  "audit_ok R s \<longleftrightarrow> sealed R None (events s) \<and> seq_ok (events s)"

section \<open>Lemmas\<close>

lemma head_hash_snoc [simp]: "head_hash (es @ [e]) = event_hash e"
  by (simp add: head_hash_def)

lemma sealed_append:
  "sealed R prev (xs @ ys) \<longleftrightarrow>
     sealed R prev xs \<and> sealed R (if xs = [] then prev else event_hash (last xs)) ys"
  by (induction xs arbitrary: prev) auto

lemma sealed_hashed: "sealed R prev es \<Longrightarrow> list_all hashed_flag es"
  by (induction es arbitrary: prev) (auto simp: hashed_flag_def)

lemma verify_loop_Inr:
  "verify_loop R prev es = Inr h \<longleftrightarrow>
     sealed R prev es \<and> h = (if es = [] then prev else event_hash (last es))"
  by (induction es arbitrary: prev) (auto simp: exn_simps)

lemma verify_event_chain_sealed:
  assumes "sealed R None es"
  shows "verify_event_chain R es = Inr (head_hash es)"
proof (cases "es = []")
  case True
  then show ?thesis by (simp add: verify_event_chain_def head_hash_def)
next
  case False
  have "list_all hashed_flag es" using assms by (rule sealed_hashed)
  moreover from this False have "list_ex hashed_flag es" by (cases es) simp_all
  moreover have "verify_loop R None es = Inr (head_hash es)"
    using assms False by (simp add: verify_loop_Inr head_hash_def)
  ultimately show ?thesis using False by (simp add: verify_event_chain_def)
qed

lemma verify_event_chain_Some:
  "verify_event_chain R es = Inr (Some h) \<Longrightarrow> sealed R None es \<and> es \<noteq> [] \<and> head_hash es = Some h"
  by (auto simp: verify_event_chain_def verify_loop_Inr head_hash_def split: if_splits)

lemma compute_event_hash_cong:
  "event_seq e = event_seq e' \<Longrightarrow> event_type e = event_type e' \<Longrightarrow> event_turn_id e = event_turn_id e'
     \<Longrightarrow> event_payload e = event_payload e' \<Longrightarrow> event_created_at e = event_created_at e'
     \<Longrightarrow> compute_event_hash R e prev = compute_event_hash R e' prev"
  by (simp add: compute_event_hash_def hash_material_def)

lemma compute_event_hash_frame [simp]:
  "compute_event_hash R (e\<lparr>hash_version := a\<rparr>) p = compute_event_hash R e p"
  "compute_event_hash R (e\<lparr>prev_hash := b\<rparr>) p = compute_event_hash R e p"
  "compute_event_hash R (e\<lparr>event_hash := c\<rparr>) p = compute_event_hash R e p"
  by (rule compute_event_hash_cong; simp)+

lemma sealed_seal_loop: "sealed R prev (seal_loop R prev es)"
  by (induction es arbitrary: prev) (auto simp: Let_def)

lemma length_seal_loop [simp]: "length (seal_loop R prev es) = length es"
  by (induction es arbitrary: prev) (auto simp: Let_def)

lemma seal_loop_Nil_iff [simp]: "seal_loop R prev es = [] \<longleftrightarrow> es = []"
  by (metis length_0_conv length_seal_loop)

lemma seal_loop_seq [simp]: "map event_seq (seal_loop R prev es) = map event_seq es"
  by (induction es arbitrary: prev) (auto simp: Let_def)

lemma seal_event_chain_sealed:
  "sealed R None es \<Longrightarrow> seal_event_chain R es = Inr (es, head_hash es)"
  using sealed_hashed [of R None es] verify_event_chain_sealed [of R es]
  by (cases "es = []") (auto simp: seal_event_chain_def head_hash_def neq_Nil_conv)

lemma seal_event_chain_Inr:
  "seal_event_chain R es = Inr (es', h) \<Longrightarrow>
     sealed R None es' \<and> h = head_hash es' \<and> length es' = length es
     \<and> map event_seq es' = map event_seq es"
  by (auto simp: seal_event_chain_def verify_event_chain_def exn_simps verify_loop_Inr
      sealed_seal_loop head_hash_def Let_def split: if_splits)

lemma seq_ok_snoc: "seq_ok es \<Longrightarrow> event_seq e = int (length es) + 1 \<Longrightarrow> seq_ok (es @ [e])"
  by (simp add: seq_ok_def)

lemma new_event_simps [simp]:
  "event_seq (new_event E ty tid p n h) = int n + 1"
  "event_type (new_event E ty tid p n h) = ty"
  "event_turn_id (new_event E ty tid p n h) = tid"
  "event_payload (new_event E ty tid p n h) = with_trace (correlation_id E) p"
  "hash_version (new_event E ty tid p n h) = Some HASH_VERSION"
  "prev_hash (new_event E ty tid p n h) = h"
  "event_hash (new_event E ty tid p n h) = Some (compute_event_hash (rt E) (new_event E ty tid p n h) h)"
  by (simp_all add: new_event_def Let_def) (rule compute_event_hash_cong; simp)

text \<open>Appending to a sealed history cannot fail and keeps it sealed and numbered.\<close>

lemma append_event_ok:
  assumes "audit_ok (rt E) s"
  shows "append_event E ty t p s = Inr (s\<lparr>events := events s @
     [new_event E ty (map_option turn_id t) p (length (events s)) (head_hash (events s))]\<rparr>)"
  using assms by (simp add: append_event_def audit_ok_def seal_event_chain_sealed)

lemma append_event_audit_ok:
  assumes "append_event E ty t p s = Inr s'" and "seq_ok (events s)"
  shows "audit_ok (rt E) s'"
proof -
  from assms(1) obtain es h where seal: "seal_event_chain (rt E) (events s) = Inr (es, h)"
    and s': "s' = s\<lparr>events := es @ [new_event E ty (map_option turn_id t) p (length es) h]\<rparr>"
    by (auto simp: append_event_def exn_simps)
  note es = seal_event_chain_Inr [OF seal]
  have "seq_ok es" using es assms(2) by (simp add: seq_ok_def)
  then have "seq_ok (events s')" using s' by (simp add: seq_ok_snoc)
  then show ?thesis using es s' by (simp add: audit_ok_def sealed_append head_hash_def)
qed

text \<open>Everything but the events is untouched.\<close>

lemma append_event_frame:
  assumes "append_event E ty t p s = Inr s'"
  shows "s' = s\<lparr>events := events s'\<rparr>"
  using assms by (auto simp: append_event_def exn_simps)

end
