(* ===== verification/Evidence.thy ===== *)
theory Evidence
  imports Audit_Chain
begin

text \<open>
  \<^verbatim>\<open>evidence.py\<close>: the competency evidence graph of a session. \<open>record_candidate_claim\<close> and
  \<open>apply_observation\<close> update a node incrementally, \<open>recompute_node\<close> from its active items,
  and \<open>supersede_semantic_evidence_for_turn\<close> retires what semantic judges derived from a
  turn. The specification is \<open>strongest_state\<close>: the state of a node is the strongest one of
  its active items.
\<close>

section \<open>The code\<close>

fun state_rank :: "evidence_state \<Rightarrow> nat" where
  "state_rank UNKNOWN = 0"
| "state_rank INSUFFICIENT = 1"
| "state_rank CLAIMED = 2"
| "state_rank DEMONSTRATED = 3"
| "state_rank VERIFIED = 4"
| "state_rank CONTRADICTED = 5"

definition empty_node :: "string \<Rightarrow> competency_evidence" where
  "empty_node cid = \<lparr> node_competency_id = cid, node_state = UNKNOWN, node_confidence = None,
                      node_evidence = [] \<rparr>"

definition graph_initialize :: "interview_session \<Rightarrow> job_spec \<Rightarrow> interview_session" where
  "graph_initialize s job = s\<lparr>evidence_graph :=
     fold (\<lambda>c g. dict_setdefault (competency_key c) (empty_node (competency_key c)) g)
       (competencies job) (evidence_graph s)\<rparr>"

text \<open>\<^verbatim>\<open>graph.setdefault(cid, CompetencyEvidence(...))\<close>, the node and its mutation.\<close>

definition graph_node :: "interview_session \<Rightarrow> string \<Rightarrow> competency_evidence" where
  "graph_node s cid = (case dict_get (evidence_graph s) cid of None \<Rightarrow> empty_node cid | Some n \<Rightarrow> n)"

definition set_node :: "string \<Rightarrow> competency_evidence \<Rightarrow> interview_session \<Rightarrow> interview_session" where
  "set_node cid n s = s\<lparr>evidence_graph := dict_set cid n (evidence_graph s)\<rparr>"

text \<open>The class and position of a new item's identifier: the node and the length of its list.\<close>

definition new_item_id :: "env \<Rightarrow> string \<Rightarrow> competency_evidence \<Rightarrow> string" where
  "new_item_id E cid node = new_id E (''evidence:'' @ cid) (length (node_evidence node))"

definition claim_node :: "evidence_item \<Rightarrow> competency_evidence \<Rightarrow> competency_evidence" where
  "claim_node item node =
     (let node' = node\<lparr>node_evidence := node_evidence node @ [item]\<rparr>
      in if state_rank (node_state node') < state_rank CLAIMED
         then node'\<lparr>node_state := CLAIMED, node_confidence := None\<rparr> else node')"

definition claim_item :: "string \<Rightarrow> string \<Rightarrow> string \<Rightarrow> evidence_item" where
  "claim_item i qid aid =
     \<lparr> ev_id = i, ev_turn_id = aid, ev_state = CLAIMED, ev_confidence = 1, ev_quote = None,
       ev_note = ''Candidate supplied an answer to interviewer turn '' @ qid @ ''.'',
       ev_source = ''candidate_response'', ev_judge_run_id = None, ev_active = True \<rparr>"

fun claim_loop :: "env \<Rightarrow> string \<Rightarrow> string \<Rightarrow> string list \<Rightarrow> interview_session
    \<Rightarrow> interview_session \<times> evidence_item list" where
  "claim_loop E qid aid [] s = (s, [])"
| "claim_loop E qid aid (cid # cids) s =
     (let node = graph_node s cid;
          item = claim_item (new_item_id E cid node) qid aid;
          (s', items) = claim_loop E qid aid cids (set_node cid (claim_node item node) s)
      in (s', item # items))"

text \<open>\<^verbatim>\<open>{turn.id: turn for turn in session.turns}\<close>: the last turn with an identifier wins.\<close>

definition record_candidate_claim :: "env \<Rightarrow> string \<Rightarrow> string \<Rightarrow> string list \<Rightarrow> interview_session
    \<Rightarrow> (interview_session \<times> evidence_item list) result" where
  "record_candidate_claim E qid aid cids s =
     (case (find_last (\<lambda>t. turn_id t = qid) (turns s), find_last (\<lambda>t. turn_id t = aid) (turns s)) of
        (Some question, Some answer) \<Rightarrow>
          raise_if (speaker question \<noteq> INTERVIEWER \<or> speaker answer \<noteq> CANDIDATE)
            (ValueError ''claim evidence requires interviewer question and candidate answer'')
          (Inr (claim_loop E qid aid cids s))
      | _ \<Rightarrow> Inl (ValueError ''question and answer turns must exist''))"

definition turn_with_id :: "interview_session \<Rightarrow> string \<Rightarrow> turn option" where
  "turn_with_id s tid = find (\<lambda>t. turn_id t = tid) (turns s)"

definition is_semantic :: "string \<Rightarrow> bool" where
  "is_semantic source = startswith source ''semantic_judge:''"

definition observe_node :: "evidence_observation \<Rightarrow> evidence_item \<Rightarrow> competency_evidence
    \<Rightarrow> competency_evidence" where
  "observe_node ob item node =
     (let node' = node\<lparr>node_evidence := node_evidence node @ [item]\<rparr>
      in if node_state node' = CONTRADICTED then node'
         else if obs_state ob = CONTRADICTED
         then node'\<lparr>node_state := CONTRADICTED, node_confidence := Some (obs_confidence ob)\<rparr>
         else if state_rank (node_state node') \<le> state_rank (obs_state ob)
         then node'\<lparr>node_state := obs_state ob, node_confidence := Some (obs_confidence ob)\<rparr>
         else node')"

definition observation_item :: "string \<Rightarrow> evidence_observation \<Rightarrow> evidence_item" where
  "observation_item i ob =
     \<lparr> ev_id = i, ev_turn_id = obs_turn_id ob, ev_state = obs_state ob,
       ev_confidence = obs_confidence ob, ev_quote = obs_quote ob, ev_note = obs_note ob,
       ev_source = obs_source ob, ev_judge_run_id = obs_judge_run_id ob, ev_active = True \<rparr>"

text \<open>The guards run before the first mutation. The observation is a validated model
  (\<open>evidence_observation_ok\<close>), so that \<^verbatim>\<open>EvidenceItem(...)\<close> accepts its fields.\<close>

definition apply_observation :: "env \<Rightarrow> interview_session \<Rightarrow> job_spec \<Rightarrow> evidence_observation
    \<Rightarrow> (interview_session \<times> evidence_item) result" where
  "apply_observation E s job ob =
     raise_if (obs_competency_id ob \<notin> set (competency_ids_of job)) (ValueError ''unknown competency'')
     (case turn_with_id s (obs_turn_id ob) of
        None \<Rightarrow> Inl (ValueError ''evidence observation references unknown turn'')
      | Some t \<Rightarrow>
          raise_if (case obs_quote ob of None \<Rightarrow> False | Some q \<Rightarrow> \<not> str_in q (turn_text t))
            (ValueError ''evidence quote must be a literal substring of the referenced turn'')
          (raise_if (is_semantic (obs_source ob) \<and> obs_state ob = VERIFIED)
            (ValueError ''semantic transcript judges may not emit verified evidence'')
          (let cid = obs_competency_id ob; node = graph_node s cid;
               item = observation_item (new_item_id E cid node) ob
           in Inr (set_node cid (observe_node ob item node) s, item))))"

definition active_items :: "competency_evidence \<Rightarrow> evidence_item list" where
  "active_items node = filter ev_active (node_evidence node)"

definition recomputed :: "competency_evidence \<Rightarrow> competency_evidence" where
  "recomputed node =
     (case active_items node of
        [] \<Rightarrow> node\<lparr>node_state := UNKNOWN, node_confidence := None\<rparr>
      | active \<Rightarrow>
          let strongest_rank = Max (set (map (\<lambda>it. state_rank (ev_state it)) active));
              strongest = filter (\<lambda>it. state_rank (ev_state it) = strongest_rank) active;
              confidences = map ev_confidence
                (filter (\<lambda>it. ev_state it \<notin> {CLAIMED, UNKNOWN}) strongest)
          in node\<lparr>node_state := ev_state (hd strongest),
                  node_confidence := (if confidences = [] then None else Some (Max (set confidences)))\<rparr>)"

definition recompute_node :: "string \<Rightarrow> interview_session \<Rightarrow> interview_session" where
  "recompute_node cid s = set_node cid (recomputed (graph_node s cid)) s"

definition retired_by :: "string \<Rightarrow> evidence_item \<Rightarrow> bool" where
  "retired_by tid it = (ev_active it \<and> ev_turn_id it = tid \<and> is_semantic (ev_source it))"

definition retire_item :: "string \<Rightarrow> evidence_item \<Rightarrow> evidence_item" where
  "retire_item tid it = (if retired_by tid it then it\<lparr>ev_active := False\<rparr> else it)"

definition retire_node :: "string \<Rightarrow> competency_evidence \<Rightarrow> competency_evidence" where
  "retire_node tid node = node\<lparr>node_evidence := map (retire_item tid) (node_evidence node)\<rparr>"

text \<open>The returned items are references: they are seen after \<^verbatim>\<open>active\<close> is reset. The set of
  affected competencies is visited in the order of the graph; the order does not matter,
  each visit changes its own node only.\<close>

definition supersede_semantic_evidence_for_turn :: "string \<Rightarrow> interview_session
    \<Rightarrow> interview_session \<times> evidence_item list" where
  "supersede_semantic_evidence_for_turn tid s =
     (let superseded = concat (map (\<lambda>(cid, node). map (retire_item tid)
                          (filter (retired_by tid) (node_evidence node))) (evidence_graph s));
          affected = map fst (filter (\<lambda>(cid, node). list_ex (retired_by tid) (node_evidence node))
                          (evidence_graph s));
          s' = s\<lparr>evidence_graph := dict_map (\<lambda>cid. retire_node tid) (evidence_graph s)\<rparr>
      in (fold recompute_node affected s', superseded))"

section \<open>The specification\<close>

definition strongest_state :: "evidence_item list \<Rightarrow> evidence_state" where
  "strongest_state items = fold (\<lambda>it st. if state_rank st \<le> state_rank (ev_state it)
                                          then ev_state it else st) items UNKNOWN"

text \<open>A node is filed under its own competency and its state is the strongest active one.\<close>

definition node_ok :: "string \<Rightarrow> competency_evidence \<Rightarrow> bool" where
  "node_ok cid node \<longleftrightarrow> node_competency_id node = cid
     \<and> node_state node = strongest_state (active_items node)"

text \<open>Provenance of an item: its turn exists, a transcript judge never verifies, and what an
  active item of a transcript judge quotes is in the current text of the turn.\<close>

definition item_grounded :: "interview_session \<Rightarrow> evidence_item \<Rightarrow> bool" where
  "item_grounded s it \<longleftrightarrow> (\<exists>t. turn_with_id s (ev_turn_id it) = Some t
       \<and> (\<forall>q. ev_quote it = Some q \<longrightarrow> ev_active it \<longrightarrow> is_semantic (ev_source it)
            \<longrightarrow> str_in q (turn_text t)))
     \<and> (is_semantic (ev_source it) \<longrightarrow> ev_state it \<noteq> VERIFIED)"

definition evidence_ok :: "interview_session \<Rightarrow> bool" where
  "evidence_ok s \<longleftrightarrow> distinct (map fst (evidence_graph s))
     \<and> (\<forall>(cid, node) \<in> set (evidence_graph s).
          node_ok cid node \<and> (\<forall>it \<in> set (node_evidence node). item_grounded s it))"

section \<open>Lemmas\<close>

lemma state_rank_inj: "state_rank a = state_rank b \<Longrightarrow> a = b"
  by (cases a; cases b) auto

lemma state_rank_le5: "state_rank a \<le> 5"
  by (cases a) auto

lemma state_rank_eq5 [simp]: "state_rank a = 5 \<longleftrightarrow> a = CONTRADICTED"
  by (cases a) auto

lemma strongest_state_Nil [simp]: "strongest_state [] = UNKNOWN"
  by (simp add: strongest_state_def)

lemma strongest_state_snoc:
  "strongest_state (items @ [it]) = (if state_rank (strongest_state items) \<le> state_rank (ev_state it)
     then ev_state it else strongest_state items)"
  by (simp add: strongest_state_def)

lemma state_rank_strongest:
  "state_rank (strongest_state items) = Max (insert 0 (set (map (\<lambda>it. state_rank (ev_state it)) items)))"
proof (induction items rule: rev_induct)
  case Nil
  then show ?case by simp
next
  case (snoc it items)
  have eq: "Max (insert 0 (set (map (\<lambda>it. state_rank (ev_state it)) (items @ [it]))))
      = max (state_rank (ev_state it)) (Max (insert 0 (set (map (\<lambda>it. state_rank (ev_state it)) items))))"
  proof -
    have "insert 0 (set (map (\<lambda>it. state_rank (ev_state it)) (items @ [it])))
        = insert (state_rank (ev_state it)) (insert 0 (set (map (\<lambda>it. state_rank (ev_state it)) items)))"
      by auto
    then show ?thesis by (simp only: Max_insert finite_insert List.finite_set insert_not_empty simp_thms)
  qed
  have "state_rank (strongest_state (items @ [it]))
      = max (state_rank (ev_state it)) (state_rank (strongest_state items))"
    by (simp add: strongest_state_snoc max_def)
  also have "\<dots> = Max (insert 0 (set (map (\<lambda>it. state_rank (ev_state it)) (items @ [it]))))"
    by (simp only: eq snoc.IH)
  finally show ?case .
qed

lemma strongest_state_ge: "it \<in> set items \<Longrightarrow> state_rank (ev_state it) \<le> state_rank (strongest_state items)"
  by (simp add: state_rank_strongest)

text \<open>The strongest state does not depend on how the items are ordered.\<close>

lemma strongest_state_set: "set xs = set ys \<Longrightarrow> strongest_state xs = strongest_state ys"
  by (rule state_rank_inj) (simp add: state_rank_strongest)

lemma recomputed_state [simp]: "node_state (recomputed node) = strongest_state (active_items node)"
proof (cases "active_items node = []")
  case True
  then show ?thesis by (simp add: recomputed_def)
next
  case False
  define active where "active = active_items node"
  define r where "r = Max (set (map (\<lambda>it. state_rank (ev_state it)) active))"
  have "active \<noteq> []" using False by (simp add: active_def)
  then have "r \<in> set (map (\<lambda>it. state_rank (ev_state it)) active)"
    unfolding r_def by (intro Max_in) auto
  then have ne: "filter (\<lambda>it. state_rank (ev_state it) = r) active \<noteq> []"
    by (auto simp: filter_empty_conv)
  then have "state_rank (ev_state (hd (filter (\<lambda>it. state_rank (ev_state it) = r) active))) = r"
    using hd_in_set [OF ne] by simp
  also have "r = state_rank (strongest_state active)"
    using \<open>active \<noteq> []\<close> by (simp add: state_rank_strongest r_def Max_insert)
  finally have "ev_state (hd (filter (\<lambda>it. state_rank (ev_state it) = r) active)) = strongest_state active"
    by (rule state_rank_inj)
  then show ?thesis using \<open>active \<noteq> []\<close>
    by (cases active) (simp_all add: recomputed_def active_def [symmetric] r_def Let_def)
qed

lemma recomputed_frame [simp]:
  "node_competency_id (recomputed node) = node_competency_id node"
  "node_evidence (recomputed node) = node_evidence node"
  "active_items (recomputed node) = active_items node"
  by (simp_all add: recomputed_def active_items_def Let_def split: list.splits)

lemma recomputed_ok: "node_competency_id node = cid \<Longrightarrow> node_ok cid (recomputed node)"
  by (simp add: node_ok_def)

lemma claim_node_ok:
  assumes "node_ok cid node" and "ev_state item = CLAIMED" and "ev_active item"
  shows "node_ok cid (claim_node item node)"
  using assms by (auto simp: node_ok_def claim_node_def active_items_def Let_def strongest_state_snoc
      not_less intro: state_rank_inj)

lemma observe_node_ok:
  assumes "node_ok cid node"
  shows "node_ok cid (observe_node ob (observation_item i ob) node)"
proof -
  have "5 \<le> state_rank (obs_state ob) \<longleftrightarrow> obs_state ob = CONTRADICTED"
    using state_rank_le5 [of "obs_state ob"] state_rank_eq5 [of "obs_state ob"] by linarith
  moreover have "state_rank (strongest_state (active_items node)) \<le> 5"
    by (rule state_rank_le5)
  ultimately show ?thesis using assms
    by (auto simp: node_ok_def observe_node_def active_items_def observation_item_def Let_def
        strongest_state_snoc)
qed

lemma empty_node_ok [simp]: "node_ok cid (empty_node cid)"
  by (simp add: node_ok_def empty_node_def active_items_def)

lemma node_evidence_claim_node [simp]:
  "node_evidence (claim_node item node) = node_evidence node @ [item]"
  by (simp add: claim_node_def Let_def)

lemma node_evidence_observe_node [simp]:
  "node_evidence (observe_node ob item node) = node_evidence node @ [item]"
  by (simp add: observe_node_def Let_def)

lemma node_evidence_empty_node [simp]: "node_evidence (empty_node cid) = []"
  by (simp add: empty_node_def)

lemma set_node_frame [simp]:
  "turns (set_node cid n s) = turns s" "turn_with_id (set_node cid n s) = turn_with_id s"
  "item_grounded (set_node cid n s) = item_grounded s"
  "events (set_node cid n s) = events s"
  by (simp_all add: set_node_def turn_with_id_def item_grounded_def fun_eq_iff)

lemma evidence_okD:
  assumes "evidence_ok s"
  shows "node_ok cid (graph_node s cid)"
    and "it \<in> set (node_evidence (graph_node s cid)) \<Longrightarrow> item_grounded s it"
  using assms by (auto simp: evidence_ok_def graph_node_def split: option.splits dest!: map_of_SomeD)

lemma evidence_ok_set_node:
  assumes "evidence_ok s" and "node_ok cid n"
    and "\<And>it. it \<in> set (node_evidence n) \<Longrightarrow> item_grounded s it"
  shows "evidence_ok (set_node cid n s)"
proof -
  have "p \<in> set (dict_set cid n d) \<Longrightarrow> p = (cid, n) \<or> p \<in> set d" for p d
    by (induction d) (auto split: if_splits)
  then show ?thesis using assms
    unfolding evidence_ok_def by (fastforce simp: set_node_def [of cid n s] item_grounded_def
        turn_with_id_def intro: distinct_dict_set)
qed

text \<open>What an operation appends to a node it also grounds.\<close>

lemma claim_loop_frame [simp]:
  "turns (fst (claim_loop E qid aid cids s)) = turns s"
  "events (fst (claim_loop E qid aid cids s)) = events s"
  by (induction E qid aid cids s rule: claim_loop.induct) (auto simp: Let_def split: prod.splits)

lemma claim_loop_Cons:
  "fst (claim_loop E qid aid (cid # cids) s) = fst (claim_loop E qid aid cids
     (set_node cid (claim_node (claim_item (new_item_id E cid (graph_node s cid)) qid aid)
        (graph_node s cid)) s))"
  by (simp add: Let_def split: prod.splits)

lemma claim_loop_ok:
  assumes "evidence_ok s" and "turn_with_id s aid \<noteq> None"
  shows "evidence_ok (fst (claim_loop E qid aid cids s))"
  using assms
proof (induction cids arbitrary: s)
  case Nil
  then show ?case by simp
next
  case (Cons cid cids)
  define item where "item = claim_item (new_item_id E cid (graph_node s cid)) qid aid"
  have "item_grounded s item"
    using Cons.prems(2) by (auto simp: item_grounded_def item_def claim_item_def is_semantic_def
        startswith_def)
  then have "evidence_ok (set_node cid (claim_node item (graph_node s cid)) s)"
    using Cons.prems(1) by (intro evidence_ok_set_node claim_node_ok)
      (auto simp: item_def claim_item_def evidence_okD)
  from Cons.IH [OF this] Cons.prems(2) show ?case
    by (simp only: claim_loop_Cons item_def [symmetric]) simp
qed

lemma record_candidate_claim_ok:
  assumes "record_candidate_claim E qid aid cids s = Inr (s', items)" and "evidence_ok s"
  shows "evidence_ok s'"
proof -
  from assms(1) obtain q a where "find_last (\<lambda>t. turn_id t = aid) (turns s) = Some a"
    and s': "s' = fst (claim_loop E qid aid cids s)"
    by (auto simp: record_candidate_claim_def exn_simps split: option.splits)
  then have "turn_with_id s aid \<noteq> None"
    by (auto simp: turn_with_id_def find_None_iff_ball dest!: find_last_SomeD)
  with assms(2) s' show ?thesis by (simp add: claim_loop_ok)
qed

lemma claim_loop_graph_only:
  "fst (claim_loop E qid aid cids s) = s\<lparr>evidence_graph := evidence_graph (fst (claim_loop E qid aid cids s))\<rparr>"
proof (induction cids arbitrary: s)
  case Nil
  then show ?case by simp
next
  case (Cons cid cids)
  show ?case
    unfolding claim_loop_Cons by (subst Cons.IH) (simp add: set_node_def)
qed

lemma record_candidate_claim_frame:
  assumes "record_candidate_claim E qid aid cids s = Inr (s', items)"
  shows "s' = s\<lparr>evidence_graph := evidence_graph s'\<rparr>"
proof -
  from assms have "s' = fst (claim_loop E qid aid cids s)"
    by (auto simp: record_candidate_claim_def exn_simps split: option.splits)
  then show ?thesis using claim_loop_graph_only by metis
qed

lemma apply_observation_Inr:
  assumes "apply_observation E s job ob = Inr (s', item)"
  shows "s' = set_node (obs_competency_id ob)
           (observe_node ob item (graph_node s (obs_competency_id ob))) s"
    and "item = observation_item (new_item_id E (obs_competency_id ob)
           (graph_node s (obs_competency_id ob))) ob"
    and "obs_competency_id ob \<in> set (competency_ids_of job)"
    and "\<exists>t. turn_with_id s (obs_turn_id ob) = Some t \<and> (\<forall>q. obs_quote ob = Some q \<longrightarrow> str_in q (turn_text t))"
    and "\<not> (is_semantic (obs_source ob) \<and> obs_state ob = VERIFIED)"
  using assms by (auto simp: apply_observation_def exn_simps Let_def split: option.splits)

lemma apply_observation_Inl:
  assumes "apply_observation E s job ob = Inl e"
  obtains m where "e = ValueError m"
  using assms by (auto simp: apply_observation_def exn_simps Let_def split: option.splits)

lemma apply_observation_ok:
  assumes "apply_observation E s job ob = Inr (s', item)" and "evidence_ok s"
  shows "evidence_ok s'"
proof -
  note ob = apply_observation_Inr [OF assms(1)]
  have "item_grounded s item"
    using ob(2,4,5) by (auto simp: item_grounded_def observation_item_def)
  then show ?thesis unfolding ob(1)
    using assms(2) ob(2) by (intro evidence_ok_set_node) (auto simp: observe_node_ok evidence_okD)
qed

text \<open>Superseding, as one map over the graph.\<close>

definition retire_and_recompute :: "string \<Rightarrow> competency_evidence \<Rightarrow> competency_evidence" where
  "retire_and_recompute tid node =
     (if list_ex (retired_by tid) (node_evidence node) then recomputed (retire_node tid node) else node)"

lemma retire_item_simps [simp]:
  "ev_id (retire_item tid it) = ev_id it" "ev_turn_id (retire_item tid it) = ev_turn_id it"
  "ev_state (retire_item tid it) = ev_state it" "ev_quote (retire_item tid it) = ev_quote it"
  "ev_source (retire_item tid it) = ev_source it"
  "ev_active (retire_item tid it) \<longleftrightarrow> ev_active it \<and> \<not> retired_by tid it"
  by (auto simp: retire_item_def)

lemma retire_node_id: "\<not> list_ex (retired_by tid) (node_evidence node) \<Longrightarrow> retire_node tid node = node"
  by (cases node) (auto simp: retire_node_def list_ex_iff retire_item_def map_idI)

lemma fold_recompute_node:
  assumes "distinct (map fst (evidence_graph s))" and "distinct cids"
    and "set cids \<subseteq> set (map fst (evidence_graph s))"
  shows "fold recompute_node cids s = s\<lparr>evidence_graph :=
           dict_map (\<lambda>cid n. if cid \<in> set cids then recomputed n else n) (evidence_graph s)\<rparr>"
  using assms
proof (induction cids arbitrary: s)
  case Nil
  then show ?case by (simp add: dict_map_id)
next
  case (Cons c cids)
  obtain n where n: "dict_get (evidence_graph s) c = Some n"
    using Cons.prems(3) dict_get_key [of c "evidence_graph s"] by auto
  let ?s = "s\<lparr>evidence_graph := dict_map (\<lambda>cid n. if cid = c then recomputed n else n) (evidence_graph s)\<rparr>"
  have "dict_set c (recomputed n) (evidence_graph s)
      = dict_map (\<lambda>cid n. if cid = c then recomputed n else n) (evidence_graph s)"
    unfolding dict_set_as_map [OF Cons.prems(1) n]
    using n dict_get_mem [OF Cons.prems(1)] by (intro dict_map_cong) auto
  then have step: "recompute_node c s = ?s"
    using n by (simp add: recompute_node_def set_node_def graph_node_def)
  have "fold recompute_node cids ?s = ?s\<lparr>evidence_graph :=
      dict_map (\<lambda>cid n. if cid \<in> set cids then recomputed n else n) (evidence_graph ?s)\<rparr>"
    using Cons.prems by (intro Cons.IH) simp_all
  moreover have "dict_map (\<lambda>cid n. if cid \<in> set cids then recomputed n else n) (evidence_graph ?s)
      = dict_map (\<lambda>cid n. if cid \<in> set (c # cids) then recomputed n else n) (evidence_graph s)"
    using Cons.prems(2) by (auto intro!: dict_map_cong)
  ultimately show ?case by (simp add: step)
qed

lemma supersede_graph:
  assumes "distinct (map fst (evidence_graph s))"
  shows "fst (supersede_semantic_evidence_for_turn tid s) =
    s\<lparr>evidence_graph := dict_map (\<lambda>cid. retire_and_recompute tid) (evidence_graph s)\<rparr>"
proof -
  let ?g = "evidence_graph s"
  let ?s = "s\<lparr>evidence_graph := dict_map (\<lambda>cid. retire_node tid) ?g\<rparr>"
  let ?aff = "map fst (filter (\<lambda>(cid, node). list_ex (retired_by tid) (node_evidence node)) ?g)"
  have "distinct ?aff" using assms by (simp add: distinct_map_filter)
  then have fold: "fold recompute_node ?aff ?s = ?s\<lparr>evidence_graph :=
      dict_map (\<lambda>cid n. if cid \<in> set ?aff then recomputed n else n) (evidence_graph ?s)\<rparr>"
    using assms by (intro fold_recompute_node) auto
  have aff: "cid \<in> set ?aff \<longleftrightarrow> list_ex (retired_by tid) (node_evidence n)"
    if "(cid, n) \<in> set ?g" for cid n
  proof
    assume "cid \<in> set ?aff"
    then obtain n' where n': "(cid, n') \<in> set ?g" "list_ex (retired_by tid) (node_evidence n')"
      by auto
    have "n' = n" using dict_get_mem [OF assms n'(1)] dict_get_mem [OF assms that] by simp
    with n'(2) show "list_ex (retired_by tid) (node_evidence n)" by simp
  next
    assume "list_ex (retired_by tid) (node_evidence n)"
    with that have "(cid, n) \<in> set (filter (\<lambda>(cid, node). list_ex (retired_by tid) (node_evidence node)) ?g)"
      by simp
    then show "cid \<in> set ?aff" by (simp only: set_map) (rule image_eqI [of _ _ "(cid, n)"], simp_all)
  qed
  have "dict_map (\<lambda>cid n. if cid \<in> set ?aff then recomputed (retire_node tid n) else retire_node tid n) ?g
      = dict_map (\<lambda>cid. retire_and_recompute tid) ?g"
    by (rule dict_map_cong) (simp only: aff retire_and_recompute_def split: if_splits, simp add: retire_node_id)
  with fold show ?thesis
    by (simp add: supersede_semantic_evidence_for_turn_def Let_def)
qed

lemma retire_and_recompute_ok: "node_ok cid node \<Longrightarrow> node_ok cid (retire_and_recompute tid node)"
  by (auto simp: retire_and_recompute_def node_ok_def retire_node_def)

lemma retire_and_recompute_evidence:
  "node_evidence (retire_and_recompute tid node) = map (retire_item tid) (node_evidence node)"
  using retire_node_id [of tid node] by (auto simp: retire_and_recompute_def retire_node_def)
    (metis (no_types, lifting) competency_evidence.select_convs(4) competency_evidence.surjective
      competency_evidence.update_convs(4))

lemma supersede_frame [simp]:
  "turns (fst (supersede_semantic_evidence_for_turn tid s)) = turns s"
proof -
  have "turns (fold recompute_node cids s') = turns s'" for cids s'
    by (induction cids arbitrary: s') (auto simp: recompute_node_def)
  then show ?thesis by (simp add: supersede_semantic_evidence_for_turn_def Let_def)
qed

text \<open>After superseding, no semantic item of the turn is active, so the text of the turn may
  change freely.\<close>

lemma supersede_ok_correct:
  assumes "evidence_ok s" and "s' = fst (supersede_semantic_evidence_for_turn tid s)"
    and "\<And>i. turn_with_id s'' i \<noteq> None \<longleftrightarrow> turn_with_id s i \<noteq> None"
    and "\<And>i. i \<noteq> tid \<Longrightarrow> turn_with_id s'' i = turn_with_id s i"
    and "evidence_graph s'' = evidence_graph s'"
  shows "evidence_ok s''"
proof -
  have dist: "distinct (map fst (evidence_graph s))" using assms(1) by (simp add: evidence_ok_def)
  have g: "evidence_graph s'' = dict_map (\<lambda>cid. retire_and_recompute tid) (evidence_graph s)"
    using assms(2,5) supersede_graph [OF dist] by simp
  have "item_grounded s'' (retire_item tid it)" if gr: "item_grounded s it" for it
  proof (cases "ev_turn_id it = tid")
    case True
    obtain t0 where "turn_with_id s tid = Some t0"
      using gr True by (auto simp: item_grounded_def)
    then obtain t where "turn_with_id s'' tid = Some t" using assms(3) [of tid] by auto
    then show ?thesis using that True by (auto simp: item_grounded_def retired_by_def)
  next
    case False
    then show ?thesis using that assms(4) by (auto simp: item_grounded_def retired_by_def)
  qed
  then show ?thesis using assms(1) dist unfolding evidence_ok_def g
    by (force simp: set_dict_map retire_and_recompute_ok retire_and_recompute_evidence)
qed

end
