(* ===== verification/Feedback.thy ===== *)
theory Feedback
  imports Evidence
begin

text \<open>
  \<^verbatim>\<open>feedback.py\<close>: the report a candidate gets. One pass over the competencies of the job files
  each under one of three headings by the state of its node; the lemmas give the three lists
  in closed form.
\<close>

section \<open>The code\<close>

record feedback_item =
  fb_competency_id :: string
  fb_competency :: string
  fb_status :: string
  fb_summary :: string
  fb_evidence_turn_ids :: "string list"

record feedback_report =
  fb_session_id :: string
  fb_role :: string
  supported_evidence :: "feedback_item list"
  needs_more_evidence :: "feedback_item list"
  conflicting_evidence :: "feedback_item list"
  fb_note :: string

text \<open>\<^verbatim>\<open>node.state if node else EvidenceState.UNKNOWN\<close>, and the turns of its evidence.\<close>

definition reported_state :: "interview_session \<Rightarrow> string \<Rightarrow> evidence_state" where
  "reported_state s cid = (case dict_get (evidence_graph s) cid of
      None \<Rightarrow> UNKNOWN | Some node \<Rightarrow> node_state node)"

definition reported_turn_ids :: "interview_session \<Rightarrow> string \<Rightarrow> string list" where
  "reported_turn_ids s cid = (case dict_get (evidence_graph s) cid of
      None \<Rightarrow> [] | Some node \<Rightarrow> fromkeys (map ev_turn_id (node_evidence node)))"

definition feedback_summary :: "evidence_state \<Rightarrow> string \<Rightarrow> string" where
  "feedback_summary st description =
     (if st \<in> {DEMONSTRATED, VERIFIED}
      then ''The interview contains '' @ evidence_state_value st @ '' job-related evidence ''
             @ ''for '' @ description @ ''.''
      else if st = CONTRADICTED
      then ''The interview contains conflicting evidence for '' @ description
             @ ''; human review is recommended.''
      else ''There is ''
             @ (if st \<in> {UNKNOWN, CLAIMED, INSUFFICIENT} then ''insufficient evidence''
                else evidence_state_value st)
             @ '' to make a strong evidence-based statement '' @ ''about '' @ description @ ''.'')"

definition make_feedback_item :: "interview_session \<Rightarrow> competency \<Rightarrow> feedback_item" where
  "make_feedback_item s c =
     (let st = reported_state s (competency_key c)
      in \<lparr> fb_competency_id = competency_key c, fb_competency = competency_description c,
           fb_status = evidence_state_value st,
           fb_summary = feedback_summary st (competency_description c),
           fb_evidence_turn_ids = reported_turn_ids s (competency_key c) \<rparr>)"

definition add_feedback :: "interview_session \<Rightarrow> competency \<Rightarrow> feedback_report \<Rightarrow> feedback_report" where
  "add_feedback s c r =
     (let st = reported_state s (competency_key c); item = make_feedback_item s c
      in if st \<in> {DEMONSTRATED, VERIFIED}
         then r\<lparr>supported_evidence := supported_evidence r @ [item]\<rparr>
         else if st = CONTRADICTED
         then r\<lparr>conflicting_evidence := conflicting_evidence r @ [item]\<rparr>
         else r\<lparr>needs_more_evidence := needs_more_evidence r @ [item]\<rparr>)"

definition build_candidate_feedback :: "interview_session \<Rightarrow> job_spec \<Rightarrow> feedback_report" where
  "build_candidate_feedback s job = fold (add_feedback s) (competencies job)
     \<lparr> fb_session_id = session_id s, fb_role = job_title job, supported_evidence = [],
       needs_more_evidence = [], conflicting_evidence = [],
       fb_note = ''This report summarizes job-related evidence observed in the interview. ''
         @ ''It is not a final hiring decision or a personality assessment.'' \<rparr>"

section \<open>The three lists\<close>

lemma fold_add_feedback:
  "fold (add_feedback s) cs r = r\<lparr>
     supported_evidence := supported_evidence r @ map (make_feedback_item s)
       (filter (\<lambda>c. reported_state s (competency_key c) \<in> {DEMONSTRATED, VERIFIED}) cs),
     conflicting_evidence := conflicting_evidence r @ map (make_feedback_item s)
       (filter (\<lambda>c. reported_state s (competency_key c) = CONTRADICTED) cs),
     needs_more_evidence := needs_more_evidence r @ map (make_feedback_item s)
       (filter (\<lambda>c. reported_state s (competency_key c) \<in> {UNKNOWN, CLAIMED, INSUFFICIENT}) cs)\<rparr>"
proof (induction cs arbitrary: r)
  case (Cons c cs)
  show ?case
    unfolding fold_Cons comp_apply Cons.IH
    by (cases "reported_state s (competency_key c)") (simp_all add: add_feedback_def Let_def)
qed simp

lemma build_candidate_feedback_lists:
  "supported_evidence (build_candidate_feedback s job) = map (make_feedback_item s)
     (filter (\<lambda>c. reported_state s (competency_key c) \<in> {DEMONSTRATED, VERIFIED}) (competencies job))"
  "conflicting_evidence (build_candidate_feedback s job) = map (make_feedback_item s)
     (filter (\<lambda>c. reported_state s (competency_key c) = CONTRADICTED) (competencies job))"
  "needs_more_evidence (build_candidate_feedback s job) = map (make_feedback_item s)
     (filter (\<lambda>c. reported_state s (competency_key c) \<in> {UNKNOWN, CLAIMED, INSUFFICIENT}) (competencies job))"
  by (simp_all add: build_candidate_feedback_def fold_add_feedback)

text \<open>Every turn that a report cites is a turn of the transcript.\<close>

lemma reported_turn_ids_known:
  assumes "evidence_ok s" and "i \<in> set (reported_turn_ids s cid)"
  shows "\<exists>t. turn_with_id s i = Some t"
proof (cases "dict_get (evidence_graph s) cid")
  case None
  then show ?thesis using assms(2) by (simp add: reported_turn_ids_def)
next
  case (Some node)
  then have "(cid, node) \<in> set (evidence_graph s)" by (rule map_of_SomeD)
  then show ?thesis
    using assms Some by (fastforce simp: reported_turn_ids_def evidence_ok_def item_grounded_def)
qed

end
