(* ===== verification/Py_Float.thy ===== *)
theory Py_Float
  imports Prelude
begin

text \<open>
  Python's \<^verbatim>\<open>float\<close>: IEEE 754 binary64 with round-to-nearest, ties to even. A float is the
  rational it denotes; \<open>fl\<close> rounds the exact result of an operation, so that
  \<^verbatim>\<open>a + b\<close> on floats is \<open>fl (a + b)\<close>. Subnormals are covered; the infinities, the NaNs and
  overflow are not (no modelled computation reaches them: every operand is bounded by a
  field constraint). The lemmas are the ones that comparisons of rounded results rest on:
  rounding is monotone, keeps every representable number and the sign.
\<close>

section \<open>Definitions\<close>

text \<open>Round to the nearest integer, ties to even.\<close>

definition rne :: "rat \<Rightarrow> int" where
  "rne x = (let f = \<lfloor>x\<rfloor>; d = x - of_int f
     in if d < 1/2 then f else if d > 1/2 then f + 1 else if even f then f else f + 1)"

fun log2n :: "nat \<Rightarrow> nat" where
  "log2n n = (if n < 2 then 0 else Suc (log2n (n div 2)))"

declare log2n.simps [simp del]

text \<open>The binary exponent of a positive number.\<close>

definition flog2 :: "rat \<Rightarrow> int" where
  "flog2 x = (if 1 \<le> x then int (log2n (nat \<lfloor>x\<rfloor>))
     else let m = nat \<lceil>1 / x\<rceil> in - int (if m \<le> 1 then 0 else Suc (log2n (m - 1))))"

definition fl_exp :: "rat \<Rightarrow> int" where
  "fl_exp x = max (flog2 x) (- 1022)"

definition fl_pos :: "rat \<Rightarrow> rat" where
  "fl_pos x = (let u = 2 powi (fl_exp x - 52) in of_int (rne (x / u)) * u)"

definition fl :: "rat \<Rightarrow> rat" where
  "fl x = (if x = 0 then 0 else if 0 < x then fl_pos x else - fl_pos (- x))"

text \<open>The numbers that are floats.\<close>

definition is_float :: "rat \<Rightarrow> bool" where
  "is_float x = (fl x = x)"

text \<open>\<^verbatim>\<open>round(x, n)\<close> of a float: the decimal rounding is exact, then rounded to a float.\<close>

definition py_round :: "rat \<Rightarrow> nat \<Rightarrow> rat" where
  "py_round x n = fl (of_int (rne (x * 10 ^ n)) / 10 ^ n)"

section \<open>Rounding to an integer\<close>

lemma rne_bounds: "of_int (rne x) \<le> x + 1/2" "x - 1/2 \<le> of_int (rne x)"
  unfolding rne_def Let_def by (auto simp: le_floor_iff) linarith+

lemma rne_of_int [simp]: "rne (of_int n) = n"
  by (simp add: rne_def)

lemma rne_of_nat [simp]: "rne (of_nat n) = int n"
  using rne_of_int [of "int n"] by simp

lemma rne_floor: "\<lfloor>x\<rfloor> \<le> rne x" "rne x \<le> \<lfloor>x\<rfloor> + 1"
  by (auto simp: rne_def Let_def)

lemma rne_mono: "x \<le> y \<Longrightarrow> rne x \<le> rne y"
proof -
  assume xy: "x \<le> y"
  show ?thesis
  proof (cases "\<lfloor>x\<rfloor> = \<lfloor>y\<rfloor>")
    case True
    with xy show ?thesis by (auto simp: rne_def Let_def)
  next
    case False
    with xy have "\<lfloor>x\<rfloor> + 1 \<le> \<lfloor>y\<rfloor>" using floor_mono [OF xy] by linarith
    then show ?thesis using rne_floor(2) [of x] rne_floor(1) [of y] by linarith
  qed
qed

section \<open>The binary exponent\<close>

lemma log2n_bounds: "0 < n \<Longrightarrow> 2 ^ log2n n \<le> n \<and> n < 2 ^ Suc (log2n n)"
proof (induction n rule: log2n.induct)
  case (1 n)
  show ?case
  proof (cases "n < 2")
    case True
    with 1 have "n = 1" by simp
    then show ?thesis by (simp add: log2n.simps)
  next
    case False
    then have IH: "2 ^ log2n (n div 2) \<le> n div 2 \<and> n div 2 < 2 ^ Suc (log2n (n div 2))"
      using 1 by simp
    have "log2n n = Suc (log2n (n div 2))" using False by (subst log2n.simps) simp
    with IH show ?thesis by (simp, linarith)
  qed
qed

lemma flog2_bounds:
  assumes "0 < x"
  shows "2 powi (flog2 x) \<le> x \<and> x < 2 powi (flog2 x + 1)"
proof (cases "1 \<le> x")
  case True
  define n where "n = nat \<lfloor>x\<rfloor>"
  have n: "0 < n" and xn: "of_nat n \<le> x" "x < of_nat n + 1"
    using True unfolding n_def by (simp_all add: le_nat_iff) linarith+
  from log2n_bounds [OF n] have "2 ^ log2n n \<le> n" and "n + 1 \<le> 2 ^ Suc (log2n n)" by auto
  then have "(2::rat) ^ log2n n \<le> of_nat n" and "of_nat n + 1 \<le> (2::rat) ^ Suc (log2n n)"
    by (metis of_nat_le_iff of_nat_numeral of_nat_power,
        metis of_nat_Suc of_nat_le_iff of_nat_numeral of_nat_power Suc_eq_plus1 add.commute)
  with xn have "2 ^ log2n n \<le> x" "x < 2 ^ Suc (log2n n)" by linarith+
  moreover have "flog2 x = int (log2n n)" using True by (simp add: flog2_def n_def)
  ultimately show ?thesis by (simp add: power_int_add)
next
  case False
  define m where "m = nat \<lceil>1 / x\<rceil>"
  from False assms have inv: "1 < 1 / x" by (simp add: field_simps)
  then have c: "1 < \<lceil>1 / x\<rceil>" by (simp add: less_ceiling_iff)
  then have m2: "2 \<le> m" unfolding m_def by linarith
  have mx: "1 / x \<le> of_nat m" "of_nat (m - 1) < 1 / x"
  proof -
    have "of_nat m = (of_int \<lceil>1 / x\<rceil> :: rat)" using c by (simp add: m_def)
    then show "1 / x \<le> of_nat m" by simp
    have "(of_nat (m - 1) :: rat) = of_int \<lceil>1 / x\<rceil> - 1" using c m2 by (simp add: m_def of_nat_diff)
    then show "of_nat (m - 1) < 1 / x" by linarith
  qed
  define k where "k = log2n (m - 1)"
  from m2 have "0 < m - 1" by simp
  from log2n_bounds [OF this] have k: "2 ^ k \<le> m - 1" "m \<le> 2 ^ Suc k" unfolding k_def by auto
  have "(2::rat) ^ k \<le> of_nat (m - 1)" using k(1) by (metis of_nat_le_iff of_nat_numeral of_nat_power)
  moreover have "of_nat m \<le> (2::rat) ^ Suc k" using k(2) by (metis of_nat_le_iff of_nat_numeral of_nat_power)
  ultimately have "2 ^ k < 1 / x" "1 / x \<le> 2 ^ Suc k" using mx by linarith+
  then have "x < 1 / 2 ^ k" "1 / 2 ^ Suc k \<le> x" using assms by (simp_all add: field_simps)
  moreover have "flog2 x = - int (Suc k)" using False m2
    by (simp add: flog2_def Let_def m_def [symmetric] k_def)
  moreover have "(2::rat) powi (- int (Suc k)) = 1 / 2 ^ Suc k"
    by (simp only: power_int_minus power_int_of_nat inverse_eq_divide)
  moreover have "(2::rat) powi (- int (Suc k) + 1) = 1 / 2 ^ k"
  proof -
    have "- int (Suc k) + 1 = - int k" by simp
    then show ?thesis by (simp only: power_int_minus power_int_of_nat inverse_eq_divide)
  qed
  ultimately show ?thesis by simp
qed

lemma powi2_add_nat: "(2::rat) powi (a + int n) = 2 ^ n * 2 powi a"
  using power_int_add [of "2::rat" a "int n"] by (simp add: mult.commute)

lemma powi2_mono: "a \<le> b \<Longrightarrow> (2::rat) powi a \<le> 2 powi b"
  by (rule power_int_increasing) auto

lemma powi2_pos [simp]: "0 < (2::rat) powi a"
  by (simp add: zero_less_power_int)

lemma powi2_less: "(2::rat) powi a < 2 powi b \<longleftrightarrow> a < b"
proof
  assume "(2::rat) powi a < 2 powi b"
  then show "a < b" using powi2_mono [of b a] by linarith
qed (rule power_int_strict_increasing, auto)

lemma flog2_mono:
  assumes "0 < x" and "x \<le> y"
  shows "flog2 x \<le> flog2 y"
proof -
  have "2 powi flog2 x < (2::rat) powi (flog2 y + 1)"
    using flog2_bounds [OF assms(1)] flog2_bounds [of y] assms by linarith
  then show ?thesis by (simp add: powi2_less)
qed

section \<open>Rounding\<close>

lemma fl_pos_upper:
  assumes "0 < x"
  shows "fl_pos x \<le> 2 powi (fl_exp x + 1)"
proof -
  let ?u = "(2::rat) powi (fl_exp x - 52)"
  have "x < 2 powi (fl_exp x + 1)"
    using flog2_bounds [OF assms] powi2_mono [of "flog2 x + 1" "fl_exp x + 1"] by (simp add: fl_exp_def)
  also have "\<dots> = 2 ^ 53 * ?u"
    using powi2_add_nat [of "fl_exp x - 52" 53] by (simp add: add.commute)
  finally have "x / ?u \<le> of_int (2 ^ 53)" by (simp add: divide_le_eq)
  then have "rne (x / ?u) \<le> 2 ^ 53" by (metis rne_mono rne_of_int)
  then have "(of_int (rne (x / ?u)) :: rat) \<le> of_int (2 ^ 53)" by (simp only: of_int_le_iff)
  then have "of_int (rne (x / ?u)) * ?u \<le> 2 ^ 53 * ?u" by (intro mult_right_mono) auto
  also have "\<dots> = 2 powi (fl_exp x + 1)" using powi2_add_nat [of "fl_exp x - 52" 53] by (simp add: add.commute)
  finally show ?thesis by (simp add: fl_pos_def Let_def)
qed

lemma fl_pos_lower:
  assumes "0 < x" and "2 powi (fl_exp x) \<le> x"
  shows "2 powi (fl_exp x) \<le> fl_pos x"
proof -
  let ?u = "(2::rat) powi (fl_exp x - 52)"
  have e: "2 powi (fl_exp x) = 2 ^ 52 * ?u"
    using powi2_add_nat [of "fl_exp x - 52" 52] by simp
  then have "of_int (2 ^ 52) \<le> x / ?u" using assms(2) by (simp add: le_divide_eq)
  then have "2 ^ 52 \<le> rne (x / ?u)" by (metis rne_mono rne_of_int)
  then have "(of_int (2 ^ 52) :: rat) \<le> of_int (rne (x / ?u))" by (simp only: of_int_le_iff)
  then have "2 ^ 52 * ?u \<le> of_int (rne (x / ?u)) * ?u" by (intro mult_right_mono) auto
  then show ?thesis by (simp add: fl_pos_def Let_def e)
qed

lemma fl_pos_mono:
  assumes "0 < x" and "x \<le> y"
  shows "fl_pos x \<le> fl_pos y"
proof (cases "fl_exp x = fl_exp y")
  case True
  have "x / 2 powi (fl_exp y - 52) \<le> y / 2 powi (fl_exp y - 52)"
    using assms by (intro divide_right_mono) auto
  then have "rne (x / 2 powi (fl_exp y - 52)) \<le> rne (y / 2 powi (fl_exp y - 52))" by (rule rne_mono)
  then show ?thesis using True by (simp add: fl_pos_def Let_def mult_right_mono)
next
  case False
  then have lt: "fl_exp x < fl_exp y" using flog2_mono [OF assms] by (auto simp: fl_exp_def)
  then have "fl_exp y = flog2 y" by (auto simp: fl_exp_def)
  then have y: "2 powi (fl_exp y) \<le> y" using flog2_bounds [of y] assms by auto
  have "fl_pos x \<le> 2 powi (fl_exp x + 1)" by (rule fl_pos_upper [OF assms(1)])
  also have "\<dots> \<le> 2 powi (fl_exp y)" using lt by (intro powi2_mono) simp
  also have "\<dots> \<le> fl_pos y" using assms y by (intro fl_pos_lower) auto
  finally show ?thesis .
qed

lemma fl_pos_nonneg: "0 < x \<Longrightarrow> 0 \<le> fl_pos x"
proof -
  assume "0 < x"
  then have "0 \<le> rne (x / 2 powi (fl_exp x - 52))" using rne_mono [of 0 "x / 2 powi (fl_exp x - 52)"]
    by (simp add: rne_def)
  then show ?thesis by (simp add: fl_pos_def Let_def)
qed

lemma fl_0 [simp]: "fl 0 = 0"
  by (simp add: fl_def)

lemma fl_nonneg: "0 \<le> x \<Longrightarrow> 0 \<le> fl x"
  using fl_pos_nonneg [of x] by (auto simp: fl_def)

lemma fl_uminus: "fl (- x) = - fl x"
  by (auto simp: fl_def)

theorem fl_mono: "x \<le> y \<Longrightarrow> fl x \<le> fl y"
proof -
  assume xy: "x \<le> y"
  consider "0 < x" | "x \<le> 0" "0 \<le> y" | "y < 0" by linarith
  then show ?thesis
  proof cases
    case 1
    with xy show ?thesis using fl_pos_mono [of x y] by (auto simp: fl_def)
  next
    case 2
    have "fl x \<le> 0" using fl_nonneg [of "- x"] 2 by (simp add: fl_uminus)
    also have "0 \<le> fl y" using 2 by (intro fl_nonneg)
    finally show ?thesis .
  next
    case 3
    with xy show ?thesis using fl_pos_mono [of "- y" "- x"] by (auto simp: fl_def)
  qed
qed

section \<open>Representable numbers\<close>

lemma fl_int_exact:
  assumes "\<bar>n\<bar> \<le> 2 ^ 53"
  shows "fl (of_int n) = of_int n"
proof -
  have pos: "fl_pos (of_int m) = of_int m" if m: "0 < m" "m \<le> 2 ^ 53" for m
  proof -
    let ?x = "of_int m :: rat"
    have x: "0 < ?x" using m by simp
    show ?thesis
    proof (cases "m = 2 ^ 53")
      case True
      have "2 powi 53 \<le> ?x" "?x < 2 powi 54" using True by simp_all
      then have "flog2 ?x = 53" using flog2_bounds [OF x] powi2_less [of "flog2 ?x" 54]
          powi2_less [of 53 "flog2 ?x + 1"] by linarith
      then show ?thesis using True by (simp add: fl_pos_def fl_exp_def Let_def rne_def)
    next
      case False
      then have "m < 2 ^ 53" using m by linarith
      then have "?x < of_int (2 ^ 53)" by (simp only: of_int_less_iff)
      then have "?x < 2 powi 53" by simp
      then have le: "flog2 ?x < 53" using flog2_bounds [OF x] powi2_less [of "flog2 ?x" 53] by linarith
      have "1 \<le> ?x" using m by simp
      then have "(2::rat) powi 0 < 2 powi (flog2 ?x + 1)" using flog2_bounds [OF x] by auto
      then have ge: "0 \<le> flog2 ?x" by (simp only: powi2_less)
      define k where "k = nat (52 - flog2 ?x)"
      have "fl_exp ?x - 52 = - int k" using ge le by (simp add: k_def fl_exp_def)
      then have "fl_pos ?x = of_int (rne (of_int (m * 2 ^ k))) / 2 ^ k"
        by (simp add: fl_pos_def Let_def power_int_minus divide_inverse)
      also have "\<dots> = of_int m" by (simp only: rne_of_int) simp
      finally show ?thesis .
    qed
  qed
  show ?thesis using assms pos [of n] pos [of "- n"] by (auto simp: fl_def)
qed

lemma is_float_int: "\<bar>n\<bar> \<le> 2 ^ 53 \<Longrightarrow> is_float (of_int n)"
  by (simp add: is_float_def fl_int_exact)

lemma is_float_half:
  assumes "n < 2 ^ 53"
  shows "is_float (of_nat n / 2)"
proof (cases "n = 0")
  case True
  then show ?thesis by (simp add: is_float_def)
next
  case False
  let ?x = "of_nat n / 2 :: rat"
  have x: "0 < ?x" using False by simp
  have "(of_nat n :: rat) < 2 ^ 53" using assms by (metis of_nat_less_iff of_nat_numeral of_nat_power)
  then have "?x < 2 powi 52" by simp
  then have le: "flog2 ?x < 52" using flog2_bounds [OF x] powi2_less [of "flog2 ?x" 52] by linarith
  have "1 / 2 \<le> ?x" using False by simp
  then have "(2::rat) powi (- 1) < 2 powi (flog2 ?x + 1)" using flog2_bounds [OF x] by auto
  then have ge: "- 1 \<le> flog2 ?x" by (simp only: powi2_less)
  define k where "k = nat (51 - flog2 ?x)"
  have "fl_exp ?x - 52 = - int (Suc k)" using ge le by (simp add: k_def fl_exp_def)
  then have u: "(2::rat) powi (fl_exp ?x - 52) = 1 / 2 ^ Suc k"
    by (simp only: power_int_minus power_int_of_nat inverse_eq_divide)
  have scaled: "?x / (1 / 2 ^ Suc k) = of_int (int n * 2 ^ k)" by simp
  have "fl_pos ?x = of_int (int n * 2 ^ k) * (1 / 2 ^ Suc k)"
    by (simp only: fl_pos_def Let_def u scaled rne_of_int)
  also have "\<dots> = ?x" by simp
  finally show ?thesis using x by (simp add: is_float_def fl_def)
qed

text \<open>A comparison of a rounded value with a float decides as the exact one, in one direction.\<close>

lemma fl_ge_float: "is_float r \<Longrightarrow> r \<le> x \<Longrightarrow> r \<le> fl x"
  using fl_mono [of r x] by (simp add: is_float_def)

lemma fl_le_float: "is_float r \<Longrightarrow> x \<le> r \<Longrightarrow> fl x \<le> r"
  using fl_mono [of x r] by (simp add: is_float_def)

lemma fl_less_floatD: "is_float r \<Longrightarrow> fl x < r \<Longrightarrow> x < r"
  using fl_ge_float [of r x] by linarith

lemma fl_greater_floatD: "is_float r \<Longrightarrow> r < fl x \<Longrightarrow> r < x"
  using fl_le_float [of r x] by linarith

end
