(* ===== verification/Ensemble.thy ===== *)
theory Ensemble
  imports Judge Py_Float
begin

text \<open>
  \<^verbatim>\<open>evidence_ensemble.py\<close>: several judges vote on the state of each competency. A judge that
  raises, fails the gate or repeats a competency abstains and is recorded as a failure.
  \<^verbatim>\<open>sum\<close> adds from left to right with binary64 additions, as CPython 3.11 does.
  The lemmas show what a consensus means and that the findings of an ensemble pass the
  grounding demands of the gate.
\<close>

section \<open>The code\<close>

definition EvidenceJudgeEnsemble :: "evidence_judge list \<Rightarrow> rat \<Rightarrow> (evidence_judge list \<times> rat) result" where
  "EvidenceJudgeEnsemble judges threshold =
     raise_if (length judges < 2) (ValueError ''EvidenceJudgeEnsemble requires at least two judges'')
     (raise_if (\<not> distinct (map judge_id judges))
       (ValueError ''EvidenceJudgeEnsemble judge ids must be unique'')
     (raise_if (\<not> (1/2 < threshold \<and> threshold \<le> 1))
       (ValueError ''agreement_threshold must be in (0.5, 1.0]'')
     (Inr (judges, threshold))))"

definition ensemble_id :: "evidence_judge list \<Rightarrow> string" where
  "ensemble_id judges = ''ensemble:'' @ join ''+'' (map judge_id judges)"

fun map_findings :: "judge_finding list \<Rightarrow> (string, judge_finding) dict
    \<Rightarrow> (string, judge_finding) dict result" where
  "map_findings [] mapped = Inr mapped"
| "map_findings (f # fs) mapped =
     raise_if (dict_get mapped (fnd_competency_id f) \<noteq> None)
       (EvidenceJudgeError (''judge returned duplicate findings for competency ''
          @ repr_str (fnd_competency_id f)))
     (map_findings fs (dict_set (fnd_competency_id f) f mapped))"

text \<open>The body of the \<^verbatim>\<open>try\<close> for one judge.\<close>

definition run_judge :: "turn \<Rightarrow> turn \<Rightarrow> job_spec \<Rightarrow> string list \<Rightarrow> evidence_judge
    \<Rightarrow> (string, judge_finding) dict result" where
  "run_judge q a job cids j =
     ebind (evaluate j q a job cids) (\<lambda>response.
     ebind (gate_validate a response (judge_id j)) (\<lambda>_.
     map_findings (findings response) []))"

definition judge_failures :: "turn \<Rightarrow> turn \<Rightarrow> job_spec \<Rightarrow> string list \<Rightarrow> evidence_judge list \<Rightarrow> json list" where
  "judge_failures q a job cids judges = concat (map (\<lambda>j.
     case run_judge q a job cids j of
       Inl e \<Rightarrow> [JObj [(''judge_id'', JStr (judge_id j)), (''error_type'', JStr (exn_name e)),
                       (''error'', JStr (take 1000 (exn_str e)))]]
     | Inr _ \<Rightarrow> []) judges)"

text \<open>\<^verbatim>\<open>findings_by_judge\<close>, in the order of the judges, whose identifiers are distinct.\<close>

definition findings_by_judge :: "turn \<Rightarrow> turn \<Rightarrow> job_spec \<Rightarrow> string list \<Rightarrow> evidence_judge list
    \<Rightarrow> (string \<times> (string, judge_finding) dict) list" where
  "findings_by_judge q a job cids judges = map (\<lambda>j.
     (judge_id j, case run_judge q a job cids j of Inl _ \<Rightarrow> [] | Inr m \<Rightarrow> m)) judges"

definition required_votes :: "rat \<Rightarrow> nat \<Rightarrow> int" where
  "required_votes threshold n = \<lceil>fl (threshold * of_nat n)\<rceil>"

text \<open>\<^verbatim>\<open>max(items, key=...)\<close>: the first one that no later one exceeds.\<close>

fun max_by :: "('a \<Rightarrow> 'a \<Rightarrow> bool) \<Rightarrow> 'a \<Rightarrow> 'a list \<Rightarrow> 'a" where
  "max_by lt best [] = best"
| "max_by lt best (x # xs) = max_by lt (if lt best x then x else best) xs"

definition vote_less :: "string \<times> nat \<Rightarrow> string \<times> nat \<Rightarrow> bool" where
  "vote_less v w = (snd v < snd w \<or> (snd v = snd w \<and> fst v < fst w))"

text \<open>\<^verbatim>\<open>Counter\<close>: the counts, in the order of first occurrence.\<close>

definition vote_counts :: "string list \<Rightarrow> (string \<times> nat) list" where
  "vote_counts vs = map (\<lambda>v. (v, count_list vs v)) (fromkeys vs)"

definition all_states :: "evidence_state list" where
  "all_states = [UNKNOWN, CLAIMED, DEMONSTRATED, VERIFIED, CONTRADICTED, INSUFFICIENT]"

definition state_by_value :: "string \<Rightarrow> evidence_state option" where
  "state_by_value v = find (\<lambda>st. evidence_state_value st = v) all_states"

text \<open>\<^verbatim>\<open>sum\<close> of floats as the interpreter of the Dockerfile (3.12) computes it: the rounding errors are summed apart.\<close>

fun fsum_from :: "rat \<Rightarrow> rat \<Rightarrow> rat list \<Rightarrow> rat" where
  "fsum_from acc c [] = (if c = 0 then acc else fl (acc + c))"
| "fsum_from acc c (x # xs) =
     (let t = fl (acc + x)
      in fsum_from t (fl (c + (if \<bar>x\<bar> \<le> \<bar>acc\<bar> then fl (fl (acc - t) + x) else fl (fl (x - t) + acc)))) xs)"

definition fsum :: "rat list \<Rightarrow> rat" where
  "fsum xs = fsum_from 0 0 xs"

definition consensus_vote :: "judge_finding list \<Rightarrow> (evidence_state \<times> nat) option" where
  "consensus_vote found =
     (case vote_counts (map (\<lambda>f. evidence_state_value (fnd_state f)) found) of
        [] \<Rightarrow> None
      | v # vs \<Rightarrow> let best = max_by vote_less v vs
                   in map_option (\<lambda>st. (st, snd best)) (state_by_value (fst best)))"

definition consensus_finding :: "string \<Rightarrow> evidence_state \<Rightarrow> nat \<Rightarrow> nat \<Rightarrow> judge_finding list
    \<Rightarrow> judge_finding" where
  "consensus_finding cid st count n agreeing =
     (let src = max_by (\<lambda>f g. fnd_confidence f < fnd_confidence g) (hd agreeing) (tl agreeing)
      in \<lparr> fnd_competency_id = cid, fnd_state = st,
           fnd_confidence = py_round (fl (fsum (map fnd_confidence agreeing)
                                        / of_nat (length agreeing))) 4,
           fnd_quote = (if needs_quote st then fnd_quote src else None),
           fnd_rationale = ''Consensus from '' @ show_nat count @ ''/'' @ show_nat n
             @ '' semantic judges. '' @ fnd_rationale src \<rparr>)"

definition no_consensus_finding :: "string \<Rightarrow> rat \<Rightarrow> int \<Rightarrow> nat \<Rightarrow> judge_finding" where
  "no_consensus_finding cid agreement_ratio required n =
     \<lparr> fnd_competency_id = cid, fnd_state = INSUFFICIENT,
       fnd_confidence = py_round agreement_ratio 4, fnd_quote = None,
       fnd_rationale = ''No semantic evidence state reached the ensemble threshold of ''
         @ show_int required @ ''/'' @ show_nat n @ '' judges.'' \<rparr>"

text \<open>The body of the loop over the competencies: the finding and its audit entry.\<close>

definition judge_competency :: "rat \<Rightarrow> (string \<times> (string, judge_finding) dict) list \<Rightarrow> string
    \<Rightarrow> (judge_finding \<times> json) result" where
  "judge_competency threshold fbj cid =
     (let n = length fbj; required = required_votes threshold n;
          votes = map (\<lambda>(jid, m). JObj [(''judge_id'', JStr jid), (''state'', JStr
             (case dict_get m cid of None \<Rightarrow> ''no_finding''
              | Some f \<Rightarrow> evidence_state_value (fnd_state f)))]) fbj;
          found = List.map_filter (\<lambda>(jid, m). dict_get m cid) fbj;
          vote = consensus_vote found;
          count = (case vote of None \<Rightarrow> 0 | Some (_, c) \<Rightarrow> c);
          agreement_ratio = fl (of_nat count / of_nat n);
          met = (vote \<noteq> None \<and> required \<le> int count)
      in ebind (JudgeFinding (case vote of
             Some (st, _) \<Rightarrow>
               (if met then consensus_finding cid st count n (filter (\<lambda>f. fnd_state f = st) found)
                else no_consensus_finding cid agreement_ratio required n)
           | None \<Rightarrow> no_consensus_finding cid agreement_ratio required n)) (\<lambda>finding.
         Inr (finding, JObj
           [(''competency_id'', JStr cid), (''votes'', JList votes),
            (''agreement_count'', JInt (int count)),
            (''agreement_ratio'', JFloat (py_round agreement_ratio 4)),
            (''required_votes'', JInt required), (''threshold_met'', JBool met),
            (''consensus_state'', case vote of Some (st, _) \<Rightarrow>
               if met then JStr (evidence_state_value st) else JNull | None \<Rightarrow> JNull)])))"

definition ensemble_evaluate :: "evidence_judge list \<Rightarrow> rat \<Rightarrow> turn \<Rightarrow> turn \<Rightarrow> job_spec \<Rightarrow> string list
    \<Rightarrow> judge_response result" where
  "ensemble_evaluate judges threshold q a job cids =
     (let fbj = findings_by_judge q a job cids judges
      in ebind (emap (judge_competency threshold fbj) cids) (\<lambda>results.
         Inr \<lparr> findings = map fst results, response_audit =
           [(''kind'', JStr ''evidence_judge_ensemble''),
            (''judge_ids'', JList (map (\<lambda>j. JStr (judge_id j)) judges)),
            (''agreement_threshold'', JFloat threshold),
            (''required_votes'', JInt (required_votes threshold (length judges))),
            (''failures'', JList (judge_failures q a job cids judges)),
            (''competencies'', JList (map snd results))] \<rparr>))"

definition ensemble_judge :: "evidence_judge list \<Rightarrow> rat \<Rightarrow> evidence_judge" where
  "ensemble_judge judges threshold =
     \<lparr> judge_id = ensemble_id judges, evaluate = ensemble_evaluate judges threshold \<rparr>"

section \<open>Lemmas\<close>

lemma max_by_mem: "max_by lt x xs \<in> set (x # xs)"
proof (induction xs arbitrary: x)
  case Nil
  then show ?case by simp
next
  case (Cons y ys)
  show ?case using Cons.IH [of "if lt x y then y else x"] by auto
qed

text \<open>For a key with a linear order the result is a maximum.\<close>

lemma max_by_ge:
  assumes "\<And>u v w. lt u v \<Longrightarrow> lt v w \<Longrightarrow> lt u w" and "\<And>u v w. lt u w \<Longrightarrow> lt u v \<or> lt v w"
    and "\<And>u. \<not> lt u u" and "y \<in> set (x # xs)"
  shows "\<not> lt (max_by lt x xs) y"
  using assms(4)
proof (induction xs arbitrary: x y)
  case Nil
  then show ?case using assms(3) by simp
next
  case (Cons z zs)
  let ?b = "if lt x z then z else x"
  have "\<not> lt (max_by lt ?b zs) w" if "w \<in> set (?b # zs)" for w using Cons.IH that .
  moreover have "\<not> lt ?b x" "\<not> lt ?b z" using assms(1,3) by auto
  ultimately have "\<not> lt (max_by lt ?b zs) x" "\<not> lt (max_by lt ?b zs) z"
    using assms(2) [of "max_by lt ?b zs"] by (metis list.set_intros(1))+
  with \<open>\<And>w. w \<in> set (?b # zs) \<Longrightarrow> \<not> lt (max_by lt ?b zs) w\<close> Cons.prems show ?case by auto
qed

lemma vote_less_trans: "vote_less u v \<Longrightarrow> vote_less v w \<Longrightarrow> vote_less u w"
  by (auto simp: vote_less_def)

lemma vote_less_conn: "vote_less u w \<Longrightarrow> vote_less u v \<or> vote_less v w"
  unfolding vote_less_def by force

lemma evidence_state_value_inj: "evidence_state_value a = evidence_state_value b \<longleftrightarrow> a = b"
  by (cases a; cases b) auto

lemma state_by_value [simp]: "state_by_value (evidence_state_value st) = Some st"
  by (cases st) (simp_all add: state_by_value_def all_states_def)

lemma count_states:
  "count_list (map (\<lambda>f. evidence_state_value (fnd_state f)) found) (evidence_state_value st)
     = length (filter (\<lambda>f. fnd_state f = st) found)"
  by (induction found) (auto simp: evidence_state_value_inj)

text \<open>The winner of a vote: its count is the number of its findings, and no state has more.\<close>

lemma consensus_vote_Some:
  assumes "consensus_vote found = Some (st, c)"
  shows "c = length (filter (\<lambda>f. fnd_state f = st) found)" and "0 < c"
    and "length (filter (\<lambda>f. fnd_state f = st') found) \<le> c"
proof -
  let ?vs = "map (\<lambda>f. evidence_state_value (fnd_state f)) found"
  from assms obtain v vs where vc: "vote_counts ?vs = v # vs"
    and st: "state_by_value (fst (max_by vote_less v vs)) = Some st"
    and c: "c = snd (max_by vote_less v vs)"
    by (auto simp: consensus_vote_def Let_def split: list.splits)
  have "max_by vote_less v vs \<in> set (vote_counts ?vs)"
    unfolding vc by (rule max_by_mem)
  then obtain f where f: "f \<in> set found"
    and m: "max_by vote_less v vs = (evidence_state_value (fnd_state f),
              count_list ?vs (evidence_state_value (fnd_state f)))"
    by (auto simp: vote_counts_def)
  have "fnd_state f = st" using st m by simp
  then show cnt: "c = length (filter (\<lambda>f. fnd_state f = st) found)"
    using c m by (simp add: count_states)
  show "0 < c" using cnt f \<open>fnd_state f = st\<close> by (auto simp: filter_empty_conv)
  show "length (filter (\<lambda>f. fnd_state f = st') found) \<le> c"
  proof (cases "\<exists>g\<in>set found. fnd_state g = st'")
    case True
    then have mem: "(evidence_state_value st', count_list ?vs (evidence_state_value st')) \<in> set (v # vs)"
      unfolding vc [symmetric] by (auto simp: vote_counts_def)
    have "\<not> vote_less (max_by vote_less v vs)
        (evidence_state_value st', count_list ?vs (evidence_state_value st'))"
      by (rule max_by_ge [OF _ _ _ mem]) (auto intro: vote_less_trans dest: vote_less_conn simp: vote_less_def)
    then show ?thesis using c by (auto simp: vote_less_def count_states)
  next
    case False
    then show ?thesis by (simp add: filter_empty_conv [THEN iffD2])
  qed
qed

lemma map_findings_set:
  assumes "map_findings fs mapped = Inr m" and "dict_get m cid = Some f"
  shows "dict_get mapped cid = Some f \<or> (f \<in> set fs \<and> fnd_competency_id f = cid)"
  using assms by (induction fs mapped rule: map_findings.induct) (auto simp: exn_simps split: if_splits)

text \<open>Every finding that is counted has passed the gate.\<close>

lemma run_judge_grounded:
  assumes "run_judge q a job cids j = Inr m" and "dict_get m cid = Some f"
  shows "grounded_finding a f" and "fnd_competency_id f = cid"
  using assms map_findings_set [of _ "[]" m cid f]
  by (auto simp: run_judge_def exn_simps gate_validate_Inr)

text \<open>The findings of the judges for a competency.\<close>

definition found_for :: "(string \<times> (string, judge_finding) dict) list \<Rightarrow> string \<Rightarrow> judge_finding list" where
  "found_for fbj cid = List.map_filter (\<lambda>(jid, m). dict_get m cid) fbj"

definition votes_for :: "(string \<times> (string, judge_finding) dict) list \<Rightarrow> string \<Rightarrow> evidence_state \<Rightarrow> nat" where
  "votes_for fbj cid st = length (filter (\<lambda>f. fnd_state f = st) (found_for fbj cid))"

lemma found_for_grounded:
  assumes "f \<in> set (found_for (findings_by_judge q a job cids judges) cid)"
  shows "grounded_finding a f"
proof -
  from assms obtain j where "j \<in> set judges"
    and get: "dict_get (case run_judge q a job cids j of Inl _ \<Rightarrow> [] | Inr m \<Rightarrow> m) cid = Some f"
    by (auto simp: found_for_def findings_by_judge_def List.map_filter_def)
  then obtain m where "run_judge q a job cids j = Inr m" and "dict_get m cid = Some f"
    by (cases "run_judge q a job cids j") auto
  then show ?thesis by (rule run_judge_grounded)
qed

lemma JudgeFinding_Inr: "JudgeFinding f = Inr f' \<Longrightarrow> f' = f \<and> judge_finding_fields_ok f"
  by (auto simp: JudgeFinding_def exn_simps)

lemma consensus_finding_simps [simp]:
  "fnd_competency_id (consensus_finding cid st count n agreeing) = cid"
  "fnd_state (consensus_finding cid st count n agreeing) = st"
  by (simp_all add: consensus_finding_def Let_def)

lemma consensus_finding_grounded:
  assumes "agreeing \<noteq> []" and "\<And>f. f \<in> set agreeing \<Longrightarrow> grounded_finding a f \<and> fnd_state f = st"
  shows "grounded_finding a (consensus_finding cid st count n agreeing)"
proof -
  let ?src = "max_by (\<lambda>f g. fnd_confidence f < fnd_confidence g) (hd agreeing) (tl agreeing)"
  have "?src \<in> set (hd agreeing # tl agreeing)" by (rule max_by_mem)
  then have "grounded_finding a ?src \<and> fnd_state ?src = st" using assms by simp
  then show ?thesis by (auto simp: grounded_finding_def consensus_finding_def Let_def)
qed

lemma judge_competency_sound:
  assumes "judge_competency threshold fbj cid = Inr (f, audit)"
    and "\<And>g. g \<in> set (found_for fbj cid) \<Longrightarrow> grounded_finding a g"
  shows "fnd_competency_id f = cid" and "grounded_finding a f" and "judge_finding_fields_ok f"
    and "fnd_state f \<noteq> INSUFFICIENT \<Longrightarrow>
           required_votes threshold (length fbj) \<le> int (votes_for fbj cid (fnd_state f))
           \<and> (\<forall>st. votes_for fbj cid st \<le> votes_for fbj cid (fnd_state f))"
proof -
  define vote where "vote = consensus_vote (found_for fbj cid)"
  define count where "count = (case vote of None \<Rightarrow> 0 | Some (_, c) \<Rightarrow> c)"
  define none where "none = no_consensus_finding cid (fl (of_nat count / of_nat (length fbj)))
      (required_votes threshold (length fbj)) (length fbj)"
  let ?met = "\<exists>st. vote = Some (st, count) \<and> required_votes threshold (length fbj) \<le> int count"
  have ok: "judge_finding_fields_ok f"
    using assms(1) by (auto simp: judge_competency_def Let_def exn_simps dest: JudgeFinding_Inr)
  have none: "fnd_competency_id none = cid" "fnd_state none = INSUFFICIENT" "grounded_finding a none"
    by (simp_all add: none_def no_consensus_finding_def grounded_finding_def needs_quote_def)
  consider (no) "f = none"
    | (yes) st where "vote = Some (st, count)" and "required_votes threshold (length fbj) \<le> int count"
      and "f = consensus_finding cid st count (length fbj)
             (filter (\<lambda>f. fnd_state f = st) (found_for fbj cid))"
    using assms(1) by (auto simp: judge_competency_def Let_def exn_simps none_def count_def vote_def
        found_for_def dest!: JudgeFinding_Inr split: option.splits if_splits)
  then have "fnd_competency_id f = cid \<and> grounded_finding a f \<and> (fnd_state f \<noteq> INSUFFICIENT \<longrightarrow>
      required_votes threshold (length fbj) \<le> int (votes_for fbj cid (fnd_state f))
      \<and> (\<forall>st. votes_for fbj cid st \<le> votes_for fbj cid (fnd_state f)))"
  proof cases
    case no
    with none show ?thesis by simp
  next
    case (yes st)
    note win = consensus_vote_Some [OF yes(1) [unfolded vote_def]]
    have "filter (\<lambda>f. fnd_state f = st) (found_for fbj cid) \<noteq> []" using win(1,2) by auto
    then have "grounded_finding a f"
      unfolding yes(3) using assms(2) by (intro consensus_finding_grounded) auto
    with yes win show ?thesis by (simp add: votes_for_def)
  qed
  with ok show "fnd_competency_id f = cid" "grounded_finding a f" "judge_finding_fields_ok f"
    "fnd_state f \<noteq> INSUFFICIENT \<Longrightarrow>
           required_votes threshold (length fbj) \<le> int (votes_for fbj cid (fnd_state f))
           \<and> (\<forall>st. votes_for fbj cid st \<le> votes_for fbj cid (fnd_state f))"
    by simp_all
qed

text \<open>The votes that a consensus needs are at least half of the judges.\<close>

lemma required_votes_half:
  assumes "1/2 < threshold" and "n < 2 ^ 53"
  shows "int n \<le> 2 * required_votes threshold n"
proof -
  have "is_float (of_nat n / 2)" using assms(2) by (rule is_float_half)
  moreover have "of_nat n / 2 \<le> threshold * of_nat n"
    using mult_right_mono [of "1/2" threshold "of_nat n"] assms(1) by simp
  ultimately have "of_nat n / 2 \<le> fl (threshold * of_nat n)" by (rule fl_ge_float)
  then have "of_nat n / 2 \<le> (of_int (required_votes threshold n) :: rat)"
    unfolding required_votes_def by linarith
  then have "(of_int (int n) :: rat) \<le> of_int (2 * required_votes threshold n)" by simp
  then show ?thesis by (simp only: of_int_le_iff)
qed

end
