(* ===== verification/Review.thy ===== *)
theory Review
  imports Feedback Ensemble
begin

text \<open>
  \<^verbatim>\<open>review.py\<close>: the report a recruiter gets of a session and its line in the review queue. The
  lemmas say when a report calls for human review, and that the judge run it shows for an
  answer is the latest one.
\<close>

section \<open>The report\<close>

record competency_summary =
  csm_competency_id :: string
  csm_description :: string
  csm_state :: evidence_state
  csm_confidence :: "rat option"
  csm_evidence_count :: nat
  csm_source_types :: "string list"

record run_summary =
  rsm_id :: string
  rsm_judge_id :: string
  rsm_answer_turn_id :: string
  rsm_created_at :: string
  rsm_transcript_revision_count :: int
  rsm_current_revision_count :: int
  rsm_observation_count :: nat
  rsm_failed :: bool
  rsm_stale :: bool
  rsm_supersedes_run_id :: "string option"

record assignment_summary =
  asm_id :: string
  asm_reviewer_id :: string
  asm_assigned_by :: string
  asm_status :: review_assignment_status
  asm_created_at :: string
  asm_started_at :: "string option"
  asm_completed_at :: "string option"
  asm_cancelled_at :: "string option"
  asm_assignment_note :: "string option"
  asm_completion_note :: "string option"
  asm_cancellation_reason :: "string option"

record review_reason =
  reason_code :: string
  reason_summary :: string
  reason_severity :: string

text \<open>The appeals and signals of a report are those of the session, less a signal's evidence.\<close>

record signal_summary =
  ssm_id :: string
  ssm_kind :: string
  ssm_confidence :: rat
  ssm_note :: string
  ssm_requires_human_review :: bool
  ssm_review_status :: integrity_review_status
  ssm_reviewed_by :: "string option"
  ssm_review_note :: "string option"

record session_report =
  rep_session_id :: string
  rep_job_id :: string
  rep_role :: string
  rep_candidate_ref :: string
  rep_status :: string
  rep_competencies :: "competency_summary list"
  rep_judge_runs :: "run_summary list"
  rep_assignments :: "assignment_summary list"
  rep_reasons :: "review_reason list"
  rep_appeals :: "candidate_appeal list"
  rep_integrity :: "signal_summary list"
  rep_pending_appeals :: nat
  rep_integrity_signals :: nat
  rep_unresolved_tools :: nat
  rep_stale_runs :: nat
  rep_failed_runs :: nat
  rep_transcript_revisions :: nat
  rep_requires_human_review :: bool

text \<open>\<^verbatim>\<open>ReviewReason(...)\<close> with its length bounds.\<close>

definition ReviewReason :: "string \<Rightarrow> string \<Rightarrow> string \<Rightarrow> review_reason result" where
  "ReviewReason code severity summary =
     raise_if (\<not> (len_between 1 120 code \<and> len_between 1 500 summary)) (ValidationError ''ReviewReason'')
       (Inr \<lparr> reason_code = code, reason_summary = summary, reason_severity = severity \<rparr>)"

definition reason_if :: "bool \<Rightarrow> string \<Rightarrow> string \<Rightarrow> string \<Rightarrow> review_reason list result" where
  "reason_if b code severity summary =
     (if b then ebind (ReviewReason code severity summary) (\<lambda>x. Inr [x]) else Inr [])"

definition summarize_competency :: "interview_session \<Rightarrow> competency \<Rightarrow> competency_summary" where
  "summarize_competency s c =
     (let node = dict_get (evidence_graph s) (competency_key c);
          evidence = (case node of None \<Rightarrow> [] | Some n \<Rightarrow> node_evidence n)
      in \<lparr> csm_competency_id = competency_key c, csm_description = competency_description c,
           csm_state = reported_state s (competency_key c),
           csm_confidence = (case node of None \<Rightarrow> None | Some n \<Rightarrow> node_confidence n),
           csm_evidence_count = length evidence,
           csm_source_types = sorted_set (map ev_source evidence) \<rparr>)"

definition competency_reason :: "interview_session \<Rightarrow> competency \<Rightarrow> review_reason list result" where
  "competency_reason s c =
     (let st = reported_state s (competency_key c)
      in if st = CONTRADICTED
         then reason_if True ''conflicting_evidence'' ''high''
                (''Competency '' @ repr_str (competency_key c) @ '' contains contradicted evidence.'')
         else reason_if (st \<in> {UNKNOWN, INSUFFICIENT, CLAIMED}) ''insufficient_evidence'' ''attention''
                (''Competency '' @ repr_str (competency_key c) @ '' lacks demonstrated or verified evidence.''))"

text \<open>The revisions of each turn, and the latest run of each answer.\<close>

definition revisions_by_turn :: "interview_session \<Rightarrow> (string, int) dict" where
  "revisions_by_turn s = fold (\<lambda>r d. dict_set (rev_turn_id r) (dict_get_or d (rev_turn_id r) 0 + 1) d)
     (transcript_revisions s) []"

definition latest_run_by_answer :: "interview_session \<Rightarrow> (string, evidence_judge_run) dict" where
  "latest_run_by_answer s = fold (\<lambda>run d. case dict_get d (run_answer_turn_id run) of
       None \<Rightarrow> dict_set (run_answer_turn_id run) run d
     | Some current \<Rightarrow> if run_created_at current < run_created_at run
                       then dict_set (run_answer_turn_id run) run d else d)
     (evidence_judge_runs s) []"

definition summarize_run :: "runtime \<Rightarrow> interview_session \<Rightarrow> evidence_judge_run \<Rightarrow> run_summary" where
  "summarize_run R s run =
     (let current = dict_get_or (revisions_by_turn s) (run_answer_turn_id run) 0
      in \<lparr> rsm_id = run_id run, rsm_judge_id = run_judge_id run,
           rsm_answer_turn_id = run_answer_turn_id run, rsm_created_at = isoformat R (run_created_at run),
           rsm_transcript_revision_count = run_transcript_revision_count run,
           rsm_current_revision_count = current,
           rsm_observation_count = length (run_observation_ids run),
           rsm_failed = (run_error run \<noteq> None),
           rsm_stale = (run_transcript_revision_count run \<noteq> current),
           rsm_supersedes_run_id = run_supersedes_run_id run \<rparr>)"

definition run_reason :: "run_summary \<Rightarrow> review_reason list result" where
  "run_reason r =
     (if rsm_failed r
      then reason_if True ''evidence_judge_failed'' ''attention''
             (''Latest evidence judge run for answer '' @ repr_str (rsm_answer_turn_id r)
                @ '' failed and requires review.'')
      else reason_if (rsm_stale r) ''evidence_reevaluation_needed'' ''attention''
             (''Answer '' @ repr_str (rsm_answer_turn_id r) @ '' changed after its latest ''
                @ ''semantic evidence evaluation.''))"

text \<open>\<^verbatim>\<open>sorted(..., key=created_at, reverse=True)\<close> keeps the order of equal keys.\<close>

definition reported_runs :: "runtime \<Rightarrow> interview_session \<Rightarrow> run_summary list" where
  "reported_runs R s = map (summarize_run R s)
     (sort_key (\<lambda>r. - run_created_at r) (map snd (latest_run_by_answer s)))"

definition summarize_assignment :: "runtime \<Rightarrow> review_assignment \<Rightarrow> assignment_summary" where
  "summarize_assignment R a = \<lparr> asm_id = asg_id a, asm_reviewer_id = asg_reviewer_id a,
     asm_assigned_by = asg_assigned_by a, asm_status = asg_status a,
     asm_created_at = isoformat R (asg_created_at a),
     asm_started_at = map_option (isoformat R) (asg_started_at a),
     asm_completed_at = map_option (isoformat R) (asg_completed_at a),
     asm_cancelled_at = map_option (isoformat R) (asg_cancelled_at a),
     asm_assignment_note = asg_note a, asm_completion_note = asg_completion_note a,
     asm_cancellation_reason = asg_cancellation_reason a \<rparr>"

definition summarize_signal :: "integrity_signal \<Rightarrow> signal_summary" where
  "summarize_signal g = \<lparr> ssm_id = signal_id g, ssm_kind = signal_kind g,
     ssm_confidence = signal_confidence g, ssm_note = signal_note g,
     ssm_requires_human_review = requires_human_review g,
     ssm_review_status = signal_review_status g, ssm_reviewed_by = signal_reviewed_by g,
     ssm_review_note = signal_review_note g \<rparr>"

definition count_pending_appeals :: "interview_session \<Rightarrow> nat" where
  "count_pending_appeals s = length (filter (\<lambda>a. appeal_status a = AppealPENDING) (appeals s))"

definition count_pending_signals :: "interview_session \<Rightarrow> nat" where
  "count_pending_signals s =
     length (filter (\<lambda>g. signal_review_status g = IntegrityPENDING) (integrity_signals s))"

definition count_unresolved_tools :: "interview_session \<Rightarrow> nat" where
  "count_unresolved_tools s =
     length (filter (\<lambda>t. tool_status t \<in> {ToolOPEN, ToolSUBMITTED}) (tools s))
     + length (filter (\<lambda>ev. eval_passed ev = None) (tool_evaluations s))"

definition report_reasons :: "runtime \<Rightarrow> interview_session \<Rightarrow> job_spec \<Rightarrow> review_reason list result" where
  "report_reasons R s job =
     ebind (emap (competency_reason s) (competencies job)) (\<lambda>r1.
     ebind (emap run_reason (reported_runs R s)) (\<lambda>r2.
     ebind (reason_if (count_pending_appeals s \<noteq> 0) ''pending_appeal'' ''high''
       (show_nat (count_pending_appeals s) @ '' candidate appeal(s) require review.'')) (\<lambda>r3.
     ebind (reason_if (count_pending_signals s \<noteq> 0) ''integrity_signal'' ''high''
       (show_nat (count_pending_signals s) @ '' pending integrity signal(s) require human review.'')) (\<lambda>r4.
     ebind (reason_if (count_unresolved_tools s \<noteq> 0) ''tool_review_pending'' ''attention''
       (show_nat (count_unresolved_tools s)
          @ '' practical artifact review item(s) remain unresolved.'')) (\<lambda>r5.
     ebind (reason_if (transcript_revisions s \<noteq> []) ''transcript_revised'' ''info''
       (show_nat (length (transcript_revisions s)) @ '' candidate transcript ''
          @ ''revision(s) are present in the audit history.'')) (\<lambda>r6.
     Inr (concat r1 @ concat r2 @ r3 @ r4 @ r5 @ r6)))))))"

definition build_recruiter_report :: "runtime \<Rightarrow> interview_session \<Rightarrow> job_spec \<Rightarrow> session_report result" where
  "build_recruiter_report R s job =
     ebind (report_reasons R s job) (\<lambda>reasons.
     let runs = reported_runs R s
     in Inr \<lparr> rep_session_id = session_id s, rep_job_id = session_job_id s, rep_role = job_title job,
          rep_candidate_ref = candidate_ref s, rep_status = status_value (status s),
          rep_competencies = map (summarize_competency s) (competencies job),
          rep_judge_runs = runs, rep_assignments = map (summarize_assignment R) (review_assignments s),
          rep_reasons = reasons, rep_appeals = appeals s,
          rep_integrity = map summarize_signal (integrity_signals s),
          rep_pending_appeals = count_pending_appeals s,
          rep_integrity_signals = count_pending_signals s,
          rep_unresolved_tools = count_unresolved_tools s,
          rep_stale_runs = length (filter rsm_stale runs),
          rep_failed_runs = length (filter rsm_failed runs),
          rep_transcript_revisions = length (transcript_revisions s),
          rep_requires_human_review = list_ex (\<lambda>r. reason_severity r \<in> {''attention'', ''high''}) reasons \<rparr>)"

section \<open>The queue item\<close>

record queue_item =
  qi_session_id :: string
  qi_job_id :: string
  qi_candidate_ref :: string
  qi_role :: string
  qi_status :: string
  qi_requires_human_review :: bool
  qi_reason_codes :: "string list"
  qi_pending_appeals :: nat
  qi_integrity_signals :: nat
  qi_unresolved_tools :: nat
  qi_stale_runs :: nat
  qi_failed_runs :: nat
  qi_assigned_reviewer_id :: "string option"
  qi_assignment_status :: "review_assignment_status option"

definition active_status :: "review_assignment_status \<Rightarrow> bool" where
  "active_status st = (st \<in> {AssignmentOPEN, AssignmentIN_REVIEW})"

definition to_queue_item :: "session_report \<Rightarrow> queue_item" where
  "to_queue_item rep =
     (let active = find_last (\<lambda>a. active_status (asm_status a)) (rep_assignments rep)
      in \<lparr> qi_session_id = rep_session_id rep, qi_job_id = rep_job_id rep,
           qi_candidate_ref = rep_candidate_ref rep, qi_role = rep_role rep, qi_status = rep_status rep,
           qi_requires_human_review = rep_requires_human_review rep,
           qi_reason_codes = fromkeys (map reason_code (rep_reasons rep)),
           qi_pending_appeals = rep_pending_appeals rep,
           qi_integrity_signals = rep_integrity_signals rep,
           qi_unresolved_tools = rep_unresolved_tools rep, qi_stale_runs = rep_stale_runs rep,
           qi_failed_runs = rep_failed_runs rep,
           qi_assigned_reviewer_id = map_option asm_reviewer_id active,
           qi_assignment_status = map_option asm_status active \<rparr>)"

section \<open>When a report calls for review\<close>

lemma reason_if_Inr [exn_simps]:
  "reason_if b code sev msg = Inr rs \<longleftrightarrow>
     (if b then len_between 1 120 code \<and> len_between 1 500 msg
        \<and> rs = [\<lparr> reason_code = code, reason_summary = msg, reason_severity = sev \<rparr>]
      else rs = [])"
  by (auto simp: reason_if_def ReviewReason_def exn_simps)

abbreviation serious :: "review_reason \<Rightarrow> bool" where
  "serious r \<equiv> reason_severity r \<in> {''attention'', ''high''}"

lemma reason_if_serious:
  "reason_if b code sev msg = Inr rs \<Longrightarrow> list_ex serious rs \<longleftrightarrow> b \<and> sev \<in> {''attention'', ''high''}"
  by (auto simp: reason_if_Inr split: if_splits)

lemma competency_reason_serious:
  "competency_reason s c = Inr rs \<Longrightarrow>
     list_ex serious rs \<longleftrightarrow> reported_state s (competency_key c) \<notin> {DEMONSTRATED, VERIFIED}"
  by (cases "reported_state s (competency_key c)") (auto simp: competency_reason_def exn_simps)

lemma run_reason_serious: "run_reason r = Inr rs \<Longrightarrow> list_ex serious rs \<longleftrightarrow> rsm_failed r \<or> rsm_stale r"
  by (auto simp: run_reason_def exn_simps split: if_splits)

lemma list_ex_concat_emap:
  assumes "emap f xs = Inr ys" and "\<And>x y. f x = Inr y \<Longrightarrow> list_ex p y \<longleftrightarrow> q x"
  shows "list_ex p (concat ys) \<longleftrightarrow> (\<exists>x\<in>set xs. q x)"
  using assms(1) by (induction xs arbitrary: ys) (auto simp: exn_simps assms(2))

lemma requires_human_review_iff:
  assumes "build_recruiter_report R s job = Inr rep"
  shows "rep_requires_human_review rep \<longleftrightarrow>
     (\<exists>c\<in>set (competencies job). reported_state s (competency_key c) \<notin> {DEMONSTRATED, VERIFIED})
   \<or> (\<exists>r\<in>set (reported_runs R s). rsm_failed r \<or> rsm_stale r)
   \<or> count_pending_appeals s \<noteq> 0 \<or> count_pending_signals s \<noteq> 0 \<or> count_unresolved_tools s \<noteq> 0"
proof -
  from assms obtain r1 r2 r3 r4 r5 r6 m3 m4 m5 m6 where
      r1: "emap (competency_reason s) (competencies job) = Inr r1"
    and r2: "emap run_reason (reported_runs R s) = Inr r2"
    and r3: "reason_if (count_pending_appeals s \<noteq> 0) ''pending_appeal'' ''high'' m3 = Inr r3"
    and r4: "reason_if (count_pending_signals s \<noteq> 0) ''integrity_signal'' ''high'' m4 = Inr r4"
    and r5: "reason_if (count_unresolved_tools s \<noteq> 0) ''tool_review_pending'' ''attention'' m5 = Inr r5"
    and r6: "reason_if (transcript_revisions s \<noteq> []) ''transcript_revised'' ''info'' m6 = Inr r6"
    and rep: "rep_requires_human_review rep = list_ex serious (concat r1 @ concat r2 @ r3 @ r4 @ r5 @ r6)"
    unfolding build_recruiter_report_def report_reasons_def Let_def by (auto simp: ebind_eq_Inr)
  have c1: "list_ex serious (concat r1) \<longleftrightarrow>
      (\<exists>c\<in>set (competencies job). reported_state s (competency_key c) \<notin> {DEMONSTRATED, VERIFIED})"
    by (rule list_ex_concat_emap [OF r1]) (rule competency_reason_serious)
  have c2: "list_ex serious (concat r2) \<longleftrightarrow> (\<exists>r\<in>set (reported_runs R s). rsm_failed r \<or> rsm_stale r)"
    by (rule list_ex_concat_emap [OF r2]) (rule run_reason_serious)
  show ?thesis
    unfolding rep list_ex_append c1 c2 reason_if_serious [OF r3] reason_if_serious [OF r4]
      reason_if_serious [OF r5] reason_if_serious [OF r6] by simp
qed

section \<open>The latest runs\<close>

lemma max_by_snoc:
  "max_by lt b (xs @ [x]) = (let m = max_by lt b xs in if lt m x then x else m)"
  by (induction xs arbitrary: b) (simp_all add: Let_def)

text \<open>The entry of an answer is what a re-evaluation of it takes as its latest run.\<close>

definition newer_run :: "evidence_judge_run \<Rightarrow> evidence_judge_run \<Rightarrow> bool" where
  "newer_run x y \<longleftrightarrow> run_created_at x < run_created_at y"

lemma latest_run_entry:
  "dict_get (latest_run_by_answer s) a =
     (case filter (\<lambda>r. run_answer_turn_id r = a) (evidence_judge_runs s) of
        [] \<Rightarrow> None | r # rs \<Rightarrow> Some (max_by newer_run r rs))"
proof -
  let ?add = "\<lambda>run d. case dict_get d (run_answer_turn_id run) of
       None \<Rightarrow> dict_set (run_answer_turn_id run) run d
     | Some current \<Rightarrow> if run_created_at current < run_created_at run
                       then dict_set (run_answer_turn_id run) run d else d"
  have "dict_get (fold ?add runs []) a =
     (case filter (\<lambda>r. run_answer_turn_id r = a) runs of
        [] \<Rightarrow> None | r # rs \<Rightarrow> Some (max_by newer_run r rs))" for runs
  proof (induction runs rule: rev_induct)
    case (snoc run runs)
    then show ?case
      by (cases "dict_get (fold ?add runs []) (run_answer_turn_id run)";
          cases "filter (\<lambda>r. run_answer_turn_id r = a) runs")
        (auto simp: max_by_snoc Let_def newer_run_def)
  qed simp
  then show ?thesis by (simp add: latest_run_by_answer_def)
qed

lemma latest_run_answer:
  assumes "dict_get (latest_run_by_answer s) a = Some run"
  shows "run_answer_turn_id run = a"
proof -
  obtain r rs where f: "filter (\<lambda>r. run_answer_turn_id r = a) (evidence_judge_runs s) = r # rs"
    and run: "run = max_by newer_run r rs"
    using assms by (auto simp: latest_run_entry split: list.splits)
  have "run \<in> set (filter (\<lambda>r. run_answer_turn_id r = a) (evidence_judge_runs s))"
    unfolding f run by (rule max_by_mem)
  then show ?thesis by simp
qed

lemma distinct_latest_runs: "distinct (map fst (latest_run_by_answer s))"
proof -
  have "distinct (map fst (fold (\<lambda>run d. case dict_get d (run_answer_turn_id run) of
       None \<Rightarrow> dict_set (run_answer_turn_id run) run d
     | Some current \<Rightarrow> if run_created_at current < run_created_at run
                       then dict_set (run_answer_turn_id run) run d else d) runs d))"
    if "distinct (map fst d)" for runs :: "evidence_judge_run list" and d
    using that by (induction runs arbitrary: d) (auto simp: distinct_dict_set split: option.splits)
  then show ?thesis by (simp add: latest_run_by_answer_def)
qed

text \<open>The reported runs are those of the entries.\<close>

lemma latest_runs_listed:
  "set (map snd (latest_run_by_answer s)) = {run. \<exists>a. dict_get (latest_run_by_answer s) a = Some run}"
  by (force simp: map_of_eq_Some_iff [OF distinct_latest_runs])

end
