(* ===== verification/Planner.thy ===== *)
theory Planner
  imports Models Py_Float
begin

text \<open>
  \<^verbatim>\<open>planner.py\<close>: \<open>DualLanePlanner\<close> decides when a standardised anchor question is due. The
  products and quotients are binary64 operations, rounded by \<open>fl\<close>. The lemmas say that a
  scheduled anchor is new, within the budget and due, and that an anchor is declined only
  when the budget is used, no anchor is left, or the share of anchors is met.
\<close>

section \<open>The code\<close>

definition has_anchor :: "competency \<Rightarrow> bool" where
  "has_anchor c = (case anchor_question c of None \<Rightarrow> False | Some q \<Rightarrow> q \<noteq> [])"

definition anchor_budget :: "job_spec \<Rightarrow> int" where
  "anchor_budget job =
     (let available = int (length (filter has_anchor (competencies job)));
          target = \<lceil>fl (of_int (max_questions job) * anchor_ratio job)\<rceil>
      in min available target)"

definition unasked_anchors :: "interview_session \<Rightarrow> job_spec \<Rightarrow> competency list" where
  "unasked_anchors s job = filter
     (\<lambda>c. has_anchor c \<and> competency_key c \<notin> set (asked_anchor_competencies s)) (competencies job)"

definition anchor_decision :: "competency \<Rightarrow> agent_decision" where
  "anchor_decision chosen =
     \<lparr> decision_text = (case anchor_question chosen of None \<Rightarrow> [] | Some q \<Rightarrow> q),
       decision_tags = [competency_key chosen], decision_parent = None,
       completes_interview = False, tool_request = None,
       decision_reason = lane_value ANCHOR @ '':standardized_anchor'' \<rparr>"

definition current_share :: "interview_session \<Rightarrow> rat" where
  "current_share s =
     fl (of_nat (length (asked_anchor_competencies s)) / of_int (asked_questions s))"

definition next_anchor :: "interview_session \<Rightarrow> job_spec \<Rightarrow> agent_decision option" where
  "next_anchor s job =
     (if anchor_budget job \<le> int (length (asked_anchor_competencies s)) then None
      else case unasked_anchors s job of
          [] \<Rightarrow> None
        | chosen # _ \<Rightarrow>
            if asked_questions s = 0 then Some (anchor_decision chosen)
            else if anchor_ratio job \<le> current_share s then None
            else Some (anchor_decision chosen))"

definition lane_for :: "agent_decision \<Rightarrow> question_lane" where
  "lane_for d = (if completes_interview d then CLOSING
     else if startswith (decision_reason d) (lane_value ANCHOR @ '':'') then ANCHOR
     else ADAPTIVE)"

section \<open>Lemmas\<close>

lemma lane_for_anchor_decision [simp]: "lane_for (anchor_decision c) = ANCHOR"
  by (simp add: lane_for_def anchor_decision_def startswith_def)

lemma anchor_decision_simps [simp]:
  "decision_tags (anchor_decision c) = [competency_key c]"
  "decision_parent (anchor_decision c) = None"
  "completes_interview (anchor_decision c) = False"
  "tool_request (anchor_decision c) = None"
  by (simp_all add: anchor_decision_def)

lemma lane_for_CLOSING_iff [simp]: "lane_for d = CLOSING \<longleftrightarrow> completes_interview d"
  by (simp add: lane_for_def)

text \<open>What a scheduled anchor is.\<close>

lemma next_anchor_Some:
  assumes "next_anchor s job = Some d"
  obtains c where "d = anchor_decision c" and "c \<in> set (competencies job)" and "has_anchor c"
    and "competency_key c \<notin> set (asked_anchor_competencies s)"
    and "int (length (asked_anchor_competencies s)) < anchor_budget job"
    and "asked_questions s = 0 \<or> current_share s < anchor_ratio job"
proof -
  obtain c cs where un: "unasked_anchors s job = c # cs"
    using assms by (auto simp: next_anchor_def split: if_splits list.splits)
  then have "c \<in> set (unasked_anchors s job)" by simp
  then have c: "c \<in> set (competencies job)" "has_anchor c"
      "competency_key c \<notin> set (asked_anchor_competencies s)"
    by (simp_all add: unasked_anchors_def)
  with assms un show thesis
    by (intro that [of c]) (auto simp: next_anchor_def split: if_splits)
qed

text \<open>When an anchor is declined.\<close>

lemma next_anchor_None:
  "next_anchor s job = None \<longleftrightarrow>
     anchor_budget job \<le> int (length (asked_anchor_competencies s))
     \<or> unasked_anchors s job = []
     \<or> (asked_questions s \<noteq> 0 \<and> anchor_ratio job \<le> current_share s)"
  by (auto simp: next_anchor_def split: list.splits)

lemma is_float_ratio_zero: "is_float 0"
  using is_float_int [of 0] by simp

lemma anchor_budget_bounds:
  assumes "job_spec_ok job"
  shows "0 \<le> anchor_budget job" and "anchor_budget job \<le> max_questions job"
    and "anchor_budget job \<le> int (length (competencies job))"
proof -
  let ?p = "of_int (max_questions job) * anchor_ratio job"
  have job: "1 \<le> max_questions job" "max_questions job \<le> 30" "0 \<le> anchor_ratio job" "anchor_ratio job \<le> 1"
    using assms by (auto simp: job_spec_ok_def job_spec_fields_ok_def)
  then have "0 \<le> ?p" by simp
  then have nonneg: "0 \<le> fl ?p" by (rule fl_nonneg)
  then have "0 \<le> \<lceil>fl ?p\<rceil>" by (simp add: le_ceiling_iff)
  then show "0 \<le> anchor_budget job" by (simp add: anchor_budget_def Let_def)
  have "?p \<le> of_int (max_questions job)"
    using job by (simp add: mult_left_le)
  moreover have "is_float (of_int (max_questions job))"
    using job by (intro is_float_int) simp
  ultimately have "fl ?p \<le> of_int (max_questions job)" by (intro fl_le_float)
  then have "\<lceil>fl ?p\<rceil> \<le> max_questions job" by (simp add: ceiling_le_iff)
  then show "anchor_budget job \<le> max_questions job" by (simp add: anchor_budget_def Let_def)
  have "length (filter has_anchor (competencies job)) \<le> length (competencies job)"
    by (rule length_filter_le)
  then show "anchor_budget job \<le> int (length (competencies job))"
    by (simp add: anchor_budget_def Let_def min_le_iff_disj)
qed

text \<open>The rounded quotient is below the ratio only if the exact quotient is.\<close>

lemma current_share_less:
  assumes "is_float (anchor_ratio job)" and "current_share s < anchor_ratio job" and "0 < asked_questions s"
  shows "of_nat (length (asked_anchor_competencies s)) < anchor_ratio job * of_int (asked_questions s)"
proof -
  have "of_nat (length (asked_anchor_competencies s)) / of_int (asked_questions s) < anchor_ratio job"
    using fl_less_floatD [OF assms(1)] assms(2) by (simp add: current_share_def)
  then show ?thesis using assms(3) by (simp add: divide_less_eq)
qed

end
