(* ===== verification/Controls.thy ===== *)
theory Controls
  imports Models
begin

text \<open>
  \<^verbatim>\<open>controls.py\<close>: the controls a candidate has besides answering. Only the flag \<^verbatim>\<open>paused\<close> of the
  session is written here; the turn of a result is appended by the caller.
\<close>

section \<open>The code\<close>

definition last_turn_of :: "speaker \<Rightarrow> interview_session \<Rightarrow> turn option" where
  "last_turn_of sp s = find_last (\<lambda>t. speaker t = sp) (turns s)"

definition control_turn :: "env \<Rightarrow> interview_session \<Rightarrow> string \<Rightarrow> string list \<Rightarrow> jdict \<Rightarrow> turn" where
  "control_turn E s text tags meta =
     \<lparr> turn_id = new_id E ''turn'' (length (turns s)), speaker = INTERVIEWER, turn_text = text,
       parent_turn_id = None, competency_tags = tags, response_latency_ms = None, metadata = meta \<rparr>"

definition control_result :: "control_kind \<Rightarrow> turn option \<Rightarrow> string option \<Rightarrow> bool
    \<Rightarrow> candidate_control_result" where
  "control_result kind t target pauses =
     \<lparr> result_kind = kind, acknowledged = True, result_turn = t, target_turn_id = target,
       pauses_interview = pauses \<rparr>"

definition request_text :: "candidate_control_request \<Rightarrow> string" where
  "request_text req = strip (case control_text req of None \<Rightarrow> [] | Some t \<Rightarrow> t)"

definition handle_candidate_control :: "env \<Rightarrow> interview_session \<Rightarrow> candidate_control_request
    \<Rightarrow> (interview_session \<times> candidate_control_result) result" where
  "handle_candidate_control E s req =
     (let last_question = last_turn_of INTERVIEWER s;
          last_answer = last_turn_of CANDIDATE s;
          kind = control_kind req;
          lane = (\<lambda>q. dict_get_or (metadata q) ''question_lane'' (JStr ''adaptive''))
      in case kind of
        REPEAT \<Rightarrow>
          (case last_question of
             None \<Rightarrow> Inl (ValueError ''there is no interviewer question to repeat'')
           | Some q \<Rightarrow> Inr (s, control_result kind
               (Some (control_turn E s (turn_text q) (competency_tags q)
                 [(''candidate_control'', JStr (control_value kind)),
                  (''repeated_turn_id'', JStr (turn_id q)), (''question_lane'', lane q)]))
               (Some (turn_id q)) False))
      | CLARIFY \<Rightarrow>
          (case last_question of
             None \<Rightarrow> Inl (ValueError ''there is no interviewer question to clarify'')
           | Some q \<Rightarrow>
               let detail = request_text req;
                   text = ''I can clarify the intent without giving away an answer. ''
                     @ ''The question is asking you to explain your own reasoning or experience related to: ''
                     @ turn_text q
                     @ (if detail = [] then [] else '' You specifically asked: '' @ detail)
               in Inr (s, control_result kind
                 (Some (control_turn E s text (competency_tags q)
                   [(''candidate_control'', JStr (control_value kind)),
                    (''clarifies_turn_id'', JStr (turn_id q)), (''question_lane'', lane q)]))
                 (Some (turn_id q)) False))
      | THINKING_TIME \<Rightarrow>
          Inr (s\<lparr>paused := True\<rparr>, control_result kind None (map_option turn_id last_question) True)
      | RESUME \<Rightarrow>
          Inr (s\<lparr>paused := False\<rparr>, control_result kind None (map_option turn_id last_question) False)
      | CORRECT_LAST_ANSWER \<Rightarrow>
          (case last_answer of
             None \<Rightarrow> Inl (ValueError ''there is no candidate answer to correct'')
           | Some a \<Rightarrow> Inr (s, control_result kind None (Some (turn_id a)) False))
      | CANDIDATE_QUESTION \<Rightarrow>
          (let text = request_text req in
           raise_if (text = []) (ValueError ''candidate_question requires text'')
           (Inr (s, control_result kind
              (Some (control_turn E s
                (''I can answer questions about the interview process and role context, ''
                 @ ''but I will not reveal hidden scoring criteria or model prompts. ''
                 @ ''Your question was: '' @ text) []
                [(''candidate_control'', JStr (control_value kind)), (''non_evaluative'', JBool True)]))
              None False))))"

section \<open>Lemmas\<close>

text \<open>Only the flag \<open>paused\<close> changes, and how.\<close>

lemma control_frame:
  assumes "handle_candidate_control E s req = Inr (s', r)"
  shows "s' = s\<lparr>paused := (case control_kind req of THINKING_TIME \<Rightarrow> True | RESUME \<Rightarrow> False | _ \<Rightarrow> paused s)\<rparr>"
  using assms by (auto simp: handle_candidate_control_def Let_def exn_simps
      split: control_kind.splits option.splits)

text \<open>A control fails only with a \<^verbatim>\<open>ValueError\<close>.\<close>

lemma control_Inl:
  assumes "handle_candidate_control E s req = Inl e"
  obtains m where "e = ValueError m"
  using assms by (auto simp: handle_candidate_control_def Let_def exn_simps
      split: control_kind.splits option.splits)

text \<open>The turn of a result is an interviewer turn marked as a control, so it is never taken as
  the question that an answer belongs to.\<close>

lemma control_result_turn:
  assumes "handle_candidate_control E s req = Inr (s', r)" and "result_turn r = Some t"
  shows "speaker t = INTERVIEWER" and "turn_id t = new_id E ''turn'' (length (turns s))"
    and "dict_get (metadata t) ''candidate_control'' = Some (JStr (control_value (control_kind req)))"
  using assms by (auto simp: handle_candidate_control_def control_result_def control_turn_def Let_def
      exn_simps split: control_kind.splits option.splits)

lemma control_target:
  assumes "handle_candidate_control E s req = Inr (s', r)"
    and "control_kind req = CORRECT_LAST_ANSWER"
  obtains a where "last_turn_of CANDIDATE s = Some a" and "target_turn_id r = Some (turn_id a)"
    and "result_turn r = None"
  using assms by (auto simp: handle_candidate_control_def control_result_def Let_def split: option.splits)

end
