(* ===== verification/Tools.thy ===== *)
theory Tools
  imports Models Py_Float
begin

text \<open>
  Practical tools: \<^verbatim>\<open>tools.py\<close> (the registry of evaluators and the manual one),
  \<^verbatim>\<open>domain_evaluators.py\<close> (structural checks of an artifact), \<^verbatim>\<open>coding.py\<close> (challenges with
  hidden tests, run in a sandbox) and \<^verbatim>\<open>tool_templates.py\<close> (the catalogue). The sandbox, the
  JSON reader and the conversions of \<^verbatim>\<open>int(...)\<close> from text are the record \<open>sandbox\<close>. The
  lemmas say what an evaluation can be: only the coding tool passes or fails a submission,
  a full pass needs every test of a non-empty report, and no invocation carries a hidden test.
\<close>

section \<open>Evaluations\<close>

definition ToolEvaluation :: "tool_evaluation \<Rightarrow> tool_evaluation result" where
  "ToolEvaluation ev =
     raise_if (\<not> (opt_all (\<lambda>x. 0 \<le> x \<and> x \<le> 1) (eval_score ev) \<and> eval_summary ev \<noteq> []))
       (ValidationError ''ToolEvaluation'') (Inr ev)"

type_synonym evaluator = "tool_invocation \<Rightarrow> tool_submission \<Rightarrow> tool_evaluation result"

definition manual_review_evaluate :: "tool_kind \<Rightarrow> evaluator" where
  "manual_review_evaluate kind invo sub = ToolEvaluation
     \<lparr> eval_tool_id = tool_id invo, eval_submission_id = sub_id sub, eval_passed = None,
       eval_score = None,
       eval_summary = tool_kind_value kind
         @ '' submission recorded for human or external evaluation. ''
         @ ''No automatic score was produced.'',
       eval_evidence =
         [(''artifact_keys'', jstrs (sorted_set (map fst (sub_content sub)))),
          (''competency_tags'', jstrs (tool_competency_tags invo)),
          (''review_required'', JBool True)] \<rparr>"

section \<open>Structured domain evaluators\<close>

fun present :: "json \<Rightarrow> bool" where
  "present JNull = False"
| "present (JStr s) = (strip s \<noteq> [])"
| "present (JList xs) = (xs \<noteq> [])"
| "present (JObj d) = (d \<noteq> [])"
| "present _ = True"

fun text_volume :: "json \<Rightarrow> nat" where
  "text_volume (JStr s) = length (strip s)"
| "text_volume (JObj d) = sum_list (map (\<lambda>kv. text_volume (snd kv)) d)"
| "text_volume (JList xs) = sum_list (map text_volume xs)"
| "text_volume _ = 0"

record structured_evaluator =
  se_kind :: tool_kind
  se_evaluator_id :: string
  default_deliverables :: "string list"
  domain_signals :: "jdict \<Rightarrow> jdict"

definition nonblank_str :: "json \<Rightarrow> string option" where
  "nonblank_str v = (case v of JStr s \<Rightarrow> if strip s = [] then None else Some (strip s) | _ \<Rightarrow> None)"

definition required_deliverables :: "structured_evaluator \<Rightarrow> tool_invocation \<Rightarrow> string list" where
  "required_deliverables se invo =
     (case jget (tool_payload invo) ''deliverables'' of
        JList raw \<Rightarrow> if list_all (\<lambda>v. nonblank_str v \<noteq> None) raw
                    then List.map_filter nonblank_str raw else default_deliverables se
      | _ \<Rightarrow> default_deliverables se)"

definition structured_evaluate :: "(rat \<Rightarrow> string) \<Rightarrow> structured_evaluator \<Rightarrow> evaluator" where
  "structured_evaluate fr se invo sub =
     (let required = required_deliverables se invo;
          observed = filter (\<lambda>k. present (jget (sub_content sub) k)) required;
          missing = filter (\<lambda>k. k \<notin> set observed) required;
          completeness = (if required = [] then 1
                          else fl (of_nat (length observed) / of_nat (length required)));
          template_id = jget (tool_payload invo) ''template_id'';
          kind = tool_kind_value (se_kind se);
          summary = (if missing \<noteq> []
            then ''Structured '' @ kind @ '' artifact is incomplete: '' @ show_nat (length missing)
              @ '' required deliverable(s) are missing. Human review is required.''
            else ''Structured '' @ kind @ '' artifact contains all ''
              @ ''declared deliverables. Content quality and job-related ''
              @ ''evidence still require human review.'')
      in ToolEvaluation
        \<lparr> eval_tool_id = tool_id invo, eval_submission_id = sub_id sub, eval_passed = None,
          eval_score = None, eval_summary = summary,
          eval_evidence =
            [(''review_required'', JBool True),
             (''structured_validation'', JObj
               [(''required_deliverables'', jstrs required), (''observed_deliverables'', jstrs observed),
                (''missing_deliverables'', jstrs missing),
                (''completeness_ratio'', JFloat (py_round completeness 4)),
                (''content_text_characters'', JInt (int (text_volume (JObj (sub_content sub)))))]),
             (''domain_signals'', JObj (domain_signals se (sub_content sub))),
             (''evaluation_provenance'', JObj
               [(''evaluator_id'', JStr (se_evaluator_id se)), (''evaluator_version'', JStr ''1''),
                (''tool_kind'', JStr kind),
                (''template_id'', if template_id = JNull then JNull else JStr (py_str fr template_id)),
                (''automatic_hiring_decision'', JBool False), (''automatic_score'', JBool False)]),
             (''competency_tags'', jstrs (tool_competency_tags invo))] \<rparr>)"

definition system_design_evaluator :: structured_evaluator where
  "system_design_evaluator =
     \<lparr> se_kind = CASE_STUDY, se_evaluator_id = ''nora.domain.system_design'',
       default_deliverables = [''architecture_summary'', ''failure_modes'', ''tradeoffs'', ''validation_metrics''],
       domain_signals = (\<lambda>c.
         [(''failure_modes_present'', JBool (present (jget c ''failure_modes''))),
          (''tradeoffs_present'', JBool (present (jget c ''tradeoffs''))),
          (''validation_metrics_present'', JBool (present (jget c ''validation_metrics'')))]) \<rparr>"

definition document_analysis_evaluator :: structured_evaluator where
  "document_analysis_evaluator =
     \<lparr> se_kind = DOCUMENT, se_evaluator_id = ''nora.domain.document_analysis'',
       default_deliverables = [''verified_facts'', ''open_questions'', ''contributing_factors'', ''remediation''],
       domain_signals = (\<lambda>c.
         let has_refs = (case jget c ''evidence_refs'' of
               JList refs \<Rightarrow> list_ex (\<lambda>v. nonblank_str v \<noteq> None) refs | _ \<Rightarrow> False)
         in [(''evidence_references_present'', JBool has_refs),
             (''uncertainty_explicit'', JBool (present (jget c ''open_questions''))),
             (''warning'', if has_refs then JNull
                else JStr (''No explicit evidence_refs were supplied; ''
                  @ ''reviewers should verify factual grounding.''))]) \<rparr>"

definition data_analysis_evaluator :: structured_evaluator where
  "data_analysis_evaluator =
     \<lparr> se_kind = DATASET, se_evaluator_id = ''nora.domain.data_analysis'',
       default_deliverables = [''analysis'', ''assumptions'', ''result'', ''validation''],
       domain_signals = (\<lambda>c.
         [(''assumptions_explicit'', JBool (present (jget c ''assumptions''))),
          (''validation_present'', JBool (present (jget c ''validation''))),
          (''calculations_provided'', JBool (present (jget c ''calculations'')))]) \<rparr>"

section \<open>Coding challenges\<close>

record coding_request =
  cod_title :: string
  cod_instructions :: string
  cod_tags :: "string list"
  cod_starter_code :: string
  cod_public_tests :: "string list"
  cod_hidden_tests :: "string list"
  cod_opened_from :: "string option"
  cod_timeout :: rat

definition coding_request_ok :: "coding_request \<Rightarrow> bool" where
  "coding_request_ok r = (len_between 2 200 (cod_title r) \<and> len_between 2 20000 (cod_instructions r)
     \<and> 0 < cod_timeout r \<and> cod_timeout r \<le> 30)"

record private_challenge =
  priv_id :: string
  priv_hidden_tests :: "string list"
  priv_public_tests :: "string list"
  priv_timeout :: rat

text \<open>\<^verbatim>\<open>CodingChallengeManager._private\<close>, kept by the process.\<close>

type_synonym challenges = "(string, private_challenge) dict"

definition ToolInvocation :: "tool_invocation \<Rightarrow> tool_invocation result" where
  "ToolInvocation invo =
     raise_if (\<not> (len_between 2 200 (tool_title invo) \<and> len_between 2 20000 (tool_instructions invo)))
       (ValidationError ''ToolInvocation'') (Inr invo)"

text \<open>\<open>n\<close> is the number of tools the session has, the position of the new one.\<close>

definition create_challenge :: "env \<Rightarrow> nat \<Rightarrow> coding_request \<Rightarrow> challenges
    \<Rightarrow> (challenges \<times> tool_invocation) result" where
  "create_challenge E n r priv =
     (let challenge_id = new_id E ''challenge'' (length priv)
      in ebind (ToolInvocation
          \<lparr> tool_id = new_id E ''tool'' n, tool_kind = CODING, tool_title = cod_title r,
            tool_instructions = cod_instructions r, tool_competency_tags = cod_tags r,
            tool_status = ToolOPEN,
            tool_payload =
              [(''challenge_id'', JStr challenge_id), (''language'', JStr ''python''),
               (''starter_code'', JStr (cod_starter_code r)),
               (''public_tests'', jstrs (cod_public_tests r)),
               (''hidden_test_count'', JInt (int (length (cod_hidden_tests r))))],
            opened_from_turn_id = cod_opened_from r \<rparr>) (\<lambda>invo.
         Inr (dict_set (tool_id invo)
            \<lparr> priv_id = challenge_id, priv_hidden_tests = cod_hidden_tests r,
              priv_public_tests = cod_public_tests r, priv_timeout = cod_timeout r \<rparr> priv, invo)))"

definition RESULT_PREFIX :: string where
  "RESULT_PREFIX = ''__NORA_TEST_RESULT__''"

definition build_harness :: "string list \<Rightarrow> string" where
  \<open>build_harness tests = concat (map (\<lambda>l. l @ [CHR 0x0A])
     [''import json'',
      ''from solution import *'',
      [],
      ''tests = '' @ json_dumps_strs tests,
      ''passed = 0'',
      ''failures = []'',
      ''for index, test in enumerate(tests):'',
      ''    try:'',
      ''        exec(test, globals(), globals())'',
      ''        passed += 1'',
      ''    except Exception as exc:'',
      ''        failures.append({"index": index, "error": f"{type(exc).__name__}: {exc}"})'',
      [],
      ''result = {"passed": passed, "total": len(tests), "failures": failures}'',
      ''print("'' @ RESULT_PREFIX @ ''" + json.dumps(result, sort_keys=True))'',
      ''raise SystemExit(0 if not failures else 1)''])\<close>

record sandbox_result =
  exit_code :: "int option"
  stdout :: string
  stderr :: string
  timed_out :: bool
  duration_ms :: int
  provider_id :: string
  execution_id :: "string option"
  produced_artifacts :: "json list"

text \<open>
  What \<^verbatim>\<open>coding.py\<close> calls outside the sources: the sandbox run of a source with a harness
  under a time limit (an unavailable sandbox raises \<^verbatim>\<open>SandboxUnavailable\<close>), \<^verbatim>\<open>json.loads\<close>
  (\<open>None\<close> for a decoding error), and \<^verbatim>\<open>int\<close> of a string.
\<close>

record sandbox =
  run_python :: "string \<Rightarrow> string \<Rightarrow> rat \<Rightarrow> sandbox_result result"
  json_loads :: "string \<Rightarrow> json option"
  int_of_string :: "string \<Rightarrow> int option"

definition parse_result :: "sandbox \<Rightarrow> string \<Rightarrow> json" where
  "parse_result SB out =
     (case find (\<lambda>line. startswith line RESULT_PREFIX) (rev (splitlines out)) of
        None \<Rightarrow> JNull
      | Some line \<Rightarrow> (case json_loads SB (drop (length RESULT_PREFIX) line) of
                      None \<Rightarrow> JNull | Some v \<Rightarrow> v))"

definition evaluation_provenance :: "tool_invocation \<Rightarrow> json" where
  "evaluation_provenance invo = JObj
     [(''evaluator_id'', JStr ''nora.coding.python_tests''), (''evaluator_version'', JStr ''1''),
      (''tool_kind'', JStr ''coding''), (''template_id'', jget (tool_payload invo) ''template_id''),
      (''automatic_hiring_decision'', JBool False)]"

fun json_type_name :: "json \<Rightarrow> string" where
  "json_type_name JNull = ''NoneType''"
| "json_type_name (JBool _) = ''bool''"
| "json_type_name (JInt _) = ''int''"
| "json_type_name (JFloat _) = ''float''"
| "json_type_name (JStr _) = ''str''"
| "json_type_name (JList _) = ''list''"
| "json_type_name (JObj _) = ''dict''"

text \<open>\<^verbatim>\<open>int(v)\<close>.\<close>

definition py_int :: "sandbox \<Rightarrow> json \<Rightarrow> int result" where
  "py_int SB v = (case v of
      JInt i \<Rightarrow> Inr i
    | JBool b \<Rightarrow> Inr (if b then 1 else 0)
    | JFloat q \<Rightarrow> Inr (if 0 \<le> q then \<lfloor>q\<rfloor> else \<lceil>q\<rceil>)
    | JStr s \<Rightarrow> (case int_of_string SB s of
        None \<Rightarrow> Inl (ValueError (''invalid literal for int() with base 10: '' @ repr_str s))
      | Some i \<Rightarrow> Inr i)
    | _ \<Rightarrow> Inl (TypeError
        (''int() argument must be a string, a bytes-like object or a real number, not ''
             @ repr_str (json_type_name v))))"

definition sandbox_fields :: "sandbox_result \<Rightarrow> (string \<times> json) list" where
  "sandbox_fields res =
     [(''sandbox_provider'', JStr (provider_id res)),
      (''sandbox_execution_id'', jopt_str (execution_id res)),
      (''sandbox_artifacts'', JList (produced_artifacts res))]"

definition coding_evaluation :: "tool_invocation \<Rightarrow> tool_submission \<Rightarrow> bool option \<Rightarrow> rat option
    \<Rightarrow> string \<Rightarrow> jdict \<Rightarrow> tool_evaluation result" where
  "coding_evaluation invo sub passed score summary evidence = ToolEvaluation
     \<lparr> eval_tool_id = tool_id invo, eval_submission_id = sub_id sub, eval_passed = passed,
       eval_score = score, eval_summary = summary,
       eval_evidence = evidence @ [(''evaluation_provenance'', evaluation_provenance invo)] \<rparr>"

text \<open>The scoring of a run's report.\<close>

definition score_report :: "sandbox \<Rightarrow> tool_invocation \<Rightarrow> tool_submission \<Rightarrow> sandbox_result \<Rightarrow> jdict
    \<Rightarrow> tool_evaluation result" where
  "score_report SB invo sub res parsed =
     ebind (py_int SB (dict_get_or parsed ''total'' (JInt 0))) (\<lambda>total.
     ebind (py_int SB (dict_get_or parsed ''passed'' (JInt 0))) (\<lambda>passed_count.
     coding_evaluation invo sub
       (Some (passed_count = total \<and> 0 < total))
       (if total = 0 then None else Some (fl (of_int passed_count / of_int total)))
       (''Passed '' @ show_int passed_count @ ''/'' @ show_int total @ '' configured tests.'')
       ([(''passed_tests'', JInt passed_count), (''total_tests'', JInt total),
         (''failures'', dict_get_or parsed ''failures'' (JList [])),
         (''duration_ms'', JInt (duration_ms res)), (''exit_code'', jopt_int (exit_code res))]
        @ sandbox_fields res)))"

definition coding_evaluate :: "sandbox \<Rightarrow> challenges \<Rightarrow> evaluator" where
  "coding_evaluate SB priv invo sub =
     (case jget (sub_content sub) ''code'' of
        JStr source \<Rightarrow>
          if strip source = []
          then coding_evaluation invo sub (Some False) (Some 0)
                 ''Coding submission did not contain non-empty source code.''
                 [(''reason'', JStr ''missing_code'')]
          else (case dict_get priv (tool_id invo) of
              None \<Rightarrow> Inl (ValueError ''coding challenge private state is unavailable'')
            | Some ch \<Rightarrow>
                (case run_python SB source (build_harness (priv_public_tests ch @ priv_hidden_tests ch))
                        (priv_timeout ch) of
                   Inl e \<Rightarrow>
                     if exn_name e = ''SandboxUnavailable''
                     then coding_evaluation invo sub None None
                            (''Submission recorded, but automatic code execution is unavailable. ''
                              @ ''Manual or external sandbox review is required.'')
                            [(''sandbox_unavailable'', JStr (exn_str e)), (''review_required'', JBool True)]
                     else Inl e
                 | Inr res \<Rightarrow>
                     if timed_out res
                     then coding_evaluation invo sub (Some False) (Some 0)
                            ''Code execution exceeded the configured time limit.''
                            ([(''timed_out'', JBool True), (''duration_ms'', JInt (duration_ms res))]
                             @ sandbox_fields res)
                     else (case parse_result SB (stdout res) of
                         JNull \<Rightarrow> coding_evaluation invo sub (Some False) (Some 0)
                            ''Sandbox completed without a valid Nora test result.''
                            ([(''exit_code'', jopt_int (exit_code res)),
                              (''stderr'', JStr (rev (take 4000 (rev (stderr res))))),
                              (''duration_ms'', JInt (duration_ms res))] @ sandbox_fields res)
                       | JObj parsed \<Rightarrow> score_report SB invo sub res parsed
                       | other \<Rightarrow> Inl (OtherError ''AttributeError''
                           (repr_str (json_type_name other) @ '' object has no attribute '' @ repr_str ''get'')))))
      | _ \<Rightarrow> coding_evaluation invo sub (Some False) (Some 0)
               ''Coding submission did not contain non-empty source code.''
               [(''reason'', JStr ''missing_code'')])"

section \<open>The registry of evaluators\<close>

type_synonym tool_registry = "(tool_kind, evaluator) dict"

definition register_tool :: "tool_kind \<Rightarrow> evaluator \<Rightarrow> tool_registry \<Rightarrow> tool_registry" where
  "register_tool kind ev reg = dict_set kind ev reg"

definition get_tool :: "tool_registry \<Rightarrow> tool_kind \<Rightarrow> evaluator result" where
  "get_tool reg kind = (case dict_get reg kind of
      None \<Rightarrow> Inl (ValueError (''no evaluator registered for tool kind: '' @ tool_kind_value kind))
    | Some ev \<Rightarrow> Inr ev)"

definition default_tool_registry :: "(rat \<Rightarrow> string) \<Rightarrow> tool_registry" where
  "default_tool_registry fr =
     (let manual = fold (\<lambda>k reg. register_tool k (manual_review_evaluate k) reg)
            [CODING, CASE_STUDY, WHITEBOARD, DOCUMENT, DATASET] []
      in fold (\<lambda>se reg. register_tool (se_kind se) (structured_evaluate fr se) reg)
           [system_design_evaluator, document_analysis_evaluator, data_analysis_evaluator] manual)"

text \<open>The registry of \<^verbatim>\<open>InterviewService\<close>: the coding tool replaces the manual one.\<close>

definition service_tool_registry :: "(rat \<Rightarrow> string) \<Rightarrow> sandbox \<Rightarrow> challenges \<Rightarrow> tool_registry" where
  "service_tool_registry fr SB priv =
     register_tool CODING (coding_evaluate SB priv) (default_tool_registry fr)"

section \<open>Lemmas\<close>

lemma ToolEvaluation_Inr [exn_simps]:
  "ToolEvaluation ev = Inr ev' \<longleftrightarrow> ev' = ev \<and> opt_all (\<lambda>x. 0 \<le> x \<and> x \<le> 1) (eval_score ev)
     \<and> eval_summary ev \<noteq> []"
  by (auto simp: ToolEvaluation_def exn_simps)

text \<open>An evaluation is about the invocation and the submission it was asked for.\<close>

definition evaluation_for :: "tool_invocation \<Rightarrow> tool_submission \<Rightarrow> tool_evaluation \<Rightarrow> bool" where
  "evaluation_for invo sub ev \<longleftrightarrow> eval_tool_id ev = tool_id invo \<and> eval_submission_id ev = sub_id sub
     \<and> opt_all (\<lambda>x. 0 \<le> x \<and> x \<le> 1) (eval_score ev)"

lemma manual_review_undecided:
  assumes "manual_review_evaluate kind invo sub = Inr ev"
  shows "eval_passed ev = None" and "eval_score ev = None" and "evaluation_for invo sub ev"
  using assms by (auto simp: manual_review_evaluate_def exn_simps evaluation_for_def opt_all_def)

lemma structured_undecided:
  assumes "structured_evaluate fr se invo sub = Inr ev"
  shows "eval_passed ev = None" and "eval_score ev = None" and "evaluation_for invo sub ev"
  using assms by (auto simp: structured_evaluate_def Let_def exn_simps evaluation_for_def opt_all_def
      split: if_splits)

lemma coding_evaluation_Inr [exn_simps]:
  "coding_evaluation invo sub passed score summary evidence = Inr ev \<Longrightarrow>
     eval_passed ev = passed \<and> eval_score ev = score \<and> evaluation_for invo sub ev"
  by (auto simp: coding_evaluation_def exn_simps evaluation_for_def)

lemma coding_evaluate_for: "coding_evaluate SB priv invo sub = Inr ev \<Longrightarrow> evaluation_for invo sub ev"
  by (auto simp: coding_evaluate_def score_report_def ebind_eq_Inr dest!: coding_evaluation_Inr
      split: json.splits if_splits option.splits sum.splits)

text \<open>A submission passes only through a report of a run of its source in the sandbox with all
  tests of the challenge, where the report counts at least one test and all tests passed;
  the score is then 1.\<close>

lemma coding_pass:
  assumes "coding_evaluate SB priv invo sub = Inr ev" and "eval_passed ev = Some True"
  obtains source ch res parsed total where "jget (sub_content sub) ''code'' = JStr source"
    and "strip source \<noteq> []" and "dict_get priv (tool_id invo) = Some ch"
    and "run_python SB source (build_harness (priv_public_tests ch @ priv_hidden_tests ch)) (priv_timeout ch)
           = Inr res"
    and "\<not> timed_out res" and "parse_result SB (stdout res) = JObj parsed"
    and "py_int SB (dict_get_or parsed ''total'' (JInt 0)) = Inr total"
    and "py_int SB (dict_get_or parsed ''passed'' (JInt 0)) = Inr total" and "0 < total"
    and "eval_score ev = Some (fl 1)"
proof -
  obtain source where src: "jget (sub_content sub) ''code'' = JStr source" "strip source \<noteq> []"
    using assms by (auto simp: coding_evaluate_def dest!: coding_evaluation_Inr split: json.splits if_splits)
  then obtain ch where ch: "dict_get priv (tool_id invo) = Some ch"
    using assms by (auto simp: coding_evaluate_def split: option.splits)
  let ?run = "run_python SB source (build_harness (priv_public_tests ch @ priv_hidden_tests ch)) (priv_timeout ch)"
  obtain res where res: "?run = Inr res"
    using assms src ch by (cases ?run)
      (auto simp: coding_evaluate_def dest!: coding_evaluation_Inr split: if_splits)
  have "\<not> timed_out res"
    using assms src ch res by (auto simp: coding_evaluate_def dest!: coding_evaluation_Inr split: if_splits)
  then obtain parsed where parsed: "parse_result SB (stdout res) = JObj parsed"
      and sc: "score_report SB invo sub res parsed = Inr ev"
    using assms src ch res by (auto simp: coding_evaluate_def dest!: coding_evaluation_Inr
        split: json.splits)
  then obtain total where "py_int SB (dict_get_or parsed ''total'' (JInt 0)) = Inr total"
    and "py_int SB (dict_get_or parsed ''passed'' (JInt 0)) = Inr total" and "0 < total"
    and "eval_score ev = Some (fl 1)"
    using assms(2) by (auto simp: score_report_def ebind_eq_Inr dest!: coding_evaluation_Inr)
  with src ch res \<open>\<not> timed_out res\<close> parsed show thesis using that by blast
qed

lemma service_tool_registry_get:
  "get_tool (service_tool_registry fr SB priv) kind = Inr (case kind of
     CODING \<Rightarrow> coding_evaluate SB priv
   | CASE_STUDY \<Rightarrow> structured_evaluate fr system_design_evaluator
   | WHITEBOARD \<Rightarrow> manual_review_evaluate WHITEBOARD
   | DOCUMENT \<Rightarrow> structured_evaluate fr document_analysis_evaluator
   | DATASET \<Rightarrow> structured_evaluate fr data_analysis_evaluator)"
  by (cases kind) (simp_all add: service_tool_registry_def default_tool_registry_def register_tool_def
      get_tool_def system_design_evaluator_def document_analysis_evaluator_def data_analysis_evaluator_def)

text \<open>Only the coding tool decides, and every evaluation answers the submission.\<close>

lemma service_tool_evaluate:
  assumes "get_tool (service_tool_registry fr SB priv) kind = Inr ev" and "ev invo sub = Inr e"
  shows "evaluation_for invo sub e" and "kind \<noteq> CODING \<Longrightarrow> eval_passed e = None \<and> eval_score e = None"
  using assms by (auto simp: service_tool_registry_get coding_evaluate_for
      intro: manual_review_undecided structured_undecided split: tool_kind.splits)

text \<open>The invocation that the candidate sees does not depend on the hidden tests but for their
  number.\<close>

lemma create_challenge_hides_tests:
  assumes "length hidden = length (cod_hidden_tests r)"
  shows "map_sum id snd (create_challenge E n (r\<lparr>cod_hidden_tests := hidden\<rparr>) priv)
       = map_sum id snd (create_challenge E n r priv)"
  using assms by (auto simp: create_challenge_def ToolInvocation_def raise_if_def Let_def)

lemma create_challenge_Inr:
  assumes "create_challenge E n r priv = Inr (priv', invo)"
  shows "tool_id invo = new_id E ''tool'' n" and "tool_status invo = ToolOPEN" and "tool_kind invo = CODING"
    and "tool_competency_tags invo = cod_tags r" and "opened_from_turn_id invo = cod_opened_from r"
    and "dict_get priv' (tool_id invo) \<noteq> None"
  using assms by (auto simp: create_challenge_def ToolInvocation_def exn_simps Let_def)

end
