(* ===== verification/Tool_Templates.thy ===== *)
theory Tool_Templates
  imports Tools
begin

text \<open>
  \<^verbatim>\<open>tool_templates.py\<close>: the catalogue of practical tools that a job may allow. A template is
  instantiated to an open invocation that records its template identifier; a coding template
  goes through the challenge manager.
\<close>

section \<open>The code\<close>

datatype tool_template =
    StaticToolTemplate (tpl_id: string) (tpl_kind: tool_kind) (tpl_title: string)
      (tpl_description: string) (tpl_instructions: string) (tpl_payload: jdict)
  | CodingToolTemplate (tpl_id: string) (tpl_title: string) (tpl_description: string)
      (tpl_instructions: string) (tpl_starter_code: string) (tpl_public_tests: "string list")
      (tpl_hidden_tests: "string list") (tpl_timeout: rat)

definition template_kind :: "tool_template \<Rightarrow> tool_kind" where
  "template_kind t = (case t of StaticToolTemplate _ k _ _ _ _ \<Rightarrow> k | CodingToolTemplate _ _ _ _ _ _ _ _ \<Rightarrow> CODING)"

definition with_template_id :: "string \<Rightarrow> tool_invocation \<Rightarrow> tool_invocation" where
  "with_template_id i invo = invo\<lparr>tool_payload := dict_set ''template_id'' (JStr i) (tool_payload invo)\<rparr>"

definition instantiate_template :: "env \<Rightarrow> nat \<Rightarrow> tool_template \<Rightarrow> string list \<Rightarrow> string option \<Rightarrow> challenges
    \<Rightarrow> (challenges \<times> tool_invocation) result" where
  "instantiate_template E n t tags opened priv =
     (case t of
        StaticToolTemplate i kind title desc instr payload \<Rightarrow>
          ebind (ToolInvocation
            \<lparr> tool_id = new_id E ''tool'' n, tool_kind = kind, tool_title = title,
              tool_instructions = instr, tool_competency_tags = tags, tool_status = ToolOPEN,
              tool_payload = dict_set ''template_id'' (JStr i) payload,
              opened_from_turn_id = opened \<rparr>) (\<lambda>invo. Inr (priv, invo))
      | CodingToolTemplate i title desc instr starter public hidden timeout \<Rightarrow>
          (let r = \<lparr> cod_title = title, cod_instructions = instr, cod_tags = tags,
                     cod_starter_code = starter, cod_public_tests = public,
                     cod_hidden_tests = hidden, cod_opened_from = opened, cod_timeout = timeout \<rparr>
           in raise_if (\<not> coding_request_ok r) (ValidationError ''CodingChallengeRequest'')
              (ebind (create_challenge E n r priv) (\<lambda>(priv', invo).
                 Inr (priv', with_template_id i invo)))))"

type_synonym template_registry = "(string, tool_template) dict"

definition register_template :: "tool_template \<Rightarrow> template_registry \<Rightarrow> template_registry result" where
  "register_template t reg =
     raise_if (dict_get reg (tpl_id t) \<noteq> None) (ValueError (''duplicate tool template id: '' @ tpl_id t))
       (Inr (dict_set (tpl_id t) t reg))"

definition get_template :: "template_registry \<Rightarrow> string \<Rightarrow> tool_template result" where
  "get_template reg i = (case dict_get reg i of
      None \<Rightarrow> Inl (ValueError (''unknown tool template: '' @ i))
    | Some t \<Rightarrow> Inr t)"

definition describe_template :: "template_registry \<Rightarrow> string \<Rightarrow> (string, string) dict result" where
  "describe_template reg i = ebind (get_template reg i) (\<lambda>t.
     Inr [(''template_id'', tpl_id t), (''kind'', tool_kind_value (template_kind t)),
          (''description'', tpl_description t)])"

definition registry_instantiate :: "env \<Rightarrow> nat \<Rightarrow> template_registry \<Rightarrow> string \<Rightarrow> string list
    \<Rightarrow> string option \<Rightarrow> challenges \<Rightarrow> (challenges \<times> tool_invocation) result" where
  "registry_instantiate E n reg i tags opened priv =
     ebind (get_template reg i) (\<lambda>t. instantiate_template E n t tags opened priv)"

definition dedupe_events_template :: tool_template where
  \<open>dedupe_events_template = CodingToolTemplate
     ''python-dedupe-events-v1''
     ''Debug and complete an event de-duplication function''
     (''A short Python implementation task that checks edge-case reasoning ''
       @ ''and whether the candidate validates behavior beyond the happy path.'')
     (''Implement dedupe_events(events). Each event is a dictionary with id, ''
       @ ''timestamp, and payload. Keep exactly one event per id: the event with ''
       @ ''the greatest timestamp. Return the retained events ordered by timestamp ''
       @ ''ascending. Do not mutate the input list.'')
     (''def dedupe_events(events):'' @ [CHR 0x0A]
       @ ''    # Return one latest event per id, ordered by timestamp.'' @ [CHR 0x0A]
       @ ''    raise NotImplementedError'' @ [CHR 0x0A])
     [map (\<lambda>c. if c = CHR ''`'' then CHR 0x27 else c)
       (''assert dedupe_events([{`id`:`a`,`timestamp`:1,`payload`:`x`},''
        @ ''{`id`:`a`,`timestamp`:3,`payload`:`y`}]) == ''
        @ ''[{`id`:`a`,`timestamp`:3,`payload`:`y`}]'')]
     [map (\<lambda>c. if c = CHR ''`'' then CHR 0x27 else c)
       (''events=[{`id`:`b`,`timestamp`:5,`payload`:1},{`id`:`a`,`timestamp`:2,`payload`:2},''
        @ ''{`id`:`b`,`timestamp`:1,`payload`:3}]; before=[dict(x) for x in events]; ''
        @ ''assert dedupe_events(events) == [{`id`:`a`,`timestamp`:2,`payload`:2},''
        @ ''{`id`:`b`,`timestamp`:5,`payload`:1}]; assert events == before''),
      ''assert dedupe_events([]) == []'']
     5\<close>

definition system_design_template :: tool_template where
  "system_design_template = StaticToolTemplate
     ''system-design-burst-api-v1'' CASE_STUDY ''Bursty API architecture case''
     (''A system-design case focused on overload protection, queueing, ''
       @ ''failure modes, observability, and explicit trade-offs.'')
     (''A public API normally receives 1k requests/minute but can burst to ''
       @ ''100k requests/minute for five minutes. A downstream dependency cannot ''
       @ ''safely exceed 2k requests/minute. Propose an architecture, explain ''
       @ ''backpressure and degradation behavior, and list the metrics you would ''
       @ ''use to validate the design.'')
     [(''deliverables'', jstrs [''architecture_summary'', ''failure_modes'', ''tradeoffs'',
        ''validation_metrics''])]"

definition whiteboard_template :: tool_template where
  "whiteboard_template = StaticToolTemplate
     ''whiteboard-service-map-v1'' WHITEBOARD ''Service dependency whiteboard''
     (''A lightweight architecture whiteboard exercise for communicating ''
       @ ''components, boundaries, and data flow.'')
     (''Draw the major components of the proposed system, connect the critical ''
       @ ''request/data flows, and annotate at least two failure boundaries.'')
     [(''artifact_schema'', JObj [(''nodes'', JStr ''array''), (''edges'', JStr ''array''),
        (''notes'', JStr ''array'')])]"

definition incident_review_template :: tool_template where
  "incident_review_template = StaticToolTemplate
     ''document-incident-review-v1'' DOCUMENT ''Incident review analysis''
     (''A document-analysis exercise that asks the candidate to separate ''
       @ ''evidence, assumptions, contributing factors, and remediation.'')
     (''Review the supplied incident summary. Identify verified facts, open ''
       @ ''questions, contributing factors, and the first three remediation steps ''
       @ ''you would prioritize. State where evidence is insufficient.'')
     [(''document_type'', JStr ''incident_summary''),
      (''deliverables'', jstrs [''verified_facts'', ''open_questions'', ''contributing_factors'',
        ''remediation''])]"

definition data_analysis_template :: tool_template where
  "data_analysis_template = StaticToolTemplate
     ''data-analysis-service-latency-v1'' DATASET ''Service latency analysis''
     (''A data-analysis exercise focused on assumptions, ''
       @ ''calculation transparency, validation, and operational interpretation.'')
     (''Analyze the supplied service-latency dataset. Explain the method, ''
       @ ''state assumptions, show the calculations needed for the result, ''
       @ ''identify at least one validation check, and summarize what the ''
       @ ''result does and does not support.'')
     [(''dataset_type'', JStr ''service_latency''),
      (''deliverables'', jstrs [''analysis'', ''assumptions'', ''result'', ''validation'']),
      (''optional_deliverables'', jstrs [''calculations''])]"

definition default_tool_template_registry :: "template_registry result" where
  "default_tool_template_registry = efold register_template
     [dedupe_events_template, system_design_template, whiteboard_template,
      incident_review_template, data_analysis_template] []"

section \<open>Lemmas\<close>

text \<open>Building the default catalogue raises nothing; these are its entries.\<close>

lemma default_tool_template_registry_Inr:
  "default_tool_template_registry = Inr
     [(''python-dedupe-events-v1'', dedupe_events_template),
      (''system-design-burst-api-v1'', system_design_template),
      (''whiteboard-service-map-v1'', whiteboard_template),
      (''document-incident-review-v1'', incident_review_template),
      (''data-analysis-service-latency-v1'', data_analysis_template)]"
proof -
  have ids: "tpl_id dedupe_events_template = ''python-dedupe-events-v1''"
    "tpl_id system_design_template = ''system-design-burst-api-v1''"
    "tpl_id whiteboard_template = ''whiteboard-service-map-v1''"
    "tpl_id incident_review_template = ''document-incident-review-v1''"
    "tpl_id data_analysis_template = ''data-analysis-service-latency-v1''"
    by (simp_all add: dedupe_events_template_def system_design_template_def whiteboard_template_def
        incident_review_template_def data_analysis_template_def)
  show ?thesis by (simp add: default_tool_template_registry_def register_template_def ids)
qed

text \<open>An instantiated tool is open, is the position's, and remembers its template.\<close>

lemma instantiate_template_Inr:
  assumes "instantiate_template E n t tags opened priv = Inr (priv', invo)"
  shows "tool_id invo = new_id E ''tool'' n" and "tool_status invo = ToolOPEN"
    and "tool_competency_tags invo = tags" and "opened_from_turn_id invo = opened"
    and "dict_get (tool_payload invo) ''template_id'' = Some (JStr (tpl_id t))"
    and "tool_kind invo = template_kind t"
  using assms by (auto simp: instantiate_template_def ToolInvocation_def exn_simps Let_def
      with_template_id_def template_kind_def split: tool_template.splits dest: create_challenge_Inr)

lemma registry_instantiate_Inr:
  assumes "registry_instantiate E n reg i tags opened priv = Inr (priv', invo)"
    and "\<forall>(k, t) \<in> set reg. tpl_id t = k"
  shows "tool_id invo = new_id E ''tool'' n" and "tool_status invo = ToolOPEN"
    and "tool_competency_tags invo = tags" and "opened_from_turn_id invo = opened"
    and "dict_get (tool_payload invo) ''template_id'' = Some (JStr i)"
proof -
  from assms(1) obtain t where t: "dict_get reg i = Some t"
      and inst: "instantiate_template E n t tags opened priv = Inr (priv', invo)"
    by (auto simp: registry_instantiate_def get_template_def exn_simps split: option.splits)
  have "tpl_id t = i" using assms(2) t by (auto dest: map_of_SomeD)
  with instantiate_template_Inr [OF inst] show "tool_id invo = new_id E ''tool'' n"
    "tool_status invo = ToolOPEN" "tool_competency_tags invo = tags" "opened_from_turn_id invo = opened"
    "dict_get (tool_payload invo) ''template_id'' = Some (JStr i)" by simp_all
qed

end
