(* ===== verification/Service_Core.thy ===== *)
theory Service_Core
  imports Evidence Planner Controls Ensemble Tool_Templates Brains
begin

text \<open>
  The private operations of \<^verbatim>\<open>InterviewService\<close> (\<^verbatim>\<open>service.py\<close>) on one session object:
  \<open>apply_decision\<close>, \<open>append_tool\<close>, \<open>open_requested_tool\<close>, \<open>judge_candidate_evidence\<close> and
  \<open>apply_transcript_correction\<close>. Where the code catches an exception and goes on with the
  objects it has mutated, the model carries the session that the failed block leaves.
\<close>

section \<open>Decisions\<close>

definition add_anchors :: "string list \<Rightarrow> string list \<Rightarrow> string list" where
  "add_anchors tags asked = fold (\<lambda>c xs. if c \<in> set xs then xs else xs @ [c]) tags asked"

definition decision_turn :: "env \<Rightarrow> agent_decision \<Rightarrow> int \<Rightarrow> interview_session \<Rightarrow> turn" where
  "decision_turn E d latency s =
     \<lparr> turn_id = new_id E ''turn'' (length (turns s)), speaker = INTERVIEWER,
       turn_text = decision_text d, parent_turn_id = decision_parent d,
       competency_tags = decision_tags d, response_latency_ms = Some latency,
       metadata = [(''decision_reason'', JStr (decision_reason d)),
                   (''latency_scope'', JStr (if latency \<noteq> 0 then ''brain_only'' else ''planner'')),
                   (''question_lane'', JStr (lane_value (lane_for d)))] \<rparr>"

text \<open>The turn and the counters that a decision adds.\<close>

definition decided :: "env \<Rightarrow> agent_decision \<Rightarrow> int \<Rightarrow> interview_session \<Rightarrow> interview_session" where
  "decided E d latency s =
     (let lane = lane_for d;
          s1 = s\<lparr>turns := turns s @ [decision_turn E d latency s]\<rparr>;
          s2 = (if lane \<noteq> CLOSING then s1\<lparr>asked_questions := asked_questions s1 + 1\<rparr> else s1)
      in if lane = ANCHOR then s2\<lparr>asked_anchor_competencies :=
           add_anchors (decision_tags d) (asked_anchor_competencies s2)\<rparr> else s2)"

definition apply_decision :: "env \<Rightarrow> agent_decision \<Rightarrow> int \<Rightarrow> interview_session
    \<Rightarrow> (interview_session \<times> turn) result" where
  "apply_decision E d latency s =
     (let t = decision_turn E d latency s; s1 = decided E d latency s
      in ebind (append_event E INTERVIEWER_TURN (Some t)
           [(''question_lane'', JStr (lane_value (lane_for d))),
            (''decision_reason'', JStr (decision_reason d)),
            (''competency_tags'', jstrs (decision_tags d)),
            (''covered_competencies'', jstrs (covered_competencies s1)),
            (''asked_questions'', JInt (asked_questions s1))] s1) (\<lambda>s2. Inr (s2, t)))"

definition count_followup :: "agent_decision \<Rightarrow> interview_session \<Rightarrow> interview_session" where
  "count_followup d s =
     (case (decision_parent d, decision_tags d) of
        (Some p, key # _) \<Rightarrow>
          if p = [] then s
          else s\<lparr>followups_by_competency := dict_set key
                   (dict_get_or (followups_by_competency s) key 0 + 1) (followups_by_competency s)\<rparr>
      | _ \<Rightarrow> s)"

definition complete_if :: "env \<Rightarrow> agent_decision \<Rightarrow> interview_session \<Rightarrow> interview_session result" where
  "complete_if E d s =
     (if completes_interview d
      then append_event E SESSION_COMPLETED None []
             (s\<lparr>status := COMPLETED,
                completed_at := (if completed_at s = None then Some (now_at E ''completed_at'' 0)
                                 else completed_at s)\<rparr>)
      else Inr s)"

section \<open>Tools\<close>

definition http :: "int \<Rightarrow> string \<Rightarrow> exn" where
  "http code detail = HTTPException code detail"

text \<open>\<^verbatim>\<open>except ValueError as exc: raise HTTPException(400, str(exc))\<close>.\<close>

definition value_error_400 :: "'a result \<Rightarrow> 'a result" where
  "value_error_400 r = (case r of
      Inl e \<Rightarrow> Inl (if is_value_error e then http 400 (exn_str e) else e)
    | Inr x \<Rightarrow> Inr x)"

definition check_live :: "interview_session \<Rightarrow> 'a result \<Rightarrow> 'a result" where
  "check_live s rest =
     raise_if (status s = COMPLETED) (http 409 ''Interview is already complete'')
     (raise_if (status s = CANCELLED) (http 409 ''Interview is cancelled'') rest)"

definition append_tool :: "env \<Rightarrow> job_spec \<Rightarrow> tool_invocation \<Rightarrow> interview_session
    \<Rightarrow> interview_session result" where
  "append_tool E job invo s =
     check_live s
     (raise_if (list_ex (\<lambda>t. tool_id t = tool_id invo) (tools s))
       (http 409 ''Tool invocation id already exists'')
     (let unknown = filter (\<lambda>c. c \<notin> set (competency_ids_of job)) (tool_competency_tags invo)
      in raise_if (unknown \<noteq> [])
        (http 400 (''Tool references unknown competencies: '' @ repr_str_list unknown))
     (raise_if (case opened_from_turn_id invo of None \<Rightarrow> False
                | Some t \<Rightarrow> t \<noteq> [] \<and> t \<notin> set (map turn_id (turns s)))
        (http 400 ''Tool references unknown opening turn'')
     (append_event E TOOL_OPENED None
        [(''tool_id'', JStr (tool_id invo)), (''kind'', JStr (tool_kind_value (tool_kind invo))),
         (''competency_tags'', jstrs (tool_competency_tags invo)),
         (''opened_from_turn_id'', jopt_str (opened_from_turn_id invo))]
        (s\<lparr>tools := tools s @ [invo]\<rparr>)))))"

text \<open>The guards of a requested tool: budget, no repetition, policy of the job.\<close>

definition tool_request_guards :: "env \<Rightarrow> job_spec \<Rightarrow> agent_decision \<Rightarrow> string \<Rightarrow> interview_session
    \<Rightarrow> unit result" where
  "tool_request_guards E job d template s =
     raise_if (max_tools job \<le> int (length (tools s))) (http 409 ''Job tool budget has been exhausted'')
     (raise_if (template \<in> set (used_templates (float_repr (rt E)) s))
       (http 409 (''Tool template already used in this session: '' @ template))
     (case find (\<lambda>p. jtt_template_id p = template) (rev (tool_templates job)) of
        None \<Rightarrow> Inl (http 400 (''Brain requested tool template not allowed by job: '' @ template))
      | Some allowed \<Rightarrow>
          (let outside = sorted_set (filter (\<lambda>c. c \<notin> set (jtt_competency_ids allowed)) (decision_tags d))
           in raise_if (jtt_competency_ids allowed \<noteq> [] \<and> outside \<noteq> [])
                (http 400 (''Tool request uses competencies outside its job policy: ''
                   @ repr_str_list outside))
              (Inr ()))))"

text \<open>The challenge store keeps the private part of an instantiated challenge even when a later
  step of the request fails.\<close>

definition open_requested_tool :: "env \<Rightarrow> template_registry \<Rightarrow> job_spec \<Rightarrow> agent_decision \<Rightarrow> string
    \<Rightarrow> interview_session \<Rightarrow> challenges
    \<Rightarrow> challenges \<times> (interview_session \<times> tool_invocation option) result" where
  "open_requested_tool E reg job d from_turn s priv =
     (case tool_request d of
        None \<Rightarrow> (priv, Inr (s, None))
      | Some template \<Rightarrow>
          (case tool_request_guards E job d template s of
             Inl e \<Rightarrow> (priv, Inl e)
           | Inr _ \<Rightarrow>
               (case value_error_400 (registry_instantiate E (length (tools s)) reg template
                        (decision_tags d) (Some from_turn) priv) of
                  Inl e \<Rightarrow> (priv, Inl e)
                | Inr (priv', invo) \<Rightarrow>
                    (priv', ebind (append_tool E job invo s) (\<lambda>s'. Inr (s', Some invo))))))"

section \<open>Evidence judging\<close>

type_synonym judge_state = "interview_session \<times> evidence_judge_run"

text \<open>A block of the \<^verbatim>\<open>try\<close>: the objects it leaves and the exception, if it raised one.\<close>

type_synonym judge_block = "judge_state \<times> exn option"

definition then_block :: "judge_block \<Rightarrow> (judge_state \<Rightarrow> judge_block) \<Rightarrow> judge_block" where
  "then_block b f = (case b of (st, None) \<Rightarrow> f st | (st, Some e) \<Rightarrow> (st, Some e))"

definition event_block :: "env \<Rightarrow> event_type \<Rightarrow> turn \<Rightarrow> jdict \<Rightarrow> judge_state \<Rightarrow> judge_block" where
  "event_block E ty t payload st =
     (case append_event E ty (Some t) payload (fst st) of
        Inl e \<Rightarrow> (st, Some e)
      | Inr s' \<Rightarrow> ((s', snd st), None))"

fun superseded_events :: "env \<Rightarrow> turn \<Rightarrow> string \<Rightarrow> evidence_item list \<Rightarrow> judge_state \<Rightarrow> judge_block" where
  "superseded_events E answer rid [] st = (st, None)"
| "superseded_events E answer rid (it # its) st =
     then_block (event_block E EVIDENCE_SUPERSEDED answer
       [(''evidence_id'', JStr (ev_id it)), (''judge_run_id'', jopt_str (ev_judge_run_id it)),
        (''answer_turn_id'', JStr (turn_id answer)), (''superseded_by_run_id'', JStr rid)] st)
     (superseded_events E answer rid its)"

text \<open>Iterating over a value of a judge's audit.\<close>

definition py_iter :: "json \<Rightarrow> json list result" where
  "py_iter v = (case v of
      JList xs \<Rightarrow> Inr xs
    | JStr s \<Rightarrow> Inr (map (\<lambda>c. JStr [c]) s)
    | JObj d \<Rightarrow> Inr (map (\<lambda>kv. JStr (fst kv)) d)
    | _ \<Rightarrow> Inl (TypeError (repr_str (json_type_name v) @ '' object is not iterable'')))"

definition is_jobj :: "json \<Rightarrow> bool" where
  "is_jobj v = (case v of JObj _ \<Rightarrow> True | _ \<Rightarrow> False)"

definition threshold_missed :: "json \<Rightarrow> bool" where
  "threshold_missed v = (case v of
      JObj d \<Rightarrow> \<not> truthy (dict_get_or d ''threshold_met'' (JBool False)) | _ \<Rightarrow> False)"

definition audit_block :: "env \<Rightarrow> string \<Rightarrow> turn \<Rightarrow> turn \<Rightarrow> jdict \<Rightarrow> judge_state \<Rightarrow> judge_block" where
  "audit_block E jid question answer audit st0 =
     (let run = (snd st0)\<lparr>run_audit := audit\<rparr>; st = (fst st0, run)
      in if jget audit ''kind'' = JStr ''evidence_judge_ensemble''
         then (case ebind (py_iter (dict_get_or audit ''competencies'' (JList []))) (\<lambda>cs.
                    ebind (py_iter (dict_get_or audit ''failures'' (JList []))) (\<lambda>fs.
                    Inr (filter threshold_missed cs, filter is_jobj fs))) of
                 Inl e \<Rightarrow> (st, Some e)
               | Inr (disagreements, subjudge_failures) \<Rightarrow>
                   if disagreements \<noteq> [] \<or> subjudge_failures \<noteq> []
                   then event_block E EVIDENCE_JUDGE_DISAGREEMENT answer
                     [(''judge_run_id'', JStr (run_id run)), (''judge_id'', JStr jid),
                      (''question_turn_id'', JStr (turn_id question)),
                      (''answer_turn_id'', JStr (turn_id answer)),
                      (''agreement_threshold'', jget audit ''agreement_threshold''),
                      (''required_votes'', jget audit ''required_votes''),
                      (''disagreements'', JList disagreements),
                      (''subjudge_failures'', JList subjudge_failures)] st
                   else (st, None))
         else (st, None))"

fun observe_block :: "env \<Rightarrow> job_spec \<Rightarrow> turn \<Rightarrow> evidence_observation list \<Rightarrow> judge_state
    \<Rightarrow> judge_block" where
  "observe_block E job answer [] st = (st, None)"
| "observe_block E job answer (ob # obs) st =
     (case apply_observation E (fst st) job ob of
        Inl e \<Rightarrow> (st, Some e)
      | Inr (s1, item) \<Rightarrow>
          (let run1 = (snd st)\<lparr>run_observation_ids := run_observation_ids (snd st) @ [ev_id item]\<rparr>
           in then_block (event_block E EVIDENCE_OBSERVED answer
                [(''evidence_id'', JStr (ev_id item)), (''judge_run_id'', JStr (run_id run1)),
                 (''competency_id'', JStr (obs_competency_id ob)),
                 (''state'', JStr (evidence_state_value (obs_state ob))),
                 (''confidence'', JFloat (obs_confidence ob)), (''quote'', jopt_str (obs_quote ob)),
                 (''source'', JStr (obs_source ob))] (s1, run1))
              (observe_block E job answer obs)))"

definition run_recorded_payload :: "evidence_judge_run \<Rightarrow> string list \<Rightarrow> bool \<Rightarrow> jdict" where
  "run_recorded_payload run obs_ids failed =
     [(''judge_run_id'', JStr (run_id run)), (''judge_id'', JStr (run_judge_id run)),
      (''question_turn_id'', JStr (run_question_turn_id run)),
      (''answer_turn_id'', JStr (run_answer_turn_id run)),
      (''observation_ids'', jstrs obs_ids),
      (''transcript_revision_count'', JInt (run_transcript_revision_count run)),
      (''supersedes_run_id'', jopt_str (run_supersedes_run_id run)),
      (''failed'', JBool failed)]"

definition add_run :: "judge_state \<Rightarrow> judge_state" where
  "add_run st = ((fst st)\<lparr>evidence_judge_runs := evidence_judge_runs (fst st) @ [snd st]\<rparr>, snd st)"

definition with_run_id :: "string \<Rightarrow> evidence_observation \<Rightarrow> evidence_observation" where
  "with_run_id rid ob = ob\<lparr>obs_judge_run_id := Some rid\<rparr>"

text \<open>The body of the \<^verbatim>\<open>try\<close>.\<close>

definition judge_try :: "env \<Rightarrow> evidence_judge \<Rightarrow> job_spec \<Rightarrow> turn \<Rightarrow> turn \<Rightarrow> string list \<Rightarrow> bool
    \<Rightarrow> judge_state \<Rightarrow> judge_block" where
  "judge_try E J job question answer cids supersede st =
     (case ebind (evaluate J question answer job cids) (\<lambda>response.
           ebind (gate_validate answer response (judge_id J)) (\<lambda>raw. Inr (response, raw))) of
        Inl e \<Rightarrow> (st, Some e)
      | Inr (response, raw) \<Rightarrow>
          (let rid = run_id (snd st);
               observations = map (with_run_id rid) raw;
               superseded = (if supersede
                 then (let (s', items) = supersede_semantic_evidence_for_turn (turn_id answer) (fst st)
                       in superseded_events E answer rid items (s', snd st))
                 else (st, None))
           in then_block superseded (\<lambda>st1.
              then_block (audit_block E (judge_id J) question answer (response_audit response) st1) (\<lambda>st2.
              then_block (observe_block E job answer observations st2) (\<lambda>st3.
              let st4 = add_run st3; run = snd st4
              in event_block E EVIDENCE_JUDGE_RUN_RECORDED answer
                   (run_recorded_payload run (run_observation_ids run) False) st4)))))"

definition caught_by_judge :: "exn \<Rightarrow> bool" where
  "caught_by_judge e = (is_value_error e
     \<or> (case e of EvidenceJudgeError _ \<Rightarrow> True | TypeError _ \<Rightarrow> True | _ \<Rightarrow> False))"

text \<open>The \<^verbatim>\<open>except\<close>.\<close>

definition judge_except :: "env \<Rightarrow> evidence_judge \<Rightarrow> turn \<Rightarrow> turn \<Rightarrow> string list \<Rightarrow> exn \<Rightarrow> judge_state
    \<Rightarrow> judge_state result" where
  "judge_except E J question answer cids e st =
     (let run = (snd st)\<lparr>run_error_type := Some (exn_name e), run_error := Some (take 2000 (exn_str e))\<rparr>;
          st1 = add_run (fst st, run)
      in ebind (append_event E EVIDENCE_JUDGE_FAILED (Some answer)
           [(''judge_run_id'', JStr (run_id run)), (''judge_id'', JStr (judge_id J)),
            (''question_turn_id'', JStr (turn_id question)),
            (''answer_turn_id'', JStr (turn_id answer)), (''competency_ids'', jstrs cids),
            (''error_type'', jopt_str (run_error_type run)), (''error'', jopt_str (run_error run))]
           (fst st1)) (\<lambda>s2.
         ebind (append_event E EVIDENCE_JUDGE_RUN_RECORDED (Some answer)
           (run_recorded_payload run [] True) s2) (\<lambda>s3. Inr (s3, run))))"

definition new_judge_run :: "env \<Rightarrow> evidence_judge \<Rightarrow> turn \<Rightarrow> turn \<Rightarrow> string list \<Rightarrow> string option
    \<Rightarrow> interview_session \<Rightarrow> evidence_judge_run" where
  "new_judge_run E J question answer cids supersedes s =
     (let n = length (evidence_judge_runs s)
      in \<lparr> run_id = new_id E ''judge_run'' n, run_judge_id = judge_id J,
           run_question_turn_id = turn_id question, run_answer_turn_id = turn_id answer,
           run_competency_ids = cids, run_created_at = now_at E ''judge_run'' n,
           run_transcript_revision_count = int (length (filter
             (\<lambda>r. rev_turn_id r = turn_id answer) (transcript_revisions s))),
           run_observation_ids = [], run_audit = [], run_error_type = None, run_error = None,
           run_supersedes_run_id = supersedes \<rparr>)"

definition judge_candidate_evidence :: "env \<Rightarrow> evidence_judge \<Rightarrow> job_spec \<Rightarrow> turn \<Rightarrow> turn \<Rightarrow> bool
    \<Rightarrow> string option \<Rightarrow> interview_session
    \<Rightarrow> (interview_session \<times> evidence_judge_run option) result" where
  "judge_candidate_evidence E J job question answer supersede supersedes s =
     (let cids = fromkeys (competency_tags question)
      in if judge_id J = ''disabled'' then Inr (s, None)
         else if cids = [] then Inr (s, None)
         else raise_if (\<not> len_between 1 500 (judge_id J)) (ValidationError ''EvidenceJudgeRun'')
           (let run = new_judge_run E J question answer cids supersedes s
            in case judge_try E J job question answer cids supersede (s, run) of
                 (st, None) \<Rightarrow> Inr (fst st, Some (snd st))
               | (st, Some e) \<Rightarrow>
                   if caught_by_judge e
                   then ebind (judge_except E J question answer cids e st) (\<lambda>st'.
                          Inr (fst st', Some (snd st')))
                   else Inl e))"

section \<open>Transcript corrections\<close>

text \<open>
  Mutating the metadata dictionary of a turn. If the session object shares that dictionary
  with the payload of the turn's event, the payload changes with it.
\<close>

definition share_metadata :: "string \<Rightarrow> jdict \<Rightarrow> interview_event list \<Rightarrow> interview_event list" where
  "share_metadata tid meta es = map (\<lambda>e.
     if event_type e = CANDIDATE_TURN \<and> event_turn_id e = Some tid
     then e\<lparr>event_payload := dict_set ''metadata'' (JObj meta) (event_payload e)\<rparr> else e) es"

definition correct_turn :: "string \<Rightarrow> string \<Rightarrow> jdict \<Rightarrow> interview_session \<Rightarrow> interview_session" where
  "correct_turn tid text meta s = s\<lparr>
     turns := update_first (\<lambda>t. turn_id t = tid) (\<lambda>t. t\<lparr>turn_text := text, metadata := meta\<rparr>) (turns s),
     events := (if tid \<in> set (shared_metadata s) then share_metadata tid meta (events s) else events s)\<rparr>"

definition corrected_metadata :: "interview_session \<Rightarrow> turn \<Rightarrow> string \<Rightarrow> jdict" where
  "corrected_metadata s t rid =
     dict_set ''transcript_revision_count''
       (JInt (int (length (filter (\<lambda>r. rev_turn_id r = turn_id t) (transcript_revisions s)))))
       (dict_set ''transcript_revision_id'' (JStr rid) (metadata t))"

definition correction_revision :: "env \<Rightarrow> transcript_correction_request \<Rightarrow> turn \<Rightarrow> interview_session
    \<Rightarrow> transcript_revision" where
  "correction_revision E req t s =
     \<lparr> rev_id = new_id E ''revision'' (length (transcript_revisions s)), rev_turn_id = turn_id t,
       rev_original_text = turn_text t, rev_corrected_text = corr_text req,
       rev_reason = corr_reason req \<rparr>"

definition corrected :: "transcript_correction_request \<Rightarrow> turn \<Rightarrow> transcript_revision
    \<Rightarrow> interview_session \<Rightarrow> interview_session" where
  "corrected req t revision s =
     (let s1 = s\<lparr>transcript_revisions := transcript_revisions s @ [revision]\<rparr>
      in correct_turn (turn_id t) (corr_text req) (corrected_metadata s1 t (rev_id revision)) s1)"

definition superseded_payload :: "turn \<Rightarrow> evidence_item \<Rightarrow> jdict" where
  "superseded_payload t it =
     [(''evidence_id'', JStr (ev_id it)), (''judge_run_id'', jopt_str (ev_judge_run_id it)),
      (''answer_turn_id'', JStr (turn_id t)), (''reason'', JStr ''transcript_corrected'')]"

definition apply_transcript_correction :: "env \<Rightarrow> transcript_correction_request \<Rightarrow> interview_session
    \<Rightarrow> (interview_session \<times> transcript_revision) result" where
  "apply_transcript_correction E req s =
     (case turn_with_id s (corr_turn_id req) of
        None \<Rightarrow> Inl (http 404 ''Turn not found'')
      | Some t \<Rightarrow>
          raise_if (speaker t \<noteq> CANDIDATE) (http 400 ''Only candidate transcript turns can be corrected'')
          (let revision = correction_revision E req t s
           in ebind (append_event E TRANSCRIPT_CORRECTED (Some t)
                [(''revision_id'', JStr (rev_id revision)),
                 (''original_text'', JStr (rev_original_text revision)),
                 (''corrected_text'', JStr (rev_corrected_text revision)),
                 (''reason'', jopt_str (rev_reason revision))] (corrected req t revision s)) (\<lambda>s1.
              let (s2, superseded) = supersede_semantic_evidence_for_turn (turn_id t) s1
              in ebind (efold (\<lambda>it. append_event E EVIDENCE_SUPERSEDED (Some t) (superseded_payload t it))
                     superseded s2) (\<lambda>s3. Inr (s3, revision)))))"

end
