(* ===== verification/Rubric_Drafting.thy ===== *)
theory Rubric_Drafting
  imports Models
begin

text \<open>
  \<^verbatim>\<open>rubric_drafting.py\<close>: the draft a model writes, the request by which a recruiter approves
  it, the validators, the summary of the recruiter's edits and the transition from a draft to
  an approved draft together with its job. The text generation itself is a service.
\<close>

section \<open>Data\<close>

record rubric_draft_competency =
  rdc_id :: string
  rdc_description :: string
  rdc_weight :: rat
  rdc_anchor_question :: string
  rdc_rationale :: string
  rdc_observable_evidence :: "string list"

record rubric_approval_request =
  apr_job_id :: "string option"
  apr_title :: string
  apr_description :: string
  apr_competencies :: "competency list"
  apr_max_questions :: int
  apr_anchor_ratio :: rat
  apr_tool_templates :: "job_tool_template list"
  apr_max_tools :: int
  apr_review_note :: "string option"

record rubric_draft =
  draft_id :: string
  draft_organization_id :: "string option"
  draft_created_at :: datetime
  draft_title :: string
  draft_job_description :: string
  draft_locale :: string
  draft_competencies :: "rubric_draft_competency list"
  draft_max_questions :: int
  draft_anchor_ratio :: rat
  drafter_id :: string
  draft_warnings :: "string list"
  activation_status :: string
  approved_job_id :: "string option"
  approved_by :: "string option"
  approved_at :: "datetime option"

definition is_snake_char :: "char \<Rightarrow> bool" where
  "is_snake_char c = (is_digit c \<or> (let n = (of_char c :: nat) in 97 \<le> n \<and> n \<le> 122))"

text \<open>The pattern \<^verbatim>\<open>^[a-z0-9][a-z0-9_]*$\<close> and the length bounds.\<close>

definition rubric_draft_competency_ok :: "rubric_draft_competency \<Rightarrow> bool" where
  "rubric_draft_competency_ok c =
     (len_between 2 80 (rdc_id c) \<and> is_snake_char (hd (rdc_id c))
      \<and> list_all (\<lambda>x. is_snake_char x \<or> x = CHR ''_'') (rdc_id c)
      \<and> len_between 8 1000 (rdc_description c) \<and> 0 < rdc_weight c \<and> rdc_weight c \<le> 10
      \<and> len_between 8 2000 (rdc_anchor_question c) \<and> len_between 8 2000 (rdc_rationale c)
      \<and> 1 \<le> length (rdc_observable_evidence c) \<and> length (rdc_observable_evidence c) \<le> 8)"

definition rubric_approval_request_ok :: "rubric_approval_request \<Rightarrow> bool" where
  "rubric_approval_request_ok r =
     (opt_all (\<lambda>j. j \<noteq> []) (apr_job_id r) \<and> len_between 2 200 (apr_title r)
      \<and> len_between 20 30000 (apr_description r)
      \<and> 3 \<le> length (apr_competencies r) \<and> length (apr_competencies r) \<le> 12
      \<and> list_all competency_ok (apr_competencies r)
      \<and> 3 \<le> apr_max_questions r \<and> apr_max_questions r \<le> 30
      \<and> 1/5 \<le> apr_anchor_ratio r \<and> apr_anchor_ratio r \<le> 4/5
      \<and> list_all job_tool_template_ok (apr_tool_templates r)
      \<and> 0 \<le> apr_max_tools r \<and> apr_max_tools r \<le> 10
      \<and> opt_all (\<lambda>n. length n \<le> 5000) (apr_review_note r))"

definition rubric_draft_fields_ok :: "rubric_draft \<Rightarrow> bool" where
  "rubric_draft_fields_ok d =
     (opt_all (len_between 1 256) (draft_organization_id d)
      \<and> 3 \<le> length (draft_competencies d) \<and> length (draft_competencies d) \<le> 12
      \<and> list_all rubric_draft_competency_ok (draft_competencies d)
      \<and> 3 \<le> draft_max_questions d \<and> draft_max_questions d \<le> 30
      \<and> 1/5 \<le> draft_anchor_ratio d \<and> draft_anchor_ratio d \<le> 4/5
      \<and> len_between 1 500 (drafter_id d)
      \<and> opt_all (\<lambda>a. length a \<le> 256) (approved_by d))"

section \<open>Operations\<close>

definition validate_draft :: "rubric_draft \<Rightarrow> rubric_draft result" where
  "validate_draft d =
     raise_if (\<not> distinct (map rdc_id (draft_competencies d)))
       (ValueError ''draft competency ids must be unique'')
     (raise_if (activation_status d \<notin> {''draft_only'', ''approved''})
       (ValueError ''unsupported rubric draft activation_status'')
     (if activation_status d = ''draft_only''
      then raise_if (approved_job_id d \<noteq> None \<or> approved_by d \<noteq> None \<or> approved_at d \<noteq> None)
             (ValueError ''draft_only rubric cannot contain approval metadata'') (Inr d)
      else raise_if (approved_job_id d = None \<or> approved_by d = None \<or> approved_at d = None)
             (ValueError ''approved rubric requires job, reviewer, and timestamp'') (Inr d)))"

definition RubricDraft :: "rubric_draft \<Rightarrow> rubric_draft result" where
  "RubricDraft d = raise_if (\<not> rubric_draft_fields_ok d) (ValidationError ''RubricDraft'')
     (case validate_draft d of Inl e \<Rightarrow> Inl (ValidationError (exn_str e)) | Inr d' \<Rightarrow> Inr d')"

text \<open>\<^verbatim>\<open>a or b\<close> on optional strings.\<close>

definition or_str :: "string option \<Rightarrow> string option \<Rightarrow> string option" where
  "or_str a b = (case a of None \<Rightarrow> b | Some x \<Rightarrow> if x = [] then b else Some x)"

definition to_job_spec :: "env \<Rightarrow> rubric_draft \<Rightarrow> string option \<Rightarrow> job_spec result" where
  "to_job_spec E d jid =
     JobSpec \<lparr> job_key = (case or_str jid None of Some j \<Rightarrow> j | None \<Rightarrow> new_id E ''job'' 0),
       job_organization_id = None, job_title = draft_title d,
       job_description = draft_job_description d,
       competencies = map (\<lambda>c. \<lparr> competency_key = rdc_id c,
          competency_description = rdc_description c, competency_weight = rdc_weight c,
          anchor_question = Some (rdc_anchor_question c) \<rparr>) (draft_competencies d),
       max_questions = draft_max_questions d, anchor_ratio = draft_anchor_ratio d,
       tool_templates = [], max_tools = 2, job_rubric_provenance = None \<rparr>"

definition edit_added :: "rubric_draft \<Rightarrow> rubric_approval_request \<Rightarrow> string list" where
  "edit_added d r = sorted_set (filter (\<lambda>c. c \<notin> set (map rdc_id (draft_competencies d)))
     (map competency_key (apr_competencies r)))"

definition edit_removed :: "rubric_draft \<Rightarrow> rubric_approval_request \<Rightarrow> string list" where
  "edit_removed d r = sorted_set (filter (\<lambda>c. c \<notin> set (map competency_key (apr_competencies r)))
     (map rdc_id (draft_competencies d)))"

text \<open>\<^verbatim>\<open>{item.id: item for item in xs}\<close>: for a repeated id the last item.\<close>

definition edit_modified :: "rubric_draft \<Rightarrow> rubric_approval_request \<Rightarrow> string list" where
  "edit_modified d r =
     (let original = map_of (rev (map (\<lambda>c. (rdc_id c, c)) (draft_competencies d)));
          approved = map_of (rev (map (\<lambda>c. (competency_key c, c)) (apr_competencies r)))
      in filter (\<lambda>k. case (original k, approved k) of
             (Some before, Some after) \<Rightarrow>
               rdc_description before \<noteq> competency_description after
               \<or> rdc_weight before \<noteq> competency_weight after
               \<or> Some (rdc_anchor_question before) \<noteq> anchor_question after
           | _ \<Rightarrow> False)
         (sorted_set (filter (\<lambda>c. c \<in> set (map competency_key (apr_competencies r)))
            (map rdc_id (draft_competencies d)))))"

definition edit_summary :: "rubric_draft \<Rightarrow> rubric_approval_request \<Rightarrow> jdict" where
  "edit_summary d r =
     [(''title_changed'', JBool (apr_title r \<noteq> draft_title d)),
      (''description_changed'', JBool (apr_description r \<noteq> draft_job_description d)),
      (''max_questions_changed'', JBool (apr_max_questions r \<noteq> draft_max_questions d)),
      (''anchor_ratio_changed'', JBool (apr_anchor_ratio r \<noteq> draft_anchor_ratio d)),
      (''competencies_added'', jstrs (edit_added d r)),
      (''competencies_removed'', jstrs (edit_removed d r)),
      (''competencies_modified'', jstrs (edit_modified d r))]"

definition approve_rubric_draft :: "env \<Rightarrow> rubric_draft \<Rightarrow> rubric_approval_request
    \<Rightarrow> string \<Rightarrow> string option \<Rightarrow> (rubric_draft \<times> job_spec) result" where
  "approve_rubric_draft E d r by org =
     raise_if (activation_status d \<noteq> ''draft_only'')
       (RubricDraftError ''rubric draft is already approved'')
     (let jid = (case or_str (apr_job_id r) None of Some j \<Rightarrow> j | None \<Rightarrow> new_id E ''job'' 0);
          ts = now_at E ''approved_at'' 0;
          prov = \<lparr> prov_draft_id = draft_id d, prov_drafter_id = drafter_id d,
             prov_approved_by = by, prov_approved_at = ts,
             prov_review_note = apr_review_note r, prov_edit_summary = edit_summary d r \<rparr>
      in raise_if (\<not> rubric_provenance_ok prov) (ValidationError ''RubricProvenance'')
        (ebind (JobSpec \<lparr> job_key = jid, job_organization_id = or_str org (draft_organization_id d),
             job_title = apr_title r, job_description = apr_description r,
             competencies = apr_competencies r, max_questions = apr_max_questions r,
             anchor_ratio = apr_anchor_ratio r, tool_templates = apr_tool_templates r,
             max_tools = apr_max_tools r, job_rubric_provenance = Some prov \<rparr>) (\<lambda>job.
         ebind (RubricDraft (d\<lparr>activation_status := ''approved'', approved_job_id := Some (job_key job),
                  approved_by := Some by, approved_at := Some ts\<rparr>)) (\<lambda>d'.
         Inr (d', job)))))"

section \<open>Lemmas\<close>

definition draft_ok :: "rubric_draft \<Rightarrow> bool" where
  "draft_ok d \<longleftrightarrow> rubric_draft_fields_ok d \<and> distinct (map rdc_id (draft_competencies d)) \<and>
     (activation_status d = ''draft_only'' \<and> approved_job_id d = None \<and> approved_by d = None
        \<and> approved_at d = None
      \<or> activation_status d = ''approved'' \<and> approved_job_id d \<noteq> None \<and> approved_by d \<noteq> None
        \<and> approved_at d \<noteq> None)"

lemma validate_draft_Inr:
  "validate_draft d = Inr d' \<longleftrightarrow> d' = d \<and> distinct (map rdc_id (draft_competencies d)) \<and>
     (activation_status d = ''draft_only'' \<and> approved_job_id d = None \<and> approved_by d = None
        \<and> approved_at d = None
      \<or> activation_status d = ''approved'' \<and> approved_job_id d \<noteq> None \<and> approved_by d \<noteq> None
        \<and> approved_at d \<noteq> None)"
  by (auto simp: validate_draft_def raise_if_def)

lemma RubricDraft_Inr: "RubricDraft d = Inr d' \<longleftrightarrow> d' = d \<and> draft_ok d"
  using validate_draft_Inr [of d d] validate_draft_Inr [of d d']
  by (cases "validate_draft d") (auto simp: RubricDraft_def draft_ok_def raise_if_def)

lemma approve_rubric_draft_Inr:
  assumes "approve_rubric_draft E d r by org = Inr (d', job)"
  shows "activation_status d = ''draft_only''"
    and "d' = d\<lparr>activation_status := ''approved'', approved_job_id := Some (job_key job),
           approved_by := Some by, approved_at := Some (now_at E ''approved_at'' 0)\<rparr>"
    and "draft_ok d'" and "job_spec_ok job"
    and "\<exists>p. job_rubric_provenance job = Some p \<and> prov_draft_id p = draft_id d
           \<and> prov_approved_by p = by \<and> prov_approved_at p = now_at E ''approved_at'' 0
           \<and> prov_edit_summary p = edit_summary d r"
    and "competencies job = apr_competencies r"
    and "job_organization_id job = or_str org (draft_organization_id d)"
  using assms
  by (auto simp: approve_rubric_draft_def Let_def exn_simps JobSpec_Inr RubricDraft_Inr)

end
