(* ===== verification/Stores.thy ===== *)
theory Stores
  imports Rubric_Drafting
begin

text \<open>
  Persistence: the contract of \<^verbatim>\<open>storage.py\<close> as the locale \<open>session_store\<close>, and its three
  providers, the in-memory dictionaries of \<^verbatim>\<open>storage.py\<close> and the tables of
  \<^verbatim>\<open>sqlite_store.py\<close> and \<^verbatim>\<open>postgres_store.py\<close>, each operation one atomic function of the
  store (the sources hold a lock or one transaction). A write checks the version the writer
  read against the stored one.

  Serialisation: the two SQL providers store the text of the model, so what is read back
  shares no objects (\<open>serialised\<close> drops the sharing of metadata dictionaries); the
  in-memory store deep-copies, which keeps the sharing inside one session.
\<close>

section \<open>The contract\<close>

text \<open>
  \<open>get\<close> and \<open>put\<close> are the client's operations on sessions; \<open>seen\<close> is what a reader gets of a
  written session. A successful write needs the version the store holds (0 if it holds
  none), stores the next version and changes no other session; a failed one is a conflict
  and changes nothing. \<open>okst\<close> is the provider's own invariant.
\<close>

locale session_store =
  fixes get :: "'st \<Rightarrow> string \<Rightarrow> interview_session option"
    and put :: "interview_session \<Rightarrow> 'st \<Rightarrow> 'st result"
    and seen :: "interview_session \<Rightarrow> interview_session"
    and okst :: "'st \<Rightarrow> bool"
  assumes put_ok: "okst st \<Longrightarrow> put s st = Inr st' \<Longrightarrow> okst st'"
    and put_iff: "okst st \<Longrightarrow> (\<exists>st'. put s st = Inr st')
          \<longleftrightarrow> version s = (case get st (session_id s) of None \<Rightarrow> 0 | Some cur \<Rightarrow> version cur)"
    and put_conflict: "okst st \<Longrightarrow> put s st = Inl e \<Longrightarrow> \<exists>m. e = StoreConflictError m"
    and put_get: "okst st \<Longrightarrow> put s st = Inr st' \<Longrightarrow> get st' k =
          (if k = session_id s then Some (seen (s\<lparr>version := version s + 1\<rparr>)) else get st k)"
    and seen_version: "version (seen s) = version s"
    and get_id: "okst st \<Longrightarrow> get st k = Some s \<Longrightarrow> session_id s = k \<and> 1 \<le> version s"
begin

lemma fresh_put:
  assumes "okst st" and "get st (session_id s) = Some cur" and "version s = version cur"
  obtains st' where "put s st = Inr st'" and "okst st'"
    and "get st' (session_id s) = Some (seen (s\<lparr>version := version s + 1\<rparr>))"
proof -
  from assms put_iff [of st s] obtain st' where st': "put s st = Inr st'" by auto
  with assms(1) show thesis by (intro that [of st']) (auto simp: put_get intro: put_ok)
qed

text \<open>A writer that read an older version than the stored one is refused.\<close>

lemma stale_put:
  assumes "okst st" and "get st (session_id s) = Some cur" and "version s < version cur"
  shows "\<exists>m. put s st = Inl (StoreConflictError m)"
proof -
  from assms put_iff [of st s] have "\<forall>st'. put s st \<noteq> Inr st'" by auto
  then obtain e where "put s st = Inl e" by (cases "put s st") auto
  with put_conflict [OF assms(1)] show ?thesis by blast
qed

text \<open>Of two writers that read the same version only the first succeeds.\<close>

lemma second_writer_refused:
  assumes "okst st" and "put a st = Inr st'" and "session_id b = session_id a"
    and "version b = version a"
  shows "\<exists>m. put b st' = Inl (StoreConflictError m)"
proof -
  from assms have "okst st'" by (blast intro: put_ok)
  moreover have "get st' (session_id b) = Some (seen (a\<lparr>version := version a + 1\<rparr>))"
    using assms by (simp add: put_get)
  ultimately show ?thesis using stale_put [of st' b] assms(4) by (simp add: seen_version)
qed

end

section \<open>The in-memory store\<close>

record mem_store =
  jobs :: "(string, job_spec) dict"
  rubric_drafts :: "(string, rubric_draft) dict"
  sessions :: "(string, interview_session) dict"

definition empty_store :: mem_store where
  "empty_store = \<lparr> jobs = [], rubric_drafts = [], sessions = [] \<rparr>"

definition mem_put_job :: "job_spec \<Rightarrow> mem_store \<Rightarrow> mem_store" where
  "mem_put_job j st = st\<lparr>jobs := dict_set (job_key j) j (jobs st)\<rparr>"

definition mem_get_job :: "mem_store \<Rightarrow> string \<Rightarrow> job_spec option" where
  "mem_get_job st k = dict_get (jobs st) k"

definition mem_put_rubric_draft :: "rubric_draft \<Rightarrow> mem_store \<Rightarrow> mem_store result" where
  "mem_put_rubric_draft d st =
     raise_if (dict_get (rubric_drafts st) (draft_id d) \<noteq> None)
       (StoreConflictError (''rubric draft '' @ draft_id d @ '' already exists''))
     (Inr (st\<lparr>rubric_drafts := dict_set (draft_id d) d (rubric_drafts st)\<rparr>))"

definition mem_get_rubric_draft :: "mem_store \<Rightarrow> string \<Rightarrow> rubric_draft option" where
  "mem_get_rubric_draft st k = dict_get (rubric_drafts st) k"

definition mem_approve_rubric_draft ::
    "string \<Rightarrow> rubric_draft \<Rightarrow> job_spec \<Rightarrow> mem_store \<Rightarrow> mem_store result" where
  "mem_approve_rubric_draft k approved j st =
     (case dict_get (rubric_drafts st) k of
        None \<Rightarrow> Inl (KeyError (''rubric draft '' @ k @ '' not found''))
      | Some cur \<Rightarrow>
          raise_if (activation_status cur \<noteq> ''draft_only'')
            (StoreConflictError (''rubric draft '' @ k @ '' is already approved''))
          (raise_if (dict_get (jobs st) (job_key j) \<noteq> None)
            (StoreConflictError (''job '' @ job_key j @ '' already exists''))
          (Inr (st\<lparr>jobs := dict_set (job_key j) j (jobs st),
                   rubric_drafts := dict_set k approved (rubric_drafts st)\<rparr>))))"

definition mem_put_session :: "interview_session \<Rightarrow> mem_store \<Rightarrow> mem_store result" where
  "mem_put_session s st =
     (let store_it = (\<lambda>next. Inr (st\<lparr>sessions :=
            dict_set (session_id s) (s\<lparr>version := next\<rparr>) (sessions st)\<rparr>))
      in case dict_get (sessions st) (session_id s) of
        None \<Rightarrow>
          raise_if (version s \<noteq> 0)
            (StoreConflictError (''new session '' @ session_id s @ '' must start at version 0''))
          (store_it 1)
      | Some existing \<Rightarrow>
          raise_if (version existing \<noteq> version s)
            (StoreConflictError (''stale session '' @ session_id s @ '': expected version ''
               @ show_int (version existing) @ '', got '' @ show_int (version s)))
          (store_it (version s + 1)))"

definition mem_get_session :: "mem_store \<Rightarrow> string \<Rightarrow> interview_session option" where
  "mem_get_session st k = dict_get (sessions st) k"

definition mem_list_sessions :: "mem_store \<Rightarrow> interview_session list" where
  "mem_list_sessions st = map snd (sessions st)"

definition mem_delete_session :: "string \<Rightarrow> mem_store \<Rightarrow> mem_store \<times> bool" where
  "mem_delete_session k st =
     (st\<lparr>sessions := dict_del k (sessions st)\<rparr>, dict_get (sessions st) k \<noteq> None)"

definition mem_ok :: "mem_store \<Rightarrow> bool" where
  "mem_ok st \<longleftrightarrow> distinct (map fst (sessions st))
     \<and> (\<forall>k s. dict_get (sessions st) k = Some s \<longrightarrow> session_id s = k \<and> 1 \<le> version s)"

lemma mem_okD:
  "mem_ok st \<Longrightarrow> dict_get (sessions st) k = Some s \<Longrightarrow> session_id s = k \<and> 1 \<le> version s"
  by (simp add: mem_ok_def)

lemma mem_okI:
  assumes "distinct (map fst (sessions st))"
    and "\<And>k s. dict_get (sessions st) k = Some s \<Longrightarrow> session_id s = k \<and> 1 \<le> version s"
  shows "mem_ok st"
  using assms by (simp add: mem_ok_def)

lemma mem_put_session_Inr:
  assumes "mem_ok st"
  shows "mem_put_session s st = Inr st' \<longleftrightarrow>
     version s = (case dict_get (sessions st) (session_id s) of None \<Rightarrow> 0 | Some c \<Rightarrow> version c)
     \<and> st' = st\<lparr>sessions := dict_set (session_id s) (s\<lparr>version := version s + 1\<rparr>) (sessions st)\<rparr>"
  by (auto simp: mem_put_session_def Let_def exn_simps split: option.splits)

lemma mem_put_session_ok:
  assumes "mem_ok st" and "mem_put_session s st = Inr st'"
  shows "mem_ok st'"
proof -
  note put = iffD1 [OF mem_put_session_Inr [OF assms(1)] assms(2)]
  have "0 \<le> version s"
    using conjunct1 [OF put] conjunct2 [OF mem_okD [OF assms(1), of "session_id s"]]
    by (fastforce split: option.splits)
  show ?thesis
  proof (rule mem_okI)
    show "distinct (map fst (sessions st'))"
      using put assms(1) by (simp add: mem_ok_def distinct_dict_set)
    fix k c
    assume "dict_get (sessions st') k = Some c"
    then show "session_id c = k \<and> 1 \<le> version c"
      using put \<open>0 \<le> version s\<close> mem_okD [OF assms(1), of k c] by (auto split: if_splits)
  qed
qed

interpretation mem: session_store mem_get_session mem_put_session "\<lambda>s. s" mem_ok
proof (unfold_locales, goal_cases)
  case (1 st s st') then show ?case by (rule mem_put_session_ok)
next
  case (2 st s) then show ?case by (simp add: mem_put_session_Inr mem_get_session_def)
next
  case (3 st s e) then show ?case
    by (auto simp: mem_put_session_def Let_def exn_simps split: option.splits)
next
  case (4 st s st' k) then show ?case by (auto simp: mem_put_session_Inr mem_get_session_def)
next
  case (5 s) show ?case by simp
next
  case (6 st k s) then show ?case unfolding mem_get_session_def by (rule mem_okD)
qed

section \<open>The SQL stores\<close>

text \<open>What a reader of serialised text gets: the same value, sharing nothing.\<close>

definition serialised :: "interview_session \<Rightarrow> interview_session" where
  "serialised s = s\<lparr>shared_metadata := []\<rparr>"

lemma serialised_version [simp]: "version (serialised s) = version s"
  and serialised_id [simp]: "session_id (serialised s) = session_id s"
  by (simp_all add: serialised_def)

text \<open>A row of the table \<^verbatim>\<open>sessions\<close>; its key is the session's identifier.\<close>

record session_row =
  row_job_id :: string
  row_candidate_ref :: string
  row_version :: int
  row_payload :: interview_session
  row_updated_at :: datetime

record draft_row =
  drow_approved_job_id :: "string option"
  drow_payload :: rubric_draft

record sql_store =
  sql_jobs :: "(string, job_spec) dict"
  sql_drafts :: "(string, draft_row) dict"
  sql_sessions :: "(string, session_row) dict"
  sql_clock :: datetime

definition new_row :: "interview_session \<Rightarrow> int \<Rightarrow> datetime \<Rightarrow> session_row" where
  "new_row s next t = \<lparr> row_job_id = session_job_id s, row_candidate_ref = candidate_ref s,
     row_version = next, row_payload = serialised (s\<lparr>version := next\<rparr>), row_updated_at = t \<rparr>"

text \<open>\<^verbatim>\<open>SqliteStore\<close>.\<close>

definition sql_put_job :: "job_spec \<Rightarrow> sql_store \<Rightarrow> sql_store" where
  "sql_put_job j st = st\<lparr>sql_jobs := dict_set (job_key j) j (sql_jobs st)\<rparr>"

definition sql_get_job :: "sql_store \<Rightarrow> string \<Rightarrow> job_spec option" where
  "sql_get_job st k = dict_get (sql_jobs st) k"

definition sql_put_rubric_draft :: "rubric_draft \<Rightarrow> sql_store \<Rightarrow> sql_store result" where
  "sql_put_rubric_draft d st =
     raise_if (dict_get (sql_drafts st) (draft_id d) \<noteq> None)
       (StoreConflictError (''rubric draft '' @ draft_id d @ '' already exists''))
     (Inr (st\<lparr>sql_drafts := dict_set (draft_id d)
        \<lparr> drow_approved_job_id = None, drow_payload = d \<rparr> (sql_drafts st)\<rparr>))"

definition sql_get_rubric_draft :: "sql_store \<Rightarrow> string \<Rightarrow> rubric_draft option" where
  "sql_get_rubric_draft st k = map_option drow_payload (dict_get (sql_drafts st) k)"

text \<open>The transaction: the raised conflict rolls back, so the insertion into \<^verbatim>\<open>jobs\<close> is seen
  only together with the update of the draft.\<close>

definition sql_approve_rubric_draft ::
    "string \<Rightarrow> rubric_draft \<Rightarrow> job_spec \<Rightarrow> sql_store \<Rightarrow> sql_store result" where
  "sql_approve_rubric_draft k approved j st =
     (case dict_get (sql_drafts st) k of
        None \<Rightarrow> Inl (KeyError (''rubric draft '' @ k @ '' not found''))
      | Some row \<Rightarrow>
          raise_if (drow_approved_job_id row \<noteq> None)
            (StoreConflictError (''rubric draft '' @ k @ '' is already approved''))
          (raise_if (dict_get (sql_jobs st) (job_key j) \<noteq> None)
            (StoreConflictError (''job '' @ job_key j @ '' already exists''))
          (Inr (st\<lparr>sql_jobs := dict_set (job_key j) j (sql_jobs st),
                   sql_drafts := dict_set k
                     \<lparr> drow_approved_job_id = Some (job_key j), drow_payload = approved \<rparr>
                     (sql_drafts st)\<rparr>))))"

definition sqlite_put_session :: "interview_session \<Rightarrow> sql_store \<Rightarrow> sql_store result" where
  "sqlite_put_session s st =
     (let expected = version s; next = expected + 1;
          st' = st\<lparr>sql_sessions :=
            dict_set (session_id s) (new_row s next (sql_clock st)) (sql_sessions st)\<rparr>
      in case dict_get (sql_sessions st) (session_id s) of
        None \<Rightarrow>
          raise_if (expected \<noteq> 0)
            (StoreConflictError (''new session '' @ session_id s @ '' must start at version 0''))
          (Inr st')
      | Some row \<Rightarrow>
          if row_version row = expected then Inr st'
          else Inl (StoreConflictError (''stale session '' @ session_id s
             @ '': expected version '' @ show_int (row_version row)
             @ '', got '' @ show_int expected)))"

text \<open>\<^verbatim>\<open>PostgresStore\<close>: version 0 inserts, any other version updates.\<close>

definition postgres_put_session :: "interview_session \<Rightarrow> sql_store \<Rightarrow> sql_store result" where
  "postgres_put_session s st =
     (let expected = version s; next = expected + 1;
          st' = st\<lparr>sql_sessions :=
            dict_set (session_id s) (new_row s next (sql_clock st)) (sql_sessions st)\<rparr>
      in if expected = 0
         then raise_if (dict_get (sql_sessions st) (session_id s) \<noteq> None)
                (StoreConflictError (''session '' @ session_id s @ '' was created concurrently''))
                (Inr st')
         else case dict_get (sql_sessions st) (session_id s) of
             None \<Rightarrow> Inl (StoreConflictError (''stale session '' @ session_id s
                @ '': expected version None, got '' @ show_int expected))
           | Some row \<Rightarrow>
               if row_version row = expected then Inr st'
               else Inl (StoreConflictError (''stale session '' @ session_id s
                  @ '': expected version '' @ show_int (row_version row)
                  @ '', got '' @ show_int expected)))"

definition sql_get_session :: "sql_store \<Rightarrow> string \<Rightarrow> interview_session option" where
  "sql_get_session st k = map_option row_payload (dict_get (sql_sessions st) k)"

text \<open>\<^verbatim>\<open>ORDER BY updated_at ASC, id ASC\<close>.\<close>

definition sql_list_sessions :: "sql_store \<Rightarrow> interview_session list" where
  "sql_list_sessions st = map (\<lambda>kr. row_payload (snd kr))
     (sort_key (\<lambda>kr. row_updated_at (snd kr)) (sort_key fst (sql_sessions st)))"

definition sql_delete_session :: "string \<Rightarrow> sql_store \<Rightarrow> sql_store \<times> bool" where
  "sql_delete_session k st =
     (st\<lparr>sql_sessions := dict_del k (sql_sessions st)\<rparr>, dict_get (sql_sessions st) k \<noteq> None)"

definition sql_ok :: "sql_store \<Rightarrow> bool" where
  "sql_ok st \<longleftrightarrow> distinct (map fst (sql_sessions st))
     \<and> (\<forall>k r. dict_get (sql_sessions st) k = Some r \<longrightarrow>
          session_id (row_payload r) = k \<and> version (row_payload r) = row_version r
          \<and> 1 \<le> row_version r)"

lemma new_row_simps [simp]:
  "row_version (new_row s n t) = n"
  "row_payload (new_row s n t) = serialised (s\<lparr>version := n\<rparr>)"
  by (simp_all add: new_row_def)

lemma sql_okD:
  "sql_ok st \<Longrightarrow> dict_get (sql_sessions st) k = Some r \<Longrightarrow> session_id (row_payload r) = k
     \<and> version (row_payload r) = row_version r \<and> 1 \<le> row_version r"
  by (simp add: sql_ok_def)

lemma sql_okI:
  assumes "distinct (map fst (sql_sessions st))"
    and "\<And>k r. dict_get (sql_sessions st) k = Some r \<Longrightarrow> session_id (row_payload r) = k
       \<and> version (row_payload r) = row_version r \<and> 1 \<le> row_version r"
  shows "sql_ok st"
  using assms by (simp add: sql_ok_def)

lemma sqlite_put_session_Inr:
  "sqlite_put_session s st = Inr st' \<longleftrightarrow>
     version s = (case dict_get (sql_sessions st) (session_id s) of
                    None \<Rightarrow> 0 | Some r \<Rightarrow> row_version r)
     \<and> st' = st\<lparr>sql_sessions := dict_set (session_id s)
                (new_row s (version s + 1) (sql_clock st)) (sql_sessions st)\<rparr>"
  by (auto simp: sqlite_put_session_def Let_def exn_simps split: option.splits)

text \<open>Inserting or updating by version is the same partial function on reachable tables; only
  the text of the refusal of a second version 0 differs.\<close>

lemma postgres_sqlite_put:
  assumes "sql_ok st"
  shows "postgres_put_session s st = Inr st' \<longleftrightarrow> sqlite_put_session s st = Inr st'"
  using sql_okD [OF assms, of "session_id s"]
  by (cases "dict_get (sql_sessions st) (session_id s)")
     (auto simp: postgres_put_session_def sqlite_put_session_def Let_def raise_if_def)

lemma sqlite_put_session_ok:
  assumes "sql_ok st" and "sqlite_put_session s st = Inr st'"
  shows "sql_ok st'"
proof -
  note put = iffD1 [OF sqlite_put_session_Inr assms(2)]
  have "0 \<le> version s"
    using conjunct1 [OF put] conjunct2 [OF conjunct2 [OF sql_okD [OF assms(1), of "session_id s"]]]
    by (fastforce split: option.splits)
  show ?thesis
  proof (rule sql_okI)
    show "distinct (map fst (sql_sessions st'))"
      using put assms(1) by (simp add: sql_ok_def distinct_dict_set)
    fix k r
    assume "dict_get (sql_sessions st') k = Some r"
    then show "session_id (row_payload r) = k \<and> version (row_payload r) = row_version r
        \<and> 1 \<le> row_version r"
      using put \<open>0 \<le> version s\<close> sql_okD [OF assms(1), of k r] by (auto split: if_splits)
  qed
qed

interpretation sqlite: session_store sql_get_session sqlite_put_session serialised sql_ok
proof (unfold_locales, goal_cases)
  case (1 st s st') then show ?case by (rule sqlite_put_session_ok)
next
  case (2 st s) then show ?case
    by (auto simp: sqlite_put_session_Inr sql_get_session_def dest: sql_okD split: option.splits)
next
  case (3 st s e) then show ?case
    by (auto simp: sqlite_put_session_def Let_def exn_simps split: option.splits if_splits)
next
  case (4 st s st' k) then show ?case by (auto simp: sqlite_put_session_Inr sql_get_session_def)
next
  case (5 s) show ?case by simp
next
  case (6 st k s) then show ?case by (auto simp: sql_get_session_def dest: sql_okD)
qed

interpretation postgres: session_store sql_get_session postgres_put_session serialised sql_ok
proof (unfold_locales, goal_cases)
  case (1 st s st') then show ?case
    by (auto simp: postgres_sqlite_put intro: sqlite.put_ok)
next
  case (2 st s) then show ?case by (simp add: postgres_sqlite_put sqlite.put_iff)
next
  case (3 st s e) then show ?case
    by (auto simp: postgres_put_session_def Let_def exn_simps split: option.splits if_splits)
next
  case (4 st s st' k) then show ?case by (auto simp: postgres_sqlite_put sqlite.put_get)
next
  case (5 s) show ?case by simp
next
  case (6 st k s) then show ?case by (rule sqlite.get_id)
qed

end
