(* ===== verification/Service.thy ===== *)
theory Service
  imports Service_Core Stores
begin

text \<open>
  The handlers of \<^verbatim>\<open>InterviewService\<close>. Each loads its own copy of the session and the job,
  computes on the copy, and writes it with one versioned write: \<open>transact\<close> is that shape,
  and the function \<open>..._step\<close> of a handler is what it computes between the two. A step
  returns the session to write, or none for the early returns that write nothing.
\<close>

section \<open>Configuration\<close>

record service_config =
  cfg_brain :: brain
  cfg_judge :: evidence_judge
  cfg_sandbox :: sandbox
  cfg_templates :: template_registry

text \<open>The elapsed milliseconds that \<^verbatim>\<open>perf_counter\<close> measures around a call of the brain.\<close>

definition measured_latency :: "env \<Rightarrow> interview_session \<Rightarrow> int" where
  "measured_latency E s = max 0 (now_at E ''brain_latency_ms'' (length (turns s)))"

type_synonym 'a step = "(interview_session option \<times> 'a) result"

text \<open>The object whose write succeeded carries the next version.\<close>

definition written :: "interview_session \<Rightarrow> interview_session" where
  "written s = s\<lparr>version := version s + 1\<rparr>"

section \<open>Starting, answering, cancelling\<close>

definition session_step :: "interview_session \<Rightarrow> turn option \<Rightarrow> tool_invocation option \<Rightarrow> session_step" where
  "session_step s t invo = \<lparr> step_session_id = session_id s, step_status = status s, step_turn = t,
                             step_tool = invo \<rparr>"

text \<open>The first decision: a due anchor, else the opening of the brain.\<close>

definition first_decision :: "service_config \<Rightarrow> env \<Rightarrow> job_spec \<Rightarrow> interview_session
    \<Rightarrow> (interview_session \<times> agent_decision \<times> int) result" where
  "first_decision C E job s =
     (case next_anchor s job of
        Some d \<Rightarrow> Inr (s, d, 0)
      | None \<Rightarrow> (case brain_opening (cfg_brain C) s job of
          (r, s1) \<Rightarrow> ebind r (\<lambda>d. Inr (s1, d, measured_latency E s))))"

definition start_step :: "service_config \<Rightarrow> env \<Rightarrow> interview_session \<Rightarrow> job_spec \<Rightarrow> challenges
    \<Rightarrow> challenges \<times> session_step step" where
  "start_step C E s job priv =
     (if status s \<in> {COMPLETED, CANCELLED} then (priv, Inr (None, session_step s None None))
      else if status s = RUNNING \<and> turns s \<noteq> []
      then (priv, Inr (None, session_step s
             (if speaker (last (turns s)) = INTERVIEWER then Some (last (turns s)) else None) None))
      else
        (case ebind (append_event E INTERVIEW_STARTED None [] s) (\<lambda>s1.
              ebind (first_decision C E job s1) (\<lambda>(s2, d, latency).
              ebind (apply_decision E d latency s2) (\<lambda>(s3, t). Inr (s3, t, d)))) of
           Inl e \<Rightarrow> (priv, Inl e)
         | Inr (s3, t, d) \<Rightarrow>
             (case open_requested_tool E (cfg_templates C) job d (turn_id t) s3 priv of
                (priv', r) \<Rightarrow> (priv', ebind r (\<lambda>(s4, invo).
                   let s5 = s4\<lparr>status := RUNNING\<rparr>
                   in Inr (Some s5, session_step s5 (Some t) invo))))))"

definition candidate_turn :: "env \<Rightarrow> string \<Rightarrow> jdict \<Rightarrow> turn option \<Rightarrow> interview_session \<Rightarrow> turn" where
  "candidate_turn E text meta previous s =
     \<lparr> turn_id = new_id E ''turn'' (length (turns s)), speaker = CANDIDATE, turn_text = text,
       parent_turn_id = map_option turn_id previous, competency_tags = [],
       response_latency_ms = None, metadata = meta \<rparr>"

text \<open>The candidate's turn and its event, which share the metadata dictionary.\<close>

definition record_answer :: "env \<Rightarrow> turn \<Rightarrow> interview_session \<Rightarrow> interview_session result" where
  "record_answer E t s =
     append_event E CANDIDATE_TURN (Some t)
       [(''parent_turn_id'', jopt_str (parent_turn_id t)), (''metadata'', JObj (metadata t))]
       (s\<lparr>turns := turns s @ [t], shared_metadata := shared_metadata s @ [turn_id t]\<rparr>)"

definition claim_and_judge :: "service_config \<Rightarrow> env \<Rightarrow> job_spec \<Rightarrow> turn option \<Rightarrow> turn
    \<Rightarrow> interview_session \<Rightarrow> interview_session result" where
  "claim_and_judge C E job previous t s =
     (case previous of
        None \<Rightarrow> Inr s
      | Some q \<Rightarrow>
          if competency_tags q = [] then Inr s
          else ebind (record_candidate_claim E (turn_id q) (turn_id t) (competency_tags q) s)
              (\<lambda>(s1, created).
            ebind (efold (\<lambda>it. append_event E EVIDENCE_OBSERVED (Some t)
                [(''evidence_id'', JStr (ev_id it)),
                 (''state'', JStr (evidence_state_value (ev_state it))),
                 (''source'', JStr (ev_source it))]) created s1) (\<lambda>s2.
            ebind (judge_candidate_evidence E (cfg_judge C) job q t False None s2) (\<lambda>(s3, run).
            Inr s3))))"

text \<open>The next decision: a follow-up of the brain, else a due anchor, else the brain's.\<close>

definition next_decision :: "service_config \<Rightarrow> env \<Rightarrow> job_spec \<Rightarrow> interview_session
    \<Rightarrow> (interview_session \<times> agent_decision \<times> int) result" where
  "next_decision C E job s =
     (case after_answer (cfg_brain C) s job of
        (r, s1) \<Rightarrow> ebind r (\<lambda>adaptive.
          if decision_parent adaptive \<notin> {None, Some []} then Inr (s1, adaptive, measured_latency E s)
          else let d = (case next_anchor s1 job of Some a \<Rightarrow> a | None \<Rightarrow> adaptive)
               in Inr (s1, d, if lane_for d = ANCHOR then 0 else measured_latency E s)))"

text \<open>Everything before a requested tool is opened.\<close>

definition answer_turns :: "service_config \<Rightarrow> env \<Rightarrow> string \<Rightarrow> jdict \<Rightarrow> interview_session \<Rightarrow> job_spec
    \<Rightarrow> (interview_session \<times> turn \<times> agent_decision) result" where
  "answer_turns C E text meta s job =
     check_live s
     (raise_if (paused s) (http 409 ''Interview is paused; send a resume candidate control first.'')
     (let previous = find_last is_evaluative_question (turns s);
          t = candidate_turn E text meta previous s
      in ebind (record_answer E t s) (\<lambda>s1.
         ebind (claim_and_judge C E job previous t s1) (\<lambda>s2.
         ebind (next_decision C E job s2) (\<lambda>(s3, d, latency).
         ebind (apply_decision E d latency s3) (\<lambda>(s4, q). Inr (count_followup d s4, q, d)))))))"

definition answer_step :: "service_config \<Rightarrow> env \<Rightarrow> string \<Rightarrow> jdict \<Rightarrow> interview_session \<Rightarrow> job_spec
    \<Rightarrow> challenges \<Rightarrow> challenges \<times> session_step step" where
  "answer_step C E text meta s job priv =
     (case answer_turns C E text meta s job of
        Inl e \<Rightarrow> (priv, Inl e)
      | Inr (s5, q, d) \<Rightarrow>
          (case open_requested_tool E (cfg_templates C) job d (turn_id q) s5 priv of
             (priv', r) \<Rightarrow> (priv', ebind r (\<lambda>(s6, invo).
                ebind (complete_if E d s6) (\<lambda>s7.
                Inr (Some s7, session_step s7 (Some q) invo))))))"

definition is_cancellable :: "tool_invocation \<Rightarrow> bool" where
  "is_cancellable t = (tool_status t \<in> {ToolOPEN, ToolSUBMITTED})"

definition cancel_tool :: "tool_invocation \<Rightarrow> tool_invocation" where
  "cancel_tool t = (if is_cancellable t then t\<lparr>tool_status := ToolCANCELLED\<rparr> else t)"

definition cancel_step :: "env \<Rightarrow> string \<Rightarrow> interview_session \<Rightarrow> interview_session step" where
  "cancel_step E reason s =
     raise_if (status s = COMPLETED) (http 409 ''Completed interviews cannot be cancelled'')
     (if status s = CANCELLED then Inr (None, s)
      else let cancelled = filter is_cancellable (tools s)
       in ebind (efold (\<lambda>t. append_event E TOOL_CANCELLED None
              [(''tool_id'', JStr (tool_id t)), (''kind'', JStr (tool_kind_value (tool_kind t))),
               (''reason'', JStr ''session_cancelled'')])
            cancelled (s\<lparr>tools := map cancel_tool (tools s)\<rparr>)) (\<lambda>s1.
          ebind (append_event E SESSION_CANCELLED None
            [(''reason'', JStr reason), (''cancelled_tool_ids'', jstrs (map tool_id cancelled))]
            (s1\<lparr>paused := False, status := CANCELLED, cancelled_at := Some (now_at E ''cancelled_at'' 0),
                cancellation_reason := Some reason\<rparr>)) (\<lambda>s2.
          Inr (Some s2, written s2))))"

section \<open>Evidence\<close>

definition reevaluate_step :: "service_config \<Rightarrow> env \<Rightarrow> string \<Rightarrow> interview_session \<Rightarrow> job_spec
    \<Rightarrow> evidence_judge_run step" where
  "reevaluate_step C E answer_id s job =
     raise_if (judge_id (cfg_judge C) = ''disabled'')
       (http 409 ''Evidence judge is disabled for this deployment'')
     (case turn_with_id s answer_id of
        None \<Rightarrow> Inl (http 404 ''Candidate answer turn not found'')
      | Some a \<Rightarrow>
          raise_if (speaker a \<noteq> CANDIDATE)
            (http 400 ''Evidence re-evaluation requires a candidate answer turn'')
          (case parent_turn_id a of
             None \<Rightarrow> Inl (http 400 ''Candidate answer has no linked interviewer question'')
           | Some qid \<Rightarrow>
               raise_if (qid = []) (http 400 ''Candidate answer has no linked interviewer question'')
               (case turn_with_id s qid of
                  None \<Rightarrow> Inl (http 400 ''Candidate answer references an invalid interviewer question'')
                | Some q \<Rightarrow>
                    raise_if (speaker q \<noteq> INTERVIEWER)
                      (http 400 ''Candidate answer references an invalid interviewer question'')
                    (let prior = filter (\<lambda>r. run_answer_turn_id r = turn_id a) (evidence_judge_runs s);
                         latest = (case prior of [] \<Rightarrow> None
                           | r # rs \<Rightarrow> Some (max_by (\<lambda>x y. run_created_at x < run_created_at y) r rs))
                     in ebind (judge_candidate_evidence E (cfg_judge C) job q a True
                          (map_option run_id latest) s) (\<lambda>(s1, run).
                        case run of
                          None \<Rightarrow> Inl (http 400 ''No competency-tagged evidence could be re-evaluated'')
                        | Some r \<Rightarrow> Inr (Some s1, r))))))"

definition observe_step :: "env \<Rightarrow> evidence_observation \<Rightarrow> interview_session \<Rightarrow> job_spec
    \<Rightarrow> competency_evidence step" where
  "observe_step E ob s job =
     ebind (value_error_400 (apply_observation E s job ob)) (\<lambda>(s1, item).
     ebind (append_event E EVIDENCE_OBSERVED (turn_with_id s1 (obs_turn_id ob))
       [(''evidence_id'', JStr (ev_id item)), (''competency_id'', JStr (obs_competency_id ob)),
        (''state'', JStr (evidence_state_value (obs_state ob))),
        (''confidence'', JFloat (obs_confidence ob)), (''source'', JStr (ev_source item))] s1) (\<lambda>s2.
     Inr (Some s2, graph_node s2 (obs_competency_id ob))))"

section \<open>Candidate controls and corrections\<close>

text \<open>The turn that a control adds, and the correction that it may carry.\<close>

definition append_control_turn :: "env \<Rightarrow> candidate_control_request \<Rightarrow> candidate_control_result
    \<Rightarrow> interview_session \<Rightarrow> interview_session result" where
  "append_control_turn E req r s =
     (case result_turn r of
        None \<Rightarrow> Inr s
      | Some t \<Rightarrow> append_event E INTERVIEWER_TURN (Some t)
          [(''candidate_control'', JStr (control_value (control_kind req))),
           (''non_evaluative'', JBool True)] (s\<lparr>turns := turns s @ [t]\<rparr>))"

definition live_correction :: "env \<Rightarrow> candidate_control_request \<Rightarrow> candidate_control_result
    \<Rightarrow> interview_session \<Rightarrow> interview_session result" where
  "live_correction E req r s =
     (case (target_turn_id r, control_text req) of
        (Some tid, Some text) \<Rightarrow>
          if control_kind req = CORRECT_LAST_ANSWER \<and> tid \<noteq> [] \<and> text \<noteq> []
          then ebind (apply_transcript_correction E
              \<lparr> corr_turn_id = tid, corr_text = text,
                corr_reason = Some ''Candidate correction requested during live interview.'' \<rparr> s)
              (\<lambda>(s', _). Inr s')
          else Inr s
      | _ \<Rightarrow> Inr s)"

definition control_step :: "env \<Rightarrow> candidate_control_request \<Rightarrow> interview_session
    \<Rightarrow> candidate_control_result step" where
  "control_step E req s =
     check_live s
     (ebind (value_error_400 (handle_candidate_control E s req)) (\<lambda>(s1, r).
      ebind (append_event E CANDIDATE_CONTROL None
        [(''kind'', JStr (control_value (control_kind req))), (''text'', jopt_str (control_text req)),
         (''target_turn_id'', jopt_str (target_turn_id r)),
         (''pauses_interview'', JBool (pauses_interview r))] s1) (\<lambda>s2.
      ebind (append_control_turn E req r s2) (\<lambda>s3.
      ebind (live_correction E req r s3) (\<lambda>s4. Inr (Some s4, r))))))"

definition correct_step :: "env \<Rightarrow> transcript_correction_request \<Rightarrow> interview_session
    \<Rightarrow> transcript_revision step" where
  "correct_step E req s =
     ebind (apply_transcript_correction E req s) (\<lambda>(s1, revision). Inr (Some s1, revision))"

section \<open>Practical tools\<close>

definition open_coding_step :: "env \<Rightarrow> coding_request \<Rightarrow> interview_session \<Rightarrow> job_spec \<Rightarrow> challenges
    \<Rightarrow> challenges \<times> tool_invocation step" where
  "open_coding_step E req s job priv =
     (let unknown = filter (\<lambda>c. c \<notin> set (competency_ids_of job)) (cod_tags req)
      in case raise_if (unknown \<noteq> [])
             (http 400 (''Coding challenge references unknown competencies: '' @ repr_str_list unknown))
           (raise_if (case cod_opened_from req of None \<Rightarrow> False
                      | Some t \<Rightarrow> t \<noteq> [] \<and> t \<notin> set (map turn_id (turns s)))
             (http 400 ''Coding challenge references unknown opening turn'')
           (create_challenge E (length (tools s)) req priv)) of
         Inl e \<Rightarrow> (priv, Inl e)
       | Inr (priv', invo) \<Rightarrow>
           (priv', ebind (append_tool E job invo s) (\<lambda>s1. Inr (Some s1, invo))))"

definition open_tool_step :: "env \<Rightarrow> tool_invocation \<Rightarrow> interview_session \<Rightarrow> job_spec
    \<Rightarrow> tool_invocation step" where
  "open_tool_step E invo s job =
     ebind (append_tool E job invo s) (\<lambda>s1. Inr (Some s1, invo))"

definition set_tool_status :: "string \<Rightarrow> tool_status \<Rightarrow> interview_session \<Rightarrow> interview_session" where
  "set_tool_status tid st s = s\<lparr>tools := update_first (\<lambda>t. tool_id t = tid)
     (\<lambda>t. t\<lparr>tool_status := st\<rparr>) (tools s)\<rparr>"

definition artifact_turn :: "env \<Rightarrow> tool_invocation \<Rightarrow> string \<Rightarrow> interview_session \<Rightarrow> turn" where
  "artifact_turn E invo sid s =
     \<lparr> turn_id = new_id E ''turn'' (length (turns s)), speaker = CANDIDATE,
       turn_text = ''['' @ tool_kind_value (tool_kind invo) @ '' artifact submitted]'',
       parent_turn_id = opened_from_turn_id invo, competency_tags = tool_competency_tags invo,
       response_latency_ms = None,
       metadata = [(''artifact'', JBool True), (''tool_id'', JStr (tool_id invo)),
                   (''tool_submission_id'', JStr sid),
                   (''tool_kind'', JStr (tool_kind_value (tool_kind invo)))] \<rparr>"

text \<open>Until the evaluation: the submission and the artifact turn are recorded.\<close>

definition record_submission :: "env \<Rightarrow> tool_invocation \<Rightarrow> tool_submission \<Rightarrow> interview_session
    \<Rightarrow> (interview_session \<times> turn) result" where
  "record_submission E invo sub s =
     ebind (append_event E TOOL_SUBMITTED None
       [(''tool_id'', JStr (tool_id invo)), (''submission_id'', JStr (sub_id sub)),
        (''artifact_keys'', jstrs (sorted_set (map fst (sub_content sub))))]
       (set_tool_status (tool_id invo) ToolSUBMITTED
         (s\<lparr>tool_submissions := tool_submissions s @ [sub]\<rparr>))) (\<lambda>s1.
     let t = artifact_turn E invo (sub_id sub) s1
     in ebind (append_event E CANDIDATE_TURN (Some t)
          [(''artifact'', JBool True), (''tool_id'', JStr (tool_id invo)),
           (''submission_id'', JStr (sub_id sub))]
          (s1\<lparr>turns := turns s1 @ [t]\<rparr>)) (\<lambda>s2. Inr (s2, t)))"

text \<open>The evidence of a decided evaluation, one observation for each competency of the tool.\<close>

definition tool_observation :: "tool_invocation \<Rightarrow> turn \<Rightarrow> tool_evaluation \<Rightarrow> bool \<Rightarrow> string
    \<Rightarrow> evidence_observation" where
  "tool_observation invo t ev passed cid =
     \<lparr> obs_competency_id = cid, obs_turn_id = turn_id t,
       obs_state = (if passed then DEMONSTRATED else INSUFFICIENT), obs_confidence = 1,
       obs_quote = None, obs_note = eval_summary ev,
       obs_source = ''tool:'' @ tool_kind_value (tool_kind invo), obs_judge_run_id = None \<rparr>"

definition observe_evaluation :: "env \<Rightarrow> job_spec \<Rightarrow> tool_invocation \<Rightarrow> turn \<Rightarrow> tool_evaluation
    \<Rightarrow> interview_session \<Rightarrow> interview_session result" where
  "observe_evaluation E job invo t ev s =
     (case eval_passed ev of
        None \<Rightarrow> Inr s
      | Some passed \<Rightarrow> efold (\<lambda>cid s1.
          let ob = tool_observation invo t ev passed cid
          in ebind (apply_observation E s1 job ob) (\<lambda>(s2, item).
             append_event E EVIDENCE_OBSERVED (Some t)
               [(''evidence_id'', JStr (ev_id item)), (''competency_id'', JStr cid),
                (''state'', JStr (evidence_state_value (obs_state ob))),
                (''confidence'', JFloat (obs_confidence ob)), (''source'', JStr (obs_source ob))] s2))
          (tool_competency_tags invo) s)"

text \<open>The evaluation of a recorded submission, up to its evidence.\<close>

definition evaluate_submission :: "service_config \<Rightarrow> env \<Rightarrow> job_spec \<Rightarrow> tool_invocation
    \<Rightarrow> tool_submission \<Rightarrow> turn \<Rightarrow> challenges \<Rightarrow> interview_session
    \<Rightarrow> (interview_session \<times> tool_evaluation) result" where
  "evaluate_submission C E job invo sub t priv s =
     ebind (value_error_400
       (ebind (get_tool (service_tool_registry (float_repr (rt E)) (cfg_sandbox C) priv) (tool_kind invo))
          (\<lambda>evaluator. evaluator (invo\<lparr>tool_status := ToolSUBMITTED\<rparr>) sub))) (\<lambda>ev.
     ebind (append_event E TOOL_EVALUATED None
       [(''tool_id'', JStr (tool_id invo)), (''submission_id'', JStr (sub_id sub)),
        (''passed'', jopt_bool (eval_passed ev)), (''score'', jopt_float (eval_score ev)),
        (''summary'', JStr (eval_summary ev))]
       (set_tool_status (tool_id invo) ToolEVALUATED
         (s\<lparr>tool_evaluations := tool_evaluations s @ [ev]\<rparr>))) (\<lambda>s1.
     ebind (observe_evaluation E job invo t ev s1) (\<lambda>s2. Inr (s2, ev))))"

definition submit_turns :: "service_config \<Rightarrow> env \<Rightarrow> string \<Rightarrow> jdict \<Rightarrow> interview_session
    \<Rightarrow> job_spec \<Rightarrow> challenges
    \<Rightarrow> (interview_session \<times> turn \<times> agent_decision \<times> tool_evaluation) result" where
  "submit_turns C E tid content s job priv =
     check_live s
     (case find (\<lambda>t. tool_id t = tid) (tools s) of
        None \<Rightarrow> Inl (http 404 ''Tool invocation not found'')
      | Some invo \<Rightarrow>
          raise_if (tool_status invo \<noteq> ToolOPEN)
            (http 409 (''Tool is not open: '' @ tool_status_value (tool_status invo)))
          (let sub = \<lparr> sub_id = new_id E ''submission'' (length (tool_submissions s)),
                       sub_tool_id = tid, sub_content = content \<rparr>
           in ebind (record_submission E invo sub s) (\<lambda>(s1, t).
              ebind (evaluate_submission C E job invo sub t priv s1) (\<lambda>(s2, ev).
              case after_tool (cfg_brain C) s2 job (invo\<lparr>tool_status := ToolEVALUATED\<rparr>) sub ev of
                (r, s3) \<Rightarrow> ebind r (\<lambda>d.
              ebind (apply_decision E d (measured_latency E s2) s3) (\<lambda>(s4, q).
              Inr (s4, q, d, ev)))))))"

definition submit_tool_step :: "service_config \<Rightarrow> env \<Rightarrow> string \<Rightarrow> jdict \<Rightarrow> interview_session
    \<Rightarrow> job_spec \<Rightarrow> challenges \<Rightarrow> challenges \<times> tool_step step" where
  "submit_tool_step C E tid content s job priv =
     (case submit_turns C E tid content s job priv of
        Inl e \<Rightarrow> (priv, Inl e)
      | Inr (s4, q, d, ev) \<Rightarrow>
          (case open_requested_tool E (cfg_templates C) job d (turn_id q) s4 priv of
             (priv', r) \<Rightarrow> (priv', ebind r (\<lambda>(s5, invo').
                ebind (complete_if E d (count_followup d s5)) (\<lambda>s6.
                Inr (Some s6, \<lparr> tstep_tool_id = tid, tstep_evaluation = ev, tstep_turn = Some q,
                               tstep_next_tool = invo', tstep_status = status s6 \<rparr>))))))"

section \<open>Appeals and integrity signals\<close>

definition submit_appeal_step :: "env \<Rightarrow> appeal_request \<Rightarrow> interview_session \<Rightarrow> candidate_appeal step" where
  "submit_appeal_step E req s =
     (let unknown = filter (\<lambda>t. t \<notin> set (map turn_id (turns s))) (appeal_req_turn_ids req);
          appeal = \<lparr> appeal_id = new_id E ''appeal'' (length (appeals s)),
                     appeal_message = appeal_req_message req, appeal_turn_ids = appeal_req_turn_ids req,
                     appeal_status = AppealPENDING, appeal_reviewed_by = None, appeal_review_note = None \<rparr>
      in raise_if (unknown \<noteq> []) (http 400 (''Appeal references unknown turns: '' @ repr_str_list unknown))
         (ebind (append_event E APPEAL_SUBMITTED None
            [(''appeal_id'', JStr (appeal_id appeal)), (''turn_ids'', jstrs (appeal_turn_ids appeal))]
            (s\<lparr>appeals := appeals s @ [appeal]\<rparr>)) (\<lambda>s1. Inr (Some s1, appeal))))"

definition reviewed_appeal :: "review_request \<Rightarrow> candidate_appeal \<Rightarrow> candidate_appeal" where
  "reviewed_appeal req a = a\<lparr>appeal_status := AppealREVIEWED, appeal_reviewed_by := Some (reviewer_id req),
     appeal_review_note := Some (review_note req)\<rparr>"

definition review_appeal_step :: "env \<Rightarrow> string \<Rightarrow> review_request \<Rightarrow> interview_session
    \<Rightarrow> candidate_appeal step" where
  "review_appeal_step E aid req s =
     (case find (\<lambda>a. appeal_id a = aid) (appeals s) of
        None \<Rightarrow> Inl (http 404 ''Appeal not found'')
      | Some a \<Rightarrow>
          raise_if (appeal_status a = AppealREVIEWED) (http 409 ''Appeal is already reviewed'')
          (ebind (append_event E APPEAL_REVIEWED None
             [(''appeal_id'', JStr (appeal_id a)), (''reviewer_id'', JStr (reviewer_id req)),
              (''note'', JStr (review_note req))]
             (s\<lparr>appeals := update_first (\<lambda>a. appeal_id a = aid) (reviewed_appeal req) (appeals s)\<rparr>))
             (\<lambda>s1. Inr (Some s1, reviewed_appeal req a))))"

definition submit_signal_step :: "env \<Rightarrow> integrity_signal_request \<Rightarrow> interview_session
    \<Rightarrow> integrity_signal step" where
  "submit_signal_step E req s =
     (let sig = \<lparr> signal_id = new_id E ''signal'' (length (integrity_signals s)),
                  signal_kind = sig_req_kind req, signal_confidence = sig_req_confidence req,
                  signal_note = sig_req_note req, signal_evidence = sig_req_evidence req,
                  requires_human_review = True, signal_review_status = IntegrityPENDING,
                  signal_reviewed_by = None, signal_review_note = None \<rparr>
      in ebind (append_event E INTEGRITY_SIGNAL None
           [(''signal_id'', JStr (signal_id sig)), (''kind'', JStr (signal_kind sig)),
            (''confidence'', JFloat (signal_confidence sig)), (''requires_human_review'', JBool True)]
           (s\<lparr>integrity_signals := integrity_signals s @ [sig]\<rparr>)) (\<lambda>s1. Inr (Some s1, sig)))"

definition reviewed_signal :: "review_request \<Rightarrow> integrity_signal \<Rightarrow> integrity_signal" where
  "reviewed_signal req g = g\<lparr>signal_review_status := IntegrityREVIEWED,
     signal_reviewed_by := Some (reviewer_id req), signal_review_note := Some (review_note req)\<rparr>"

definition review_signal_step :: "env \<Rightarrow> string \<Rightarrow> review_request \<Rightarrow> interview_session
    \<Rightarrow> integrity_signal step" where
  "review_signal_step E gid req s =
     (case find (\<lambda>g. signal_id g = gid) (integrity_signals s) of
        None \<Rightarrow> Inl (http 404 ''Integrity signal not found'')
      | Some g \<Rightarrow>
          raise_if (signal_review_status g = IntegrityREVIEWED)
            (http 409 ''Integrity signal is already reviewed'')
          (ebind (append_event E INTEGRITY_REVIEWED None
             [(''signal_id'', JStr (signal_id g)), (''reviewer_id'', JStr (reviewer_id req)),
              (''note'', JStr (review_note req)), (''requires_human_review'', JBool True)]
             (s\<lparr>integrity_signals :=
                  update_first (\<lambda>g. signal_id g = gid) (reviewed_signal req) (integrity_signals s)\<rparr>))
             (\<lambda>s1. Inr (Some s1, reviewed_signal req g))))"

section \<open>Jobs and new sessions\<close>

definition create_job_step :: "template_registry \<Rightarrow> job_spec \<Rightarrow> string option \<Rightarrow> job_spec result" where
  "create_job_step reg job org =
     ebind (case org of
         None \<Rightarrow> Inr job
       | Some o' \<Rightarrow>
           raise_if (job_organization_id job \<notin> {None, Some o'})
             (http 403 ''Job organization does not match authenticated organization'')
           (Inr (job\<lparr>job_organization_id := Some o'\<rparr>))) (\<lambda>job1.
     ebind (efold (\<lambda>p _. ebind (value_error_400 (get_template reg (jtt_template_id p))) (\<lambda>_. Inr ()))
       (tool_templates job1) ()) (\<lambda>_. Inr job1))"

definition create_session_step :: "env \<Rightarrow> create_session_request \<Rightarrow> string option \<Rightarrow> job_spec option
    \<Rightarrow> interview_session result" where
  "create_session_step E req org found =
     raise_if (\<not> consent_to_ai_interview req \<or> \<not> consent_to_transcript req)
       (http 400 ''Explicit consent to the AI interview and transcript is required.'')
     (case found of
        None \<Rightarrow> Inl (http 404 ''Job not found'')
      | Some job \<Rightarrow>
          raise_if (org \<noteq> None \<and> job_organization_id job = None)
            (http 403 ''Organization-scoped identity cannot create a session for an unscoped job'')
          (raise_if (org \<noteq> None \<and> job_organization_id job \<noteq> org)
            (http 403 ''Job belongs to a different organization'')
          (let s = new_session (new_id E ''session'' 0) (now_at E ''session'' 0) (job_key job)
                     (req_candidate_ref req) (job_organization_id job) (req_locale req)
                     (req_integrity_level req)
           in append_event E SESSION_CREATED None
                [(''job_id'', JStr (job_key job)),
                 (''organization_id'', jopt_str (organization_id s)),
                 (''locale'', JStr (session_locale s)),
                 (''integrity_level'', JStr (integrity_level_value (integrity_level s)))]
                (graph_initialize s job))))"

section \<open>Loading and writing\<close>

definition get_session_and_job :: "('st \<Rightarrow> string \<Rightarrow> interview_session option)
    \<Rightarrow> ('st \<Rightarrow> string \<Rightarrow> job_spec option) \<Rightarrow> string \<Rightarrow> 'st
    \<Rightarrow> (interview_session \<times> job_spec) result" where
  "get_session_and_job get get_job sid st =
     (case get st sid of
        None \<Rightarrow> Inl (http 404 ''Session not found'')
      | Some s \<Rightarrow>
          (case get_job st (session_job_id s) of
             None \<Rightarrow> Inl (http 500 ''Session references a missing job'')
           | Some job \<Rightarrow> Inr (s, job)))"

text \<open>The other services load a session without its job.\<close>

definition load_session :: "('st \<Rightarrow> string \<Rightarrow> interview_session option) \<Rightarrow> string \<Rightarrow> 'st
    \<Rightarrow> interview_session result" where
  "load_session get sid st = (case get st sid of
      None \<Rightarrow> Inl (http 404 ''Session not found'') | Some s \<Rightarrow> Inr s)"

definition persist_session :: "(interview_session \<Rightarrow> 'st \<Rightarrow> 'st result) \<Rightarrow> interview_session \<Rightarrow> 'st
    \<Rightarrow> 'st result" where
  "persist_session put s st =
     (case put s st of
        Inr st' \<Rightarrow> Inr st'
      | Inl (StoreConflictError m) \<Rightarrow> Inl (http 409
          (''Interview state changed concurrently. '' @ ''Reload the session and retry the operation.''))
      | Inl e \<Rightarrow> Inl e)"

text \<open>A handler: load, compute, write. A failed handler leaves the store as it was.\<close>

definition transact :: "('st \<Rightarrow> string \<Rightarrow> interview_session option)
    \<Rightarrow> ('st \<Rightarrow> string \<Rightarrow> job_spec option) \<Rightarrow> (interview_session \<Rightarrow> 'st \<Rightarrow> 'st result) \<Rightarrow> string
    \<Rightarrow> (interview_session \<Rightarrow> job_spec \<Rightarrow> challenges \<Rightarrow> challenges \<times> 'a step)
    \<Rightarrow> 'st \<times> challenges \<Rightarrow> ('st \<times> challenges) \<times> 'a result" where
  "transact get get_job put sid h stp =
     (case stp of (st, priv) \<Rightarrow>
      (case get_session_and_job get get_job sid st of
         Inl e \<Rightarrow> ((st, priv), Inl e)
       | Inr (s, job) \<Rightarrow>
           (case h s job priv of
              (priv', Inl e) \<Rightarrow> ((st, priv'), Inl e)
            | (priv', Inr (None, a)) \<Rightarrow> ((st, priv'), Inr a)
            | (priv', Inr (Some s', a)) \<Rightarrow>
                (case persist_session put s' st of
                   Inl e \<Rightarrow> ((st, priv'), Inl e)
                 | Inr st' \<Rightarrow> ((st', priv'), Inr a)))))"

text \<open>A step that does not touch the challenges.\<close>

definition plain :: "(interview_session \<Rightarrow> job_spec \<Rightarrow> 'a step) \<Rightarrow> interview_session \<Rightarrow> job_spec
    \<Rightarrow> challenges \<Rightarrow> challenges \<times> 'a step" where
  "plain h s job priv = (priv, h s job)"

text \<open>\<^verbatim>\<open>answer\<close> starts an interview that is not started yet, as a request of its own, then
  loads the session again.\<close>

definition answer_handler :: "('st \<Rightarrow> string \<Rightarrow> interview_session option)
    \<Rightarrow> ('st \<Rightarrow> string \<Rightarrow> job_spec option) \<Rightarrow> (interview_session \<Rightarrow> 'st \<Rightarrow> 'st result)
    \<Rightarrow> service_config \<Rightarrow> env \<Rightarrow> string \<Rightarrow> string \<Rightarrow> jdict
    \<Rightarrow> 'st \<times> challenges \<Rightarrow> ('st \<times> challenges) \<times> session_step result" where
  "answer_handler get get_job put C E sid text meta stp =
     (case get_session_and_job get get_job sid (fst stp) of
        Inl e \<Rightarrow> (stp, Inl e)
      | Inr (s, job) \<Rightarrow>
          if status s = CREATED
          then (case transact get get_job put sid (start_step C E) stp of
                  (stp', Inl e) \<Rightarrow> (stp', Inl e)
                | (stp', Inr _) \<Rightarrow> transact get get_job put sid (answer_step C E text meta) stp')
          else transact get get_job put sid (answer_step C E text meta) stp)"

end
