(* ===== verification/Service_Inv.thy ===== *)
theory Service_Inv
  imports Service
begin

text \<open>
  What every step of the service keeps: the audit chain is sealed and numbered and the
  evidence graph is consistent with the transcript (\<open>session_ok\<close>). The operations of
  \<open>Service_Core\<close> are treated first, each with the fields it may change; the steps that call a
  brain are proved in the locale of its contract.
\<close>

section \<open>The invariant\<close>

definition session_ok :: "runtime \<Rightarrow> interview_session \<Rightarrow> bool" where
  "session_ok R s \<longleftrightarrow> audit_ok R s \<and> evidence_ok s"

lemma evidence_ok_cong:
  "evidence_graph s' = evidence_graph s \<Longrightarrow> turns s' = turns s \<Longrightarrow> evidence_ok s' = evidence_ok s"
  by (simp add: evidence_ok_def item_grounded_def turn_with_id_def)

lemma audit_ok_cong: "events s' = events s \<Longrightarrow> audit_ok R s' = audit_ok R s"
  by (simp add: audit_ok_def)

lemma session_ok_cong:
  "events s' = events s \<Longrightarrow> evidence_graph s' = evidence_graph s \<Longrightarrow> turns s' = turns s
     \<Longrightarrow> session_ok R s' = session_ok R s"
  unfolding session_ok_def using evidence_ok_cong audit_ok_cong by metis

text \<open>Turns are only appended: what is grounded stays grounded.\<close>

lemma evidence_ok_more_turns:
  assumes "evidence_ok s" and "evidence_graph s' = evidence_graph s" and "turns s' = turns s @ ts"
  shows "evidence_ok s'"
proof -
  have "item_grounded s' it" if "item_grounded s it" for it
    using that by (auto simp: item_grounded_def turn_with_id_def assms(3) find_append)
  then show ?thesis using assms(1) unfolding evidence_ok_def assms(2) by fastforce
qed

section \<open>Appending events\<close>

text \<open>Everything but the event list is as before.\<close>

lemma append_event_fields:
  assumes "append_event E ty t p s = Inr s'"
  shows "turns s' = turns s" "evidence_graph s' = evidence_graph s" "tools s' = tools s"
    "status s' = status s" "paused s' = paused s" "version s' = version s"
    "session_id s' = session_id s" "asked_questions s' = asked_questions s"
    "asked_anchor_competencies s' = asked_anchor_competencies s"
    "evidence_judge_runs s' = evidence_judge_runs s"
    "shared_metadata s' = shared_metadata s" "transcript_revisions s' = transcript_revisions s"
    "completed_at s' = completed_at s" "cancelled_at s' = cancelled_at s"
    "tool_submissions s' = tool_submissions s" "tool_evaluations s' = tool_evaluations s"
    "covered_competencies s' = covered_competencies s" "session_job_id s' = session_job_id s"
    "appeals s' = appeals s" "integrity_signals s' = integrity_signals s"
    "followups_by_competency s' = followups_by_competency s"
  using assms by (auto simp: append_event_def exn_simps)

lemma append_event_events:
  assumes "append_event E ty t p s = Inr s'"
  shows "\<exists>e es. events s' = es @ [e] \<and> length es = length (events s) \<and> event_type e = ty
     \<and> event_turn_id e = map_option turn_id t"
  using assms by (auto simp: append_event_def exn_simps dest!: seal_event_chain_Inr)

lemma append_event_session_ok:
  assumes "append_event E ty t p s = Inr s'" and "seq_ok (events s)" and "evidence_ok s"
  shows "session_ok (rt E) s'"
  using append_event_audit_ok [OF assms(1,2)] assms(3) append_event_fields(1,2) [OF assms(1)]
  by (simp add: session_ok_def evidence_ok_cong [of s' s])

lemma session_okD: "session_ok R s \<Longrightarrow> seq_ok (events s)" "session_ok R s \<Longrightarrow> evidence_ok s"
    "session_ok R s \<Longrightarrow> audit_ok R s"
  by (simp_all add: session_ok_def audit_ok_def)

text \<open>On a session with a sound chain, appending an event cannot fail.\<close>

lemma append_event_total: "audit_ok (rt E) s \<Longrightarrow> \<exists>s'. append_event E ty t p s = Inr s'"
  using append_event_ok by blast

lemma append_event_keeps:
  assumes "append_event E ty t p s1 = Inr s2" and "session_ok (rt E) s"
    and "events s1 = events s" and "evidence_graph s1 = evidence_graph s" and "turns s1 = turns s"
  shows "session_ok (rt E) s2"
proof (rule append_event_session_ok [OF assms(1)])
  show "seq_ok (events s1)" using assms(2,3) by (simp add: session_ok_def audit_ok_def)
  show "evidence_ok s1" using assms(2,4,5) evidence_ok_cong [of s1 s] by (simp add: session_ok_def)
qed

lemma append_event_keeps_turn:
  assumes "append_event E ty t p s1 = Inr s2" and "session_ok (rt E) s"
    and "events s1 = events s" and "evidence_graph s1 = evidence_graph s" and "turns s1 = turns s @ ts"
  shows "session_ok (rt E) s2"
proof (rule append_event_session_ok [OF assms(1)])
  show "seq_ok (events s1)" using assms(2,3) by (simp add: session_ok_def audit_ok_def)
  show "evidence_ok s1" using assms(2,4,5) by (auto simp: session_ok_def intro: evidence_ok_more_turns)
qed

text \<open>A loop that appends one event for each element.\<close>

lemma efold_append_event:
  assumes "efold (\<lambda>x. append_event E (ty x) (t x) (p x)) xs s = Inr s'"
  shows "s' = s\<lparr>events := events s'\<rparr>" and "session_ok (rt E) s \<Longrightarrow> session_ok (rt E) s'"
    and "seq_ok (events s) \<Longrightarrow> evidence_ok s \<Longrightarrow> xs \<noteq> [] \<Longrightarrow> session_ok (rt E) s'"
proof -
  show frame: "s' = s\<lparr>events := events s'\<rparr>"
  proof (rule efold_invariant [where P = "\<lambda>u. u = s\<lparr>events := events u\<rparr>", OF assms])
    fix x u u'
    assume "u = s\<lparr>events := events u\<rparr>" and "append_event E (ty x) (t x) (p x) u = Inr u'"
    then show "u' = s\<lparr>events := events u'\<rparr>" by (auto dest!: append_event_frame) (metis
      interview_session.update_convs(29) interview_session.surjective)
  qed simp
  show keeps: "session_ok (rt E) s \<Longrightarrow> session_ok (rt E) s'"
    by (rule efold_invariant [where P = "session_ok (rt E)", OF assms])
      (auto intro: append_event_keeps)
  show "seq_ok (events s) \<Longrightarrow> evidence_ok s \<Longrightarrow> xs \<noteq> [] \<Longrightarrow> session_ok (rt E) s'"
  proof -
    assume "seq_ok (events s)" "evidence_ok s" "xs \<noteq> []"
    then obtain y ys u where xs: "xs = y # ys" and u: "append_event E (ty y) (t y) (p y) s = Inr u"
      and rest: "efold (\<lambda>x. append_event E (ty x) (t x) (p x)) ys u = Inr s'"
      using assms by (cases xs) (auto simp: exn_simps)
    have "session_ok (rt E) u" by (rule append_event_session_ok [OF u]) fact+
    then show ?thesis
      by (intro efold_invariant [where P = "session_ok (rt E)", OF rest]) (auto intro: append_event_keeps)
  qed
qed

section \<open>Decisions\<close>

lemma decided_fields:
  "turns (decided E d l s) = turns s @ [decision_turn E d l s]"
  "events (decided E d l s) = events s" "evidence_graph (decided E d l s) = evidence_graph s"
  "tools (decided E d l s) = tools s" "status (decided E d l s) = status s"
  "paused (decided E d l s) = paused s" "version (decided E d l s) = version s"
  "session_id (decided E d l s) = session_id s"
  "asked_questions (decided E d l s) = asked_questions s + (if completes_interview d then 0 else 1)"
  "asked_anchor_competencies (decided E d l s) = (if lane_for d = ANCHOR
     then add_anchors (decision_tags d) (asked_anchor_competencies s) else asked_anchor_competencies s)"
  "completed_at (decided E d l s) = completed_at s" "cancelled_at (decided E d l s) = cancelled_at s"
  "session_job_id (decided E d l s) = session_job_id s"
  "covered_competencies (decided E d l s) = covered_competencies s"
  "followups_by_competency (decided E d l s) = followups_by_competency s"
  by (simp_all add: decided_def Let_def lane_for_def)

lemma apply_decision_event:
  assumes "apply_decision E d l s = Inr (s', t)"
  shows "t = decision_turn E d l s"
    and "\<exists>p. append_event E INTERVIEWER_TURN (Some t) p (decided E d l s) = Inr s'"
  using assms by (auto simp: apply_decision_def Let_def exn_simps)

lemma apply_decision_Inr:
  assumes "apply_decision E d l s = Inr (s', t)"
  shows "turns s' = turns s @ [t]"
    and "evidence_graph s' = evidence_graph s" and "tools s' = tools s" and "status s' = status s"
    and "paused s' = paused s" and "version s' = version s" and "session_id s' = session_id s"
    and "asked_questions s' = asked_questions s + (if completes_interview d then 0 else 1)"
    and "asked_anchor_competencies s' = (if lane_for d = ANCHOR
           then add_anchors (decision_tags d) (asked_anchor_competencies s)
           else asked_anchor_competencies s)"
    and "completed_at s' = completed_at s" and "cancelled_at s' = cancelled_at s"
    and "session_job_id s' = session_job_id s"
    and "covered_competencies s' = covered_competencies s"
    and "followups_by_competency s' = followups_by_competency s"
proof -
  obtain p where "append_event E INTERVIEWER_TURN (Some t) p (decided E d l s) = Inr s'"
    using apply_decision_event(2) [OF assms] by blast
  note f = append_event_fields [OF this] decided_fields apply_decision_event(1) [OF assms]
  show "turns s' = turns s @ [t]" "evidence_graph s' = evidence_graph s" "tools s' = tools s"
    "status s' = status s" "paused s' = paused s" "version s' = version s"
    "session_id s' = session_id s"
    "asked_questions s' = asked_questions s + (if completes_interview d then 0 else 1)"
    "asked_anchor_competencies s' = (if lane_for d = ANCHOR
           then add_anchors (decision_tags d) (asked_anchor_competencies s)
           else asked_anchor_competencies s)"
    "completed_at s' = completed_at s" "cancelled_at s' = cancelled_at s"
    "session_job_id s' = session_job_id s" "covered_competencies s' = covered_competencies s"
    "followups_by_competency s' = followups_by_competency s"
    by (simp_all add: f)
qed

lemma apply_decision_session_ok:
  assumes "apply_decision E d l s = Inr (s', t)" and "session_ok (rt E) s"
  shows "session_ok (rt E) s'"
  using apply_decision_event [OF assms(1)] assms(2)
  by (auto simp: decided_fields elim!: append_event_keeps_turn [where s = s])

lemma apply_decision_total:
  assumes "audit_ok (rt E) s"
  obtains s' where "apply_decision E d l s = Inr (s', decision_turn E d l s)"
proof -
  have "audit_ok (rt E) (decided E d l s)"
    using assms audit_ok_cong [of "decided E d l s" s] by (simp add: decided_fields)
  from append_event_total [OF this] that show thesis
    unfolding apply_decision_def Let_def by (metis ebind_Inr)
qed

lemma count_followup_fields [simp]:
  "events (count_followup d s) = events s" "turns (count_followup d s) = turns s"
  "evidence_graph (count_followup d s) = evidence_graph s" "tools (count_followup d s) = tools s"
  "status (count_followup d s) = status s" "paused (count_followup d s) = paused s"
  "version (count_followup d s) = version s" "session_id (count_followup d s) = session_id s"
  "asked_questions (count_followup d s) = asked_questions s"
  "asked_anchor_competencies (count_followup d s) = asked_anchor_competencies s"
  "completed_at (count_followup d s) = completed_at s"
  "cancelled_at (count_followup d s) = cancelled_at s"
  "session_job_id (count_followup d s) = session_job_id s"
  by (simp_all add: count_followup_def split: option.splits list.splits)

lemma count_followup_session_ok [simp]: "session_ok R (count_followup d s) = session_ok R s"
  by (rule session_ok_cong) simp_all

lemma complete_if_Inr:
  assumes "complete_if E d s = Inr s'"
  shows "status s' = (if completes_interview d then COMPLETED else status s)"
    and "turns s' = turns s" and "tools s' = tools s" and "version s' = version s"
    and "session_id s' = session_id s" and "paused s' = paused s"
    and "evidence_graph s' = evidence_graph s" and "session_job_id s' = session_job_id s"
    and "asked_questions s' = asked_questions s"
    and "asked_anchor_competencies s' = asked_anchor_competencies s"
    and "cancelled_at s' = cancelled_at s"
    and "session_ok (rt E) s \<Longrightarrow> session_ok (rt E) s'"
proof -
  have "status s' = (if completes_interview d then COMPLETED else status s) \<and> turns s' = turns s
     \<and> tools s' = tools s \<and> version s' = version s \<and> session_id s' = session_id s
     \<and> paused s' = paused s \<and> evidence_graph s' = evidence_graph s
     \<and> session_job_id s' = session_job_id s \<and> asked_questions s' = asked_questions s
     \<and> asked_anchor_competencies s' = asked_anchor_competencies s
     \<and> cancelled_at s' = cancelled_at s
     \<and> (session_ok (rt E) s \<longrightarrow> session_ok (rt E) s')"
  proof (cases "completes_interview d")
    case True
    then obtain s1 where ev: "append_event E SESSION_COMPLETED None [] s1 = Inr s'"
      and s1: "s1 = s\<lparr>status := COMPLETED,
                completed_at := (if completed_at s = None then Some (now_at E ''completed_at'' 0)
                                 else completed_at s)\<rparr>"
      using assms by (simp add: complete_if_def)
    then show ?thesis using True append_event_keeps [OF ev, of s]
      by (simp add: append_event_fields [OF ev])
  next
    case False
    then show ?thesis using assms by (simp add: complete_if_def)
  qed
  then show "status s' = (if completes_interview d then COMPLETED else status s)"
    "turns s' = turns s" "tools s' = tools s" "version s' = version s" "session_id s' = session_id s"
    "paused s' = paused s" "evidence_graph s' = evidence_graph s"
    "session_job_id s' = session_job_id s" "asked_questions s' = asked_questions s"
    "asked_anchor_competencies s' = asked_anchor_competencies s" "cancelled_at s' = cancelled_at s"
    "session_ok (rt E) s \<Longrightarrow> session_ok (rt E) s'" by simp_all
qed

section \<open>Tools\<close>

lemma value_error_400_Inr [exn_simps]: "value_error_400 r = Inr x \<longleftrightarrow> r = Inr x"
  by (simp add: value_error_400_def split: sum.splits)

lemma check_live_Inr [exn_simps]:
  "check_live s r = Inr x \<longleftrightarrow> status s \<noteq> COMPLETED \<and> status s \<noteq> CANCELLED \<and> r = Inr x"
  by (auto simp: check_live_def exn_simps)

lemma append_tool_Inr:
  assumes "append_tool E job invo s = Inr s'"
  shows "tools s' = tools s @ [invo]" and "turns s' = turns s"
    and "evidence_graph s' = evidence_graph s" and "status s' = status s" and "paused s' = paused s"
    and "version s' = version s" and "session_id s' = session_id s"
    and "status s \<noteq> COMPLETED" and "status s \<noteq> CANCELLED"
    and "tool_id invo \<notin> set (map tool_id (tools s))"
    and "set (tool_competency_tags invo) \<subseteq> set (competency_ids_of job)"
    and "asked_questions s' = asked_questions s" and "session_job_id s' = session_job_id s"
    and "asked_anchor_competencies s' = asked_anchor_competencies s"
    and "completed_at s' = completed_at s" and "cancelled_at s' = cancelled_at s"
    and "session_ok (rt E) s \<Longrightarrow> session_ok (rt E) s'"
  using assms
  by (auto simp: append_tool_def Let_def exn_simps list_ex_iff filter_empty_conv
      dest: append_event_fields elim!: append_event_keeps [where s = s])

text \<open>A granted tool request is allowed by the job, within its budget and new.\<close>

lemma tool_request_guards_Inr:
  assumes "tool_request_guards E job d template s = Inr u"
  shows "int (length (tools s)) < max_tools job"
    and "template \<notin> set (used_templates (float_repr (rt E)) s)"
    and "\<exists>p \<in> set (tool_templates job). jtt_template_id p = template
           \<and> (jtt_competency_ids p = [] \<or> set (decision_tags d) \<subseteq> set (jtt_competency_ids p))"
  using assms by (auto simp: tool_request_guards_def Let_def exn_simps filter_empty_conv
      split: option.splits dest!: find_SomeD)

lemma open_requested_tool_Inr:
  assumes "open_requested_tool E reg job d qid s priv = (priv', Inr (s', invo))"
  shows "tool_request d = None \<Longrightarrow> s' = s \<and> invo = None \<and> priv' = priv"
    and "\<And>template. tool_request d = Some template \<Longrightarrow>
           \<exists>i. invo = Some i \<and> append_tool E job i s = Inr s'
             \<and> tool_request_guards E job d template s = Inr ()
             \<and> registry_instantiate E (length (tools s)) reg template (decision_tags d) (Some qid) priv
                 = Inr (priv', i)"
  using assms by (auto simp: open_requested_tool_def exn_simps split: option.splits sum.splits)

lemma open_requested_tool_fields:
  assumes "open_requested_tool E reg job d qid s priv = (priv', Inr (s', invo))"
  shows "turns s' = turns s" and "evidence_graph s' = evidence_graph s" and "status s' = status s"
    and "paused s' = paused s" and "version s' = version s" and "session_id s' = session_id s"
    and "asked_questions s' = asked_questions s" and "session_job_id s' = session_job_id s"
    and "asked_anchor_competencies s' = asked_anchor_competencies s"
    and "completed_at s' = completed_at s" and "cancelled_at s' = cancelled_at s"
    and "session_ok (rt E) s \<Longrightarrow> session_ok (rt E) s'"
  using open_requested_tool_Inr [OF assms]
  by (cases "tool_request d"; auto dest: append_tool_Inr)+

section \<open>Judging\<close>

text \<open>What a judging may change, and that it keeps the invariant also when it fails half-way.\<close>

definition judged_from :: "runtime \<Rightarrow> interview_session \<Rightarrow> interview_session \<Rightarrow> bool" where
  "judged_from R s0 s \<longleftrightarrow> session_ok R s \<and> s = s0\<lparr>events := events s, evidence_graph := evidence_graph s,
     evidence_judge_runs := evidence_judge_runs s\<rparr>"

lemma judged_from_fields:
  assumes "judged_from R s0 s"
  shows "turns s = turns s0" and "tools s = tools s0" and "status s = status s0"
    and "paused s = paused s0" and "version s = version s0" and "session_id s = session_id s0"
    and "asked_questions s = asked_questions s0"
    and "asked_anchor_competencies s = asked_anchor_competencies s0"
    and "transcript_revisions s = transcript_revisions s0" and "session_job_id s = session_job_id s0"
    and "shared_metadata s = shared_metadata s0" and "session_ok R s"
    and "followups_by_competency s = followups_by_competency s0"
    and "covered_competencies s = covered_competencies s0" and "cancelled_at s = cancelled_at s0"
  using assms unfolding judged_from_def by (cases s; cases s0; simp)+

lemma judged_from_append_event:
  assumes "judged_from (rt E) s0 s" and "append_event E ty t p s = Inr s'"
  shows "judged_from (rt E) s0 s'"
  using assms append_event_keeps [OF assms(2), of s] append_event_frame [OF assms(2)]
  unfolding judged_from_def by (cases s; cases s0; cases s'; simp)

definition judging :: "env \<Rightarrow> interview_session \<Rightarrow> judge_state \<Rightarrow> bool" where
  "judging E s0 st \<longleftrightarrow> judged_from (rt E) s0 (fst st)"

lemma then_block_inv:
  assumes "judging E s0 (fst b)" and "\<And>st. judging E s0 st \<Longrightarrow> judging E s0 (fst (f st))"
  shows "judging E s0 (fst (then_block b f))"
  using assms by (auto simp: then_block_def split: prod.splits option.splits)

lemma event_block_inv: "judging E s0 st \<Longrightarrow> judging E s0 (fst (event_block E ty t p st))"
  by (auto simp: judging_def event_block_def judged_from_append_event split: sum.splits)

lemma superseded_events_inv: "judging E s0 st \<Longrightarrow> judging E s0 (fst (superseded_events E a rid its st))"
proof (induction its arbitrary: st)
  case Nil
  then show ?case by simp
next
  case (Cons it its)
  show ?case
    unfolding superseded_events.simps
    by (rule then_block_inv [OF event_block_inv [OF Cons.prems] Cons.IH])
qed

lemma judged_from_set_node:
  assumes "judged_from R s0 s" and "s' = set_node cid n s" and "evidence_ok s'"
  shows "judged_from R s0 s'"
  using assms unfolding judged_from_def session_ok_def
  by (cases s; cases s0) (simp add: set_node_def audit_ok_def)

lemma judged_from_runs:
  "judged_from R s0 s \<Longrightarrow> judged_from R s0 (s\<lparr>evidence_judge_runs := rs\<rparr>)"
  unfolding judged_from_def using session_ok_cong [of "s\<lparr>evidence_judge_runs := rs\<rparr>" s]
  by (cases s; cases s0) simp

lemma judged_from_supersede:
  assumes "judged_from R s0 s"
  shows "judged_from R s0 (fst (supersede_semantic_evidence_for_turn tid s))"
proof -
  define s1 where "s1 = fst (supersede_semantic_evidence_for_turn tid s)"
  have ok: "evidence_ok s" using assms by (simp add: judged_from_def session_ok_def)
  then have "\<exists>g. s1 = s\<lparr>evidence_graph := g\<rparr>"
    unfolding s1_def by (subst supersede_graph) (auto simp: evidence_ok_def)
  then obtain g where g: "s1 = s\<lparr>evidence_graph := g\<rparr>" ..
  have "turn_with_id s1 = turn_with_id s" by (simp add: turn_with_id_def fun_eq_iff g)
  then have "evidence_ok s1"
    using supersede_ok_correct [OF ok s1_def, of s1] by simp
  moreover have "audit_ok R s1" using assms by (simp add: g judged_from_def session_ok_def audit_ok_def)
  ultimately have "session_ok R s1" by (simp add: session_ok_def)
  then show ?thesis using assms unfolding s1_def [symmetric] judged_from_def g
    by (cases s; cases s0) simp
qed

lemma observe_block_inv:
  "judging E s0 st \<Longrightarrow> judging E s0 (fst (observe_block E job a obs st))"
proof (induction obs arbitrary: st)
  case Nil
  then show ?case by simp
next
  case (Cons ob obs)
  show ?case
  proof (cases "apply_observation E (fst st) job ob")
    case (Inl e)
    then show ?thesis using Cons.prems by simp
  next
    case (Inr p)
    obtain s1 item where p: "p = (s1, item)" by (cases p)
    have "evidence_ok (fst st)" using Cons.prems by (simp add: judging_def judged_from_def session_ok_def)
    then have "judged_from (rt E) s0 s1"
      using Cons.prems [unfolded judging_def] apply_observation_ok [OF Inr [unfolded p]] apply_observation_Inr(1) [OF Inr [unfolded p]]
      by (blast intro: judged_from_set_node)
    then have "judging E s0 (s1, r)" for r by (simp add: judging_def)
    then show ?thesis using Inr p
      by (simp add: Let_def then_block_inv [OF event_block_inv Cons.IH])
  qed
qed

lemma audit_block_inv:
  assumes "judging E s0 st"
  shows "judging E s0 (fst (audit_block E jid q a audit st))"
proof -
  have "judging E s0 (fst st, (snd st)\<lparr>run_audit := audit\<rparr>)" using assms by (simp add: judging_def)
  then show ?thesis
    by (auto simp: audit_block_def Let_def event_block_inv split: sum.splits)
qed

lemma judging_add_run: "judging E s0 st \<Longrightarrow> judging E s0 (add_run st)"
  by (simp add: judging_def add_run_def judged_from_runs)

lemma judge_try_inv:
  assumes "judging E s0 st"
  shows "judging E s0 (fst (judge_try E J job q a cids again st))"
proof (cases "ebind (evaluate J q a job cids) (\<lambda>response.
           ebind (gate_validate a response (judge_id J)) (\<lambda>raw. Inr (response, raw)))")
  case (Inl e)
  then show ?thesis using assms by (simp add: judge_try_def)
next
  case (Inr p)
  obtain response raw where p: "p = (response, raw)" by (cases p)
  obtain s' items where sup: "supersede_semantic_evidence_for_turn (turn_id a) (fst st) = (s', items)"
    by (cases "supersede_semantic_evidence_for_turn (turn_id a) (fst st)")
  have "judging E s0 (s', snd st)"
    using judged_from_supersede [of "rt E" s0 "fst st" "turn_id a"] assms sup by (simp add: judging_def)
  then have block: "judging E s0 (fst (if again then superseded_events E a rid items (s', snd st)
      else (st, None)))" for rid
    using assms by (simp add: superseded_events_inv)
  show ?thesis
    unfolding judge_try_def Inr p sum.case prod.case Let_def sup
    by (intro then_block_inv block audit_block_inv observe_block_inv event_block_inv judging_add_run)
qed

lemma judge_except_inv:
  assumes "judging E s0 st" and "judge_except E J q a cids e st = Inr st'"
  shows "judging E s0 st'"
proof -
  let ?st = "(fst st, (snd st)\<lparr>run_error_type := Some (exn_name e), run_error := Some (take 2000 (exn_str e))\<rparr>)"
  have "judging E s0 (add_run ?st)" using assms(1) by (intro judging_add_run) (simp add: judging_def)
  then show ?thesis using assms(2)
    by (auto simp: judge_except_def Let_def exn_simps judging_def intro: judged_from_append_event)
qed

lemma judge_candidate_evidence_ok:
  assumes "judge_candidate_evidence E J job q a again prev s = Inr (s', run)" and "session_ok (rt E) s"
  shows "judged_from (rt E) s s'"
proof -
  let ?cids = "fromkeys (competency_tags q)"
  let ?run = "new_judge_run E J q a ?cids prev s"
  have self: "judged_from (rt E) s s" using assms(2) by (simp add: judged_from_def)
  then have inv: "judging E s (fst (judge_try E J job q a ?cids again (s, ?run)))"
    by (intro judge_try_inv) (simp add: judging_def)
  obtain st eo where block: "judge_try E J job q a ?cids again (s, ?run) = (st, eo)"
    by (cases "judge_try E J job q a ?cids again (s, ?run)")
  consider (skip) "s' = s"
    | (finished) "eo = None" and "s' = fst st"
    | (failed) e st' where "eo = Some e" and "judge_except E J q a ?cids e st = Inr st'" and "s' = fst st'"
    using assms(1) block
    by (auto simp: judge_candidate_evidence_def Let_def exn_simps split: if_splits option.splits)
  then show ?thesis
  proof cases
    case skip
    with self show ?thesis by simp
  next
    case finished
    with inv block show ?thesis by (simp add: judging_def)
  next
    case failed
    with inv block show ?thesis using judge_except_inv [of E s st] by (simp add: judging_def)
  qed
qed

end
