(* ===== verification/Service_Steps.thy ===== *)
theory Service_Steps
  imports Service_Inv
begin

text \<open>
  Every step of the service keeps \<open>session_ok\<close>, the identity and the version of the session,
  and moves its status only forwards. The steps are gathered in the datatype \<open>request\<close>, one
  constructor for each operation of \<^verbatim>\<open>InterviewService\<close> that writes a session.
\<close>

section \<open>Corrections\<close>

lemma audit_okD: "audit_ok R s \<Longrightarrow> seq_ok (events s)"
  by (simp add: audit_ok_def)

lemma find_update_first:
  assumes "\<And>x. key (f x) = key x"
  shows "find (\<lambda>x. key x = k) (update_first (\<lambda>x. key x = k') f xs) =
     (if k = k' then map_option f (find (\<lambda>x. key x = k) xs) else find (\<lambda>x. key x = k) xs)"
  using assms by (induction xs) auto

lemma share_metadata_seq [simp]: "map event_seq (share_metadata tid meta es) = map event_seq es"
  by (auto simp: share_metadata_def)

lemma length_share_metadata [simp]: "length (share_metadata tid meta es) = length es"
  by (simp add: share_metadata_def)

lemma correct_turn_fields:
  "evidence_graph (correct_turn tid txt meta s) = evidence_graph s"
  "seq_ok (events (correct_turn tid txt meta s)) = seq_ok (events s)"
  "turn_with_id (correct_turn tid txt meta s) i = (if i = tid
     then map_option (\<lambda>t. t\<lparr>turn_text := txt, metadata := meta\<rparr>) (turn_with_id s i) else turn_with_id s i)"
  "status (correct_turn tid txt meta s) = status s" "paused (correct_turn tid txt meta s) = paused s"
  "version (correct_turn tid txt meta s) = version s"
  "session_id (correct_turn tid txt meta s) = session_id s"
  "tools (correct_turn tid txt meta s) = tools s"
  "session_job_id (correct_turn tid txt meta s) = session_job_id s"
  "map turn_id (turns (correct_turn tid txt meta s)) = map turn_id (turns s)"
  by (simp_all add: correct_turn_def seq_ok_def turn_with_id_def find_update_first map_update_first
      del: upt_Suc)

lemma supersede_fields:
  assumes "distinct (map fst (evidence_graph s))"
    and "supersede_semantic_evidence_for_turn tid s = (s', items)"
  shows "s' = s\<lparr>evidence_graph := dict_map (\<lambda>cid. retire_and_recompute tid) (evidence_graph s)\<rparr>"
  using supersede_graph [OF assms(1), of tid] assms(2) by simp

lemma apply_transcript_correction_Inr:
  assumes "apply_transcript_correction E req s = Inr (s', revision)"
  obtains t s1 p where "turn_with_id s (corr_turn_id req) = Some t" and "speaker t = CANDIDATE"
    and "turn_id t = corr_turn_id req" and "revision = correction_revision E req t s"
    and "append_event E TRANSCRIPT_CORRECTED (Some t) p (corrected req t revision s) = Inr s1"
    and "efold (\<lambda>it. append_event E EVIDENCE_SUPERSEDED (Some t) (superseded_payload t it))
           (snd (supersede_semantic_evidence_for_turn (corr_turn_id req) s1))
           (fst (supersede_semantic_evidence_for_turn (corr_turn_id req) s1)) = Inr s'"
proof -
  obtain t where t: "turn_with_id s (corr_turn_id req) = Some t"
    using assms by (auto simp: apply_transcript_correction_def split: option.splits)
  moreover from t have "turn_id t = corr_turn_id req" by (auto simp: turn_with_id_def dest: find_SomeD)
  ultimately show thesis using assms that
    by (auto simp: apply_transcript_correction_def exn_simps Let_def case_prod_beta)
qed

lemma corrected_fields:
  "evidence_graph (corrected req t rv s) = evidence_graph s"
  "seq_ok (events (corrected req t rv s)) = seq_ok (events s)"
  "turn_with_id (corrected req t rv s) i = (if i = turn_id t
     then map_option (\<lambda>t'. t'\<lparr>turn_text := corr_text req, metadata := corrected_metadata
        (s\<lparr>transcript_revisions := transcript_revisions s @ [rv]\<rparr>) t (rev_id rv)\<rparr>) (turn_with_id s i)
     else turn_with_id s i)"
  "status (corrected req t rv s) = status s" "paused (corrected req t rv s) = paused s"
  "version (corrected req t rv s) = version s" "session_id (corrected req t rv s) = session_id s"
  "tools (corrected req t rv s) = tools s" "session_job_id (corrected req t rv s) = session_job_id s"
  "map turn_id (turns (corrected req t rv s)) = map turn_id (turns s)"
  "transcript_revisions (corrected req t rv s) = transcript_revisions s @ [rv]"
  "cancelled_at (corrected req t rv s) = cancelled_at s"
  by (simp_all add: corrected_def correct_turn_fields Let_def)
    (simp_all add: turn_with_id_def correct_turn_def)

text \<open>What a correction leaves: the session \<open>s1\<close> after its event, with the graph superseded, and
  further events.\<close>

lemma apply_transcript_correction_shape:
  assumes "apply_transcript_correction E req s = Inr (s', revision)" and "evidence_ok s"
  obtains t where "turn_with_id s (corr_turn_id req) = Some t" and "speaker t = CANDIDATE"
    and "turn_id t = corr_turn_id req" and "revision = correction_revision E req t s"
    and "s' = (corrected req t revision s)\<lparr>evidence_graph :=
           dict_map (\<lambda>cid. retire_and_recompute (corr_turn_id req)) (evidence_graph s),
           events := events s'\<rparr>"
    and "seq_ok (events s) \<Longrightarrow> audit_ok (rt E) s'"
proof -
  let ?tid = "corr_turn_id req"
  from assms(1) obtain t s1 p where t: "turn_with_id s ?tid = Some t" "speaker t = CANDIDATE"
      "turn_id t = ?tid" "revision = correction_revision E req t s"
    and ev: "append_event E TRANSCRIPT_CORRECTED (Some t) p (corrected req t revision s) = Inr s1"
    and loop: "efold (\<lambda>it. append_event E EVIDENCE_SUPERSEDED (Some t) (superseded_payload t it))
           (snd (supersede_semantic_evidence_for_turn ?tid s1))
           (fst (supersede_semantic_evidence_for_turn ?tid s1)) = Inr s'"
    by (rule apply_transcript_correction_Inr)
  have g: "evidence_graph s1 = evidence_graph s" by (simp add: append_event_fields [OF ev] corrected_fields)
  define s2 where "s2 = fst (supersede_semantic_evidence_for_turn ?tid s1)"
  have s2: "s2 = s1\<lparr>evidence_graph := dict_map (\<lambda>cid. retire_and_recompute ?tid) (evidence_graph s)\<rparr>"
    using assms(2) g unfolding s2_def by (subst supersede_graph) (simp_all add: evidence_ok_def)
  obtain es1 where e1: "s1 = (corrected req t revision s)\<lparr>events := es1\<rparr>"
    using append_event_frame [OF ev] by blast
  obtain es' where e2: "s' = s2\<lparr>events := es'\<rparr>"
    using efold_append_event(1) [OF loop] unfolding s2_def by blast
  show thesis
  proof (rule that [OF t])
    show "s' = (corrected req t revision s)\<lparr>evidence_graph :=
        dict_map (\<lambda>cid. retire_and_recompute ?tid) (evidence_graph s), events := events s'\<rparr>"
      unfolding e2 s2 e1 by simp
    assume "seq_ok (events s)"
    then have "audit_ok (rt E) s1"
      using append_event_audit_ok [OF ev] by (simp add: corrected_fields)
    then have "audit_ok (rt E) s2" by (simp add: s2 audit_ok_def)
    then show "audit_ok (rt E) s'"
      unfolding s2_def
      by (rule efold_invariant [OF loop]) (blast intro: append_event_audit_ok audit_okD)
  qed
qed

lemma apply_transcript_correction_ok:
  assumes "apply_transcript_correction E req s = Inr (s', revision)" and "session_ok (rt E) s"
  shows "session_ok (rt E) s'"
proof -
  have ok: "evidence_ok s" using assms(2) by (rule session_okD)
  then have dist: "distinct (map fst (evidence_graph s))" by (simp add: evidence_ok_def)
  obtain t where t: "turn_with_id s (corr_turn_id req) = Some t" "turn_id t = corr_turn_id req"
    and s': "s' = (corrected req t revision s)\<lparr>evidence_graph :=
           dict_map (\<lambda>cid. retire_and_recompute (corr_turn_id req)) (evidence_graph s),
           events := events s'\<rparr>"
    and audit: "audit_ok (rt E) s'"
    using apply_transcript_correction_shape [OF assms(1) ok] session_okD(1) [OF assms(2)] by metis
  have twi: "turn_with_id s' i = turn_with_id (corrected req t revision s) i" for i
    by (subst s') (simp add: turn_with_id_def)
  have "evidence_ok s'"
  proof (rule supersede_ok_correct [OF ok refl])
    show "evidence_graph s' = evidence_graph (fst (supersede_semantic_evidence_for_turn (corr_turn_id req) s))"
      using dist by (subst s') (simp add: supersede_graph)
  qed (auto simp: twi corrected_fields t(2))
  with audit show ?thesis by (simp add: session_ok_def)
qed

lemma apply_transcript_correction_fields:
  assumes "apply_transcript_correction E req s = Inr (s', revision)" and "evidence_ok s"
  shows "status s' = status s" and "paused s' = paused s" and "version s' = version s"
    and "session_id s' = session_id s" and "session_job_id s' = session_job_id s"
    and "tools s' = tools s" and "map turn_id (turns s') = map turn_id (turns s)"
    and "transcript_revisions s' = transcript_revisions s @ [revision]"
    and "cancelled_at s' = cancelled_at s"
proof -
  obtain t where s': "s' = (corrected req t revision s)\<lparr>evidence_graph :=
           dict_map (\<lambda>cid. retire_and_recompute (corr_turn_id req)) (evidence_graph s),
           events := events s'\<rparr>"
    by (rule apply_transcript_correction_shape [OF assms])
  show "status s' = status s" "paused s' = paused s" "version s' = version s"
    "session_id s' = session_id s" "session_job_id s' = session_job_id s" "tools s' = tools s"
    "map turn_id (turns s') = map turn_id (turns s)"
    "transcript_revisions s' = transcript_revisions s @ [revision]" "cancelled_at s' = cancelled_at s"
    by (subst s', simp add: corrected_fields)+
qed

text \<open>The corrected turn has the new text, its original is kept in the revision, and no evidence
  that a semantic judge derived from it stays active.\<close>

lemma apply_transcript_correction_effect:
  assumes "apply_transcript_correction E req s = Inr (s', revision)" and "evidence_ok s"
  shows "\<exists>t t'. turn_with_id s (corr_turn_id req) = Some t \<and> speaker t = CANDIDATE
           \<and> rev_original_text revision = turn_text t
           \<and> turn_with_id s' (corr_turn_id req) = Some t' \<and> turn_text t' = corr_text req"
    and "dict_get (evidence_graph s') cid = Some n \<Longrightarrow> it \<in> set (node_evidence n) \<Longrightarrow>
           ev_turn_id it = corr_turn_id req \<Longrightarrow> is_semantic (ev_source it) \<Longrightarrow> \<not> ev_active it"
proof -
  obtain t where t: "turn_with_id s (corr_turn_id req) = Some t" "speaker t = CANDIDATE"
      "turn_id t = corr_turn_id req" "revision = correction_revision E req t s"
    and s': "s' = (corrected req t revision s)\<lparr>evidence_graph :=
           dict_map (\<lambda>cid. retire_and_recompute (corr_turn_id req)) (evidence_graph s),
           events := events s'\<rparr>"
    by (rule apply_transcript_correction_shape [OF assms])
  have "turn_with_id s' (corr_turn_id req) = turn_with_id (corrected req t revision s) (corr_turn_id req)"
    by (subst s') (simp add: turn_with_id_def)
  with t show "\<exists>t t'. turn_with_id s (corr_turn_id req) = Some t \<and> speaker t = CANDIDATE
           \<and> rev_original_text revision = turn_text t
           \<and> turn_with_id s' (corr_turn_id req) = Some t' \<and> turn_text t' = corr_text req"
    by (auto simp: corrected_fields correction_revision_def)
  have "evidence_graph s' = dict_map (\<lambda>cid. retire_and_recompute (corr_turn_id req)) (evidence_graph s)"
    by (subst s') simp
  then show "dict_get (evidence_graph s') cid = Some n \<Longrightarrow> it \<in> set (node_evidence n) \<Longrightarrow>
           ev_turn_id it = corr_turn_id req \<Longrightarrow> is_semantic (ev_source it) \<Longrightarrow> \<not> ev_active it"
    by (auto simp: dict_get_dict_map retire_and_recompute_evidence retired_by_def)
qed

section \<open>What a step keeps\<close>

fun status_rank :: "session_status \<Rightarrow> nat" where
  "status_rank CREATED = 0"
| "status_rank RUNNING = 1"
| "status_rank COMPLETED = 2"
| "status_rank CANCELLED = 2"

text \<open>The state machine of a session: forwards only, completed and cancelled are final.\<close>

definition status_step :: "session_status \<Rightarrow> session_status \<Rightarrow> bool" where
  "status_step a b \<longleftrightarrow> a = b \<or> status_rank a < status_rank b"

text \<open>A cancelled session is not paused, carries its time, and no tool of it is pending.\<close>

definition closed_ok :: "interview_session \<Rightarrow> bool" where
  "closed_ok s \<longleftrightarrow> (status s = CANCELLED \<longrightarrow>
     \<not> paused s \<and> cancelled_at s \<noteq> None \<and> (\<forall>t\<in>set (tools s). \<not> is_cancellable t))"

definition step_keeps :: "runtime \<Rightarrow> interview_session \<Rightarrow> interview_session \<Rightarrow> bool" where
  "step_keeps R s s' \<longleftrightarrow> session_ok R s' \<and> closed_ok s' \<and> session_id s' = session_id s
     \<and> version s' = version s \<and> session_job_id s' = session_job_id s \<and> status_step (status s) (status s')"

lemma status_step_refl [simp]: "status_step a a"
  by (simp add: status_step_def)

lemma status_step_trans: "status_step a b \<Longrightarrow> status_step b c \<Longrightarrow> status_step a c"
  by (auto simp: status_step_def)

lemma closed_ok_cong:
  "status s' = status s \<Longrightarrow> paused s' = paused s \<Longrightarrow> cancelled_at s' = cancelled_at s \<Longrightarrow>
     tools s' = tools s \<Longrightarrow> closed_ok s' = closed_ok s"
  by (simp add: closed_ok_def)

lemma live_closed_ok: "status s \<noteq> CANCELLED \<Longrightarrow> closed_ok s"
  by (simp add: closed_ok_def)

lemma step_keeps_same:
  assumes "session_ok R s'" and "closed_ok s" and "session_id s' = session_id s"
    and "version s' = version s" and "session_job_id s' = session_job_id s"
    and "status s' = status s" and "paused s' = paused s" and "cancelled_at s' = cancelled_at s"
    and "tools s' = tools s"
  shows "step_keeps R s s'"
  using assms closed_ok_cong [of s' s] by (simp add: step_keeps_def)

text \<open>One event on a session that differs in fields the invariants do not read.\<close>

lemma append_event_step_keeps:
  assumes "append_event E ty t p s1 = Inr s'" and "session_ok (rt E) s" and "closed_ok s"
    and "events s1 = events s" and "evidence_graph s1 = evidence_graph s" and "turns s1 = turns s"
    and "session_id s1 = session_id s" and "version s1 = version s"
    and "session_job_id s1 = session_job_id s" and "status s1 = status s" and "paused s1 = paused s"
    and "cancelled_at s1 = cancelled_at s" and "tools s1 = tools s"
  shows "step_keeps (rt E) s s'"
  using append_event_keeps [OF assms(1,2,4-6)] assms(3,7-)
  by (intro step_keeps_same) (simp_all add: append_event_fields [OF assms(1)])

text \<open>A sequence of events on such a session.\<close>

lemma append_events_step_keeps:
  assumes "efold (\<lambda>x. append_event E (ty x) (t x) (p x)) xs s1 = Inr s'" and "session_ok (rt E) s"
    and "closed_ok s" and "events s1 = events s" and "evidence_graph s1 = evidence_graph s"
    and "turns s1 = turns s" and "session_id s1 = session_id s" and "version s1 = version s"
    and "session_job_id s1 = session_job_id s" and "status s1 = status s" and "paused s1 = paused s"
    and "cancelled_at s1 = cancelled_at s" and "tools s1 = tools s"
  shows "step_keeps (rt E) s s'"
proof (rule step_keeps_same)
  have "session_ok (rt E) s1" using assms(2) session_ok_cong [OF assms(4-6)] by blast
  then show "session_ok (rt E) s'" by (rule efold_append_event(2) [OF assms(1)])
  show "closed_ok s" by (rule assms(3))
qed (subst efold_append_event(1) [OF assms(1)], use assms(4-) in simp)+

lemma map_sum_Some_Inr [exn_simps]: "map_sum id Some m = Inr (Some x) \<longleftrightarrow> m = Inr x"
  by (cases m) simp_all

lemma submit_appeal_keeps:
  assumes "submit_appeal_step E req s = Inr (Some s', a)" and "session_ok (rt E) s" and "closed_ok s"
  shows "step_keeps (rt E) s s'"
  using assms by (auto simp: submit_appeal_step_def Let_def exn_simps elim!: append_event_step_keeps)

lemma review_appeal_keeps:
  assumes "review_appeal_step E i req s = Inr (Some s', a)" and "session_ok (rt E) s" and "closed_ok s"
  shows "step_keeps (rt E) s s'"
  using assms by (auto simp: review_appeal_step_def exn_simps split: option.splits
      elim!: append_event_step_keeps)

lemma submit_signal_keeps:
  assumes "submit_signal_step E req s = Inr (Some s', a)" and "session_ok (rt E) s" and "closed_ok s"
  shows "step_keeps (rt E) s s'"
  using assms by (auto simp: submit_signal_step_def Let_def exn_simps elim!: append_event_step_keeps)

lemma review_signal_keeps:
  assumes "review_signal_step E i req s = Inr (Some s', a)" and "session_ok (rt E) s" and "closed_ok s"
  shows "step_keeps (rt E) s s'"
  using assms by (auto simp: review_signal_step_def exn_simps split: option.splits
      elim!: append_event_step_keeps)

lemma correct_keeps:
  assumes "correct_step E req s = Inr (Some s', a)" and "session_ok (rt E) s" and "closed_ok s"
  shows "step_keeps (rt E) s s'"
proof -
  from assms(1) have c: "apply_transcript_correction E req s = Inr (s', a)"
    by (auto simp: correct_step_def exn_simps)
  note ok = session_okD(2) [OF assms(2)]
  show ?thesis
    using apply_transcript_correction_ok [OF c assms(2)] apply_transcript_correction_fields [OF c ok] assms(3)
    by (intro step_keeps_same) simp_all
qed

lemma observe_keeps:
  assumes "observe_step E ob s job = Inr (Some s', n)" and "session_ok (rt E) s" and "closed_ok s"
  shows "step_keeps (rt E) s s'"
proof -
  from assms(1) obtain s1 item t p where ob: "apply_observation E s job ob = Inr (s1, item)"
    and ev: "append_event E EVIDENCE_OBSERVED t p s1 = Inr s'"
    by (auto simp: observe_step_def exn_simps)
  note f = append_event_fields [OF ev] apply_observation_Inr(1) [OF ob]
  have "evidence_ok s1" using apply_observation_ok [OF ob] assms(2) by (simp add: session_ok_def)
  moreover have "seq_ok (events s1)" using assms(2) by (simp add: f(22) session_ok_def audit_ok_def)
  ultimately have "session_ok (rt E) s'" by (intro append_event_session_ok [OF ev])
  then show ?thesis using assms(3)
    by (rule step_keeps_same) (simp_all add: f set_node_def)
qed

lemma judged_step_keeps:
  assumes "judged_from R s s'" and "closed_ok s"
  shows "step_keeps R s s'"
  using assms judged_from_fields [OF assms(1)] by (intro step_keeps_same) simp_all

lemma reevaluate_keeps:
  assumes "reevaluate_step C E i s job = Inr (Some s', r)" and "session_ok (rt E) s" and "closed_ok s"
  shows "step_keeps (rt E) s s'"
proof -
  from assms(1) obtain q a prev where
    "judge_candidate_evidence E (cfg_judge C) job q a True prev s = Inr (s', Some r)"
    by (auto simp: reevaluate_step_def Let_def exn_simps split: option.splits)
  from judge_candidate_evidence_ok [OF this assms(2)] assms(3) show ?thesis by (rule judged_step_keeps)
qed

lemma step_keeps_trans:
  "step_keeps R s t \<Longrightarrow> step_keeps R t u \<Longrightarrow> step_keeps R s u"
  by (auto simp: step_keeps_def intro: status_step_trans)

lemma append_control_turn_keeps:
  assumes "append_control_turn E req r s = Inr s'" and "session_ok (rt E) s" and "status s \<noteq> CANCELLED"
  shows "step_keeps (rt E) s s'"
proof (cases "result_turn r")
  case None
  then show ?thesis using assms
    by (simp add: append_control_turn_def step_keeps_def live_closed_ok)
next
  case (Some t)
  then obtain p where e: "append_event E INTERVIEWER_TURN (Some t) p (s\<lparr>turns := turns s @ [t]\<rparr>) = Inr s'"
    using assms(1) by (simp add: append_control_turn_def)
  have "session_ok (rt E) s'" by (rule append_event_keeps_turn [OF e assms(2)]) simp_all
  then show ?thesis using assms(3)
    by (simp add: step_keeps_def append_event_fields [OF e] live_closed_ok)
qed

lemma live_correction_keeps:
  assumes "live_correction E req r s = Inr s'" and "session_ok (rt E) s" and "closed_ok s"
  shows "step_keeps (rt E) s s'"
proof -
  have "s' = s \<or> (\<exists>c rv. correct_step E c s = Inr (Some s', rv))"
    using assms(1) by (auto simp: live_correction_def correct_step_def exn_simps
        split: option.splits if_splits)
  then show ?thesis using assms by (auto simp: step_keeps_def [of _ s s] intro: correct_keeps)
qed

lemma control_keeps:
  assumes "control_step E req s = Inr (Some s', r)" and "session_ok (rt E) s" and "closed_ok s"
  shows "step_keeps (rt E) s s'"
proof -
  from assms(1) obtain s1 s2 s3 p where live: "status s \<noteq> CANCELLED"
    and ctrl: "handle_candidate_control E s req = Inr (s1, r)"
    and ev: "append_event E CANDIDATE_CONTROL None p s1 = Inr s2"
    and turn: "append_control_turn E req r s2 = Inr s3" and corr: "live_correction E req r s3 = Inr s'"
    by (auto simp: control_step_def exn_simps)
  note c = control_frame [OF ctrl] and f = append_event_fields [OF ev]
  have k2: "session_ok (rt E) s2" by (rule append_event_keeps [OF ev assms(2)]) (simp_all add: c)
  have l2: "status s2 \<noteq> CANCELLED" using live by (simp add: f c)
  have "step_keeps (rt E) s s2" using k2 l2 by (simp add: step_keeps_def f c live_closed_ok)
  moreover have k3: "step_keeps (rt E) s2 s3" by (rule append_control_turn_keeps [OF turn k2 l2])
  moreover have "step_keeps (rt E) s3 s'"
    using k3 by (intro live_correction_keeps [OF corr]) (simp_all add: step_keeps_def)
  ultimately show ?thesis by (blast intro: step_keeps_trans)
qed

text \<open>Cancelling closes every pending tool.\<close>

lemma cancel_keeps:
  assumes "cancel_step E reason s = Inr (Some s', r)" and "session_ok (rt E) s"
  shows "step_keeps (rt E) s s'" and "status s' = CANCELLED" and "status s \<noteq> COMPLETED"
    and "tools s' = map cancel_tool (tools s)" and "\<not> paused s'"
    and "cancellation_reason s' = Some reason"
proof -
  from assms(1) obtain s1 p q where nc: "status s \<noteq> COMPLETED" "status s \<noteq> CANCELLED"
    and loop: "efold (\<lambda>t. append_event E TOOL_CANCELLED None (p t)) (filter is_cancellable (tools s))
        (s\<lparr>tools := map cancel_tool (tools s)\<rparr>) = Inr s1"
    and ev: "append_event E SESSION_CANCELLED None q
        (s1\<lparr>paused := False, status := CANCELLED, cancelled_at := Some (now_at E ''cancelled_at'' 0),
            cancellation_reason := Some reason\<rparr>) = Inr s'"
    by (auto simp: cancel_step_def Let_def exn_simps split: if_splits)
  have s0: "session_ok (rt E) (s\<lparr>tools := map cancel_tool (tools s)\<rparr>)"
    using assms(2) session_ok_cong [of "s\<lparr>tools := map cancel_tool (tools s)\<rparr>" s] by simp
  have ok1: "session_ok (rt E) s1" by (rule efold_append_event(2) [OF loop s0])
  have ok: "session_ok (rt E) s'" by (rule append_event_keeps [OF ev ok1]) simp_all
  obtain es where s1: "s1 = s\<lparr>tools := map cancel_tool (tools s), events := es\<rparr>"
    using efold_append_event(1) [OF loop] by simp
  show "cancellation_reason s' = Some reason" using ev by (auto simp: append_event_def exn_simps)
  note f = append_event_fields [OF ev]
  show "status s' = CANCELLED" "\<not> paused s'" "tools s' = map cancel_tool (tools s)" "status s \<noteq> COMPLETED"
    using nc by (simp_all add: f s1)
  have "closed_ok s'"
    by (auto simp: closed_ok_def f s1 cancel_tool_def is_cancellable_def)
  moreover have "status_step (status s) CANCELLED" using nc by (cases "status s") (auto simp: status_step_def)
  ultimately show "step_keeps (rt E) s s'" using ok by (simp add: step_keeps_def f s1)
qed

lemma append_tool_keeps:
  assumes "append_tool E job invo s = Inr s'" and "session_ok (rt E) s"
  shows "step_keeps (rt E) s s'"
  using append_tool_Inr [OF assms(1)] assms(2) by (simp add: step_keeps_def live_closed_ok)

lemma open_tool_keeps:
  assumes "open_tool_step E invo s job = Inr (Some s', r)" and "session_ok (rt E) s"
  shows "step_keeps (rt E) s s'"
  using assms by (auto simp: open_tool_step_def exn_simps intro: append_tool_keeps)

lemma open_coding_keeps:
  assumes "open_coding_step E req s job priv = (priv', Inr (Some s', r))" and "session_ok (rt E) s"
  shows "step_keeps (rt E) s s'"
  using assms by (auto simp: open_coding_step_def Let_def exn_simps split: sum.splits
      intro: append_tool_keeps)

section \<open>Answering\<close>

lemma record_answer_Inr:
  assumes "record_answer E t s = Inr s'" and "session_ok (rt E) s"
  shows "session_ok (rt E) s'" and "turns s' = turns s @ [t]" and "status s' = status s"
    and "paused s' = paused s" and "tools s' = tools s" and "version s' = version s"
    and "session_id s' = session_id s" and "session_job_id s' = session_job_id s"
    and "asked_questions s' = asked_questions s"
    and "asked_anchor_competencies s' = asked_anchor_competencies s"
    and "followups_by_competency s' = followups_by_competency s"
    and "covered_competencies s' = covered_competencies s"
    and "cancelled_at s' = cancelled_at s"
proof -
  obtain p where ev: "append_event E CANDIDATE_TURN (Some t) p
      (s\<lparr>turns := turns s @ [t], shared_metadata := shared_metadata s @ [turn_id t]\<rparr>) = Inr s'"
    using assms(1) by (auto simp: record_answer_def)
  show "session_ok (rt E) s'"
    by (rule append_event_keeps_turn [OF ev assms(2)]) simp_all
qed (use assms(1) append_event_fields in \<open>fastforce simp: record_answer_def\<close>)+

lemma claim_and_judge_Inr:
  assumes "claim_and_judge C E job previous t s = Inr s'" and "session_ok (rt E) s"
  shows "session_ok (rt E) s'" and "turns s' = turns s" and "status s' = status s"
    and "paused s' = paused s" and "tools s' = tools s" and "version s' = version s"
    and "session_id s' = session_id s" and "session_job_id s' = session_job_id s"
    and "asked_questions s' = asked_questions s"
    and "asked_anchor_competencies s' = asked_anchor_competencies s"
    and "followups_by_competency s' = followups_by_competency s"
    and "covered_competencies s' = covered_competencies s"
    and "cancelled_at s' = cancelled_at s"
proof -
  have "judged_from (rt E) s s'"
  proof (cases "\<exists>q. previous = Some q \<and> competency_tags q \<noteq> []")
    case False
    then have "s' = s" using assms(1) by (auto simp: claim_and_judge_def split: option.splits if_splits)
    then show ?thesis using assms(2) by (simp add: judged_from_def)
  next
    case True
    then obtain q s1 created s2 p run where claim: "record_candidate_claim E (turn_id q) (turn_id t)
        (competency_tags q) s = Inr (s1, created)"
      and loop: "efold (\<lambda>it. append_event E EVIDENCE_OBSERVED (Some t) (p it)) created s1 = Inr s2"
      and judge: "judge_candidate_evidence E (cfg_judge C) job q t False None s2 = Inr (s', run)"
      using assms(1) by (auto simp: claim_and_judge_def exn_simps)
    have s1: "s1 = s\<lparr>evidence_graph := evidence_graph s1\<rparr>"
      by (rule record_candidate_claim_frame [OF claim])
    have "evidence_ok s1" using record_candidate_claim_ok [OF claim] assms(2) by (simp add: session_ok_def)
    moreover have "audit_ok (rt E) s1" using assms(2) by (subst s1) (simp add: session_ok_def audit_ok_def)
    ultimately have "session_ok (rt E) s1" by (simp add: session_ok_def)
    then have "session_ok (rt E) s2" by (rule efold_append_event(2) [OF loop])
    moreover have "s2 = s\<lparr>evidence_graph := evidence_graph s2, events := events s2\<rparr>"
      using efold_append_event(1) [OF loop] s1 by (cases s; cases s1; cases s2) simp
    ultimately show ?thesis using judge_candidate_evidence_ok [OF judge]
      unfolding judged_from_def by (cases s; cases s'; cases s2) simp
  qed
  note f = judged_from_fields [OF this]
  show "session_ok (rt E) s'" "turns s' = turns s" "status s' = status s" "paused s' = paused s"
    "tools s' = tools s" "version s' = version s" "session_id s' = session_id s"
    "session_job_id s' = session_job_id s" "asked_questions s' = asked_questions s"
    "asked_anchor_competencies s' = asked_anchor_competencies s"
    "followups_by_competency s' = followups_by_competency s"
    "covered_competencies s' = covered_competencies s" "cancelled_at s' = cancelled_at s"
    by (simp_all add: f)
qed

lemma first_decision_Inr:
  assumes "first_decision C E job s = Inr (s', d, l)"
  shows "(next_anchor s job = Some d \<and> s' = s)
     \<or> (next_anchor s job = None \<and> fst (brain_opening (cfg_brain C) s job) = Inr d
         \<and> s' = snd (brain_opening (cfg_brain C) s job))"
  using assms by (auto simp: first_decision_def exn_simps split: option.splits prod.splits)

lemma next_decision_Inr:
  assumes "next_decision C E job s = Inr (s', d, l)"
  shows "s' = snd (after_answer (cfg_brain C) s job)"
    and "\<exists>adaptive. fst (after_answer (cfg_brain C) s job) = Inr adaptive
           \<and> d = (if decision_parent adaptive \<notin> {None, Some []} then adaptive
                  else case next_anchor s' job of Some a \<Rightarrow> a | None \<Rightarrow> adaptive)"
  using assms by (auto simp: next_decision_def Let_def exn_simps split: prod.splits if_splits)

lemma start_step_Inr:
  assumes "start_step C E s job priv = (priv', Inr (Some s', r))"
  obtains s1 s2 d l s3 t s4 invo where "status s = CREATED \<or> (status s = RUNNING \<and> turns s = [])"
    and "append_event E INTERVIEW_STARTED None [] s = Inr s1"
    and "first_decision C E job s1 = Inr (s2, d, l)" and "apply_decision E d l s2 = Inr (s3, t)"
    and "open_requested_tool E (cfg_templates C) job d (turn_id t) s3 priv = (priv', Inr (s4, invo))"
    and "s' = s4\<lparr>status := RUNNING\<rparr>"
  using assms by (cases "status s")
    (auto simp: start_step_def Let_def exn_simps split: if_splits sum.splits prod.splits)

lemma answer_turns_Inr:
  assumes "answer_turns C E text meta s job = Inr (s5, q, d)"
  obtains t s1 s2 s3 l s4 where "status s \<noteq> COMPLETED" and "status s \<noteq> CANCELLED" and "\<not> paused s"
    and "t = candidate_turn E text meta (find_last is_evaluative_question (turns s)) s"
    and "record_answer E t s = Inr s1"
    and "claim_and_judge C E job (find_last is_evaluative_question (turns s)) t s1 = Inr s2"
    and "next_decision C E job s2 = Inr (s3, d, l)" and "apply_decision E d l s3 = Inr (s4, q)"
    and "s5 = count_followup d s4"
  using assms by (auto simp: answer_turns_def Let_def exn_simps)

lemma answer_step_Inr:
  assumes "answer_step C E text meta s job priv = (priv', Inr (Some s', r))"
  obtains s5 q d s6 invo where "answer_turns C E text meta s job = Inr (s5, q, d)"
    and "open_requested_tool E (cfg_templates C) job d (turn_id q) s5 priv = (priv', Inr (s6, invo))"
    and "complete_if E d s6 = Inr s'"
  using assms by (auto simp: answer_step_def exn_simps split: sum.splits prod.splits)

lemma record_submission_keeps:
  assumes "record_submission E invo sub s = Inr (s', t)" and "session_ok (rt E) s"
  shows "session_ok (rt E) s'" and "turns s' = turns s @ [t]" and "status s' = status s"
    and "version s' = version s" and "session_id s' = session_id s"
    and "session_job_id s' = session_job_id s" and "paused s' = paused s"
    and "asked_questions s' = asked_questions s"
    and "tools s' = update_first (\<lambda>u. tool_id u = tool_id invo) (\<lambda>u. u\<lparr>tool_status := ToolSUBMITTED\<rparr>) (tools s)"
proof -
  obtain s1 p p' where ev: "append_event E TOOL_SUBMITTED None p (set_tool_status (tool_id invo) ToolSUBMITTED
         (s\<lparr>tool_submissions := tool_submissions s @ [sub]\<rparr>)) = Inr s1"
    and ev': "append_event E CANDIDATE_TURN (Some t) p' (s1\<lparr>turns := turns s1 @ [t]\<rparr>) = Inr s'"
    using assms(1) by (auto simp: record_submission_def Let_def exn_simps)
  note f = append_event_fields [OF ev'] append_event_fields [OF ev]
  have "session_ok (rt E) s1" by (rule append_event_keeps [OF ev assms(2)]) (simp_all add: set_tool_status_def)
  from append_event_keeps_turn [OF ev' this] show "session_ok (rt E) s'" by simp
  show "turns s' = turns s @ [t]" "status s' = status s" "version s' = version s"
    "session_id s' = session_id s" "session_job_id s' = session_job_id s" "paused s' = paused s"
    "asked_questions s' = asked_questions s"
    "tools s' = update_first (\<lambda>u. tool_id u = tool_id invo) (\<lambda>u. u\<lparr>tool_status := ToolSUBMITTED\<rparr>) (tools s)"
    by (simp_all add: f set_tool_status_def)
qed

text \<open>Recording the evidence of an evaluation changes the graph and the events only.\<close>

lemma observe_evaluation_keeps:
  assumes "observe_evaluation E job invo t ev s = Inr s'" and "session_ok (rt E) s"
  shows "judged_from (rt E) s s'"
proof (cases "eval_passed ev")
  case None
  then show ?thesis using assms by (simp add: observe_evaluation_def judged_from_def)
next
  case (Some passed)
  have self: "judged_from (rt E) s s" using assms(2) by (simp add: judged_from_def)
  have step: "judged_from (rt E) s u'" if "judged_from (rt E) s u"
    and "(let ob = tool_observation invo t ev passed cid
          in ebind (apply_observation E u job ob) (\<lambda>(s2, item).
             append_event E EVIDENCE_OBSERVED (Some t)
               [(''evidence_id'', JStr (ev_id item)), (''competency_id'', JStr cid),
                (''state'', JStr (evidence_state_value (obs_state ob))),
                (''confidence'', JFloat (obs_confidence ob)), (''source'', JStr (obs_source ob))] s2)) = Inr u'"
    for cid u u'
  proof -
    from that(2) obtain s2 item p where ob: "apply_observation E u job (tool_observation invo t ev passed cid)
        = Inr (s2, item)" and e: "append_event E EVIDENCE_OBSERVED (Some t) p s2 = Inr u'"
      by (auto simp: Let_def exn_simps)
    have "evidence_ok u" using that(1) by (simp add: judged_from_def session_ok_def)
    from judged_from_set_node [OF that(1) apply_observation_Inr(1) [OF ob] apply_observation_ok [OF ob this]]
    show ?thesis using e by (rule judged_from_append_event)
  qed
  show ?thesis
    by (rule efold_invariant [where P = "judged_from (rt E) s",
          OF assms(1) [unfolded observe_evaluation_def Some option.case] self step])
qed

lemma evaluate_submission_keeps:
  assumes "evaluate_submission C E job invo sub t priv s = Inr (s', ev)" and "session_ok (rt E) s"
  shows "session_ok (rt E) s'" and "turns s' = turns s" and "status s' = status s"
    and "version s' = version s" and "session_id s' = session_id s"
    and "session_job_id s' = session_job_id s" and "paused s' = paused s"
    and "asked_questions s' = asked_questions s"
    and "tools s' = update_first (\<lambda>u. tool_id u = tool_id invo) (\<lambda>u. u\<lparr>tool_status := ToolEVALUATED\<rparr>) (tools s)"
    and "evaluation_for invo sub ev"
proof -
  obtain evaluator s1 p where
    reg: "get_tool (service_tool_registry (float_repr (rt E)) (cfg_sandbox C) priv) (tool_kind invo) = Inr evaluator"
    and run: "evaluator (invo\<lparr>tool_status := ToolSUBMITTED\<rparr>) sub = Inr ev"
    and e: "append_event E TOOL_EVALUATED None p (set_tool_status (tool_id invo) ToolEVALUATED
         (s\<lparr>tool_evaluations := tool_evaluations s @ [ev]\<rparr>)) = Inr s1"
    and obs: "observe_evaluation E job invo t ev s1 = Inr s'"
    using assms(1) by (auto simp: evaluate_submission_def exn_simps)
  have "session_ok (rt E) s1" by (rule append_event_keeps [OF e assms(2)]) (simp_all add: set_tool_status_def)
  note k = judged_from_fields [OF observe_evaluation_keeps [OF obs this]] append_event_fields [OF e]
  show "session_ok (rt E) s'" "turns s' = turns s" "status s' = status s"
    "version s' = version s" "session_id s' = session_id s"
    "session_job_id s' = session_job_id s" "paused s' = paused s" "asked_questions s' = asked_questions s"
    "tools s' = update_first (\<lambda>u. tool_id u = tool_id invo) (\<lambda>u. u\<lparr>tool_status := ToolEVALUATED\<rparr>) (tools s)"
    by (simp_all add: k set_tool_status_def)
  show "evaluation_for invo sub ev"
    using service_tool_evaluate(1) [OF reg run] by (simp add: evaluation_for_def)
qed

lemma submit_turns_Inr:
  assumes "submit_turns C E tid content s job priv = Inr (s4, q, d, ev)"
  obtains invo sub s1 t s2 s3 where "status s \<noteq> COMPLETED" and "status s \<noteq> CANCELLED"
    and "find (\<lambda>t. tool_id t = tid) (tools s) = Some invo" and "tool_status invo = ToolOPEN"
    and "sub = \<lparr> sub_id = new_id E ''submission'' (length (tool_submissions s)),
                 sub_tool_id = tid, sub_content = content \<rparr>"
    and "record_submission E invo sub s = Inr (s1, t)"
    and "evaluate_submission C E job invo sub t priv s1 = Inr (s2, ev)"
    and "s3 = snd (after_tool (cfg_brain C) s2 job (invo\<lparr>tool_status := ToolEVALUATED\<rparr>) sub ev)"
    and "fst (after_tool (cfg_brain C) s2 job (invo\<lparr>tool_status := ToolEVALUATED\<rparr>) sub ev) = Inr d"
    and "apply_decision E d (measured_latency E s2) s3 = Inr (s4, q)"
  using assms by (auto simp: submit_turns_def Let_def exn_simps case_prod_beta split: option.splits)

lemma submit_tool_step_Inr:
  assumes "submit_tool_step C E tid content s job priv = (priv', Inr (Some s', r))"
  obtains s4 q d ev s5 invo where "submit_turns C E tid content s job priv = Inr (s4, q, d, ev)"
    and "open_requested_tool E (cfg_templates C) job d (turn_id q) s4 priv = (priv', Inr (s5, invo))"
    and "complete_if E d (count_followup d s5) = Inr s'"
  using assms by (auto simp: submit_tool_step_def exn_simps split: sum.splits prod.splits)

section \<open>Steps that call a brain\<close>

lemma only_covers_session_ok: "only_covers s s' \<Longrightarrow> session_ok R s' = session_ok R s"
  by (rule session_ok_cong) (simp_all add: only_covers_frame)

context interview_brain begin

lemma start_keeps:
  assumes "start_step C E s job priv = (priv', Inr (Some s', r))" and "cfg_brain C = B"
    and "session_ok (rt E) s"
  shows "step_keeps (rt E) s s'" and "status s' = RUNNING"
proof -
  from assms(1) obtain s1 s2 d l s3 t s4 invo
    where st: "status s = CREATED \<or> (status s = RUNNING \<and> turns s = [])"
    and e: "append_event E INTERVIEW_STARTED None [] s = Inr s1"
    and dec: "first_decision C E job s1 = Inr (s2, d, l)" and ap: "apply_decision E d l s2 = Inr (s3, t)"
    and op: "open_requested_tool E (cfg_templates C) job d (turn_id t) s3 priv = (priv', Inr (s4, invo))"
    and s': "s' = s4\<lparr>status := RUNNING\<rparr>"
    by (rule start_step_Inr)
  have "session_ok (rt E) s1" by (rule append_event_keeps [OF e assms(3)]) simp_all
  moreover have cov: "only_covers s1 s2"
    using first_decision_Inr [OF dec] opening_covers assms(2) by auto
  ultimately have "session_ok (rt E) s2" by (simp add: only_covers_session_ok)
  then have "session_ok (rt E) s3" by (rule apply_decision_session_ok [OF ap])
  then have "session_ok (rt E) s4" by (rule open_requested_tool_fields(12) [OF op])
  then have "session_ok (rt E) s'" using session_ok_cong [of s' s4] by (simp add: s')
  moreover have "status_step (status s) RUNNING" using st by (auto simp: status_step_def)
  ultimately show "step_keeps (rt E) s s'"
    by (simp add: step_keeps_def live_closed_ok s' open_requested_tool_fields [OF op]
        apply_decision_Inr [OF ap] only_covers_frame [OF cov] append_event_fields [OF e])
  show "status s' = RUNNING" by (simp add: s')
qed

lemma live_step:
  assumes "a \<noteq> COMPLETED" and "a \<noteq> CANCELLED"
  shows "status_step a (if c then COMPLETED else a)"
  using assms by (cases a) (auto simp: status_step_def)

text \<open>One answer: two turns more, and the question counted unless it closes the interview.\<close>

lemma answer_keeps:
  assumes "answer_step C E text meta s job priv = (priv', Inr (Some s', r))" and "cfg_brain C = B"
    and "session_ok (rt E) s"
  shows "step_keeps (rt E) s s'" and "\<not> paused s" and "paused s' = paused s"
    and "\<exists>t q. turns s' = turns s @ [t, q] \<and> speaker t = CANDIDATE \<and> turn_text t = text
           \<and> speaker q = INTERVIEWER"
    and "status s \<notin> {COMPLETED, CANCELLED}"
    and "(status s' = status s \<and> asked_questions s' = asked_questions s + 1)
         \<or> (status s' = COMPLETED \<and> asked_questions s' = asked_questions s)"
proof -
  from assms(1) obtain s5 q d s6 invo where tu: "answer_turns C E text meta s job = Inr (s5, q, d)"
    and op: "open_requested_tool E (cfg_templates C) job d (turn_id q) s5 priv = (priv', Inr (s6, invo))"
    and co: "complete_if E d s6 = Inr s'"
    by (rule answer_step_Inr)
  from tu obtain t s1 s2 s3 l s4 where live: "status s \<noteq> COMPLETED" "status s \<noteq> CANCELLED" "\<not> paused s"
    and t: "t = candidate_turn E text meta (find_last is_evaluative_question (turns s)) s"
    and re: "record_answer E t s = Inr s1"
    and cl: "claim_and_judge C E job (find_last is_evaluative_question (turns s)) t s1 = Inr s2"
    and ne: "next_decision C E job s2 = Inr (s3, d, l)" and ap: "apply_decision E d l s3 = Inr (s4, q)"
    and s5: "s5 = count_followup d s4"
    by (rule answer_turns_Inr)
  note f1 = record_answer_Inr [OF re assms(3)]
  note f2 = claim_and_judge_Inr [OF cl f1(1)]
  have cov: "only_covers s2 s3"
    using next_decision_Inr(1) [OF ne] after_answer_covers assms(2) by simp
  then have "session_ok (rt E) s3" using f2(1) by (simp add: only_covers_session_ok)
  then have "session_ok (rt E) s4" by (rule apply_decision_session_ok [OF ap])
  then have "session_ok (rt E) s6" by (intro open_requested_tool_fields(12) [OF op]) (simp add: s5)
  note ok = complete_if_Inr(12) [OF co this]
  note f = complete_if_Inr [OF co] open_requested_tool_fields [OF op] s5 apply_decision_Inr [OF ap]
    only_covers_frame [OF cov] f2 f1
  have st: "status s' = (if completes_interview d then COMPLETED else status s)" by (simp add: f)
  have "closed_ok s'" using live st by (intro live_closed_ok) simp
  then show "step_keeps (rt E) s s'" using ok live_step [OF live(1,2)] st by (simp add: step_keeps_def f)
  show "\<not> paused s" "status s \<notin> {COMPLETED, CANCELLED}" using live by simp_all
  show "paused s' = paused s" by (simp add: f)
  have "speaker q = INTERVIEWER"
    using apply_decision_event(1) [OF ap] by (simp add: decision_turn_def)
  then show "\<exists>t q. turns s' = turns s @ [t, q] \<and> speaker t = CANDIDATE \<and> turn_text t = text
           \<and> speaker q = INTERVIEWER"
    by (intro exI [of _ t] exI [of _ q]) (simp add: f t candidate_turn_def)
  show "(status s' = status s \<and> asked_questions s' = asked_questions s + 1)
         \<or> (status s' = COMPLETED \<and> asked_questions s' = asked_questions s)"
    by (simp add: f)
qed

lemma submit_keeps:
  assumes "submit_tool_step C E tid content s job priv = (priv', Inr (Some s', r))"
    and "cfg_brain C = B" and "session_ok (rt E) s"
  shows "step_keeps (rt E) s s'"
proof -
  from assms(1) obtain s4 q d ev s5 invo'
    where tu: "submit_turns C E tid content s job priv = Inr (s4, q, d, ev)"
    and op: "open_requested_tool E (cfg_templates C) job d (turn_id q) s4 priv = (priv', Inr (s5, invo'))"
    and co: "complete_if E d (count_followup d s5) = Inr s'"
    by (rule submit_tool_step_Inr)
  from tu obtain invo sub s1 t s2 s3 where live: "status s \<noteq> COMPLETED" "status s \<noteq> CANCELLED"
    and re: "record_submission E invo sub s = Inr (s1, t)"
    and ev: "evaluate_submission C E job invo sub t priv s1 = Inr (s2, ev)"
    and br: "s3 = snd (after_tool (cfg_brain C) s2 job (invo\<lparr>tool_status := ToolEVALUATED\<rparr>) sub ev)"
    and ap: "apply_decision E d (measured_latency E s2) s3 = Inr (s4, q)"
    by (rule submit_turns_Inr)
  note f1 = record_submission_keeps [OF re assms(3)]
  note f2 = evaluate_submission_keeps [OF ev f1(1)]
  have cov: "only_covers s2 s3" using after_tool_covers assms(2) by (simp add: br)
  then have "session_ok (rt E) s3" using f2(1) by (simp add: only_covers_session_ok)
  then have "session_ok (rt E) s4" by (rule apply_decision_session_ok [OF ap])
  then have "session_ok (rt E) s5" by (rule open_requested_tool_fields(12) [OF op])
  then have "session_ok (rt E) s'" by (intro complete_if_Inr(12) [OF co]) simp
  moreover have st: "status s' = (if completes_interview d then COMPLETED else status s)"
    by (simp add: complete_if_Inr [OF co] open_requested_tool_fields [OF op] apply_decision_Inr [OF ap]
        only_covers_frame [OF cov] f2 f1)
  moreover have "closed_ok s'" using live st by (intro live_closed_ok) simp
  ultimately show ?thesis using live_step [OF live]
    by (simp add: step_keeps_def complete_if_Inr [OF co] open_requested_tool_fields [OF op]
        apply_decision_Inr [OF ap] only_covers_frame [OF cov] f2 f1)
qed

end

end
