(* ===== verification/Review_Service.thy ===== *)
theory Review_Service
  imports Review Service_Steps "HOL-Library.Product_Lexorder"
begin

text \<open>
  \<^verbatim>\<open>review_service.py\<close>: the assignment of a session to a reviewer and its life cycle, the
  dashboard, the queue of sessions to review and the queue of answers to re-evaluate. The
  writing operations are steps like those of the interview service and are requests of
  \<open>Concurrency\<close>; \<open>one_active\<close> is their invariant.
\<close>

section \<open>Assignments\<close>

record assignment_request =
  asq_reviewer_id :: string
  asq_note :: "string option"

definition assignment_request_ok :: "assignment_request \<Rightarrow> bool" where
  "assignment_request_ok r = (len_between 1 256 (asq_reviewer_id r)
     \<and> opt_all (\<lambda>n. length n \<le> 5000) (asq_note r))"

definition assign_step :: "env \<Rightarrow> assignment_request \<Rightarrow> string \<Rightarrow> interview_session
    \<Rightarrow> review_assignment step" where
  "assign_step E req by s =
     (case find (\<lambda>a. active_status (asg_status a)) (review_assignments s) of
        Some a \<Rightarrow> Inl (http 409 (''Session already has an active '' @ ''review assignment '' @ asg_id a))
      | None \<Rightarrow>
          (let n = length (review_assignments s);
               a = \<lparr> asg_id = new_id E ''assignment'' n, asg_reviewer_id = asq_reviewer_id req,
                     asg_assigned_by = by, asg_status = AssignmentOPEN,
                     asg_created_at = now_at E ''assignment'' n, asg_started_at = None,
                     asg_completed_at = None, asg_cancelled_at = None, asg_note = asq_note req,
                     asg_completion_note = None, asg_cancellation_reason = None \<rparr>
           in ebind (append_event E REVIEW_ASSIGNED None
                [(''assignment_id'', JStr (asg_id a)), (''reviewer_id'', JStr (asg_reviewer_id a)),
                 (''assigned_by'', JStr (asg_assigned_by a))]
                (s\<lparr>review_assignments := review_assignments s @ [a]\<rparr>)) (\<lambda>s1. Inr (Some s1, a))))"

definition find_assignment :: "interview_session \<Rightarrow> string \<Rightarrow> review_assignment result" where
  "find_assignment s aid = (case find (\<lambda>a. asg_id a = aid) (review_assignments s) of
      None \<Rightarrow> Inl (http 404 ''Review assignment not found'') | Some a \<Rightarrow> Inr a)"

text \<open>Mutation of the assignment found, its event, and the result.\<close>

definition change_assignment :: "env \<Rightarrow> string \<Rightarrow> (review_assignment \<Rightarrow> review_assignment)
    \<Rightarrow> event_type \<Rightarrow> jdict \<Rightarrow> review_assignment \<Rightarrow> interview_session \<Rightarrow> review_assignment step" where
  "change_assignment E aid f ty payload a s =
     ebind (append_event E ty None payload
       (s\<lparr>review_assignments := update_first (\<lambda>a. asg_id a = aid) f (review_assignments s)\<rparr>))
       (\<lambda>s1. Inr (Some s1, f a))"

definition start_assignment_step :: "env \<Rightarrow> string \<Rightarrow> string \<Rightarrow> interview_session
    \<Rightarrow> review_assignment step" where
  "start_assignment_step E aid reviewer s =
     ebind (find_assignment s aid) (\<lambda>a.
     raise_if (asg_reviewer_id a \<noteq> reviewer) (http 403 ''Review assignment belongs to another reviewer'')
     (raise_if (asg_status a \<noteq> AssignmentOPEN) (http 409 ''Only open review assignments can be started'')
     (change_assignment E aid
        (\<lambda>a. a\<lparr>asg_status := AssignmentIN_REVIEW, asg_started_at := Some (now_at E ''started_at'' 0)\<rparr>)
        REVIEW_STARTED [(''assignment_id'', JStr (asg_id a)), (''reviewer_id'', JStr reviewer)] a s)))"

definition complete_assignment_step :: "env \<Rightarrow> string \<Rightarrow> string option \<Rightarrow> string \<Rightarrow> interview_session
    \<Rightarrow> review_assignment step" where
  "complete_assignment_step E aid note reviewer s =
     ebind (find_assignment s aid) (\<lambda>a.
     raise_if (asg_reviewer_id a \<noteq> reviewer) (http 403 ''Review assignment belongs to another reviewer'')
     (raise_if (asg_status a \<noteq> AssignmentIN_REVIEW)
        (http 409 ''Only in-review assignments can be completed'')
     (change_assignment E aid
        (\<lambda>a. a\<lparr>asg_status := AssignmentCOMPLETED, asg_completed_at := Some (now_at E ''completed_at'' 0),
               asg_completion_note := note\<rparr>)
        REVIEW_COMPLETED [(''assignment_id'', JStr (asg_id a)), (''reviewer_id'', JStr reviewer),
          (''note'', jopt_str note)] a s)))"

definition cancel_assignment_step :: "env \<Rightarrow> string \<Rightarrow> string option \<Rightarrow> string \<Rightarrow> interview_session
    \<Rightarrow> review_assignment step" where
  "cancel_assignment_step E aid note by s =
     ebind (find_assignment s aid) (\<lambda>a.
     raise_if (\<not> active_status (asg_status a))
        (http 409 ''Only active review assignments can be cancelled'')
     (change_assignment E aid
        (\<lambda>a. a\<lparr>asg_status := AssignmentCANCELLED, asg_cancelled_at := Some (now_at E ''cancelled_at'' 0),
               asg_cancellation_reason := note\<rparr>)
        REVIEW_ASSIGNMENT_CANCELLED [(''assignment_id'', JStr (asg_id a)),
          (''reviewer_id'', JStr (asg_reviewer_id a)), (''cancelled_by'', JStr by),
          (''reason'', jopt_str note)] a s))"

text \<open>The writing operations of the service.\<close>

datatype review_op =
    AssignReview assignment_request string
  | StartReview string string
  | CompleteReview string "string option" string
  | CancelReview string "string option" string

definition review_op_step :: "env \<Rightarrow> review_op \<Rightarrow> interview_session \<Rightarrow> review_assignment step" where
  "review_op_step E op s = (case op of
      AssignReview req by \<Rightarrow> assign_step E req by s
    | StartReview aid reviewer \<Rightarrow> start_assignment_step E aid reviewer s
    | CompleteReview aid note reviewer \<Rightarrow> complete_assignment_step E aid note reviewer s
    | CancelReview aid note by \<Rightarrow> cancel_assignment_step E aid note by s)"

text \<open>The handler: load, compute, write; a conflict has a message of its own.\<close>

definition persist_review :: "(interview_session \<Rightarrow> 'st \<Rightarrow> 'st result) \<Rightarrow> interview_session \<Rightarrow> 'st
    \<Rightarrow> 'st result" where
  "persist_review put s st =
     (case put s st of
        Inr st' \<Rightarrow> Inr st'
      | Inl (StoreConflictError m) \<Rightarrow> Inl (http 409
          (''Review state changed concurrently. '' @ ''Reload and retry the operation.''))
      | Inl e \<Rightarrow> Inl e)"

definition review_transact :: "('st \<Rightarrow> string \<Rightarrow> interview_session option)
    \<Rightarrow> ('st \<Rightarrow> string \<Rightarrow> job_spec option) \<Rightarrow> (interview_session \<Rightarrow> 'st \<Rightarrow> 'st result) \<Rightarrow> env
    \<Rightarrow> string \<Rightarrow> review_op \<Rightarrow> 'st \<Rightarrow> 'st \<times> review_assignment result" where
  "review_transact get get_job put E sid op st =
     (case get_session_and_job get get_job sid st of
        Inl e \<Rightarrow> (st, Inl e)
      | Inr (s, job) \<Rightarrow>
          (case review_op_step E op s of
             Inl e \<Rightarrow> (st, Inl e)
           | Inr (None, a) \<Rightarrow> (st, Inr a)
           | Inr (Some s', a) \<Rightarrow>
               (case persist_review put s' st of
                  Inl e \<Rightarrow> (st, Inl e)
                | Inr st' \<Rightarrow> (st', Inr a))))"

definition session_report_of :: "runtime \<Rightarrow> ('st \<Rightarrow> string \<Rightarrow> interview_session option)
    \<Rightarrow> ('st \<Rightarrow> string \<Rightarrow> job_spec option) \<Rightarrow> string \<Rightarrow> 'st \<Rightarrow> session_report result" where
  "session_report_of R get get_job sid st =
     ebind (get_session_and_job get get_job sid st) (\<lambda>(s, job). build_recruiter_report R s job)"

section \<open>The dashboard\<close>

record dashboard =
  total_sessions :: nat
  review_required :: nat
  dash_pending_appeals :: nat
  pending_integrity_signals :: nat
  dash_unresolved_tools :: nat
  stale_evidence_runs :: nat
  failed_evidence_runs :: nat
  assigned_reviews :: nat
  unassigned_review_required :: nat
  completed_sessions :: nat

definition empty_dashboard :: dashboard where
  "empty_dashboard = \<lparr> total_sessions = 0, review_required = 0, dash_pending_appeals = 0,
     pending_integrity_signals = 0, dash_unresolved_tools = 0, stale_evidence_runs = 0,
     failed_evidence_runs = 0, assigned_reviews = 0, unassigned_review_required = 0,
     completed_sessions = 0 \<rparr>"

definition count_report :: "interview_session \<Rightarrow> session_report \<Rightarrow> dashboard \<Rightarrow> dashboard" where
  "count_report s rep d =
     (let active = find (\<lambda>a. active_status (asm_status a)) (rep_assignments rep) \<noteq> None
      in d\<lparr>total_sessions := total_sessions d + 1,
           completed_sessions := completed_sessions d + (if status s = COMPLETED then 1 else 0),
           review_required := review_required d + (if rep_requires_human_review rep then 1 else 0),
           dash_pending_appeals := dash_pending_appeals d + rep_pending_appeals rep,
           pending_integrity_signals := pending_integrity_signals d + rep_integrity_signals rep,
           dash_unresolved_tools := dash_unresolved_tools d + rep_unresolved_tools rep,
           stale_evidence_runs := stale_evidence_runs d + rep_stale_runs rep,
           failed_evidence_runs := failed_evidence_runs d + rep_failed_runs rep,
           assigned_reviews := assigned_reviews d + (if active then 1 else 0),
           unassigned_review_required := unassigned_review_required d
             + (if \<not> active \<and> rep_requires_human_review rep then 1 else 0)\<rparr>)"

text \<open>The filters of the loops: another organisation, another job, or a missing job.\<close>

definition other_organization :: "string option \<Rightarrow> interview_session \<Rightarrow> bool" where
  "other_organization org s = (org \<noteq> None \<and> organization_id s \<noteq> org)"

definition other_job :: "string option \<Rightarrow> interview_session \<Rightarrow> bool" where
  "other_job jid s = (jid \<noteq> None \<and> jid \<noteq> Some (session_job_id s))"

definition review_summary :: "runtime \<Rightarrow> (string \<Rightarrow> job_spec option) \<Rightarrow> string option
    \<Rightarrow> interview_session list \<Rightarrow> dashboard result" where
  "review_summary R get_job org ss = efold (\<lambda>s d.
     if other_organization org s then Inr d
     else case get_job (session_job_id s) of
         None \<Rightarrow> Inr d
       | Some job \<Rightarrow> ebind (build_recruiter_report R s job) (\<lambda>rep. Inr (count_report s rep d)))
     ss empty_dashboard"

section \<open>The queues\<close>

record reevaluation_item =
  rei_session_id :: string
  rei_job_id :: string
  rei_candidate_ref :: string
  rei_role :: string
  rei_answer_turn_id :: string
  rei_latest_run_id :: string
  rei_judge_id :: string
  rei_stale :: bool
  rei_failed :: bool
  rei_transcript_revision_count :: int
  rei_current_revision_count :: int

text \<open>The reports of the sessions that a caller asks for.\<close>

definition selected_reports :: "runtime \<Rightarrow> (string \<Rightarrow> job_spec option) \<Rightarrow> string option \<Rightarrow> string option
    \<Rightarrow> interview_session list \<Rightarrow> (interview_session \<times> job_spec \<times> session_report) list result" where
  "selected_reports R get_job jid org ss = efold (\<lambda>s acc.
     if other_job jid s \<or> other_organization org s then Inr acc
     else case get_job (session_job_id s) of
         None \<Rightarrow> Inr acc
       | Some job \<Rightarrow> ebind (build_recruiter_report R s job) (\<lambda>rep. Inr (acc @ [(s, job, rep)])))
     ss []"

definition reevaluation_items :: "interview_session \<times> job_spec \<times> session_report
    \<Rightarrow> reevaluation_item list" where
  "reevaluation_items x = (case x of (s, job, rep) \<Rightarrow>
     map (\<lambda>run. \<lparr> rei_session_id = session_id s, rei_job_id = session_job_id s,
           rei_candidate_ref = candidate_ref s, rei_role = job_title job,
           rei_answer_turn_id = rsm_answer_turn_id run, rei_latest_run_id = rsm_id run,
           rei_judge_id = rsm_judge_id run, rei_stale = rsm_stale run, rei_failed = rsm_failed run,
           rei_transcript_revision_count = rsm_transcript_revision_count run,
           rei_current_revision_count = rsm_current_revision_count run \<rparr>)
       (filter (\<lambda>run. rsm_stale run \<or> rsm_failed run) (rep_judge_runs rep)))"

definition evidence_reevaluation_queue :: "runtime \<Rightarrow> (string \<Rightarrow> job_spec option) \<Rightarrow> string option
    \<Rightarrow> string option \<Rightarrow> interview_session list \<Rightarrow> reevaluation_item list result" where
  "evidence_reevaluation_queue R get_job jid org ss =
     ebind (selected_reports R get_job jid org ss) (\<lambda>reports.
     Inr (sort_key (\<lambda>i. (\<not> rei_failed i, \<not> rei_stale i, rei_session_id i, rei_answer_turn_id i))
       (concat (map reevaluation_items reports))))"

definition queue_key :: "queue_item \<Rightarrow> bool \<times> bool \<times> int \<times> int \<times> int \<times> int \<times> int \<times> string" where
  "queue_key i = (\<not> qi_requires_human_review i, qi_assigned_reviewer_id i \<noteq> None,
     - int (qi_failed_runs i), - int (qi_stale_runs i), - int (qi_pending_appeals i),
     - int (qi_integrity_signals i), - int (qi_unresolved_tools i), qi_session_id i)"

definition review_queue :: "runtime \<Rightarrow> (string \<Rightarrow> job_spec option) \<Rightarrow> bool \<Rightarrow> string option
    \<Rightarrow> string option \<Rightarrow> interview_session list \<Rightarrow> queue_item list result" where
  "review_queue R get_job only jid org ss =
     ebind (selected_reports R get_job jid org ss) (\<lambda>reports.
     Inr (sort_key queue_key (filter (\<lambda>i. \<not> only \<or> qi_requires_human_review i)
       (map (\<lambda>(s, job, rep). to_queue_item rep) reports))))"

section \<open>The life cycle of an assignment\<close>

definition one_active :: "interview_session \<Rightarrow> bool" where
  "one_active s \<longleftrightarrow> length (filter (\<lambda>a. active_status (asg_status a)) (review_assignments s)) \<le> 1"

inductive assignment_moves :: "review_assignment_status \<Rightarrow> review_assignment_status \<Rightarrow> bool" where
  starts: "assignment_moves AssignmentOPEN AssignmentIN_REVIEW"
| completes: "assignment_moves AssignmentIN_REVIEW AssignmentCOMPLETED"
| cancels: "active_status st \<Longrightarrow> assignment_moves st AssignmentCANCELLED"

lemma append_event_assignments:
  "append_event E ty t p s = Inr s' \<Longrightarrow> review_assignments s' = review_assignments s"
  by (drule append_event_frame) (erule ssubst, simp)

lemma find_assignment_Inr [exn_simps]:
  "find_assignment s aid = Inr a \<longleftrightarrow> find (\<lambda>a. asg_id a = aid) (review_assignments s) = Some a"
  by (auto simp: find_assignment_def split: option.splits)

lemma change_assignment_Inr:
  assumes "change_assignment E aid f ty payload a s = Inr (Some s', a')"
  shows "a' = f a" and "\<exists>p. append_event E ty None p
     (s\<lparr>review_assignments := update_first (\<lambda>a. asg_id a = aid) f (review_assignments s)\<rparr>) = Inr s'"
  using assms by (auto simp: change_assignment_def exn_simps)

text \<open>Moving one assignment does not make more of them active if it was active itself.\<close>

lemma update_first_active:
  assumes "find p xs = Some a" and "active_status (asg_status a)"
  shows "length (filter (\<lambda>a. active_status (asg_status a)) (update_first p f xs))
       \<le> length (filter (\<lambda>a. active_status (asg_status a)) xs)"
  using assms by (induction xs) (auto split: if_splits)

lemma change_assignment_one_active:
  assumes "change_assignment E aid f ty payload a s = Inr (Some s', a')" and "one_active s"
    and "find (\<lambda>a. asg_id a = aid) (review_assignments s) = Some a" and "active_status (asg_status a)"
  shows "one_active s'"
proof -
  obtain p where "append_event E ty None p
     (s\<lparr>review_assignments := update_first (\<lambda>a. asg_id a = aid) f (review_assignments s)\<rparr>) = Inr s'"
    using change_assignment_Inr(2) [OF assms(1)] by blast
  from append_event_assignments [OF this] show ?thesis
    using update_first_active [OF assms(3,4), of f] assms(2) by (simp add: one_active_def)
qed

lemma assign_step_Inr:
  assumes "assign_step E req by s = Inr (Some s', a)"
  shows "\<forall>b\<in>set (review_assignments s). \<not> active_status (asg_status b)"
    and "review_assignments s' = review_assignments s @ [a]" and "asg_status a = AssignmentOPEN"
    and "asg_reviewer_id a = asq_reviewer_id req" and "asg_assigned_by a = by"
  using assms by (auto simp: assign_step_def Let_def exn_simps find_None_iff_ball
      dest!: append_event_assignments split: option.splits)

lemma review_one_active:
  assumes "review_op_step E op s = Inr (Some s', a)" and "one_active s"
  shows "one_active s'"
proof (cases op)
  case (AssignReview req who)
  with assms have "assign_step E req who s = Inr (Some s', a)" by (simp add: review_op_step_def)
  note f = assign_step_Inr [OF this]
  have "filter (\<lambda>a. active_status (asg_status a)) (review_assignments s) = []"
    using f(1) by (simp add: filter_empty_conv)
  then show "one_active s'" by (simp add: one_active_def f(2))
qed (use assms in \<open>auto simp: review_op_step_def start_assignment_step_def complete_assignment_step_def
    cancel_assignment_step_def exn_simps active_status_def intro: change_assignment_one_active\<close>)

text \<open>What an operation does to the assignments: one more, open, when none was active; or one of
  them moved along.\<close>

definition assignment_effect :: "interview_session \<Rightarrow> interview_session \<Rightarrow> review_assignment \<Rightarrow> bool" where
  "assignment_effect s s' a \<longleftrightarrow>
     (\<forall>b\<in>set (review_assignments s). \<not> active_status (asg_status b))
       \<and> review_assignments s' = review_assignments s @ [a] \<and> asg_status a = AssignmentOPEN
   \<or> (\<exists>pre old post. review_assignments s = pre @ old # post \<and> review_assignments s' = pre @ a # post
       \<and> assignment_moves (asg_status old) (asg_status a) \<and> asg_id a = asg_id old
       \<and> asg_reviewer_id a = asg_reviewer_id old)"

lemma found_update_first:
  assumes "find p xs = Some a"
  obtains pre post where "xs = pre @ a # post" and "update_first p f xs = pre @ f a # post"
  using assms
proof (induction xs arbitrary: thesis)
  case (Cons x xs)
  show ?case
  proof (cases "p x")
    case True
    then show ?thesis using Cons.prems(1) [of "[]" xs] Cons.prems(2) by simp
  next
    case False
    with Cons.prems(2) obtain pre post where "xs = pre @ a # post" "update_first p f xs = pre @ f a # post"
      using Cons.IH by auto
    then show ?thesis using Cons.prems(1) [of "x # pre" post] False by simp
  qed
qed simp

lemma change_assignment_effect:
  assumes "change_assignment E aid f ty payload old s = Inr (Some s', a)"
    and "find (\<lambda>a. asg_id a = aid) (review_assignments s) = Some old"
    and "assignment_moves (asg_status old) (asg_status (f old))"
    and "asg_id (f old) = asg_id old" and "asg_reviewer_id (f old) = asg_reviewer_id old"
  shows "assignment_effect s s' a"
proof -
  obtain p where e: "append_event E ty None p
     (s\<lparr>review_assignments := update_first (\<lambda>a. asg_id a = aid) f (review_assignments s)\<rparr>) = Inr s'"
    using change_assignment_Inr(2) [OF assms(1)] by blast
  obtain pre post where "review_assignments s = pre @ old # post"
    and "update_first (\<lambda>a. asg_id a = aid) f (review_assignments s) = pre @ f old # post"
    using found_update_first [OF assms(2)] by blast
  then show ?thesis
    using append_event_assignments [OF e] change_assignment_Inr(1) [OF assms(1)] assms(3-5)
    unfolding assignment_effect_def by (intro disjI2) auto
qed

lemma review_op_effect:
  assumes "review_op_step E op s = Inr (Some s', a)"
  shows "assignment_effect s s' a"
proof (cases op)
  case (AssignReview req who)
  with assms have "assign_step E req who s = Inr (Some s', a)" by (simp add: review_op_step_def)
  from assign_step_Inr [OF this] show ?thesis by (simp add: assignment_effect_def)
qed (use assms in \<open>auto simp: review_op_step_def start_assignment_step_def complete_assignment_step_def
    cancel_assignment_step_def exn_simps\<close>,
    (erule change_assignment_effect; simp add: assignment_moves.intros)+)

section \<open>The review steps keep what the service keeps\<close>

lemma change_assignment_keeps:
  assumes "change_assignment E aid f ty payload a s = Inr (Some s', a')" and "session_ok (rt E) s"
    and "closed_ok s"
  shows "step_keeps (rt E) s s'"
proof -
  obtain p where e: "append_event E ty None p
     (s\<lparr>review_assignments := update_first (\<lambda>a. asg_id a = aid) f (review_assignments s)\<rparr>) = Inr s'"
    using change_assignment_Inr(2) [OF assms(1)] by blast
  show ?thesis by (rule append_event_step_keeps [OF e assms(2,3)]) simp_all
qed

lemma review_keeps:
  assumes "review_op_step E op s = Inr (Some s', a)" and "session_ok (rt E) s" and "closed_ok s"
  shows "step_keeps (rt E) s s'"
  using assms
  by (cases op)
    (auto simp: review_op_step_def assign_step_def start_assignment_step_def complete_assignment_step_def
      cancel_assignment_step_def Let_def exn_simps split: option.splits
      intro: change_assignment_keeps append_event_step_keeps [where s = s])

text \<open>No operation ends without a write.\<close>

lemma review_op_writes: "review_op_step E op s \<noteq> Inr (None, a)"
  by (cases op)
    (auto simp: review_op_step_def assign_step_def start_assignment_step_def complete_assignment_step_def
      cancel_assignment_step_def change_assignment_def Let_def exn_simps split: option.splits)

end
