(* ===== verification/Py_Bytes.thy ===== *)
theory Py_Bytes
  imports Py_Text "HOL-Library.Word"
begin

text \<open>
  Bytes as lists of 8-bit words, and what the sources use of the standard library on them:
  UTF-8, the big-endian two-byte integers, and the URL-safe alphabet of \<^verbatim>\<open>base64\<close>, whose decoder
  is the scanner of \<^verbatim>\<open>binascii.a2b_base64\<close>: it skips foreign characters and stops at a
  complete padding. Each encoder is shown to be inverted by its decoder.
\<close>

unbundle bit_operations_syntax

type_synonym bytes = "8 word list"

section \<open>UTF-8\<close>

text \<open>Strings have code points below 256, so one or two bytes; what decodes to a code point above,
  or does not decode, is \<open>None\<close>.\<close>

definition char_byte :: "char \<Rightarrow> 8 word" where
  "char_byte c = word_of_nat (of_char c)"

definition byte_char :: "8 word \<Rightarrow> char" where
  "byte_char w = char_of (unat w)"

definition utf8_char :: "char \<Rightarrow> bytes" where
  "utf8_char c = (let w = char_byte c in
     if w < 0x80 then [w] else [0xC0 OR drop_bit 6 w, 0x80 OR (w AND 0x3F)])"

definition utf8_encode :: "string \<Rightarrow> bytes" where
  "utf8_encode s = concat (map utf8_char s)"

fun utf8_decode :: "bytes \<Rightarrow> string option" where
  "utf8_decode [] = Some []"
| "utf8_decode (b # bs) =
     (if b < 0x80 then map_option ((#) (byte_char b)) (utf8_decode bs)
      else case bs of
          c # cs \<Rightarrow> if b AND 0xFE = 0xC2 \<and> c AND 0xC0 = 0x80
             then map_option ((#) (byte_char (push_bit 6 (b AND 3) OR (c AND 0x3F)))) (utf8_decode cs)
             else None
        | [] \<Rightarrow> None)"

definition is_ascii :: "string \<Rightarrow> bool" where
  "is_ascii s = list_all (\<lambda>c. char_byte c < 0x80) s"

lemma byte_char_byte [simp]: "byte_char (char_byte c) = c"
proof -
  have "unat (word_of_nat (of_char c) :: 8 word) = of_char c" by (simp add: unat_of_nat)
  then show ?thesis by (simp add: byte_char_def char_byte_def)
qed

lemma char_byte_byte [simp]: "char_byte (byte_char w) = w"
proof -
  have "unat w < 256" using unsigned_less [of w, where ?'a = nat] by simp
  then show ?thesis by (simp add: byte_char_def char_byte_def of_char_of)
qed

text \<open>The two bytes of a code point from 128 on.\<close>

lemma two_bytes:
  fixes w :: "8 word"
  assumes "\<not> w < 0x80"
  shows "\<not> (0xC0 OR drop_bit 6 w) < 0x80" and "(0xC0 OR drop_bit 6 w) AND 0xFE = 0xC2"
    and "(0x80 OR (w AND 0x3F)) AND 0xC0 = 0x80"
    and "push_bit 6 ((0xC0 OR drop_bit 6 w) AND 3) OR ((0x80 OR (w AND 0x3F)) AND 0x3F) = w"
proof -
  have all: "\<forall>n \<in> set [128..<256]. let w = (word_of_nat n :: 8 word) in
      \<not> (0xC0 OR drop_bit 6 w) < 0x80 \<and> (0xC0 OR drop_bit 6 w) AND 0xFE = 0xC2
    \<and> (0x80 OR (w AND 0x3F)) AND 0xC0 = 0x80
    \<and> push_bit 6 ((0xC0 OR drop_bit 6 w) AND 3) OR ((0x80 OR (w AND 0x3F)) AND 0x3F) = w"
    by code_simp
  have "unat w < 256" using unsigned_less [of w, where ?'a = nat] by simp
  moreover have "128 \<le> unat w" using assms by (simp add: word_less_nat_alt)
  ultimately have "unat w \<in> set [128..<256]" by (simp only: set_upt atLeastLessThan_iff)
  with all have "let w = (word_of_nat (unat w) :: 8 word) in
      \<not> (0xC0 OR drop_bit 6 w) < 0x80 \<and> (0xC0 OR drop_bit 6 w) AND 0xFE = 0xC2
    \<and> (0x80 OR (w AND 0x3F)) AND 0xC0 = 0x80
    \<and> push_bit 6 ((0xC0 OR drop_bit 6 w) AND 3) OR ((0x80 OR (w AND 0x3F)) AND 0x3F) = w" by blast
  then show "\<not> (0xC0 OR drop_bit 6 w) < 0x80" "(0xC0 OR drop_bit 6 w) AND 0xFE = 0xC2"
    "(0x80 OR (w AND 0x3F)) AND 0xC0 = 0x80"
    "push_bit 6 ((0xC0 OR drop_bit 6 w) AND 3) OR ((0x80 OR (w AND 0x3F)) AND 0x3F) = w"
    by (simp_all add: Let_def)
qed

lemma utf8_decode_encode [simp]: "utf8_decode (utf8_encode s) = Some s"
proof (induction s)
  case Nil
  then show ?case by (simp add: utf8_encode_def)
next
  case (Cons c s)
  have enc: "utf8_encode (c # s) = utf8_char c @ utf8_encode s" by (simp add: utf8_encode_def)
  show ?case
  proof (cases "char_byte c < 0x80")
    case True
    then show ?thesis using Cons.IH by (simp add: enc utf8_char_def)
  next
    case False
    then show ?thesis using Cons.IH two_bytes [OF False] by (simp add: enc utf8_char_def Let_def)
  qed
qed

text \<open>ASCII text encodes to one byte a character.\<close>

lemma utf8_encode_ascii: "is_ascii s \<Longrightarrow> utf8_encode s = map char_byte s"
  by (induction s) (simp_all add: is_ascii_def utf8_encode_def utf8_char_def)

section \<open>Two-byte integers\<close>

definition to_bytes2 :: "nat \<Rightarrow> bytes" where
  "to_bytes2 n = [word_of_nat (n div 256), word_of_nat n]"

definition from_bytes :: "bytes \<Rightarrow> nat" where
  "from_bytes bs = fold (\<lambda>b n. n * 256 + unat b) bs 0"

lemma length_to_bytes2 [simp]: "length (to_bytes2 n) = 2"
  by (simp add: to_bytes2_def)

lemma from_to_bytes2: "n < 65536 \<Longrightarrow> from_bytes (to_bytes2 n) = n"
  by (simp add: from_bytes_def to_bytes2_def unat_of_nat)

section \<open>Base64 in the URL-safe alphabet\<close>

definition b64_alphabet :: string where
  "b64_alphabet = ''ABCDEFGHIJKLMNOPQRSTUVWXYZabcdefghijklmnopqrstuvwxyz0123456789-_''"

definition b64_char :: "8 word \<Rightarrow> char" where
  "b64_char w = b64_alphabet ! unat w"

text \<open>\<^verbatim>\<open>base64.urlsafe_b64encode\<close>: three bytes at a time, the last group padded.\<close>

fun urlsafe_b64encode :: "bytes \<Rightarrow> string" where
  "urlsafe_b64encode [] = []"
| "urlsafe_b64encode [a] =
     [b64_char (drop_bit 2 a), b64_char (push_bit 4 (a AND 3)), CHR ''='', CHR ''='']"
| "urlsafe_b64encode [a, b] =
     [b64_char (drop_bit 2 a), b64_char (push_bit 4 (a AND 3) OR drop_bit 4 b),
      b64_char (push_bit 2 (b AND 15)), CHR ''='']"
| "urlsafe_b64encode (a # b # c # bs) =
     b64_char (drop_bit 2 a) # b64_char (push_bit 4 (a AND 3) OR drop_bit 4 b)
     # b64_char (push_bit 2 (b AND 15) OR drop_bit 6 c) # b64_char (c AND 63) # urlsafe_b64encode bs"

text \<open>The table of the decoder after \<^verbatim>\<open>-\<close> and \<^verbatim>\<open>_\<close> are translated: both alphabets are read.\<close>

definition b64_value :: "char \<Rightarrow> 8 word option" where
  "b64_value c = (let n = (of_char c :: nat) in
     if 65 \<le> n \<and> n \<le> 90 then Some (word_of_nat (n - 65))
     else if 97 \<le> n \<and> n \<le> 122 then Some (word_of_nat (n - 71))
     else if 48 \<le> n \<and> n \<le> 57 then Some (word_of_nat (n + 4))
     else if c = CHR ''+'' \<or> c = CHR ''-'' then Some 62
     else if c = CHR ''/'' \<or> c = CHR ''_'' then Some 63 else None)"

text \<open>The scanner: the position in the group of four, the bits left over, the padding seen.\<close>

fun a2b_base64 :: "nat \<Rightarrow> 8 word \<Rightarrow> nat \<Rightarrow> string \<Rightarrow> bytes result" where
  "a2b_base64 q left pads [] =
     (if q = 0 then Inr []
      else Inl (ValueError (if q = 1 then ''Invalid base64-encoded string'' else ''Incorrect padding'')))"
| "a2b_base64 q left pads (c # cs) =
     (if c = CHR ''='' then
        (if 2 \<le> q \<and> 4 \<le> q + pads + 1 then Inr []
         else a2b_base64 q left (if 2 \<le> q then pads + 1 else pads) cs)
      else case b64_value c of
          None \<Rightarrow> a2b_base64 q left pads cs
        | Some v \<Rightarrow>
            (if q = 0 then a2b_base64 1 v 0 cs
             else if q = 1 then ebind (a2b_base64 2 (v AND 15) 0 cs)
                    (\<lambda>bs. Inr ((push_bit 2 left OR drop_bit 4 v) # bs))
             else if q = 2 then ebind (a2b_base64 3 (v AND 3) 0 cs)
                    (\<lambda>bs. Inr ((push_bit 4 left OR drop_bit 2 v) # bs))
             else ebind (a2b_base64 0 0 0 cs) (\<lambda>bs. Inr ((push_bit 6 left OR v) # bs))))"

definition urlsafe_b64decode :: "string \<Rightarrow> bytes result" where
  "urlsafe_b64decode s =
     raise_if (\<not> is_ascii s) (ValueError ''string argument should contain only ASCII characters'')
       (a2b_base64 0 0 0 s)"

definition rstrip_char :: "char \<Rightarrow> string \<Rightarrow> string" where
  "rstrip_char c s = rev (dropWhile (\<lambda>x. x = c) (rev s))"

lemma masks: "(w :: 8 word) AND 3 = take_bit 2 w" "w AND 15 = take_bit 4 w" "w AND 63 = take_bit 6 w"
  by (simp_all add: take_bit_eq_mask mask_eq_exp_minus_1)

lemma byte_eqI:
  fixes v w :: "8 word"
  assumes "\<forall>n\<in>{0, 1, 2, 3, 4, 5, 6, 7}. bit v n \<longleftrightarrow> bit w n"
  shows "v = w"
proof (rule bit_word_eqI)
  fix n
  assume "n < LENGTH(8)"
  then have "n \<in> {0, 1, 2, 3, 4, 5, 6, 7}" by auto
  with assms show "bit v n \<longleftrightarrow> bit w n" by blast
qed

lemma sextet_iff: "(w :: 8 word) < 64 \<longleftrightarrow> drop_bit 6 w = 0"
proof -
  have "unat (drop_bit 6 w) = unat w div 64" by (simp add: drop_bit_eq_div unat_div)
  then have "drop_bit 6 w = 0 \<longleftrightarrow> unat w div 64 = 0" by (metis unat_eq_0)
  then show ?thesis by (simp add: word_less_nat_alt div_eq_0_iff)
qed

text \<open>Putting the groups of six bits together again.\<close>

lemma sextets:
  fixes a b c :: "8 word"
  shows "push_bit 2 (drop_bit 2 a) OR drop_bit 4 (push_bit 4 (a AND 3) OR drop_bit 4 b) = a"
    and "push_bit 4 ((push_bit 4 (a AND 3) OR drop_bit 4 b) AND 15)
           OR drop_bit 2 (push_bit 2 (b AND 15) OR drop_bit 6 c) = b"
    and "push_bit 6 ((push_bit 2 (b AND 15) OR drop_bit 6 c) AND 3) OR (c AND 63) = c"
    and "push_bit 2 (drop_bit 2 a) OR drop_bit 4 (push_bit 4 (a AND 3)) = a"
    and "push_bit 4 ((push_bit 4 (a AND 3) OR drop_bit 4 b) AND 15) OR drop_bit 2 (push_bit 2 (b AND 15)) = b"
  unfolding masks by (rule byte_eqI; simp add: bit_simps; simp add: numeral_eq_Suc)+

lemma sextet_bounds:
  fixes a b c :: "8 word"
  shows "drop_bit 2 a < 64" and "push_bit 4 (a AND 3) < 64"
    and "push_bit 4 (a AND 3) OR drop_bit 4 b < 64" and "push_bit 2 (b AND 15) < 64"
    and "push_bit 2 (b AND 15) OR drop_bit 6 c < 64" and "c AND 63 < 64"
  unfolding sextet_iff masks by (rule byte_eqI; simp add: bit_simps; simp add: numeral_eq_Suc)+

lemma b64_table:
  "length b64_alphabet = 64"
  "map b64_value b64_alphabet = map (\<lambda>n. Some (word_of_nat n)) [0..<64]"
  "list_all (\<lambda>c. c \<noteq> CHR ''='' \<and> c \<noteq> CHR ''.'' \<and> char_byte c < 0x80) b64_alphabet"
  by code_simp+

lemma b64_value_char:
  assumes "w < 64"
  shows "b64_value (b64_char w) = Some w" and "b64_char w \<noteq> CHR ''=''" and "char_byte (b64_char w) < 0x80"
    and "b64_char w \<noteq> CHR ''.''"
proof -
  have n: "unat w < 64" using assms by (simp add: word_less_nat_alt)
  have "map b64_value b64_alphabet ! unat w = map (\<lambda>n. Some (word_of_nat n)) [0..<64] ! unat w"
    by (simp only: b64_table(2))
  with n show "b64_value (b64_char w) = Some w" by (simp add: b64_char_def b64_table(1))
  show "b64_char w \<noteq> CHR ''=''" "char_byte (b64_char w) < 0x80" "b64_char w \<noteq> CHR ''.''"
    using b64_table(3) n by (simp_all add: b64_char_def b64_table(1) list_all_length)
qed

lemmas b64_chars = b64_value_char [OF sextet_bounds(1)] b64_value_char [OF sextet_bounds(2)]
  b64_value_char [OF sextet_bounds(3)] b64_value_char [OF sextet_bounds(4)]
  b64_value_char [OF sextet_bounds(5)] b64_value_char [OF sextet_bounds(6)]

lemmas b64_not = b64_chars(2,4,6,8,10,12,14,16,18,20,22,24) [THEN not_sym]

lemma a2b_urlsafe_b64encode: "a2b_base64 0 0 0 (urlsafe_b64encode bs) = Inr bs"
  by (induction bs rule: urlsafe_b64encode.induct) (simp_all add: b64_chars sextets del: push_bit_and)

lemma char_byte_eq: "char_byte (CHR ''='') = 0x3D"
  by (simp add: char_byte_def)

lemma ascii_urlsafe_b64encode: "is_ascii (urlsafe_b64encode bs)"
  by (induction bs rule: urlsafe_b64encode.induct)
    (simp_all add: b64_chars is_ascii_def char_byte_eq del: push_bit_and)

text \<open>The text without its padding, and the padding that its length calls for.\<close>

definition b64url :: "bytes \<Rightarrow> string" where
  "b64url bs = rstrip_char (CHR ''='') (urlsafe_b64encode bs)"

definition b64url_decode :: "string \<Rightarrow> bytes result" where
  "b64url_decode s = urlsafe_b64decode (s @ replicate (nat ((- int (length s)) mod 4)) (CHR ''=''))"

lemma rstrip_char_append:
  assumes "t = [] \<or> last t \<noteq> c"
  shows "rstrip_char c (t @ replicate n c) = t"
proof -
  have "dropWhile (\<lambda>x. x = c) (rev t) = rev t"
    using assms by (cases t rule: rev_cases) auto
  then have "dropWhile (\<lambda>x. x = c) (replicate n c @ rev t) = rev t"
    by (induction n) simp_all
  then show ?thesis by (simp add: rstrip_char_def)
qed

lemma replicate_two: "replicate 2 x = [x, x]"
  by (simp add: numeral_2_eq_2)

lemma dvd_four: "4 dvd Suc (Suc (Suc (Suc n))) \<longleftrightarrow> 4 dvd n"
  by presburger

text \<open>Text, padding, and the length of the text.\<close>

lemma urlsafe_b64encode_split:
  "\<exists>t n. urlsafe_b64encode bs = t @ replicate n (CHR ''='') \<and> n < 4 \<and> 4 dvd length t + n
     \<and> CHR ''='' \<notin> set t \<and> CHR ''.'' \<notin> set t \<and> is_ascii t \<and> (bs \<noteq> [] \<longrightarrow> t \<noteq> [])"
proof (induction bs rule: urlsafe_b64encode.induct)
  case (2 a)
  then show ?case
    by (intro exI [of _ "[b64_char (drop_bit 2 a), b64_char (push_bit 4 (a AND 3))]"] exI [of _ 2])
      (simp add: b64_chars b64_not is_ascii_def replicate_two dvd_four del: push_bit_and)
next
  case (3 a b)
  show ?case
    by (intro exI [of _ "[b64_char (drop_bit 2 a), b64_char (push_bit 4 (a AND 3) OR drop_bit 4 b),
        b64_char (push_bit 2 (b AND 15))]"] exI [of _ 1])
      (simp add: b64_chars b64_not is_ascii_def replicate_two dvd_four del: push_bit_and)
next
  case (4 a b c bs)
  then obtain t n where "urlsafe_b64encode bs = t @ replicate n (CHR ''='')" "n < 4" "4 dvd length t + n"
    "CHR ''='' \<notin> set t" "CHR ''.'' \<notin> set t" "is_ascii t" by blast
  then show ?case
    by (intro exI [of _ "b64_char (drop_bit 2 a) # b64_char (push_bit 4 (a AND 3) OR drop_bit 4 b)
     # b64_char (push_bit 2 (b AND 15) OR drop_bit 6 c) # b64_char (c AND 63) # t"] exI [of _ n])
      (simp add: b64_chars b64_not is_ascii_def dvd_four del: push_bit_and)
qed (simp add: is_ascii_def)

text \<open>What \<open>b64url\<close> writes.\<close>

lemma b64url_props:
  obtains t n where "b64url bs = t" and "urlsafe_b64encode bs = t @ replicate n (CHR ''='')" and "n < 4"
    and "4 dvd length t + n" and "CHR ''.'' \<notin> set t" and "is_ascii t" and "bs \<noteq> [] \<Longrightarrow> t \<noteq> []"
proof -
  obtain t n where f: "urlsafe_b64encode bs = t @ replicate n (CHR ''='')" "n < 4" "4 dvd length t + n"
     "CHR ''='' \<notin> set t" "CHR ''.'' \<notin> set t" "is_ascii t" "bs \<noteq> [] \<longrightarrow> t \<noteq> []"
    using urlsafe_b64encode_split by blast
  have "t = [] \<or> last t \<noteq> CHR ''=''" using f(4) by (metis last_in_set)
  then have "b64url bs = t" by (simp add: b64url_def f(1) rstrip_char_append)
  with f that show thesis by blast
qed

lemma b64url_decode_b64url [simp]: "b64url_decode (b64url bs) = Inr bs"
proof -
  obtain t n where t: "b64url bs = t" and e: "urlsafe_b64encode bs = t @ replicate n (CHR ''='')"
    and n: "n < 4" and d: "4 dvd length t + n"
    by (rule b64url_props [of bs])
  have "nat ((- int (length t)) mod 4) = n"
  proof -
    from d obtain k where "length t + n = 4 * k" ..
    then have "(- int (length t)) mod 4 = int n" using n by presburger
    then show ?thesis by simp
  qed
  then have "b64url_decode (b64url bs) = urlsafe_b64decode (urlsafe_b64encode bs)"
    by (simp add: b64url_decode_def t e)
  then show ?thesis
    by (simp add: urlsafe_b64decode_def ascii_urlsafe_b64encode a2b_urlsafe_b64encode raise_if_def)
qed

lemma b64url_nonempty: "bs \<noteq> [] \<Longrightarrow> b64url bs \<noteq> []"
  by (rule b64url_props [of bs]) simp

lemma b64url_no_dot: "CHR ''.'' \<notin> set (b64url bs)"
  by (rule b64url_props [of bs]) simp

lemma b64url_ascii: "is_ascii (b64url bs)"
  by (rule b64url_props [of bs]) simp

end
