(* ===== verification/Artifact_Storage.thy ===== *)
theory Artifact_Storage
  imports Py_Bytes Models
begin

text \<open>
  \<^verbatim>\<open>artifact_storage.py\<close> and \<^verbatim>\<open>s3_artifact_storage.py\<close>: the object stores that hold the bytes of
  artifacts. The contract of an object store is the locale \<open>object_store\<close>; the encrypted
  local store provides it, with AES-GCM and the digest of a key as parameters of which the
  laws of authenticated encryption are assumed.
\<close>

section \<open>Object stores\<close>

definition ArtifactStorageError :: "string \<Rightarrow> exn" where
  "ArtifactStorageError m = OtherError ''ArtifactStorageError'' m"

definition ArtifactStorageUnavailableError :: "string \<Rightarrow> exn" where
  "ArtifactStorageUnavailableError m = OtherError ''ArtifactStorageUnavailableError'' m"

definition ArtifactNotFoundError :: "string \<Rightarrow> exn" where
  "ArtifactNotFoundError m = OtherError ''ArtifactNotFoundError'' m"

text \<open>\<^verbatim>\<open>except ArtifactStorageError\<close> catches the class and its two subclasses.\<close>

definition is_storage_error :: "exn \<Rightarrow> bool" where
  "is_storage_error e = (exn_name e \<in> {''ArtifactStorageError'', ''ArtifactStorageUnavailableError'',
     ''ArtifactNotFoundError''})"

record 'o object_backend =
  backend_id :: string
  object_put :: "string \<Rightarrow> bytes \<Rightarrow> string \<Rightarrow> 'o \<Rightarrow> 'o \<times> unit result"
  object_get :: "string \<Rightarrow> 'o \<Rightarrow> bytes result"
  object_delete :: "string \<Rightarrow> 'o \<Rightarrow> 'o \<times> unit result"

definition disabled_backend :: "'o object_backend" where
  "disabled_backend = \<lparr> backend_id = ''disabled'',
     object_put = (\<lambda>_ _ _ ob. (ob, Inl (ArtifactStorageUnavailableError ''Artifact storage is disabled''))),
     object_get = (\<lambda>_ _. Inl (ArtifactStorageUnavailableError ''Artifact storage is disabled'')),
     object_delete = (\<lambda>_ ob. (ob, Inl (ArtifactStorageUnavailableError ''Artifact storage is disabled''))) \<rparr>"

section \<open>The encrypted local store\<close>

text \<open>AES-GCM under the deployment's key, the random nonce of a write, and the file of a key.\<close>

record vault =
  seal_bytes :: "bytes \<Rightarrow> bytes \<Rightarrow> bytes \<Rightarrow> bytes"
  open_bytes :: "bytes \<Rightarrow> bytes \<Rightarrow> bytes \<Rightarrow> bytes option"
  fresh_nonce :: "string \<Rightarrow> bytes \<Rightarrow> bytes"
  key_digest :: "bytes \<Rightarrow> string"

definition local_store_init :: "bytes \<Rightarrow> string \<Rightarrow> string result" where
  "local_store_init key key_id =
     raise_if (length key \<noteq> 32) (ValueError ''artifact encryption key must be exactly 32 bytes'')
     (raise_if (strip key_id = []) (ValueError ''artifact encryption key id is required'')
     (Inr (strip key_id)))"

definition envelope_magic :: bytes where
  "envelope_magic = map char_byte ''NORAOBJ1''"

definition nonce_size :: nat where
  "nonce_size = 12"

definition associated_data :: "string \<Rightarrow> string \<Rightarrow> bytes" where
  "associated_data key content_type =
     utf8_encode (''nora-artifact-v1'' @ [CHR 0x0A] @ key @ [CHR 0x0A] @ content_type)"

definition path_for :: "vault \<Rightarrow> string \<Rightarrow> string \<times> string" where
  "path_for V key = (let digest = key_digest V (utf8_encode key) in (take 2 digest, drop 2 digest))"

text \<open>The envelope of a ciphertext: the magic, the length of the content type in two bytes, the
  content type, the nonce and the ciphertext.\<close>

definition envelope :: "bytes \<Rightarrow> bytes \<Rightarrow> bytes \<Rightarrow> bytes" where
  "envelope content_type nonce ciphertext =
     envelope_magic @ to_bytes2 (length content_type) @ content_type @ nonce @ ciphertext"

definition parse_envelope :: "bytes \<Rightarrow> (bytes \<times> bytes \<times> bytes) result" where
  "parse_envelope payload =
     (let minimum = length envelope_magic + 2 + nonce_size + 16
      in raise_if (length payload < minimum \<or> take (length envelope_magic) payload \<noteq> envelope_magic)
           (ArtifactStorageError ''Artifact ciphertext envelope is invalid'')
        (let cursor = length envelope_magic;
             content_type_size = from_bytes (take 2 (drop cursor payload));
             cursor = cursor + 2;
             content_type_end = cursor + content_type_size;
             nonce_end = content_type_end + nonce_size
         in raise_if (length payload < nonce_end + 16)
              (ArtifactStorageError ''Artifact ciphertext envelope is truncated'')
           (Inr (take (content_type_end - cursor) (drop cursor payload),
                 take (nonce_end - content_type_end) (drop content_type_end payload),
                 drop nonce_end payload))))"

type_synonym files = "(string \<times> string, bytes) dict"

definition local_put :: "vault \<Rightarrow> string \<Rightarrow> bytes \<Rightarrow> string \<Rightarrow> files \<Rightarrow> files \<times> unit result" where
  "local_put V key data content_type fs =
     (let path = path_for V key; nonce = fresh_nonce V key data;
          ciphertext = seal_bytes V nonce data (associated_data key content_type);
          content_type_bytes = utf8_encode content_type
      in if 65535 < length content_type_bytes
         then (fs, Inl (ValueError ''artifact content type is too long''))
         else (dict_set path (envelope content_type_bytes nonce ciphertext) fs, Inr ()))"

text \<open>A content type that is not UTF-8 raises \<^verbatim>\<open>UnicodeDecodeError\<close>, a \<^verbatim>\<open>ValueError\<close>.\<close>

definition local_get :: "vault \<Rightarrow> string \<Rightarrow> files \<Rightarrow> bytes result" where
  "local_get V key fs =
     (case dict_get fs (path_for V key) of
        None \<Rightarrow> Inl (ArtifactNotFoundError (''Artifact object '' @ repr_str key @ '' was not found''))
      | Some payload \<Rightarrow>
          ebind (parse_envelope payload) (\<lambda>(content_type_bytes, nonce, ciphertext).
          case utf8_decode content_type_bytes of
            None \<Rightarrow> Inl (ValueError ''UnicodeDecodeError'')
          | Some content_type \<Rightarrow>
              (case open_bytes V nonce ciphertext (associated_data key content_type) of
                 Some data \<Rightarrow> Inr data
               | None \<Rightarrow> Inl (ArtifactStorageError ''Artifact ciphertext authentication failed''))))"

definition local_delete :: "vault \<Rightarrow> string \<Rightarrow> files \<Rightarrow> files \<times> unit result" where
  "local_delete V key fs = (dict_del (path_for V key) fs, Inr ())"

definition local_backend :: "vault \<Rightarrow> files object_backend" where
  "local_backend V = \<lparr> backend_id = ''encrypted-local'', object_put = local_put V,
     object_get = local_get V, object_delete = local_delete V \<rparr>"

section \<open>The S3 store\<close>

text \<open>The bucket behind the client library: a call fails with an error code (the client's
  \<^verbatim>\<open>ClientError\<close>) or without one (\<^verbatim>\<open>BotoCoreError\<close>); the body of a response may be missing or fail
  to be read.\<close>

datatype s3_failure = ClientError string | BotoCoreError

record s3_put_call =
  put_bucket :: string
  put_key :: string
  put_body :: bytes
  put_content_type :: string
  put_encryption :: string
  put_kms_key :: "string option"

record 'o s3_client =
  put_object :: "s3_put_call \<Rightarrow> 'o \<Rightarrow> s3_failure + 'o"
  get_object :: "string \<Rightarrow> string \<Rightarrow> 'o \<Rightarrow> s3_failure + (unit + bytes) option"
  delete_object :: "string \<Rightarrow> string \<Rightarrow> 'o \<Rightarrow> s3_failure + 'o"

record s3_config =
  s3_bucket :: string
  s3_prefix :: string
  s3_region :: "string option"
  s3_endpoint_url :: "string option"
  s3_sse_mode :: string
  s3_kms_key_id :: "string option"

definition lstrip_char :: "char \<Rightarrow> string \<Rightarrow> string" where
  "lstrip_char c s = dropWhile (\<lambda>x. x = c) s"

definition strip_char :: "char \<Rightarrow> string \<Rightarrow> string" where
  "strip_char c s = rstrip_char c (lstrip_char c s)"

text \<open>\<^verbatim>\<open>f(x) if x else None\<close> on an optional string.\<close>

definition if_text :: "(string \<Rightarrow> string) \<Rightarrow> string option \<Rightarrow> string option" where
  "if_text f x = (case x of None \<Rightarrow> None | Some v \<Rightarrow> if v = [] then None else Some (f v))"

definition s3_init :: "s3_config \<Rightarrow> s3_config result" where
  "s3_init c =
     (let bucket = strip (s3_bucket c); sse = strip (s3_sse_mode c)
      in raise_if (bucket = []) (ValueError ''S3 artifact bucket is required'')
        (raise_if (sse \<notin> {''AES256'', ''aws:kms''})
          (ValueError ''S3 artifact SSE mode must be AES256 or aws:kms'')
        (raise_if (sse = ''aws:kms''
            \<and> \<not> (case s3_kms_key_id c of None \<Rightarrow> False | Some k \<Rightarrow> k \<noteq> [] \<and> strip k \<noteq> []))
          (ValueError ''S3 artifact KMS key id is required for aws:kms'')
        (Inr \<lparr> s3_bucket = bucket, s3_prefix = strip_char (CHR ''/'') (strip (s3_prefix c)),
               s3_region = if_text strip (s3_region c),
               s3_endpoint_url = if_text (\<lambda>u. rstrip_char (CHR ''/'') (strip u)) (s3_endpoint_url c),
               s3_sse_mode = sse, s3_kms_key_id = if_text strip (s3_kms_key_id c) \<rparr>))))"

definition s3_object_key :: "s3_config \<Rightarrow> string \<Rightarrow> string result" where
  "s3_object_key c key =
     (let normalized = lstrip_char (CHR ''/'') key
      in raise_if (normalized = []) (ValueError ''artifact object key is required'')
        (Inr (if s3_prefix c \<noteq> [] then s3_prefix c @ ''/'' @ normalized else normalized)))"

definition s3_put :: "s3_config \<Rightarrow> 'o s3_client \<Rightarrow> string \<Rightarrow> bytes \<Rightarrow> string \<Rightarrow> 'o \<Rightarrow> 'o \<times> unit result" where
  "s3_put c client key data content_type ob =
     (case s3_object_key c key of
        Inl e \<Rightarrow> (ob, Inl e)
      | Inr k \<Rightarrow>
          (case put_object client \<lparr> put_bucket = s3_bucket c, put_key = k, put_body = data,
               put_content_type = content_type, put_encryption = s3_sse_mode c,
               put_kms_key = (if s3_sse_mode c = ''aws:kms'' then s3_kms_key_id c else None) \<rparr> ob of
             Inr ob' \<Rightarrow> (ob', Inr ())
           | Inl _ \<Rightarrow> (ob, Inl (ArtifactStorageUnavailableError ''S3 artifact write failed''))))"

definition s3_get :: "s3_config \<Rightarrow> 'o s3_client \<Rightarrow> string \<Rightarrow> 'o \<Rightarrow> bytes result" where
  "s3_get c client key ob =
     ebind (s3_object_key c key) (\<lambda>k.
     case get_object client (s3_bucket c) k ob of
       Inl (ClientError code) \<Rightarrow>
         (if code \<in> {''NoSuchKey'', ''404'', ''NotFound''}
          then Inl (ArtifactNotFoundError (''Artifact object '' @ repr_str key @ '' was not found''))
          else Inl (ArtifactStorageUnavailableError ''S3 artifact read failed''))
     | Inl BotoCoreError \<Rightarrow> Inl (ArtifactStorageUnavailableError ''S3 artifact read failed'')
     | Inr None \<Rightarrow> Inl (ArtifactStorageError ''S3 artifact response did not contain a body'')
     | Inr (Some (Inl _)) \<Rightarrow> Inl (ArtifactStorageUnavailableError ''S3 artifact body read failed'')
     | Inr (Some (Inr data)) \<Rightarrow> Inr data)"

definition s3_delete :: "s3_config \<Rightarrow> 'o s3_client \<Rightarrow> string \<Rightarrow> 'o \<Rightarrow> 'o \<times> unit result" where
  "s3_delete c client key ob =
     (case s3_object_key c key of
        Inl e \<Rightarrow> (ob, Inl e)
      | Inr k \<Rightarrow>
          (case delete_object client (s3_bucket c) k ob of
             Inr ob' \<Rightarrow> (ob', Inr ())
           | Inl _ \<Rightarrow> (ob, Inl (ArtifactStorageUnavailableError ''S3 artifact deletion failed''))))"

definition s3_backend :: "s3_config \<Rightarrow> 'o s3_client \<Rightarrow> 'o object_backend" where
  "s3_backend c client = \<lparr> backend_id = ''s3'', object_put = s3_put c client,
     object_get = s3_get c client, object_delete = s3_delete c client \<rparr>"

section \<open>Envelopes\<close>

lemma length_magic [simp]: "length envelope_magic = 8"
  by (simp add: envelope_magic_def)

lemma to_from_bytes2: "length bs = 2 \<Longrightarrow> to_bytes2 (from_bytes bs) = bs"
proof -
  assume "length bs = 2"
  then obtain x y where bs: "bs = [x, y]" by (auto simp: length_Suc_conv numeral_2_eq_2)
  have "unat y < 256" using unsigned_less [of y, where ?'a = nat] by simp
  then have "(unat x * 256 + unat y) div 256 = unat x" by simp
  moreover have "(word_of_nat (unat x * 256 + unat y) :: 8 word) = y"
  proof (rule unsigned_word_eqI)
    show "unat (word_of_nat (unat x * 256 + unat y) :: 8 word) = unat y"
      unfolding unat_of_nat using \<open>unat y < 256\<close> by simp
  qed
  ultimately show ?thesis by (simp add: bs to_bytes2_def from_bytes_def)
qed

lemma from_bytes2_bound: "length bs = 2 \<Longrightarrow> from_bytes bs < 65536"
proof -
  assume "length bs = 2"
  then obtain x y where bs: "bs = [x, y]" by (auto simp: length_Suc_conv numeral_2_eq_2)
  have "unat y < 256" "unat x < 256"
    using unsigned_less [of y, where ?'a = nat] unsigned_less [of x, where ?'a = nat] by simp_all
  then show ?thesis by (simp add: bs from_bytes_def)
qed

text \<open>Reading an envelope succeeds on exactly the envelopes, and gives their parts.\<close>

lemma parse_envelope_iff:
  "parse_envelope p = Inr (t, n, c) \<longleftrightarrow>
     p = envelope t n c \<and> length t < 65536 \<and> length n = nonce_size \<and> 16 \<le> length c"
proof
  assume p: "parse_envelope p = Inr (t, n, c)"
  let ?k = "from_bytes (take 2 (drop 8 p))"
  have len: "8 + 2 + ?k + 12 + 16 \<le> length p" and magic: "take 8 p = envelope_magic"
    and t: "t = take ?k (drop 10 p)" and n: "n = take 12 (drop (10 + ?k) p)" and c: "c = drop (10 + ?k + 12) p"
    using p by (auto simp: parse_envelope_def Let_def exn_simps nonce_size_def)
  have two: "length (take 2 (drop 8 p)) = 2" using len by simp
  have d: "drop 8 p = take 2 (drop 8 p) @ drop 10 p" "drop 10 p = take ?k (drop 10 p) @ drop (10 + ?k) p"
    "drop (10 + ?k) p = take 12 (drop (10 + ?k) p) @ drop (10 + ?k + 12) p"
    using append_take_drop_id [of 2 "drop 8 p"] append_take_drop_id [of ?k "drop 10 p"]
      append_take_drop_id [of 12 "drop (10 + ?k) p"] by (simp_all add: drop_drop add.commute)
  have "p = take 8 p @ drop 8 p" by simp
  also have "drop 8 p = take 2 (drop 8 p) @ t @ n @ c"
    using d unfolding t n c by argo
  finally have "p = envelope_magic @ take 2 (drop 8 p) @ t @ n @ c" by (simp only: magic)
  moreover have "length t = ?k" using len by (simp add: t)
  moreover have "length n = 12" "16 \<le> length c" using len by (simp_all add: n c)
  ultimately show "p = envelope t n c \<and> length t < 65536 \<and> length n = nonce_size \<and> 16 \<le> length c"
    using from_bytes2_bound [OF two] by (simp add: envelope_def to_from_bytes2 [OF two] nonce_size_def)
next
  assume "p = envelope t n c \<and> length t < 65536 \<and> length n = nonce_size \<and> 16 \<le> length c"
  moreover have "take 2 (to_bytes2 k @ xs) = to_bytes2 k" for k xs by simp
  ultimately show "parse_envelope p = Inr (t, n, c)"
    by (simp add: parse_envelope_def envelope_def Let_def raise_if_def from_to_bytes2 nonce_size_def)
qed

section \<open>The contract\<close>

text \<open>What the artifact service relies on, in a world in which \<open>works\<close> holds: an object that was
  written is read, a deleted one is not, other objects stay as they are, and a failed
  operation changes nothing.\<close>

locale object_store =
  fixes B :: "'o object_backend" and works :: bool and apart :: "string \<Rightarrow> string \<Rightarrow> bool"
  assumes object_read: "works \<Longrightarrow> object_put B k d ct ob = (ob', Inr ()) \<Longrightarrow> object_get B k ob' = Inr d"
    and object_put_apart: "works \<Longrightarrow> object_put B k d ct ob = (ob', r) \<Longrightarrow> apart k k'
          \<Longrightarrow> object_get B k' ob' = object_get B k' ob"
    and object_put_failed: "object_put B k d ct ob = (ob', Inl e) \<Longrightarrow> ob' = ob"
    and object_gone: "works \<Longrightarrow> object_delete B k ob = (ob', Inr ())
          \<Longrightarrow> \<exists>e. object_get B k ob' = Inl e \<and> is_storage_error e"
    and object_delete_apart: "works \<Longrightarrow> object_delete B k ob = (ob', r) \<Longrightarrow> apart k k'
          \<Longrightarrow> object_get B k' ob' = object_get B k' ob"
    and object_delete_failed: "object_delete B k ob = (ob', Inl e) \<Longrightarrow> ob' = ob"

text \<open>The laws of authenticated encryption, and the size of a nonce and of the tag.\<close>

definition vault_ok :: "vault \<Rightarrow> bool" where
  "vault_ok V \<longleftrightarrow> (\<forall>n d a. open_bytes V n (seal_bytes V n d a) a = Some d \<and> 16 \<le> length (seal_bytes V n d a))
     \<and> (\<forall>k d. length (fresh_nonce V k d) = nonce_size)"

lemma parse_envelope_envelope:
  "length t < 65536 \<Longrightarrow> length n = nonce_size \<Longrightarrow> 16 \<le> length c \<Longrightarrow>
     parse_envelope (envelope t n c) = Inr (t, n, c)"
  by (simp add: parse_envelope_iff)

interpretation local_objects: object_store "local_backend V" "vault_ok V" "\<lambda>k k'. path_for V k \<noteq> path_for V k'"
  for V
proof (unfold_locales, goal_cases)
  case (1 k d ct ob ob')
  then show ?case
    by (auto simp: local_backend_def local_put_def local_get_def Let_def parse_envelope_envelope vault_ok_def
        split: if_splits)
next
  case (4 k ob ob')
  then show ?case
    by (auto simp: local_backend_def local_delete_def local_get_def is_storage_error_def
        ArtifactNotFoundError_def)
qed (auto simp: local_backend_def local_put_def local_get_def local_delete_def Let_def split: if_splits)

text \<open>The documented behaviour of a bucket.\<close>

definition bucket_ok :: "'o s3_client \<Rightarrow> bool" where
  "bucket_ok client \<longleftrightarrow>
     (\<forall>call ob ob'. put_object client call ob = Inr ob' \<longrightarrow>
        get_object client (put_bucket call) (put_key call) ob' = Inr (Some (Inr (put_body call)))
        \<and> (\<forall>k. k \<noteq> put_key call \<longrightarrow>
             get_object client (put_bucket call) k ob' = get_object client (put_bucket call) k ob))
   \<and> (\<forall>b k ob ob'. delete_object client b k ob = Inr ob' \<longrightarrow>
        get_object client b k ob' = Inl (ClientError ''NoSuchKey'')
        \<and> (\<forall>k'. k' \<noteq> k \<longrightarrow> get_object client b k' ob' = get_object client b k' ob))"

lemma bucket_okD:
  assumes "bucket_ok client"
  shows "put_object client call ob = Inr ob' \<Longrightarrow> get_object client (put_bucket call) k ob'
       = (if k = put_key call then Inr (Some (Inr (put_body call))) else get_object client (put_bucket call) k ob)"
    and "delete_object client b k' ob = Inr ob' \<Longrightarrow> get_object client b k ob'
       = (if k = k' then Inl (ClientError ''NoSuchKey'') else get_object client b k ob)"
  using assms by (auto simp: bucket_ok_def)

lemma s3_put_Inr: "s3_put c client key d ct ob = (ob', Inr ()) \<Longrightarrow> \<exists>call. put_object client call ob = Inr ob'
    \<and> s3_object_key c key = Inr (put_key call) \<and> put_bucket call = s3_bucket c \<and> put_body call = d"
  by (auto simp: s3_put_def split: sum.splits)

lemma s3_put_Inl: "s3_put c client key d ct ob = (ob', Inl e) \<Longrightarrow> ob' = ob"
  by (auto simp: s3_put_def split: sum.splits)

lemma s3_delete_Inr: "s3_delete c client key ob = (ob', Inr ()) \<Longrightarrow> \<exists>k. delete_object client (s3_bucket c) k ob
    = Inr ob' \<and> s3_object_key c key = Inr k"
  by (auto simp: s3_delete_def split: sum.splits)

lemma s3_delete_Inl: "s3_delete c client key ob = (ob', Inl e) \<Longrightarrow> ob' = ob"
  by (auto simp: s3_delete_def split: sum.splits)

interpretation s3_objects: object_store "s3_backend c client" "bucket_ok client"
    "\<lambda>k k'. s3_object_key c k \<noteq> s3_object_key c k'" for c and client :: "'o s3_client"
proof (unfold_locales, goal_cases)
  case (1 k d ct ob ob')
  then obtain call where put: "put_object client call ob = Inr ob'" and call: "s3_object_key c k = Inr (put_key call)"
      "put_bucket call = s3_bucket c" "put_body call = d"
    using s3_put_Inr [of c client k d ct ob ob'] by (auto simp: s3_backend_def)
  from bucket_okD(1) [OF 1(1) put, of "put_key call"] show ?case
    by (simp add: s3_backend_def s3_get_def call)
next
  case (2 k d ct ob ob' r k')
  show ?case
  proof (cases r)
    case (Inl e)
    then show ?thesis using 2 s3_put_Inl [of c client k d ct ob ob' e] by (simp add: s3_backend_def)
  next
    case (Inr u)
    then obtain call where "put_object client call ob = Inr ob'" "s3_object_key c k = Inr (put_key call)"
      "put_bucket call = s3_bucket c"
      using 2 s3_put_Inr [of c client k d ct ob ob'] by (auto simp: s3_backend_def)
    moreover have "get_object client (s3_bucket c) i ob' = get_object client (s3_bucket c) i ob"
      if "i \<noteq> put_key call" for i
      using bucket_okD(1) [OF 2(1), of call ob ob' i] that calculation by simp
    ultimately show ?thesis using 2(3)
      by (cases "s3_object_key c k'") (auto simp: s3_backend_def s3_get_def)
  qed
next
  case (4 k ob ob')
  then show ?case
    by (auto simp: s3_backend_def s3_get_def is_storage_error_def ArtifactNotFoundError_def bucket_okD(2)
        dest!: s3_delete_Inr)
next
  case (5 k ob ob' r k')
  show ?case
  proof (cases r)
    case (Inl e)
    then show ?thesis using 5 s3_delete_Inl [of c client k ob ob' e] by (simp add: s3_backend_def)
  next
    case (Inr u)
    then obtain i where d: "delete_object client (s3_bucket c) i ob = Inr ob'" and i: "s3_object_key c k = Inr i"
      using 5 s3_delete_Inr [of c client k ob ob'] by (auto simp: s3_backend_def)
    have "get_object client (s3_bucket c) j ob' = get_object client (s3_bucket c) j ob" if "j \<noteq> i" for j
      using bucket_okD(2) [OF 5(1) d] that by simp
    then show ?thesis using 5(3) i
      by (cases "s3_object_key c k'") (auto simp: s3_backend_def s3_get_def)
  qed
qed (auto simp: s3_backend_def dest: s3_put_Inl s3_delete_Inl)

interpretation disabled_objects: object_store disabled_backend True "\<lambda>_ _. True"
  by unfold_locales (auto simp: disabled_backend_def)

end
