(* ===== verification/Artifacts.thy ===== *)
theory Artifacts
  imports Artifact_Storage Service_Steps Rubric_Drafting
begin

text \<open>
  \<^verbatim>\<open>artifact_service.py\<close>: artifacts of a session, whose bytes are in an object store and whose
  records are in the session. The writing operations are split into the step on the session,
  which keeps what the service keeps, and the handler that orders it with the object store;
  access is by tokens signed with HMAC.
\<close>

section \<open>The service\<close>

text \<open>SHA-256 and HMAC-SHA256 of bytes and \<^verbatim>\<open>json.loads\<close> are the standard library's.\<close>

record 'o artifact_service =
  backend :: "'o object_backend"
  signing_secret :: "bytes option"
  max_artifact_bytes :: int
  access_ttl_seconds :: int
  hash_bytes :: "bytes \<Rightarrow> string"
  hmac_sha256 :: "bytes \<Rightarrow> bytes \<Rightarrow> bytes"
  loads_bytes :: "bytes \<Rightarrow> json option"

definition artifact_service_init :: "'o artifact_service \<Rightarrow> 'o artifact_service result" where
  "artifact_service_init A =
     raise_if (max_artifact_bytes A < 1) (ValueError ''max_artifact_bytes must be positive'')
     (raise_if (\<not> (30 \<le> access_ttl_seconds A \<and> access_ttl_seconds A \<le> 3600))
       (ValueError ''access_ttl_seconds must be between 30 and 3600'')
     (raise_if (backend_id (backend A) \<noteq> ''disabled''
         \<and> (case signing_secret A of None \<Rightarrow> True | Some k \<Rightarrow> length k < 32))
       (ValueError (''enabled artifact storage requires a signing secret '' @ ''of at least 32 bytes''))
     (Inr A)))"

definition find_artifact :: "interview_session \<Rightarrow> string \<Rightarrow> artifact_record result" where
  "find_artifact s aid = (case find (\<lambda>a. art_id a = aid) (artifacts s) of
      None \<Rightarrow> Inl (http 404 ''Artifact not found'') | Some a \<Rightarrow> Inr a)"

definition persist_artifacts :: "(interview_session \<Rightarrow> 'st \<Rightarrow> 'st result) \<Rightarrow> interview_session \<Rightarrow> 'st
    \<Rightarrow> 'st result" where
  "persist_artifacts put s st =
     (case put s st of
        Inr st' \<Rightarrow> Inr st'
      | Inl (StoreConflictError m) \<Rightarrow> Inl (http 409
          (''Artifact state changed concurrently. '' @ ''Reload and retry.''))
      | Inl e \<Rightarrow> Inl e)"

definition require_enabled :: "'o artifact_service \<Rightarrow> unit result" where
  "require_enabled A = raise_if (backend_id (backend A) = ''disabled'')
     (http 503 ''Artifact storage is disabled'') (Inr ())"

text \<open>\<^verbatim>\<open>except ArtifactStorageError as exc: raise HTTPException(503, ...)\<close>.\<close>

definition storage_error_503 :: "string \<Rightarrow> exn \<Rightarrow> exn" where
  "storage_error_503 detail e = (if is_storage_error e then http 503 detail else e)"

section \<open>Tokens\<close>

text \<open>\<^verbatim>\<open>json.dumps(v, sort_keys=True, separators=(",", ":"))\<close>, which escapes what is not ASCII.\<close>

definition json_dumps_ascii :: "(rat \<Rightarrow> string) \<Rightarrow> json \<Rightarrow> string" where
  "json_dumps_ascii fr v = concat (map (\<lambda>c. if (of_char c :: nat) < 127 then [c] else json_ascii_escape c)
     (json_dumps fr v))"

definition sign_token :: "runtime \<Rightarrow> 'o artifact_service \<Rightarrow> jdict \<Rightarrow> string result" where
  "sign_token R A payload =
     (case signing_secret A of
        None \<Rightarrow> Inl (ArtifactStorageUnavailableError ''Artifact signing is unavailable'')
      | Some secret \<Rightarrow>
          (let body_token = b64url (utf8_encode (json_dumps_ascii (float_repr R) (JObj payload)));
               signature = hmac_sha256 A secret (utf8_encode body_token)
           in Inr (body_token @ ''.'' @ b64url signature)))"

text \<open>\<^verbatim>\<open>token.partition(".")\<close>.\<close>

definition partition_dot :: "string \<Rightarrow> string \<times> string \<times> string" where
  "partition_dot t = (let head = takeWhile (\<lambda>c. c \<noteq> CHR ''.'') t; rest = dropWhile (\<lambda>c. c \<noteq> CHR ''.'') t
     in (head, take 1 rest, drop 1 rest))"

definition invalid_token :: exn where
  "invalid_token = http 401 ''Artifact access token is invalid''"

text \<open>\<^verbatim>\<open>isinstance(v, int)\<close> holds of booleans too. \<^verbatim>\<open>body_token.encode("ascii")\<close> stands outside the
  \<^verbatim>\<open>try\<close>: its \<^verbatim>\<open>UnicodeEncodeError\<close> is a \<^verbatim>\<open>ValueError\<close> that escapes.\<close>

fun json_int :: "json \<Rightarrow> int option" where
  "json_int (JInt i) = Some i"
| "json_int (JBool b) = Some (if b then 1 else 0)"
| "json_int _ = None"

definition seconds_of :: "datetime \<Rightarrow> int" where
  "seconds_of t = t div 1000000"

definition verify_token :: "'o artifact_service \<Rightarrow> datetime \<Rightarrow> string \<Rightarrow> jdict result" where
  "verify_token A now token =
     (case signing_secret A of
        None \<Rightarrow> Inl (http 503 ''Artifact signing is unavailable'')
      | Some secret \<Rightarrow>
          (case partition_dot token of (body_token, separator, signature_token) \<Rightarrow>
           raise_if (separator = [] \<or> body_token = [] \<or> signature_token = []) invalid_token
          (raise_if (\<not> is_ascii body_token) (ValueError ''UnicodeEncodeError'')
          (let expected = hmac_sha256 A secret (utf8_encode body_token)
           in case b64url_decode signature_token of
                Inl _ \<Rightarrow> Inl invalid_token
              | Inr supplied \<Rightarrow>
                  raise_if (expected \<noteq> supplied) invalid_token
                  (case b64url_decode body_token of
                     Inl _ \<Rightarrow> Inl invalid_token
                   | Inr body \<Rightarrow>
                       (case loads_bytes A body of
                          Some (JObj payload) \<Rightarrow>
                            (case json_int (jget payload ''exp'') of
                               None \<Rightarrow> Inl invalid_token
                             | Some expiry \<Rightarrow>
                                 raise_if (expiry < seconds_of now) (http 401 ''Artifact access token has expired'')
                                   (Inr payload))
                        | _ \<Rightarrow> Inl invalid_token))))))"

section \<open>The steps on a session\<close>

definition record_artifact_step :: "env \<Rightarrow> artifact_record \<Rightarrow> interview_session \<Rightarrow> interview_session result" where
  "record_artifact_step E a s = append_event E ARTIFACT_CREATED None
     [(''artifact_id'', JStr (art_id a)), (''kind'', JStr (art_kind a)),
      (''media_type'', JStr (art_media_type a)), (''size_bytes'', JInt (art_size_bytes a)),
      (''sha256'', JStr (art_sha256 a)), (''created_by'', JStr (art_created_by a))]
     (s\<lparr>artifacts := artifacts s @ [a]\<rparr>)"

definition log_access_step :: "env \<Rightarrow> string \<Rightarrow> interview_session \<Rightarrow> interview_session result" where
  "log_access_step E aid s = append_event E ARTIFACT_ACCESSED None
     [(''artifact_id'', JStr aid), (''access_method'', JStr ''signed_token'')] s"

definition mark_deleted :: "datetime \<Rightarrow> string \<Rightarrow> string option \<Rightarrow> artifact_record \<Rightarrow> artifact_record" where
  "mark_deleted t by reason a =
     a\<lparr>art_deleted_at := Some t, art_deleted_by := Some by, art_deletion_reason := reason\<rparr>"

definition deleted_event :: "env \<Rightarrow> string \<Rightarrow> string option \<Rightarrow> artifact_record \<Rightarrow> interview_session
    \<Rightarrow> interview_session result" where
  "deleted_event E by reason a = append_event E ARTIFACT_DELETED None
     [(''artifact_id'', JStr (art_id a)), (''deleted_by'', JStr by), (''reason'', jopt_str reason)]"

definition delete_artifact_step :: "env \<Rightarrow> string \<Rightarrow> string \<Rightarrow> string option \<Rightarrow> artifact_record
    \<Rightarrow> interview_session \<Rightarrow> interview_session result" where
  "delete_artifact_step E aid by reason a s = deleted_event E by reason a
     (s\<lparr>artifacts := update_first (\<lambda>a. art_id a = aid) (mark_deleted (now_at E ''deleted_at'' 0) by reason)
        (artifacts s)\<rparr>)"

definition active_artifacts :: "interview_session \<Rightarrow> artifact_record list" where
  "active_artifacts s = filter (\<lambda>a. art_deleted_at a = None) (artifacts s)"

definition purge_step :: "env \<Rightarrow> string \<Rightarrow> string \<Rightarrow> interview_session \<Rightarrow> interview_session result" where
  "purge_step E by reason s = efold (deleted_event E by (Some reason)) (active_artifacts s)
     (s\<lparr>artifacts := map (\<lambda>a. if art_deleted_at a = None
          then mark_deleted (now_at E ''deleted_at'' 0) by (Some reason) a else a) (artifacts s)\<rparr>)"

text \<open>The steps as requests on a session.\<close>

datatype artifact_op =
    RecordArtifact artifact_record
  | LogArtifactAccess string
  | DeleteArtifact string string "string option"
  | PurgeArtifacts string string

definition artifact_op_step :: "env \<Rightarrow> artifact_op \<Rightarrow> interview_session \<Rightarrow> interview_session option result" where
  "artifact_op_step E op s = (case op of
      RecordArtifact a \<Rightarrow> map_sum id Some (record_artifact_step E a s)
    | LogArtifactAccess aid \<Rightarrow> ebind (find_artifact s aid) (\<lambda>_. map_sum id Some (log_access_step E aid s))
    | DeleteArtifact aid by reason \<Rightarrow> ebind (find_artifact s aid) (\<lambda>a.
        if art_deleted_at a \<noteq> None then Inr None else map_sum id Some (delete_artifact_step E aid by reason a s))
    | PurgeArtifacts by reason \<Rightarrow>
        if active_artifacts s = [] then Inr None else map_sum id Some (purge_step E by reason s))"

section \<open>The handlers\<close>

definition is_hex_digest :: "string \<Rightarrow> bool" where
  "is_hex_digest h = (length h = 64 \<and> list_all (\<lambda>c. is_digit c
     \<or> (97 \<le> (of_char c :: nat) \<and> (of_char c :: nat) \<le> 102)) h)"

definition artifact_record_ok :: "artifact_record \<Rightarrow> bool" where
  "artifact_record_ok a = (len_between 1 1024 (art_storage_key a) \<and> len_between 1 120 (art_kind a)
     \<and> len_between 1 200 (art_media_type a) \<and> 0 \<le> art_size_bytes a \<and> is_hex_digest (art_sha256 a)
     \<and> len_between 1 256 (art_created_by a))"

definition ArtifactRecord :: "artifact_record \<Rightarrow> artifact_record result" where
  "ArtifactRecord a = raise_if (\<not> artifact_record_ok a) (ValidationError ''ArtifactRecord'') (Inr a)"

definition check_upload :: "'o artifact_service \<Rightarrow> bytes \<Rightarrow> string \<Rightarrow> string \<Rightarrow> unit result" where
  "check_upload A data kind media_type =
     raise_if (kind = [] \<or> 120 < length kind) (http 422 ''Artifact kind is invalid'')
     (raise_if (media_type = [] \<or> 200 < length media_type) (http 422 ''Artifact media type is invalid'')
     (raise_if (max_artifact_bytes A < int (length data))
       (http 413 ''Artifact exceeds configured size limit'') (Inr ())))"

definition new_artifact :: "env \<Rightarrow> 'o artifact_service \<Rightarrow> interview_session \<Rightarrow> bytes \<Rightarrow> string \<Rightarrow> string
    \<Rightarrow> string \<Rightarrow> artifact_record" where
  "new_artifact E A s data kind media_type by =
     (let aid = new_id E ''artifact'' (length (artifacts s));
          scope = (case or_str (organization_id s) None of Some o' \<Rightarrow> o' | None \<Rightarrow> ''unscoped'')
      in \<lparr> art_id = aid, art_storage_key = scope @ ''/'' @ session_id s @ ''/'' @ aid, art_kind = kind,
           art_media_type = media_type, art_size_bytes = int (length data),
           art_sha256 = hash_bytes A data, art_created_at = now_at E ''artifact'' (length (artifacts s)),
           art_created_by = by, art_deleted_at = None, art_deleted_by = None, art_deletion_reason = None \<rparr>)"

text \<open>If the session cannot be stored, the object is deleted again; an exception of that deletion
  replaces the conflict.\<close>

definition create_artifact :: "('st \<Rightarrow> string \<Rightarrow> interview_session option)
    \<Rightarrow> (interview_session \<Rightarrow> 'st \<Rightarrow> 'st result) \<Rightarrow> 'o artifact_service \<Rightarrow> env \<Rightarrow> string \<Rightarrow> bytes \<Rightarrow> string
    \<Rightarrow> string \<Rightarrow> string \<Rightarrow> 'st \<times> 'o \<Rightarrow> ('st \<times> 'o) \<times> artifact_record result" where
  "create_artifact get put A E sid data kind media_type by stp =
     (case stp of (st, ob) \<Rightarrow>
      (case ebind (require_enabled A) (\<lambda>_.
            ebind (check_upload A data (strip kind) (strip media_type)) (\<lambda>_.
            ebind (load_session get sid st) (\<lambda>s.
            ebind (ArtifactRecord (new_artifact E A s data (strip kind) (strip media_type) by)) (\<lambda>a.
            Inr (s, a))))) of
         Inl e \<Rightarrow> (stp, Inl e)
       | Inr (s, a) \<Rightarrow>
          (case object_put (backend A) (art_storage_key a) data (art_media_type a) ob of
             (ob1, Inl e) \<Rightarrow> ((st, ob1), Inl (storage_error_503 ''Artifact storage write failed'' e))
           | (ob1, Inr _) \<Rightarrow>
              (case record_artifact_step E a s of
                 Inl e \<Rightarrow> ((st, ob1), Inl e)
               | Inr s' \<Rightarrow>
                  (case persist_artifacts put s' st of
                     Inr st' \<Rightarrow> ((st', ob1), Inr a)
                   | Inl e \<Rightarrow>
                      (case object_delete (backend A) (art_storage_key a) ob1 of
                         (ob2, Inl e') \<Rightarrow> ((st, ob2), Inl e')
                       | (ob2, Inr _) \<Rightarrow> ((st, ob2), Inl e)))))))"

definition list_artifacts :: "('st \<Rightarrow> string \<Rightarrow> interview_session option) \<Rightarrow> string \<Rightarrow> 'st
    \<Rightarrow> artifact_record list result" where
  "list_artifacts get sid st = ebind (load_session get sid st) (\<lambda>s. Inr (active_artifacts s))"

text \<open>An artifact that is there and not deleted.\<close>

definition live_artifact :: "interview_session \<Rightarrow> string \<Rightarrow> artifact_record result" where
  "live_artifact s aid = ebind (find_artifact s aid) (\<lambda>a.
     raise_if (art_deleted_at a \<noteq> None) (http 404 ''Artifact not found'') (Inr a))"

record access_grant =
  grant_artifact_id :: string
  grant_token :: string
  grant_expires_at :: datetime

definition token_payload :: "string \<Rightarrow> string \<Rightarrow> int \<Rightarrow> jdict" where
  "token_payload sid aid expiry = [(''v'', JInt 1), (''session_id'', JStr sid), (''artifact_id'', JStr aid),
     (''exp'', JInt expiry)]"

definition issue_access :: "('st \<Rightarrow> string \<Rightarrow> interview_session option) \<Rightarrow> 'o artifact_service \<Rightarrow> env
    \<Rightarrow> string \<Rightarrow> string \<Rightarrow> 'st \<Rightarrow> access_grant result" where
  "issue_access get A E sid aid st =
     ebind (require_enabled A) (\<lambda>_.
     ebind (load_session get sid st) (\<lambda>s.
     ebind (live_artifact s aid) (\<lambda>a.
     let expires_at = now_at E ''access'' 0 + access_ttl_seconds A * 1000000
     in ebind (sign_token (rt E) A (token_payload (session_id s) (art_id a) (seconds_of expires_at))) (\<lambda>token.
        Inr \<lparr> grant_artifact_id = art_id a, grant_token = token, grant_expires_at = expires_at \<rparr>))))"

definition read_token :: "('st \<Rightarrow> string \<Rightarrow> interview_session option)
    \<Rightarrow> (interview_session \<Rightarrow> 'st \<Rightarrow> 'st result) \<Rightarrow> 'o artifact_service \<Rightarrow> env \<Rightarrow> string
    \<Rightarrow> 'st \<times> 'o \<Rightarrow> 'st \<times> (artifact_record \<times> bytes) result" where
  "read_token get put A E token stp =
     (case stp of (st, ob) \<Rightarrow>
      (case ebind (require_enabled A) (\<lambda>_.
            ebind (verify_token A (now_at E ''verify'' 0) token) (\<lambda>payload.
            (case (jget payload ''session_id'', jget payload ''artifact_id'') of
               (JStr sid, JStr aid) \<Rightarrow>
                 ebind (load_session get sid st) (\<lambda>s.
                 ebind (live_artifact s aid) (\<lambda>a.
                 ebind (map_sum (storage_error_503 ''Artifact storage read failed'') id
                          (object_get (backend A) (art_storage_key a) ob)) (\<lambda>data.
                 raise_if (hash_bytes A data \<noteq> art_sha256 a)
                   (http 500 ''Artifact integrity verification failed'')
                 (ebind (log_access_step E (art_id a) s) (\<lambda>s'. Inr (s', a, data))))))
             | _ \<Rightarrow> Inl invalid_token))) of
         Inl e \<Rightarrow> (st, Inl e)
       | Inr (s', a, data) \<Rightarrow>
          (case persist_artifacts put s' st of
             Inl e \<Rightarrow> (st, Inl e)
           | Inr st' \<Rightarrow> (st', Inr (a, data)))))"

text \<open>The object is deleted before the record is marked: if the session cannot be stored, the record
  still counts as live.\<close>

definition delete_artifact :: "('st \<Rightarrow> string \<Rightarrow> interview_session option)
    \<Rightarrow> (interview_session \<Rightarrow> 'st \<Rightarrow> 'st result) \<Rightarrow> 'o artifact_service \<Rightarrow> env \<Rightarrow> string \<Rightarrow> string
    \<Rightarrow> string \<Rightarrow> string option \<Rightarrow> 'st \<times> 'o \<Rightarrow> ('st \<times> 'o) \<times> artifact_record result" where
  "delete_artifact get put A E sid aid by reason stp =
     (case stp of (st, ob) \<Rightarrow>
      (case ebind (require_enabled A) (\<lambda>_. ebind (load_session get sid st) (\<lambda>s.
            ebind (find_artifact s aid) (\<lambda>a. Inr (s, a)))) of
         Inl e \<Rightarrow> (stp, Inl e)
       | Inr (s, a) \<Rightarrow>
          if art_deleted_at a \<noteq> None then (stp, Inr a)
          else (case object_delete (backend A) (art_storage_key a) ob of
             (ob1, Inl e) \<Rightarrow> ((st, ob1), Inl (storage_error_503 ''Artifact storage deletion failed'' e))
           | (ob1, Inr _) \<Rightarrow>
              (case delete_artifact_step E aid by reason a s of
                 Inl e \<Rightarrow> ((st, ob1), Inl e)
               | Inr s' \<Rightarrow>
                  (case persist_artifacts put s' st of
                     Inl e \<Rightarrow> ((st, ob1), Inl e)
                   | Inr st' \<Rightarrow> ((st', ob1), Inr (mark_deleted (now_at E ''deleted_at'' 0) by reason a)))))))"

fun delete_objects :: "'o object_backend \<Rightarrow> artifact_record list \<Rightarrow> 'o \<Rightarrow> 'o \<times> unit result" where
  "delete_objects B [] ob = (ob, Inr ())"
| "delete_objects B (a # as) ob =
     (case object_delete B (art_storage_key a) ob of
        (ob1, Inl e) \<Rightarrow> (ob1, Inl (storage_error_503 ''Artifact storage retention deletion failed'' e))
      | (ob1, Inr _) \<Rightarrow> delete_objects B as ob1)"

definition purge_session :: "('st \<Rightarrow> string \<Rightarrow> interview_session option)
    \<Rightarrow> (interview_session \<Rightarrow> 'st \<Rightarrow> 'st result) \<Rightarrow> 'o artifact_service \<Rightarrow> env \<Rightarrow> string \<Rightarrow> string \<Rightarrow> string
    \<Rightarrow> 'st \<times> 'o \<Rightarrow> ('st \<times> 'o) \<times> nat result" where
  "purge_session get put A E by reason sid stp =
     (case stp of (st, ob) \<Rightarrow>
      (case load_session get sid st of
         Inl e \<Rightarrow> (stp, Inl e)
       | Inr s \<Rightarrow>
          if active_artifacts s = [] then (stp, Inr 0)
          else (case require_enabled A of
             Inl e \<Rightarrow> (stp, Inl e)
           | Inr _ \<Rightarrow>
              (case delete_objects (backend A) (active_artifacts s) ob of
                 (ob1, Inl e) \<Rightarrow> ((st, ob1), Inl e)
               | (ob1, Inr _) \<Rightarrow>
                  (case purge_step E by reason s of
                     Inl e \<Rightarrow> ((st, ob1), Inl e)
                   | Inr s' \<Rightarrow>
                      (case persist_artifacts put s' st of
                         Inl e \<Rightarrow> ((st, ob1), Inl e)
                       | Inr st' \<Rightarrow> ((st', ob1), Inr (length (active_artifacts s)))))))))"

section \<open>The steps keep what the service keeps\<close>

lemma artifact_keeps:
  assumes "artifact_op_step E op s = Inr (Some s')" and "session_ok (rt E) s" and "closed_ok s"
  shows "step_keeps (rt E) s s'"
  using assms
  by (cases op)
    (auto simp: artifact_op_step_def record_artifact_step_def log_access_step_def delete_artifact_step_def
      purge_step_def deleted_event_def [abs_def] exn_simps split: if_splits
      intro: append_event_step_keeps [where s = s] append_events_step_keeps [where s = s])

section \<open>What a token says\<close>

lemma partition_dot_append:
  "CHR ''.'' \<notin> set b \<Longrightarrow> partition_dot (b @ CHR ''.'' # t) = (b, ''.'', t)"
  by (induction b) (auto simp: partition_dot_def Let_def)

text \<open>The text that a payload is signed as, and what reading it back gives.\<close>

definition signed_text :: "runtime \<Rightarrow> jdict \<Rightarrow> bytes" where
  "signed_text R payload = utf8_encode (json_dumps_ascii (float_repr R) (JObj payload))"

text \<open>What the standard library guarantees for a payload: reading its text gives a dictionary with
  the same entries; and a signature is not empty.\<close>

definition signs_ok :: "'o artifact_service \<Rightarrow> runtime \<Rightarrow> jdict \<Rightarrow> bool" where
  "signs_ok A R payload \<longleftrightarrow> (\<forall>k m. hmac_sha256 A k m \<noteq> []) \<and> signed_text R payload \<noteq> []
     \<and> (\<exists>d. loads_bytes A (signed_text R payload) = Some (JObj d) \<and> dict_get d = dict_get payload)"

lemma sign_verify:
  assumes "sign_token R A payload = Inr token" and "signs_ok A R payload"
    and "jget payload ''exp'' = JInt expiry"
  shows "if expiry < seconds_of now
    then verify_token A now token = Inl (http 401 ''Artifact access token has expired'')
    else \<exists>d. verify_token A now token = Inr d \<and> dict_get d = dict_get payload"
proof -
  obtain secret where secret: "signing_secret A = Some secret"
    using assms(1) by (cases "signing_secret A") (simp_all add: sign_token_def)
  let ?body = "b64url (signed_text R payload)"
  let ?sig = "hmac_sha256 A secret (utf8_encode ?body)"
  have token: "token = ?body @ ''.'' @ b64url ?sig"
    using assms(1) by (simp add: sign_token_def secret signed_text_def Let_def)
  obtain d where d: "loads_bytes A (signed_text R payload) = Some (JObj d)" "dict_get d = dict_get payload"
    and sig: "?sig \<noteq> []" and body: "signed_text R payload \<noteq> []"
    using assms(2) by (auto simp: signs_ok_def)
  have jd: "jget d ''exp'' = JInt expiry" using assms(3) by (simp add: jget_def d(2))
  have part: "partition_dot token = (?body, ''.'', b64url ?sig)"
    unfolding token append_Cons append_Nil by (rule partition_dot_append) (rule b64url_no_dot)
  have "verify_token A now token =
      raise_if (expiry < seconds_of now) (http 401 ''Artifact access token has expired'') (Inr d)"
    by (simp add: verify_token_def secret part b64url_nonempty [OF sig] b64url_nonempty [OF body]
        b64url_ascii d(1) jd)
  with d(2) show ?thesis by (auto simp: raise_if_def)
qed

lemma partition_dot_split:
  assumes "partition_dot t = (b, sep, r)" and "sep \<noteq> []"
  shows "t = b @ ''.'' @ r"
proof -
  let ?p = "\<lambda>c. c \<noteq> CHR ''.''"
  have parts: "b = takeWhile ?p t" "sep = take 1 (dropWhile ?p t)" "r = drop 1 (dropWhile ?p t)"
    using assms(1) unfolding partition_dot_def Let_def prod.inject by simp_all
  have "dropWhile ?p t \<noteq> []" using assms(2) unfolding parts(2) by (metis take_Nil)
  then obtain c cs where c: "dropWhile ?p t = c # cs" by (metis list.exhaust)
  have "c = CHR ''.''" using hd_dropWhile [of ?p t] unfolding c by simp
  moreover have "t = takeWhile ?p t @ c # cs" unfolding c [symmetric] by (rule takeWhile_dropWhile_id [symmetric])
  ultimately show ?thesis unfolding parts c by simp
qed

text \<open>A token that verifies carries the HMAC of its body under the secret, and has not expired.\<close>

lemma verified_is_signed:
  assumes "verify_token A now token = Inr payload"
  shows "\<exists>secret body sig expiry. signing_secret A = Some secret \<and> token = body @ ''.'' @ sig
    \<and> b64url_decode sig = Inr (hmac_sha256 A secret (utf8_encode body))
    \<and> json_int (jget payload ''exp'') = Some expiry \<and> seconds_of now \<le> expiry"
proof -
  obtain secret where secret: "signing_secret A = Some secret"
    using assms by (cases "signing_secret A") (simp_all add: verify_token_def)
  obtain body sep sig where part: "partition_dot token = (body, sep, sig)" by (cases "partition_dot token")
  have "sep \<noteq> []" and hm: "b64url_decode sig = Inr (hmac_sha256 A secret (utf8_encode body))"
    using assms by (auto simp: verify_token_def secret part Let_def exn_simps split: sum.splits)
  moreover have "\<exists>expiry. json_int (jget payload ''exp'') = Some expiry \<and> seconds_of now \<le> expiry"
    using assms by (auto simp: verify_token_def secret part Let_def exn_simps
        split: sum.splits option.splits json.splits)
  moreover have "token = body @ ''.'' @ sig"
    using part \<open>sep \<noteq> []\<close> partition_dot_split by blast
  ultimately show ?thesis using secret by blast
qed

section \<open>Sessions and objects together\<close>

locale artifact_world = session_store get put seen okst + object_store B works apart
  for get :: "'st \<Rightarrow> string \<Rightarrow> interview_session option" and put seen okst
    and B :: "'o object_backend" and works apart +
  fixes A :: "'o artifact_service"
  assumes seen_shares: "seen s = s\<lparr>shared_metadata := shared_metadata (seen s)\<rparr>"
    and service_backend: "backend A = B"
begin

lemma seen_artifacts: "artifacts (seen s) = artifacts s" "events (seen s) = events s" "session_id (seen s) = session_id s"
  by (subst seen_shares, simp)+

lemma persist_Inr: "persist_artifacts put s st = Inr st' \<longleftrightarrow> put s st = Inr st'"
  by (cases "put s st") (auto simp: persist_artifacts_def split: exn.splits)

text \<open>What a successful upload did.\<close>

lemma create_artifact_Inr:
  assumes "create_artifact get put A E sid data kind media by (st, ob) = ((st', ob'), Inr a)"
  obtains s s' where "backend_id B \<noteq> ''disabled''" and "get st sid = Some s"
    and "a = new_artifact E A s data (strip kind) (strip media) by" and "artifact_record_ok a"
    and "int (length data) \<le> max_artifact_bytes A"
    and "object_put B (art_storage_key a) data (art_media_type a) ob = (ob', Inr ())"
    and "record_artifact_step E a s = Inr s'" and "put s' st = Inr st'"
proof -
  let ?pre = "ebind (require_enabled A) (\<lambda>_.
            ebind (check_upload A data (strip kind) (strip media)) (\<lambda>_.
            ebind (load_session get sid st) (\<lambda>s.
            ebind (ArtifactRecord (new_artifact E A s data (strip kind) (strip media) by)) (\<lambda>a.
            Inr (s, a)))))"
  obtain s b where pre: "?pre = Inr (s, b)"
    using assms by (cases ?pre) (auto simp: create_artifact_def)
  obtain ob1 r where op: "object_put (backend A) (art_storage_key b) data (art_media_type b) ob = (ob1, r)"
    by (cases "object_put (backend A) (art_storage_key b) data (art_media_type b) ob")
  obtain u where r: "r = Inr u"
    using assms by (cases r) (auto simp: create_artifact_def pre op)
  obtain s' where step: "record_artifact_step E b s = Inr s'"
    using assms by (cases "record_artifact_step E b s") (auto simp: create_artifact_def pre op r)
  obtain st1 where persist: "persist_artifacts put s' st = Inr st1"
    using assms by (cases "persist_artifacts put s' st")
      (auto simp: create_artifact_def pre op r step split: prod.splits sum.splits)
  have "st1 = st'" "ob1 = ob'" "b = a"
    using assms by (auto simp: create_artifact_def pre op r step persist)
  with pre op r step persist that [of s s'] show thesis
    by (auto simp: require_enabled_def check_upload_def load_session_def ArtifactRecord_def exn_simps
        service_backend persist_Inr split: option.splits)
qed

text \<open>The session that is stored after an upload.\<close>

lemma created_session:
  assumes "record_artifact_step E a s = Inr s'" and "put s' st = Inr st'" and "okst st"
    and "get st sid = Some s"
  obtains s2 where "get st' sid = Some s2" and "session_id s2 = sid" and "artifacts s2 = artifacts s @ [a]"
    and "events s2 = events s'" and "version s2 = version s + 1" and "okst st'"
proof -
  have ev: "append_event E ARTIFACT_CREATED None
     [(''artifact_id'', JStr (art_id a)), (''kind'', JStr (art_kind a)),
      (''media_type'', JStr (art_media_type a)), (''size_bytes'', JInt (art_size_bytes a)),
      (''sha256'', JStr (art_sha256 a)), (''created_by'', JStr (art_created_by a))]
     (s\<lparr>artifacts := artifacts s @ [a]\<rparr>) = Inr s'"
    using assms(1) by (simp add: record_artifact_step_def)
  have arts: "artifacts s' = artifacts s @ [a]" by (subst append_event_frame [OF ev]) simp
  note f = append_event_fields [OF ev]
  have sid: "session_id s' = sid" using f get_id [OF assms(3,4)] by simp
  have get: "get st' sid = Some (seen (s'\<lparr>version := version s' + 1\<rparr>))"
    using put_get [OF assms(3,2), of sid] sid by simp
  show thesis
    by (rule that [OF get]) (use sid f arts assms in \<open>auto simp: seen_artifacts seen_version intro: put_ok\<close>)
qed

lemma find_new_artifact:
  assumes "artifacts s2 = artifacts s @ [a]" and "art_id a \<notin> art_id ` set (artifacts s)" and "art_deleted_at a = None"
  shows "live_artifact s2 (art_id a) = Inr a"
proof -
  have "find (\<lambda>b. art_id b = art_id a) (artifacts s) = None"
    using assms(2) by (auto simp: find_None_iff_ball image_iff)
  then show ?thesis
    using assms(1,3) by (simp add: live_artifact_def find_artifact_def find_append raise_if_def)
qed

text \<open>Reading a live artifact with a token that verifies for it.\<close>

lemma read_token_live:
  assumes "verify_token A (now_at E ''verify'' 0) token = Inr d"
    and "dict_get d = dict_get (token_payload sid aid expiry)" and "backend_id B \<noteq> ''disabled''"
    and "okst st" and "get st sid = Some s" and "live_artifact s aid = Inr a" and "art_id a = aid"
    and "object_get B (art_storage_key a) ob = Inr data" and "hash_bytes A data = art_sha256 a"
    and "audit_ok (rt E) s"
  shows "\<exists>st'. read_token get put A E token (st, ob) = (st', Inr (a, data))"
proof -
  obtain s' where ev: "log_access_step E (art_id a) s = Inr s'"
    using append_event_total [OF assms(10)] unfolding log_access_step_def by blast
  have f: "version s' = version s" "session_id s' = session_id s"
    using append_event_fields [OF ev [unfolded log_access_step_def]] by simp_all
  obtain st' where "put s' st = Inr st'"
    using put_iff [OF assms(4), of s'] get_id [OF assms(4,5)] f assms(5) by auto
  moreover have "jget d ''session_id'' = JStr sid" "jget d ''artifact_id'' = JStr aid"
    by (simp_all add: jget_def assms(2) token_payload_def)
  ultimately have "read_token get put A E token (st, ob) = (st', Inr (a, data))"
    using ev by (simp add: read_token_def require_enabled_def service_backend assms(1,3,5,6,8,9) load_session_def
        raise_if_def persist_artifacts_def)
  then show ?thesis ..
qed

lemma upload_reads_back:
  assumes create: "create_artifact get put A E sid data kind media by (st, ob) = ((st', ob'), Inr a)"
    and okst: "okst st" and works: "works"
    and stored: "\<forall>s. get st sid = Some s \<longrightarrow> audit_ok (rt E) s \<and> art_id a \<notin> art_id ` set (artifacts s)"
    and issue: "issue_access get A E2 sid (art_id a) st' = Inr g"
    and signs: "signs_ok A (rt E2) (token_payload sid (art_id a) (seconds_of (grant_expires_at g)))"
    and soon: "seconds_of (now_at E3 ''verify'' 0) \<le> seconds_of (grant_expires_at g)" and "rt E3 = rt E"
  shows "\<exists>st''. read_token get put A E3 (grant_token g) (st', ob') = (st'', Inr (a, data))"
proof -
  obtain s s' where on: "backend_id B \<noteq> ''disabled''" and s: "get st sid = Some s"
    and a: "a = new_artifact E A s data (strip kind) (strip media) by"
    and op: "object_put B (art_storage_key a) data (art_media_type a) ob = (ob', Inr ())"
    and step: "record_artifact_step E a s = Inr s'" and p: "put s' st = Inr st'"
    by (rule create_artifact_Inr [OF create])
  obtain s2 where s2: "get st' sid = Some s2" "session_id s2 = sid" "artifacts s2 = artifacts s @ [a]"
    "events s2 = events s'" "okst st'"
    by (rule created_session [OF step p okst s])
  have live: "live_artifact s2 (art_id a) = Inr a"
    by (rule find_new_artifact [OF s2(3)]) (use stored s in \<open>auto simp: a new_artifact_def Let_def\<close>)
  have "audit_ok (rt E) s'"
    by (rule append_event_audit_ok [OF step [unfolded record_artifact_step_def]])
      (use stored s in \<open>auto simp: audit_ok_def\<close>)
  then have audit: "audit_ok (rt E3) s2" using s2(4) assms(8) by (simp add: audit_ok_def)
  have token: "sign_token (rt E2) A (token_payload sid (art_id a) (seconds_of (grant_expires_at g)))
      = Inr (grant_token g)"
    using issue by (auto simp: issue_access_def load_session_def s2(1,2) live Let_def exn_simps)
  have "jget (token_payload sid (art_id a) t) ''exp'' = JInt t" for t
    by (simp add: token_payload_def jget_def)
  note v = sign_verify [OF token signs this, of "now_at E3 ''verify'' 0"]
  have "\<not> seconds_of (grant_expires_at g) < seconds_of (now_at E3 ''verify'' 0)" using soon by simp
  with v obtain d where "verify_token A (now_at E3 ''verify'' 0) (grant_token g) = Inr d"
    "dict_get d = dict_get (token_payload sid (art_id a) (seconds_of (grant_expires_at g)))"
    unfolding if_not_P [OF \<open>\<not> seconds_of (grant_expires_at g) < seconds_of (now_at E3 ''verify'' 0)\<close>] by blast
  moreover have "hash_bytes A data = art_sha256 a" by (simp add: a new_artifact_def Let_def)
  ultimately show ?thesis
    by (intro read_token_live [OF _ _ on s2(5,1) live refl object_read [OF works op] _ audit])
qed

text \<open>What a successful deletion did.\<close>

lemma delete_artifact_removes:
  assumes del: "delete_artifact get put A E sid aid by reason (st, ob) = ((st', ob'), Inr a)"
    and okst: "okst st" and works: "works"
  shows "\<exists>s a0 s'. get st sid = Some s \<and> find_artifact s aid = Inr a0
    \<and> (art_deleted_at a0 = None \<longrightarrow> (\<exists>e. object_get B (art_storage_key a0) ob' = Inl e))
    \<and> (\<forall>k. apart (art_storage_key a0) k \<longrightarrow> object_get B k ob' = object_get B k ob)
    \<and> get st' sid = Some s' \<and> live_artifact s' aid = Inl (http 404 ''Artifact not found'')
    \<and> (\<forall>i. i \<noteq> aid \<longrightarrow> live_artifact s' i = live_artifact s i)"
proof -
  obtain s a0 where pre: "ebind (require_enabled A) (\<lambda>_. ebind (load_session get sid st) (\<lambda>s.
            ebind (find_artifact s aid) (\<lambda>a. Inr (s, a)))) = Inr (s, a0)"
    using del by (cases "ebind (require_enabled A) (\<lambda>_. ebind (load_session get sid st) (\<lambda>s.
            ebind (find_artifact s aid) (\<lambda>a. Inr (s, a))))") (auto simp: delete_artifact_def)
  then have s: "get st sid = Some s" and a0: "find_artifact s aid = Inr a0"
    by (auto simp: load_session_def exn_simps split: option.splits)
  show ?thesis
  proof (cases "art_deleted_at a0 = None")
    case False
    then have "st' = st" "ob' = ob" using del by (simp_all add: delete_artifact_def pre)
    with False s a0 show ?thesis by (auto simp: live_artifact_def raise_if_def)
  next
    case True
    obtain ob1 r where op: "object_delete B (art_storage_key a0) ob = (ob1, r)"
      by (cases "object_delete B (art_storage_key a0) ob")
    have r: "r = Inr ()"
      using del True by (cases r) (auto simp: delete_artifact_def pre service_backend op)
    obtain s1 where step: "delete_artifact_step E aid by reason a0 s = Inr s1"
      using del True by (cases "delete_artifact_step E aid by reason a0 s")
        (auto simp: delete_artifact_def pre service_backend op r)
    obtain st1 where p: "persist_artifacts put s1 st = Inr st1"
      using del True by (cases "persist_artifacts put s1 st")
        (auto simp: delete_artifact_def pre service_backend op r step)
    have same: "st1 = st'" "ob1 = ob'"
      using del True by (simp_all add: delete_artifact_def pre service_backend op r step p)
    let ?f = "mark_deleted (now_at E ''deleted_at'' 0) by reason"
    have ev: "append_event E ARTIFACT_DELETED None
       [(''artifact_id'', JStr (art_id a0)), (''deleted_by'', JStr by), (''reason'', jopt_str reason)]
       (s\<lparr>artifacts := update_first (\<lambda>a. art_id a = aid) ?f (artifacts s)\<rparr>) = Inr s1"
      using step by (simp add: delete_artifact_step_def deleted_event_def)
    have arts: "artifacts s1 = update_first (\<lambda>a. art_id a = aid) ?f (artifacts s)"
      by (subst append_event_frame [OF ev]) simp
    let ?s' = "seen (s1\<lparr>version := version s1 + 1\<rparr>)"
    have sid: "session_id s1 = sid" using append_event_fields(7) [OF ev] get_id [OF okst s] by simp
    have s': "get st' sid = Some ?s'"
      using p put_get [OF okst, of s1 st1 sid] sid unfolding persist_Inr same by simp
    have found: "find (\<lambda>a. art_id a = i) (artifacts ?s') = (if i = aid then map_option ?f
        (find (\<lambda>a. art_id a = i) (artifacts s)) else find (\<lambda>a. art_id a = i) (artifacts s))" for i
      unfolding seen_artifacts using find_update_first [of art_id ?f i aid "artifacts s"]
      by (simp add: arts mark_deleted_def)
    have "live_artifact ?s' aid = Inl (http 404 ''Artifact not found'')"
      by (simp add: live_artifact_def find_artifact_def found raise_if_def mark_deleted_def split: option.splits)
    moreover have "live_artifact ?s' i = live_artifact s i" if "i \<noteq> aid" for i
      using that by (simp add: live_artifact_def find_artifact_def found)
    moreover have "\<exists>e. object_get B (art_storage_key a0) ob' = Inl e"
      using object_gone [OF works op [unfolded r same]] by blast
    moreover have "object_get B k ob' = object_get B k ob" if "apart (art_storage_key a0) k" for k
      using object_delete_apart [OF works op that] same by simp
    ultimately show ?thesis using s a0 s' by blast
  qed
qed

text \<open>After it, no token gets at the artifact.\<close>

lemma read_token_deleted:
  assumes "get st sid = Some s" and "live_artifact s aid = Inl (http 404 ''Artifact not found'')"
    and "verify_token A (now_at E ''verify'' 0) token = Inr d" and "jget d ''session_id'' = JStr sid"
    and "jget d ''artifact_id'' = JStr aid" and "backend_id B \<noteq> ''disabled''"
  shows "read_token get put A E token (st, ob) = (st, Inl (http 404 ''Artifact not found''))"
  using assms by (simp add: read_token_def require_enabled_def service_backend load_session_def raise_if_def)

end

interpretation sql_artifacts: artifact_world sql_get_session sqlite_put_session serialised sql_ok
    "local_backend V" "vault_ok V" "\<lambda>k k'. path_for V k \<noteq> path_for V k'" "A\<lparr>backend := local_backend V\<rparr>"
  for V and A :: "files artifact_service"
  by unfold_locales (simp_all add: serialised_def)

end
