(* ===== verification/Language_Profiles.thy ===== *)
theory Language_Profiles
  imports Models
begin

text \<open>
  \<^verbatim>\<open>language_profiles.py\<close>: the technical terms and the script profile that are recorded with a
  transcript. The texts are Arabic as well as Latin, so in this theory a text is the list of
  its Unicode code points; \<open>code_points\<close> embeds the strings of the other theories.
\<close>

type_synonym unicode = "nat list"

definition code_points :: "string \<Rightarrow> unicode" where
  "code_points s = map of_char s"

section \<open>The packs\<close>

record vocabulary_pack =
  pack_id :: string
  pack_domain :: string
  pack_terms :: "unicode list"

definition software_engineering_pack :: vocabulary_pack where
  "software_engineering_pack = \<lparr> pack_id = ''ar-software-engineering-v1'', pack_domain = ''software_engineering'', pack_terms = [
     code_points ''API'', code_points ''database'', code_points ''PostgreSQL'',
     code_points ''cache'', code_points ''Docker'', code_points ''Kubernetes'',
     code_points ''latency'', code_points ''timeout'', code_points ''deployment'',
     code_points ''rollback'', code_points ''incident'', code_points ''queue'',
     code_points ''circuit breaker'',
     [1608, 1575, 1580, 1607, 1577, 32, 1576, 1585, 1605, 1580, 1577, 32, 1575, 1604, 1578, 1591, 1576, 1610, 1602, 1575, 1578],
     [1602, 1575, 1593, 1583, 1577, 32, 1576, 1610, 1575, 1606, 1575, 1578],
     [1584, 1575, 1603, 1585, 1577, 32, 1605, 1572, 1602, 1578, 1577],
     [1586, 1605, 1606, 32, 1575, 1604, 1575, 1587, 1578, 1580, 1575, 1576, 1577],
     [1605, 1607, 1604, 1577], [1606, 1588, 1585], [1578, 1585, 1575, 1580, 1593],
     [1581, 1575, 1583, 1579, 1577], [1591, 1575, 1576, 1608, 1585],
     [1602, 1575, 1591, 1593, 32, 1575, 1604, 1583, 1575, 1574, 1585, 1577]] \<rparr>"

definition ai_ml_pack :: vocabulary_pack where
  "ai_ml_pack = \<lparr> pack_id = ''ar-ai-ml-v1'', pack_domain = ''ai_ml'', pack_terms = [
     code_points ''machine learning'', code_points ''model'', code_points ''inference'',
     code_points ''embedding'', code_points ''vector'', code_points ''RAG'', code_points ''token'',
     code_points ''prompt'', code_points ''fine-tuning'', code_points ''evaluation'',
     code_points ''latency'', [1578, 1593, 1604, 1605, 32, 1570, 1604, 1610],
     [1606, 1605, 1608, 1584, 1580], [1575, 1587, 1578, 1583, 1604, 1575, 1604],
     [1578, 1590, 1605, 1610, 1606], [1605, 1578, 1580, 1607], [1585, 1605, 1586],
     [1605, 1608, 1580, 1607], [1590, 1576, 1591, 32, 1583, 1602, 1610, 1602],
     [1578, 1602, 1610, 1610, 1605],
     [1586, 1605, 1606, 32, 1575, 1604, 1575, 1587, 1578, 1580, 1575, 1576, 1577]] \<rparr>"

definition data_engineering_pack :: vocabulary_pack where
  "data_engineering_pack = \<lparr> pack_id = ''ar-data-engineering-v1'', pack_domain = ''data_engineering'', pack_terms = [
     code_points ''SQL'', code_points ''ETL'', code_points ''dataframe'', code_points ''schema'',
     code_points ''join'', code_points ''aggregation'', code_points ''percentile'',
     code_points ''median'', code_points ''anomaly'', code_points ''pipeline'',
     [1605, 1582, 1591, 1591], [1585, 1576, 1591], [1578, 1580, 1605, 1610, 1593],
     [1608, 1587, 1610, 1591], [1588, 1584, 1608, 1584],
     [1582, 1591, 32, 1576, 1610, 1575, 1606, 1575, 1578]] \<rparr>"

definition vocabulary_packs :: "(string, vocabulary_pack) dict" where
  "vocabulary_packs = map (\<lambda>p. (pack_id p, p))
     [software_engineering_pack, ai_ml_pack, data_engineering_pack]"

section \<open>Scripts and terms\<close>

definition is_arabic :: "nat \<Rightarrow> bool" where
  "is_arabic n = (0x600 \<le> n \<and> n \<le> 0x6FF)"

definition is_latin :: "nat \<Rightarrow> bool" where
  "is_latin n = (65 \<le> n \<and> n \<le> 90 \<or> 97 \<le> n \<and> n \<le> 122)"

definition script_counts :: "unicode \<Rightarrow> nat \<times> nat" where
  "script_counts text = (length (filter is_arabic text), length (filter is_latin text))"

text \<open>\<^verbatim>\<open>str.casefold\<close>: of the code points below 256 written out, of the others the library's table.\<close>

definition casefold :: "(nat \<Rightarrow> unicode) \<Rightarrow> unicode \<Rightarrow> unicode" where
  "casefold other text = concat (map (\<lambda>n.
     if 65 \<le> n \<and> n \<le> 90 \<or> 192 \<le> n \<and> n \<le> 222 \<and> n \<noteq> 215 then [n + 32]
     else if n = 181 then [956] else if n = 223 then [115, 115]
     else if n < 256 then [n] else other n) text)"

definition occurs_in :: "unicode \<Rightarrow> unicode \<Rightarrow> bool" where
  "occurs_in term text = sublist term text"

definition contains_term :: "(nat \<Rightarrow> unicode) \<Rightarrow> unicode \<Rightarrow> unicode \<Rightarrow> bool" where
  "contains_term other text term =
     (if list_ex is_arabic term then occurs_in term text
      else occurs_in (casefold other term) (casefold other text))"

text \<open>The loops over packs and terms: the terms detected and the keys seen.\<close>

fun detect_in_pack :: "(nat \<Rightarrow> unicode) \<Rightarrow> unicode \<Rightarrow> unicode list \<Rightarrow> unicode list \<times> unicode list
    \<Rightarrow> unicode list \<times> unicode list" where
  "detect_in_pack other text [] acc = acc"
| "detect_in_pack other text (t # ts) (detected, seen) =
     (let key = casefold other t
      in if key \<notin> set seen \<and> contains_term other text t
         then detect_in_pack other text ts (detected @ [t], key # seen)
         else detect_in_pack other text ts (detected, seen))"

fun detect_in_packs :: "(nat \<Rightarrow> unicode) \<Rightarrow> unicode \<Rightarrow> string list \<Rightarrow> unicode list \<times> unicode list
    \<Rightarrow> unicode list \<times> unicode list" where
  "detect_in_packs other text [] acc = acc"
| "detect_in_packs other text (k # ks) acc =
     (case dict_get vocabulary_packs k of
        None \<Rightarrow> detect_in_packs other text ks acc
      | Some p \<Rightarrow> detect_in_packs other text ks (detect_in_pack other text (pack_terms p) acc))"

definition detect_technical_terms :: "(nat \<Rightarrow> unicode) \<Rightarrow> unicode \<Rightarrow> string list \<Rightarrow> unicode list" where
  "detect_technical_terms other text pack_ids = fst (detect_in_packs other text pack_ids ([], []))"

section \<open>Metadata\<close>

record language_metadata =
  asr_locale :: string
  code_switch_detected :: bool
  arabic_chars :: nat
  latin_chars :: nat
  technical_vocabulary_packs :: "string list"
  technical_terms_detected :: "unicode list"
  asr_dialect :: "string option"
  asr_reference_text :: "unicode option"
  code_switch_expected :: "bool option"
  asr_critical_terms :: "string list"

definition mixed_scripts :: "unicode \<Rightarrow> bool" where
  "mixed_scripts text = (case script_counts text of (arabic, latin) \<Rightarrow> 0 < arabic \<and> 0 < latin)"

text \<open>An empty dialect and an empty list of critical terms are not recorded.\<close>

definition build_language_metadata :: "(nat \<Rightarrow> unicode) \<Rightarrow> unicode \<Rightarrow> string \<Rightarrow> string option
    \<Rightarrow> string list \<Rightarrow> unicode option \<Rightarrow> string list \<Rightarrow> language_metadata result" where
  "build_language_metadata other text loc dialect pack_ids reference_text critical_terms =
     (let packs = fromkeys pack_ids;
          unknown = filter (\<lambda>p. dict_get vocabulary_packs p = None) packs
      in raise_if (unknown \<noteq> [])
           (ValueError (''Unknown technical vocabulary pack(s): '' @ join '', '' unknown))
         (case script_counts text of (arabic, latin) \<Rightarrow>
           Inr \<lparr> asr_locale = loc, code_switch_detected = (0 < arabic \<and> 0 < latin),
             arabic_chars = arabic, latin_chars = latin, technical_vocabulary_packs = packs,
             technical_terms_detected = detect_technical_terms other text packs,
             asr_dialect = (if dialect = Some [] then None else dialect), asr_reference_text = reference_text,
             code_switch_expected = map_option mixed_scripts reference_text,
             asr_critical_terms = fromkeys (map strip (filter (\<lambda>t. strip t \<noteq> []) critical_terms)) \<rparr>))"

text \<open>The dictionary; \<open>of_unicode\<close> is the text of a list of code points.\<close>

definition metadata_dict :: "(unicode \<Rightarrow> string) \<Rightarrow> language_metadata \<Rightarrow> jdict" where
  "metadata_dict of_unicode m =
     [(''asr_locale'', JStr (asr_locale m)), (''code_switch_detected'', JBool (code_switch_detected m)),
      (''script_profile'', JObj [(''arabic_chars'', JInt (int (arabic_chars m))),
                                 (''latin_chars'', JInt (int (latin_chars m)))]),
      (''technical_vocabulary_packs'', jstrs (technical_vocabulary_packs m)),
      (''technical_terms_detected'', jstrs (map of_unicode (technical_terms_detected m)))]
     @ (case asr_dialect m of None \<Rightarrow> [] | Some d \<Rightarrow> [(''asr_dialect'', JStr d)])
     @ (case asr_reference_text m of None \<Rightarrow> [] | Some t \<Rightarrow> [(''asr_reference_text'', JStr (of_unicode t))])
     @ (case code_switch_expected m of None \<Rightarrow> [] | Some b \<Rightarrow> [(''code_switch_expected'', JBool b)])
     @ (if asr_critical_terms m = [] then [] else [(''asr_critical_terms'', jstrs (asr_critical_terms m))])"

section \<open>What is detected\<close>

definition distinct_keys :: "(nat \<Rightarrow> unicode) \<Rightarrow> unicode list \<times> unicode list \<Rightarrow> bool" where
  "distinct_keys other acc \<longleftrightarrow> (case acc of (detected, seen) \<Rightarrow>
     distinct (map (casefold other) detected) \<and> set seen = casefold other ` set detected)"

text \<open>What a list of terms adds: terms of it that occur, each key once, and the key of every term
  that occurs is there afterwards.\<close>

definition detects :: "(nat \<Rightarrow> unicode) \<Rightarrow> unicode \<Rightarrow> unicode list \<Rightarrow> unicode list \<times> unicode list
    \<Rightarrow> unicode list \<times> unicode list \<Rightarrow> bool" where
  "detects other text ts acc acc' \<longleftrightarrow> distinct_keys other acc'
     \<and> set (fst acc) \<subseteq> set (fst acc')
     \<and> (\<forall>t\<in>set (fst acc'). t \<in> set (fst acc) \<or> t \<in> set ts \<and> contains_term other text t)
     \<and> (\<forall>t\<in>set ts. contains_term other text t \<longrightarrow> casefold other t \<in> casefold other ` set (fst acc'))"

lemma detect_in_pack_props:
  "distinct_keys other acc \<Longrightarrow> detects other text ts acc (detect_in_pack other text ts acc)"
proof (induction ts arbitrary: acc)
  case Nil
  then show ?case by (simp add: detects_def)
next
  case (Cons t ts)
  obtain detected seen where acc: "acc = (detected, seen)" by (cases acc)
  show ?case
  proof (cases "casefold other t \<notin> set seen \<and> contains_term other text t")
    case True
    have "distinct_keys other (detected @ [t], casefold other t # seen)"
      using Cons.prems True by (auto simp: acc distinct_keys_def)
    from Cons.IH [OF this] show ?thesis using True by (auto simp: acc detects_def Let_def)
  next
    case False
    have "set seen = casefold other ` set detected" using Cons.prems by (simp add: acc distinct_keys_def)
    with False have key: "contains_term other text t \<Longrightarrow> casefold other t \<in> casefold other ` set detected" by blast
    have run: "detect_in_pack other text (t # ts) acc = detect_in_pack other text ts acc"
      using False by (auto simp: acc Let_def)
    have "casefold other ` set (fst acc) \<subseteq> casefold other ` set (fst (detect_in_pack other text ts acc))"
      using Cons.IH [OF Cons.prems] by (intro image_mono) (simp add: detects_def)
    with Cons.IH [OF Cons.prems] key show ?thesis unfolding run by (auto simp: acc detects_def)
  qed
qed

lemma detects_trans:
  "detects other text ts acc acc1 \<Longrightarrow> detects other text us acc1 acc2 \<Longrightarrow> detects other text (ts @ us) acc acc2"
  by (fastforce simp: detects_def)

definition terms_of :: "string list \<Rightarrow> unicode list" where
  "terms_of ks = concat (map (\<lambda>k. case dict_get vocabulary_packs k of None \<Rightarrow> [] | Some p \<Rightarrow> pack_terms p) ks)"

lemma detect_in_packs_props:
  "distinct_keys other acc \<Longrightarrow> detects other text (terms_of ks) acc (detect_in_packs other text ks acc)"
proof (induction ks arbitrary: acc)
  case Nil
  then show ?case by (simp add: detects_def terms_of_def)
next
  case (Cons k ks)
  show ?case
  proof (cases "dict_get vocabulary_packs k")
    case None
    then show ?thesis using Cons.IH [OF Cons.prems] by (simp add: terms_of_def)
  next
    case (Some p)
    note one = detect_in_pack_props [OF Cons.prems, of "text" "pack_terms p"]
    then have "distinct_keys other (detect_in_pack other text (pack_terms p) acc)" by (simp add: detects_def)
    from detects_trans [OF one Cons.IH [OF this]] show ?thesis using Some by (simp add: terms_of_def)
  qed
qed

lemma detect_technical_terms_props:
  "distinct (map (casefold other) (detect_technical_terms other text ks))"
  "t \<in> set (detect_technical_terms other text ks) \<Longrightarrow> t \<in> set (terms_of ks) \<and> contains_term other text t"
  "t \<in> set (terms_of ks) \<Longrightarrow> contains_term other text t \<Longrightarrow>
     casefold other t \<in> casefold other ` set (detect_technical_terms other text ks)"
  using detect_in_packs_props [of other "([], [])" "text" ks]
  by (auto simp: detects_def detect_technical_terms_def distinct_keys_def split: prod.splits)

end
