(* ===== verification/Vad.thy ===== *)
theory Vad
  imports Py_Bytes Py_Float Models
begin

text \<open>
  \<^verbatim>\<open>vad.py\<close>: the energy detector that finds where an utterance starts and ends in frames of
  16-bit samples. Samples are 16-bit words read as signed integers, durations and levels are
  binary64 numbers; \<^verbatim>\<open>math.sqrt\<close> is a parameter. The lemmas: the invariant of the detector, that
  an utterance that has ended stays ended, and that it ends after boundedly many frames.
\<close>

section \<open>Data\<close>

datatype vad_phase = VadSILENCE | VadSPEECH_CANDIDATE | VadSPEAKING | VadSPEECH_ENDED | VadMAX_DURATION

fun vad_phase_value :: "vad_phase \<Rightarrow> string" where
  "vad_phase_value VadSILENCE = ''silence''"
| "vad_phase_value VadSPEECH_CANDIDATE = ''speech_candidate''"
| "vad_phase_value VadSPEAKING = ''speaking''"
| "vad_phase_value VadSPEECH_ENDED = ''speech_ended''"
| "vad_phase_value VadMAX_DURATION = ''max_duration''"

record vad_config =
  speech_threshold :: rat
  release_threshold :: rat
  speech_start_ms :: int
  speech_end_silence_ms :: int
  max_utterance_ms :: int

definition vad_config_ok :: "vad_config \<Rightarrow> bool" where
  "vad_config_ok c = (0 < speech_threshold c \<and> speech_threshold c < 1
     \<and> 0 < release_threshold c \<and> release_threshold c < 1
     \<and> 20 \<le> speech_start_ms c \<and> speech_start_ms c \<le> 2000
     \<and> 100 \<le> speech_end_silence_ms c \<and> speech_end_silence_ms c \<le> 5000
     \<and> 1000 \<le> max_utterance_ms c \<and> max_utterance_ms c \<le> 600000)"

definition VadConfig :: "vad_config \<Rightarrow> vad_config result" where
  "VadConfig c = raise_if (\<not> vad_config_ok c) (ValidationError ''VadConfig'')
     (raise_if (speech_threshold c \<le> release_threshold c)
       (ValidationError ''release_threshold must be lower than speech_threshold'') (Inr c))"

record vad_observation =
  vad_obs_state :: vad_phase
  vad_obs_rms :: rat
  vad_obs_peak :: rat
  vad_obs_frame_ms :: rat
  vad_obs_utterance_ms :: rat
  vad_obs_silence_ms :: rat
  vad_obs_speech_started :: bool
  vad_obs_speech_ended :: bool
  auto_commit_recommended :: bool

definition VadObservation :: "vad_observation \<Rightarrow> vad_observation result" where
  "VadObservation o' = raise_if (\<not> (0 \<le> vad_obs_rms o' \<and> vad_obs_rms o' \<le> 1 \<and> 0 \<le> vad_obs_peak o' \<and> vad_obs_peak o' \<le> 1
       \<and> 0 < vad_obs_frame_ms o' \<and> 0 \<le> vad_obs_utterance_ms o' \<and> 0 \<le> vad_obs_silence_ms o'))
     (ValidationError ''VadObservation'') (Inr o')"

record vad =
  vad_speaking :: bool
  vad_ended :: bool
  candidate_speech_ms :: rat
  utterance_ms :: rat
  silence_ms :: rat

definition vad_reset :: vad where
  "vad_reset = \<lparr> vad_speaking = False, vad_ended = False, candidate_speech_ms = 0, utterance_ms = 0,
     silence_ms = 0 \<rparr>"

section \<open>One frame\<close>

text \<open>\<^verbatim>\<open>struct.iter_unpack("<h", audio)\<close>: little-endian 16-bit two's complement.\<close>

definition pcm_sample :: "8 word \<Rightarrow> 8 word \<Rightarrow> int" where
  "pcm_sample lo hi = sint (push_bit 8 (ucast hi) OR ucast lo :: 16 word)"

fun pcm_samples :: "bytes \<Rightarrow> int list" where
  "pcm_samples (lo # hi # bs) = pcm_sample lo hi # pcm_samples bs"
| "pcm_samples _ = []"

text \<open>The sum of squares and the peak, in the order of the loop.\<close>

fun frame_energy :: "int list \<Rightarrow> rat \<times> int \<Rightarrow> rat \<times> int" where
  "frame_energy [] acc = acc"
| "frame_energy (x # xs) (square_sum, peak) =
     (let normalized = fl (of_int x / 32768)
      in frame_energy xs (fl (square_sum + fl (normalized * normalized)), max peak \<bar>x\<bar>))"

definition frame_duration :: "nat \<Rightarrow> int \<Rightarrow> rat" where
  "frame_duration frame_count rate = fl (fl (of_nat frame_count / of_int rate) * 1000)"

definition check_frame :: "bytes \<Rightarrow> int \<Rightarrow> nat \<Rightarrow> unit result" where
  "check_frame audio rate channels =
     raise_if (rate \<le> 0) (ValueError ''sample_rate_hz must be > 0'')
     (raise_if (channels \<notin> {1, 2}) (ValueError ''channels must be 1 or 2'')
     (raise_if (audio = []) (ValueError ''VAD audio frame cannot be empty'')
     (raise_if (length audio mod (2 * channels) \<noteq> 0)
       (ValueError ''PCM16 audio length must align to complete frames'')
     (raise_if (length audio div 2 div channels = 0)
       (ValueError ''PCM16 audio frame contains no samples'') (Inr ())))))"

text \<open>The transition: the level and the duration of the frame decide the next state, its name, and
  whether speech has just started or ended.\<close>

definition vad_advance :: "vad_config \<Rightarrow> rat \<Rightarrow> rat \<Rightarrow> vad \<Rightarrow> vad \<times> vad_phase \<times> bool \<times> bool" where
  "vad_advance c rms frame_ms v =
     (if \<not> vad_speaking v
      then (if speech_threshold c \<le> rms
            then let v1 = v\<lparr>candidate_speech_ms := fl (candidate_speech_ms v + frame_ms)\<rparr>
                 in if of_int (speech_start_ms c) \<le> candidate_speech_ms v1
                    then (v1\<lparr>vad_speaking := True, utterance_ms := candidate_speech_ms v1, silence_ms := 0\<rparr>,
                          VadSPEAKING, True, False)
                    else (v1, VadSPEECH_CANDIDATE, False, False)
            else (v\<lparr>candidate_speech_ms := 0\<rparr>, VadSILENCE, False, False))
      else let v1 = v\<lparr>utterance_ms := fl (utterance_ms v + frame_ms)\<rparr>;
               v2 = v1\<lparr>silence_ms := (if rms \<le> release_threshold c then fl (silence_ms v + frame_ms) else 0)\<rparr>
           in if of_int (max_utterance_ms c) \<le> utterance_ms v2
              then (v2\<lparr>vad_ended := True\<rparr>, VadMAX_DURATION, False, True)
              else if of_int (speech_end_silence_ms c) \<le> silence_ms v2
              then (v2\<lparr>vad_ended := True\<rparr>, VadSPEECH_ENDED, False, True)
              else (v2, VadSPEAKING, False, False))"

definition observation_of :: "vad \<Rightarrow> vad_phase \<Rightarrow> rat \<Rightarrow> rat \<Rightarrow> rat \<Rightarrow> bool \<Rightarrow> bool
    \<Rightarrow> vad_observation result" where
  "observation_of v st rms peak frame_ms started ended = VadObservation
     \<lparr> vad_obs_state = st, vad_obs_rms = py_round rms 6, vad_obs_peak = py_round peak 6,
       vad_obs_frame_ms = py_round frame_ms 3, vad_obs_utterance_ms = py_round (utterance_ms v) 3,
       vad_obs_silence_ms = py_round (silence_ms v) 3, vad_obs_speech_started = started, vad_obs_speech_ended = ended,
       auto_commit_recommended = ended \<rparr>"

definition vad_observe :: "(rat \<Rightarrow> rat) \<Rightarrow> vad_config \<Rightarrow> bytes \<Rightarrow> int \<Rightarrow> nat \<Rightarrow> vad
    \<Rightarrow> vad \<times> vad_observation result" where
  "vad_observe math_sqrt c audio rate channels v =
     (case check_frame audio rate channels of
        Inl e \<Rightarrow> (v, Inl e)
      | Inr _ \<Rightarrow>
          (let sample_count = length audio div 2; frame_count = sample_count div channels
           in case frame_energy (pcm_samples audio) (0, 0) of (square_sum, peak) \<Rightarrow>
              (let rms = math_sqrt (fl (square_sum / of_nat sample_count));
                   normalized_peak = min 1 (fl (of_int peak / 32768));
                   frame_ms = frame_duration frame_count rate
               in if vad_ended v
                  then (v, observation_of v VadSPEECH_ENDED rms normalized_peak frame_ms False True)
                  else case vad_advance c rms frame_ms v of (v', st, started, ended) \<Rightarrow>
                       (v', observation_of v' st rms normalized_peak frame_ms started ended))))"

section \<open>The invariant\<close>

text \<open>A detector that has ended was speaking; one that is not speaking has measured nothing; the
  silence is part of the utterance.\<close>

definition vad_ok :: "vad_config \<Rightarrow> vad \<Rightarrow> bool" where
  "vad_ok c v \<longleftrightarrow> (vad_ended v \<longrightarrow> vad_speaking v)
     \<and> 0 \<le> candidate_speech_ms v \<and> 0 \<le> silence_ms v \<and> silence_ms v \<le> utterance_ms v
     \<and> (\<not> vad_speaking v \<longrightarrow> utterance_ms v = 0 \<and> candidate_speech_ms v < of_int (speech_start_ms c))
     \<and> (vad_speaking v \<longrightarrow> of_int (speech_start_ms c) \<le> candidate_speech_ms v)
     \<and> (vad_ended v \<longrightarrow> of_int (max_utterance_ms c) \<le> utterance_ms v
          \<or> of_int (speech_end_silence_ms c) \<le> silence_ms v)"

lemma vad_reset_ok: "vad_config_ok c \<Longrightarrow> vad_ok c vad_reset"
  by (simp add: vad_ok_def vad_reset_def vad_config_ok_def)

lemma frame_duration_nonneg: "0 < rate \<Longrightarrow> 0 \<le> frame_duration n rate"
  by (simp add: frame_duration_def fl_nonneg)

lemma vad_advance_ok:
  assumes "vad_ok c v" and "\<not> vad_ended v" and "0 \<le> frame_ms" and "vad_config_ok c"
    and "vad_advance c rms frame_ms v = (v', st, started, ended)"
  shows "vad_ok c v'" and "ended \<longleftrightarrow> vad_ended v'" and "started \<longleftrightarrow> \<not> vad_speaking v \<and> vad_speaking v'"
    and "vad_speaking v \<Longrightarrow> vad_speaking v'"
  using assms fl_nonneg [of "candidate_speech_ms v + frame_ms"] fl_nonneg [of "silence_ms v + frame_ms"]
    fl_mono [of "silence_ms v + frame_ms" "utterance_ms v + frame_ms"] fl_nonneg [of "utterance_ms v + frame_ms"]
  by (auto simp: vad_advance_def vad_ok_def vad_config_ok_def Let_def split: if_splits)

section \<open>Frames in sequence\<close>

definition vad_run :: "(rat \<Rightarrow> rat) \<Rightarrow> vad_config \<Rightarrow> int \<Rightarrow> nat \<Rightarrow> bytes list \<Rightarrow> vad \<Rightarrow> vad" where
  "vad_run math_sqrt c rate channels frames v =
     fold (\<lambda>audio v. fst (vad_observe math_sqrt c audio rate channels v)) frames v"

definition frame_ms_of :: "bytes \<Rightarrow> int \<Rightarrow> nat \<Rightarrow> rat" where
  "frame_ms_of audio rate channels = frame_duration (length audio div 2 div channels) rate"

text \<open>A frame that is accepted moves the detector as its transition says, unless it has ended.\<close>

lemma vad_observe_cases:
  assumes "check_frame audio rate channels = Inr ()"
  obtains "vad_ended v" and "fst (vad_observe math_sqrt c audio rate channels v) = v"
  | rms v' st started ended where "\<not> vad_ended v"
      and "vad_advance c rms (frame_ms_of audio rate channels) v = (v', st, started, ended)"
      and "fst (vad_observe math_sqrt c audio rate channels v) = v'"
proof -
  obtain square_sum peak where energy: "frame_energy (pcm_samples audio) (0, 0) = (square_sum, peak)"
    by (cases "frame_energy (pcm_samples audio) (0, 0)")
  let ?rms = "math_sqrt (fl (square_sum / of_nat (length audio div 2)))"
  obtain v' st started ended where a: "vad_advance c ?rms (frame_ms_of audio rate channels) v
      = (v', st, started, ended)"
    by (cases "vad_advance c ?rms (frame_ms_of audio rate channels) v")
  show thesis
  proof (cases "vad_ended v")
    case True
    then show thesis using that(1) assms by (simp add: vad_observe_def energy Let_def)
  next
    case False
    then show thesis
      using that(2) [OF False a] a assms by (simp add: vad_observe_def energy Let_def frame_ms_of_def)
  qed
qed

lemma check_frame_rate: "check_frame audio rate channels = Inr u \<Longrightarrow> 0 < rate"
  by (auto simp: check_frame_def exn_simps)

lemma vad_observe_ok:
  assumes "vad_ok c v" and "vad_config_ok c"
  shows "vad_ok c (fst (vad_observe math_sqrt c audio rate channels v))"
    and "vad_ended v \<Longrightarrow> fst (vad_observe math_sqrt c audio rate channels v) = v"
    and "vad_speaking v \<Longrightarrow> vad_speaking (fst (vad_observe math_sqrt c audio rate channels v))"
proof -
  have "vad_ok c (fst (vad_observe math_sqrt c audio rate channels v))
    \<and> (vad_ended v \<longrightarrow> fst (vad_observe math_sqrt c audio rate channels v) = v)
    \<and> (vad_speaking v \<longrightarrow> vad_speaking (fst (vad_observe math_sqrt c audio rate channels v)))"
  proof (cases "check_frame audio rate channels")
    case (Inl e)
    then show ?thesis using assms by (simp add: vad_observe_def)
  next
    case (Inr u)
    then have ok: "check_frame audio rate channels = Inr ()" by simp
    have ms: "0 \<le> frame_ms_of audio rate channels"
      using frame_duration_nonneg [OF check_frame_rate [OF ok]] by (simp add: frame_ms_of_def)
    show ?thesis
    proof (rule vad_observe_cases [OF ok, of v math_sqrt c])
      fix rms v' st started ended
      assume e: "\<not> vad_ended v" and a: "vad_advance c rms (frame_ms_of audio rate channels) v = (v', st, started, ended)"
        and "fst (vad_observe math_sqrt c audio rate channels v) = v'"
      then show ?thesis using vad_advance_ok [OF assms(1) e ms assms(2) a] by simp
    qed (use assms in simp)
  qed
  then show "vad_ok c (fst (vad_observe math_sqrt c audio rate channels v))"
    "vad_ended v \<Longrightarrow> fst (vad_observe math_sqrt c audio rate channels v) = v"
    "vad_speaking v \<Longrightarrow> vad_speaking (fst (vad_observe math_sqrt c audio rate channels v))" by blast+
qed

lemma vad_run_ok: "vad_config_ok c \<Longrightarrow> vad_ok c v \<Longrightarrow> vad_ok c (vad_run math_sqrt c rate channels frames v)"
  by (induction frames arbitrary: v) (simp_all add: vad_run_def vad_observe_ok(1))

text \<open>Every frame of at least a millisecond lengthens the utterance by one, rounding included.\<close>

lemma vad_advance_longer:
  assumes "vad_speaking v" and "of_nat n \<le> utterance_ms v" and "1 \<le> frame_ms" and "int n < 2 ^ 53"
    and "vad_advance c rms frame_ms v = (v', st, started, ended)"
  shows "vad_ended v' \<or> of_nat (Suc n) \<le> utterance_ms v' \<and> utterance_ms v' < of_int (max_utterance_ms c)"
proof -
  have "fl (of_int (int (Suc n))) = of_int (int (Suc n))" by (rule fl_int_exact) (use assms(4) in simp)
  moreover have "fl (of_int (int (Suc n))) \<le> fl (utterance_ms v + frame_ms)"
    by (rule fl_mono) (use assms(2,3) in simp)
  ultimately have "of_nat (Suc n) \<le> fl (utterance_ms v + frame_ms)" by simp
  then show ?thesis using assms(1,5) by (auto simp: vad_advance_def Let_def split: if_splits)
qed

lemma vad_run_longer:
  assumes "\<forall>audio\<in>set frames. check_frame audio rate channels = Inr () \<and> 1 \<le> frame_ms_of audio rate channels"
    and "vad_config_ok c" and "vad_ok c v" and "vad_speaking v"
    and "vad_ended v \<or> of_nat n \<le> utterance_ms v" and "int n + int (length frames) < 2 ^ 53" and "frames \<noteq> []"
  shows "vad_ended (vad_run math_sqrt c rate channels frames v)
    \<or> of_nat (n + length frames) \<le> utterance_ms (vad_run math_sqrt c rate channels frames v)
      \<and> utterance_ms (vad_run math_sqrt c rate channels frames v) < of_int (max_utterance_ms c)"
  using assms
proof (induction frames arbitrary: v n)
  case (Cons audio frames)
  let ?v = "fst (vad_observe math_sqrt c audio rate channels v)"
  have ok: "check_frame audio rate channels = Inr ()" and ms: "1 \<le> frame_ms_of audio rate channels"
    using Cons.prems(1) by simp_all
  note keep = vad_observe_ok [OF Cons.prems(3,2), of math_sqrt audio rate channels]
  have step: "vad_ended ?v \<or> of_nat (Suc n) \<le> utterance_ms ?v \<and> utterance_ms ?v < of_int (max_utterance_ms c)"
  proof (rule vad_observe_cases [OF ok, of v math_sqrt c])
    fix rms v' st started ended
    assume "\<not> vad_ended v" and a: "vad_advance c rms (frame_ms_of audio rate channels) v = (v', st, started, ended)"
      and "fst (vad_observe math_sqrt c audio rate channels v) = v'"
    then show ?thesis
      using vad_advance_longer [OF Cons.prems(4) _ ms _ a, of n] Cons.prems(5,6) by simp
  qed simp
  have run: "vad_run math_sqrt c rate channels (audio # frames) v = vad_run math_sqrt c rate channels frames ?v"
    by (simp add: vad_run_def)
  show ?case
  proof (cases "frames = []")
    case True
    then show ?thesis using step by (simp add: vad_run_def)
  next
    case False
    from Cons.IH [OF _ Cons.prems(2) keep(1) keep(3) [OF Cons.prems(4)] _ _ False, of "Suc n"]
    show ?thesis unfolding run using step Cons.prems(1,6) by auto
  qed
qed simp

lemma utterance_ends_after:
  assumes "\<forall>audio\<in>set frames. check_frame audio rate channels = Inr () \<and> 1 \<le> frame_ms_of audio rate channels"
    and "vad_config_ok c" and "vad_ok c v" and "vad_speaking v"
    and "nat (max_utterance_ms c) \<le> length frames" and "int (length frames) < 2 ^ 53"
  shows "vad_ended (vad_run math_sqrt c rate channels frames v)"
proof -
  have "0 \<le> utterance_ms v" using assms(3) by (auto simp: vad_ok_def)
  then have n: "vad_ended v \<or> of_nat 0 \<le> utterance_ms v" by simp
  have "frames \<noteq> []" using assms(2,5) by (auto simp: vad_config_ok_def)
  from vad_run_longer [OF assms(1-4) n _ this, of math_sqrt] assms(6)
  have "vad_ended (vad_run math_sqrt c rate channels frames v)
    \<or> (of_nat (length frames) :: rat) < of_int (max_utterance_ms c)" by force
  moreover have "\<not> (of_nat (length frames) :: rat) < of_int (max_utterance_ms c)"
    using assms(5) by (metis (no_types, opaque_lifting) nat_le_iff not_less of_int_le_iff of_int_of_nat_eq)
  ultimately show ?thesis by blast
qed

end
