(* ===== verification/Voice.thy ===== *)
theory Voice
  imports Service_Steps Language_Profiles Vad
begin

text \<open>
  \<^verbatim>\<open>voice.py\<close>: the realtime voice coordinator. Its state of a session lives in the process, next
  to the stored session, and is changed in place before the session is stored; so a step
  returns the new voice state even when it raises. The steps on the session only append
  events. The lemmas: the invariant of the voice state, that every interruption of speech is
  counted, and that the steps keep what the interview service keeps.
\<close>

section \<open>Data\<close>

datatype voice_phase = IDLE | LISTENING | PROCESSING | SPEAKING | CLOSED

fun voice_phase_value :: "voice_phase \<Rightarrow> string" where
  "voice_phase_value IDLE = ''idle''"
| "voice_phase_value LISTENING = ''listening''"
| "voice_phase_value PROCESSING = ''processing''"
| "voice_phase_value SPEAKING = ''speaking''"
| "voice_phase_value CLOSED = ''closed''"

record transcript_event =
  tre_text :: string
  tre_confidence :: "rat option"
  tre_locale :: "string option"
  tre_dialect :: "string option"
  tre_packs :: "string list"
  tre_reference_text :: "string option"
  tre_critical_terms :: "string list"

definition transcript_event_ok :: "transcript_event \<Rightarrow> bool" where
  "transcript_event_ok ev = (len_between 1 20000 (tre_text ev)
     \<and> opt_all (\<lambda>c. 0 \<le> c \<and> c \<le> 1) (tre_confidence ev) \<and> opt_all (len_between 2 32) (tre_locale ev)
     \<and> opt_all (len_between 2 80) (tre_dialect ev) \<and> opt_all (len_between 1 20000) (tre_reference_text ev))"

record transport_selection =
  sel_direction :: string
  sel_transport :: string
  sel_provider_id :: "string option"
  sel_reason :: "string option"

definition transport_selection_ok :: "transport_selection \<Rightarrow> bool" where
  "transport_selection_ok x = (sel_direction x \<in> {''stt'', ''tts''} \<and> sel_transport x \<in> {''server'', ''browser''}
     \<and> opt_all (\<lambda>p. length p \<le> 200) (sel_provider_id x) \<and> opt_all (\<lambda>r. length r \<le> 1000) (sel_reason x))"

record transport_fallback =
  fbk_direction :: string
  fbk_from_transport :: string
  fbk_to_transport :: string
  fbk_reason :: string

definition transport_fallback_ok :: "transport_fallback \<Rightarrow> bool" where
  "transport_fallback_ok x = (fbk_direction x \<in> {''stt'', ''tts''}
     \<and> fbk_from_transport x \<in> {''server'', ''browser''} \<and> fbk_to_transport x \<in> {''server'', ''browser''}
     \<and> len_between 1 1000 (fbk_reason x) \<and> fbk_from_transport x \<noteq> fbk_to_transport x)"

record voice_state =
  voice_session_id :: string
  phase :: voice_phase
  generation :: int
  interruption_count :: int
  active_tts_turn_id :: "string option"
  speech_started_at_ms :: "int option"
  response_ready_at_ms :: "int option"
  last_speech_to_final_ms :: "int option"
  last_final_to_response_ms :: "int option"
  last_response_to_tts_ms :: "int option"

definition new_voice_state :: "string \<Rightarrow> voice_state" where
  "new_voice_state sid = \<lparr> voice_session_id = sid, phase = IDLE, generation = 0, interruption_count = 0,
     active_tts_turn_id = None, speech_started_at_ms = None, response_ready_at_ms = None,
     last_speech_to_final_ms = None, last_final_to_response_ms = None, last_response_to_tts_ms = None \<rparr>"

text \<open>\<^verbatim>\<open>_state_ref\<close>: the states of the process, by session.\<close>

type_synonym voice_states = "(string, voice_state) dict"

definition state_ref :: "voice_states \<Rightarrow> string \<Rightarrow> voice_state" where
  "state_ref vs sid = dict_get_or vs sid (new_voice_state sid)"

lemma state_ref_set: "state_ref (dict_set k v vs) i = (if i = k then v else state_ref vs i)"
  by (simp add: state_ref_def dict_get_or_def)

section \<open>Steps\<close>

text \<open>The rounded clock readings \<^verbatim>\<open>round(clock() * 1000)\<close> of a step, in order; and the language
  profile's parameters.\<close>

record voice_env =
  venv :: env
  clock_ms :: "nat \<Rightarrow> int"
  fold_other :: "nat \<Rightarrow> unicode"
  of_unicode :: "unicode \<Rightarrow> string"

definition now_ms :: "voice_env \<Rightarrow> nat \<Rightarrow> int" where
  "now_ms X n = max 0 (clock_ms X n)"

type_synonym voice_step = "voice_state \<times> interview_session result"

text \<open>Go on with the session, or raise with the voice state as it is.\<close>

definition voice_log :: "voice_state \<Rightarrow> interview_session result \<Rightarrow> (interview_session \<Rightarrow> voice_step)
    \<Rightarrow> voice_step" where
  "voice_log v r k = (case r of Inl e \<Rightarrow> (v, Inl e) | Inr s \<Rightarrow> k s)"

definition ensure_input_allowed :: "interview_session \<Rightarrow> voice_state \<Rightarrow> (voice_state \<Rightarrow> voice_step)
    \<Rightarrow> voice_step" where
  "ensure_input_allowed s v k =
     (if status s = COMPLETED then (v\<lparr>phase := CLOSED\<rparr>, Inl (http 409 ''Interview is already complete''))
      else if status s = CANCELLED then (v\<lparr>phase := CLOSED\<rparr>, Inl (http 409 ''Interview is cancelled''))
      else k v)"

definition speech_started_step :: "voice_env \<Rightarrow> interview_session \<Rightarrow> voice_state \<Rightarrow> voice_step" where
  "speech_started_step X s v = ensure_input_allowed s v (\<lambda>v.
     let now = now_ms X 0;
         listen = (\<lambda>v s. let v1 = v\<lparr>phase := LISTENING, speech_started_at_ms := Some now\<rparr>
            in (v1, append_event (venv X) VOICE_SPEECH_STARTED None
                 [(''generation'', JInt (generation v1)), (''started_at_ms'', JInt now)] s))
     in if phase v = SPEAKING
        then let previous = active_tts_turn_id v;
                 v1 = v\<lparr>interruption_count := interruption_count v + 1, generation := generation v + 1\<rparr>
             in voice_log v1 (append_event (venv X) VOICE_BARGE_IN None
                  [(''generation'', JInt (generation v1)), (''interrupted_turn_id'', jopt_str previous),
                   (''interruption_count'', JInt (interruption_count v1))] s) (\<lambda>s1.
                voice_log v1 (append_event (venv X) VOICE_TTS_CANCELLED None
                  [(''turn_id'', jopt_str previous), (''reason'', JStr ''barge_in''),
                   (''generation'', JInt (generation v1))] s1) (\<lambda>s2.
                listen (v1\<lparr>active_tts_turn_id := None\<rparr>) s2))
        else listen v s)"

definition transcript_partial_step :: "voice_env \<Rightarrow> transcript_event \<Rightarrow> interview_session \<Rightarrow> voice_state
    \<Rightarrow> voice_step" where
  "transcript_partial_step X ev s v = ensure_input_allowed s v (\<lambda>v.
     if phase v \<noteq> LISTENING
     then (v, Inl (http 409 (''Partial transcript received while voice phase is '' @ voice_phase_value (phase v))))
     else (v, append_event (venv X) VOICE_TRANSCRIPT_PARTIAL None
            [(''text'', JStr (tre_text ev)), (''confidence'', jopt_float (tre_confidence ev)),
             (''generation'', JInt (generation v))] s))"

text \<open>\<^verbatim>\<open>event.locale or session.locale\<close>.\<close>

definition language_of :: "voice_env \<Rightarrow> transcript_event \<Rightarrow> interview_session \<Rightarrow> language_metadata result" where
  "language_of X ev s = build_language_metadata (fold_other X) (code_points (tre_text ev))
     (case tre_locale ev of Some l \<Rightarrow> if l = [] then session_locale s else l | None \<Rightarrow> session_locale s)
     (tre_dialect ev) (tre_packs ev) (map_option code_points (tre_reference_text ev)) (tre_critical_terms ev)"

definition value_error_422 :: "exn \<Rightarrow> exn" where
  "value_error_422 e = (if is_value_error e then http 422 (exn_str e) else e)"

text \<open>The first half of a final transcript, up to the write.\<close>

definition transcript_final_step :: "voice_env \<Rightarrow> transcript_event \<Rightarrow> interview_session \<Rightarrow> voice_state
    \<Rightarrow> voice_step" where
  "transcript_final_step X ev s v = ensure_input_allowed s v (\<lambda>v.
     if phase v \<noteq> LISTENING
     then (v, Inl (http 409 (''Final transcript received while voice phase is '' @ voice_phase_value (phase v))))
     else let v1 = (case speech_started_at_ms v of None \<Rightarrow> v
                | Some t \<Rightarrow> v\<lparr>last_speech_to_final_ms := Some (max 0 (now_ms X 0 - t))\<rparr>)
          in case language_of X ev s of
               Inl e \<Rightarrow> (v1, Inl (value_error_422 e))
             | Inr m \<Rightarrow> (v1, append_event (venv X) VOICE_TRANSCRIPT_FINAL None
                 [(''text'', JStr (tre_text ev)), (''confidence'', jopt_float (tre_confidence ev)),
                  (''generation'', JInt (generation v1)),
                  (''speech_to_final_ms'', jopt_int (last_speech_to_final_ms v1)),
                  (''language_metadata'', JObj (metadata_dict (of_unicode X) m))] s))"

text \<open>The second half, after the answer: readings 1 and 2 are those around it.\<close>

definition response_ready_state :: "voice_env \<Rightarrow> session_step \<Rightarrow> voice_state \<Rightarrow> voice_state" where
  "response_ready_state X st v =
     v\<lparr>last_final_to_response_ms := Some (max 0 (now_ms X 2 - now_ms X 1)),
       response_ready_at_ms := Some (now_ms X 2),
       active_tts_turn_id := map_option turn_id (step_turn st)\<rparr>"

definition response_ready_step :: "voice_env \<Rightarrow> session_step \<Rightarrow> interview_session \<Rightarrow> voice_state
    \<Rightarrow> voice_step" where
  "response_ready_step X st s v =
     (let v1 = response_ready_state X st v
      in (v1, append_event (venv X) VOICE_RESPONSE_READY (step_turn st)
            [(''generation'', JInt (generation v1)),
             (''final_to_response_ms'', jopt_int (last_final_to_response_ms v1)),
             (''interviewer_turn_id'', jopt_str (map_option turn_id (step_turn st)))] s))"

definition tts_started_step :: "voice_env \<Rightarrow> string \<Rightarrow> interview_session \<Rightarrow> voice_state \<Rightarrow> voice_step" where
  "tts_started_step X tid s v =
     (if status s = CANCELLED then (v\<lparr>phase := CLOSED\<rparr>, Inl (http 409 ''Interview is cancelled''))
      else case turn_with_id s tid of
        None \<Rightarrow> (v, Inl (http 400 ''TTS event references unknown turn''))
      | Some known \<Rightarrow>
          if active_tts_turn_id v \<noteq> None \<and> active_tts_turn_id v \<noteq> Some tid
          then (v, Inl (http 409 ''TTS started for a stale interviewer turn''))
          else let v1 = (case response_ready_at_ms v of None \<Rightarrow> v
                     | Some t \<Rightarrow> v\<lparr>last_response_to_tts_ms := Some (max 0 (now_ms X 0 - t))\<rparr>);
                   v2 = v1\<lparr>phase := SPEAKING, active_tts_turn_id := Some tid\<rparr>
               in (v2, append_event (venv X) VOICE_TTS_STARTED (Some known)
                     [(''generation'', JInt (generation v2)),
                      (''response_to_tts_ms'', jopt_int (last_response_to_tts_ms v2))] s))"

text \<open>The events of these two are appended before the voice state changes.\<close>

definition tts_completed_step :: "voice_env \<Rightarrow> string \<Rightarrow> interview_session \<Rightarrow> voice_state \<Rightarrow> voice_step" where
  "tts_completed_step X tid s v =
     (if active_tts_turn_id v \<noteq> Some tid
      then (v, Inl (http 409 ''TTS completion does not match the active interviewer turn''))
      else voice_log v (append_event (venv X) VOICE_TTS_COMPLETED (turn_with_id s tid)
             [(''generation'', JInt (generation v))] s) (\<lambda>s1.
           (v\<lparr>active_tts_turn_id := None, response_ready_at_ms := None, speech_started_at_ms := None,
              phase := (if status s = COMPLETED then CLOSED else IDLE)\<rparr>, Inr s1)))"

definition tts_cancelled_step :: "voice_env \<Rightarrow> string \<Rightarrow> string \<Rightarrow> interview_session \<Rightarrow> voice_state
    \<Rightarrow> voice_step" where
  "tts_cancelled_step X tid reason s v =
     (if active_tts_turn_id v \<noteq> Some tid
      then (v, Inl (http 409 ''TTS cancellation does not match the active interviewer turn''))
      else voice_log v (append_event (venv X) VOICE_TTS_CANCELLED (turn_with_id s tid)
             [(''generation'', JInt (generation v)), (''reason'', JStr reason)] s) (\<lambda>s1.
           (v\<lparr>active_tts_turn_id := None, response_ready_at_ms := None, phase := IDLE\<rparr>, Inr s1)))"

definition provider_failed_step :: "voice_env \<Rightarrow> string \<Rightarrow> string \<Rightarrow> string \<Rightarrow> string \<Rightarrow> interview_session
    \<Rightarrow> interview_session result" where
  "provider_failed_step X direction provider error_type message s =
     append_event (venv X) VOICE_PROVIDER_FAILED None
       [(''direction'', JStr direction), (''provider_id'', JStr provider),
        (''error_type'', JStr error_type), (''message'', JStr (take 1000 message))] s"

text \<open>\<^verbatim>\<open>model_dump(mode="json", exclude_none=True)\<close>.\<close>

definition transport_selected_step :: "voice_env \<Rightarrow> transport_selection \<Rightarrow> interview_session
    \<Rightarrow> interview_session result" where
  "transport_selected_step X sel s = append_event (venv X) VOICE_TRANSPORT_SELECTED None
     (filter (\<lambda>kv. snd kv \<noteq> JNull)
        [(''direction'', JStr (sel_direction sel)), (''transport'', JStr (sel_transport sel)),
         (''provider_id'', jopt_str (sel_provider_id sel)), (''reason'', jopt_str (sel_reason sel))]) s"

definition transport_fallback_step :: "voice_env \<Rightarrow> transport_fallback \<Rightarrow> interview_session
    \<Rightarrow> interview_session result" where
  "transport_fallback_step X x s = append_event (venv X) VOICE_TRANSPORT_FALLBACK None
     [(''direction'', JStr (fbk_direction x)), (''from_transport'', JStr (fbk_from_transport x)),
      (''to_transport'', JStr (fbk_to_transport x)), (''reason'', JStr (fbk_reason x))] s"

definition vad_endpoint_step :: "voice_env \<Rightarrow> vad_observation \<Rightarrow> interview_session \<Rightarrow> voice_state
    \<Rightarrow> voice_step" where
  "vad_endpoint_step X o' s v = (v, append_event (venv X) VOICE_VAD_ENDPOINT None
     [(''generation'', JInt (generation v)), (''state'', JStr (vad_phase_value (vad_obs_state o'))),
      (''utterance_ms'', JFloat (vad_obs_utterance_ms o')), (''silence_ms'', JFloat (vad_obs_silence_ms o')),
      (''frame_ms'', JFloat (vad_obs_frame_ms o')),
      (''auto_commit_recommended'', JBool (auto_commit_recommended o'))] s)"

text \<open>Closing: the generation changes first, the rest after the write, if there is one.\<close>

definition close_begin :: "voice_state \<Rightarrow> voice_state" where
  "close_begin v = v\<lparr>generation := generation v + 1\<rparr>"

definition close_event :: "voice_env \<Rightarrow> string \<Rightarrow> interview_session \<Rightarrow> voice_state
    \<Rightarrow> interview_session option result" where
  "close_event X reason s v = (case active_tts_turn_id v of
      None \<Rightarrow> Inr None
    | Some tid \<Rightarrow> map_sum id Some (append_event (venv X) VOICE_TTS_CANCELLED (turn_with_id s tid)
        [(''generation'', JInt (generation v)), (''reason'', JStr reason)] s))"

definition close_end :: "voice_state \<Rightarrow> voice_state" where
  "close_end v = v\<lparr>active_tts_turn_id := None, response_ready_at_ms := None, speech_started_at_ms := None,
     phase := CLOSED\<rparr>"

section \<open>The operations\<close>

datatype voice_op =
    SpeechStarted
  | TranscriptPartial transcript_event
  | TranscriptFinal transcript_event
  | ResponseReady session_step
  | TtsStarted string
  | TtsCompleted string
  | TtsCancelled string string
  | ProviderFailed string string string string
  | TransportSelected transport_selection
  | TransportFallback transport_fallback
  | VadEndpoint vad_observation
  | CloseVoice string

text \<open>What an operation does before its write: the voice state, and the session to write.\<close>

definition voice_op_step :: "voice_env \<Rightarrow> voice_op \<Rightarrow> interview_session \<Rightarrow> voice_state
    \<Rightarrow> voice_state \<times> interview_session option result" where
  "voice_op_step X op s v =
     (let writes = (\<lambda>(v', r). (v', map_sum id Some r)) in case op of
        SpeechStarted \<Rightarrow> writes (speech_started_step X s v)
      | TranscriptPartial ev \<Rightarrow> writes (transcript_partial_step X ev s v)
      | TranscriptFinal ev \<Rightarrow> writes (transcript_final_step X ev s v)
      | ResponseReady st \<Rightarrow> writes (response_ready_step X st s v)
      | TtsStarted tid \<Rightarrow> writes (tts_started_step X tid s v)
      | TtsCompleted tid \<Rightarrow> writes (tts_completed_step X tid s v)
      | TtsCancelled tid reason \<Rightarrow> writes (tts_cancelled_step X tid reason s v)
      | ProviderFailed d p t m \<Rightarrow> writes (v, provider_failed_step X d p t m s)
      | TransportSelected sel \<Rightarrow> writes (v, transport_selected_step X sel s)
      | TransportFallback x \<Rightarrow> writes (v, transport_fallback_step X x s)
      | VadEndpoint o' \<Rightarrow> writes (vad_endpoint_step X o' s v)
      | CloseVoice reason \<Rightarrow> (close_begin v, close_event X reason s (close_begin v)))"

text \<open>And after a write that succeeded, or that was not needed.\<close>

definition voice_op_end :: "voice_op \<Rightarrow> voice_state \<Rightarrow> voice_state" where
  "voice_op_end op v = (case op of
      TranscriptFinal ev \<Rightarrow> v\<lparr>phase := PROCESSING\<rparr>
    | ResponseReady st \<Rightarrow>
        if step_status st = COMPLETED \<and> step_turn st = None then v\<lparr>phase := CLOSED\<rparr> else v
    | CloseVoice reason \<Rightarrow> close_end v
    | _ \<Rightarrow> v)"

definition persist_voice :: "(interview_session \<Rightarrow> 'st \<Rightarrow> 'st result) \<Rightarrow> interview_session \<Rightarrow> 'st
    \<Rightarrow> 'st result" where
  "persist_voice put s st =
     (case put s st of
        Inr st' \<Rightarrow> Inr st'
      | Inl (StoreConflictError m) \<Rightarrow> Inl (http 409
          (''Voice state changed concurrently. '' @ ''Reload the session and retry the voice event.''))
      | Inl e \<Rightarrow> Inl e)"

text \<open>One operation on the store: the voice state of a missing session is not created.\<close>

definition voice_transact :: "('st \<Rightarrow> string \<Rightarrow> interview_session option)
    \<Rightarrow> (interview_session \<Rightarrow> 'st \<Rightarrow> 'st result) \<Rightarrow> voice_env \<Rightarrow> string \<Rightarrow> voice_op \<Rightarrow> 'st \<times> voice_states
    \<Rightarrow> ('st \<times> voice_states) \<times> voice_state result" where
  "voice_transact get put X sid op stv =
     (case stv of (st, vs) \<Rightarrow>
      (case load_session get sid st of
         Inl e \<Rightarrow> (stv, Inl e)
       | Inr s \<Rightarrow>
          (case voice_op_step X op s (state_ref vs sid) of (v1, r) \<Rightarrow>
            (case r of
               Inl e \<Rightarrow> ((st, dict_set sid v1 vs), Inl e)
             | Inr None \<Rightarrow> ((st, dict_set sid (voice_op_end op v1) vs), Inr (voice_op_end op v1))
             | Inr (Some s') \<Rightarrow>
                 (case persist_voice put s' st of
                    Inl e \<Rightarrow> ((st, dict_set sid v1 vs), Inl e)
                  | Inr st' \<Rightarrow>
                      ((st', dict_set sid (voice_op_end op v1) vs), Inr (voice_op_end op v1)))))))"

record voice_turn_result =
  vtr_state :: voice_state
  vtr_interviewer_turn :: "turn option"
  vtr_tool_invocation :: "tool_invocation option"
  vtr_completed :: bool

text \<open>\<^verbatim>\<open>transcript_final\<close>: the transcript is stored, the interview service answers, and the response is
  stored; if the answer fails, the transcript stays and the phase is \<open>PROCESSING\<close>.\<close>

definition transcript_final :: "('st \<Rightarrow> string \<Rightarrow> interview_session option)
    \<Rightarrow> ('st \<Rightarrow> string \<Rightarrow> job_spec option) \<Rightarrow> (interview_session \<Rightarrow> 'st \<Rightarrow> 'st result)
    \<Rightarrow> service_config \<Rightarrow> voice_env \<Rightarrow> env \<Rightarrow> string \<Rightarrow> transcript_event
    \<Rightarrow> ('st \<times> challenges) \<times> voice_states \<Rightarrow> (('st \<times> challenges) \<times> voice_states) \<times> voice_turn_result result" where
  "transcript_final get get_job put C X E sid ev stp =
     (case stp of ((st, priv), vs) \<Rightarrow>
      (case load_session get sid st of
         Inl e \<Rightarrow> (stp, Inl e)
       | Inr s \<Rightarrow>
      (case voice_transact get put X sid (TranscriptFinal ev) (st, vs) of
         ((st1, vs1), Inl e) \<Rightarrow> (((st1, priv), vs1), Inl e)
       | ((st1, vs1), Inr v1) \<Rightarrow>
      (case language_of X ev s of
         Inl e \<Rightarrow> (((st1, priv), vs1), Inl (value_error_422 e))
       | Inr m \<Rightarrow>
      (case answer_handler get get_job put C E sid (tre_text ev) (metadata_dict (of_unicode X) m) (st1, priv) of
         (stp2, Inl e) \<Rightarrow> ((stp2, vs1), Inl e)
       | (stp2, Inr step) \<Rightarrow>
      (case load_session get sid (fst stp2) of
         Inl e \<Rightarrow> ((stp2, dict_set sid (response_ready_state X step v1) vs1), Inl e)
       | Inr current \<Rightarrow>
      (case voice_transact get put X sid (ResponseReady step) (fst stp2, vs1) of
         ((st3, vs3), Inl e) \<Rightarrow> (((st3, snd stp2), vs3), Inl e)
       | ((st3, vs3), Inr v3) \<Rightarrow> (((st3, snd stp2), vs3), Inr
            \<lparr> vtr_state = v3, vtr_interviewer_turn = step_turn step, vtr_tool_invocation = step_tool step,
              vtr_completed = (step_status step = COMPLETED) \<rparr>))))))))"

section \<open>The invariant of the voice state\<close>

text \<open>Counters do not go down, speaking has an active turn, and clock differences are not negative.\<close>

definition voice_ok :: "voice_state \<Rightarrow> bool" where
  "voice_ok v \<longleftrightarrow> 0 \<le> interruption_count v \<and> interruption_count v \<le> generation v
     \<and> (phase v = SPEAKING \<longrightarrow> active_tts_turn_id v \<noteq> None)
     \<and> opt_all (\<lambda>t. 0 \<le> t) (last_speech_to_final_ms v) \<and> opt_all (\<lambda>t. 0 \<le> t) (last_final_to_response_ms v)
     \<and> opt_all (\<lambda>t. 0 \<le> t) (last_response_to_tts_ms v)"

lemma new_voice_state_ok: "voice_ok (new_voice_state sid)"
  by (simp add: voice_ok_def new_voice_state_def opt_all_def)

lemma now_ms_nonneg [simp]: "0 \<le> now_ms X n"
  by (simp add: now_ms_def)

lemma voice_log_cases:
  "voice_log v r k = (v', res) \<longleftrightarrow> (\<exists>e. r = Inl e \<and> v' = v \<and> res = Inl e) \<or> (\<exists>s. r = Inr s \<and> k s = (v', res))"
  by (cases r) (auto simp: voice_log_def)

lemma ensure_input_allowed_cases:
  "ensure_input_allowed s v k = (v', r) \<longleftrightarrow>
     (if status s \<in> {COMPLETED, CANCELLED}
      then v' = v\<lparr>phase := CLOSED\<rparr> \<and> r = Inl (http 409 (if status s = COMPLETED
             then ''Interview is already complete'' else ''Interview is cancelled''))
      else k v = (v', r))"
  by (auto simp: ensure_input_allowed_def)

text \<open>A response without a next turn must not meet a coordinator that speaks.\<close>

definition response_due :: "voice_op \<Rightarrow> voice_state \<Rightarrow> bool" where
  "response_due op v \<longleftrightarrow> (\<forall>st. op = ResponseReady st \<longrightarrow> step_turn st \<noteq> None \<or> phase v \<noteq> SPEAKING)"

lemma speech_started_voice:
  assumes "speech_started_step X s v = (v', r)"
  shows "voice_ok v \<Longrightarrow> voice_ok v'" and "generation v \<le> generation v'"
    and "interruption_count v \<le> interruption_count v'"
  using assms
  by (auto simp: speech_started_step_def ensure_input_allowed_cases Let_def voice_log_cases voice_ok_def
      split: if_splits)

definition voice_moves :: "voice_op \<Rightarrow> voice_state \<Rightarrow> voice_state \<Rightarrow> bool" where
  "voice_moves op v v' \<longleftrightarrow> (voice_ok v \<longrightarrow> response_due op v \<longrightarrow> voice_ok v') \<and> generation v \<le> generation v'
     \<and> interruption_count v \<le> interruption_count v'"

lemma voice_moves_refl: "voice_moves op v v"
  by (simp add: voice_moves_def)

lemma voice_moves_simps:
  "voice_moves op v (v\<lparr>phase := CLOSED\<rparr>)"
  "voice_moves op v (close_begin v)"
  by (auto simp: voice_moves_def voice_ok_def close_begin_def)

lemma transcript_final_voice:
  assumes "transcript_final_step X ev s v = (v', r)"
  shows "voice_moves op v v'"
proof -
  let ?v1 = "case speech_started_at_ms v of None \<Rightarrow> v
    | Some t \<Rightarrow> v\<lparr>last_speech_to_final_ms := Some (max 0 (now_ms X 0 - t))\<rparr>"
  have v1: "voice_moves op v ?v1"
    by (cases "speech_started_at_ms v") (auto simp: voice_moves_def voice_ok_def opt_all_def)
  have "v' \<in> {v\<lparr>phase := CLOSED\<rparr>, v, ?v1}"
    using assms unfolding transcript_final_step_def ensure_input_allowed_def Let_def
    by (cases "language_of X ev s") (simp_all split: if_splits)
  then show ?thesis using v1 voice_moves_simps(1) voice_moves_refl by blast
qed

lemma tts_started_voice:
  assumes "tts_started_step X tid s v = (v', r)"
  shows "voice_moves op v v'"
proof (cases "turn_with_id s tid")
  case None
  then show ?thesis using assms by (auto simp: tts_started_step_def voice_moves_simps voice_moves_refl split: if_splits)
next
  case (Some t)
  then show ?thesis using assms
    by (cases "response_ready_at_ms v")
      (auto simp: tts_started_step_def Let_def voice_moves_simps voice_moves_refl voice_moves_def voice_ok_def
        opt_all_def split: if_splits)
qed

lemma voice_op_step_voice:
  assumes "voice_op_step X op s v = (v', r)"
  shows "voice_moves op v v'"
proof (cases op)
  case SpeechStarted
  then obtain r' where "speech_started_step X s v = (v', r')"
    using assms by (auto simp: voice_op_step_def split: prod.splits)
  from speech_started_voice [OF this] show ?thesis by (simp add: voice_moves_def)
next
  case (TranscriptPartial ev)
  then show ?thesis using assms
    by (auto simp: voice_op_step_def transcript_partial_step_def ensure_input_allowed_def voice_moves_simps
        voice_moves_refl split: if_splits)
next
  case (TranscriptFinal ev)
  then obtain r' where "transcript_final_step X ev s v = (v', r')"
    using assms by (auto simp: voice_op_step_def split: prod.splits)
  from transcript_final_voice [OF this] show ?thesis .
next
  case (ResponseReady st)
  then show ?thesis using assms
    by (auto simp: voice_op_step_def response_ready_step_def response_ready_state_def Let_def voice_moves_def
        voice_ok_def opt_all_def response_due_def)
next
  case (TtsStarted tid)
  then obtain r' where "tts_started_step X tid s v = (v', r')"
    using assms by (auto simp: voice_op_step_def split: prod.splits)
  from tts_started_voice [OF this] show ?thesis .
next
  case (TtsCompleted tid)
  then show ?thesis using assms
    by (auto simp: voice_op_step_def tts_completed_step_def voice_log_def voice_moves_def voice_ok_def
        split: if_splits sum.splits)
next
  case (TtsCancelled tid reason)
  then show ?thesis using assms
    by (auto simp: voice_op_step_def tts_cancelled_step_def voice_log_def voice_moves_def voice_ok_def
        split: if_splits sum.splits)
qed (use assms in \<open>auto simp: voice_op_step_def vad_endpoint_step_def voice_moves_refl voice_moves_simps\<close>)

lemma voice_op_end_voice:
  "voice_ok v \<Longrightarrow> voice_ok (voice_op_end op v)" "generation (voice_op_end op v) = generation v"
  "interruption_count (voice_op_end op v) = interruption_count v"
  by (auto simp: voice_op_end_def voice_ok_def close_end_def split: voice_op.splits)

section \<open>The steps keep what the service keeps\<close>

lemma map_sum_Some_prod: "map_sum id Some r = Inr (Some x) \<longleftrightarrow> r = Inr x"
  by (cases r) simp_all

lemma speech_started_keeps:
  assumes "speech_started_step X s v = (v', Inr s')" and "session_ok (rt (venv X)) s" and "closed_ok s"
  shows "step_keeps (rt (venv X)) s s'"
proof -
  have one: "step_keeps (rt (venv X)) s u"
    if "append_event (venv X) ty t p s = Inr u" for ty t p u
    by (rule append_event_step_keeps [OF that assms(2,3)]) simp_all
  have more: "step_keeps (rt (venv X)) s u'"
    if "step_keeps (rt (venv X)) s u" and "append_event (venv X) ty t p u = Inr u'" for ty t p u u'
  proof (rule step_keeps_trans [OF that(1)])
    have "session_ok (rt (venv X)) u" "closed_ok u" using that(1) by (simp_all add: step_keeps_def)
    from append_event_step_keeps [OF that(2) this] show "step_keeps (rt (venv X)) u u'" by simp
  qed
  show ?thesis
    using assms(1) by (auto simp: speech_started_step_def ensure_input_allowed_cases Let_def voice_log_cases
        split: if_splits intro: one) (blast intro: more [OF more [OF one]])
qed

lemma voice_op_keeps:
  assumes "voice_op_step X op s v = (v', Inr (Some s'))" and "session_ok (rt (venv X)) s" and "closed_ok s"
  shows "step_keeps (rt (venv X)) s s'"
proof -
  have one: "step_keeps (rt (venv X)) s u"
    if "append_event (venv X) ty t p s = Inr u" for ty t p u
    by (rule append_event_step_keeps [OF that assms(2,3)]) simp_all
  show ?thesis
  proof (cases op)
    case SpeechStarted
    then have "speech_started_step X s v = (v', Inr s')"
      using assms(1) by (auto simp: voice_op_step_def map_sum_Some_prod split: prod.splits)
    from speech_started_keeps [OF this assms(2,3)] show ?thesis .
  qed (use assms(1) in \<open>auto simp: voice_op_step_def transcript_partial_step_def transcript_final_step_def
      response_ready_step_def tts_started_step_def tts_completed_step_def tts_cancelled_step_def
      provider_failed_step_def transport_selected_step_def transport_fallback_step_def
      vad_endpoint_step_def close_event_def ensure_input_allowed_def voice_log_def Let_def map_sum_Some_prod
      split: if_splits option.splits sum.splits prod.splits intro: one\<close>)
qed

end
