(* ===== verification/Concurrency.thy ===== *)
theory Concurrency
  imports Review_Service Artifacts Voice
begin

text \<open>
  Requests that run concurrently. The datatype \<open>request\<close> has one constructor for each
  operation of \<^verbatim>\<open>InterviewService\<close> that writes a session, and one each for the operations of the
  review service, the artifact service and the voice coordinator; \<open>request_step\<close> is its step
  with the result forgotten. \<open>service_run\<close> is the step relation of many requests over one store:
  loading a session, then, with any steps of other requests in between, computing and
  attempting the versioned write. The locale \<open>service_store\<close> joins the contracts of a store
  and of a brain; in it every reachable state is shown to hold only sound sessions, and a
  write that succeeds to have been computed from the session the store holds.
\<close>

section \<open>Requests\<close>

datatype request =
    StartInterview
  | AnswerQuestion string jdict
  | CancelSession string
  | ReevaluateEvidence string
  | ObserveEvidence evidence_observation
  | CandidateControl candidate_control_request
  | CorrectTranscript transcript_correction_request
  | OpenCodingChallenge coding_request
  | OpenTool tool_invocation
  | SubmitTool string jdict
  | SubmitAppeal appeal_request
  | ReviewAppeal string review_request
  | SubmitSignal integrity_signal_request
  | ReviewSignal string review_request
  | ReviewWork review_op
  | ArtifactWork artifact_op
  | VoiceWork voice_env voice_op voice_state

definition forget :: "challenges \<times> 'a step \<Rightarrow> challenges \<times> interview_session option result" where
  "forget p = (fst p, case snd p of Inl e \<Rightarrow> Inl e | Inr (s, _) \<Rightarrow> Inr s)"

definition request_step :: "service_config \<Rightarrow> env \<Rightarrow> request \<Rightarrow> interview_session \<Rightarrow> job_spec
    \<Rightarrow> challenges \<Rightarrow> challenges \<times> interview_session option result" where
  "request_step C E r s job priv = (case r of
      StartInterview \<Rightarrow> forget (start_step C E s job priv)
    | AnswerQuestion text meta \<Rightarrow> forget (answer_step C E text meta s job priv)
    | CancelSession reason \<Rightarrow> forget (priv, cancel_step E reason s)
    | ReevaluateEvidence tid \<Rightarrow> forget (priv, reevaluate_step C E tid s job)
    | ObserveEvidence ob \<Rightarrow> forget (priv, observe_step E ob s job)
    | CandidateControl req \<Rightarrow> forget (priv, control_step E req s)
    | CorrectTranscript req \<Rightarrow> forget (priv, correct_step E req s)
    | OpenCodingChallenge req \<Rightarrow> forget (open_coding_step E req s job priv)
    | OpenTool invo \<Rightarrow> forget (priv, open_tool_step E invo s job)
    | SubmitTool tid content \<Rightarrow> forget (submit_tool_step C E tid content s job priv)
    | SubmitAppeal req \<Rightarrow> forget (priv, submit_appeal_step E req s)
    | ReviewAppeal i req \<Rightarrow> forget (priv, review_appeal_step E i req s)
    | SubmitSignal req \<Rightarrow> forget (priv, submit_signal_step E req s)
    | ReviewSignal i req \<Rightarrow> forget (priv, review_signal_step E i req s)
    | ReviewWork op \<Rightarrow> forget (priv, review_op_step E op s)
    | ArtifactWork op \<Rightarrow> (priv, artifact_op_step E op s)
    | VoiceWork X op v \<Rightarrow> (priv, snd (voice_op_step (X\<lparr>venv := E\<rparr>) op s v)))"

lemma forget_Inr:
  "forget p = (priv', Inr (Some s')) \<longleftrightarrow> (\<exists>a. p = (priv', Inr (Some s', a)))"
  by (cases p) (auto simp: forget_def split: sum.splits)

lemma voice_work_keeps:
  assumes "snd (voice_op_step (X\<lparr>venv := E\<rparr>) op s v) = Inr (Some s')" and "session_ok (rt E) s"
    and "closed_ok s"
  shows "step_keeps (rt E) s s'"
  using assms voice_op_keeps [of "X\<lparr>venv := E\<rparr>" op s v "fst (voice_op_step (X\<lparr>venv := E\<rparr>) op s v)" s']
  by (simp add: prod_eq_iff)

context interview_brain begin

text \<open>Every request keeps the invariants, identity and version of the session it writes.\<close>

lemma request_keeps:
  assumes "request_step C E r s job priv = (priv', Inr (Some s'))" and "cfg_brain C = B"
    and "session_ok (rt E) s" and "closed_ok s"
  shows "step_keeps (rt E) s s'"
  using assms
  by (cases r) (auto simp: request_step_def forget_Inr intro: start_keeps answer_keeps cancel_keeps
      reevaluate_keeps observe_keeps control_keeps correct_keeps open_coding_keeps open_tool_keeps
      submit_keeps submit_appeal_keeps review_appeal_keeps submit_signal_keeps review_signal_keeps
      review_keeps artifact_keeps voice_work_keeps)

end

section \<open>Interleaved requests\<close>

text \<open>The store, the process's challenges, and the copies that requests in flight have loaded.\<close>

record 'st service_state =
  store :: 'st
  challenge_state :: challenges
  in_flight :: "nat \<Rightarrow> (interview_session \<times> job_spec) option"

inductive service_run :: "service_config \<Rightarrow> runtime \<Rightarrow> ('st \<Rightarrow> string \<Rightarrow> interview_session option)
    \<Rightarrow> ('st \<Rightarrow> string \<Rightarrow> job_spec option) \<Rightarrow> (interview_session \<Rightarrow> 'st \<Rightarrow> 'st result)
    \<Rightarrow> 'st service_state \<Rightarrow> 'st service_state \<Rightarrow> bool"
  for C R get get_job put where
  load: "get_session_and_job get get_job sid (store g) = Inr (s, job) \<Longrightarrow>
     service_run C R get get_job put g (g\<lparr>in_flight := (in_flight g)(c \<mapsto> (s, job))\<rparr>)"
| commit: "in_flight g c = Some (s, job) \<Longrightarrow> rt E = R \<Longrightarrow>
     request_step C E r s job (challenge_state g) = (priv', Inr (Some s')) \<Longrightarrow> put s' (store g) = Inr st' \<Longrightarrow>
     service_run C R get get_job put g
       (g\<lparr>store := st', challenge_state := priv', in_flight := (in_flight g)(c := None)\<rparr>)"
| conflict: "in_flight g c = Some (s, job) \<Longrightarrow> rt E = R \<Longrightarrow>
     request_step C E r s job (challenge_state g) = (priv', Inr (Some s')) \<Longrightarrow> put s' (store g) = Inl e \<Longrightarrow>
     service_run C R get get_job put g (g\<lparr>challenge_state := priv', in_flight := (in_flight g)(c := None)\<rparr>)"
| early: "in_flight g c = Some (s, job) \<Longrightarrow> rt E = R \<Longrightarrow>
     request_step C E r s job (challenge_state g) = (priv', Inr None) \<Longrightarrow>
     service_run C R get get_job put g (g\<lparr>challenge_state := priv', in_flight := (in_flight g)(c := None)\<rparr>)"
| refused: "in_flight g c = Some (s, job) \<Longrightarrow> rt E = R \<Longrightarrow>
     request_step C E r s job (challenge_state g) = (priv', Inl e) \<Longrightarrow>
     service_run C R get get_job put g (g\<lparr>challenge_state := priv', in_flight := (in_flight g)(c := None)\<rparr>)"
| create: "create_session_step E req org found = Inr s \<Longrightarrow> rt E = R \<Longrightarrow> get (store g) (session_id s) = None \<Longrightarrow>
     put s (store g) = Inr st' \<Longrightarrow>
     service_run C R get get_job put g (g\<lparr>store := st'\<rparr>)"

text \<open>A new session satisfies the invariants.\<close>

lemma graph_initialize_ok:
  assumes "evidence_graph s = []" and "events s = []"
  shows "evidence_ok (graph_initialize s job)" and "events (graph_initialize s job) = []"
    and "status (graph_initialize s job) = status s" and "version (graph_initialize s job) = version s"
    and "session_id (graph_initialize s job) = session_id s"
proof -
  let ?g = "\<lambda>cs g. fold (\<lambda>c g. dict_setdefault (competency_key c) (empty_node (competency_key c)) g) cs g"
  have "distinct (map fst (?g cs g)) \<and> (\<forall>(k, n) \<in> set (?g cs g). n = empty_node k)"
    if "distinct (map fst g) \<and> (\<forall>(k, n) \<in> set g. n = empty_node k)" for cs g
    using that
  proof (induction cs arbitrary: g)
    case Nil
    then show ?case by simp
  next
    case (Cons c cs)
    have "distinct (map fst (dict_setdefault (competency_key c) (empty_node (competency_key c)) g))
        \<and> (\<forall>(k, n) \<in> set (dict_setdefault (competency_key c) (empty_node (competency_key c)) g). n = empty_node k)"
      using Cons.prems by (auto simp: dict_setdefault_def distinct_dict_set split: option.splits
          dest!: mem_dict_set)
    from Cons.IH [OF this] show ?case by simp
  qed
  from this [of "[]" "competencies job"] show "evidence_ok (graph_initialize s job)"
    using assms(1) by (fastforce simp: evidence_ok_def graph_initialize_def)
  show "events (graph_initialize s job) = []" "status (graph_initialize s job) = status s"
    "version (graph_initialize s job) = version s" "session_id (graph_initialize s job) = session_id s"
    using assms(2) by (simp_all add: graph_initialize_def)
qed

lemma create_session_ok:
  assumes "create_session_step E req org found = Inr s"
  shows "session_ok (rt E) s" and "closed_ok s" and "version s = 0" and "status s = CREATED"
    and "\<exists>job. found = Some job \<and> organization_id s = job_organization_id job \<and> (org \<noteq> None \<longrightarrow> organization_id s = org)
           \<and> consent_to_ai_interview req \<and> consent_to_transcript req"
proof -
  from assms obtain job p where found: "found = Some job"
    and org: "\<not> (org \<noteq> None \<and> job_organization_id job = None)"
      "\<not> (org \<noteq> None \<and> job_organization_id job \<noteq> org)"
    and consent: "consent_to_ai_interview req" "consent_to_transcript req"
    and ev: "append_event E SESSION_CREATED None p (graph_initialize (new_session (new_id E ''session'' 0)
        (now_at E ''session'' 0) (job_key job) (req_candidate_ref req) (job_organization_id job)
        (req_locale req) (req_integrity_level req)) job) = Inr s"
    by (auto simp: create_session_step_def Let_def exn_simps split: option.splits)
  let ?s = "new_session (new_id E ''session'' 0) (now_at E ''session'' 0) (job_key job)
        (req_candidate_ref req) (job_organization_id job) (req_locale req) (req_integrity_level req)"
  have e: "evidence_graph ?s = []" "events ?s = []" by (simp_all add: new_session_def)
  note g = graph_initialize_ok [OF e, of job]
  show "session_ok (rt E) s" by (rule append_event_session_ok [OF ev]) (simp_all add: g seq_ok_def)
  show st: "status s = CREATED"
    unfolding append_event_fields [OF ev] g by (simp add: new_session_def)
  then show "closed_ok s" by (simp add: closed_ok_def)
  show "version s = 0"
    unfolding append_event_fields [OF ev] g by (simp add: new_session_def)
  have "organization_id s = job_organization_id job"
    using ev by (auto simp: append_event_def exn_simps graph_initialize_def new_session_def)
  with found org consent show "\<exists>job. found = Some job \<and> organization_id s = job_organization_id job
      \<and> (org \<noteq> None \<longrightarrow> organization_id s = org) \<and> consent_to_ai_interview req \<and> consent_to_transcript req"
    by auto
qed

section \<open>The joint contract\<close>

text \<open>What a reader gets differs from what was written at most in the sharing of objects.\<close>

locale service_store = session_store get put seen okst + interview_brain B
  for get :: "'st \<Rightarrow> string \<Rightarrow> interview_session option" and put seen okst B +
  fixes get_job :: "'st \<Rightarrow> string \<Rightarrow> job_spec option" and C :: service_config and R :: runtime
  assumes seen_shares: "seen s = s\<lparr>shared_metadata := shared_metadata (seen s)\<rparr>"
    and brain: "cfg_brain C = B"
begin

definition sound_store :: "'st \<Rightarrow> bool" where
  "sound_store st \<longleftrightarrow> okst st \<and> (\<forall>k s. get st k = Some s \<longrightarrow> session_ok R s \<and> closed_ok s)"

text \<open>A loaded copy is the stored session, or older than it.\<close>

definition loaded_ok :: "'st \<Rightarrow> interview_session \<Rightarrow> bool" where
  "loaded_ok st s \<longleftrightarrow> session_ok R s \<and> closed_ok s
     \<and> (\<exists>cur. get st (session_id s) = Some cur \<and> (cur = s \<or> version s < version cur))"

definition state_ok :: "'st service_state \<Rightarrow> bool" where
  "state_ok g \<longleftrightarrow> sound_store (store g)
     \<and> (\<forall>c s job. in_flight g c = Some (s, job) \<longrightarrow> loaded_ok (store g) s)"

lemma seen_ok: "session_ok R (seen s) = session_ok R s" "closed_ok (seen s) = closed_ok s"
  by (subst seen_shares, rule session_ok_cong, simp_all)
    (subst seen_shares, rule closed_ok_cong, simp_all)

lemma put_sound:
  assumes "sound_store st" and "put s st = Inr st'" and "session_ok R s" and "closed_ok s"
  shows "sound_store st'"
proof -
  have "session_ok R (s\<lparr>version := v\<rparr>)" "closed_ok (s\<lparr>version := v\<rparr>)" for v
    using assms(3,4) session_ok_cong [of "s\<lparr>version := v\<rparr>" s] closed_ok_cong [of "s\<lparr>version := v\<rparr>" s]
    by simp_all
  then show ?thesis using assms unfolding sound_store_def
    by (auto simp: put_get seen_ok intro: put_ok split: if_splits)
qed

text \<open>A successful write only makes loaded copies older.\<close>

lemma put_loaded:
  assumes "sound_store st" and "put s st = Inr st'" and "loaded_ok st t"
  shows "loaded_ok st' t"
proof -
  have ok: "okst st" using assms(1) by (simp add: sound_store_def)
  obtain cur where cur: "get st (session_id t) = Some cur" "cur = t \<or> version t < version cur"
    using assms(3) by (auto simp: loaded_ok_def)
  show ?thesis
  proof (cases "session_id t = session_id s")
    case True
    then have "version s = version cur"
      using put_iff [OF ok, of s] assms(2) cur(1) by (auto split: option.splits)
    then show ?thesis using assms(3) cur True
      by (auto simp: loaded_ok_def put_get [OF ok assms(2)] seen_version)
  next
    case False
    then show ?thesis using assms(3) by (simp add: loaded_ok_def put_get [OF ok assms(2)])
  qed
qed

lemma write_ok:
  assumes "state_ok g" and "put s (store g) = Inr st'" and "session_ok R s" and "closed_ok s"
    and "\<And>d t. loads d = Some t \<Longrightarrow> in_flight g d = Some t"
  shows "state_ok (g\<lparr>store := st', challenge_state := p, in_flight := loads\<rparr>)"
proof -
  have st: "sound_store (store g)" using assms(1) by (simp add: state_ok_def)
  have "loaded_ok st' t" if "loads d = Some (t, j)" for d t j
    using put_loaded [OF st assms(2)] assms(1) assms(5) [OF that] unfolding state_ok_def by blast
  then show ?thesis using put_sound [OF st assms(2-4)] by (auto simp: state_ok_def)
qed

lemma in_flight_keeps:
  assumes "state_ok g" and "in_flight g c = Some (s, job)" and "rt E = R"
    and "request_step C E r s job priv = (priv', Inr (Some s'))"
  shows "step_keeps R s s'"
proof -
  have "loaded_ok (store g) s" using assms(1,2) by (auto simp: state_ok_def)
  then show ?thesis using request_keeps [OF assms(4) brain] assms(3) by (simp add: loaded_ok_def)
qed

lemma run_step_ok:
  assumes "service_run C R get get_job put g g'" and "state_ok g"
  shows "state_ok g'"
  using assms
proof (cases rule: service_run.cases)
  case (load sid s job c)
  then have "get (store g) sid = Some s" by (auto simp: get_session_and_job_def split: option.splits)
  moreover from this have "session_id s = sid"
    using assms(2) get_id by (auto simp: state_ok_def sound_store_def)
  ultimately have "loaded_ok (store g) s" using assms(2) by (auto simp: loaded_ok_def state_ok_def sound_store_def)
  then show ?thesis using assms(2) load by (auto simp: state_ok_def split: if_splits)
next
  case (commit c s job E r priv' s' st')
  have "session_ok R s'" "closed_ok s'"
    using in_flight_keeps [OF assms(2) commit(2-4)] by (simp_all add: step_keeps_def)
  then show ?thesis unfolding commit(1)
    by (rule write_ok [OF assms(2) commit(5)]) (simp split: if_splits)
next
  case (create E req org found s st')
  have "session_ok R s" "closed_ok s" using create_session_ok(1,2) [OF create(2)] create(3) by simp_all
  from write_ok [OF assms(2) create(5) this, of "in_flight g" "challenge_state g"]
  show ?thesis unfolding create(1) by simp
qed (use assms(2) in \<open>auto simp: state_ok_def split: if_splits\<close>)

lemma reachable_ok:
  assumes "(service_run C R get get_job put)\<^sup>*\<^sup>* g g'" and "state_ok g"
  shows "state_ok g'"
  using assms by (induction rule: rtranclp_induct) (auto intro: run_step_ok)

text \<open>The write of a request in flight succeeds only if the store still holds exactly what the
  request loaded; then load, computation and write are one atomic step.\<close>

lemma commit_current:
  assumes "state_ok g" and "in_flight g c = Some (s, job)" and "rt E = R"
    and "request_step C E r s job priv = (priv', Inr (Some s'))" and "put s' (store g) = Inr st'"
  shows "get (store g) (session_id s) = Some s"
    and "get st' (session_id s) = Some (seen (s'\<lparr>version := version s + 1\<rparr>))"
proof -
  have ok: "okst (store g)" using assms(1) by (simp add: state_ok_def sound_store_def)
  have k: "session_id s' = session_id s" "version s' = version s"
    using in_flight_keeps [OF assms(1-4)] by (simp_all add: step_keeps_def)
  obtain cur where cur: "get (store g) (session_id s) = Some cur" "cur = s \<or> version s < version cur"
    using assms(1,2) by (fastforce simp: state_ok_def loaded_ok_def)
  have "version cur = version s" using put_iff [OF ok, of s'] assms(5) cur(1) k by auto
  with cur show "get (store g) (session_id s) = Some s" by auto
  show "get st' (session_id s) = Some (seen (s'\<lparr>version := version s + 1\<rparr>))"
    using k by (simp add: put_get [OF ok assms(5)])
qed

end

interpretation mem_rule: service_store mem_get_session mem_put_session "\<lambda>s. s" mem_ok
    "rule_based_brain fr" mem_get_job "\<lparr> cfg_brain = rule_based_brain fr, cfg_judge = J,
      cfg_sandbox = SB, cfg_templates = reg \<rparr>" R for fr J SB reg R
  by unfold_locales simp_all

interpretation sqlite_degraded: service_store sql_get_session sqlite_put_session serialised sql_ok
    "fallback_brain (llm_brain fr P) (rule_based_brain fr)" sql_get_job
    "\<lparr> cfg_brain = fallback_brain (llm_brain fr P) (rule_based_brain fr), cfg_judge = J,
      cfg_sandbox = SB, cfg_templates = reg \<rparr>" R for fr P J SB reg R
  by unfold_locales (simp_all add: serialised_def)

end
