(* ===== verification/Samples.thy ===== *)
theory Samples
  imports Concurrency
begin

text \<open>
  Small concrete inputs on which the properties of the development are exercised: a runtime
  with a constant digest, an environment that numbers the identifiers it draws, a job of two
  competencies, one of which is an anchor, and sessions of that job, with the lemmas that the
  handlers compute each from the one before.
\<close>

definition sample_runtime :: runtime where
  "sample_runtime = \<lparr> sha256_hex = (\<lambda>t. ''digest''), float_repr = (\<lambda>x. ''0.5''),
     isoformat = (\<lambda>d. show_int d) \<rparr>"

definition sample_env :: env where
  "sample_env = \<lparr> rt = sample_runtime, new_id = (\<lambda>c n. c @ show_nat n), now_at = (\<lambda>c n. int n),
     correlation_id = None \<rparr>"

definition sample_job :: job_spec where
  "sample_job = \<lparr> job_key = ''job'', job_organization_id = Some ''org'', job_title = ''Engineer'',
     job_description = ''Builds services.'',
     competencies = [
       \<lparr> competency_key = ''api'', competency_description = ''API design'', competency_weight = 1,
         anchor_question = Some ''How do you version an API?'' \<rparr>,
       \<lparr> competency_key = ''ops'', competency_description = ''Operations'', competency_weight = 1,
         anchor_question = None \<rparr>],
     max_questions = 2, anchor_ratio = 1 / 2,
     tool_templates = [], max_tools = 1, job_rubric_provenance = None \<rparr>"

definition sample_request :: create_session_request where
  "sample_request = \<lparr> req_job_id = ''job'', req_candidate_ref = ''cand'', req_locale = ''en'',
     consent_to_ai_interview = True, consent_to_transcript = True, req_integrity_level = LevelNONE \<rparr>"

definition sample_sandbox :: sandbox where
  "sample_sandbox = \<lparr> run_python = (\<lambda>src harness limit. Inl (ValueError ''sandbox is unavailable'')),
     json_loads = (\<lambda>t. None), int_of_string = (\<lambda>t. None) \<rparr>"

definition sample_config :: service_config where
  "sample_config = \<lparr> cfg_brain = rule_based_brain (\<lambda>x. ''0.5''), cfg_judge = disabled_judge,
     cfg_sandbox = sample_sandbox,
     cfg_templates = (case default_tool_template_registry of Inr reg \<Rightarrow> reg | Inl e \<Rightarrow> []) \<rparr>"

definition sample_llm :: completion where
  "sample_llm = \<lparr> complete_prompt = (\<lambda>sys usr. Inl (ValueError ''no model'')),
                  read_output = (\<lambda>t. Inl (ValueError ''no output'')) \<rparr>"

abbreviation degraded_config :: "(rat \<Rightarrow> string) \<Rightarrow> completion \<Rightarrow> evidence_judge \<Rightarrow> sandbox
    \<Rightarrow> template_registry \<Rightarrow> service_config" where
  "degraded_config fr P J SB reg \<equiv>
     \<lparr> cfg_brain = fallback_brain (llm_brain fr P) (rule_based_brain fr), cfg_judge = J,
       cfg_sandbox = SB, cfg_templates = reg \<rparr>"

abbreviation rule_config :: "(rat \<Rightarrow> string) \<Rightarrow> evidence_judge \<Rightarrow> sandbox
    \<Rightarrow> template_registry \<Rightarrow> service_config" where
  "rule_config fr J SB reg \<equiv>
     \<lparr> cfg_brain = rule_based_brain fr, cfg_judge = J, cfg_sandbox = SB, cfg_templates = reg \<rparr>"

text \<open>The events and turns of the sample sessions.\<close>

definition sample_event :: "int \<Rightarrow> event_type \<Rightarrow> string option \<Rightarrow> jdict \<Rightarrow> interview_event" where
  "sample_event n ty tid payload = \<lparr> event_seq = n + 1, event_type = ty, event_turn_id = tid,
     event_payload = payload, event_created_at = n, hash_version = Some 1,
     prev_hash = (if n = 0 then None else Some ''digest''), event_hash = Some ''digest'' \<rparr>"

definition sample_question :: turn where
  "sample_question = \<lparr> turn_id = ''turn0'', speaker = INTERVIEWER,
     turn_text = ''How do you version an API?'', parent_turn_id = None, competency_tags = [''api''],
     response_latency_ms = Some 0,
     metadata = [(''decision_reason'', JStr ''anchor:standardized_anchor''),
                 (''latency_scope'', JStr ''planner''), (''question_lane'', JStr ''anchor'')] \<rparr>"

definition sample_answer :: turn where
  "sample_answer = \<lparr> turn_id = ''turn1'', speaker = CANDIDATE, turn_text = ''I tag releases.'',
     parent_turn_id = Some ''turn0'', competency_tags = [], response_latency_ms = None, metadata = [] \<rparr>"

definition sample_follow_up :: turn where
  "sample_follow_up = \<lparr> turn_id = ''turn2'', speaker = INTERVIEWER,
     turn_text = ''Could you make that more concrete-what did you personally do, ''
       @ ''what trade-off did you make, and what was the measurable result?'',
     parent_turn_id = Some ''turn1'', competency_tags = [''api''], response_latency_ms = Some 2,
     metadata = [(''decision_reason'', JStr ''answer_lacks_specific_evidence''),
                 (''latency_scope'', JStr ''brain_only''), (''question_lane'', JStr ''adaptive'')] \<rparr>"

definition sample_claim :: evidence_item where
  "sample_claim = \<lparr> ev_id = ''evidence:api0'', ev_turn_id = ''turn1'', ev_state = CLAIMED,
     ev_confidence = 1, ev_quote = None,
     ev_note = ''Candidate supplied an answer to interviewer turn turn0.'',
     ev_source = ''candidate_response'', ev_judge_run_id = None, ev_active = True \<rparr>"

definition created_events :: "interview_event list" where
  "created_events = [sample_event 0 SESSION_CREATED None
     [(''job_id'', JStr ''job''), (''organization_id'', JStr ''org''), (''locale'', JStr ''en''),
      (''integrity_level'', JStr ''none'')]]"

definition started_events :: "interview_event list" where
  "started_events = created_events @ [sample_event 1 INTERVIEW_STARTED None [],
     sample_event 2 INTERVIEWER_TURN (Some ''turn0'')
       [(''question_lane'', JStr ''anchor''), (''decision_reason'', JStr ''anchor:standardized_anchor''),
        (''competency_tags'', jstrs [''api'']), (''covered_competencies'', jstrs []),
        (''asked_questions'', JInt 1)]]"

definition answered_events :: "interview_event list" where
  "answered_events = started_events @ [
     sample_event 3 CANDIDATE_TURN (Some ''turn1'')
       [(''parent_turn_id'', JStr ''turn0''), (''metadata'', JObj [])],
     sample_event 4 EVIDENCE_OBSERVED (Some ''turn1'')
       [(''evidence_id'', JStr ''evidence:api0''), (''state'', JStr ''claimed''),
        (''source'', JStr ''candidate_response'')],
     sample_event 5 INTERVIEWER_TURN (Some ''turn2'')
       [(''question_lane'', JStr ''adaptive''),
        (''decision_reason'', JStr ''answer_lacks_specific_evidence''),
        (''competency_tags'', jstrs [''api'']), (''covered_competencies'', jstrs []),
        (''asked_questions'', JInt 2)]]"

text \<open>The session after its creation, its start, and one answer.\<close>

definition sample_created :: interview_session where
  "sample_created = (new_session ''session0'' 0 ''job'' ''cand'' (Some ''org'') ''en'' LevelNONE)\<lparr>
     evidence_graph := [(''api'', empty_node ''api''), (''ops'', empty_node ''ops'')],
     events := created_events \<rparr>"

definition sample_started :: interview_session where
  "sample_started = sample_created\<lparr>status := RUNNING, turns := [sample_question],
     asked_anchor_competencies := [''api''], asked_questions := 1, events := started_events \<rparr>"

definition sample_answered :: interview_session where
  "sample_answered = sample_started\<lparr>turns := [sample_question, sample_answer, sample_follow_up],
     asked_questions := 2, followups_by_competency := [(''api'', 1)],
     evidence_graph := [(''api'', \<lparr> node_competency_id = ''api'', node_state = CLAIMED,
                                    node_confidence = None, node_evidence = [sample_claim] \<rparr>),
                        (''ops'', empty_node ''ops'')],
     events := answered_events, shared_metadata := [''turn1''] \<rparr>"

section \<open>Evaluation\<close>

lemma sample_runtime_simps [simp]:
  "compute_event_hash sample_runtime e p = ''digest''" "float_repr sample_runtime x = ''0.5''"
  by (simp_all add: compute_event_hash_def sample_runtime_def)

lemma sample_env_simps [simp]:
  "rt sample_env = sample_runtime" "new_id sample_env c n = c @ show_nat n"
  "now_at sample_env c n = int n" "correlation_id sample_env = None"
  by (simp_all add: sample_env_def)

lemma sample_job_simps [simp]:
  "competency_ids_of sample_job = [''api'', ''ops'']" "max_questions sample_job = 2"
  "tool_templates sample_job = []" "job_key sample_job = ''job''"
  "job_organization_id sample_job = Some ''org''" "max_tools sample_job = 1"
  by (simp_all add: sample_job_def competency_ids_of_def)

lemma sample_competencies: "competencies sample_job = [
       \<lparr> competency_key = ''api'', competency_description = ''API design'', competency_weight = 1,
         anchor_question = Some ''How do you version an API?'' \<rparr>,
       \<lparr> competency_key = ''ops'', competency_description = ''Operations'', competency_weight = 1,
         anchor_question = None \<rparr>]"
  by (simp add: sample_job_def)

lemma sample_job_ok: "job_spec_ok sample_job"
  by code_simp

lemma sample_budget [simp]: "anchor_budget sample_job = 1"
  by code_simp

lemma sample_config_simps [simp]:
  "cfg_brain sample_config = rule_based_brain (\<lambda>x. ''0.5'')"
  "cfg_judge sample_config = disabled_judge"
  by (simp_all add: sample_config_def)

lemma show_small [simp]: "show_nat 0 = ''0''" "show_nat (Suc 0) = ''1''" "show_nat (Suc (Suc 0)) = ''2''"
  by code_simp+

lemma sample_words [simp]: "findall_words ''I tag releases.'' = [''I'', ''tag'', ''releases'']"
  by code_simp

text \<open>Evaluation of one appended event, without the text that is hashed.\<close>

lemmas event_simps = append_event_def seal_event_chain_def verify_event_chain_def hashed_flag_def
  HASH_VERSION_def raise_if_def new_event_def with_trace_def head_hash_def Let_def ebind_def
  sample_event_def created_events_def started_events_def answered_events_def jopt_str_def

lemmas session_simps = sample_created_def sample_started_def sample_answered_def new_session_def
  empty_node_def sample_question_def sample_answer_def sample_follow_up_def sample_claim_def

lemmas decision_simps = next_anchor_def unasked_anchors_def has_anchor_def sample_competencies
  anchor_decision_def apply_decision_def decided_def decision_turn_def lane_for_def startswith_def
  add_anchors_def open_requested_tool_def count_followup_def complete_if_def session_step_def

lemmas rule_simps = rule_based_brain_def rule_after_answer_def rule_active_def first_competency_def
  rule_follow_up_def decision_def is_evaluative_question_def find_last_def jget_def dict_get_or_def

lemma create_sample:
  "create_session_step sample_env sample_request (Some ''org'') (Some sample_job) = Inr sample_created"
  by (simp add: create_session_step_def sample_request_def graph_initialize_def event_simps
      session_simps dict_setdefault_def sample_competencies)

lemma start_sample:
  "start_step sample_config sample_env sample_created sample_job []
     = ([], Inr (Some sample_started, session_step sample_started (Some sample_question) None))"
  by (simp add: start_step_def event_simps first_decision_def decision_simps session_simps)

lemma answer_sample:
  "answer_step sample_config sample_env ''I tag releases.'' [] sample_started sample_job []
     = ([], Inr (Some sample_answered, session_step sample_answered (Some sample_follow_up) None))"
  by (simp add: answer_step_def answer_turns_def check_live_def record_answer_def candidate_turn_def
      claim_and_judge_def record_candidate_claim_def turn_with_id_def claim_item_def claim_node_def
      graph_node_def set_node_def new_item_id_def judge_candidate_evidence_def disabled_judge_def
      next_decision_def measured_latency_def event_simps decision_simps session_simps rule_simps)

text \<open>The same answer when the language model fails: the fallback asks its question.\<close>

lemma answer_sample_degraded:
  "\<exists>s' r. answer_step (degraded_config (\<lambda>x. ''0.5'') sample_llm disabled_judge sample_sandbox [])
     sample_env ''I tag releases.'' [] sample_started sample_job [] = ([], Inr (Some s', r))"
  by (simp add: answer_step_def answer_turns_def check_live_def record_answer_def candidate_turn_def
      claim_and_judge_def record_candidate_claim_def turn_with_id_def claim_item_def claim_node_def
      graph_node_def set_node_def new_item_id_def judge_candidate_evidence_def disabled_judge_def
      next_decision_def measured_latency_def event_simps decision_simps session_simps rule_simps
      fallback_brain_def with_fallback_def degraded_def llm_brain_def llm_after_answer_def
      llm_complete_def sample_llm_def)

section \<open>Requests that succeed\<close>

lemma ebind_total:
  assumes "\<exists>x. m = Inr x" and "\<And>x. m = Inr x \<Longrightarrow> \<exists>y. f x = Inr y"
  shows "\<exists>y. ebind m f = Inr y"
  using assms by (auto simp: ebind_def)

lemma efold_append_event_total:
  assumes "audit_ok (rt E) s"
  shows "\<exists>s'. efold (\<lambda>x. append_event E (ty x) (t x) (p x)) xs s = Inr s' \<and> audit_ok (rt E) s'"
  using assms
proof (induction xs arbitrary: s)
  case Nil
  then show ?case by simp
next
  case (Cons x xs)
  obtain s1 where s1: "append_event E (ty x) (t x) (p x) s = Inr s1"
    using append_event_total [OF Cons.prems] by blast
  then have "audit_ok (rt E) s1"
    using append_event_audit_ok Cons.prems by (auto simp: audit_ok_def)
  from Cons.IH [OF this] show ?case using s1 by (simp add: ebind_def)
qed

lemma append_events_total:
  "audit_ok (rt E) s \<Longrightarrow> \<exists>s'. efold (\<lambda>x. append_event E (ty x) (t x) (p x)) xs s = Inr s'"
  using efold_append_event_total by blast

end
