(* ===== verification/Session_Properties.thy ===== *)
theory Session_Properties
  imports Samples
begin

text \<open>
  What holds of whole sessions: of the histories that concurrent requests write, of each
  request, and of the audit chain. The sample run at the start of the theory is the input on
  which the properties are exercised.
\<close>

section \<open>A sample run\<close>


definition sample_db :: sql_store where
  "sample_db = \<lparr> sql_jobs = [(''job'', sample_job)], sql_drafts = [], sql_sessions = [], sql_clock = 5 \<rparr>"

definition sample_db1 :: sql_store where
  "sample_db1 = sample_db\<lparr>sql_sessions := [(''session0'', new_row sample_created 1 5)]\<rparr>"

definition sample_db2 :: sql_store where
  "sample_db2 = sample_db\<lparr>sql_sessions :=
     [(''session0'', new_row (sample_started\<lparr>version := 1\<rparr>) 2 5)]\<rparr>"

definition sample_mem :: mem_store where
  "sample_mem = \<lparr> jobs = [(''job'', sample_job)], rubric_drafts = [], sessions = [] \<rparr>"

definition sample_mem1 :: mem_store where
  "sample_mem1 = sample_mem\<lparr>sessions := [(''session0'', sample_created\<lparr>version := 1\<rparr>)]\<rparr>"

definition sample_mem2 :: mem_store where
  "sample_mem2 = sample_mem\<lparr>sessions := [(''session0'', sample_started\<lparr>version := 2\<rparr>)]\<rparr>"

lemma sample_ids [simp]: "session_id sample_created = ''session0''" "session_id sample_started = ''session0''"
  "session_job_id sample_created = ''job''" "version sample_created = 0" "version sample_started = 0"
  "shared_metadata sample_created = []" "shared_metadata sample_started = []"
  by (simp_all add: session_simps)

lemma start_sample_version:
  "start_step C sample_env (sample_created\<lparr>version := 1\<rparr>) sample_job []
     = ([], Inr (Some (sample_started\<lparr>version := 1\<rparr>),
                 session_step sample_started (Some sample_question) None))"
  by (simp add: start_step_def event_simps first_decision_def decision_simps session_simps)

text \<open>Creating a session, loading it and starting it.\<close>

lemma sample_puts:
  "sqlite_put_session sample_created sample_db = Inr sample_db1"
  "sqlite_put_session (sample_started\<lparr>version := 1\<rparr>) sample_db1 = Inr sample_db2"
  "mem_put_session sample_created sample_mem = Inr sample_mem1"
  "mem_put_session (sample_started\<lparr>version := 1\<rparr>) sample_mem1 = Inr sample_mem2"
  by (simp_all add: sqlite_put_session_def mem_put_session_def raise_if_def Let_def new_row_def
      sample_db_def sample_db1_def sample_db2_def sample_mem_def sample_mem1_def sample_mem2_def
      session_simps serialised_def)

lemma sample_gets:
  "get_session_and_job sql_get_session sql_get_job ''session0'' sample_db1
     = Inr (sample_created\<lparr>version := 1\<rparr>, sample_job)"
  "get_session_and_job mem_get_session mem_get_job ''session0'' sample_mem1
     = Inr (sample_created\<lparr>version := 1\<rparr>, sample_job)"
  "sql_get_session sample_db ''session0'' = None" "mem_get_session sample_mem ''session0'' = None"
  "sql_get_session sample_db2 ''session0'' = Some (sample_started\<lparr>version := 2\<rparr>)"
  "get_session_and_job sql_get_session sql_get_job ''session0'' sample_db2
     = Inr (sample_started\<lparr>version := 2\<rparr>, sample_job)"
  by (simp_all add: get_session_and_job_def sql_get_session_def mem_get_session_def sql_get_job_def
      mem_get_job_def sample_db_def sample_db1_def sample_db2_def sample_mem_def sample_mem1_def
      new_row_def serialised_def session_simps)

lemma start_request_sample:
  "request_step C sample_env StartInterview (sample_created\<lparr>version := 1\<rparr>) sample_job []
     = ([], Inr (Some (sample_started\<lparr>version := 1\<rparr>)))"
  by (simp add: request_step_def start_sample_version forget_def)

definition sample_state :: "'st \<Rightarrow> 'st service_state" where
  "sample_state st = \<lparr> store = st, challenge_state = [], in_flight = Map.empty \<rparr>"

lemma sample_state_simps [simp]: "store (sample_state st) = st" "challenge_state (sample_state st) = []"
  "in_flight (sample_state st) = Map.empty"
  by (simp_all add: sample_state_def)

definition sample_loaded :: "'st \<Rightarrow> 'st service_state" where
  "sample_loaded st = (sample_state st)\<lparr>in_flight := [0 \<mapsto> (sample_created\<lparr>version := 1\<rparr>, sample_job)]\<rparr>"

lemma sample_load_run:
  "(service_run C sample_runtime sql_get_session sql_get_job sqlite_put_session)\<^sup>*\<^sup>*
     (sample_state sample_db) (sample_loaded sample_db1)"
  "(service_run C sample_runtime mem_get_session mem_get_job mem_put_session)\<^sup>*\<^sup>*
     (sample_state sample_mem) (sample_loaded sample_mem1)"
proof -
  have "service_run C sample_runtime sql_get_session sql_get_job sqlite_put_session
      (sample_state sample_db) ((sample_state sample_db)\<lparr>store := sample_db1\<rparr>)"
    by (rule service_run.create [OF create_sample]) (simp_all add: sample_gets sample_puts)
  moreover have "service_run C sample_runtime sql_get_session sql_get_job sqlite_put_session
      (sample_state sample_db1) (sample_loaded sample_db1)"
    unfolding sample_loaded_def
    using service_run.load [of sql_get_session sql_get_job "''session0''" "sample_state sample_db1"]
    by (simp add: sample_gets)
  ultimately show "(service_run C sample_runtime sql_get_session sql_get_job sqlite_put_session)\<^sup>*\<^sup>*
     (sample_state sample_db) (sample_loaded sample_db1)"
    by (simp add: sample_state_def)
next
  have "service_run C sample_runtime mem_get_session mem_get_job mem_put_session
      (sample_state sample_mem) ((sample_state sample_mem)\<lparr>store := sample_mem1\<rparr>)"
    by (rule service_run.create [OF create_sample]) (simp_all add: sample_gets sample_puts)
  moreover have "service_run C sample_runtime mem_get_session mem_get_job mem_put_session
      (sample_state sample_mem1) (sample_loaded sample_mem1)"
    unfolding sample_loaded_def
    using service_run.load [of mem_get_session mem_get_job "''session0''" "sample_state sample_mem1"]
    by (simp add: sample_gets)
  ultimately show "(service_run C sample_runtime mem_get_session mem_get_job mem_put_session)\<^sup>*\<^sup>*
     (sample_state sample_mem) (sample_loaded sample_mem1)"
    by (simp add: sample_state_def)
qed

lemma sample_full_run:
  "(service_run C sample_runtime sql_get_session sql_get_job sqlite_put_session)\<^sup>*\<^sup>*
     (sample_state sample_db) (sample_state sample_db2)"
proof -
  have "service_run C sample_runtime sql_get_session sql_get_job sqlite_put_session
      (sample_loaded sample_db1) ((sample_loaded sample_db1)\<lparr>store := sample_db2,
         challenge_state := [], in_flight := (in_flight (sample_loaded sample_db1))(0 := None)\<rparr>)"
    by (rule service_run.commit [where E = sample_env and r = StartInterview and c = 0
          and s = "sample_created\<lparr>version := 1\<rparr>" and job = sample_job
          and s' = "sample_started\<lparr>version := 1\<rparr>"])
      (simp_all add: sample_loaded_def start_request_sample sample_puts)
  then have "service_run C sample_runtime sql_get_session sql_get_job sqlite_put_session
      (sample_loaded sample_db1) (sample_state sample_db2)"
    by (simp add: sample_loaded_def sample_state_def)
  with sample_load_run(1) [of C] show ?thesis by (rule rtranclp.rtrancl_into_rtrancl)
qed

section \<open>Concurrent requests\<close>

lemma sql_ok_empty: "sql_sessions st = [] \<Longrightarrow> sql_ok st"
  by (simp add: sql_ok_def)

lemma mem_ok_empty: "sessions st = [] \<Longrightarrow> mem_ok st"
  by (simp add: mem_ok_def)

lemma degraded_state_ok:
  assumes "sql_sessions (store g) = []" and "in_flight g = Map.empty"
  shows "sqlite_degraded.state_ok R g"
  using assms by (simp add: sqlite_degraded.state_ok_def sqlite_degraded.sound_store_def
      sql_ok_empty sql_get_session_def)

lemma rule_state_ok:
  assumes "sessions (store g) = []" and "in_flight g = Map.empty"
  shows "mem_rule.state_ok R g"
  using assms by (simp add: mem_rule.state_ok_def mem_rule.sound_store_def
      mem_ok_empty mem_get_session_def)

text \<open>C1. Whatever requests run concurrently over the SQLite store, from an empty table of
  sessions, each stored session verifies: its audit chain is accepted by the verifier and
  numbered from 1, every node of its evidence graph has the state of its strongest active item
  and every item is grounded in the transcript, and if it is cancelled then nothing of it is
  left running.\<close>

theorem reachable_sessions_sound:
  assumes "(service_run (degraded_config fr P J SB reg) R sql_get_session sql_get_job
              sqlite_put_session)\<^sup>*\<^sup>* g g'"
    and "sql_sessions (store g) = []" and "in_flight g = Map.empty"
    and "sql_get_session (store g') k = Some s"
  shows "verify_event_chain R (events s) = Inr (head_hash (events s)) \<and> seq_ok (events s)
    \<and> evidence_ok s \<and> closed_ok s \<and> session_id s = k"
proof -
  have ok: "sqlite_degraded.state_ok R g'"
    using sqlite_degraded.reachable_ok [OF assms(1)] degraded_state_ok [OF assms(2,3)] by blast
  then have "session_ok R s" "closed_ok s" "session_id s = k"
    using assms(4) sqlite.get_id
    by (auto simp: sqlite_degraded.state_ok_def sqlite_degraded.sound_store_def)
  then show ?thesis
    by (simp add: session_ok_def audit_ok_def verify_event_chain_sealed)
qed

theorem reachable_sessions_sound_witness:
  "verify_event_chain sample_runtime (events (sample_started\<lparr>version := 2\<rparr>))
     = Inr (head_hash (events (sample_started\<lparr>version := 2\<rparr>)))"
  using reachable_sessions_sound [OF sample_full_run [of "degraded_config (\<lambda>x. ''0.5'') sample_llm
      disabled_judge sample_sandbox []"], of "''session0''" "sample_started\<lparr>version := 2\<rparr>"]
  by (simp add: sample_gets sample_db_def)

text \<open>C2. No update is lost: in every state that concurrent requests reach over the in-memory
  store, the write of a request succeeds only if the store still holds exactly the session the
  request loaded, and it then holds the computed session under the next version, every other
  session being untouched.\<close>

theorem no_lost_update:
  assumes "(service_run (rule_config fr J SB reg) (rt E) mem_get_session mem_get_job
              mem_put_session)\<^sup>*\<^sup>* g g'"
    and "sessions (store g) = []" and "in_flight g = Map.empty"
    and "in_flight g' c = Some (s, job)"
    and "request_step (rule_config fr J SB reg) E r s job priv = (priv', Inr (Some s'))"
    and "mem_put_session s' (store g') = Inr st'"
  shows "mem_get_session (store g') (session_id s) = Some s
    \<and> mem_get_session st' (session_id s) = Some (s'\<lparr>version := version s + 1\<rparr>)
    \<and> (\<forall>k. k \<noteq> session_id s \<longrightarrow> mem_get_session st' k = mem_get_session (store g') k)"
proof -
  have ok: "mem_rule.state_ok (rt E) g'"
    using mem_rule.reachable_ok [OF assms(1)] rule_state_ok [OF assms(2,3)] by blast
  note current = mem_rule.commit_current [OF ok assms(4) refl assms(5,6)]
  have "mem_ok (store g')" using ok by (simp add: mem_rule.state_ok_def mem_rule.sound_store_def)
  moreover have "session_id s' = session_id s"
    using mem_rule.in_flight_keeps [OF ok assms(4) refl assms(5)] by (simp add: step_keeps_def)
  ultimately show ?thesis using current assms(6) by (simp add: mem.put_get)
qed

theorem no_lost_update_witness:
  "mem_get_session sample_mem2 ''session0'' = Some (sample_started\<lparr>version := 2\<rparr>)"
  using no_lost_update [of "\<lambda>x. ''0.5''" disabled_judge sample_sandbox "[]" sample_env,
      unfolded sample_env_simps, OF sample_load_run(2), of 0 "sample_created\<lparr>version := 1\<rparr>" sample_job
        StartInterview "[]" "[]" "sample_started\<lparr>version := 1\<rparr>" sample_mem2]
  by (simp add: sample_loaded_def sample_mem_def start_request_sample sample_puts [unfolded sample_mem_def])

text \<open>C4. Of two requests that loaded the same version of a session, the one that writes second
  is refused with a conflict, for every pair of computed sessions; over PostgreSQL as over
  SQLite.\<close>

theorem second_writer_conflict:
  assumes "sql_ok st" and "sqlite_put_session a st = Inr st'"
    and "session_id b = session_id a" and "version b = version a"
  shows "persist_session sqlite_put_session b st' = Inl (HTTPException 409
           (''Interview state changed concurrently. '' @ ''Reload the session and retry the operation.''))
    \<and> persist_session postgres_put_session b st' = persist_session sqlite_put_session b st'"
proof -
  obtain m where "sqlite_put_session b st' = Inl (StoreConflictError m)"
    using sqlite.second_writer_refused [OF assms] by blast
  moreover obtain m' where "postgres_put_session b st' = Inl (StoreConflictError m')"
    using postgres.second_writer_refused [OF assms(1) _ assms(3,4)] postgres_sqlite_put [OF assms(1)]
      assms(2) by blast
  ultimately show ?thesis by (simp add: persist_session_def http_def)
qed

theorem second_writer_conflict_witness:
  "persist_session sqlite_put_session sample_started sample_db1 = Inl (HTTPException 409
     (''Interview state changed concurrently. '' @ ''Reload the session and retry the operation.''))"
  using second_writer_conflict [OF sql_ok_empty sample_puts(1), of sample_started]
  by (simp add: sample_db_def)

text \<open>The PostgreSQL store implements the same contract as the SQLite store: on every table
  the two can reach, a handler that persists a session gets the same result and the same
  table from both.\<close>

lemma postgres_equals_sqlite:
  assumes "sql_ok st"
  shows "persist_session postgres_put_session s st = persist_session sqlite_put_session s st"
proof (cases "sqlite_put_session s st")
  case (Inr st')
  then have "postgres_put_session s st = Inr st'" using postgres_sqlite_put [OF assms] by simp
  with Inr show ?thesis by (simp add: persist_session_def)
next
  case (Inl e)
  then have "\<exists>e'. postgres_put_session s st = Inl e'"
    using postgres_sqlite_put [OF assms] by (cases "postgres_put_session s st") auto
  with Inl show ?thesis
    using sqlite.put_conflict [OF assms] postgres.put_conflict [OF assms]
    by (fastforce simp: persist_session_def)
qed

section \<open>Single requests\<close>


lemma sample_created_ok:
  "audit_ok sample_runtime sample_created" "evidence_ok sample_created" "closed_ok sample_created"
  by (simp_all add: audit_ok_def seq_ok_def evidence_ok_def closed_ok_def node_ok_def active_items_def
      session_simps created_events_def sample_event_def HASH_VERSION_def)


text \<open>An event appended to a verifiable history never fails: the earlier events stay as they
  are, the new one is numbered next, points to the hash of the one before and is accepted by
  the verifier, and nothing else of the session changes.\<close>

lemma append_event_extends:
  assumes "audit_ok (rt E) s"
  shows "\<exists>e. append_event E ty t p s = Inr (s\<lparr>events := events s @ [e]\<rparr>)
    \<and> event_seq e = int (length (events s)) + 1 \<and> event_type e = ty
    \<and> event_turn_id e = map_option turn_id t
    \<and> prev_hash e = head_hash (events s)
    \<and> verify_event_chain (rt E) (events s @ [e]) = Inr (event_hash e)"
proof -
  let ?e = "new_event E ty (map_option turn_id t) p (length (events s)) (head_hash (events s))"
  have ok: "append_event E ty t p s = Inr (s\<lparr>events := events s @ [?e]\<rparr>)"
    using assms by (rule append_event_ok)
  moreover have "verify_event_chain (rt E) (events s @ [?e]) = Inr (event_hash ?e)"
    using append_event_audit_ok [OF ok] assms
    by (auto simp: audit_ok_def dest!: verify_event_chain_sealed)
  ultimately show ?thesis by (intro exI [of _ ?e]) simp
qed

lemma append_event_extends_sample:
  "\<exists>e. append_event sample_env SESSION_COMPLETED None [] sample_created
         = Inr (sample_created\<lparr>events := events sample_created @ [e]\<rparr>) \<and> event_seq e = 2"
proof -
  have n: "length (events sample_created) = 1" by (simp add: session_simps created_events_def)
  show ?thesis
    using append_event_extends [of sample_env sample_created SESSION_COMPLETED None "[]"] sample_created_ok(1)
    by (auto simp: n)
qed







end
