(* ===== verification/Evidence_Properties.thy ===== *)
theory Evidence_Properties
  imports Samples
begin

text \<open>
  What holds of evidence: how observations, claims and transcript corrections change the
  graph, what the grounding gate and the ensemble of judges let through.
\<close>

section \<open>Shared facts\<close>

lemma graph_node_set_node [simp]:
  "graph_node (set_node cid n s) k = (if k = cid then n else graph_node s k)"
  by (simp add: graph_node_def set_node_def)

lemma observe_node_rank:
  "state_rank (node_state (observe_node ob it n)) = max (state_rank (node_state n)) (state_rank (obs_state ob))"
  using state_rank_le5 [of "obs_state ob"] state_rank_le5 [of "node_state n"]
  by (auto simp: observe_node_def Let_def max_def)

text \<open>C8. The effect of an accepted observation: the competency is the job's, the quoted text is
  literally in the turn, the node gets the new item at the end and the stronger of its old
  state and the observed one, and no other node changes.\<close>

theorem observation_effect:
  assumes "apply_observation E s job ob = Inr (s', it)"
  shows "obs_competency_id ob \<in> set (competency_ids_of job)
    \<and> (\<exists>t. turn_with_id s (obs_turn_id ob) = Some t
         \<and> (\<forall>q. obs_quote ob = Some q \<longrightarrow> str_in q (turn_text t)))
    \<and> \<not> (is_semantic (obs_source ob) \<and> obs_state ob = VERIFIED)
    \<and> node_evidence (graph_node s' (obs_competency_id ob))
        = node_evidence (graph_node s (obs_competency_id ob)) @ [it]
    \<and> ev_state it = obs_state ob \<and> ev_quote it = obs_quote ob \<and> ev_active it
    \<and> state_rank (node_state (graph_node s' (obs_competency_id ob)))
        = max (state_rank (node_state (graph_node s (obs_competency_id ob)))) (state_rank (obs_state ob))
    \<and> (\<forall>k. k \<noteq> obs_competency_id ob \<longrightarrow> graph_node s' k = graph_node s k)"
  using apply_observation_Inr [OF assms]
  by (auto simp: observe_node_rank observation_item_def)

definition sample_observation :: evidence_observation where
  "sample_observation = \<lparr> obs_competency_id = ''api'', obs_turn_id = ''turn1'', obs_state = DEMONSTRATED,
     obs_confidence = 1, obs_quote = Some ''tag'', obs_note = ''n'', obs_source = ''semantic_judge:m'',
     obs_judge_run_id = None \<rparr>"

lemma sample_observation_simps [simp]: "obs_competency_id sample_observation = ''api''"
  "obs_state sample_observation = DEMONSTRATED" "obs_turn_id sample_observation = ''turn1''"
  "obs_quote sample_observation = Some ''tag''" "obs_source sample_observation = ''semantic_judge:m''"
  by (simp_all add: sample_observation_def)

lemma sample_turn: "turn_with_id sample_answered ''turn1'' = Some sample_answer"
  by (simp add: turn_with_id_def session_simps)

lemma sample_observation_accepted:
  "\<exists>s' it. apply_observation sample_env sample_answered sample_job sample_observation = Inr (s', it)"
proof -
  have "str_in ''tag'' (turn_text sample_answer)" by code_simp
  then show ?thesis
    by (simp add: apply_observation_def raise_if_def sample_turn Let_def)
qed

theorem observation_effect_witness:
  "\<exists>s'. node_state (graph_node sample_answered ''api'') = CLAIMED
     \<and> node_state (graph_node s' ''api'') = DEMONSTRATED"
proof -
  obtain s' it where s': "apply_observation sample_env sample_answered sample_job sample_observation = Inr (s', it)"
    using sample_observation_accepted by blast
  have n: "node_state (graph_node sample_answered ''api'') = CLAIMED"
    by (simp add: graph_node_def session_simps)
  have "state_rank (node_state (graph_node s' ''api'')) = state_rank DEMONSTRATED"
    using observation_effect [OF s'] by (simp add: n)
  then show ?thesis using n state_rank_inj by blast
qed

text \<open>C9. A contradiction is never overwritten: after any sequence of observations, of any kind,
  a node that was contradicted is contradicted.\<close>

theorem contradiction_sticks:
  assumes "efold (\<lambda>ob s. ebind (apply_observation E s job ob) (\<lambda>(s', it). Inr s')) obs s = Inr s'"
    and "node_state (graph_node s cid) = CONTRADICTED"
  shows "node_state (graph_node s' cid) = CONTRADICTED"
proof (rule efold_invariant [where P = "\<lambda>s. node_state (graph_node s cid) = CONTRADICTED", OF assms(1)])
  show "node_state (graph_node s cid) = CONTRADICTED" by (rule assms)
next
  fix ob u u'
  assume u: "node_state (graph_node u cid) = CONTRADICTED"
    and "ebind (apply_observation E u job ob) (\<lambda>(s', it). Inr s') = Inr u'"
  then obtain it where "apply_observation E u job ob = Inr (u', it)" by (auto simp: exn_simps)
  from apply_observation_Inr(1) [OF this] u show "node_state (graph_node u' cid) = CONTRADICTED"
    by (auto simp: observe_node_def Let_def)
qed

definition contradicted_session :: interview_session where
  "contradicted_session = sample_answered\<lparr>evidence_graph := [(''api'', \<lparr> node_competency_id = ''api'',
     node_state = CONTRADICTED, node_confidence = Some 1,
     node_evidence = [sample_claim\<lparr>ev_state := CONTRADICTED\<rparr>] \<rparr>)]\<rparr>"

theorem contradiction_sticks_witness:
  "\<exists>s'. efold (\<lambda>ob s. ebind (apply_observation sample_env s sample_job ob) (\<lambda>(s', it). Inr s'))
       [sample_observation] contradicted_session = Inr s'
     \<and> node_state (graph_node s' ''api'') = CONTRADICTED"
proof -
  let ?run = "efold (\<lambda>ob s. ebind (apply_observation sample_env s sample_job ob) (\<lambda>(s', it). Inr s'))
       [sample_observation] contradicted_session"
  have "str_in ''tag'' (turn_text sample_answer)" by code_simp
  moreover have "turn_with_id contradicted_session ''turn1'' = Some sample_answer"
    by (simp add: turn_with_id_def session_simps contradicted_session_def)
  ultimately obtain s' where s': "?run = Inr s'"
    by (simp add: apply_observation_def raise_if_def Let_def ebind_def)
  moreover have "node_state (graph_node contradicted_session ''api'') = CONTRADICTED"
    by (simp add: contradicted_session_def graph_node_def)
  ultimately show ?thesis using contradiction_sticks [OF s', of "''api''"] by blast
qed

section \<open>Corrections\<close>









section \<open>Semantic judges\<close>

text \<open>C11. The grounding gate accepts exactly the responses all of whose findings are grounded -
  never verified, any quote literally in the answer, a non-empty quote for a demonstration or
  a contradiction - and fit the limits of an observation, and turns each finding into one
  observation of the answer, marked as semantic.\<close>

theorem gate_accepts_grounded_only:
  "gate_validate answer response jid = Inr obs \<longleftrightarrow>
     (\<forall>f\<in>set (findings response). fnd_state f \<noteq> VERIFIED
        \<and> (\<forall>q. fnd_quote f = Some q \<longrightarrow> str_in q (turn_text answer))
        \<and> (fnd_state f \<in> {DEMONSTRATED, CONTRADICTED} \<longrightarrow> (\<exists>q. fnd_quote f = Some q \<and> q \<noteq> []))
        \<and> evidence_observation_ok (gate_observation answer jid f))
     \<and> obs = map (gate_observation answer jid) (findings response)"
  by (auto simp: gate_validate_Inr grounded_finding_def needs_quote_def)

theorem gate_accepts_grounded_only_witness:
  "gate_validate sample_answer \<lparr> findings = [\<lparr> fnd_competency_id = ''api'', fnd_state = DEMONSTRATED,
       fnd_confidence = 1, fnd_quote = Some ''tag'', fnd_rationale = ''ok'' \<rparr>], response_audit = [] \<rparr> ''m''
     = Inr [sample_observation\<lparr>obs_note := ''ok''\<rparr>]"
proof -
  have "str_in ''tag'' (turn_text sample_answer)" by code_simp
  then show ?thesis unfolding gate_accepts_grounded_only
    by (simp add: gate_observation_def sample_answer_def sample_observation_def
        evidence_observation_ok_def opt_all_def len_between_def)
qed

text \<open>C12. The ensemble of judges answers each requested competency once, with a grounded finding.
  A finding other than insufficient evidence has the required number of votes, at least half
  of all judges, and no other state has more votes; the judges that failed count as absent.\<close>

theorem ensemble_needs_agreement:
  assumes "EvidenceJudgeEnsemble judges threshold = Inr configured" and "length judges < 2 ^ 53"
    and "ensemble_evaluate judges threshold question answer job cids = Inr response"
  shows "map fnd_competency_id (findings response) = cids
    \<and> (\<forall>f\<in>set (findings response). grounded_finding answer f \<and>
         (fnd_state f \<noteq> INSUFFICIENT \<longrightarrow>
           (let fbj = findings_by_judge question answer job cids judges;
                votes = (\<lambda>st. votes_for fbj (fnd_competency_id f) st)
            in required_votes threshold (length judges) \<le> int (votes (fnd_state f))
               \<and> length judges \<le> 2 * votes (fnd_state f)
               \<and> (\<forall>st. votes st \<le> votes (fnd_state f)))))"
proof -
  let ?fbj = "findings_by_judge question answer job cids judges"
  have n: "length ?fbj = length judges" by (simp add: findings_by_judge_def)
  obtain results where results: "emap (judge_competency threshold ?fbj) cids = Inr results"
      and response: "findings response = map fst results"
    using assms(3) by (auto simp: ensemble_evaluate_def Let_def exn_simps)
  have threshold: "1/2 < threshold"
    using assms(1) by (auto simp: EvidenceJudgeEnsemble_def exn_simps)
  have grounded: "grounded_finding answer g" if "g \<in> set (found_for ?fbj cid)" for g cid
    using that by (rule found_for_grounded)
  have len: "length results = length cids" using emap_length [OF results] by simp
  have each: "judge_competency threshold ?fbj (cids ! i) = Inr (results ! i)" if "i < length cids" for i
    using emap_nth [OF results] that by simp
  have sound: "fnd_competency_id (fst (results ! i)) = cids ! i
      \<and> grounded_finding answer (fst (results ! i))
      \<and> (fnd_state (fst (results ! i)) \<noteq> INSUFFICIENT \<longrightarrow>
           required_votes threshold (length judges) \<le> int (votes_for ?fbj (cids ! i) (fnd_state (fst (results ! i))))
           \<and> (\<forall>st. votes_for ?fbj (cids ! i) st \<le> votes_for ?fbj (cids ! i) (fnd_state (fst (results ! i)))))"
    if "i < length cids" for i
    using judge_competency_sound [of threshold ?fbj "cids ! i" "fst (results ! i)" "snd (results ! i)" answer]
      each [OF that] grounded by (auto simp: n)
  have half: "length judges \<le> 2 * v" if "required_votes threshold (length judges) \<le> int v" for v
    using required_votes_half [OF threshold assms(2)] that by linarith
  show ?thesis
  proof
    show "map fnd_competency_id (findings response) = cids"
      using len sound by (intro nth_equalityI) (auto simp: response)
    show "\<forall>f\<in>set (findings response). grounded_finding answer f \<and>
         (fnd_state f \<noteq> INSUFFICIENT \<longrightarrow>
           (let fbj = ?fbj; votes = (\<lambda>st. votes_for fbj (fnd_competency_id f) st)
            in required_votes threshold (length judges) \<le> int (votes (fnd_state f))
               \<and> length judges \<le> 2 * votes (fnd_state f)
               \<and> (\<forall>st. votes st \<le> votes (fnd_state f))))"
    proof
      fix f assume "f \<in> set (findings response)"
      then obtain i where i: "i < length cids" and f: "f = fst (results ! i)"
        by (auto simp: response in_set_conv_nth len)
      show "grounded_finding answer f \<and> (fnd_state f \<noteq> INSUFFICIENT \<longrightarrow>
           (let fbj = ?fbj; votes = (\<lambda>st. votes_for fbj (fnd_competency_id f) st)
            in required_votes threshold (length judges) \<le> int (votes (fnd_state f))
               \<and> length judges \<le> 2 * votes (fnd_state f)
               \<and> (\<forall>st. votes st \<le> votes (fnd_state f))))"
        using sound [OF i] half unfolding f Let_def by simp
    qed
  qed
qed

definition sample_judge :: "string \<Rightarrow> evidence_judge" where
  "sample_judge i = \<lparr> judge_id = i, evaluate = (\<lambda>q a job cids. Inr \<lparr> findings =
     [\<lparr> fnd_competency_id = ''api'', fnd_state = DEMONSTRATED, fnd_confidence = 1,
        fnd_quote = Some ''tag'', fnd_rationale = ''ok'' \<rparr>], response_audit = [] \<rparr>) \<rparr>"

theorem ensemble_needs_agreement_witness:
  "\<exists>response. ensemble_evaluate [sample_judge ''a'', sample_judge ''b''] 1 sample_question sample_answer
       sample_job [''api''] = Inr response \<and> map fnd_competency_id (findings response) = [''api'']"
proof -
  have "(case ensemble_evaluate [sample_judge ''a'', sample_judge ''b''] 1 sample_question sample_answer
       sample_job [''api''] of Inr r \<Rightarrow> True | Inl e \<Rightarrow> False)"
    by code_simp
  then obtain response where r: "ensemble_evaluate [sample_judge ''a'', sample_judge ''b''] 1
      sample_question sample_answer sample_job [''api''] = Inr response"
    by (cases "ensemble_evaluate [sample_judge ''a'', sample_judge ''b''] 1 sample_question sample_answer
       sample_job [''api'']") auto
  have "EvidenceJudgeEnsemble [sample_judge ''a'', sample_judge ''b''] 1
      = Inr ([sample_judge ''a'', sample_judge ''b''], 1)"
    by (simp add: EvidenceJudgeEnsemble_def sample_judge_def raise_if_def)
  from ensemble_needs_agreement [OF this _ r] r show ?thesis by simp
qed

end
