(* ===== verification/Interview_Properties.thy ===== *)
theory Interview_Properties
  imports Samples Rubric_Drafting
begin

text \<open>
  What holds of an interview: the schedule of anchor questions, answering, cancelling and
  candidate controls, practical tools, and how jobs and sessions come about.
\<close>

section \<open>Anchor questions\<close>

text \<open>C13. The planner schedules an anchor question only if it is due: the question is that of a
  competency of the job which has one and was not asked for yet, the number of anchors asked
  including it stays within the budget, which is between 0 and the number of questions, and
  either nothing was asked yet or the exact share of anchors is below the configured ratio.\<close>

theorem scheduled_anchor_is_due:
  assumes "next_anchor s job = Some d" and "job_spec_ok job" and "is_float (anchor_ratio job)"
    and "0 \<le> asked_questions s"
  shows "(\<exists>c\<in>set (competencies job). d = anchor_decision c \<and> anchor_question c \<noteq> None
            \<and> competency_key c \<notin> set (asked_anchor_competencies s))
    \<and> int (length (asked_anchor_competencies s)) + 1 \<le> anchor_budget job
    \<and> 0 \<le> anchor_budget job \<and> anchor_budget job \<le> max_questions job
    \<and> (asked_questions s = 0
       \<or> of_nat (length (asked_anchor_competencies s)) < anchor_ratio job * of_int (asked_questions s))"
proof -
  from assms(1) obtain c where c: "d = anchor_decision c" "c \<in> set (competencies job)" "has_anchor c"
      "competency_key c \<notin> set (asked_anchor_competencies s)"
      "int (length (asked_anchor_competencies s)) < anchor_budget job"
      "asked_questions s = 0 \<or> current_share s < anchor_ratio job"
    by (rule next_anchor_Some)
  moreover have "anchor_question c \<noteq> None" using c(3) by (auto simp: has_anchor_def split: option.splits)
  ultimately show ?thesis
    using anchor_budget_bounds [OF assms(2)] current_share_less [OF assms(3)] assms(4) by force
qed

theorem scheduled_anchor_is_due_witness:
  "\<exists>d. next_anchor sample_created sample_job = Some d \<and> anchor_budget sample_job = 1
     \<and> (\<exists>c\<in>set (competencies sample_job). d = anchor_decision c)"
proof -
  have "next_anchor sample_created sample_job = Some (anchor_decision (competencies sample_job ! 0))"
    by (simp add: next_anchor_def unasked_anchors_def has_anchor_def sample_competencies session_simps)
  moreover have "is_float (anchor_ratio sample_job)" by code_simp
  moreover have "0 \<le> asked_questions sample_created" by (simp add: session_simps)
  ultimately show ?thesis using scheduled_anchor_is_due [OF _ sample_job_ok] by auto
qed

text \<open>The anchors asked so far: distinct competencies of the job, no more than the budget.\<close>

definition anchors_ok :: "job_spec \<Rightarrow> interview_session \<Rightarrow> bool" where
  "anchors_ok job s \<longleftrightarrow> distinct (asked_anchor_competencies s)
     \<and> set (asked_anchor_competencies s) \<subseteq> set (competency_ids_of job)
     \<and> (asked_anchor_competencies s = [] \<or> int (length (asked_anchor_competencies s)) \<le> anchor_budget job)"

lemma anchors_ok_cong:
  "asked_anchor_competencies s' = asked_anchor_competencies s \<Longrightarrow> anchors_ok job s' = anchors_ok job s"
  by (simp add: anchors_ok_def)

lemma anchors_ok_decision:
  assumes "anchors_ok job s" and "next_anchor s1 job = Some d \<or> lane_for d \<noteq> ANCHOR"
    and "asked_anchor_competencies s1 = asked_anchor_competencies s"
    and "apply_decision E d l s2 = Inr (s', t)"
    and "asked_anchor_competencies s2 = asked_anchor_competencies s"
  shows "anchors_ok job s'"
proof (cases "lane_for d = ANCHOR")
  case False
  then show ?thesis using apply_decision_Inr(9) [OF assms(4)] assms(1,5) by (simp add: anchors_ok_def)
next
  case True
  with assms(2) have "next_anchor s1 job = Some d" by simp
  then obtain c where "d = anchor_decision c" "c \<in> set (competencies job)"
      "competency_key c \<notin> set (asked_anchor_competencies s1)"
      "int (length (asked_anchor_competencies s1)) < anchor_budget job"
    by (rule next_anchor_Some)
  then show ?thesis using apply_decision_Inr(9) [OF assms(4)] assms(1,3,5) True
    by (auto simp: anchors_ok_def add_anchors_def competency_ids_of_def)
qed

text \<open>The rule-based brain never claims the anchor lane.\<close>

lemma rule_not_anchor:
  "fst (rule_opening s job) = Inr d \<Longrightarrow> lane_for d \<noteq> ANCHOR"
  "fst (rule_after_answer fr s job) = Inr d \<Longrightarrow> lane_for d \<noteq> ANCHOR"
  "fst (rule_after_tool s job invo sub ev) = Inr d \<Longrightarrow> lane_for d \<noteq> ANCHOR"
  by (auto simp: rule_opening_def rule_after_answer_def rule_after_tool_def rule_close_def
      rule_follow_up_def rule_open_tool_def rule_advance_def decision_def lane_for_def startswith_def
      Let_def exn_simps split: list.splits option.splits sum.splits if_splits)

lemma start_anchors_ok:
  assumes "start_step C E s job priv = (priv', Inr (Some s', r))" and "cfg_brain C = rule_based_brain fr"
    and "anchors_ok job s"
  shows "anchors_ok job s'"
proof -
  from assms(1) obtain s1 s2 d l s3 t s4 invo
    where e: "append_event E INTERVIEW_STARTED None [] s = Inr s1"
    and dec: "first_decision C E job s1 = Inr (s2, d, l)" and ap: "apply_decision E d l s2 = Inr (s3, t)"
    and op: "open_requested_tool E (cfg_templates C) job d (turn_id t) s3 priv = (priv', Inr (s4, invo))"
    and s': "s' = s4\<lparr>status := RUNNING\<rparr>"
    by (rule start_step_Inr)
  have "only_covers s1 s2"
    using first_decision_Inr [OF dec] rule.opening_covers [of s1 fr job] assms(2) by auto
  note same = only_covers_frame(10) [OF this] append_event_fields(9) [OF e]
  have "next_anchor s1 job = Some d \<or> lane_for d \<noteq> ANCHOR"
    using first_decision_Inr [OF dec] rule_not_anchor(1) by (auto simp: assms(2) rule_based_brain_def)
  with assms(3) have "anchors_ok job s3" by (rule anchors_ok_decision [OF _ _ _ ap]) (simp_all add: same)
  then show ?thesis
    using open_requested_tool_fields(9) [OF op] by (simp add: anchors_ok_def s')
qed

lemma answer_anchors_ok:
  assumes "answer_step C E text meta s job priv = (priv', Inr (Some s', r))"
    and "cfg_brain C = rule_based_brain fr" and "session_ok (rt E) s" and "anchors_ok job s"
  shows "anchors_ok job s'"
proof -
  from assms(1) obtain s5 q d s6 invo where tu: "answer_turns C E text meta s job = Inr (s5, q, d)"
    and op: "open_requested_tool E (cfg_templates C) job d (turn_id q) s5 priv = (priv', Inr (s6, invo))"
    and co: "complete_if E d s6 = Inr s'"
    by (rule answer_step_Inr)
  from tu obtain t s1 s2 s3 l s4 where re: "record_answer E t s = Inr s1"
    and cl: "claim_and_judge C E job (find_last is_evaluative_question (turns s)) t s1 = Inr s2"
    and ne: "next_decision C E job s2 = Inr (s3, d, l)" and ap: "apply_decision E d l s3 = Inr (s4, q)"
    and s5: "s5 = count_followup d s4"
    by (rule answer_turns_Inr)
  note f1 = record_answer_Inr [OF re assms(3)]
  note f2 = claim_and_judge_Inr [OF cl f1(1)]
  have cov: "only_covers s2 s3"
    using next_decision_Inr(1) [OF ne] rule.after_answer_covers assms(2) by simp
  have same: "asked_anchor_competencies s3 = asked_anchor_competencies s"
    using only_covers_frame(10) [OF cov] f2(10) f1(10) by simp
  have "next_anchor s3 job = Some d \<or> lane_for d \<noteq> ANCHOR"
    using next_decision_Inr [OF ne] rule_not_anchor(2) [of fr s2 job]
    by (auto simp: assms(2) rule_based_brain_def split: option.splits if_splits)
  with assms(4) have "anchors_ok job s4" by (rule anchors_ok_decision [OF _ _ same ap same])
  then show ?thesis
    using open_requested_tool_fields(9) [OF op] complete_if_Inr(10) [OF co]
    by (simp add: anchors_ok_def s5)
qed

text \<open>C14. With the rule-based brain, starting an interview and answering keep the anchors within
  their budget: the anchor competencies asked so far are distinct competencies of the job and,
  if there are any, no more than the budget.\<close>

theorem anchors_stay_within_budget:
  assumes "request_step C E r s job priv = (priv', Inr (Some s'))"
    and "r = StartInterview \<or> r = AnswerQuestion text meta"
    and "cfg_brain C = rule_based_brain fr"
    and "audit_ok (rt E) s" and "evidence_ok s" and "anchors_ok job s"
  shows "anchors_ok job s'"
  using assms start_anchors_ok answer_anchors_ok
  by (auto simp: request_step_def forget_Inr session_ok_def)

theorem anchors_stay_within_budget_witness:
  "anchors_ok sample_job sample_answered \<and> length (asked_anchor_competencies sample_answered) = 1"
proof -
  have "request_step sample_config sample_env (AnswerQuestion ''I tag releases.'' []) sample_started
      sample_job [] = ([], Inr (Some sample_answered))"
    by (simp add: request_step_def answer_sample forget_def)
  moreover have "audit_ok sample_runtime sample_started"
    by (simp add: audit_ok_def seq_ok_def session_simps created_events_def
        started_events_def sample_event_def HASH_VERSION_def upt_rec)
  moreover have "evidence_ok sample_started"
    by (simp add: evidence_ok_def node_ok_def active_items_def session_simps)
  moreover have "anchors_ok sample_job sample_started"
    by (simp add: anchors_ok_def session_simps)
  ultimately have "anchors_ok sample_job sample_answered"
    using anchors_stay_within_budget [of sample_config sample_env "AnswerQuestion ''I tag releases.'' []"]
    by simp
  then show ?thesis by (simp add: session_simps)
qed

section \<open>Answering, cancelling, candidate controls\<close>


lemma sample_started_ok: "audit_ok sample_runtime sample_started" "evidence_ok sample_started"
  by (simp_all add: audit_ok_def seq_ok_def evidence_ok_def node_ok_def active_items_def session_simps
      created_events_def started_events_def sample_event_def HASH_VERSION_def upt_rec)




lemma cancel_step_total:
  assumes "audit_ok (rt E) s" and "status s \<noteq> COMPLETED" and "status s \<noteq> CANCELLED"
  shows "\<exists>s'. cancel_step E reason s = Inr (Some s', written s')"
proof -
  let ?c = "filter is_cancellable (tools s)"
  have "audit_ok (rt E) (s\<lparr>tools := map cancel_tool (tools s)\<rparr>)"
    using audit_ok_cong [of "s\<lparr>tools := map cancel_tool (tools s)\<rparr>" s] assms(1) by simp
  from efold_append_event_total [OF this, of "\<lambda>t. TOOL_CANCELLED" "\<lambda>t. None"
      "\<lambda>t. [(''tool_id'', JStr (tool_id t)), (''kind'', JStr (tool_kind_value (tool_kind t))),
            (''reason'', JStr ''session_cancelled'')]" ?c]
  obtain s1 where s1: "efold (\<lambda>t. append_event E TOOL_CANCELLED None
              [(''tool_id'', JStr (tool_id t)), (''kind'', JStr (tool_kind_value (tool_kind t))),
               (''reason'', JStr ''session_cancelled'')])
            ?c (s\<lparr>tools := map cancel_tool (tools s)\<rparr>) = Inr s1" and ok: "audit_ok (rt E) s1"
    by blast
  have "audit_ok (rt E) (s1\<lparr>paused := False, status := CANCELLED,
      cancelled_at := Some (now_at E ''cancelled_at'' 0), cancellation_reason := Some reason\<rparr>)"
    using ok by (simp add: audit_ok_def)
  from append_event_total [OF this, of SESSION_CANCELLED None
      "[(''reason'', JStr reason), (''cancelled_tool_ids'', jstrs (map tool_id ?c))]"]
  obtain s2 where "append_event E SESSION_CANCELLED None
      [(''reason'', JStr reason), (''cancelled_tool_ids'', jstrs (map tool_id ?c))]
      (s1\<lparr>paused := False, status := CANCELLED, cancelled_at := Some (now_at E ''cancelled_at'' 0),
          cancellation_reason := Some reason\<rparr>) = Inr s2" by blast
  with s1 assms(2,3) show ?thesis by (simp add: cancel_step_def raise_if_def ebind_def)
qed

text \<open>Cancelling closes: from any live session in good order the request succeeds, and the
  result is cancelled, not paused, has its reason, every open or submitted tool is cancelled
  and no other tool changes.\<close>

lemma cancelling_closes:
  assumes "audit_ok (rt E) s" and "evidence_ok s" and "status s \<noteq> COMPLETED" and "status s \<noteq> CANCELLED"
  shows "\<exists>s'. cancel_step E reason s = Inr (Some s', written s') \<and> status s' = CANCELLED \<and> \<not> paused s'
    \<and> cancellation_reason s' = Some reason \<and> cancelled_at s' \<noteq> None
    \<and> tools s' = map (\<lambda>t. if tool_status t \<in> {ToolOPEN, ToolSUBMITTED}
                          then t\<lparr>tool_status := ToolCANCELLED\<rparr> else t) (tools s)"
proof -
  obtain s' where s': "cancel_step E reason s = Inr (Some s', written s')"
    using cancel_step_total assms by blast
  have "session_ok (rt E) s" using assms by (simp add: session_ok_def)
  note effect = cancel_keeps [OF s' this]
  then have "cancelled_at s' \<noteq> None" by (simp add: step_keeps_def closed_ok_def)
  moreover have "cancel_tool = (\<lambda>t. if tool_status t \<in> {ToolOPEN, ToolSUBMITTED}
                          then t\<lparr>tool_status := ToolCANCELLED\<rparr> else t)"
    by (simp add: fun_eq_iff cancel_tool_def is_cancellable_def)
  ultimately show ?thesis using s' effect by auto
qed

lemma cancelling_closes_sample:
  "\<exists>s'. cancel_step sample_env ''withdrawn'' sample_started = Inr (Some s', written s') \<and> status s' = CANCELLED"
  using cancelling_closes [of sample_env sample_started "''withdrawn''"] sample_started_ok
  by (auto simp: session_simps)





end
