(* ===== verification/Tool_Properties.thy ===== *)
theory Tool_Properties
  imports Samples
begin

text \<open>
  What holds of practical tools: which tool an interviewer's decision can open, what a
  submission can be evaluated to, and that the hidden tests of a challenge stay hidden.
\<close>

section \<open>Opening\<close>

definition sample_tool_job :: job_spec where
  "sample_tool_job = sample_job\<lparr>tool_templates := [\<lparr> jtt_template_id = ''system-design-burst-api-v1'',
     jtt_purpose = ''design'', jtt_competency_ids = [''api''] \<rparr>]\<rparr>"

definition sample_tool_decision :: agent_decision where
  "sample_tool_decision = \<lparr> decision_text = ''Draw it.'', decision_tags = [''api''],
     decision_parent = None, completes_interview = False,
     tool_request = Some ''system-design-burst-api-v1'', decision_reason = ''tool'' \<rparr>"

definition sample_templates :: template_registry where
  "sample_templates = [(''system-design-burst-api-v1'', system_design_template)]"

text \<open>C19. A tool that a decision of the brain opens respects the job: the interview is live, the
  tool budget was not used up, the template is allowed by the job for all the competencies of
  the decision and was not used before, and the session gets exactly one tool more, open,
  under an identifier of its own, for known competencies of the job.\<close>

theorem opened_tool_respects_job:
  assumes "open_requested_tool E reg job d qid s priv = (priv', Inr (s', Some invo))"
    and "\<forall>(k, t)\<in>set reg. tpl_id t = k"
  shows "\<exists>template. tool_request d = Some template
    \<and> int (length (tools s)) < max_tools job
    \<and> template \<notin> set (used_templates (float_repr (rt E)) s)
    \<and> (\<exists>p\<in>set (tool_templates job). jtt_template_id p = template
         \<and> (jtt_competency_ids p = [] \<or> set (decision_tags d) \<subseteq> set (jtt_competency_ids p)))
    \<and> tools s' = tools s @ [invo] \<and> tool_status invo = ToolOPEN
    \<and> tool_id invo \<notin> set (map tool_id (tools s))
    \<and> tool_competency_tags invo = decision_tags d
    \<and> set (decision_tags d) \<subseteq> set (competency_ids_of job)
    \<and> jget (tool_payload invo) ''template_id'' = JStr template
    \<and> status s \<notin> {COMPLETED, CANCELLED}"
proof -
  obtain template where t: "tool_request d = Some template"
    using open_requested_tool_Inr(1) [OF assms(1)] by (cases "tool_request d") auto
  then have a: "append_tool E job invo s = Inr s'"
    and g: "tool_request_guards E job d template s = Inr ()"
    and i: "registry_instantiate E (length (tools s)) reg template (decision_tags d) (Some qid) priv
              = Inr (priv', invo)"
    using open_requested_tool_Inr(2) [OF assms(1) t] by auto
  show ?thesis
    using t append_tool_Inr [OF a] tool_request_guards_Inr [OF g] registry_instantiate_Inr [OF i assms(2)]
    by (auto simp: jget_def)
qed

lemma sample_tool_opened:
  "\<exists>s' invo. open_requested_tool sample_env sample_templates sample_tool_job sample_tool_decision ''turn0''
     sample_started [] = ([], Inr (s', Some invo))"
proof -
  have g: "tool_request_guards sample_env sample_tool_job sample_tool_decision ''system-design-burst-api-v1''
      sample_started = Inr ()"
    by (simp add: tool_request_guards_def raise_if_def sample_tool_decision_def sample_tool_job_def
        used_templates_def session_simps sorted_set_def)
  have i: "\<exists>invo. registry_instantiate sample_env 0 sample_templates ''system-design-burst-api-v1'' [''api'']
      (Some ''turn0'') [] = Inr ([], invo) \<and> tool_competency_tags invo = [''api'']
      \<and> opened_from_turn_id invo = Some ''turn0''"
    by (simp add: registry_instantiate_def get_template_def sample_templates_def instantiate_template_def
        system_design_template_def ToolInvocation_def raise_if_def len_between_def ebind_def)
  then obtain invo where invo: "registry_instantiate sample_env 0 sample_templates
      ''system-design-burst-api-v1'' [''api''] (Some ''turn0'') [] = Inr ([], invo)"
      "tool_competency_tags invo = [''api'']" "opened_from_turn_id invo = Some ''turn0''" by blast
  have "\<exists>s'. append_tool sample_env sample_tool_job invo sample_started = Inr s'"
    using invo by (simp add: append_tool_def check_live_def raise_if_def Let_def session_simps
        sample_tool_job_def competency_ids_of_def sample_job_def event_simps)
  then show ?thesis using g invo
    by (auto simp: open_requested_tool_def sample_tool_decision_def value_error_400_def ebind_def
        session_simps)
qed

theorem opened_tool_respects_job_witness:
  "\<exists>s' invo. open_requested_tool sample_env sample_templates sample_tool_job sample_tool_decision ''turn0''
     sample_started [] = ([], Inr (s', Some invo)) \<and> tools s' = [invo] \<and> tool_status invo = ToolOPEN"
proof -
  obtain s' invo where o: "open_requested_tool sample_env sample_templates sample_tool_job
      sample_tool_decision ''turn0'' sample_started [] = ([], Inr (s', Some invo))"
    using sample_tool_opened by blast
  have "\<forall>(k, t)\<in>set sample_templates. tpl_id t = k"
    by (simp add: sample_templates_def system_design_template_def)
  moreover have "tools sample_started = []" by (simp add: session_simps)
  ultimately have "tools s' = [invo] \<and> tool_status invo = ToolOPEN"
    using opened_tool_respects_job [OF o] by auto
  with o show ?thesis by blast
qed

section \<open>Submitting\<close>



definition sample_board :: tool_invocation where
  "sample_board = \<lparr> tool_id = ''board'', tool_kind = WHITEBOARD, tool_title = ''Sketch'',
     tool_instructions = ''Sketch the system.'', tool_competency_tags = [''api''],
     tool_status = ToolOPEN, tool_payload = [], opened_from_turn_id = Some ''turn0'' \<rparr>"





text \<open>C21. A coding submission passes exactly if it has a non-blank source, the challenge is known,
  the sandbox ran the source against all public and hidden tests within the time limit, and the
  report it printed counts at least one test and as many passed as there were.\<close>

theorem passing_is_a_full_run:
  assumes "coding_evaluate SB priv invo sub = Inr ev"
  shows "eval_passed ev = Some True \<longleftrightarrow>
    (\<exists>source ch res parsed total. jget (sub_content sub) ''code'' = JStr source
       \<and> strip source \<noteq> [] \<and> dict_get priv (tool_id invo) = Some ch
       \<and> run_python SB source (build_harness (priv_public_tests ch @ priv_hidden_tests ch))
            (priv_timeout ch) = Inr res
       \<and> \<not> timed_out res \<and> parse_result SB (stdout res) = JObj parsed
       \<and> py_int SB (dict_get_or parsed ''total'' (JInt 0)) = Inr total
       \<and> py_int SB (dict_get_or parsed ''passed'' (JInt 0)) = Inr total \<and> 0 < total)"
    (is "_ \<longleftrightarrow> ?run")
proof
  assume "eval_passed ev = Some True"
  from coding_pass [OF assms this] show ?run by metis
next
  assume ?run
  then show "eval_passed ev = Some True"
    using assms by (auto simp: coding_evaluate_def score_report_def ebind_def dest!: coding_evaluation_Inr)
qed

definition sample_report :: sandbox_result where
  "sample_report = \<lparr> exit_code = Some 0, stdout = RESULT_PREFIX @ ''{}'', stderr = [], timed_out = False,
     duration_ms = 5, provider_id = ''local'', execution_id = None, produced_artifacts = [] \<rparr>"

definition sample_runner :: sandbox where
  "sample_runner = \<lparr> run_python = (\<lambda>src harness limit. Inr sample_report),
     json_loads = (\<lambda>t. Some (JObj [(''passed'', JInt 2), (''total'', JInt 2)])),
     int_of_string = (\<lambda>t. None) \<rparr>"

definition sample_challenge :: private_challenge where
  "sample_challenge = \<lparr> priv_id = ''challenge0'', priv_hidden_tests = [''assert f(2) == 4''],
     priv_public_tests = [''assert f(1) == 1''], priv_timeout = 5 \<rparr>"

lemma sample_report_parsed:
  "parse_result sample_runner (stdout sample_report) = JObj [(''passed'', JInt 2), (''total'', JInt 2)]"
  by code_simp

lemma sample_source [simp]: "strip ''pass'' = ''pass''" "0 \<le> fl 1" "fl 1 \<le> 1"
  by code_simp+

theorem passing_is_a_full_run_witness:
  "\<exists>ev. coding_evaluate sample_runner [(''board'', sample_challenge)] sample_board
     \<lparr> sub_id = ''s'', sub_tool_id = ''board'', sub_content = [(''code'', JStr ''pass'')] \<rparr>
       = Inr ev \<and> eval_passed ev = Some True"
proof -
  let ?sub = "\<lparr> sub_id = ''s'', sub_tool_id = ''board'', sub_content = [(''code'', JStr ''pass'')] \<rparr>"
  have r: "\<exists>ev. coding_evaluate sample_runner [(''board'', sample_challenge)] sample_board ?sub = Inr ev"
    using sample_report_parsed
    by (simp add: coding_evaluate_def jget_def dict_get_or_def sample_board_def sample_runner_def
        sample_report_def score_report_def py_int_def ebind_def coding_evaluation_def ToolEvaluation_def
        raise_if_def opt_all_def)
  then obtain ev where ev: "coding_evaluate sample_runner [(''board'', sample_challenge)] sample_board ?sub
      = Inr ev" by blast
  have "eval_passed ev = Some True"
    unfolding passing_is_a_full_run [OF ev] using sample_report_parsed
    by (simp add: jget_def dict_get_or_def sample_board_def sample_runner_def sample_report_def py_int_def)
  with ev show ?thesis by blast
qed

text \<open>C22. The hidden tests stay hidden: what opening a coding challenge returns and stores in the
  session is the same whatever the hidden tests are, if their number is the same.\<close>

theorem hidden_tests_stay_hidden:
  assumes "length hidden = length (cod_hidden_tests req)"
  shows "snd (open_coding_step E (req\<lparr>cod_hidden_tests := hidden\<rparr>) s job priv)
       = snd (open_coding_step E req s job priv)"
proof -
  note hides = create_challenge_hides_tests [OF assms, of E "length (tools s)" priv]
  show ?thesis
    using hides
    by (cases "create_challenge E (length (tools s)) req priv";
        cases "create_challenge E (length (tools s)) (req\<lparr>cod_hidden_tests := hidden\<rparr>) priv")
      (simp_all add: open_coding_step_def raise_if_def Let_def case_prod_beta)
qed

definition sample_coding :: coding_request where
  "sample_coding = \<lparr> cod_title = ''Squares'', cod_instructions = ''Write f.'', cod_tags = [''api''],
     cod_starter_code = [], cod_public_tests = [''assert f(1) == 1''],
     cod_hidden_tests = [''assert f(2) == 4''], cod_opened_from = Some ''turn0'', cod_timeout = 5 \<rparr>"

theorem hidden_tests_stay_hidden_witness:
  "snd (open_coding_step sample_env (sample_coding\<lparr>cod_hidden_tests := [''assert f(9) == 81'']\<rparr>)
       sample_started sample_job [])
     = snd (open_coding_step sample_env sample_coding sample_started sample_job [])"
  by (rule hidden_tests_stay_hidden) (simp add: sample_coding_def)

end
