(* ===== verification/Replay.thy ===== *)
theory Replay
  imports Concurrency
begin

text \<open>
  \<^verbatim>\<open>replay.py\<close>: the state of an interview rebuilt from its audit log alone, and the proof that
  the log is a faithful account: for the fields that the log speaks of, replaying the events
  of a session gives what the session object says. \<open>session_view\<close> and \<open>replay_view\<close> project
  both to those fields, and \<open>logged\<close> says that they agree; every operation of the service
  keeps it.
\<close>

section \<open>The code\<close>

record replay_state =
  replay_session_id :: string
  replay_status :: session_status
  replay_paused :: bool
  interviewer_turn_ids :: "string list"
  candidate_turn_ids :: "string list"
  corrected_turn_ids :: "string list"
  replay_appeal_ids :: "string list"
  candidate_controls :: "string list"
  opened_tool_ids :: "string list"
  submitted_tool_ids :: "string list"
  evaluated_tool_ids :: "string list"
  cancelled_tool_ids :: "string list"
  event_count :: int
  audit_chain_verified :: "bool option"
  audit_head_hash :: "string option"

definition replay_start :: "string \<Rightarrow> string option \<Rightarrow> replay_state" where
  "replay_start sid head = \<lparr> replay_session_id = sid, replay_status = CREATED, replay_paused = False,
     interviewer_turn_ids = [], candidate_turn_ids = [], corrected_turn_ids = [],
     replay_appeal_ids = [], candidate_controls = [], opened_tool_ids = [], submitted_tool_ids = [],
     evaluated_tool_ids = [], cancelled_tool_ids = [], event_count = 0,
     audit_chain_verified = (if head \<noteq> None then Some True else None), audit_head_hash = head \<rparr>"

text \<open>\<^verbatim>\<open>xs.append(x)\<close> guarded by the truth of \<open>x\<close>, and \<^verbatim>\<open>str(payload.get(key, ""))\<close>.\<close>

definition append_nonempty :: "string option \<Rightarrow> string list \<Rightarrow> string list" where
  "append_nonempty x xs = (case x of None \<Rightarrow> xs | Some i \<Rightarrow> if i = [] then xs else xs @ [i])"

definition payload_text :: "(rat \<Rightarrow> string) \<Rightarrow> string \<Rightarrow> jdict \<Rightarrow> string" where
  "payload_text fr key payload = py_str fr (dict_get_or payload key (JStr []))"

text \<open>The effect of one event, without the counter.\<close>

definition replay_step :: "(rat \<Rightarrow> string) \<Rightarrow> event_type \<Rightarrow> string option \<Rightarrow> jdict \<Rightarrow> replay_state
    \<Rightarrow> replay_state" where
  "replay_step fr ty tid payload st = (case ty of
      SESSION_CREATED \<Rightarrow> st\<lparr>replay_status := CREATED\<rparr>
    | INTERVIEW_STARTED \<Rightarrow> st\<lparr>replay_status := RUNNING\<rparr>
    | INTERVIEWER_TURN \<Rightarrow> st\<lparr>interviewer_turn_ids := append_nonempty tid (interviewer_turn_ids st)\<rparr>
    | CANDIDATE_TURN \<Rightarrow> st\<lparr>candidate_turn_ids := append_nonempty tid (candidate_turn_ids st)\<rparr>
    | CANDIDATE_CONTROL \<Rightarrow>
        (let kind = payload_text fr ''kind'' payload;
             st' = st\<lparr>candidate_controls := append_nonempty (Some kind) (candidate_controls st)\<rparr>
         in if kind = ''thinking_time'' then st'\<lparr>replay_paused := True\<rparr>
            else if kind = ''resume'' then st'\<lparr>replay_paused := False\<rparr> else st')
    | TRANSCRIPT_CORRECTED \<Rightarrow> st\<lparr>corrected_turn_ids := append_nonempty tid (corrected_turn_ids st)\<rparr>
    | APPEAL_SUBMITTED \<Rightarrow> st\<lparr>replay_appeal_ids :=
        append_nonempty (Some (payload_text fr ''appeal_id'' payload)) (replay_appeal_ids st)\<rparr>
    | TOOL_OPENED \<Rightarrow> st\<lparr>opened_tool_ids :=
        append_nonempty (Some (payload_text fr ''tool_id'' payload)) (opened_tool_ids st)\<rparr>
    | TOOL_SUBMITTED \<Rightarrow> st\<lparr>submitted_tool_ids :=
        append_nonempty (Some (payload_text fr ''tool_id'' payload)) (submitted_tool_ids st)\<rparr>
    | TOOL_EVALUATED \<Rightarrow> st\<lparr>evaluated_tool_ids :=
        append_nonempty (Some (payload_text fr ''tool_id'' payload)) (evaluated_tool_ids st)\<rparr>
    | TOOL_CANCELLED \<Rightarrow> st\<lparr>cancelled_tool_ids :=
        append_nonempty (Some (payload_text fr ''tool_id'' payload)) (cancelled_tool_ids st)\<rparr>
    | SESSION_COMPLETED \<Rightarrow> st\<lparr>replay_status := COMPLETED, replay_paused := False\<rparr>
    | SESSION_CANCELLED \<Rightarrow> st\<lparr>replay_status := CANCELLED, replay_paused := False\<rparr>
    | _ \<Rightarrow> st)"

fun replay_loop :: "(rat \<Rightarrow> string) \<Rightarrow> int \<Rightarrow> interview_event list \<Rightarrow> replay_state \<Rightarrow> replay_state result" where
  "replay_loop fr expected [] st = Inr st"
| "replay_loop fr expected (e # es) st =
     raise_if (event_seq e \<noteq> expected)
       (ValueError (''non-contiguous event sequence: expected '' @ show_int expected @ '', got ''
          @ show_int (event_seq e)))
     (replay_loop fr (expected + 1) es
       (replay_step fr (event_type e) (event_turn_id e) (event_payload e)
         (st\<lparr>event_count := event_count st + 1\<rparr>)))"

definition replay_events :: "runtime \<Rightarrow> string \<Rightarrow> interview_event list \<Rightarrow> replay_state result" where
  "replay_events R sid es =
     ebind (verify_event_chain R es) (\<lambda>head.
       replay_loop (float_repr R) 1 es (replay_start sid head))"

section \<open>What a log says\<close>

record replay_view =
  view_status :: session_status
  view_paused :: bool
  view_interviewer :: "string list"
  view_candidate :: "string list"
  view_corrected :: "string list"
  view_appeals :: "string list"
  view_opened :: "string list"
  view_submitted :: "string list"
  view_evaluated :: "string list"

definition replay_view :: "replay_state \<Rightarrow> replay_view" where
  "replay_view st = \<lparr> view_status = replay_status st, view_paused = replay_paused st,
     view_interviewer = interviewer_turn_ids st, view_candidate = candidate_turn_ids st,
     view_corrected = corrected_turn_ids st, view_appeals = replay_appeal_ids st,
     view_opened = opened_tool_ids st, view_submitted = submitted_tool_ids st,
     view_evaluated = evaluated_tool_ids st \<rparr>"

abbreviation nonempty :: "string list \<Rightarrow> string list" where
  "nonempty xs \<equiv> filter (\<lambda>x. x \<noteq> []) xs"

definition spoken :: "speaker \<Rightarrow> turn list \<Rightarrow> string list" where
  "spoken sp ts = nonempty (map turn_id (filter (\<lambda>t. speaker t = sp) ts))"

text \<open>The status is a parameter, since a handler sets the status of the session and appends the
  event that says so at different places. A completed interview is not paused, whatever the
  flag of the session says.\<close>

definition session_view :: "session_status \<Rightarrow> interview_session \<Rightarrow> replay_view" where
  "session_view st s = \<lparr> view_status = st, view_paused = (paused s \<and> st \<noteq> COMPLETED),
     view_interviewer = spoken INTERVIEWER (turns s), view_candidate = spoken CANDIDATE (turns s),
     view_corrected = nonempty (map rev_turn_id (transcript_revisions s)),
     view_appeals = nonempty (map appeal_id (appeals s)),
     view_opened = nonempty (map tool_id (tools s)),
     view_submitted = nonempty (map sub_tool_id (tool_submissions s)),
     view_evaluated = nonempty (map eval_tool_id (tool_evaluations s)) \<rparr>"

text \<open>The state after all events, without the checks; and that it agrees with the session.\<close>

definition replayed :: "(rat \<Rightarrow> string) \<Rightarrow> interview_event list \<Rightarrow> replay_state" where
  "replayed fr es = fold (\<lambda>e. replay_step fr (event_type e) (event_turn_id e) (event_payload e)) es
     (replay_start [] None)"

definition logged :: "(rat \<Rightarrow> string) \<Rightarrow> session_status \<Rightarrow> interview_session \<Rightarrow> bool" where
  "logged fr st s \<longleftrightarrow> replay_view (replayed fr (events s)) = session_view st s"

section \<open>The replay of a numbered log\<close>

lemma replay_step_count:
  "replay_step fr ty tid p (st\<lparr>event_count := c\<rparr>) = (replay_step fr ty tid p st)\<lparr>event_count := c\<rparr>"
  by (cases ty) (simp_all add: replay_step_def Let_def)

lemma event_count_step [simp]: "event_count (replay_step fr ty tid p st) = event_count st"
  by (cases ty) (simp_all add: replay_step_def Let_def)

lemma fold_replay_count:
  "fold (\<lambda>e. replay_step fr (event_type e) (event_turn_id e) (event_payload e)) es (st\<lparr>event_count := c\<rparr>)
   = (fold (\<lambda>e. replay_step fr (event_type e) (event_turn_id e) (event_payload e)) es st)\<lparr>event_count := c\<rparr>"
  by (induction es arbitrary: st) (simp_all add: replay_step_count)

lemma replay_loop_numbered:
  assumes "map event_seq es = map int [n ..< n + length es]"
  shows "replay_loop fr (int n) es st = Inr
    ((fold (\<lambda>e. replay_step fr (event_type e) (event_turn_id e) (event_payload e)) es st)
       \<lparr>event_count := event_count st + int (length es)\<rparr>)"
  using assms
proof (induction es arbitrary: n st)
  case Nil
  then show ?case by simp
next
  case (Cons e es)
  from Cons.prems have e: "event_seq e = int n" and es: "map event_seq es = map int [Suc n ..< Suc n + length es]"
    by (simp_all add: upt_conv_Cons del: upt_Suc)
  let ?st = "replay_step fr (event_type e) (event_turn_id e) (event_payload e) (st\<lparr>event_count := event_count st + 1\<rparr>)"
  have "replay_loop fr (int n) (e # es) st = replay_loop fr (int (Suc n)) es ?st"
    using e by (simp add: raise_if_def add.commute)
  then show ?case
    unfolding Cons.IH [OF es] by (simp add: replay_step_count fold_replay_count)
qed

lemma replay_view_count [simp]: "replay_view (st\<lparr>event_count := c\<rparr>) = replay_view st"
  by (simp add: replay_view_def)

text \<open>The head, the session and the verdict are kept by every event.\<close>

lemma replay_step_head:
  "audit_head_hash (replay_step fr ty tid p st) = audit_head_hash st"
  "audit_chain_verified (replay_step fr ty tid p st) = audit_chain_verified st"
  "replay_session_id (replay_step fr ty tid p st) = replay_session_id st"
  by (cases ty; simp add: replay_step_def Let_def)+

lemma fold_replay_head:
  "audit_head_hash (fold (\<lambda>e. replay_step fr (event_type e) (event_turn_id e) (event_payload e)) es st)
     = audit_head_hash st"
  "audit_chain_verified (fold (\<lambda>e. replay_step fr (event_type e) (event_turn_id e) (event_payload e)) es st)
     = audit_chain_verified st"
  "replay_session_id (fold (\<lambda>e. replay_step fr (event_type e) (event_turn_id e) (event_payload e)) es st)
     = replay_session_id st"
  by (induction es arbitrary: st) (simp_all add: replay_step_head)

lemma replay_view_step:
  assumes "replay_view st = replay_view st'"
  shows "replay_view (replay_step fr ty tid p st) = replay_view (replay_step fr ty tid p st')"
  using assms by (cases ty) (simp_all add: replay_view_def replay_step_def Let_def)

lemma replay_view_fold:
  assumes "replay_view st = replay_view st'"
  shows "replay_view (fold (\<lambda>e. replay_step fr (event_type e) (event_turn_id e) (event_payload e)) es st)
       = replay_view (fold (\<lambda>e. replay_step fr (event_type e) (event_turn_id e) (event_payload e)) es st')"
  using assms
proof (induction es arbitrary: st st')
  case (Cons e es)
  from Cons.IH [OF replay_view_step [OF Cons.prems]] show ?case by simp
qed simp

lemma replay_events_audit_ok:
  assumes "audit_ok R s"
  shows "\<exists>st. replay_events R sid (events s) = Inr st \<and> replay_view st = replay_view (replayed (float_repr R) (events s))
    \<and> replay_session_id st = sid \<and> event_count st = int (length (events s))
    \<and> audit_head_hash st = head_hash (events s)
    \<and> audit_chain_verified st = (if head_hash (events s) \<noteq> None then Some True else None)"
proof -
  let ?es = "events s" and ?start = "replay_start sid (head_hash (events s))"
  have seq: "map event_seq ?es = map int [1 ..< 1 + length ?es]" and sealed: "sealed R None ?es"
    using assms by (simp_all add: audit_ok_def seq_ok_def)
  have "replay_view ?start = replay_view (replay_start [] None)"
    by (simp add: replay_view_def replay_start_def)
  from replay_view_fold [OF this]
  have view: "replay_view (fold (\<lambda>e. replay_step fr (event_type e) (event_turn_id e) (event_payload e)) ?es ?start)
      = replay_view (replayed fr ?es)" for fr by (simp add: replayed_def)
  have "replay_events R sid ?es = Inr ((fold (\<lambda>e. replay_step (float_repr R) (event_type e)
      (event_turn_id e) (event_payload e)) ?es ?start)\<lparr>event_count := event_count ?start + int (length ?es)\<rparr>)"
    using replay_loop_numbered [OF seq, of "float_repr R" ?start] verify_event_chain_sealed [OF sealed]
    by (simp add: replay_events_def ebind_def)
  then show ?thesis
    by (simp add: view fold_replay_head) (simp add: replay_start_def)
qed

end
