(* ===== verification/Replay_Refines.thy ===== *)
theory Replay_Refines
  imports Replay
begin

text \<open>
  Every operation of the service logs what it does: if replaying the log of a session gives
  the state of the session, it does so again after the operation. One lemma for each
  operation, joined in \<open>request_logged\<close>.
\<close>

section \<open>Appending one event\<close>

lemma replayed_cong:
  assumes "map (\<lambda>e. (event_type e, event_turn_id e, event_payload e)) es
         = map (\<lambda>e. (event_type e, event_turn_id e, event_payload e)) es'"
  shows "replayed fr es = replayed fr es'"
proof -
  have "replayed fr xs = fold (\<lambda>(ty, tid, p). replay_step fr ty tid p)
      (map (\<lambda>e. (event_type e, event_turn_id e, event_payload e)) xs) (replay_start [] None)" for xs
    by (simp add: replayed_def fold_map comp_def)
  then show ?thesis using assms by simp
qed

lemma seal_loop_replayed [simp]: "replayed fr (seal_loop R prev es) = replayed fr es"
proof (rule replayed_cong)
  show "map (\<lambda>e. (event_type e, event_turn_id e, event_payload e)) (seal_loop R prev es)
      = map (\<lambda>e. (event_type e, event_turn_id e, event_payload e)) es"
    by (induction es arbitrary: prev) (simp_all add: Let_def)
qed

lemma seal_event_chain_replayed:
  "seal_event_chain R es = Inr (es', h) \<Longrightarrow> replayed fr es' = replayed fr es"
  by (auto simp: seal_event_chain_def exn_simps Let_def split: if_splits)

lemma append_event_replayed:
  assumes "append_event E ty t p s = Inr s'"
  shows "replayed fr (events s') = replay_step fr ty (map_option turn_id t) (with_trace (correlation_id E) p)
     (replayed fr (events s))"
  using assms by (auto simp: append_event_def exn_simps replayed_def dest!: seal_event_chain_replayed [where fr = fr])

lemma append_event_view: "append_event E ty t p s = Inr s' \<Longrightarrow> session_view st s' = session_view st s"
  by (drule append_event_frame) (erule ssubst, simp add: session_view_def)

lemma append_event_logged:
  assumes "append_event E ty t p s = Inr s'"
  shows "logged fr st s' \<longleftrightarrow> replay_view (replay_step fr ty (map_option turn_id t)
     (with_trace (correlation_id E) p) (replayed fr (events s))) = session_view st s"
  by (simp add: logged_def append_event_replayed [OF assms] append_event_view [OF assms])

definition silent :: "event_type \<Rightarrow> bool" where
  "silent ty \<longleftrightarrow> ty \<notin> {SESSION_CREATED, INTERVIEW_STARTED, INTERVIEWER_TURN, CANDIDATE_TURN, CANDIDATE_CONTROL,
     TRANSCRIPT_CORRECTED, APPEAL_SUBMITTED, TOOL_OPENED, TOOL_SUBMITTED, TOOL_EVALUATED, TOOL_CANCELLED,
     SESSION_COMPLETED, SESSION_CANCELLED}"

lemma silent_replay_step: "silent ty \<Longrightarrow> replay_step fr ty tid p st = st"
  by (cases ty) (simp_all add: silent_def replay_step_def)

lemma silent_logged:
  assumes "append_event E ty t p s = Inr s'" and "silent ty"
  shows "logged fr st s' = logged fr st s"
  unfolding append_event_logged [OF assms(1)] silent_replay_step [OF assms(2)] by (simp add: logged_def)

lemma silent_simps [simp]:
  "silent APPEAL_REVIEWED" "silent EVIDENCE_OBSERVED" "silent EVIDENCE_JUDGE_FAILED"
  "silent EVIDENCE_JUDGE_DISAGREEMENT" "silent EVIDENCE_JUDGE_RUN_RECORDED"
  "silent EVIDENCE_SUPERSEDED" "silent INTEGRITY_SIGNAL" "silent INTEGRITY_REVIEWED"
  "silent REVIEW_ASSIGNED" "silent REVIEW_STARTED" "silent REVIEW_COMPLETED"
  "silent REVIEW_ASSIGNMENT_CANCELLED" "silent ARTIFACT_CREATED" "silent ARTIFACT_ACCESSED"
  "silent ARTIFACT_DELETED" "silent VOICE_SPEECH_STARTED" "silent VOICE_TRANSCRIPT_PARTIAL"
  "silent VOICE_TRANSCRIPT_FINAL" "silent VOICE_RESPONSE_READY" "silent VOICE_TTS_STARTED"
  "silent VOICE_TTS_COMPLETED" "silent VOICE_TTS_CANCELLED" "silent VOICE_BARGE_IN"
  "silent VOICE_PROVIDER_FAILED" "silent VOICE_TRANSPORT_SELECTED" "silent VOICE_TRANSPORT_FALLBACK"
  "silent VOICE_VAD_ENDPOINT" "silent WEBHOOK_DELIVERY"
  by (simp_all add: silent_def)

lemma logged_cong:
  "events s' = events s \<Longrightarrow> session_view st s' = session_view st s \<Longrightarrow> logged fr st s' = logged fr st s"
  by (simp add: logged_def)

lemma silent_loop_logged:
  assumes "efold (\<lambda>x. append_event E (ty x) (t x) (p x)) xs s = Inr s'" and "\<And>x. silent (ty x)"
    and "logged fr st s"
  shows "logged fr st s'"
  by (rule efold_invariant [where P = "logged fr st", OF assms(1,3)]) (simp add: silent_logged assms(2))

text \<open>What an event adds to the view.\<close>

lemma payload_text_trace [simp]:
  "k \<noteq> ''_trace'' \<Longrightarrow> payload_text fr k (with_trace c p) = payload_text fr k p"
  by (simp add: payload_text_def dict_get_or_def with_trace_def Let_def split: option.splits)

lemma payload_text_str [simp]: "dict_get p k = Some (JStr x) \<Longrightarrow> payload_text fr k p = x"
  by (simp add: payload_text_def dict_get_or_def)

lemma append_nonempty_Some: "append_nonempty (Some x) xs = xs @ nonempty [x]"
  by (simp add: append_nonempty_def)

lemma spoken_snoc [simp]:
  "spoken sp (ts @ [t]) = spoken sp ts @ (if speaker t = sp then nonempty [turn_id t] else [])"
  by (simp add: spoken_def)

lemmas view_simps = logged_def replay_view_def session_view_def replay_step_def append_nonempty_Some Let_def

text \<open>An appended turn with its event.\<close>

lemma turn_logged:
  assumes "append_event E ty (Some t) p s1 = Inr s'"
    and "ty = (if speaker t = INTERVIEWER then INTERVIEWER_TURN else CANDIDATE_TURN)" and "speaker t \<noteq> SYSTEM"
    and "events s1 = events s" and "session_view st s1 = session_view st (s\<lparr>turns := turns s @ [t]\<rparr>)"
    and "logged fr st s"
  shows "logged fr st s'"
  unfolding append_event_logged [OF assms(1)] assms(2,4,5)
  using assms(3,6) by (cases "speaker t") (simp_all add: view_simps)

section \<open>Decisions and tools\<close>

lemma apply_decision_logged:
  assumes "apply_decision E d l s = Inr (s', t)" and "logged fr st s"
  shows "logged fr st s'"
proof -
  obtain p where e: "append_event E INTERVIEWER_TURN (Some t) p (decided E d l s) = Inr s'"
    using apply_decision_event(2) [OF assms(1)] by blast
  have t: "t = decision_turn E d l s" by (rule apply_decision_event(1) [OF assms(1)])
  have v: "session_view st (decided E d l s) = session_view st (s\<lparr>turns := turns s @ [t]\<rparr>)"
    by (simp add: t decided_def Let_def session_view_def)
  show ?thesis
    by (rule turn_logged [OF e _ _ _ v assms(2)]) (simp_all add: t decided_fields decision_turn_def)
qed

lemma count_followup_logged [simp]: "logged fr st (count_followup d s) = logged fr st s"
  by (rule logged_cong) (simp_all add: count_followup_def session_view_def split: option.splits list.splits)

lemma complete_if_logged:
  assumes "complete_if E d s = Inr s'" and "logged fr (status s) s"
  shows "logged fr (status s') s'"
proof (cases "completes_interview d")
  case True
  then have e: "append_event E SESSION_COMPLETED None [] (s\<lparr>status := COMPLETED,
                completed_at := (if completed_at s = None then Some (now_at E ''completed_at'' 0)
                                 else completed_at s)\<rparr>) = Inr s'"
    using assms(1) by (simp add: complete_if_def)
  show ?thesis
    unfolding append_event_logged [OF e] append_event_fields(4) [OF e]
    using assms(2) by (simp add: view_simps)
next
  case False
  then show ?thesis using assms by (simp add: complete_if_def)
qed

lemma append_tool_logged:
  assumes "append_tool E job invo s = Inr s'" and "logged fr st s"
  shows "logged fr st s'"
proof -
  from assms(1) obtain p where e: "append_event E TOOL_OPENED None p (s\<lparr>tools := tools s @ [invo]\<rparr>) = Inr s'"
    and p: "dict_get p ''tool_id'' = Some (JStr (tool_id invo))"
    by (auto simp: append_tool_def Let_def exn_simps)
  show ?thesis
    unfolding append_event_logged [OF e] using assms(2) p by (simp add: view_simps)
qed

lemma open_requested_tool_logged:
  assumes "open_requested_tool E reg job d qid s priv = (priv', Inr (s', invo))" and "logged fr st s"
  shows "logged fr st s'"
  using open_requested_tool_Inr [OF assms(1)] assms(2)
  by (cases "tool_request d") (auto dest: append_tool_logged)

lemma only_covers_logged: "only_covers s s' \<Longrightarrow> logged fr st s' = logged fr st s"
  unfolding only_covers_def by (erule ssubst) (simp add: logged_def session_view_def)

section \<open>Judging\<close>

lemma then_block_pred:
  assumes "P (fst b)" and "\<And>st. P st \<Longrightarrow> P (fst (f st))"
  shows "P (fst (then_block b f))"
  using assms by (auto simp: then_block_def split: prod.splits option.splits)

lemma event_block_logged:
  "silent ty \<Longrightarrow> logged fr st (fst js) \<Longrightarrow> logged fr st (fst (fst (event_block E ty t p js)))"
  by (auto simp: event_block_def silent_logged split: sum.splits)

lemma superseded_events_logged:
  "logged fr st (fst js) \<Longrightarrow> logged fr st (fst (fst (superseded_events E a rid its js)))"
proof (induction its arbitrary: js)
  case (Cons it its)
  show ?case
    unfolding superseded_events.simps
    by (rule then_block_pred [where P = "\<lambda>js. logged fr st (fst js)"])
      (simp_all add: event_block_logged Cons)
qed simp

lemma set_node_logged [simp]: "logged fr st (set_node k n s) = logged fr st s"
  by (rule logged_cong) (simp_all add: set_node_def session_view_def)

lemma supersede_logged [simp]:
  "logged fr st (fst (supersede_semantic_evidence_for_turn tid s)) = logged fr st s"
proof -
  have "logged fr st (fold recompute_node ks s') = logged fr st s'" for ks s'
    by (induction ks arbitrary: s') (simp_all add: recompute_node_def Let_def)
  then show ?thesis
    by (simp add: supersede_semantic_evidence_for_turn_def Let_def) (rule logged_cong; simp add: session_view_def)
qed

lemma apply_observation_logged:
  "apply_observation E s job ob = Inr (s', item) \<Longrightarrow> logged fr st s' = logged fr st s"
  by (drule apply_observation_Inr(1)) simp

lemma observe_block_logged:
  "logged fr st (fst js) \<Longrightarrow> logged fr st (fst (fst (observe_block E job a obs js)))"
proof (induction obs arbitrary: js)
  case (Cons ob obs)
  show ?case
  proof (cases "apply_observation E (fst js) job ob")
    case (Inr p)
    obtain s1 item where p: "p = (s1, item)" by (cases p)
    then have "logged fr st s1" using Inr Cons.prems by (simp add: apply_observation_logged)
    then show ?thesis
      by (simp add: Inr p Let_def)
        (rule then_block_pred [where P = "\<lambda>js. logged fr st (fst js)"]; simp add: event_block_logged Cons.IH)
  qed (simp add: Cons.prems)
qed simp

lemma audit_block_logged:
  "logged fr st (fst js) \<Longrightarrow> logged fr st (fst (fst (audit_block E jid q a audit js)))"
  by (auto simp: audit_block_def Let_def event_block_logged split: sum.splits)

lemma add_run_logged [simp]: "logged fr st (fst (add_run js)) = logged fr st (fst js)"
  by (rule logged_cong) (simp_all add: add_run_def session_view_def)

lemma judge_try_logged:
  assumes "logged fr st (fst js)"
  shows "logged fr st (fst (fst (judge_try E J job q a cids again js)))"
proof (cases "ebind (evaluate J q a job cids) (\<lambda>response.
           ebind (gate_validate a response (judge_id J)) (\<lambda>raw. Inr (response, raw)))")
  case (Inl e)
  then show ?thesis using assms by (simp add: judge_try_def)
next
  case (Inr p)
  obtain response raw where p: "p = (response, raw)" by (cases p)
  obtain s' items where sup: "supersede_semantic_evidence_for_turn (turn_id a) (fst js) = (s', items)"
    by (cases "supersede_semantic_evidence_for_turn (turn_id a) (fst js)")
  have "logged fr st s'" using supersede_logged [of fr st "turn_id a" "fst js"] assms sup by simp
  then have block: "logged fr st (fst (fst (if again then superseded_events E a rid items (s', snd js)
      else (js, None))))" for rid
    using assms by (simp add: superseded_events_logged)
  show ?thesis
    unfolding judge_try_def Inr p sum.case prod.case Let_def sup
    by (intro then_block_pred [where P = "\<lambda>js. logged fr st (fst js)"] block audit_block_logged
        observe_block_logged event_block_logged) simp_all
qed

lemma judge_except_logged:
  assumes "judge_except E J q a cids e js = Inr js'" and "logged fr st (fst js)"
  shows "logged fr st (fst js')"
  using assms by (auto simp: judge_except_def Let_def exn_simps silent_logged)

lemma judge_candidate_evidence_logged:
  assumes "judge_candidate_evidence E J job q a again prev s = Inr (s', run)" and "logged fr st s"
  shows "logged fr st s'"
proof -
  let ?js = "(s, new_judge_run E J q a (fromkeys (competency_tags q)) prev s)"
  have "logged fr st (fst (fst (judge_try E J job q a (fromkeys (competency_tags q)) again ?js)))"
    using assms(2) by (intro judge_try_logged) simp
  then show ?thesis using assms
    by (cases "judge_try E J job q a (fromkeys (competency_tags q)) again ?js")
      (auto simp: judge_candidate_evidence_def Let_def exn_simps dest: judge_except_logged
        split: if_splits option.splits)
qed

section \<open>Starting and answering\<close>

lemma first_decision_logged:
  assumes "first_decision C E job s = Inr (s', d, l)" and "interview_brain (cfg_brain C)"
  shows "logged fr st s' = logged fr st s"
  using first_decision_Inr [OF assms(1)] interview_brain.opening_covers [OF assms(2), of s job]
  by (auto simp: only_covers_logged)

lemma start_logged:
  assumes "start_step C E s job priv = (priv', Inr (Some s', r))" and "interview_brain (cfg_brain C)"
    and "logged fr (status s) s"
  shows "logged fr (status s') s'"
proof -
  from assms(1) obtain s1 s2 d l s3 t s4 invo
    where st: "status s = CREATED \<or> (status s = RUNNING \<and> turns s = [])"
    and e: "append_event E INTERVIEW_STARTED None [] s = Inr s1"
    and dec: "first_decision C E job s1 = Inr (s2, d, l)" and ap: "apply_decision E d l s2 = Inr (s3, t)"
    and op: "open_requested_tool E (cfg_templates C) job d (turn_id t) s3 priv = (priv', Inr (s4, invo))"
    and s': "s' = s4\<lparr>status := RUNNING\<rparr>"
    by (rule start_step_Inr)
  have "logged fr RUNNING s1"
    unfolding append_event_logged [OF e] using assms(3) st by (auto simp: view_simps)
  then have "logged fr RUNNING s3"
    using first_decision_logged [OF dec assms(2)] apply_decision_logged [OF ap] by blast
  from open_requested_tool_logged [OF op this] show ?thesis by (simp add: s' logged_def session_view_def)
qed

lemma record_answer_logged:
  assumes "record_answer E t s = Inr s'" and "speaker t = CANDIDATE" and "logged fr st s"
  shows "logged fr st s'"
proof -
  from assms(1) obtain p where e: "append_event E CANDIDATE_TURN (Some t) p
      (s\<lparr>turns := turns s @ [t], shared_metadata := shared_metadata s @ [turn_id t]\<rparr>) = Inr s'"
    by (auto simp: record_answer_def)
  show ?thesis
    by (rule turn_logged [OF e _ _ _ _ assms(3)]) (simp_all add: assms(2) session_view_def)
qed

lemma claim_and_judge_logged:
  assumes "claim_and_judge C E job previous t s = Inr s'" and "logged fr st s"
  shows "logged fr st s'"
proof (cases "\<exists>q. previous = Some q \<and> competency_tags q \<noteq> []")
  case False
  then have "s' = s" using assms(1) by (auto simp: claim_and_judge_def split: option.splits if_splits)
  then show ?thesis using assms(2) by simp
next
  case True
  then obtain q s1 created s2 p run where claim: "record_candidate_claim E (turn_id q) (turn_id t)
      (competency_tags q) s = Inr (s1, created)"
    and loop: "efold (\<lambda>it. append_event E EVIDENCE_OBSERVED (Some t) (p it)) created s1 = Inr s2"
    and judge: "judge_candidate_evidence E (cfg_judge C) job q t False None s2 = Inr (s', run)"
    using assms(1) by (auto simp: claim_and_judge_def exn_simps)
  have "logged fr st s1"
    by (subst record_candidate_claim_frame [OF claim]) (use assms(2) in \<open>simp add: logged_def session_view_def\<close>)
  then have "logged fr st s2" by (rule silent_loop_logged [OF loop silent_simps(2)])
  then show ?thesis by (rule judge_candidate_evidence_logged [OF judge])
qed

lemma answer_logged:
  assumes "answer_step C E text meta s job priv = (priv', Inr (Some s', r))"
    and "interview_brain (cfg_brain C)" and "session_ok (rt E) s" and "logged fr (status s) s"
  shows "logged fr (status s') s'"
proof -
  from assms(1) obtain s5 q d s6 invo where tu: "answer_turns C E text meta s job = Inr (s5, q, d)"
    and op: "open_requested_tool E (cfg_templates C) job d (turn_id q) s5 priv = (priv', Inr (s6, invo))"
    and co: "complete_if E d s6 = Inr s'"
    by (rule answer_step_Inr)
  from tu obtain t s1 s2 s3 l s4 where
      t: "t = candidate_turn E text meta (find_last is_evaluative_question (turns s)) s"
    and re: "record_answer E t s = Inr s1"
    and cl: "claim_and_judge C E job (find_last is_evaluative_question (turns s)) t s1 = Inr s2"
    and ne: "next_decision C E job s2 = Inr (s3, d, l)" and ap: "apply_decision E d l s3 = Inr (s4, q)"
    and s5: "s5 = count_followup d s4"
    by (rule answer_turns_Inr)
  note f1 = record_answer_Inr [OF re assms(3)]
  note f2 = claim_and_judge_Inr [OF cl f1(1)]
  have cov: "only_covers s2 s3"
    using next_decision_Inr(1) [OF ne] interview_brain.after_answer_covers [OF assms(2)] by simp
  have "logged fr (status s) s1"
    by (rule record_answer_logged [OF re _ assms(4)]) (simp add: t candidate_turn_def)
  then have "logged fr (status s) s2" by (rule claim_and_judge_logged [OF cl])
  then have "logged fr (status s) s3" by (simp add: only_covers_logged [OF cov])
  then have "logged fr (status s) s5" by (simp add: s5 apply_decision_logged [OF ap])
  then have "logged fr (status s) s6" by (rule open_requested_tool_logged [OF op])
  moreover have "status s6 = status s"
    by (simp add: open_requested_tool_fields [OF op] s5 apply_decision_Inr [OF ap] only_covers_frame [OF cov] f2 f1)
  ultimately show ?thesis by (intro complete_if_logged [OF co]) simp
qed

section \<open>Practical tools\<close>

lemma record_submission_logged:
  assumes "record_submission E invo sub s = Inr (s', t)" and "sub_tool_id sub = tool_id invo"
    and "logged fr st s"
  shows "logged fr st s'"
proof -
  obtain s1 p p' where
    a: "append_event E TOOL_SUBMITTED None p (set_tool_status (tool_id invo) ToolSUBMITTED
         (s\<lparr>tool_submissions := tool_submissions s @ [sub]\<rparr>)) = Inr s1"
    and p: "dict_get p ''tool_id'' = Some (JStr (tool_id invo))"
    and b: "append_event E CANDIDATE_TURN (Some t) p' (s1\<lparr>turns := turns s1 @ [t]\<rparr>) = Inr s'"
    and t: "t = artifact_turn E invo (sub_id sub) s1"
    using assms(1) by (auto simp: record_submission_def Let_def exn_simps)
  have "logged fr st s1"
    unfolding append_event_logged [OF a] using assms(2,3) p
    by (simp add: view_simps set_tool_status_def map_update_first)
  then show ?thesis
    by (intro turn_logged [OF b, where s = s1]) (simp_all add: t artifact_turn_def session_view_def)
qed

lemma observe_evaluation_logged:
  assumes "observe_evaluation E job invo t ev s = Inr s'" and "logged fr st s"
  shows "logged fr st s'"
proof (cases "eval_passed ev")
  case None
  then show ?thesis using assms by (simp add: observe_evaluation_def)
next
  case (Some passed)
  show ?thesis
    by (rule efold_invariant [where P = "logged fr st",
          OF assms(1) [unfolded observe_evaluation_def Some option.case] assms(2)])
      (auto simp: Let_def exn_simps silent_logged apply_observation_logged)
qed

lemma evaluate_submission_logged:
  assumes "evaluate_submission C E job invo sub t priv s = Inr (s', ev)" and "logged fr st s"
  shows "logged fr st s'"
proof -
  obtain evaluator s1 p where
    reg: "get_tool (service_tool_registry (float_repr (rt E)) (cfg_sandbox C) priv) (tool_kind invo) = Inr evaluator"
    and run: "evaluator (invo\<lparr>tool_status := ToolSUBMITTED\<rparr>) sub = Inr ev"
    and e: "append_event E TOOL_EVALUATED None p (set_tool_status (tool_id invo) ToolEVALUATED
         (s\<lparr>tool_evaluations := tool_evaluations s @ [ev]\<rparr>)) = Inr s1"
    and p: "dict_get p ''tool_id'' = Some (JStr (tool_id invo))"
    and obs: "observe_evaluation E job invo t ev s1 = Inr s'"
    using assms(1) by (auto simp: evaluate_submission_def exn_simps)
  have "eval_tool_id ev = tool_id invo"
    using service_tool_evaluate(1) [OF reg run] by (simp add: evaluation_for_def)
  then have "logged fr st s1"
    unfolding append_event_logged [OF e] using assms(2) p
    by (simp add: view_simps set_tool_status_def map_update_first)
  then show ?thesis by (rule observe_evaluation_logged [OF obs])
qed

lemma submit_logged:
  assumes "submit_tool_step C E tid content s job priv = (priv', Inr (Some s', r))"
    and "interview_brain (cfg_brain C)" and "session_ok (rt E) s" and "logged fr (status s) s"
  shows "logged fr (status s') s'"
proof -
  from assms(1) obtain s4 q d ev s5 invo'
    where tu: "submit_turns C E tid content s job priv = Inr (s4, q, d, ev)"
    and op: "open_requested_tool E (cfg_templates C) job d (turn_id q) s4 priv = (priv', Inr (s5, invo'))"
    and co: "complete_if E d (count_followup d s5) = Inr s'"
    by (rule submit_tool_step_Inr)
  from tu obtain invo sub s1 t s2 s3 where f: "find (\<lambda>t. tool_id t = tid) (tools s) = Some invo"
    and sub: "sub = \<lparr> sub_id = new_id E ''submission'' (length (tool_submissions s)),
                 sub_tool_id = tid, sub_content = content \<rparr>"
    and re: "record_submission E invo sub s = Inr (s1, t)"
    and ev: "evaluate_submission C E job invo sub t priv s1 = Inr (s2, ev)"
    and br: "s3 = snd (after_tool (cfg_brain C) s2 job (invo\<lparr>tool_status := ToolEVALUATED\<rparr>) sub ev)"
    and ap: "apply_decision E d (measured_latency E s2) s3 = Inr (s4, q)"
    by (rule submit_turns_Inr)
  note f1 = record_submission_keeps [OF re assms(3)]
  note f2 = evaluate_submission_keeps [OF ev f1(1)]
  have cov: "only_covers s2 s3" using interview_brain.after_tool_covers [OF assms(2)] by (simp add: br)
  have "logged fr (status s) s1"
    by (rule record_submission_logged [OF re _ assms(4)]) (use f in \<open>auto simp: sub dest: find_SomeD\<close>)
  then have "logged fr (status s) s2" by (rule evaluate_submission_logged [OF ev])
  then have "logged fr (status s) s3" by (simp add: only_covers_logged [OF cov])
  then have "logged fr (status s) s4" by (rule apply_decision_logged [OF ap])
  then have "logged fr (status s) s5" by (rule open_requested_tool_logged [OF op])
  moreover have "status s5 = status s"
    by (simp add: open_requested_tool_fields [OF op] apply_decision_Inr [OF ap] only_covers_frame [OF cov] f2 f1)
  ultimately show ?thesis by (intro complete_if_logged [OF co]) simp
qed

lemma open_coding_logged:
  assumes "open_coding_step E req s job priv = (priv', Inr (Some s', r))" and "logged fr (status s) s"
  shows "logged fr (status s') s'"
  using assms by (auto simp: open_coding_step_def Let_def exn_simps append_tool_Inr split: sum.splits
      intro: append_tool_logged)

lemma open_tool_logged:
  assumes "open_tool_step E invo s job = Inr (Some s', r)" and "logged fr (status s) s"
  shows "logged fr (status s') s'"
  using assms by (auto simp: open_tool_step_def exn_simps append_tool_Inr intro: append_tool_logged)

section \<open>Controls, corrections, cancelling\<close>

lemma share_metadata_replayed [simp]: "replayed fr (share_metadata tid meta es) = replayed fr es"
proof -
  have step: "replay_step fr CANDIDATE_TURN i p u
      = u\<lparr>candidate_turn_ids := append_nonempty i (candidate_turn_ids u)\<rparr>" for i p u
    by (simp add: replay_step_def)
  then have "fold (\<lambda>e. replay_step fr (event_type e) (event_turn_id e) (event_payload e))
      (share_metadata tid meta es) st
    = fold (\<lambda>e. replay_step fr (event_type e) (event_turn_id e) (event_payload e)) es st" for st
    by (induction es arbitrary: st) (auto simp: share_metadata_def step)
  then show ?thesis by (simp add: replayed_def)
qed

lemma spoken_update_first:
  assumes "\<And>t. turn_id (f t) = turn_id t" and "\<And>t. speaker (f t) = speaker t"
  shows "spoken sp (update_first q f ts) = spoken sp ts"
  by (induction ts) (simp_all add: spoken_def assms)

lemma correction_logged:
  assumes "apply_transcript_correction E req s = Inr (s', revision)" and "logged fr st s"
  shows "logged fr st s'"
proof -
  from assms(1) obtain t s1 p where t: "turn_id t = corr_turn_id req"
    and rv: "revision = correction_revision E req t s"
    and e: "append_event E TRANSCRIPT_CORRECTED (Some t) p (corrected req t revision s) = Inr s1"
    and loop: "efold (\<lambda>it. append_event E EVIDENCE_SUPERSEDED (Some t) (superseded_payload t it))
           (snd (supersede_semantic_evidence_for_turn (corr_turn_id req) s1))
           (fst (supersede_semantic_evidence_for_turn (corr_turn_id req) s1)) = Inr s'"
    by (rule apply_transcript_correction_Inr)
  have "replayed fr (events (corrected req t revision s)) = replayed fr (events s)"
    by (simp add: corrected_def correct_turn_def Let_def)
  then have "logged fr st s1"
    unfolding append_event_logged [OF e] using assms(2)
    by (simp add: view_simps corrected_def correct_turn_def spoken_update_first rv correction_revision_def)
  then have "logged fr st (fst (supersede_semantic_evidence_for_turn (corr_turn_id req) s1))" by simp
  then show ?thesis by (rule silent_loop_logged [OF loop silent_simps(6)])
qed

lemma correction_status:
  assumes "apply_transcript_correction E req s = Inr (s', revision)" and "session_ok R s"
  shows "status s' = status s"
  using apply_transcript_correction_fields [OF assms(1)] assms(2) by (simp add: session_ok_def)

lemma correct_logged:
  assumes "correct_step E req s = Inr (Some s', r)" and "session_ok (rt E) s" and "logged fr (status s) s"
  shows "logged fr (status s') s'"
  using assms by (auto simp: correct_step_def exn_simps correction_status intro: correction_logged)

lemma control_logged:
  assumes "control_step E req s = Inr (Some s', r)" and "session_ok (rt E) s" and "logged fr (status s) s"
  shows "logged fr (status s') s'"
proof -
  from assms(1) obtain s1 s2 s3 p where live: "status s \<noteq> COMPLETED" "status s \<noteq> CANCELLED"
    and h: "handle_candidate_control E s req = Inr (s1, r)"
    and e: "append_event E CANDIDATE_CONTROL None p s1 = Inr s2"
    and p: "dict_get p ''kind'' = Some (JStr (control_value (control_kind req)))"
    and t: "append_control_turn E req r s2 = Inr s3" and c: "live_correction E req r s3 = Inr s'"
    by (auto simp: control_step_def exn_simps)
  note s1 = control_frame [OF h]
  have l2: "logged fr (status s) s2"
    unfolding append_event_logged [OF e] using assms(3) live p
    by (cases "control_kind req") (simp_all add: view_simps s1)
  have ok2: "session_ok (rt E) s2" by (rule append_event_keeps [OF e assms(2)]) (simp_all add: s1)
  have l3: "logged fr (status s) s3"
  proof (cases "result_turn r")
    case None
    then show ?thesis using t l2 by (simp add: append_control_turn_def)
  next
    case (Some q)
    then obtain p' where e': "append_event E INTERVIEWER_TURN (Some q) p' (s2\<lparr>turns := turns s2 @ [q]\<rparr>) = Inr s3"
      using t by (auto simp: append_control_turn_def)
    show ?thesis
      by (rule turn_logged [OF e' _ _ _ _ l2]) (simp_all add: control_result_turn(1) [OF h Some] session_view_def)
  qed
  note k3 = append_control_turn_keeps [OF t ok2]
  have st3: "status s3 = status s" using t append_event_fields(4) [OF e]
    by (auto simp: append_control_turn_def s1 dest!: append_event_fields(4) split: option.splits)
  show ?thesis
  proof (cases "s' = s3")
    case True
    then show ?thesis using l3 st3 by simp
  next
    case False
    then obtain creq rev where a: "apply_transcript_correction E creq s3 = Inr (s', rev)"
      using c by (auto simp: live_correction_def exn_simps split: option.splits if_splits)
    have "session_ok (rt E) s3" using t ok2 control_result_turn(1) [OF h]
      by (auto simp: append_control_turn_def split: option.splits elim!: append_event_keeps_turn [where s = s2])
    from correction_status [OF a this] correction_logged [OF a l3] st3 show ?thesis by simp
  qed
qed

lemma cancel_logged:
  assumes "cancel_step E reason s = Inr (Some s', r)" and "logged fr (status s) s"
  shows "logged fr (status s') s'"
proof -
  from assms(1) obtain s1 p q where live: "status s \<noteq> COMPLETED"
    and loop: "efold (\<lambda>t. append_event E TOOL_CANCELLED None (p t)) (filter is_cancellable (tools s))
      (s\<lparr>tools := map cancel_tool (tools s)\<rparr>) = Inr s1"
    and e: "append_event E SESSION_CANCELLED None q
      (s1\<lparr>paused := False, status := CANCELLED, cancelled_at := Some (now_at E ''cancelled_at'' 0),
          cancellation_reason := Some reason\<rparr>) = Inr s'"
    by (auto simp: cancel_step_def Let_def exn_simps split: if_splits)
  have ids: "map tool_id (map cancel_tool (tools s)) = map tool_id (tools s)"
    by (simp add: cancel_tool_def)
  have "logged fr (status s) s1"
  proof (rule efold_invariant [where P = "logged fr (status s)", OF loop])
    show "logged fr (status s) (s\<lparr>tools := map cancel_tool (tools s)\<rparr>)"
      using assms(2) ids by (simp add: logged_def session_view_def del: map_map)
    show "logged fr (status s) u'" if "logged fr (status s) u"
        and "append_event E TOOL_CANCELLED None (p x) u = Inr u'" for x u u'
      unfolding append_event_logged [OF that(2)] using that(1) by (simp add: view_simps)
  qed
  then have "logged fr CANCELLED s'"
    unfolding append_event_logged [OF e] by (simp add: view_simps)
  then show ?thesis by (simp add: append_event_fields(4) [OF e])
qed

section \<open>The rest, and all together\<close>

lemma reevaluate_logged:
  assumes "reevaluate_step C E tid s job = Inr (Some s', r)" and "session_ok (rt E) s"
    and "logged fr (status s) s"
  shows "logged fr (status s') s'"
proof -
  from assms(1) obtain q a prev run where
    j: "judge_candidate_evidence E (cfg_judge C) job q a True prev s = Inr (s', run)"
    by (auto simp: reevaluate_step_def Let_def exn_simps split: option.splits)
  show ?thesis
    using judge_candidate_evidence_logged [OF j assms(3)] judged_from_fields(3) [OF judge_candidate_evidence_ok [OF j assms(2)]]
    by simp
qed

lemma observe_logged:
  assumes "observe_step E ob s job = Inr (Some s', r)" and "logged fr (status s) s"
  shows "logged fr (status s') s'"
proof -
  from assms(1) obtain s1 item t p where a: "apply_observation E s job ob = Inr (s1, item)"
    and e: "append_event E EVIDENCE_OBSERVED t p s1 = Inr s'"
    by (auto simp: observe_step_def exn_simps)
  have "status s1 = status s" by (subst apply_observation_Inr(1) [OF a]) (simp add: set_node_def)
  then show ?thesis
    using assms(2) by (simp add: silent_logged [OF e] append_event_fields(4) [OF e] apply_observation_logged [OF a])
qed

lemma submit_appeal_logged:
  assumes "submit_appeal_step E req s = Inr (Some s', a)" and "logged fr (status s) s"
  shows "logged fr (status s') s'"
proof -
  from assms(1) obtain p where e: "append_event E APPEAL_SUBMITTED None p (s\<lparr>appeals := appeals s @ [a]\<rparr>) = Inr s'"
    and p: "dict_get p ''appeal_id'' = Some (JStr (appeal_id a))"
    by (auto simp: submit_appeal_step_def Let_def exn_simps)
  show ?thesis
    unfolding append_event_logged [OF e] append_event_fields(4) [OF e]
    using assms(2) p by (simp add: view_simps)
qed

lemma unlogged_change:
  assumes "append_event E ty t p s1 = Inr s'" and "silent ty" and "events s1 = events s"
    and "status s1 = status s" and "session_view (status s) s1 = session_view (status s) s"
    and "logged fr (status s) s"
  shows "logged fr (status s') s'"
  using assms logged_cong [OF assms(3,5)]
  by (simp add: silent_logged [OF assms(1,2)] append_event_fields(4) [OF assms(1)])

lemma review_appeal_logged:
  assumes "review_appeal_step E i req s = Inr (Some s', a)" and "logged fr (status s) s"
  shows "logged fr (status s') s'"
proof -
  from assms(1) obtain p where e: "append_event E APPEAL_REVIEWED None p
      (s\<lparr>appeals := update_first (\<lambda>a. appeal_id a = i) (reviewed_appeal req) (appeals s)\<rparr>) = Inr s'"
    by (auto simp: review_appeal_step_def exn_simps split: option.splits)
  show ?thesis
    by (rule unlogged_change [OF e _ _ _ _ assms(2)])
      (simp_all add: session_view_def map_update_first reviewed_appeal_def)
qed

lemma signal_logged:
  "submit_signal_step E sreq s = Inr (Some s', g) \<Longrightarrow> logged fr (status s) s \<Longrightarrow> logged fr (status s') s'"
  "review_signal_step E i rreq s = Inr (Some s', g) \<Longrightarrow> logged fr (status s) s \<Longrightarrow> logged fr (status s') s'"
  by (auto simp: submit_signal_step_def review_signal_step_def Let_def exn_simps session_view_def
      split: option.splits intro: unlogged_change)

section \<open>Reviews, artifacts, voice\<close>

lemma review_op_logged:
  assumes "review_op_step E op s = Inr (Some s', a)" and "logged fr (status s) s"
  shows "logged fr (status s') s'"
  using assms
  by (cases op)
    (auto simp: review_op_step_def assign_step_def start_assignment_step_def complete_assignment_step_def
      cancel_assignment_step_def change_assignment_def Let_def exn_simps session_view_def
      split: option.splits intro: unlogged_change)

lemma deleted_loop_logged:
  assumes "efold (deleted_event E by reason) as s1 = Inr s'" and "events s1 = events s"
    and "status s1 = status s" and "session_view (status s) s1 = session_view (status s) s"
    and "logged fr (status s) s"
  shows "logged fr (status s') s'"
proof -
  have loop: "efold (\<lambda>a. append_event E ARTIFACT_DELETED None
      [(''artifact_id'', JStr (art_id a)), (''deleted_by'', JStr by), (''reason'', jopt_str reason)]) as s1 = Inr s'"
    using assms(1) by (simp add: deleted_event_def [abs_def])
  have "status s' = status s1" by (subst efold_append_event(1) [OF loop]) simp
  moreover have "logged fr (status s) s1" using assms(5) logged_cong [OF assms(2,4)] by simp
  then have "logged fr (status s) s'" by (rule silent_loop_logged [OF loop silent_simps(15)])
  ultimately show ?thesis using assms(3) by simp
qed

lemma purge_logged:
  assumes "purge_step E by reason s = Inr s'" and "logged fr (status s) s"
  shows "logged fr (status s') s'"
  by (rule deleted_loop_logged [OF assms(1) [unfolded purge_step_def] _ _ _ assms(2)])
    (simp_all add: session_view_def)

lemma artifact_op_logged:
  assumes "artifact_op_step E op s = Inr (Some s')" and "logged fr (status s) s"
  shows "logged fr (status s') s'"
proof (cases op)
  case (PurgeArtifacts "by" reason)
  then show ?thesis using assms
    by (auto simp: artifact_op_step_def exn_simps map_sum_Some_Inr split: if_splits intro: purge_logged)
qed (use assms in \<open>auto simp: artifact_op_step_def record_artifact_step_def log_access_step_def
      delete_artifact_step_def deleted_event_def exn_simps session_view_def split: if_splits
      intro: unlogged_change\<close>)

text \<open>A silent event keeps a session logged with its own status.\<close>

lemma silent_step_logged:
  "append_event E ty t p s = Inr s' \<Longrightarrow> silent ty \<Longrightarrow> logged fr (status s) s \<Longrightarrow> logged fr (status s') s'"
  by (simp add: silent_logged append_event_fields(4))

lemma voice_work_logged:
  assumes "snd (voice_op_step X op s v) = Inr (Some s')" and "logged fr (status s) s"
  shows "logged fr (status s') s'"
proof (cases op)
  case SpeechStarted
  then obtain v' where "speech_started_step X s v = (v', Inr s')"
    using assms(1) by (auto simp: voice_op_step_def map_sum_Some_prod split: prod.splits)
  then show ?thesis using assms(2)
    by (auto simp: speech_started_step_def ensure_input_allowed_cases Let_def voice_log_cases split: if_splits
        dest!: silent_step_logged [where fr = fr])
qed (use assms in \<open>auto simp: voice_op_step_def transcript_partial_step_def transcript_final_step_def
      response_ready_step_def tts_started_step_def tts_completed_step_def tts_cancelled_step_def
      provider_failed_step_def transport_selected_step_def transport_fallback_step_def
      vad_endpoint_step_def close_event_def ensure_input_allowed_def voice_log_def Let_def map_sum_Some_prod
      split: if_splits option.splits sum.splits prod.splits intro: silent_step_logged\<close>)

lemma request_logged:
  assumes "request_step C E r s job priv = (priv', Inr (Some s'))" and "interview_brain (cfg_brain C)"
    and "session_ok (rt E) s" and "logged fr (status s) s"
  shows "logged fr (status s') s'"
  using assms
  by (cases r) (auto simp: request_step_def forget_Inr intro: start_logged answer_logged cancel_logged
      reevaluate_logged observe_logged control_logged correct_logged open_coding_logged open_tool_logged
      submit_logged submit_appeal_logged review_appeal_logged signal_logged
      review_op_logged artifact_op_logged voice_work_logged)

lemma create_logged:
  assumes "create_session_step E req org found = Inr s"
  shows "logged fr (status s) s"
proof -
  from assms obtain job p s0 where e: "append_event E SESSION_CREATED None p s0 = Inr s"
    and s0: "s0 = graph_initialize (new_session (new_id E ''session'' 0) (now_at E ''session'' 0)
       (job_key job) (req_candidate_ref req) (job_organization_id job) (req_locale req)
       (req_integrity_level req)) job"
    by (auto simp: create_session_step_def Let_def exn_simps split: option.splits)
  have g: "s0 = (new_session (new_id E ''session'' 0) (now_at E ''session'' 0)
       (job_key job) (req_candidate_ref req) (job_organization_id job) (req_locale req)
       (req_integrity_level req))\<lparr>evidence_graph := evidence_graph s0\<rparr>"
    by (simp add: s0 graph_initialize_def Let_def)
  show ?thesis
    unfolding append_event_logged [OF e] append_event_fields(4) [OF e]
    by (subst (1 2 3) g) (simp add: view_simps new_session_def replayed_def replay_start_def spoken_def)
qed

section \<open>Reachable states\<close>

context service_store begin

definition logged_session :: "interview_session \<Rightarrow> bool" where
  "logged_session s \<longleftrightarrow> logged (float_repr R) (status s) s"

definition logged_state :: "'st service_state \<Rightarrow> bool" where
  "logged_state g \<longleftrightarrow> (\<forall>k s. get (store g) k = Some s \<longrightarrow> logged_session s)
     \<and> (\<forall>c s job. in_flight g c = Some (s, job) \<longrightarrow> logged_session s)"

lemma logged_seen: "logged_session (seen (s\<lparr>version := v\<rparr>)) = logged_session s"
proof -
  let ?s = "s\<lparr>version := v\<rparr>"
  have "logged_session (?s\<lparr>shared_metadata := m\<rparr>) = logged_session s" for m
    by (simp add: logged_session_def logged_def session_view_def)
  then show ?thesis by (subst seen_shares)
qed

lemma logged_write:
  assumes "logged_state g" and "state_ok g" and "put s (store g) = Inr st'" and "logged_session s"
    and "\<And>d t. loads d = Some t \<Longrightarrow> in_flight g d = Some t"
  shows "logged_state (g\<lparr>store := st', challenge_state := p, in_flight := loads\<rparr>)"
proof -
  have "okst (store g)" using assms(2) by (simp add: state_ok_def sound_store_def)
  from put_get [OF this assms(3)] show ?thesis
    using assms(1,4,5) by (fastforce simp: logged_state_def logged_seen split: if_splits)
qed

lemma run_step_logged:
  assumes "service_run C R get get_job put g g'" and "state_ok g" and "logged_state g"
  shows "logged_state g'"
  using assms(1)
proof (cases rule: service_run.cases)
  case (load sid s job c)
  then have "get (store g) sid = Some s" by (auto simp: get_session_and_job_def split: option.splits)
  then show ?thesis using assms(3) load by (auto simp: logged_state_def split: if_splits)
next
  case (commit c s job E r priv' s' st')
  have "interview_brain (cfg_brain C)" unfolding brain by (rule interview_brain_axioms)
  moreover have "session_ok (rt E) s" using assms(2) commit(2,3) by (auto simp: state_ok_def loaded_ok_def)
  moreover have "logged (float_repr R) (status s) s"
    using assms(3) commit(2) unfolding logged_state_def logged_session_def by blast
  ultimately have "logged_session s'"
    using request_logged [OF commit(4)] by (simp add: logged_session_def)
  then show ?thesis unfolding commit(1)
    by (rule logged_write [OF assms(3,2) commit(5)]) (simp split: if_splits)
next
  case (create E req org found s st')
  have "logged_session s" using create_logged [OF create(2)] by (simp add: logged_session_def)
  from logged_write [OF assms(3,2) create(5) this, of "in_flight g" "challenge_state g"]
  show ?thesis unfolding create(1) by simp
qed (use assms(3) in \<open>auto simp: logged_state_def split: if_splits\<close>)

lemma reachable_logged:
  assumes "(service_run C R get get_job put)\<^sup>*\<^sup>* g g'" and "state_ok g" and "logged_state g"
  shows "state_ok g' \<and> logged_state g'"
  using assms by (induction rule: rtranclp_induct) (auto intro: run_step_ok run_step_logged)

text \<open>The log of a stored session replays to the session.\<close>

lemma stored_replays:
  assumes "state_ok g" and "logged_state g" and "get (store g) k = Some s"
  shows "\<exists>st. replay_events R k (events s) = Inr st \<and> replay_view st = session_view (status s) s
    \<and> event_count st = int (length (events s)) \<and> audit_head_hash st = head_hash (events s)"
proof -
  have "audit_ok R s"
    using assms(1,3) by (auto simp: state_ok_def sound_store_def session_ok_def)
  from replay_events_audit_ok [OF this, of k] show ?thesis
    using assms(2,3) by (auto simp: logged_state_def logged_session_def logged_def)
qed

end

end
