(* ===== verification/Authorization.thy ===== *)
theory Authorization
  imports Models
begin

text \<open>
  \<^verbatim>\<open>authorization.py\<close>: roles, permissions and the access check that every endpoint makes
  before it calls a service. The specification says who gets through: \<open>may_access\<close>.
\<close>

section \<open>The code\<close>

datatype actor_role = RoleCANDIDATE | RoleRECRUITER | RoleREVIEWER | RoleSERVICE

fun role_value :: "actor_role \<Rightarrow> string" where
  "role_value RoleCANDIDATE = ''candidate''"
| "role_value RoleRECRUITER = ''recruiter''"
| "role_value RoleREVIEWER = ''reviewer''"
| "role_value RoleSERVICE = ''service''"

datatype permission =
    CREATE_JOB | CREATE_SESSION | RUN_INTERVIEW | CANCEL_SESSION | USE_CANDIDATE_CONTROL
  | CORRECT_TRANSCRIPT | SUBMIT_APPEAL | READ_FEEDBACK | OPEN_PRACTICAL_TOOL | SUBMIT_TOOL
  | WRITE_EVIDENCE | WRITE_INTEGRITY | READ_SESSION | READ_EVENTS | READ_REPLAY
  | RUN_DECISION_REPLAY | EXPORT_TRACE | USE_VOICE | RUN_RETENTION | READ_SYSTEM
  | READ_REVIEW_QUEUE | READ_RECRUITER_REPORT | REVIEW_APPEAL | REVIEW_INTEGRITY
  | EXPORT_REVIEW_BUNDLE | REEVALUATE_EVIDENCE | DRAFT_RUBRIC | READ_RUBRIC_DRAFT
  | APPROVE_RUBRIC | ASSIGN_REVIEW | WORK_REVIEW_ASSIGNMENT | CANCEL_REVIEW_ASSIGNMENT
  | CREATE_ARTIFACT | READ_ARTIFACT | DELETE_ARTIFACT | EXPORT_EVIDENCE_BUNDLE

fun permission_value :: "permission \<Rightarrow> string" where
  "permission_value CREATE_JOB = ''create_job''"
| "permission_value CREATE_SESSION = ''create_session''"
| "permission_value RUN_INTERVIEW = ''run_interview''"
| "permission_value CANCEL_SESSION = ''cancel_session''"
| "permission_value USE_CANDIDATE_CONTROL = ''candidate_control''"
| "permission_value CORRECT_TRANSCRIPT = ''correct_transcript''"
| "permission_value SUBMIT_APPEAL = ''submit_appeal''"
| "permission_value READ_FEEDBACK = ''read_feedback''"
| "permission_value OPEN_PRACTICAL_TOOL = ''open_tool''"
| "permission_value SUBMIT_TOOL = ''submit_tool''"
| "permission_value WRITE_EVIDENCE = ''write_evidence''"
| "permission_value WRITE_INTEGRITY = ''write_integrity''"
| "permission_value READ_SESSION = ''read_session''"
| "permission_value READ_EVENTS = ''read_events''"
| "permission_value READ_REPLAY = ''read_replay''"
| "permission_value RUN_DECISION_REPLAY = ''run_decision_replay''"
| "permission_value EXPORT_TRACE = ''export_trace''"
| "permission_value USE_VOICE = ''use_voice''"
| "permission_value RUN_RETENTION = ''run_retention''"
| "permission_value READ_SYSTEM = ''read_system''"
| "permission_value READ_REVIEW_QUEUE = ''read_review_queue''"
| "permission_value READ_RECRUITER_REPORT = ''read_recruiter_report''"
| "permission_value REVIEW_APPEAL = ''review_appeal''"
| "permission_value REVIEW_INTEGRITY = ''review_integrity''"
| "permission_value EXPORT_REVIEW_BUNDLE = ''export_review_bundle''"
| "permission_value REEVALUATE_EVIDENCE = ''reevaluate_evidence''"
| "permission_value DRAFT_RUBRIC = ''draft_rubric''"
| "permission_value READ_RUBRIC_DRAFT = ''read_rubric_draft''"
| "permission_value APPROVE_RUBRIC = ''approve_rubric''"
| "permission_value ASSIGN_REVIEW = ''assign_review''"
| "permission_value WORK_REVIEW_ASSIGNMENT = ''work_review_assignment''"
| "permission_value CANCEL_REVIEW_ASSIGNMENT = ''cancel_review_assignment''"
| "permission_value CREATE_ARTIFACT = ''create_artifact''"
| "permission_value READ_ARTIFACT = ''read_artifact''"
| "permission_value DELETE_ARTIFACT = ''delete_artifact''"
| "permission_value EXPORT_EVIDENCE_BUNDLE = ''export_evidence_bundle''"

record principal =
  principal_id :: string
  principal_role :: actor_role
  principal_candidate_ref :: "string option"
  principal_organization_id :: "string option"

definition principal_ok :: "principal \<Rightarrow> bool" where
  "principal_ok p = (len_between 1 256 (principal_id p)
     \<and> opt_all (len_between 1 512) (principal_candidate_ref p)
     \<and> opt_all (len_between 1 256) (principal_organization_id p))"

text \<open>\<^verbatim>\<open>_ROLE_PERMISSIONS\<close>; the role of the service has them all.\<close>

fun role_permits :: "actor_role \<Rightarrow> permission \<Rightarrow> bool" where
  "role_permits RoleCANDIDATE p \<longleftrightarrow> p \<in> {RUN_INTERVIEW, CANCEL_SESSION, USE_CANDIDATE_CONTROL,
     CORRECT_TRANSCRIPT, SUBMIT_APPEAL, READ_FEEDBACK, SUBMIT_TOOL, READ_SESSION, USE_VOICE,
     CREATE_ARTIFACT, READ_ARTIFACT, DELETE_ARTIFACT, EXPORT_EVIDENCE_BUNDLE}"
| "role_permits RoleRECRUITER p \<longleftrightarrow> p \<in> {CREATE_JOB, CREATE_SESSION, CANCEL_SESSION,
     OPEN_PRACTICAL_TOOL, READ_SESSION, READ_EVENTS, READ_REPLAY, RUN_DECISION_REPLAY, EXPORT_TRACE,
     READ_SYSTEM, READ_REVIEW_QUEUE, READ_RECRUITER_REPORT, REVIEW_APPEAL, REVIEW_INTEGRITY,
     EXPORT_REVIEW_BUNDLE, REEVALUATE_EVIDENCE, DRAFT_RUBRIC, READ_RUBRIC_DRAFT, APPROVE_RUBRIC,
     ASSIGN_REVIEW, CANCEL_REVIEW_ASSIGNMENT, READ_ARTIFACT, DELETE_ARTIFACT, EXPORT_EVIDENCE_BUNDLE}"
| "role_permits RoleREVIEWER p \<longleftrightarrow> p \<in> {READ_SESSION, READ_EVENTS, READ_REPLAY, READ_FEEDBACK,
     WRITE_EVIDENCE, WRITE_INTEGRITY, EXPORT_TRACE, READ_SYSTEM, READ_REVIEW_QUEUE,
     READ_RECRUITER_REPORT, REVIEW_APPEAL, REVIEW_INTEGRITY, EXPORT_REVIEW_BUNDLE,
     REEVALUATE_EVIDENCE, WORK_REVIEW_ASSIGNMENT, READ_ARTIFACT, EXPORT_EVIDENCE_BUNDLE}"
| "role_permits RoleSERVICE p \<longleftrightarrow> True"

text \<open>The guard on the organisation of the session.\<close>

definition foreign_organization :: "principal \<Rightarrow> interview_session \<Rightarrow> bool" where
  "foreign_organization p s =
     ((principal_role p \<noteq> RoleSERVICE \<or> principal_organization_id p \<noteq> None)
      \<and> (principal_organization_id p \<noteq> None \<or> organization_id s \<noteq> None)
      \<and> principal_organization_id p \<noteq> organization_id s)"

definition require_access :: "principal \<Rightarrow> permission \<Rightarrow> interview_session option \<Rightarrow> unit result" where
  "require_access p perm session =
     raise_if (\<not> role_permits (principal_role p) perm)
       (HTTPException 403 (''Role '' @ repr_str (role_value (principal_role p)) @ '' does not have ''
          @ ''permission '' @ repr_str (permission_value perm)))
     (raise_if (case session of None \<Rightarrow> False | Some s \<Rightarrow> foreign_organization p s)
       (HTTPException 403 (''Principal cannot access a session owned by '' @ ''another organization''))
     (if principal_role p = RoleCANDIDATE
      then raise_if (principal_candidate_ref p = None)
             (HTTPException 403 ''Candidate principal is missing candidate_ref'')
           (case session of None \<Rightarrow> Inr ()
            | Some s \<Rightarrow> raise_if (principal_candidate_ref p \<noteq> Some (candidate_ref s))
                (HTTPException 403 (''Candidate principal cannot access '' @ ''another candidate session''))
                (Inr ()))
      else Inr ()))"

definition service_principal :: principal where
  "service_principal = \<lparr> principal_id = ''local-service'', principal_role = RoleSERVICE,
     principal_candidate_ref = None, principal_organization_id = None \<rparr>"

section \<open>The specification\<close>

text \<open>Access to a session: the role has the permission; the session belongs to the principal's
  organisation, or the principal is the unscoped service; and a candidate owns the session.\<close>

definition may_access :: "principal \<Rightarrow> permission \<Rightarrow> interview_session \<Rightarrow> bool" where
  "may_access p perm s \<longleftrightarrow> role_permits (principal_role p) perm
     \<and> (principal_organization_id p = organization_id s
        \<or> principal_role p = RoleSERVICE \<and> principal_organization_id p = None)
     \<and> (principal_role p = RoleCANDIDATE \<longrightarrow> principal_candidate_ref p = Some (candidate_ref s))"

lemma require_access_iff: "require_access p perm (Some s) = Inr () \<longleftrightarrow> may_access p perm s"
  by (auto simp: require_access_def may_access_def foreign_organization_def exn_simps raise_if_def)

lemma require_access_refused:
  assumes "require_access p perm session = Inl e"
  obtains m where "e = HTTPException 403 m"
  using assms by (auto simp: require_access_def exn_simps split: if_splits option.splits)

end
