(* ===== verification/Retention.thy ===== *)
theory Retention
  imports Stores
begin

text \<open>
  \<^verbatim>\<open>retention.py\<close>: deletion of sessions past an age. The manager works over the listing and the
  deletion of a store; the contract of these is the locale \<open>session_catalog\<close>, interpreted on
  both stores. The purge of a session's artifacts is the interface of the artifact service.
\<close>

section \<open>The code\<close>

record retention_request =
  max_age_days :: int
  completed_only :: bool
  dry_run :: bool
  ret_candidate_ref :: "string option"

definition retention_request_ok :: "retention_request \<Rightarrow> bool" where
  "retention_request_ok r = (1 \<le> max_age_days r \<and> max_age_days r \<le> 3650
     \<and> opt_all (len_between 1 512) (ret_candidate_ref r))"

record retention_match =
  match_session_id :: string
  match_candidate_ref :: string
  age_basis :: string
  age_timestamp :: datetime

record retention_report =
  cutoff :: datetime
  report_dry_run :: bool
  report_completed_only :: bool
  scanned_sessions :: nat
  matched :: "retention_match list"
  deleted_session_ids :: "string list"
  skipped_active_session_ids :: "string list"

text \<open>\<^verbatim>\<open>timedelta(days=n)\<close> in microseconds.\<close>

definition days_us :: "int \<Rightarrow> int" where
  "days_us n = n * 86400000000"

definition session_age :: "interview_session \<Rightarrow> string \<times> datetime" where
  "session_age s = (case completed_at s of
      Some t \<Rightarrow> (''completed_at'', t) | None \<Rightarrow> (''created_at'', created_at s))"

definition retention_skips :: "retention_request \<Rightarrow> interview_session \<Rightarrow> bool" where
  "retention_skips r s = (ret_candidate_ref r \<noteq> None \<and> ret_candidate_ref r \<noteq> Some (candidate_ref s))"

definition retention_active :: "retention_request \<Rightarrow> interview_session \<Rightarrow> bool" where
  "retention_active r s = (completed_only r \<and> completed_at s = None)"

definition make_match :: "interview_session \<Rightarrow> retention_match" where
  "make_match s = \<lparr> match_session_id = session_id s, match_candidate_ref = candidate_ref s,
     age_basis = fst (session_age s), age_timestamp = snd (session_age s) \<rparr>"

text \<open>The deletion of one matched session: first its artifacts, if there is an artifact service,
  then the session.\<close>

definition retention_delete :: "(string \<Rightarrow> 'st \<Rightarrow> 'st \<times> unit result) option
    \<Rightarrow> (string \<Rightarrow> 'st \<Rightarrow> 'st \<times> bool) \<Rightarrow> string \<Rightarrow> 'st \<Rightarrow> 'st \<times> bool result" where
  "retention_delete purge delete k st =
     (case (case purge of None \<Rightarrow> (st, Inr ()) | Some p \<Rightarrow> p k st) of
        (st1, Inl e) \<Rightarrow> (st1, Inl e)
      | (st1, Inr _) \<Rightarrow> (case delete k st1 of (st2, removed) \<Rightarrow> (st2, Inr removed)))"

fun retention_loop :: "(string \<Rightarrow> 'st \<Rightarrow> 'st \<times> unit result) option
    \<Rightarrow> (string \<Rightarrow> 'st \<Rightarrow> 'st \<times> bool) \<Rightarrow> retention_request \<Rightarrow> datetime
    \<Rightarrow> interview_session list \<Rightarrow> 'st \<times> retention_report \<Rightarrow> 'st \<times> retention_report result" where
  "retention_loop purge delete r oldest [] (st, rep) = (st, Inr rep)"
| "retention_loop purge delete r oldest (s # ss) (st, rep) =
     (if retention_skips r s then retention_loop purge delete r oldest ss (st, rep)
      else if retention_active r s
      then retention_loop purge delete r oldest ss
             (st, rep\<lparr>skipped_active_session_ids := skipped_active_session_ids rep @ [session_id s]\<rparr>)
      else if oldest < snd (session_age s) then retention_loop purge delete r oldest ss (st, rep)
      else let rep1 = rep\<lparr>matched := matched rep @ [make_match s]\<rparr>
       in if dry_run r then retention_loop purge delete r oldest ss (st, rep1)
          else (case retention_delete purge delete (session_id s) st of
                  (st1, Inl e) \<Rightarrow> (st1, Inl e)
                | (st1, Inr removed) \<Rightarrow> retention_loop purge delete r oldest ss
                    (st1, if removed
                          then rep1\<lparr>deleted_session_ids := deleted_session_ids rep1 @ [session_id s]\<rparr>
                          else rep1)))"

definition retention_run :: "('st \<Rightarrow> interview_session list)
    \<Rightarrow> (string \<Rightarrow> 'st \<Rightarrow> 'st \<times> unit result) option \<Rightarrow> (string \<Rightarrow> 'st \<Rightarrow> 'st \<times> bool)
    \<Rightarrow> datetime \<Rightarrow> retention_request \<Rightarrow> 'st \<Rightarrow> 'st \<times> retention_report result" where
  "retention_run listing purge delete now r st =
     (let oldest = now - days_us (max_age_days r); ss = listing st
      in retention_loop purge delete r oldest ss (st,
           \<lparr> cutoff = oldest, report_dry_run = dry_run r, report_completed_only = completed_only r,
             scanned_sessions = length ss, matched = [], deleted_session_ids = [],
             skipped_active_session_ids = [] \<rparr>))"

section \<open>The contract\<close>

text \<open>The sessions that are due: not another candidate's, not active if only completed ones are
  to go, and not younger than the cutoff.\<close>

definition retention_due :: "retention_request \<Rightarrow> datetime \<Rightarrow> interview_session \<Rightarrow> bool" where
  "retention_due r oldest s \<longleftrightarrow> \<not> retention_skips r s \<and> \<not> retention_active r s \<and> snd (session_age s) \<le> oldest"

text \<open>The report of a run over a list of stored sessions.\<close>

definition retention_result :: "retention_request \<Rightarrow> datetime \<Rightarrow> interview_session list
    \<Rightarrow> retention_report \<Rightarrow> retention_report" where
  "retention_result r oldest ss rep = rep\<lparr>
     matched := matched rep @ map make_match (filter (retention_due r oldest) ss),
     deleted_session_ids := deleted_session_ids rep
       @ (if dry_run r then [] else map session_id (filter (retention_due r oldest) ss)),
     skipped_active_session_ids := skipped_active_session_ids rep
       @ map session_id (filter (\<lambda>s. \<not> retention_skips r s \<and> retention_active r s) ss)\<rparr>"

lemma retention_result_Cons:
  "retention_result r oldest (s # ss) rep = retention_result r oldest ss (retention_result r oldest [s] rep)"
  by (simp add: retention_result_def)

text \<open>A catalogue of sessions: the listing holds exactly the stored sessions, each once, and a
  deletion removes one key.\<close>

locale session_catalog =
  fixes get :: "'st \<Rightarrow> string \<Rightarrow> interview_session option"
    and listing :: "'st \<Rightarrow> interview_session list"
    and delete :: "string \<Rightarrow> 'st \<Rightarrow> 'st \<times> bool"
    and okst :: "'st \<Rightarrow> bool"
  assumes listing_get: "okst st \<Longrightarrow> s \<in> set (listing st) \<longleftrightarrow> get st (session_id s) = Some s"
    and listing_distinct: "okst st \<Longrightarrow> distinct (map session_id (listing st))"
    and delete_get: "okst st \<Longrightarrow> get (fst (delete k st)) i = (if i = k then None else get st i)"
    and delete_removed: "okst st \<Longrightarrow> snd (delete k st) \<longleftrightarrow> get st k \<noteq> None"
    and delete_ok: "okst st \<Longrightarrow> okst (fst (delete k st))"
    and get_key: "okst st \<Longrightarrow> get st k = Some s \<Longrightarrow> session_id s = k"
begin

text \<open>The loop over sessions that are all still stored: the report lists what is due, and the
  store loses exactly that, or nothing in a dry run.\<close>

lemma retention_loop_effect:
  assumes "okst st" and "distinct (map session_id ss)" and "\<forall>s\<in>set ss. get st (session_id s) = Some s"
  shows "\<exists>st'. retention_loop None delete r oldest ss (st, rep) = (st', Inr (retention_result r oldest ss rep))
     \<and> okst st' \<and> (\<forall>k. get st' k = (if \<not> dry_run r \<and> (\<exists>s\<in>set ss. retention_due r oldest s \<and> session_id s = k)
                                   then None else get st k))"
  using assms
proof (induction ss arbitrary: st rep)
  case Nil
  then show ?case by (simp add: retention_result_def)
next
  case (Cons s ss)
  have rest: "distinct (map session_id ss)" "\<forall>u\<in>set ss. get st (session_id u) = Some u"
    using Cons.prems by simp_all
  show ?case
  proof (cases "retention_due r oldest s \<and> \<not> dry_run r")
    case False
    then have step: "retention_loop None delete r oldest (s # ss) (st, rep)
        = retention_loop None delete r oldest ss (st, retention_result r oldest [s] rep)"
      by (auto simp: retention_due_def Let_def retention_result_def)
    obtain st' where loop: "retention_loop None delete r oldest ss (st, retention_result r oldest [s] rep)
        = (st', Inr (retention_result r oldest (s # ss) rep))" and ok: "okst st'"
      and get: "\<forall>k. get st' k = (if \<not> dry_run r \<and> (\<exists>s\<in>set ss. retention_due r oldest s \<and> session_id s = k)
                           then None else get st k)"
      using Cons.IH [OF Cons.prems(1) rest] unfolding retention_result_Cons [of r oldest s ss rep] by blast
    show ?thesis
      unfolding step loop by (rule exI [of _ st']) (use ok get False in \<open>cases "dry_run r"; auto\<close>)
  next
    case True
    let ?st = "fst (delete (session_id s) st)"
    have gone: "snd (delete (session_id s) st)"
      using delete_removed [OF Cons.prems(1)] Cons.prems(3) by simp
    have ok: "okst ?st" by (rule delete_ok [OF Cons.prems(1)])
    have others: "\<forall>u\<in>set ss. get ?st (session_id u) = Some u"
    proof
      fix u
      assume u: "u \<in> set ss"
      with Cons.prems(2) have "session_id u \<noteq> session_id s" by (metis distinct.simps(2) image_eqI list.set_map list.simps(9))
      with u rest(2) show "get ?st (session_id u) = Some u" by (simp add: delete_get [OF Cons.prems(1)])
    qed
    have step: "retention_loop None delete r oldest (s # ss) (st, rep)
        = retention_loop None delete r oldest ss (?st, retention_result r oldest [s] rep)"
      using True gone by (auto simp: retention_due_def Let_def retention_delete_def case_prod_beta
          retention_result_def)
    obtain st' where loop: "retention_loop None delete r oldest ss (?st, retention_result r oldest [s] rep)
        = (st', Inr (retention_result r oldest (s # ss) rep))" and ok': "okst st'"
      and get: "\<forall>k. get st' k = (if \<not> dry_run r \<and> (\<exists>s\<in>set ss. retention_due r oldest s \<and> session_id s = k)
                           then None else get ?st k)"
      using Cons.IH [OF ok rest(1) others] unfolding retention_result_Cons [of r oldest s ss rep] by blast
    show ?thesis
      unfolding step loop
      by (rule exI [of _ st']) (use ok' get True in \<open>auto simp: delete_get [OF Cons.prems(1)]\<close>)
  qed
qed

lemma retention_run_effect:
  assumes "okst st"
  shows "\<exists>st' rep. retention_run listing None delete now r st = (st', Inr rep)
     \<and> deleted_session_ids rep = (if dry_run r then [] else map session_id
         (filter (retention_due r (now - days_us (max_age_days r))) (listing st)))
     \<and> matched rep = map make_match (filter (retention_due r (now - days_us (max_age_days r))) (listing st))
     \<and> scanned_sessions rep = length (listing st) \<and> okst st'
     \<and> (\<forall>k. get st' k = (case get st k of None \<Rightarrow> None
          | Some s \<Rightarrow> if \<not> dry_run r \<and> retention_due r (now - days_us (max_age_days r)) s
                     then None else Some s))"
proof -
  let ?oldest = "now - days_us (max_age_days r)"
  let ?rep = "\<lparr> cutoff = ?oldest, report_dry_run = dry_run r, report_completed_only = completed_only r,
             scanned_sessions = length (listing st), matched = [], deleted_session_ids = [],
             skipped_active_session_ids = [] \<rparr>"
  have stored: "\<forall>s\<in>set (listing st). get st (session_id s) = Some s" using listing_get [OF assms] by simp
  obtain st' where loop: "retention_loop None delete r ?oldest (listing st) (st, ?rep)
      = (st', Inr (retention_result r ?oldest (listing st) ?rep))" and ok: "okst st'"
    and get: "\<forall>k. get st' k = (if \<not> dry_run r
        \<and> (\<exists>s\<in>set (listing st). retention_due r ?oldest s \<and> session_id s = k) then None else get st k)"
    using retention_loop_effect [OF assms listing_distinct [OF assms] stored] by blast
  have due: "(\<exists>s\<in>set (listing st). retention_due r ?oldest s \<and> session_id s = k)
      \<longleftrightarrow> (\<exists>s. get st k = Some s \<and> retention_due r ?oldest s)" for k
    using listing_get [OF assms] get_key [OF assms] by metis
  have "get st' k = (case get st k of None \<Rightarrow> None
          | Some s \<Rightarrow> if \<not> dry_run r \<and> retention_due r ?oldest s then None else Some s)" for k
    unfolding get [rule_format] due by (simp split: option.splits)
  with loop ok show ?thesis
    by (simp add: retention_run_def Let_def retention_result_def)
qed

end

lemma mem_entry:
  assumes "mem_ok st" and "(k, s) \<in> set (sessions st)"
  shows "session_id s = k" and "mem_get_session st k = Some s"
proof -
  show "mem_get_session st k = Some s"
    using assms by (simp add: mem_get_session_def mem_ok_def map_of_eq_Some_iff)
  then show "session_id s = k" using assms(1) by (simp add: mem_get_session_def mem_ok_def)
qed

lemma sql_entry:
  assumes "sql_ok st" and "(k, row) \<in> set (sql_sessions st)"
  shows "session_id (row_payload row) = k" and "sql_get_session st k = Some (row_payload row)"
proof -
  have "dict_get (sql_sessions st) k = Some row"
    using assms by (simp add: sql_ok_def map_of_eq_Some_iff)
  then show "session_id (row_payload row) = k" "sql_get_session st k = Some (row_payload row)"
    using assms(1) by (simp_all add: sql_get_session_def sql_ok_def)
qed

interpretation mem_catalog: session_catalog mem_get_session mem_list_sessions mem_delete_session mem_ok
proof (unfold_locales, goal_cases)
  case (1 st s)
  show ?case
  proof
    assume "s \<in> set (mem_list_sessions st)"
    then obtain k where "(k, s) \<in> set (sessions st)" by (auto simp: mem_list_sessions_def)
    with mem_entry [OF 1 this] show "mem_get_session st (session_id s) = Some s" by simp
  next
    assume "mem_get_session st (session_id s) = Some s"
    then have "(session_id s, s) \<in> set (sessions st)" by (simp add: mem_get_session_def map_of_SomeD)
    from imageI [OF this, of snd] show "s \<in> set (mem_list_sessions st)" by (simp add: mem_list_sessions_def)
  qed
next
  case (2 st)
  have "map session_id (map snd (sessions st)) = map fst (sessions st)"
    using mem_entry [OF 2] by auto
  then show ?case using 2 by (simp add: mem_list_sessions_def mem_ok_def del: map_map)
next
  case (3 st k i)
  then show ?case by (simp add: mem_get_session_def mem_delete_session_def)
next
  case (4 st k)
  then show ?case by (simp add: mem_get_session_def mem_delete_session_def)
next
  case (5 st k)
  then show ?case by (auto simp: mem_ok_def mem_delete_session_def distinct_dict_del split: if_splits)
next
  case (6 st k s)
  then show ?case by (simp add: mem_get_session_def mem_ok_def)
qed

interpretation sql_catalog: session_catalog sql_get_session sql_list_sessions sql_delete_session sql_ok
proof (unfold_locales, goal_cases)
  case (1 st s)
  have listed: "set (sql_list_sessions st) = (\<lambda>kr. row_payload (snd kr)) ` set (sql_sessions st)"
    by (simp add: sql_list_sessions_def)
  show ?case
  proof
    assume "s \<in> set (sql_list_sessions st)"
    then obtain k row where "(k, row) \<in> set (sql_sessions st)" and "s = row_payload row" by (auto simp: listed)
    with sql_entry [OF 1 this(1)] show "sql_get_session st (session_id s) = Some s" by simp
  next
    assume "sql_get_session st (session_id s) = Some s"
    then obtain row where "(session_id s, row) \<in> set (sql_sessions st)" and s: "row_payload row = s"
      by (auto simp: sql_get_session_def dest: map_of_SomeD)
    from imageI [OF this(1), of "\<lambda>kr. row_payload (snd kr)"] s show "s \<in> set (sql_list_sessions st)"
      by (simp add: listed)
  qed
next
  case (2 st)
  let ?rows = "sort_key (\<lambda>kr. row_updated_at (snd kr)) (sort_key fst (sql_sessions st))"
  have "map session_id (map (\<lambda>kr. row_payload (snd kr)) ?rows) = map fst ?rows"
    using sql_entry [OF 2] by auto
  moreover have "distinct (map fst ?rows)"
    using 2 by (simp add: sql_ok_def distinct_map)
  ultimately show ?case by (simp add: sql_list_sessions_def del: map_map)
next
  case (3 st k i)
  then show ?case by (simp add: sql_get_session_def sql_delete_session_def)
next
  case (4 st k)
  then show ?case by (simp add: sql_get_session_def sql_delete_session_def)
next
  case (5 st k)
  then show ?case by (auto simp: sql_ok_def sql_delete_session_def distinct_dict_del split: if_splits)
next
  case (6 st k s)
  then show ?case by (auto simp: sql_get_session_def sql_ok_def)
qed

end
