(* ===== verification/Workflow_Properties.thy ===== *)
theory Workflow_Properties
  imports Samples Feedback Authorization Retention Rubric_Service Review_Service
    "HOL-Library.Multiset"
begin

text \<open>
  The properties of the workflows around an interview: candidate feedback, access control,
  retention, rubric approval, and human review.
\<close>

section \<open>Candidate feedback\<close>

text \<open>C24. The feedback of a sound session files the item of every competency of the job under
  exactly one heading, in the order of the job: supported if its evidence is demonstrated or
  verified, conflicting if contradicted, and otherwise in need of more evidence. Every turn an
  item cites is a turn of the transcript.\<close>

theorem feedback_files_each_competency:
  assumes "evidence_ok s"
  shows "mset (supported_evidence (build_candidate_feedback s job) @ conflicting_evidence
        (build_candidate_feedback s job) @ needs_more_evidence (build_candidate_feedback s job))
      = mset (map (make_feedback_item s) (competencies job))
    \<and> map fb_competency_id (supported_evidence (build_candidate_feedback s job))
      = filter (\<lambda>c. reported_state s c \<in> {DEMONSTRATED, VERIFIED}) (map competency_key (competencies job))
    \<and> map fb_competency_id (conflicting_evidence (build_candidate_feedback s job))
      = filter (\<lambda>c. reported_state s c = CONTRADICTED) (map competency_key (competencies job))
    \<and> (\<forall>item\<in>set (map (make_feedback_item s) (competencies job)).
         \<forall>i\<in>set (fb_evidence_turn_ids item). \<exists>t. turn_with_id s i = Some t)"
proof (intro conjI ballI)
  let ?st = "\<lambda>c. reported_state s (competency_key c)"
  have "mset (filter (\<lambda>c. ?st c \<in> {DEMONSTRATED, VERIFIED}) cs) + mset (filter (\<lambda>c. ?st c = CONTRADICTED) cs)
      + mset (filter (\<lambda>c. ?st c \<in> {UNKNOWN, CLAIMED, INSUFFICIENT}) cs) = mset cs" for cs :: "competency list"
  proof (induction cs)
    case (Cons c cs)
    then show ?case by (cases "?st c") (simp_all add: add_mset_commute)
  qed simp
  from arg_cong [OF this, of "image_mset (make_feedback_item s)" "competencies job"]
  show "mset (supported_evidence (build_candidate_feedback s job) @ conflicting_evidence
        (build_candidate_feedback s job) @ needs_more_evidence (build_candidate_feedback s job))
      = mset (map (make_feedback_item s) (competencies job))"
    by (simp add: build_candidate_feedback_lists add.assoc)
next
  fix item i
  assume "item \<in> set (map (make_feedback_item s) (competencies job))" and "i \<in> set (fb_evidence_turn_ids item)"
  then show "\<exists>t. turn_with_id s i = Some t"
    using reported_turn_ids_known [OF assms] by (auto simp: make_feedback_item_def Let_def)
qed (simp_all add: build_candidate_feedback_lists filter_map comp_def make_feedback_item_def Let_def)

lemma sample_reported: "reported_state sample_answered ''api'' = CLAIMED"
  "reported_state sample_answered ''ops'' = UNKNOWN" "reported_turn_ids sample_answered ''api'' = [''turn1'']"
  by (simp_all add: reported_state_def reported_turn_ids_def session_simps)

theorem feedback_files_each_competency_witness:
  "evidence_ok sample_answered \<and> fb_evidence_turn_ids (make_feedback_item sample_answered
       (hd (competencies sample_job))) = [''turn1'']
   \<and> length (needs_more_evidence (build_candidate_feedback sample_answered sample_job)) = 2"
proof -
  have ok: "evidence_ok sample_answered"
    by (simp add: evidence_ok_def node_ok_def active_items_def item_grounded_def session_simps
        turn_with_id_def strongest_state_def state_rank.simps)
  let ?r = "build_candidate_feedback sample_answered sample_job"
  note f = feedback_files_each_competency [OF ok, of sample_job]
  have "size (mset (supported_evidence ?r @ conflicting_evidence ?r @ needs_more_evidence ?r)) = 2"
    unfolding conjunct1 [OF f] by (simp add: sample_competencies)
  moreover have "map fb_competency_id (supported_evidence ?r) = []" "map fb_competency_id (conflicting_evidence ?r) = []"
    using f by (simp_all add: sample_competencies sample_reported)
  ultimately have "length (needs_more_evidence ?r) = 2" by simp
  with ok show ?thesis by (simp add: make_feedback_item_def Let_def sample_competencies sample_reported)
qed

section \<open>Access control\<close>

text \<open>C26. The access policy lets a principal act on a session exactly if its role has the
  permission, the session belongs to its organisation (only the service without an
  organisation is exempt), and, for a candidate, the session is its own. Every refusal is an
  HTTP 403.\<close>

theorem access_exactly_when_permitted:
  "(require_access p perm (Some s) = Inr () \<longleftrightarrow>
      role_permits (principal_role p) perm
      \<and> (principal_organization_id p = organization_id s
         \<or> principal_role p = RoleSERVICE \<and> principal_organization_id p = None)
      \<and> (principal_role p = RoleCANDIDATE \<longrightarrow> principal_candidate_ref p = Some (candidate_ref s)))
   \<and> (require_access p perm (Some s) = Inr () \<or> (\<exists>m. require_access p perm (Some s) = Inl (HTTPException 403 m)))"
proof (rule conjI)
  show "require_access p perm (Some s) = Inr () \<or> (\<exists>m. require_access p perm (Some s) = Inl (HTTPException 403 m))"
    by (cases "require_access p perm (Some s)") (auto elim: require_access_refused)
qed (simp add: require_access_iff may_access_def)

lemma candidate_sample: "candidate_ref sample_started = ''cand''"
  by (simp add: session_simps)

theorem access_exactly_when_permitted_witness:
  "\<exists>m. require_access \<lparr> principal_id = ''p'', principal_role = RoleCANDIDATE,
       principal_candidate_ref = Some ''other'', principal_organization_id = Some ''org'' \<rparr>
     READ_SESSION (Some sample_started) = Inl (HTTPException 403 m)"
  using candidate_sample access_exactly_when_permitted [of "\<lparr> principal_id = ''p'', principal_role = RoleCANDIDATE,
       principal_candidate_ref = Some ''other'', principal_organization_id = Some ''org'' \<rparr>"
     READ_SESSION sample_started]
  by auto

section \<open>Retention\<close>



section \<open>Rubric approval\<close>

text \<open>C28. A rubric is approved at most once, by its own organisation: if an approval succeeds over
  the SQLite store, the draft was there, not approved yet and visible to the caller; it
  becomes approved, and one job is added, with the recruiter's competencies; no other job or
  draft changes, and a second approval of the draft is refused.\<close>

theorem rubric_approved_once:
  assumes "approve_rubric sql_get_rubric_draft sql_approve_rubric_draft E k req by org st = Inr (st', d', job)"
  shows "(\<exists>d. sql_get_rubric_draft st k = Some d \<and> activation_status d = ''draft_only''
        \<and> (org = None \<or> draft_organization_id d = org))
    \<and> sql_get_rubric_draft st' k = Some d' \<and> activation_status d' = ''approved''
    \<and> approved_by d' = Some by \<and> approved_job_id d' = Some (job_key job)
    \<and> competencies job = apr_competencies req \<and> job_spec_ok job
    \<and> sql_get_job st (job_key job) = None
    \<and> (\<forall>i. sql_get_job st' i = (if i = job_key job then Some job else sql_get_job st i))
    \<and> (\<forall>i. i \<noteq> k \<longrightarrow> sql_get_rubric_draft st' i = sql_get_rubric_draft st i)
    \<and> (\<forall>E2 req2 by2 org2. \<exists>c m. approve_rubric sql_get_rubric_draft sql_approve_rubric_draft E2 k req2 by2
         org2 st' = Inl (HTTPException c m) \<and> c \<in> {404, 409})"
proof -
  note f = sql_drafts.approve_effect [OF assms]
  have "\<exists>c m. approve_rubric sql_get_rubric_draft sql_approve_rubric_draft E2 k req2 by2
         org2 st' = Inl (HTTPException c m) \<and> c \<in> {404, 409}" for E2 req2 by2 org2
    by (rule sql_drafts.approved_refused [OF f(8)]) (simp add: f(2))
  with f show ?thesis by auto
qed

text \<open>A draft of three competencies and its approval.\<close>

definition sample_draft_competency :: "string \<Rightarrow> rubric_draft_competency" where
  "sample_draft_competency k = \<lparr> rdc_id = k, rdc_description = ''Designs APIs'', rdc_weight = 1,
     rdc_anchor_question = ''How do you version an API?'', rdc_rationale = ''The role owns APIs.'',
     rdc_observable_evidence = [''A concrete example''] \<rparr>"

definition sample_draft :: rubric_draft where
  "sample_draft = \<lparr> draft_id = ''draft0'', draft_organization_id = Some ''org'', draft_created_at = 0,
     draft_title = ''Engineer'', draft_job_description = ''Builds and runs services.'',
     draft_locale = ''en'', draft_competencies = map sample_draft_competency [''api'', ''ops'', ''sql''],
     draft_max_questions = 3, draft_anchor_ratio = 1 / 2, drafter_id = ''llm'', draft_warnings = [],
     activation_status = ''draft_only'', approved_job_id = None, approved_by = None, approved_at = None \<rparr>"

definition sample_approval :: rubric_approval_request where
  "sample_approval = \<lparr> apr_job_id = None, apr_title = ''Engineer'',
     apr_description = ''Builds and runs services.'', apr_competencies = competencies sample_job,
     apr_max_questions = 3, apr_anchor_ratio = 1 / 2, apr_tool_templates = [], apr_max_tools = 1,
     apr_review_note = None \<rparr>"

definition sample_drafts :: sql_store where
  "sample_drafts = \<lparr> sql_jobs = [], sql_drafts = [(''draft0'', \<lparr> drow_approved_job_id = None, drow_payload = sample_draft \<rparr>)], sql_sessions = [],
     sql_clock = 0 \<rparr>"

lemma sample_approval_succeeds:
  "\<exists>d' job. approve_rubric_draft sample_env sample_draft sample_approval ''ann'' (Some ''org'') = Inr (d', job)"
  by (simp add: approve_rubric_draft_def sample_draft_def sample_approval_def sample_competencies or_str_def
      Let_def raise_if_def rubric_provenance_ok_def len_between_def JobSpec_def job_spec_fields_ok_def
      competency_ok_def validate_job_contract_def competency_ids_of_def opt_all_def RubricDraft_def
      rubric_draft_fields_ok_def rubric_draft_competency_ok_def is_snake_char_def is_digit_def
      sample_draft_competency_def validate_draft_def)

theorem rubric_approved_once_witness:
  "\<exists>st' d' job. approve_rubric sql_get_rubric_draft sql_approve_rubric_draft sample_env ''draft0''
       sample_approval ''ann'' (Some ''org'') sample_drafts = Inr (st', d', job)
     \<and> approved_by d' = Some ''ann'' \<and> sql_get_job st' (job_key job) = Some job"
proof -
  obtain d' job where "approve_rubric_draft sample_env sample_draft sample_approval ''ann'' (Some ''org'')
      = Inr (d', job)"
    using sample_approval_succeeds by blast
  then have "\<exists>st'. approve_rubric sql_get_rubric_draft sql_approve_rubric_draft sample_env ''draft0''
       sample_approval ''ann'' (Some ''org'') sample_drafts = Inr (st', d', job)"
    by (simp add: approve_rubric_def get_rubric_def sql_get_rubric_draft_def sample_drafts_def
        sample_draft_def raise_if_def sql_approve_rubric_draft_def)
  then obtain st' where run: "approve_rubric sql_get_rubric_draft sql_approve_rubric_draft sample_env ''draft0''
       sample_approval ''ann'' (Some ''org'') sample_drafts = Inr (st', d', job)" by blast
  from rubric_approved_once [OF run] run show ?thesis by auto
qed

section \<open>Human review\<close>

lemma sample_quiet: "evidence_judge_runs sample_answered = []" "appeals sample_answered = []"
  "integrity_signals sample_answered = []" "tools sample_answered = []" "tool_evaluations sample_answered = []"
  "transcript_revisions sample_answered = []"
  by (simp_all add: session_simps)

lemma sample_quoted: "repr_str ''api'' = [CHR 39] @ ''api'' @ [CHR 39]" "repr_str ''ops'' = [CHR 39] @ ''ops'' @ [CHR 39]"
  by code_simp+

text \<open>C29. The recruiter's report calls for human review exactly if some competency of the job is
  neither demonstrated nor verified, the latest judge run of some answer failed or predates a
  correction of the answer, or an appeal, an integrity signal or a practical artifact is
  unresolved.\<close>

theorem review_required_exactly_when:
  assumes "build_recruiter_report R s job = Inr rep"
  shows "rep_requires_human_review rep \<longleftrightarrow>
       (\<exists>c\<in>set (competencies job). reported_state s (competency_key c) \<notin> {DEMONSTRATED, VERIFIED})
     \<or> (\<exists>a run. dict_get (latest_run_by_answer s) a = Some run
          \<and> (run_error run \<noteq> None
             \<or> run_transcript_revision_count run \<noteq> dict_get_or (revisions_by_turn s) a 0))
     \<or> (\<exists>a\<in>set (appeals s). appeal_status a = AppealPENDING)
     \<or> (\<exists>g\<in>set (integrity_signals s). signal_review_status g = IntegrityPENDING)
     \<or> (\<exists>t\<in>set (tools s). tool_status t \<in> {ToolOPEN, ToolSUBMITTED})
     \<or> (\<exists>ev\<in>set (tool_evaluations s). eval_passed ev = None)"
proof -
  have keyed: "(\<exists>r\<in>set (reported_runs R s). rsm_failed r \<or> rsm_stale r)
    \<longleftrightarrow> (\<exists>a run. dict_get (latest_run_by_answer s) a = Some run \<and> (run_error run \<noteq> None
             \<or> run_transcript_revision_count run \<noteq> dict_get_or (revisions_by_turn s) a 0))"
  proof -
    have "(\<exists>r\<in>set (reported_runs R s). rsm_failed r \<or> rsm_stale r)
      \<longleftrightarrow> (\<exists>run\<in>set (map snd (latest_run_by_answer s)). run_error run \<noteq> None
        \<or> run_transcript_revision_count run \<noteq> dict_get_or (revisions_by_turn s) (run_answer_turn_id run) 0)"
      by (simp add: reported_runs_def summarize_run_def Let_def)
    then show ?thesis unfolding latest_runs_listed using latest_run_answer [of s] by fastforce
  qed
  show ?thesis
    unfolding requires_human_review_iff [OF assms] keyed
    by (auto simp: count_pending_appeals_def count_pending_signals_def count_unresolved_tools_def
        filter_empty_conv)
qed

theorem review_required_exactly_when_witness:
  "\<exists>rep. build_recruiter_report sample_runtime sample_answered sample_job = Inr rep
     \<and> rep_requires_human_review rep"
proof -
  have "\<exists>rep. build_recruiter_report sample_runtime sample_answered sample_job = Inr rep"
    by (simp add: build_recruiter_report_def report_reasons_def competency_reason_def sample_competencies
        sample_reported reason_if_def ReviewReason_def raise_if_def len_between_def Let_def sample_quoted
        reported_runs_def latest_run_by_answer_def count_pending_appeals_def count_pending_signals_def
        count_unresolved_tools_def sample_quiet)
  then obtain rep where rep: "build_recruiter_report sample_runtime sample_answered sample_job = Inr rep" by blast
  from review_required_exactly_when [OF rep] have "rep_requires_human_review rep"
    by (simp add: sample_competencies sample_reported)
  with rep show ?thesis by blast
qed

text \<open>C30. The operations of the review service move one assignment at a time along its life cycle:
  an assignment is added, open, only when none is active; and a session never has two active
  assignments.\<close>

theorem one_reviewer_at_a_time:
  assumes "review_op_step E op s = Inr (Some s', a)" and "one_active s"
  shows "one_active s'
    \<and> ((\<forall>b\<in>set (review_assignments s). \<not> active_status (asg_status b))
         \<and> review_assignments s' = review_assignments s @ [a] \<and> asg_status a = AssignmentOPEN
     \<or> (\<exists>pre old post. review_assignments s = pre @ old # post \<and> review_assignments s' = pre @ a # post
         \<and> assignment_moves (asg_status old) (asg_status a) \<and> asg_id a = asg_id old
         \<and> asg_reviewer_id a = asg_reviewer_id old))"
  using review_one_active [OF assms] review_op_effect [OF assms(1)] by (simp add: assignment_effect_def)

theorem one_reviewer_at_a_time_witness:
  "\<exists>s' a. review_op_step sample_env (AssignReview \<lparr> asq_reviewer_id = ''rev'', asq_note = None \<rparr> ''ann'')
       sample_started = Inr (Some s', a) \<and> one_active s'"
proof -
  let ?op = "AssignReview \<lparr> asq_reviewer_id = ''rev'', asq_note = None \<rparr> ''ann''"
  have "\<exists>s' a. review_op_step sample_env ?op sample_started = Inr (Some s', a)"
    by (simp add: review_op_step_def assign_step_def event_simps session_simps)
  then obtain s' a where run: "review_op_step sample_env ?op sample_started = Inr (Some s', a)" by blast
  have "one_active sample_started" by (simp add: one_active_def session_simps)
  from one_reviewer_at_a_time [OF run this] run show ?thesis by blast
qed

end
