(* ===== verification/Media_Properties.thy ===== *)
theory Media_Properties
  imports Samples
begin

text \<open>
  The properties of what a candidate uploads and says: artifacts in the encrypted local store,
  the voice sessions and the detection of speech.
\<close>

section \<open>Artifacts\<close>

lemma same_backend: "backend A = B \<Longrightarrow> A\<lparr>backend := B\<rparr> = A"
  by (cases A) simp

text \<open>C31. What was uploaded is what is read: after a successful upload to the encrypted local
  store over SQLite, every access token issued for the artifact gets, until it expires, exactly
  the uploaded bytes and the artifact's record. This rests on the laws of authenticated
  encryption, on reading JSON being the inverse of writing it for the token's payload, and on
  fresh identifiers.\<close>

theorem uploaded_bytes_read_back:
  assumes "backend A = local_backend V" and "vault_ok V" and "sql_ok st"
    and "create_artifact sql_get_session sqlite_put_session A E sid data kind media creator (st, files)
       = ((st', files'), Inr a)"
    and "\<forall>s. sql_get_session st sid = Some s \<longrightarrow> audit_ok (rt E) s \<and> art_id a \<notin> art_id ` set (artifacts s)"
    and "issue_access sql_get_session A E2 sid (art_id a) st' = Inr g"
    and "signs_ok A (rt E2) (token_payload sid (art_id a) (seconds_of (grant_expires_at g)))"
    and "seconds_of (now_at E3 ''verify'' 0) \<le> seconds_of (grant_expires_at g)" and "rt E3 = rt E"
  shows "\<exists>st''. read_token sql_get_session sqlite_put_session A E3 (grant_token g) (st', files')
     = (st'', Inr (a, data))"
  using sql_artifacts.upload_reads_back [where A = A and V = V and E = E and ?E2.0 = E2 and ?E3.0 = E3]
    assms unfolding same_backend [OF assms(1)] by blast

text \<open>A store that encrypts by a prefix, a service over it, and a session to upload to.\<close>

definition sample_vault :: vault where
  "sample_vault = \<lparr> seal_bytes = (\<lambda>n d a. replicate 16 0 @ d), open_bytes = (\<lambda>n c a. Some (drop 16 c)),
     fresh_nonce = (\<lambda>k d. replicate 12 0), key_digest = (\<lambda>k. ''ab01'') \<rparr>"

definition sample_artifacts :: "files artifact_service" where
  "sample_artifacts = \<lparr> backend = local_backend sample_vault, signing_secret = Some (replicate 32 7),
     max_artifact_bytes = 100, access_ttl_seconds = 60, hash_bytes = (\<lambda>d. replicate 64 (CHR ''0'')),
     hmac_sha256 = (\<lambda>k m. [1]),
     loads_bytes = (\<lambda>bs. Some (JObj (token_payload ''session0'' ''artifact0'' 60))) \<rparr>"

definition sample_table :: sql_store where
  "sample_table = \<lparr> sql_jobs = [], sql_drafts = [], sql_sessions = [(''session0'', new_row sample_started 1 5)],
     sql_clock = 6 \<rparr>"

lemma sample_vault_ok: "vault_ok sample_vault"
  by (simp add: vault_ok_def sample_vault_def nonce_size_def)

lemma sample_table_ok: "sql_ok sample_table"
  by (simp add: sample_table_def sql_ok_def new_row_def serialised_def session_simps)

lemma sample_table_get: "sql_get_session sample_table k =
    (if k = ''session0'' then Some (serialised (sample_started\<lparr>version := 1\<rparr>)) else None)"
  by (simp add: sample_table_def sql_get_session_def new_row_def)

lemma sample_stored_audit: "audit_ok sample_runtime (serialised (sample_started\<lparr>version := 1\<rparr>))"
  by (simp add: audit_ok_def seq_ok_def serialised_def session_simps created_events_def started_events_def
      sample_event_def HASH_VERSION_def upt_rec)

lemma json_dumps_ascii_obj: "\<exists>t. json_dumps_ascii fr (JObj kvs) = CHR 0x7B # t"
  by (simp add: json_dumps_ascii_def)

lemma sample_signs: "signs_ok sample_artifacts R (token_payload ''session0'' ''artifact0'' 60)"
proof -
  obtain t where "json_dumps_ascii (float_repr R) (JObj (token_payload ''session0'' ''artifact0'' 60)) = CHR 0x7B # t"
    using json_dumps_ascii_obj by blast
  then show ?thesis by (simp add: signs_ok_def signed_text_def sample_artifacts_def utf8_encode_def utf8_char_def
        Let_def)
qed

definition sample_photo :: artifact_record where
  "sample_photo = new_artifact sample_env sample_artifacts (serialised (sample_started\<lparr>version := 1\<rparr>)) [1, 2]
     ''photo'' ''image/png'' ''cand''"

lemma sample_photo_ok: "artifact_record_ok sample_photo" "art_id sample_photo = ''artifact0''"
  "art_deleted_at sample_photo = None"
  by (simp_all add: sample_photo_def new_artifact_def Let_def artifact_record_ok_def len_between_def or_str_def
      sample_artifacts_def is_hex_digest_def is_digit_def session_simps serialised_def list_all_iff)

lemma sample_stripped: "strip ''photo'' = ''photo''" "strip ''image/png'' = ''image/png''"
  by code_simp+

lemma sample_media_type: "length (utf8_encode ''image/png'') = 9"
  by code_simp

lemma sample_upload:
  "\<exists>st' files'. create_artifact sql_get_session sqlite_put_session sample_artifacts sample_env ''session0'' [1, 2]
       ''photo'' ''image/png'' ''cand'' (sample_table, []) = ((st', files'), Inr sample_photo)"
proof -
  let ?s = "serialised (sample_started\<lparr>version := 1\<rparr>)"
  obtain s' where step: "record_artifact_step sample_env sample_photo ?s = Inr s'"
    using append_event_total [of sample_env "?s\<lparr>artifacts := artifacts ?s @ [sample_photo]\<rparr>"] sample_stored_audit
    by (fastforce simp: record_artifact_step_def audit_ok_def)
  have "session_id s' = ''session0'' \<and> version s' = 1"
    using append_event_fields [OF step [unfolded record_artifact_step_def]]
    by (simp add: serialised_def session_simps)
  then obtain st' where "sqlite_put_session s' sample_table = Inr st'"
    by (auto simp: sqlite_put_session_def sample_table_def new_row_def Let_def)
  moreover obtain ob where "object_put (local_backend sample_vault) (art_storage_key sample_photo) [1, 2]
      (art_media_type sample_photo) [] = (ob, Inr ())"
    by (simp add: local_backend_def local_put_def Let_def sample_photo_def new_artifact_def sample_media_type)
  moreover have "check_upload sample_artifacts [1, 2] ''photo'' ''image/png'' = Inr ()"
    "require_enabled sample_artifacts = Inr ()" "backend sample_artifacts = local_backend sample_vault"
    by (simp_all add: check_upload_def require_enabled_def sample_artifacts_def local_backend_def raise_if_def)
  ultimately show ?thesis
    using step sample_photo_ok(1) unfolding sample_photo_def
    by (simp add: create_artifact_def sample_stripped sample_table_get load_session_def ArtifactRecord_def
        raise_if_def persist_artifacts_def)
qed

lemma sample_uploaded:
  assumes "create_artifact sql_get_session sqlite_put_session sample_artifacts sample_env ''session0'' [1, 2]
       ''photo'' ''image/png'' ''cand'' (sample_table, []) = ((st', files'), Inr sample_photo)"
  shows "sql_ok st' \<and> (\<exists>s. sql_get_session st' ''session0'' = Some s \<and> session_id s = ''session0''
     \<and> artifacts s = [sample_photo] \<and> audit_ok sample_runtime s)"
proof -
  have b: "sample_artifacts\<lparr>backend := local_backend sample_vault\<rparr> = sample_artifacts"
    by (simp add: sample_artifacts_def)
  show ?thesis
  proof (rule sql_artifacts.create_artifact_Inr [where A = sample_artifacts and V = sample_vault, unfolded b, OF assms])
    fix s s' assume s: "sql_get_session sample_table ''session0'' = Some s"
      and step: "record_artifact_step sample_env sample_photo s = Inr s'" and put: "sqlite_put_session s' sample_table = Inr st'"
    obtain s2 where "sql_get_session st' ''session0'' = Some s2" "session_id s2 = ''session0''"
      "artifacts s2 = artifacts s @ [sample_photo]" "sql_ok st'" "events s2 = events s'"
      using sql_artifacts.created_session [OF step put sample_table_ok s] by blast
    moreover have "audit_ok sample_runtime s'"
      using append_event_audit_ok [OF step [unfolded record_artifact_step_def]] s sample_stored_audit
      by (simp add: sample_table_get audit_ok_def split: if_splits)
    moreover have "artifacts s = []" using s by (auto simp: sample_table_get serialised_def session_simps)
    ultimately show ?thesis by (simp add: audit_ok_def)
  qed
qed

lemma sample_grant:
  assumes "sql_get_session st ''session0'' = Some s" and "session_id s = ''session0''" and "artifacts s = [sample_photo]"
  shows "\<exists>g. issue_access sql_get_session sample_artifacts sample_env ''session0'' ''artifact0'' st = Inr g
     \<and> grant_expires_at g = 60000000"
  using assms sample_photo_ok
  by (simp add: issue_access_def require_enabled_def sample_artifacts_def local_backend_def raise_if_def
      load_session_def live_artifact_def find_artifact_def sign_token_def Let_def)

theorem uploaded_bytes_read_back_witness:
  "\<exists>st' files' g st''. create_artifact sql_get_session sqlite_put_session sample_artifacts sample_env ''session0'' [1, 2]
       ''photo'' ''image/png'' ''cand'' (sample_table, []) = ((st', files'), Inr sample_photo)
     \<and> issue_access sql_get_session sample_artifacts sample_env ''session0'' (art_id sample_photo) st' = Inr g
     \<and> read_token sql_get_session sqlite_put_session sample_artifacts sample_env (grant_token g) (st', files')
       = (st'', Inr (sample_photo, [1, 2]))"
proof -
  obtain st' files' where up: "create_artifact sql_get_session sqlite_put_session sample_artifacts sample_env ''session0'' [1, 2]
       ''photo'' ''image/png'' ''cand'' (sample_table, []) = ((st', files'), Inr sample_photo)"
    using sample_upload by blast
  from sample_uploaded [OF up] sample_grant obtain g where
    g: "issue_access sql_get_session sample_artifacts sample_env ''session0'' (art_id sample_photo) st' = Inr g"
    and exp: "grant_expires_at g = 60000000"
    unfolding sample_photo_ok(2) by blast
  have "\<forall>s. sql_get_session sample_table ''session0'' = Some s \<longrightarrow> audit_ok (rt sample_env) s
      \<and> art_id sample_photo \<notin> art_id ` set (artifacts s)"
    using sample_stored_audit by (auto simp: sample_table_get) (simp add: serialised_def session_simps)
  moreover have "backend sample_artifacts = local_backend sample_vault" by (simp add: sample_artifacts_def)
  moreover have "signs_ok sample_artifacts (rt sample_env) (token_payload ''session0'' (art_id sample_photo)
      (seconds_of (grant_expires_at g)))"
    using sample_signs by (simp add: exp sample_photo_ok(2) seconds_of_def)
  moreover have "seconds_of (now_at sample_env ''verify'' 0) \<le> seconds_of (grant_expires_at g)"
    by (simp add: exp seconds_of_def)
  ultimately obtain st'' where r: "read_token sql_get_session sqlite_put_session sample_artifacts sample_env
      (grant_token g) (st', files') = (st'', Inr (sample_photo, [1, 2]))"
    using uploaded_bytes_read_back [OF _ sample_vault_ok sample_table_ok up _ g _ _ refl] by blast
  show ?thesis
    by (rule exI [of _ st'], rule exI [of _ files'], rule exI [of _ g], rule exI [of _ st''])
      (rule conjI [OF up conjI [OF g r]])
qed

text \<open>C32. A successful deletion, over SQLite and the encrypted local store, was of an artifact of
  the session. If it was live, its object is gone; no other object changes; and no token that
  verifies gets at the artifact any more, while the other artifacts of the session stay as they
  were.\<close>

theorem deleted_artifact_unreachable:
  assumes "backend A = local_backend V" and "vault_ok V" and "sql_ok st"
    and "delete_artifact sql_get_session sqlite_put_session A E sid aid deleter reason (st, files)
       = ((st', files'), Inr a)"
  shows "\<exists>s a0 s'. sql_get_session st sid = Some s \<and> find_artifact s aid = Inr a0
    \<and> (art_deleted_at a0 = None \<longrightarrow> (\<exists>e. local_get V (art_storage_key a0) files' = Inl e))
    \<and> (\<forall>k. path_for V k \<noteq> path_for V (art_storage_key a0) \<longrightarrow> local_get V k files' = local_get V k files)
    \<and> sql_get_session st' sid = Some s' \<and> live_artifact s' aid = Inl (http 404 ''Artifact not found'')
    \<and> (\<forall>i. i \<noteq> aid \<longrightarrow> live_artifact s' i = live_artifact s i)
    \<and> (\<forall>E2 token d. verify_token A (now_at E2 ''verify'' 0) token = Inr d \<longrightarrow> jget d ''session_id'' = JStr sid
         \<longrightarrow> jget d ''artifact_id'' = JStr aid
         \<longrightarrow> read_token sql_get_session sqlite_put_session A E2 token (st', files')
              = (st', Inl (http 404 ''Artifact not found'')))"
proof -
  note same = same_backend [OF assms(1)]
  have get: "object_get (local_backend V) = local_get V" "backend_id (local_backend V) = ''encrypted-local''"
    by (simp_all add: local_backend_def)
  obtain s a0 s' where del: "sql_get_session st sid = Some s" "find_artifact s aid = Inr a0"
    "art_deleted_at a0 = None \<longrightarrow> (\<exists>e. local_get V (art_storage_key a0) files' = Inl e)"
    "\<forall>k. path_for V (art_storage_key a0) \<noteq> path_for V k \<longrightarrow> local_get V k files' = local_get V k files"
    "sql_get_session st' sid = Some s'" "live_artifact s' aid = Inl (http 404 ''Artifact not found'')"
    "\<forall>i. i \<noteq> aid \<longrightarrow> live_artifact s' i = live_artifact s i"
    using sql_artifacts.delete_artifact_removes [where A = A and V = V, unfolded same get, OF assms(4,3,2)]
    by (elim exE conjE) (rule that)
  have "read_token sql_get_session sqlite_put_session A E2 token (st', files')
      = (st', Inl (http 404 ''Artifact not found''))"
    if "verify_token A (now_at E2 ''verify'' 0) token = Inr d" "jget d ''session_id'' = JStr sid"
      "jget d ''artifact_id'' = JStr aid" for E2 token d
    by (rule sql_artifacts.read_token_deleted [where A = A and V = V, unfolded same get, OF del(5,6) that]) simp
  then have tokens: "\<forall>E2 token d. verify_token A (now_at E2 ''verify'' 0) token = Inr d \<longrightarrow> jget d ''session_id'' = JStr sid
         \<longrightarrow> jget d ''artifact_id'' = JStr aid
         \<longrightarrow> read_token sql_get_session sqlite_put_session A E2 token (st', files')
              = (st', Inl (http 404 ''Artifact not found''))" by blast
  have "\<forall>k. path_for V k \<noteq> path_for V (art_storage_key a0) \<longrightarrow> local_get V k files' = local_get V k files"
    using del(4) by (simp only: eq_commute [of "path_for V (art_storage_key a0)"])
  then show ?thesis
    by (intro exI [of _ s] exI [of _ a0] exI [of _ s'] conjI del(1-3,5-7) tokens)
qed

theorem deleted_artifact_unreachable_witness:
  "\<exists>st' files' st2 files2 a s'. create_artifact sql_get_session sqlite_put_session sample_artifacts sample_env
       ''session0'' [1, 2] ''photo'' ''image/png'' ''cand'' (sample_table, []) = ((st', files'), Inr sample_photo)
     \<and> delete_artifact sql_get_session sqlite_put_session sample_artifacts sample_env ''session0'' ''artifact0''
         ''ann'' None (st', files') = ((st2, files2), Inr a)
     \<and> sql_get_session st2 ''session0'' = Some s'
     \<and> live_artifact s' ''artifact0'' = Inl (http 404 ''Artifact not found'')"
proof -
  obtain st' files' where up: "create_artifact sql_get_session sqlite_put_session sample_artifacts sample_env ''session0'' [1, 2]
       ''photo'' ''image/png'' ''cand'' (sample_table, []) = ((st', files'), Inr sample_photo)"
    using sample_upload by blast
  obtain s where ok: "sql_ok st'" and s: "sql_get_session st' ''session0'' = Some s" "session_id s = ''session0''"
    "artifacts s = [sample_photo]" "audit_ok sample_runtime s"
    using sample_uploaded [OF up] by blast
  have b: "backend sample_artifacts = local_backend sample_vault" by (simp add: sample_artifacts_def)
  obtain s1 where step: "delete_artifact_step sample_env ''artifact0'' ''ann'' None sample_photo s = Inr s1"
    using append_event_total [of sample_env "s\<lparr>artifacts := [mark_deleted 0 ''ann'' None sample_photo]\<rparr>"] s
    by (fastforce simp: delete_artifact_step_def deleted_event_def audit_ok_def sample_photo_ok)
  have "session_id s1 = ''session0'' \<and> version s1 = version s"
    using append_event_fields [OF step [unfolded delete_artifact_step_def deleted_event_def]] s by simp
  then obtain st2 where "sqlite_put_session s1 st' = Inr st2"
    using sqlite.put_iff [OF ok, of s1] s(1) by auto
  moreover obtain files2 where "object_delete (local_backend sample_vault) (art_storage_key sample_photo) files'
      = (files2, Inr ())"
    by (simp add: local_backend_def local_delete_def)
  moreover have "find_artifact s ''artifact0'' = Inr sample_photo" "require_enabled sample_artifacts = Inr ()"
    by (simp_all add: find_artifact_def s sample_photo_ok require_enabled_def b raise_if_def local_backend_def)
  ultimately obtain a where del: "delete_artifact sql_get_session sqlite_put_session sample_artifacts sample_env
      ''session0'' ''artifact0'' ''ann'' None (st', files') = ((st2, files2), Inr a)"
    using step s(1) by (simp add: delete_artifact_def load_session_def sample_photo_ok b persist_artifacts_def)
  obtain s' where "sql_get_session st2 ''session0'' = Some s'"
    "live_artifact s' ''artifact0'' = Inl (http 404 ''Artifact not found'')"
    using deleted_artifact_unreachable [OF b sample_vault_ok ok del] by (elim exE conjE) (rule that)
  with up del show ?thesis
    by (intro exI [of _ st'] exI [of _ files'] exI [of _ st2] exI [of _ files2] exI [of _ a] exI [of _ s'] conjI)
qed

section \<open>Speech\<close>

text \<open>C33. An utterance ends: a detector that hears speech has ended, by silence or at the maximal
  duration, after at most as many accepted frames of at least a millisecond as the maximal
  duration has milliseconds, whatever the frames hold and however the arithmetic rounds; and it
  stays as it ended.\<close>

theorem utterance_ends:
  assumes "vad_config_ok c" and "vad_ok c v" and "vad_speaking v"
    and "\<forall>audio\<in>set frames. check_frame audio rate channels = Inr () \<and> 1 \<le> frame_ms_of audio rate channels"
    and "nat (max_utterance_ms c) \<le> length frames" and "int (length frames) < 2 ^ 53"
  shows "vad_ended (vad_run math_sqrt c rate channels frames v)
    \<and> vad_observe math_sqrt c audio rate channels (vad_run math_sqrt c rate channels frames v)
      = (vad_run math_sqrt c rate channels frames v,
         snd (vad_observe math_sqrt c audio rate channels (vad_run math_sqrt c rate channels frames v)))"
proof
  let ?v = "vad_run math_sqrt c rate channels frames v"
  show ended: "vad_ended ?v" by (rule utterance_ends_after) (use assms in auto)
  have "vad_ok c ?v" by (rule vad_run_ok) (use assms in auto)
  from vad_observe_ok(2) [OF this assms(1) ended]
  show "vad_observe math_sqrt c audio rate channels ?v = (?v, snd (vad_observe math_sqrt c audio rate channels ?v))"
    by (simp add: prod_eq_iff)
qed

definition sample_vad_config :: vad_config where
  "sample_vad_config = \<lparr> speech_threshold = 1 / 4, release_threshold = 1 / 8, speech_start_ms = 20,
     speech_end_silence_ms = 100, max_utterance_ms = 1000 \<rparr>"

definition sample_speaking :: vad where
  "sample_speaking = \<lparr> vad_speaking = True, vad_ended = False, candidate_speech_ms = 20, utterance_ms = 20,
     silence_ms = 0 \<rparr>"

theorem utterance_ends_witness:
  "vad_ended (vad_run (\<lambda>x. x) sample_vad_config 1 1 (replicate 1000 [0, 0]) sample_speaking)"
proof -
  have "fl 1 = 1" using fl_int_exact [of 1] by simp
  then have "frame_ms_of [0, 0] 1 1 = fl (of_int 1000)"
    by (simp add: frame_ms_of_def frame_duration_def)
  also have "\<dots> = 1000" by (subst fl_int_exact) simp_all
  finally have "\<forall>audio\<in>set (replicate 1000 [0, 0]). check_frame audio 1 1 = Inr () \<and> 1 \<le> frame_ms_of audio 1 1"
    by (auto simp: check_frame_def raise_if_def)
  then show ?thesis
    using utterance_ends [of sample_vad_config sample_speaking "replicate 1000 [0, 0]" 1 1 "\<lambda>x. x" "[]"]
    by (simp add: sample_vad_config_def sample_speaking_def vad_config_ok_def vad_ok_def)
qed






text \<open>A completed or cancelled interview takes no more speech: the start of speech, a partial and
  a final transcript are refused with HTTP 409, nothing is stored, and the voice session is
  closed.\<close>

lemma closed_interview_is_silent:
  assumes "get st sid = Some s" and "status s \<in> {COMPLETED, CANCELLED}"
    and "op = SpeechStarted \<or> op = TranscriptPartial ev \<or> op = TranscriptFinal ev"
  shows "\<exists>m. voice_transact get put X sid op (st, vs)
     = ((st, dict_set sid ((state_ref vs sid)\<lparr>phase := CLOSED\<rparr>) vs), Inl (HTTPException 409 m))"
  using assms by (auto simp: voice_transact_def load_session_def voice_op_step_def speech_started_step_def
      transcript_partial_step_def transcript_final_step_def ensure_input_allowed_def http_def)

text \<open>The technical terms detected in a transcript are, up to case, exactly the terms of the
  chosen vocabulary packs that occur in it, each of them once.\<close>

lemma technical_terms_exact:
  "casefold other ` set (detect_technical_terms other text ks)
     = casefold other ` {t \<in> set (terms_of ks). contains_term other text t}
   \<and> set (detect_technical_terms other text ks) \<subseteq> {t \<in> set (terms_of ks). contains_term other text t}
   \<and> distinct (map (casefold other) (detect_technical_terms other text ks))"
  using detect_technical_terms_props(1) [of other "text" ks] detect_technical_terms_props(2) [of _ other "text" ks]
    detect_technical_terms_props(3) [of _ ks other "text"] by blast

end
