(* ===== verification/Webhooks.thy ===== *)
theory Webhooks
  imports Service_Steps Py_Bytes Py_Float
begin

text \<open>
  \<^verbatim>\<open>webhooks.py\<close>: signed notifications of selected events, sent with retries, and the store that
  sends them after it has saved a session. What the HTTP client answers to an attempt is a
  parameter, as is the hexadecimal HMAC. The lemmas: a delivery ends within its attempts; the
  events sent are exactly the new ones that are safe and subscribed to; and the store with
  webhooks behaves as the store it decorates.
\<close>

section \<open>Subscriptions\<close>

definition webhook_safe_event_types :: "event_type list" where
  "webhook_safe_event_types =
     [SESSION_CREATED, INTERVIEW_STARTED, APPEAL_SUBMITTED, APPEAL_REVIEWED, REVIEW_ASSIGNED,
      REVIEW_STARTED, REVIEW_COMPLETED, REVIEW_ASSIGNMENT_CANCELLED, TOOL_OPENED, TOOL_SUBMITTED,
      TOOL_EVALUATED, TOOL_CANCELLED, ARTIFACT_CREATED, ARTIFACT_DELETED, SESSION_COMPLETED,
      SESSION_CANCELLED]"

record webhook_subscription =
  sub_id :: string
  sub_url :: string
  sub_secret :: bytes
  sub_organization_id :: "string option"
  sub_event_types :: "event_type list"

definition WebhookSubscription :: "webhook_subscription \<Rightarrow> webhook_subscription result" where
  "WebhookSubscription sub =
     (let unsafe = filter (\<lambda>t. t \<notin> set webhook_safe_event_types) (sub_event_types sub)
      in raise_if (strip (sub_id sub) = []) (ValueError ''webhook subscription id is required'')
        (raise_if (\<not> startswith (sub_url sub) ''https://'' \<and> \<not> startswith (sub_url sub) ''http://'')
          (ValueError ''webhook URL must use http:// or https://'')
        (raise_if (length (sub_secret sub) < 32)
          (ValueError ''webhook signing secret must be at least 32 bytes'')
        (raise_if (unsafe \<noteq> [])
          (ValueError (''webhook subscription requested unsafe event types: ''
             @ join '', '' (sorted_set (map event_type_value unsafe))))
        (Inr sub)))))"

record webhook_delivery =
  wd_subscription_id :: string
  wd_event_seq :: int
  wd_event_type :: string
  wd_delivered :: bool
  wd_attempts :: int
  wd_status_code :: "int option"
  wd_error_type :: "string option"

section \<open>Delivery\<close>

text \<open>The request of an attempt, and its outcome: a status, one of the client's two exceptions that
  are caught, or another exception, which is not.\<close>

record webhook_request =
  whr_url :: string
  whr_body :: bytes
  whr_headers :: "(string, string) dict"

datatype post_outcome = Responded int | PostFailed string | PostRaised exn

record webhook_dispatcher =
  subscriptions :: "webhook_subscription list"
  timeout_seconds :: rat
  max_attempts :: int
  retry_base_seconds :: rat
  post :: "webhook_request \<Rightarrow> int \<Rightarrow> post_outcome"
  hmac_hex :: "bytes \<Rightarrow> bytes \<Rightarrow> string"

definition webhook_dispatcher_init :: "webhook_dispatcher \<Rightarrow> webhook_dispatcher result" where
  "webhook_dispatcher_init D =
     raise_if (timeout_seconds D \<le> 0) (ValueError ''webhook timeout must be positive'')
     (raise_if (\<not> (1 \<le> max_attempts D \<and> max_attempts D \<le> 5))
       (ValueError ''webhook max_attempts must be between 1 and 5'')
     (raise_if (retry_base_seconds D < 0 \<or> 5 < retry_base_seconds D)
       (ValueError ''webhook retry base must be between 0 and 5 seconds'')
     (Inr D)))"

definition webhook_payload :: "runtime \<Rightarrow> interview_session \<Rightarrow> interview_event \<Rightarrow> webhook_subscription
    \<Rightarrow> jdict" where
  "webhook_payload R s e sub =
     [(''schema'', JStr ''nora.webhook.v1''), (''subscription_id'', JStr (sub_id sub)),
      (''organization_id'', jopt_str (organization_id s)), (''session_id'', JStr (session_id s)),
      (''event'', JObj [(''seq'', JInt (event_seq e)), (''type'', JStr (event_type_value (event_type e))),
         (''created_at'', JStr (isoformat R (event_created_at e))),
         (''event_hash'', jopt_str (event_hash e))])]"

definition webhook_encode :: "runtime \<Rightarrow> jdict \<Rightarrow> bytes" where
  "webhook_encode R payload = utf8_encode (json_dumps (float_repr R) (JObj payload))"

definition webhook_signature :: "webhook_dispatcher \<Rightarrow> bytes \<Rightarrow> bytes \<Rightarrow> string" where
  "webhook_signature D secret body = ''sha256='' @ hmac_hex D secret body"

definition webhook_message :: "runtime \<Rightarrow> webhook_dispatcher \<Rightarrow> interview_session \<Rightarrow> interview_event
    \<Rightarrow> webhook_subscription \<Rightarrow> webhook_request" where
  "webhook_message R D s e sub =
     (let body = webhook_encode R (webhook_payload R s e sub);
          idempotency_key = ''nora:'' @ sub_id sub @ '':'' @ session_id s @ '':'' @ show_int (event_seq e)
      in \<lparr> whr_url = sub_url sub, whr_body = body, whr_headers =
           [(''Content-Type'', ''application/json''), (''User-Agent'', ''nora-interviewer-webhooks/1''),
            (''X-Nora-Webhook-Signature'', webhook_signature D (sub_secret sub) body),
            (''X-Nora-Webhook-Event'', event_type_value (event_type e)),
            (''X-Nora-Webhook-Idempotency-Key'', idempotency_key)] \<rparr>)"

definition retryable :: "int \<Rightarrow> bool" where
  "retryable code = (code \<in> {408, 409, 425, 429} \<or> 500 \<le> code)"

definition delivery_result :: "interview_event \<Rightarrow> webhook_subscription \<Rightarrow> bool \<Rightarrow> int \<Rightarrow> int option
    \<Rightarrow> string option \<Rightarrow> webhook_delivery" where
  "delivery_result e sub delivered attempts code err =
     \<lparr> wd_subscription_id = sub_id sub, wd_event_seq = event_seq e,
       wd_event_type = event_type_value (event_type e), wd_delivered = delivered,
       wd_attempts = attempts, wd_status_code = code, wd_error_type = err \<rparr>"

text \<open>\<^verbatim>\<open>asyncio.sleep\<close> between attempts: the sleeps are listed beside the result.\<close>

definition back_off :: "webhook_dispatcher \<Rightarrow> int \<Rightarrow> rat" where
  "back_off D attempt = fl (retry_base_seconds D * of_int (2 ^ nat (attempt - 1)))"

definition then_sleep :: "webhook_dispatcher \<Rightarrow> int \<Rightarrow> rat list \<times> webhook_delivery result
    \<Rightarrow> rat list \<times> webhook_delivery result" where
  "then_sleep D attempt r = (if attempt < max_attempts D then (back_off D attempt # fst r, snd r) else r)"

fun deliver_attempts :: "webhook_dispatcher \<Rightarrow> (int \<Rightarrow> post_outcome)
    \<Rightarrow> (bool \<Rightarrow> int \<Rightarrow> int option \<Rightarrow> string option \<Rightarrow> webhook_delivery)
    \<Rightarrow> int list \<Rightarrow> int option \<Rightarrow> string option \<Rightarrow> rat list \<times> webhook_delivery result" where
  "deliver_attempts D send report [] last_status last_error =
     ([], Inr (report False (max_attempts D) last_status last_error))"
| "deliver_attempts D send report (attempt # rest) last_status last_error =
     (case send attempt of
        Responded code \<Rightarrow>
          (if 200 \<le> code \<and> code < 300 then ([], Inr (report True attempt (Some code) None))
           else if \<not> retryable code then ([], Inr (report False attempt (Some code) None))
           else then_sleep D attempt (deliver_attempts D send report rest (Some code) last_error))
      | PostFailed err \<Rightarrow>
          then_sleep D attempt (deliver_attempts D send report rest last_status (Some err))
      | PostRaised exc \<Rightarrow> ([], Inl exc))"

definition deliver_one :: "runtime \<Rightarrow> webhook_dispatcher \<Rightarrow> interview_session \<Rightarrow> interview_event
    \<Rightarrow> webhook_subscription \<Rightarrow> rat list \<times> webhook_delivery result" where
  "deliver_one R D s e sub = deliver_attempts D (post D (webhook_message R D s e sub))
     (delivery_result e sub) [1..max_attempts D] None None"

definition subscribed :: "interview_session \<Rightarrow> interview_event \<Rightarrow> webhook_subscription \<Rightarrow> bool" where
  "subscribed s e sub = (\<not> (sub_organization_id sub \<noteq> None \<and> sub_organization_id sub \<noteq> organization_id s)
     \<and> event_type e \<in> set (sub_event_types sub))"

fun dispatch_event :: "runtime \<Rightarrow> webhook_dispatcher \<Rightarrow> interview_session \<Rightarrow> interview_event
    \<Rightarrow> webhook_subscription list \<Rightarrow> webhook_delivery list result" where
  "dispatch_event R D s e [] = Inr []"
| "dispatch_event R D s e (sub # subs) =
     (if \<not> subscribed s e sub then dispatch_event R D s e subs
      else ebind (snd (deliver_one R D s e sub)) (\<lambda>d. ebind (dispatch_event R D s e subs) (\<lambda>ds. Inr (d # ds))))"

fun dispatch :: "runtime \<Rightarrow> webhook_dispatcher \<Rightarrow> interview_session \<Rightarrow> interview_event list
    \<Rightarrow> webhook_delivery list result" where
  "dispatch R D s [] = Inr []"
| "dispatch R D s (e # es) =
     (if event_type e \<notin> set webhook_safe_event_types then dispatch R D s es
      else ebind (dispatch_event R D s e (subscriptions D)) (\<lambda>ds.
           ebind (dispatch R D s es) (\<lambda>rest. Inr (ds @ rest))))"

section \<open>The store with webhooks\<close>

definition previous_seq :: "interview_session option \<Rightarrow> int" where
  "previous_seq previous = (case previous of None \<Rightarrow> 0 | Some s \<Rightarrow>
     if events s = [] then 0 else event_seq (last (events s)))"

definition new_webhook_events :: "int \<Rightarrow> interview_session \<Rightarrow> interview_event list" where
  "new_webhook_events seq s = filter (\<lambda>e. seq < event_seq e \<and> event_type e \<noteq> WEBHOOK_DELIVERY) (events s)"

definition log_delivery :: "env \<Rightarrow> webhook_delivery \<Rightarrow> interview_session \<Rightarrow> interview_session result" where
  "log_delivery E d = append_event E WEBHOOK_DELIVERY None
     [(''subscription_id'', JStr (wd_subscription_id d)), (''source_event_seq'', JInt (wd_event_seq d)),
      (''source_event_type'', JStr (wd_event_type d)), (''delivered'', JBool (wd_delivered d)),
      (''attempts'', JInt (wd_attempts d)), (''status_code'', jopt_int (wd_status_code d)),
      (''error_type'', jopt_str (wd_error_type d))]"

text \<open>\<^verbatim>\<open>put_session\<close> also writes the new version into the caller's session: the result is that
  session. An exception of a delivery leaves the session saved.\<close>

definition webhook_put_session :: "('st \<Rightarrow> string \<Rightarrow> interview_session option)
    \<Rightarrow> (interview_session \<Rightarrow> 'st \<Rightarrow> 'st result) \<Rightarrow> env \<Rightarrow> webhook_dispatcher \<Rightarrow> interview_session \<Rightarrow> 'st
    \<Rightarrow> 'st \<times> interview_session result" where
  "webhook_put_session get put E D s st =
     (let seq = previous_seq (get st (session_id s))
      in case put s st of
        Inl e \<Rightarrow> (st, Inl e)
      | Inr st1 \<Rightarrow>
          (let s1 = s\<lparr>version := version s + 1\<rparr>; fresh = new_webhook_events seq s1
           in if fresh = [] then (st1, Inr s1)
              else case dispatch (rt E) D s1 fresh of
                Inl e \<Rightarrow> (st1, Inl e)
              | Inr [] \<Rightarrow> (st1, Inr s1)
              | Inr (d # ds) \<Rightarrow>
                  (case efold (log_delivery E) (d # ds) s1 of
                     Inl e \<Rightarrow> (st1, Inl e)
                   | Inr s2 \<Rightarrow>
                       (case put s2 st1 of
                          Inl _ \<Rightarrow> (st1, Inr s2)
                        | Inr st2 \<Rightarrow> (st2, Inr (s2\<lparr>version := version s2 + 1\<rparr>))))))"

section \<open>A delivery ends\<close>

text \<open>An attempt after which the next one is made.\<close>

definition retried :: "post_outcome \<Rightarrow> bool" where
  "retried out = (case out of Responded code \<Rightarrow> \<not> (200 \<le> code \<and> code < 300) \<and> retryable code
     | PostFailed err \<Rightarrow> True | PostRaised exc \<Rightarrow> False)"

lemma deliver_attempts_ends:
  assumes "deliver_attempts D send (delivery_result e sub) [k..max_attempts D] ls le = (sleeps, Inr d)"
    and "k \<le> max_attempts D"
  shows "k \<le> wd_attempts d" "wd_attempts d \<le> max_attempts D"
    "sleeps = map (back_off D) [k..wd_attempts d - 1]"
    "wd_delivered d \<longleftrightarrow> (\<exists>code. send (wd_attempts d) = Responded code \<and> 200 \<le> code \<and> code < 300)"
    "\<forall>i. k \<le> i \<longrightarrow> i < wd_attempts d \<longrightarrow> retried (send i)"
    "\<not> wd_delivered d \<Longrightarrow> wd_attempts d < max_attempts D \<Longrightarrow> \<exists>code. send (wd_attempts d) = Responded code"
    "wd_subscription_id d = sub_id sub" "wd_event_seq d = event_seq e"
proof -
  have "k \<le> wd_attempts d \<and> wd_attempts d \<le> max_attempts D
    \<and> sleeps = map (back_off D) [k..wd_attempts d - 1]
    \<and> (wd_delivered d \<longleftrightarrow> (\<exists>code. send (wd_attempts d) = Responded code \<and> 200 \<le> code \<and> code < 300))
    \<and> (\<forall>i. k \<le> i \<longrightarrow> i < wd_attempts d \<longrightarrow> retried (send i))
    \<and> (\<not> wd_delivered d \<longrightarrow> wd_attempts d < max_attempts D \<longrightarrow> (\<exists>code. send (wd_attempts d) = Responded code))
    \<and> wd_subscription_id d = sub_id sub \<and> wd_event_seq d = event_seq e"
    using assms
  proof (induction "nat (max_attempts D - k)" arbitrary: k ls le sleeps)
    case 0
    then have k: "k = max_attempts D" by simp
    show ?case
      using "0.prems"(1) unfolding k
      by (cases "send (max_attempts D)")
        (auto simp: upto_rec1 then_sleep_def delivery_result_def retryable_def split: if_splits)
  next
    case (Suc n)
    then have less: "k < max_attempts D" and n: "n = nat (max_attempts D - (k + 1))" by simp_all
    have split: "[k..max_attempts D] = k # [k + 1..max_attempts D]" using less by (simp add: upto_rec1)
    let ?next = "\<lambda>ls le. deliver_attempts D send (delivery_result e sub) [k + 1..max_attempts D] ls le"
    show ?case
    proof (cases "retried (send k)")
      case False
      then show ?thesis
        using Suc.prems(1) less unfolding split
        by (cases "send k") (auto simp: retried_def delivery_result_def split: if_splits)
    next
      case True
      then obtain ls' le' sleeps' where run: "?next ls' le' = (sleeps', Inr d)"
        and sleeps: "sleeps = back_off D k # sleeps'"
        using Suc.prems(1) less unfolding split
        by (cases "send k") (auto simp: retried_def then_sleep_def prod_eq_iff split: if_splits)
      have IH: "k + 1 \<le> wd_attempts d \<and> wd_attempts d \<le> max_attempts D
        \<and> sleeps' = map (back_off D) [k + 1..wd_attempts d - 1]
        \<and> (wd_delivered d \<longleftrightarrow> (\<exists>code. send (wd_attempts d) = Responded code \<and> 200 \<le> code \<and> code < 300))
        \<and> (\<forall>i. k + 1 \<le> i \<longrightarrow> i < wd_attempts d \<longrightarrow> retried (send i))
        \<and> (\<not> wd_delivered d \<longrightarrow> wd_attempts d < max_attempts D \<longrightarrow> (\<exists>code. send (wd_attempts d) = Responded code))
        \<and> wd_subscription_id d = sub_id sub \<and> wd_event_seq d = event_seq e"
        by (rule Suc.hyps(1) [OF n run]) (use less in simp)
      then have "[k..wd_attempts d - 1] = k # [k + 1..wd_attempts d - 1]" by (simp add: upto_rec1)
      moreover have "retried (send i)" if "k \<le> i" "i < wd_attempts d" for i
        using that IH True by (cases "i = k") auto
      ultimately show ?thesis using IH sleeps by simp
    qed
  qed
  then show "k \<le> wd_attempts d" "wd_attempts d \<le> max_attempts D"
    "sleeps = map (back_off D) [k..wd_attempts d - 1]"
    "wd_delivered d \<longleftrightarrow> (\<exists>code. send (wd_attempts d) = Responded code \<and> 200 \<le> code \<and> code < 300)"
    "\<forall>i. k \<le> i \<longrightarrow> i < wd_attempts d \<longrightarrow> retried (send i)"
    "\<not> wd_delivered d \<Longrightarrow> wd_attempts d < max_attempts D \<Longrightarrow> \<exists>code. send (wd_attempts d) = Responded code"
    "wd_subscription_id d = sub_id sub" "wd_event_seq d = event_seq e" by simp_all
qed

lemma deliver_attempts_total:
  "\<forall>i\<in>set as. \<forall>exc. send i \<noteq> PostRaised exc \<Longrightarrow> \<exists>sleeps d. deliver_attempts D send report as ls le = (sleeps, Inr d)"
proof (induction as arbitrary: ls le)
  case (Cons a as)
  then have "\<And>ls le. \<exists>sleeps d. deliver_attempts D send report as ls le = (sleeps, Inr d)" by simp
  then have "\<And>ls le. \<exists>sleeps d. then_sleep D a (deliver_attempts D send report as ls le) = (sleeps, Inr d)"
    unfolding then_sleep_def by (metis fst_conv snd_conv)
  with Cons.prems show ?case by (cases "send a") auto
qed simp

section \<open>What is sent\<close>

definition webhooks_due :: "webhook_dispatcher \<Rightarrow> interview_session \<Rightarrow> interview_event list
    \<Rightarrow> (interview_event \<times> webhook_subscription) list" where
  "webhooks_due D s es = concat (map (\<lambda>e. map (Pair e) (filter (subscribed s e) (subscriptions D)))
     (filter (\<lambda>e. event_type e \<in> set webhook_safe_event_types) es))"

definition attempted :: "webhook_delivery \<Rightarrow> string \<times> int" where
  "attempted d = (wd_subscription_id d, wd_event_seq d)"

definition delivery_ok :: "webhook_dispatcher \<Rightarrow> webhook_delivery \<Rightarrow> bool" where
  "delivery_ok D d \<longleftrightarrow> 1 \<le> wd_attempts d \<and> wd_attempts d \<le> max_attempts D"

lemma deliver_one_Inr:
  assumes "snd (deliver_one R D s e sub) = Inr d" and "1 \<le> max_attempts D"
  shows "attempted d = (sub_id sub, event_seq e)" "delivery_ok D d"
proof -
  have run: "deliver_attempts D (post D (webhook_message R D s e sub)) (delivery_result e sub) [1..max_attempts D]
      None None = (fst (deliver_one R D s e sub), Inr d)"
    using assms(1) by (simp add: deliver_one_def prod_eq_iff)
  show "attempted d = (sub_id sub, event_seq e)" "delivery_ok D d"
    using deliver_attempts_ends [OF run assms(2)] by (simp_all add: attempted_def delivery_ok_def)
qed

lemma dispatch_event_Inr:
  "dispatch_event R D s e subs = Inr ds \<Longrightarrow> 1 \<le> max_attempts D \<Longrightarrow>
     map attempted ds = map (\<lambda>sub. (sub_id sub, event_seq e)) (filter (subscribed s e) subs)
     \<and> list_all (delivery_ok D) ds"
proof (induction subs arbitrary: ds)
  case (Cons sub subs)
  show ?case
  proof (cases "subscribed s e sub")
    case True
    then obtain d ds' where d: "snd (deliver_one R D s e sub) = Inr d"
      and ds': "dispatch_event R D s e subs = Inr ds'" "ds = d # ds'"
      using Cons.prems(1) by (auto simp: exn_simps)
    then show ?thesis
      using True deliver_one_Inr [OF d Cons.prems(2)] Cons.IH [OF ds'(1) Cons.prems(2)] by simp
  qed (use Cons in simp)
qed simp

lemma dispatch_Inr:
  "dispatch R D s es = Inr ds \<Longrightarrow> 1 \<le> max_attempts D \<Longrightarrow>
     map attempted ds = map (\<lambda>(e, sub). (sub_id sub, event_seq e)) (webhooks_due D s es)
     \<and> list_all (delivery_ok D) ds"
proof (induction es arbitrary: ds)
  case Nil
  then show ?case by (simp add: webhooks_due_def)
next
  case (Cons e es)
  show ?case
  proof (cases "event_type e \<in> set webhook_safe_event_types")
    case True
    then obtain ds1 ds2 where ds1: "dispatch_event R D s e (subscriptions D) = Inr ds1"
      and ds2: "dispatch R D s es = Inr ds2" "ds = ds1 @ ds2"
      using Cons.prems(1) by (auto simp: exn_simps)
    then show ?thesis
      using True dispatch_event_Inr [OF ds1 Cons.prems(2)] Cons.IH [OF ds2(1) Cons.prems(2)]
      by (simp add: webhooks_due_def comp_def)
  qed (use Cons in \<open>simp add: webhooks_due_def\<close>)
qed

section \<open>The decorated store\<close>

text \<open>The delivery that a delivery event is about.\<close>

definition reported :: "interview_event \<Rightarrow> json \<times> json" where
  "reported e = (jget (event_payload e) ''subscription_id'', jget (event_payload e) ''source_event_seq'')"

lemma log_deliveries_Inr:
  assumes "efold (log_delivery E) ds s = Inr s'"
  shows "s' = s\<lparr>events := events s'\<rparr>" and "audit_ok (rt E) s \<Longrightarrow> audit_ok (rt E) s'
    \<and> (\<exists>new. events s' = events s @ new \<and> map reported new = map (\<lambda>d. (JStr (wd_subscription_id d), JInt (wd_event_seq d))) ds \<and> (\<forall>e\<in>set new. event_type e = WEBHOOK_DELIVERY))"
proof -
  have run: "efold (\<lambda>d. append_event E WEBHOOK_DELIVERY None
     [(''subscription_id'', JStr (wd_subscription_id d)), (''source_event_seq'', JInt (wd_event_seq d)),
      (''source_event_type'', JStr (wd_event_type d)), (''delivered'', JBool (wd_delivered d)),
      (''attempts'', JInt (wd_attempts d)), (''status_code'', jopt_int (wd_status_code d)),
      (''error_type'', jopt_str (wd_error_type d))]) ds s = Inr s'"
    using assms by (simp add: log_delivery_def [abs_def])
  show "s' = s\<lparr>events := events s'\<rparr>" by (rule efold_append_event(1) [OF run])
  show "audit_ok (rt E) s \<Longrightarrow> audit_ok (rt E) s'
    \<and> (\<exists>new. events s' = events s @ new \<and> map reported new = map (\<lambda>d. (JStr (wd_subscription_id d), JInt (wd_event_seq d))) ds \<and> (\<forall>e\<in>set new. event_type e = WEBHOOK_DELIVERY))"
    using assms
  proof (induction ds arbitrary: s)
    case (Cons d ds)
    let ?p = "[(''subscription_id'', JStr (wd_subscription_id d)), (''source_event_seq'', JInt (wd_event_seq d)),
      (''source_event_type'', JStr (wd_event_type d)), (''delivered'', JBool (wd_delivered d)),
      (''attempts'', JInt (wd_attempts d)), (''status_code'', jopt_int (wd_status_code d)),
      (''error_type'', jopt_str (wd_error_type d))]"
    let ?e = "new_event E WEBHOOK_DELIVERY None ?p (length (events s)) (head_hash (events s))"
    have step: "log_delivery E d s = Inr (s\<lparr>events := events s @ [?e]\<rparr>)"
      using append_event_ok [OF Cons.prems(1)] by (simp add: log_delivery_def)
    have "audit_ok (rt E) (s\<lparr>events := events s @ [?e]\<rparr>)"
      using append_event_audit_ok [OF step [unfolded log_delivery_def]] Cons.prems(1) by (simp add: audit_ok_def)
    from Cons.IH [OF this] Cons.prems(2) step
    have "audit_ok (rt E) s' \<and> (\<exists>new. events s' = (events s @ [?e]) @ new
        \<and> map reported new = map (\<lambda>d. (JStr (wd_subscription_id d), JInt (wd_event_seq d))) ds \<and> (\<forall>e\<in>set new. event_type e = WEBHOOK_DELIVERY))"
      by simp
    moreover have "event_type ?e = WEBHOOK_DELIVERY" "reported ?e = (JStr (wd_subscription_id d), JInt (wd_event_seq d))"
      by (simp_all add: new_event_def reported_def jget_def with_trace_def split: option.split)
    ultimately show ?case
      by (elim conjE exE, intro conjI exI [of _ "?e # _"]) auto
  qed simp
qed

context session_store
begin

text \<open>The store with webhooks is a store: it refuses what the inner store refuses, with nothing sent;
  what it accepts is stored, perhaps with delivery events added, and the caller's session is what
  is stored.\<close>

lemma webhook_put_effect:
  assumes okst: "okst st" and "webhook_put_session get put E D s st = (st', r)"
  shows "(\<exists>e. put s st = Inl e \<and> st' = st \<and> r = Inl e)
    \<or> (\<exists>st1 s'. put s st = Inr st1 \<and> okst st' \<and> get st' (session_id s) = Some (seen s')
         \<and> (\<forall>k. k \<noteq> session_id s \<longrightarrow> get st' k = get st k)
         \<and> s' = s\<lparr>version := version s', events := events s'\<rparr> \<and> version s < version s'
         \<and> (\<forall>t. r = Inr t \<longrightarrow> t = s') \<and> (audit_ok (rt E) s \<longrightarrow> audit_ok (rt E) s'
            \<and> (\<exists>new. events s' = events s @ new \<and> (\<forall>e\<in>set new. event_type e = WEBHOOK_DELIVERY))))"
proof (cases "put s st")
  case (Inl e)
  then show ?thesis using assms by (simp add: webhook_put_session_def Let_def)
next
  case (Inr st1)
  let ?s1 = "s\<lparr>version := version s + 1\<rparr>"
  let ?stored = "\<lambda>st' s'. okst st' \<and> get st' (session_id s) = Some (seen s')
         \<and> (\<forall>k. k \<noteq> session_id s \<longrightarrow> get st' k = get st k)
         \<and> s' = s\<lparr>version := version s', events := events s'\<rparr> \<and> version s < version s'
         \<and> (audit_ok (rt E) s \<longrightarrow> audit_ok (rt E) s'
            \<and> (\<exists>new. events s' = events s @ new \<and> (\<forall>e\<in>set new. event_type e = WEBHOOK_DELIVERY)))"
  have ok1: "okst st1" by (rule put_ok [OF okst Inr])
  have one: "?stored st1 ?s1" using ok1 put_get [OF okst Inr] by (simp add: audit_ok_def)
  have "\<exists>s'. ?stored st' s' \<and> (\<forall>t. r = Inr t \<longrightarrow> t = s')"
  proof (cases "st' = st1 \<and> (\<forall>t. r = Inr t \<longrightarrow> t = ?s1)")
    case True
    then show ?thesis using one by blast
  next
    case False
    then obtain ds s2 where log: "efold (log_delivery E) ds ?s1 = Inr s2"
      and two: "(case put s2 st1 of Inl _ \<Rightarrow> (st1, Inr s2)
         | Inr st2 \<Rightarrow> (st2, Inr (s2\<lparr>version := version s2 + 1\<rparr>))) = (st', r)"
      using assms(2) Inr by (auto simp: webhook_put_session_def Let_def
          simp del: efold.simps split: if_splits sum.splits list.splits)
    note f = log_deliveries_Inr [OF log]
    have s2: "session_id s2 = session_id s" "version s2 = version s + 1" by (subst f(1), simp)+
    have "version s2 = (case get st1 (session_id s2) of None \<Rightarrow> 0 | Some cur \<Rightarrow> version cur)"
      using put_get [OF okst Inr, of "session_id s"] s2 by (simp add: seen_version)
    then obtain st2 where st2: "put s2 st1 = Inr st2" using put_iff [OF ok1, of s2] by blast
    then have res: "st' = st2" "r = Inr (s2\<lparr>version := version s2 + 1\<rparr>)" using two by simp_all
    let ?s3 = "s2\<lparr>version := version s2 + 1\<rparr>"
    have "get st' k = (if k = session_id s then Some (seen ?s3) else get st k)" for k
      using put_get [OF ok1 st2, of k] put_get [OF okst Inr, of k] by (simp add: res s2)
    moreover have "?s3 = s\<lparr>version := version ?s3, events := events ?s3\<rparr>" by (subst f(1), simp)
    moreover have "audit_ok (rt E) ?s3 \<and> (\<exists>new. events ?s3 = events s @ new
        \<and> (\<forall>e\<in>set new. event_type e = WEBHOOK_DELIVERY))" if "audit_ok (rt E) s"
    proof -
      have "audit_ok (rt E) ?s1" using that by (simp add: audit_ok_def)
      from f(2) [OF this] obtain new where "audit_ok (rt E) s2" "events s2 = events s @ new"
        "\<forall>e\<in>set new. event_type e = WEBHOOK_DELIVERY" by auto
      then show ?thesis by (auto simp: audit_ok_def)
    qed
    ultimately have "?stored st' ?s3" using put_ok [OF ok1 st2] by (simp add: res s2)
    then show ?thesis using res by blast
  qed
  then show ?thesis using Inr by blast
qed

text \<open>What it adds to the log are the deliveries of the new events that are due, in order.\<close>

lemma webhook_put_reports:
  assumes run: "webhook_put_session get put E D s st = (st', Inr t)" and ok: "audit_ok (rt E) s"
    and attempts: "1 \<le> max_attempts D"
  shows "\<exists>new. events t = events s @ new \<and> map reported new = map (\<lambda>(e, sub). (JStr (sub_id sub), JInt (event_seq e)))
     (webhooks_due D s (new_webhook_events (previous_seq (get st (session_id s))) s))"
proof (cases "put s st")
  case (Inl e)
  then show ?thesis using run by (simp add: webhook_put_session_def Let_def)
next
  case (Inr st1)
  let ?s1 = "s\<lparr>version := version s + 1\<rparr>"
  let ?fresh = "new_webhook_events (previous_seq (get st (session_id s))) s"
  let ?due = "webhooks_due D s ?fresh"
  have fresh: "new_webhook_events n ?s1 = new_webhook_events n s" for n by (simp add: new_webhook_events_def)
  have due: "webhooks_due D ?s1 ?fresh = ?due" by (simp add: webhooks_due_def subscribed_def [abs_def])
  show ?thesis
  proof (cases "?fresh = []")
    case True
    then show ?thesis using run Inr by (auto simp: webhook_put_session_def Let_def fresh webhooks_due_def)
  next
    case False
    then obtain ds where ds: "dispatch (rt E) D ?s1 ?fresh = Inr ds"
      using run Inr by (auto simp: webhook_put_session_def Let_def fresh split: sum.splits)
    have sent: "map attempted ds = map (\<lambda>(e, sub). (sub_id sub, event_seq e)) ?due"
      using dispatch_Inr [OF ds attempts] by (simp add: due)
    have reports: "map (\<lambda>d. (JStr (wd_subscription_id d), JInt (wd_event_seq d))) ds
        = map (\<lambda>(e, sub). (JStr (sub_id sub), JInt (event_seq e))) ?due"
      using arg_cong [OF sent, of "map (\<lambda>(i, n). (JStr i, JInt n))"]
      by (simp add: attempted_def comp_def case_prod_beta)
    show ?thesis
    proof (cases ds)
      case Nil
      then show ?thesis using run Inr ds False reports by (auto simp: webhook_put_session_def Let_def fresh)
    next
      case (Cons d ds')
      then obtain s2 where log: "efold (log_delivery E) ds ?s1 = Inr s2" and t: "events t = events s2"
        using run Inr ds False
        by (auto simp: webhook_put_session_def Let_def fresh simp del: efold.simps split: sum.splits)
      have "audit_ok (rt E) ?s1" using ok by (simp add: audit_ok_def)
      from log_deliveries_Inr(2) [OF log this] reports t show ?thesis by auto
    qed
  qed
qed

end

end
