(* ===== verification/Authentication.thy ===== *)
theory Authentication
  imports Py_Text Authorization
begin

text \<open>
  \<^verbatim>\<open>authn.py\<close>: who is making a request. A resolver turns the headers of a request into a principal
  or refuses. The token library is a parameter: what decoding a token, under the options that
  the resolver passes, gives. The response headers of an error are not modelled. The lemmas:
  which principals each resolver makes, and that a composite resolver accepts what its first
  accepting resolver accepts.
\<close>

section \<open>Text of headers\<close>

text \<open>\<^verbatim>\<open>str.lower\<close>. (\<^verbatim>\<open>casefold\<close> differs from it on \<^verbatim>\<open>0xB5\<close> and \<^verbatim>\<open>0xDF\<close> only, which is the same for a comparison
  with \<^verbatim>\<open>"bearer"\<close>.)\<close>

definition lower_char :: "char \<Rightarrow> char" where
  "lower_char c = (let n = (of_char c :: nat) in
     if 65 \<le> n \<and> n \<le> 90 \<or> 192 \<le> n \<and> n \<le> 222 \<and> n \<noteq> 215 then char_of (n + 32) else c)"

definition py_lower :: "string \<Rightarrow> string" where
  "py_lower t = map lower_char t"

text \<open>\<^verbatim>\<open>partition(" ")\<close>.\<close>

definition partition_space :: "string \<Rightarrow> string \<times> bool \<times> string" where
  "partition_space t = (let a = takeWhile (\<lambda>c. c \<noteq> CHR '' '') t
     in (a, length a < length t, drop (length a + 1) t))"

fun split_comma :: "string \<Rightarrow> string list" where
  "split_comma [] = [[]]"
| "split_comma (c # cs) = (if c = CHR '','' then [] # split_comma cs
     else case split_comma cs of [] \<Rightarrow> [[c]] | w # ws \<Rightarrow> (c # w) # ws)"

type_synonym headers = "(string, string) dict"

definition header :: "headers \<Rightarrow> string \<Rightarrow> string" where
  "header hs name = strip (dict_get_or hs name [])"

definition actor_role_of :: "string \<Rightarrow> actor_role option" where
  "actor_role_of v = find (\<lambda>r. role_value r = v) [RoleCANDIDATE, RoleRECRUITER, RoleREVIEWER, RoleSERVICE]"

definition Principal :: "principal \<Rightarrow> principal result" where
  "Principal p = raise_if (\<not> principal_ok p) (ValidationError ''Principal'') (Inr p)"

section \<open>Development headers\<close>

definition resolve_dev :: "headers \<Rightarrow> principal result" where
  "resolve_dev hs =
     (let principal_id = header hs ''x-nora-principal'';
          role_raw = py_lower (header hs ''x-nora-role'');
          cand = (let c = header hs ''x-nora-candidate-ref'' in if c = [] then None else Some c)
      in raise_if (principal_id = [] \<or> role_raw = [])
           (HTTPException 401 (''Development authorization requires '' @ ''X-Nora-Principal and X-Nora-Role''))
         (case actor_role_of role_raw of
            None \<Rightarrow> Inl (HTTPException 401 (''Unknown Nora role: '' @ repr_str role_raw))
          | Some role \<Rightarrow>
              raise_if (role = RoleCANDIDATE \<and> cand = None)
                (HTTPException 401 (''Candidate development principal requires '' @ ''X-Nora-Candidate-Ref''))
              (Principal \<lparr> principal_id = principal_id, principal_role = role,
                 principal_candidate_ref = cand, principal_organization_id = None \<rparr>)))"

section \<open>Bearer tokens\<close>

record jwt_settings =
  jwks_url :: string
  jwt_issuer :: string
  jwt_audience :: string
  jwt_algorithms :: "string list"
  principal_claim :: string
  role_claim :: string
  candidate_ref_claim :: string
  leeway_seconds :: rat
  allow_service_role :: bool

definition allowed_asymmetric :: "string list" where
  "allowed_asymmetric = [''RS256'', ''RS384'', ''RS512'', ''PS256'', ''PS384'', ''PS512'',
     ''ES256'', ''ES384'', ''ES512'', ''EdDSA'']"

text \<open>The constructor; the first argument says if the token library can be imported.\<close>

definition jwt_init :: "bool \<Rightarrow> jwt_settings \<Rightarrow> jwt_settings result" where
  "jwt_init installed J =
     (let unsupported = sorted_set (filter (\<lambda>a. a \<notin> set allowed_asymmetric) (jwt_algorithms J))
      in raise_if (\<not> installed)
           (OtherError ''RuntimeError'' (''JWT/JWKS authentication requires the 'auth' extra: ''
              @ ''pip install -e '' @ repr_str ''.[auth]''))
        (raise_if (jwks_url J = []) (ValueError ''jwks_url is required'')
        (raise_if (jwt_issuer J = []) (ValueError ''issuer is required'')
        (raise_if (jwt_audience J = []) (ValueError ''audience is required'')
        (raise_if (jwt_algorithms J = []) (ValueError ''at least one JWT algorithm is required'')
        (raise_if (unsupported \<noteq> [])
          (ValueError (''JWKS auth only allows configured asymmetric algorithms: '' @ repr_str_list unsupported))
        (Inr J)))))))"

text \<open>What the token library is called with, and the library: the claims of a token, if the key of
  the token is found and everything that the options ask for holds.\<close>

record decode_options =
  opt_jwks_url :: string
  opt_algorithms :: "string list"
  opt_audience :: string
  opt_issuer :: string
  opt_leeway :: rat
  opt_require :: "string list"
  verify_signature :: bool
  verify_exp :: bool
  verify_aud :: bool
  verify_iss :: bool

type_synonym jwt_library = "decode_options \<Rightarrow> string \<Rightarrow> json result"

definition decode_options_of :: "jwt_settings \<Rightarrow> decode_options" where
  "decode_options_of J = \<lparr> opt_jwks_url = jwks_url J, opt_algorithms = jwt_algorithms J,
     opt_audience = jwt_audience J, opt_issuer = jwt_issuer J, opt_leeway = leeway_seconds J,
     opt_require = [''exp''], verify_signature = True, verify_exp = True, verify_aud = True,
     verify_iss = True \<rparr>"

definition bearer_token :: "headers \<Rightarrow> string result" where
  "bearer_token hs =
     (case partition_space (header hs ''authorization'') of
        (scheme, separator, token) \<Rightarrow>
          raise_if (\<not> separator \<or> py_lower scheme \<noteq> ''bearer'' \<or> strip token = [])
            (HTTPException 401 ''Bearer access token is required'') (Inr (strip token)))"

definition decode_token :: "jwt_library \<Rightarrow> jwt_settings \<Rightarrow> string \<Rightarrow> jdict result" where
  "decode_token lib J token =
     (case lib (decode_options_of J) token of
        Inl e \<Rightarrow> Inl (HTTPException 401 ''Bearer token validation failed'')
      | Inr (JObj claims) \<Rightarrow> Inr claims
      | Inr _ \<Rightarrow> Inl (HTTPException 401 ''Bearer token claims are invalid''))"

text \<open>A claim that is a string with more than white space in it, stripped.\<close>

definition text_claim :: "jdict \<Rightarrow> string \<Rightarrow> string option" where
  "text_claim claims name = (case jget claims name of
      JStr v \<Rightarrow> if strip v = [] then None else Some (strip v) | _ \<Rightarrow> None)"

definition subject_of :: "string \<Rightarrow> string \<Rightarrow> jdict \<Rightarrow> string result" where
  "subject_of kind name claims = (case text_claim claims name of
      None \<Rightarrow> Inl (HTTPException 401 (kind @ '' token is missing the configured principal claim ''
        @ repr_str name))
    | Some v \<Rightarrow> Inr v)"

definition jwt_claims_to_principal :: "jwt_settings \<Rightarrow> jdict \<Rightarrow> principal result" where
  "jwt_claims_to_principal J claims =
     ebind (subject_of ''Bearer'' (principal_claim J) claims) (\<lambda>pid.
       (case jget claims (role_claim J) of
          JStr v \<Rightarrow>
            (case actor_role_of (py_lower (strip v)) of
               None \<Rightarrow> Inl (HTTPException 403 (''Unknown Nora role in token: '' @ repr_str v))
             | Some role \<Rightarrow>
                 raise_if (role = RoleSERVICE \<and> \<not> allow_service_role J)
                   (HTTPException 403 ''JWT service principals are disabled by configuration'')
                 (let cand = text_claim claims (candidate_ref_claim J)
                  in raise_if (role = RoleCANDIDATE \<and> cand = None)
                       (HTTPException 403 (''Candidate token is missing the configured ''
                          @ ''candidate reference claim '' @ repr_str (candidate_ref_claim J)))
                     (Principal \<lparr> principal_id = pid, principal_role = role,
                        principal_candidate_ref = cand, principal_organization_id = None \<rparr>)))
        | _ \<Rightarrow> Inl (HTTPException 403 (''Bearer token is missing a valid Nora role claim ''
            @ repr_str (role_claim J)))))"

section \<open>Organisations\<close>

record oidc_settings = jwt_settings +
  oidc_organization_id :: string
  organization_claim :: string
  groups_claim :: string
  role_mapping :: "(string, actor_role) dict"
  candidate_ref_from_subject :: bool

text \<open>The mapping, one entry after the other.\<close>

definition map_role :: "string \<times> actor_role \<Rightarrow> (string, actor_role) dict \<Rightarrow> (string, actor_role) dict result" where
  "map_role entry m =
     (let key = strip (fst entry)
      in raise_if (key = []) (ValueError ''OIDC role mapping contains an empty external value'')
        (raise_if (snd entry = RoleSERVICE) (ValueError ''OIDC role mapping cannot grant the service role'')
        (Inr (dict_set key (snd entry) m))))"

definition oidc_init :: "bool \<Rightarrow> oidc_settings \<Rightarrow> oidc_settings result" where
  "oidc_init installed O1 =
     (let org = strip (oidc_organization_id O1); oclaim = strip (organization_claim O1);
          gclaim = strip (groups_claim O1)
      in raise_if (org = []) (ValueError ''organization_id is required'')
        (raise_if (oclaim = []) (ValueError ''organization_claim is required'')
        (raise_if (gclaim = []) (ValueError ''groups_claim is required'')
        (raise_if (role_mapping O1 = []) (ValueError ''role_mapping must not be empty'')
        (ebind (efold map_role (role_mapping O1) []) (\<lambda>m.
         let O2 = O1\<lparr>role_claim := ''__oidc_mapped_role__'', allow_service_role := False\<rparr>
         in ebind (jwt_init installed (jwt_settings.truncate O2)) (\<lambda>_.
              Inr (O2\<lparr>oidc_organization_id := org, organization_claim := oclaim, groups_claim := gclaim,
                role_mapping := m\<rparr>))))))))"

definition claim_values :: "json \<Rightarrow> string list" where
  "claim_values v = (case v of
      JStr t \<Rightarrow> filter (\<lambda>x. x \<noteq> []) (map strip (split_comma t))
    | JList vs \<Rightarrow> List.map_filter (\<lambda>x. case x of JStr t \<Rightarrow> if strip t = [] then None else Some (strip t)
        | _ \<Rightarrow> None) vs
    | _ \<Rightarrow> [])"

definition mapped_roles :: "oidc_settings \<Rightarrow> jdict \<Rightarrow> actor_role list" where
  "mapped_roles O1 claims = remdups (List.map_filter (dict_get (role_mapping O1))
     (claim_values (jget claims (groups_claim O1))))"

definition oidc_claims_to_principal :: "oidc_settings \<Rightarrow> jdict \<Rightarrow> principal result" where
  "oidc_claims_to_principal O1 claims =
     raise_if (oidc_organization_id O1 \<notin> set (claim_values (jget claims (organization_claim O1))))
       (HTTPException 403 (''Bearer token is not scoped to the configured '' @ ''Nora organization''))
     (let mapped = mapped_roles O1 claims
      in raise_if (mapped = []) (HTTPException 403 ''Bearer token groups do not map to a Nora role'')
        (raise_if (1 < length mapped)
          (HTTPException 403 (''Bearer token maps to multiple Nora roles; '' @ ''role mapping must be unambiguous''))
        (ebind (subject_of ''Bearer'' (principal_claim O1) claims) (\<lambda>pid.
          let role = hd mapped;
              given = text_claim claims (candidate_ref_claim O1);
              cand = (if role = RoleCANDIDATE \<and> given = None \<and> candidate_ref_from_subject O1
                      then Some pid else given)
          in raise_if (role = RoleCANDIDATE \<and> cand = None)
               (HTTPException 403 (''Candidate OIDC identity does not provide a stable '' @ ''candidate reference''))
             (Principal \<lparr> principal_id = pid, principal_role = role, principal_candidate_ref = cand,
                principal_organization_id = Some (oidc_organization_id O1) \<rparr>)))))"

section \<open>Workloads\<close>

record workload_settings = jwt_settings +
  workload_organization_claim :: "string option"

definition workload_init :: "bool \<Rightarrow> workload_settings \<Rightarrow> workload_settings result" where
  "workload_init installed W =
     (let W2 = W\<lparr>role_claim := ''__workload_role__'', candidate_ref_claim := ''__not_used__'',
            allow_service_role := False\<rparr>
      in ebind (jwt_init installed (jwt_settings.truncate W2)) (\<lambda>_.
         Inr (W2\<lparr>workload_organization_claim := (case workload_organization_claim W of
             None \<Rightarrow> None | Some c \<Rightarrow> if c = [] then None else Some (strip c))\<rparr>)))"

definition workload_claims_to_principal :: "workload_settings \<Rightarrow> jdict \<Rightarrow> principal result" where
  "workload_claims_to_principal W claims =
     ebind (subject_of ''Workload'' (principal_claim W) claims) (\<lambda>pid.
       ebind (case workload_organization_claim W of
                None \<Rightarrow> Inr None
              | Some name \<Rightarrow>
                  if name = [] \<or> jget claims name = JNull then Inr None
                  else case text_claim claims name of
                    None \<Rightarrow> Inl (HTTPException 403 (''Workload organization claim must '' @ ''be a non-empty string''))
                  | Some org \<Rightarrow> Inr (Some org)) (\<lambda>org.
         Principal \<lparr> principal_id = pid, principal_role = RoleSERVICE, principal_candidate_ref = None,
           principal_organization_id = org \<rparr>))"

section \<open>Resolvers\<close>

datatype resolver =
    DisabledResolver
  | DevHeaderResolver
  | JwtResolver jwt_settings
  | OidcResolver oidc_settings
  | WorkloadResolver workload_settings
  | CompositeResolver "resolver list"

definition composite_init :: "resolver list \<Rightarrow> resolver result" where
  "composite_init rs = raise_if (rs = []) (ValueError ''at least one principal resolver is required'')
     (Inr (CompositeResolver rs))"

text \<open>The resolvers of a composite one are asked in turn; nothing they do is seen outside, so their
  answers are given as a list.\<close>

fun first_accepting :: "principal result list \<Rightarrow> principal result" where
  "first_accepting [] =
     Inl (HTTPException 401 (''Bearer token was not accepted by any '' @ ''configured Nora identity domain''))"
| "first_accepting (r # rs) =
     (case r of
        Inr p \<Rightarrow> Inr p
      | Inl (HTTPException code m) \<Rightarrow>
          if code \<in> {401, 403} then first_accepting rs else Inl (HTTPException code m)
      | Inl e \<Rightarrow> Inl e)"

fun resolve :: "jwt_library \<Rightarrow> headers \<Rightarrow> resolver \<Rightarrow> principal result" where
  "resolve lib hs DisabledResolver = Inr service_principal"
| "resolve lib hs DevHeaderResolver = resolve_dev hs"
| "resolve lib hs (JwtResolver J) =
     ebind (bearer_token hs) (\<lambda>token. ebind (decode_token lib J token) (jwt_claims_to_principal J))"
| "resolve lib hs (OidcResolver O1) =
     ebind (bearer_token hs) (\<lambda>token.
       ebind (decode_token lib (jwt_settings.truncate O1) token) (oidc_claims_to_principal O1))"
| "resolve lib hs (WorkloadResolver W) =
     ebind (bearer_token hs) (\<lambda>token.
       ebind (decode_token lib (jwt_settings.truncate W) token) (workload_claims_to_principal W))"
| "resolve lib hs (CompositeResolver rs) = first_accepting (map (resolve lib hs) rs)"

section \<open>Lemmas\<close>

lemma actor_role_of_Some: "actor_role_of v = Some r \<longleftrightarrow> v = role_value r"
  by (cases r) (auto simp: actor_role_of_def)

lemma subject_of_Inr: "subject_of kind name claims = Inr v \<longleftrightarrow> text_claim claims name = Some v"
  by (simp add: subject_of_def split: option.split)

lemma Principal_Inr [simp]: "Principal p = Inr q \<longleftrightarrow> principal_ok p \<and> q = p"
  by (auto simp: Principal_def exn_simps)

lemma decode_token_Inr: "decode_token lib J token = Inr claims \<longleftrightarrow> lib (decode_options_of J) token = Inr (JObj claims)"
  by (auto simp: decode_token_def split: sum.splits json.splits)

text \<open>The token that a principal comes from was decoded with verification on, by algorithms of the
  configuration, for its audience and issuer.\<close>

definition token_verified :: "jwt_library \<Rightarrow> headers \<Rightarrow> jwt_settings \<Rightarrow> jdict \<Rightarrow> bool" where
  "token_verified lib hs J claims \<longleftrightarrow> (\<exists>token. bearer_token hs = Inr token
     \<and> lib \<lparr> opt_jwks_url = jwks_url J, opt_algorithms = jwt_algorithms J, opt_audience = jwt_audience J,
             opt_issuer = jwt_issuer J, opt_leeway = leeway_seconds J, opt_require = [''exp''],
             verify_signature = True, verify_exp = True, verify_aud = True, verify_iss = True \<rparr> token
       = Inr (JObj claims))"

lemma resolve_jwt_Inr:
  "resolve lib hs (JwtResolver J) = Inr p \<longleftrightarrow>
     (\<exists>claims. token_verified lib hs J claims \<and> jwt_claims_to_principal J claims = Inr p)"
  by (auto simp: exn_simps decode_token_Inr token_verified_def decode_options_of_def)

lemma resolve_oidc_Inr:
  "resolve lib hs (OidcResolver O1) = Inr p \<longleftrightarrow>
     (\<exists>claims. token_verified lib hs (jwt_settings.truncate O1) claims \<and> oidc_claims_to_principal O1 claims = Inr p)"
  by (auto simp: exn_simps decode_token_Inr token_verified_def decode_options_of_def)

lemma resolve_workload_Inr:
  "resolve lib hs (WorkloadResolver W) = Inr p \<longleftrightarrow>
     (\<exists>claims. token_verified lib hs (jwt_settings.truncate W) claims \<and> workload_claims_to_principal W claims = Inr p)"
  by (auto simp: exn_simps decode_token_Inr token_verified_def decode_options_of_def)

lemma jwt_init_Inr: "jwt_init installed J = Inr J' \<Longrightarrow>
    J' = J \<and> jwt_algorithms J \<noteq> [] \<and> set (jwt_algorithms J) \<subseteq> set allowed_asymmetric"
  by (auto simp: jwt_init_def exn_simps Let_def filter_empty_conv)

lemma map_role_no_service:
  assumes "efold map_role entries m = Inr m'" and "\<forall>k. dict_get m k \<noteq> Some RoleSERVICE"
  shows "\<forall>k. dict_get m' k \<noteq> Some RoleSERVICE"
  using assms(1)
  by (rule efold_invariant [where P = "\<lambda>m. \<forall>k. dict_get m k \<noteq> Some RoleSERVICE"])
    (use assms(2) in \<open>auto simp: map_role_def exn_simps Let_def\<close>)

text \<open>A resolver of an organisation, once constructed.\<close>

definition oidc_ok :: "oidc_settings \<Rightarrow> bool" where
  "oidc_ok O1 \<longleftrightarrow> set (jwt_algorithms O1) \<subseteq> set allowed_asymmetric
     \<and> (\<forall>k. dict_get (role_mapping O1) k \<noteq> Some RoleSERVICE)"

lemma oidc_init_ok: "oidc_init installed O1 = Inr O2 \<Longrightarrow> oidc_ok O2
    \<and> oidc_organization_id O2 = strip (oidc_organization_id O1)"
  using map_role_no_service [of "role_mapping O1" "[]"]
  by (auto simp: oidc_init_def oidc_ok_def exn_simps Let_def jwt_settings.truncate_def dest!: jwt_init_Inr)

lemma set_map_filter: "set (List.map_filter f xs) = {y. \<exists>x\<in>set xs. f x = Some y}"
  by (induction xs) (auto simp: map_filter_simps split: option.splits)

lemma oidc_principal:
  assumes "oidc_claims_to_principal O1 claims = Inr p" and "oidc_ok O1"
  shows "principal_ok p" and "principal_organization_id p = Some (oidc_organization_id O1)"
    and "principal_role p \<noteq> RoleSERVICE"
    and "oidc_organization_id O1 \<in> set (claim_values (jget claims (organization_claim O1)))"
    and "{r. \<exists>g\<in>set (claim_values (jget claims (groups_claim O1))). dict_get (role_mapping O1) g = Some r}
      = {principal_role p}"
    and "principal_role p = RoleCANDIDATE \<Longrightarrow> principal_candidate_ref p \<noteq> None"
    and "text_claim claims (principal_claim O1) = Some (principal_id p)"
proof -
  let ?groups = "claim_values (jget claims (groups_claim O1))"
  have set_mapped: "set (mapped_roles O1 claims) = {r. \<exists>g\<in>set ?groups. dict_get (role_mapping O1) g = Some r}"
    by (auto simp: mapped_roles_def set_map_filter)
  have parts: "principal_ok p \<and> principal_organization_id p = Some (oidc_organization_id O1)
      \<and> oidc_organization_id O1 \<in> set (claim_values (jget claims (organization_claim O1)))
      \<and> mapped_roles O1 claims = [principal_role p]
      \<and> (principal_role p = RoleCANDIDATE \<longrightarrow> principal_candidate_ref p \<noteq> None)
      \<and> text_claim claims (principal_claim O1) = Some (principal_id p)"
    using assms(1) by (cases "mapped_roles O1 claims")
      (auto simp: oidc_claims_to_principal_def exn_simps Let_def subject_of_Inr)
  then have roles: "{r. \<exists>g\<in>set ?groups. dict_get (role_mapping O1) g = Some r} = {principal_role p}"
    using set_mapped by simp
  then have "principal_role p \<noteq> RoleSERVICE" using assms(2) by (auto simp: oidc_ok_def)
  then show "principal_ok p" "principal_organization_id p = Some (oidc_organization_id O1)"
    "principal_role p \<noteq> RoleSERVICE"
    "oidc_organization_id O1 \<in> set (claim_values (jget claims (organization_claim O1)))"
    "{r. \<exists>g\<in>set ?groups. dict_get (role_mapping O1) g = Some r} = {principal_role p}"
    "principal_role p = RoleCANDIDATE \<Longrightarrow> principal_candidate_ref p \<noteq> None"
    "text_claim claims (principal_claim O1) = Some (principal_id p)"
    using parts roles by simp_all
qed

text \<open>An identity of an organisation gets at sessions of that organisation only.\<close>

lemma oidc_access:
  assumes "resolve lib hs (OidcResolver O1) = Inr p" and "oidc_ok O1"
    and "require_access p perm (Some s) = Inr ()"
  shows "organization_id s = Some (oidc_organization_id O1)" and "role_permits (principal_role p) perm"
    and "principal_role p = RoleCANDIDATE \<Longrightarrow> principal_candidate_ref p = Some (candidate_ref s)"
proof -
  obtain claims where "oidc_claims_to_principal O1 claims = Inr p"
    using assms(1) unfolding resolve_oidc_Inr by blast
  note p = oidc_principal [OF this assms(2)]
  show "organization_id s = Some (oidc_organization_id O1)" "role_permits (principal_role p) perm"
    "principal_role p = RoleCANDIDATE \<Longrightarrow> principal_candidate_ref p = Some (candidate_ref s)"
    using assms(3) p(2,3) by (auto simp: require_access_iff may_access_def)
qed

lemma jwt_principal_service:
  assumes "jwt_claims_to_principal J claims = Inr p" and "principal_role p = RoleSERVICE"
  shows "allow_service_role J"
proof -
  obtain v where v: "jget claims (role_claim J) = JStr v"
    using assms(1) by (cases "jget claims (role_claim J)") (auto simp: jwt_claims_to_principal_def exn_simps)
  moreover obtain role where "actor_role_of (py_lower (strip v)) = Some role"
    using assms(1) v by (cases "actor_role_of (py_lower (strip v))") (auto simp: jwt_claims_to_principal_def exn_simps)
  ultimately show ?thesis
    using assms by (auto simp: jwt_claims_to_principal_def exn_simps Let_def)
qed

text \<open>Who can be the service: the development modes, a token if the configuration lets it, and
  workloads.\<close>

fun may_grant_service :: "resolver \<Rightarrow> bool" where
  "may_grant_service DisabledResolver = True"
| "may_grant_service DevHeaderResolver = True"
| "may_grant_service (JwtResolver J) = allow_service_role J"
| "may_grant_service (OidcResolver O1) = (\<not> oidc_ok O1)"
| "may_grant_service (WorkloadResolver W) = True"
| "may_grant_service (CompositeResolver rs) = list_ex may_grant_service rs"

lemma first_accepting_mem: "first_accepting rs = Inr p \<Longrightarrow> Inr p \<in> set rs"
  by (induction rs) (auto split: sum.splits exn.splits if_splits)

lemma service_needs_grant:
  "resolve lib hs r = Inr p \<Longrightarrow> principal_role p = RoleSERVICE \<Longrightarrow> may_grant_service r"
proof (induction lib hs r rule: resolve.induct)
  case (3 lib hs J)
  then show ?case using jwt_principal_service unfolding resolve_jwt_Inr by auto
next
  case (4 lib hs O1)
  then show ?case using oidc_principal(3) unfolding resolve_oidc_Inr by auto
next
  case (6 lib hs rs)
  from "6.prems"(1) have "Inr p \<in> resolve lib hs ` set rs" by (auto dest: first_accepting_mem)
  then obtain r where "r \<in> set rs" "resolve lib hs r = Inr p" by auto
  with "6.IH" "6.prems"(2) have "may_grant_service r" by blast
  with \<open>r \<in> set rs\<close> show ?case by (auto simp: list_ex_iff)
qed auto

text \<open>A composite resolver accepts what the first resolver that does not refuse accepts.\<close>

definition refusal :: "principal result \<Rightarrow> bool" where
  "refusal r \<longleftrightarrow> (\<exists>code m. r = Inl (HTTPException code m) \<and> (code = 401 \<or> code = 403))"

lemma first_accepting_Inr:
  "first_accepting rs = Inr p \<longleftrightarrow> (\<exists>i<length rs. rs ! i = Inr p \<and> (\<forall>j<i. refusal (rs ! j)))"
proof (induction rs)
  case (Cons r rs)
  have parts: "(\<exists>i<length (r # rs). (r # rs) ! i = Inr p \<and> (\<forall>j<i. refusal ((r # rs) ! j)))
      \<longleftrightarrow> r = Inr p \<or> (refusal r \<and> (\<exists>i<length rs. rs ! i = Inr p \<and> (\<forall>j<i. refusal (rs ! j))))"
    by (auto simp: Ex_less_Suc2 All_less_Suc2)
  have "first_accepting (r # rs) = (if refusal r then first_accepting rs else r)"
    by (auto simp: refusal_def split: sum.splits exn.splits)
  moreover have "refusal r \<Longrightarrow> r \<noteq> Inr p" by (auto simp: refusal_def)
  ultimately show ?case unfolding parts Cons.IH [symmetric] by auto
qed simp

lemma composite_accepts:
  "resolve lib hs (CompositeResolver rs) = Inr p \<longleftrightarrow>
     (\<exists>i<length rs. resolve lib hs (rs ! i) = Inr p \<and> (\<forall>j<i. refusal (resolve lib hs (rs ! j))))"
  unfolding resolve.simps first_accepting_Inr by auto

end
