(* ===== verification/Resilience.thy ===== *)
theory Resilience
  imports Py_Text Py_Float Models
begin

text \<open>
  \<^verbatim>\<open>resilience.py\<close> and \<^verbatim>\<open>provider_health.py\<close>: circuit breakers, which stop calling a provider that
  keeps failing until it has cooled down, and the collection of their snapshots from the graph
  of the service's components. Clock readings and durations are binary64 numbers. The lemmas: the
  invariant of a breaker and when it lets a call pass; and that the collection ends and lists
  each component that can be reached once.
\<close>

section \<open>The circuit breaker\<close>

datatype circuit_state = CircuitCLOSED | CircuitOPEN | CircuitHALF_OPEN

fun circuit_state_value :: "circuit_state \<Rightarrow> string" where
  "circuit_state_value CircuitCLOSED = ''closed''"
| "circuit_state_value CircuitOPEN = ''open''"
| "circuit_state_value CircuitHALF_OPEN = ''half_open''"

definition ProviderCircuitOpenError :: "string \<Rightarrow> exn" where
  "ProviderCircuitOpenError m = OtherError ''ProviderCircuitOpenError'' m"

record circuit_breaker =
  cb_provider_id :: string
  cb_failure_threshold :: int
  cb_cooldown_seconds :: rat
  circuit :: circuit_state
  cb_consecutive_failures :: int
  cb_total_failures :: int
  cb_total_successes :: int
  opened_at :: "rat option"

definition circuit_breaker_init :: "string \<Rightarrow> int \<Rightarrow> rat \<Rightarrow> circuit_breaker result" where
  "circuit_breaker_init provider threshold cooldown =
     raise_if (threshold < 1) (ValueError ''failure_threshold must be positive'')
     (raise_if (cooldown \<le> 0) (ValueError ''cooldown_seconds must be positive'')
     (Inr \<lparr> cb_provider_id = provider, cb_failure_threshold = threshold, cb_cooldown_seconds = cooldown,
            circuit = CircuitCLOSED, cb_consecutive_failures = 0, cb_total_failures = 0,
            cb_total_successes = 0, opened_at = None \<rparr>))"

text \<open>Without a time of opening, \<^verbatim>\<open>assert\<close> fails.\<close>

definition before_call :: "rat \<Rightarrow> circuit_breaker \<Rightarrow> circuit_breaker \<times> unit result" where
  "before_call clock b =
     (if circuit b \<noteq> CircuitOPEN then (b, Inr ())
      else case opened_at b of
        None \<Rightarrow> (b, Inl (OtherError ''AssertionError'' []))
      | Some t \<Rightarrow>
          if cb_cooldown_seconds b \<le> fl (clock - t) then (b\<lparr>circuit := CircuitHALF_OPEN\<rparr>, Inr ())
          else (b, Inl (ProviderCircuitOpenError (''Provider circuit is open: '' @ cb_provider_id b))))"

definition record_success :: "circuit_breaker \<Rightarrow> circuit_breaker" where
  "record_success b = b\<lparr>cb_total_successes := cb_total_successes b + 1, cb_consecutive_failures := 0,
     circuit := CircuitCLOSED, opened_at := None\<rparr>"

definition record_failure :: "rat \<Rightarrow> circuit_breaker \<Rightarrow> circuit_breaker" where
  "record_failure clock b =
     (let b1 = b\<lparr>cb_total_failures := cb_total_failures b + 1,
            cb_consecutive_failures := cb_consecutive_failures b + 1\<rparr>
      in if circuit b1 = CircuitHALF_OPEN \<or> cb_failure_threshold b1 \<le> cb_consecutive_failures b1
         then b1\<lparr>circuit := CircuitOPEN, opened_at := Some clock\<rparr> else b1)"

record resilience_snapshot =
  snap_provider_id :: string
  snap_component :: "string option"
  snap_state :: circuit_state
  snap_consecutive_failures :: int
  snap_total_failures :: int
  snap_total_successes :: int
  snap_open_seconds_remaining :: rat

definition breaker_snapshot :: "rat \<Rightarrow> circuit_breaker \<Rightarrow> resilience_snapshot" where
  "breaker_snapshot clock b =
     (let remaining = (case opened_at b of
            Some t \<Rightarrow> if circuit b = CircuitOPEN then max 0 (fl (cb_cooldown_seconds b - fl (clock - t))) else 0
          | None \<Rightarrow> 0)
      in \<lparr> snap_provider_id = cb_provider_id b, snap_component = None, snap_state = circuit b,
           snap_consecutive_failures = cb_consecutive_failures b, snap_total_failures = cb_total_failures b,
           snap_total_successes = cb_total_successes b,
           snap_open_seconds_remaining = py_round remaining 3 \<rparr>)"

definition retryable_http_status :: "int \<Rightarrow> bool" where
  "retryable_http_status code = (code \<in> {408, 409, 425, 429} \<or> 500 \<le> code)"

section \<open>Collecting the snapshots\<close>

text \<open>The objects of the service as a heap: an object has a snapshot if it has a method that gives
  one, and refers to other objects by the attributes that are followed.\<close>

record service_object =
  obj_snapshot :: "resilience_snapshot option"
  obj_provider :: "nat option"
  obj_primary :: "nat option"
  obj_runner :: "nat option"
  obj_judges :: "nat list"

type_synonym object_heap = "(nat, service_object) dict"

definition attribute_of :: "string \<Rightarrow> string \<Rightarrow> nat option \<Rightarrow> (string \<times> nat) list" where
  "attribute_of path name value = (case value of None \<Rightarrow> [] | Some a \<Rightarrow> [(path @ ''.'' @ name, a)])"

definition followed :: "string \<Rightarrow> service_object \<Rightarrow> (string \<times> nat) list" where
  "followed path ob = attribute_of path ''provider'' (obj_provider ob) @ attribute_of path ''primary'' (obj_primary ob)
     @ attribute_of path ''runner'' (obj_runner ob)
     @ map (\<lambda>(i, a). (path @ ''.judges['' @ show_nat i @ '']'', a)) (enumerate 0 (obj_judges ob))"

definition snapshots_of :: "string \<Rightarrow> service_object \<Rightarrow> resilience_snapshot list" where
  "snapshots_of path ob = (case obj_snapshot ob of None \<Rightarrow> [] | Some s \<Rightarrow> [s\<lparr>snap_component := Some path\<rparr>])"

text \<open>A new object that is seen leaves fewer that are not. (Every call below sees one or shortens the stack.)\<close>

lemma unseen_less:
  assumes "dict_get h a = Some ob" and "a \<notin> set seen"
  shows "card (fst ` set h - insert a (set seen)) < card (fst ` set h - set seen)"
proof (rule psubset_card_mono)
  have "a \<in> fst ` set h" using map_of_SomeD [OF assms(1)] by force
  then show "fst ` set h - insert a (set seen) \<subset> fst ` set h - set seen" using assms(2) by auto
qed simp

text \<open>\<^verbatim>\<open>visit\<close>, with what is still to visit on a stack: the attributes of an object come before what
  follows it. Beside the snapshots it gives the objects in the order they are visited. An address
  that is not in the heap stands for \<^verbatim>\<open>None\<close>.\<close>

function visit :: "object_heap \<Rightarrow> nat list \<Rightarrow> (string \<times> nat) list
    \<Rightarrow> nat list \<times> resilience_snapshot list" where
  "visit h seen [] = ([], [])"
| "visit h seen ((path, a) # rest) =
     (case dict_get h a of
        None \<Rightarrow> visit h seen rest
      | Some ob \<Rightarrow>
          if a \<in> set seen then visit h seen rest
          else (case visit h (a # seen) (followed path ob @ rest) of
                  (as, snaps) \<Rightarrow> (a # as, snapshots_of path ob @ snaps)))"
  by pat_completeness auto

termination
  by (relation "measures [\<lambda>(h, seen, todo). card (fst ` set h - set seen), \<lambda>(h, seen, todo). length todo]")
    (auto intro: unseen_less)

definition collect_provider_resilience :: "object_heap \<Rightarrow> (string, nat) dict \<Rightarrow> resilience_snapshot list" where
  "collect_provider_resilience h components = snd (visit h [] components)"

text \<open>The objects that can be reached by following attributes.\<close>

inductive reachable_object :: "object_heap \<Rightarrow> nat set \<Rightarrow> nat \<Rightarrow> bool" for h roots where
  root: "a \<in> roots \<Longrightarrow> dict_get h a = Some ob \<Longrightarrow> reachable_object h roots a"
| follow: "reachable_object h roots a \<Longrightarrow> dict_get h a = Some ob \<Longrightarrow> b \<in> snd ` set (followed path ob)
     \<Longrightarrow> dict_get h b = Some ob' \<Longrightarrow> reachable_object h roots b"

lemma map_snd_followed: "map snd (followed path ob) = concat (map (case_option [] (\<lambda>a. [a]))
    [obj_provider ob, obj_primary ob, obj_runner ob]) @ obj_judges ob"
proof -
  have "map snd (map (\<lambda>(i, a). (f i, a)) xs) = map snd xs" for f :: "nat \<Rightarrow> string" and xs :: "(nat \<times> nat) list"
    by (induction xs) auto
  then show ?thesis by (simp add: followed_def attribute_of_def del: map_map split: option.split)
qed

lemma followed_path: "snd ` set (followed path ob) = snd ` set (followed path' ob)"
  by (simp only: list.set_map [symmetric] map_snd_followed)

lemma visit_distinct: "visit h seen todo = (as, snaps) \<Longrightarrow> distinct as \<and> set as \<inter> set seen = {}"
proof (induction h seen todo arbitrary: as snaps rule: visit.induct)
  case (2 h seen path a rest)
  show ?case
  proof (cases "dict_get h a")
    case (Some ob)
    show ?thesis
    proof (cases "a \<in> set seen")
      case False
      obtain as' snaps' where "visit h (a # seen) (followed path ob @ rest) = (as', snaps')" "as = a # as'"
        using "2.prems" Some False by (auto split: prod.splits)
      with "2.IH"(3) [OF Some False] False show ?thesis by auto
    qed (use "2.IH"(2) [OF Some] "2.prems" Some in auto)
  qed (use "2.IH"(1) "2.prems" in auto)
qed simp

text \<open>Every object of the stack is visited or was seen, and so is what a visited one refers to.\<close>

lemma visit_closed:
  "visit h seen todo = (as, snaps) \<Longrightarrow>
     (\<forall>a\<in>snd ` set todo. dict_get h a \<noteq> None \<longrightarrow> a \<in> set as \<union> set seen)
   \<and> (\<forall>a\<in>set as. \<exists>ob. dict_get h a = Some ob
        \<and> (\<forall>b\<in>snd ` set (followed [] ob). dict_get h b \<noteq> None \<longrightarrow> b \<in> set as \<union> set seen))"
proof (induction h seen todo arbitrary: as snaps rule: visit.induct)
  case (2 h seen path a rest)
  show ?case
  proof (cases "dict_get h a")
    case (Some ob)
    show ?thesis
    proof (cases "a \<in> set seen")
      case False
      obtain as' snaps' where run: "visit h (a # seen) (followed path ob @ rest) = (as', snaps')" "as = a # as'"
        using "2.prems" Some False by (auto split: prod.splits)
      note IH = "2.IH"(3) [OF Some False run(1)]
      have "\<forall>b\<in>snd ` set (followed [] ob). dict_get h b \<noteq> None \<longrightarrow> b \<in> set as \<union> set seen"
        using IH unfolding followed_path [of "[]" ob path] run(2) by (simp add: image_Un ball_Un)
      with IH Some show ?thesis by (simp add: run(2) image_Un ball_Un)
    qed (use "2.IH"(2) [OF Some] "2.prems" Some in auto)
  qed (use "2.IH"(1) "2.prems" in auto)
qed simp

lemma visit_reachable:
  "visit h seen todo = (as, snaps) \<Longrightarrow> \<forall>a\<in>set as. reachable_object h (snd ` set todo) a"
proof (induction h seen todo arbitrary: as snaps rule: visit.induct)
  case (2 h seen path a rest)
  have more: "reachable_object h (snd ` set rest) b \<Longrightarrow> reachable_object h (snd ` set ((path, a) # rest)) b" for b
    by (induction rule: reachable_object.induct) (auto intro: reachable_object.intros)
  show ?case
  proof (cases "dict_get h a")
    case (Some ob)
    show ?thesis
    proof (cases "a \<in> set seen")
      case False
      obtain as' snaps' where run: "visit h (a # seen) (followed path ob @ rest) = (as', snaps')" "as = a # as'"
        using "2.prems" Some False by (auto split: prod.splits)
      have a: "reachable_object h (snd ` set ((path, a) # rest)) a" by (rule root) (use Some in auto)
      have "reachable_object h (snd ` set (followed path ob @ rest)) b
          \<Longrightarrow> reachable_object h (snd ` set ((path, a) # rest)) b" for b
      proof (induction rule: reachable_object.induct)
        case (root b ob')
        then show ?case
        proof (cases "b \<in> snd ` set (followed path ob)")
          case True
          then show ?thesis using follow [OF a Some] root by blast
        qed (use root in \<open>auto intro!: reachable_object.root\<close>)
      qed (rule follow)
      then show ?thesis using "2.IH"(3) [OF Some False run(1)] a by (simp add: run(2))
    qed (use "2.IH"(2) [OF Some] "2.prems" Some more in auto)
  qed (use "2.IH"(1) "2.prems" more in auto)
qed simp

text \<open>The visit reaches each reachable object once.\<close>

lemma visit_reaches:
  "distinct (fst (visit h [] todo))"
  "set (fst (visit h [] todo)) = {a. reachable_object h (snd ` set todo) a}"
proof -
  obtain as snaps where v: "visit h [] todo = (as, snaps)" by (cases "visit h [] todo")
  show "distinct (fst (visit h [] todo))" using visit_distinct [OF v] by (simp add: v)
  have "a \<in> set as" if "reachable_object h (snd ` set todo) a" for a
    using that
  proof (induction rule: reachable_object.induct)
    case (root a ob)
    then show ?case using visit_closed [OF v] by auto
  next
    case (follow a ob b path ob')
    then have "b \<in> snd ` set (followed [] ob)" using followed_path by metis
    then show ?case using follow visit_closed [OF v] by force
  qed
  with visit_reachable [OF v] show "set (fst (visit h [] todo)) = {a. reachable_object h (snd ` set todo) a}"
    by (auto simp: v)
qed

text \<open>The snapshots listed are those of the objects visited, in order.\<close>

lemma visit_snapshots:
  "visit h seen todo = (as, snaps) \<Longrightarrow> map (\<lambda>s. s\<lparr>snap_component := None\<rparr>) snaps
     = map (\<lambda>s. s\<lparr>snap_component := None\<rparr>) (List.map_filter (\<lambda>a. Option.bind (dict_get h a) obj_snapshot) as)"
proof (induction h seen todo arbitrary: as snaps rule: visit.induct)
  case (2 h seen path a rest)
  show ?case
  proof (cases "dict_get h a")
    case (Some ob)
    show ?thesis
    proof (cases "a \<in> set seen")
      case False
      obtain as' snaps' where run: "visit h (a # seen) (followed path ob @ rest) = (as', snaps')" "as = a # as'"
        "snaps = snapshots_of path ob @ snaps'"
        using "2.prems" Some False by (auto split: prod.splits)
      show ?thesis using "2.IH"(3) [OF Some False run(1)] Some
        by (simp add: run(2,3) snapshots_of_def map_filter_simps split: option.split)
    qed (use "2.IH"(2) [OF Some] "2.prems" Some in auto)
  qed (use "2.IH"(1) "2.prems" in auto)
qed (simp add: map_filter_simps)

section \<open>When a breaker lets a call pass\<close>

definition breaker_ok :: "circuit_breaker \<Rightarrow> bool" where
  "breaker_ok b \<longleftrightarrow> 1 \<le> cb_failure_threshold b \<and> 0 < cb_cooldown_seconds b
     \<and> 0 \<le> cb_consecutive_failures b \<and> cb_consecutive_failures b \<le> cb_total_failures b
     \<and> (circuit b = CircuitCLOSED \<longleftrightarrow> opened_at b = None)
     \<and> (circuit b = CircuitCLOSED \<longrightarrow> cb_consecutive_failures b < cb_failure_threshold b)
     \<and> (circuit b \<noteq> CircuitCLOSED \<longrightarrow> 1 \<le> cb_consecutive_failures b)"

datatype breaker_op = BeforeCall rat | CallSucceeded | CallFailed rat

fun breaker_step :: "breaker_op \<Rightarrow> circuit_breaker \<Rightarrow> circuit_breaker" where
  "breaker_step (BeforeCall clock) b = fst (before_call clock b)"
| "breaker_step CallSucceeded b = record_success b"
| "breaker_step (CallFailed clock) b = record_failure clock b"

lemma circuit_breaker_init_ok: "circuit_breaker_init p n t = Inr b \<Longrightarrow> breaker_ok b"
  by (auto simp: circuit_breaker_init_def exn_simps breaker_ok_def)

lemma breaker_step_ok: "breaker_ok b \<Longrightarrow> breaker_ok (breaker_step op b)"
  by (cases op)
    (auto simp: breaker_ok_def before_call_def record_success_def record_failure_def Let_def split: option.splits)

lemma breaker_run_ok: "breaker_ok b \<Longrightarrow> breaker_ok (fold breaker_step ops b)"
  by (induction ops arbitrary: b) (simp_all add: breaker_step_ok)

text \<open>A call is refused exactly while the circuit is open and has not cooled down.\<close>

lemma before_call_iff:
  assumes "breaker_ok b"
  shows "snd (before_call clock b) = Inr () \<longleftrightarrow>
       circuit b \<noteq> CircuitOPEN \<or> (\<exists>t. opened_at b = Some t \<and> cb_cooldown_seconds b \<le> fl (clock - t))"
    and "snd (before_call clock b) = Inr () \<or> snd (before_call clock b)
       = Inl (ProviderCircuitOpenError (''Provider circuit is open: '' @ cb_provider_id b))"
  using assms by (auto simp: before_call_def breaker_ok_def split: option.splits)

text \<open>After as many failures in a row as the threshold, and until a call succeeds, it is open.\<close>

lemma failures_open:
  assumes "breaker_ok b" and "cb_failure_threshold b \<le> int (length clocks)" and "clocks \<noteq> []"
  shows "circuit (fold record_failure clocks b) = CircuitOPEN"
proof -
  have "cb_consecutive_failures (fold record_failure clocks b) = cb_consecutive_failures b + int (length clocks)
    \<and> cb_failure_threshold (fold record_failure clocks b) = cb_failure_threshold b
    \<and> (cb_failure_threshold b \<le> cb_consecutive_failures b + int (length clocks) \<longrightarrow> clocks \<noteq> []
        \<longrightarrow> circuit (fold record_failure clocks b) = CircuitOPEN)"
  proof (induction clocks rule: rev_induct)
    case (snoc t clocks)
    then show ?case by (auto simp: record_failure_def Let_def)
  qed simp
  then show ?thesis using assms by (simp add: breaker_ok_def)
qed

section \<open>The health registry\<close>

datatype provider_health_state = HEALTHY | DEGRADED | HealthOPEN | DISABLED

fun provider_health_value :: "provider_health_state \<Rightarrow> string" where
  "provider_health_value HEALTHY = ''healthy''"
| "provider_health_value DEGRADED = ''degraded''"
| "provider_health_value HealthOPEN = ''open''"
| "provider_health_value DISABLED = ''disabled''"

record health_record =
  health_key :: string
  health_provider_id :: string
  health_disabled :: bool
  health_consecutive_failures :: int
  health_total_failures :: int
  health_total_successes :: int
  open_until :: rat
  health_last_error_type :: "string option"
  health_last_error :: "string option"
  health_last_failure_at :: "datetime option"
  health_last_success_at :: "datetime option"

definition new_health_record :: "string \<Rightarrow> string \<Rightarrow> bool \<Rightarrow> health_record" where
  "new_health_record key provider disabled = \<lparr> health_key = key, health_provider_id = provider,
     health_disabled = disabled, health_consecutive_failures = 0, health_total_failures = 0,
     health_total_successes = 0, open_until = 0, health_last_error_type = None, health_last_error = None,
     health_last_failure_at = None, health_last_success_at = None \<rparr>"

text \<open>The registry: its settings and its records. Clock readings and dates are arguments.\<close>

record health_registry =
  health_failure_threshold :: int
  health_cooldown_seconds :: rat
  health_records :: "(string, health_record) dict"

definition health_registry_init :: "int \<Rightarrow> rat \<Rightarrow> health_registry result" where
  "health_registry_init threshold cooldown =
     raise_if (threshold < 1) (ValueError ''failure_threshold must be >= 1'')
     (raise_if (cooldown \<le> 0) (ValueError ''cooldown_seconds must be > 0'')
     (Inr \<lparr> health_failure_threshold = threshold, health_cooldown_seconds = cooldown, health_records = [] \<rparr>))"

definition register :: "string \<Rightarrow> string \<Rightarrow> bool \<Rightarrow> health_registry \<Rightarrow> health_registry" where
  "register key provider disabled H = H\<lparr>health_records :=
     dict_setdefault key (new_health_record key provider disabled) (health_records H)\<rparr>"

definition health_record_of :: "health_registry \<Rightarrow> string \<Rightarrow> health_record result" where
  "health_record_of H key = (case dict_get (health_records H) key of
      Some r \<Rightarrow> Inr r
    | None \<Rightarrow> Inl (KeyError (''provider health key '' @ repr_str key @ '' is not registered'')))"

text \<open>\<^verbatim>\<open>f"{x:.2f}"\<close> of a number that is not negative: rounded half to even.\<close>

definition show_fixed2 :: "rat \<Rightarrow> string" where
  "show_fixed2 x = (let n = rne (x * 100); frac = n mod 100
     in show_int (n div 100) @ ''.'' @ (if frac < 10 then ''0'' else []) @ show_int frac)"

definition set_record :: "string \<Rightarrow> health_record \<Rightarrow> health_registry \<Rightarrow> health_registry" where
  "set_record key r H = H\<lparr>health_records := dict_set key r (health_records H)\<rparr>"

definition health_before_call :: "rat \<Rightarrow> string \<Rightarrow> health_registry \<Rightarrow> health_registry \<times> unit result" where
  "health_before_call clock key H =
     (case health_record_of H key of
        Inl e \<Rightarrow> (H, Inl e)
      | Inr r \<Rightarrow>
          if health_disabled r then (H, Inr ())
          else if open_until r \<le> clock then (set_record key (r\<lparr>open_until := 0\<rparr>) H, Inr ())
          else (H, Inl (ProviderCircuitOpenError (''provider circuit '' @ repr_str key @ '' is open for ''
                 @ show_fixed2 (max 0 (fl (open_until r - clock))) @ '' more seconds''))))"

definition health_record_success :: "datetime \<Rightarrow> string \<Rightarrow> health_registry \<Rightarrow> health_registry \<times> unit result" where
  "health_record_success now key H =
     (case health_record_of H key of
        Inl e \<Rightarrow> (H, Inl e)
      | Inr r \<Rightarrow> (set_record key (r\<lparr>health_total_successes := health_total_successes r + 1,
            health_consecutive_failures := 0, open_until := 0, health_last_error_type := None,
            health_last_error := None, health_last_success_at := Some now\<rparr>) H, Inr ()))"

definition failed_record :: "int \<Rightarrow> rat \<Rightarrow> rat \<Rightarrow> datetime \<Rightarrow> exn \<Rightarrow> health_record \<Rightarrow> health_record" where
  "failed_record threshold cooldown clock now exc r =
     (let r1 = r\<lparr>health_total_failures := health_total_failures r + 1,
            health_consecutive_failures := health_consecutive_failures r + 1,
            health_last_error_type := Some (exn_name exc), health_last_error := Some (take 1000 (exn_str exc)),
            health_last_failure_at := Some now\<rparr>
      in if threshold \<le> health_consecutive_failures r1 then r1\<lparr>open_until := fl (clock + cooldown)\<rparr> else r1)"

definition health_record_failure :: "rat \<Rightarrow> datetime \<Rightarrow> string \<Rightarrow> exn \<Rightarrow> health_registry
    \<Rightarrow> health_registry \<times> unit result" where
  "health_record_failure clock now key exc H =
     (case health_record_of H key of
        Inl e \<Rightarrow> (H, Inl e)
      | Inr r \<Rightarrow>
          if health_disabled r then (H, Inr ())
          else (set_record key (failed_record (health_failure_threshold H) (health_cooldown_seconds H) clock now exc r)
                  H, Inr ()))"

record health_snapshot =
  hsnap_key :: string
  hsnap_provider_id :: string
  hsnap_state :: provider_health_state
  hsnap_consecutive_failures :: int
  hsnap_total_failures :: int
  hsnap_total_successes :: int
  hsnap_open_seconds_remaining :: rat
  hsnap_last_error_type :: "string option"
  hsnap_last_error :: "string option"
  hsnap_last_failure_at :: "datetime option"
  hsnap_last_success_at :: "datetime option"

definition health_snapshot_of :: "rat \<Rightarrow> health_record \<Rightarrow> health_snapshot" where
  "health_snapshot_of clock r =
     (let remaining = max 0 (fl (open_until r - clock));
          st = (if health_disabled r then DISABLED else if 0 < remaining then HealthOPEN
                else if 0 < health_consecutive_failures r then DEGRADED else HEALTHY)
      in \<lparr> hsnap_key = health_key r, hsnap_provider_id = health_provider_id r, hsnap_state = st,
           hsnap_consecutive_failures = health_consecutive_failures r,
           hsnap_total_failures = health_total_failures r, hsnap_total_successes = health_total_successes r,
           hsnap_open_seconds_remaining = py_round remaining 3,
           hsnap_last_error_type = health_last_error_type r, hsnap_last_error = health_last_error r,
           hsnap_last_failure_at = health_last_failure_at r, hsnap_last_success_at = health_last_success_at r \<rparr>)"

definition registry_snapshot :: "rat \<Rightarrow> string \<Rightarrow> health_registry \<Rightarrow> health_snapshot result" where
  "registry_snapshot clock key H = ebind (health_record_of H key) (\<lambda>r. Inr (health_snapshot_of clock r))"

definition registry_snapshots :: "(nat \<Rightarrow> rat) \<Rightarrow> health_registry \<Rightarrow> health_snapshot list" where
  "registry_snapshots clock H = map (\<lambda>(i, kr). health_snapshot_of (clock i) (snd kr))
     (enumerate 0 (sort_key fst (health_records H)))"

text \<open>Between calls, a provider that is not disabled and has not failed often enough lets calls pass,
  and one that has lets none pass until it has cooled down.\<close>

lemma health_refuses_until:
  assumes "health_record_of H key = Inr r" and "\<not> health_disabled r"
  shows "snd (health_before_call clock key H) = Inr () \<longleftrightarrow> open_until r \<le> clock"
  using assms by (simp add: health_before_call_def)

lemma threshold_opens:
  assumes "health_record_of H key = Inr r" and "\<not> health_disabled r"
    and "health_failure_threshold H \<le> health_consecutive_failures r + 1"
    and "later < fl (clock + health_cooldown_seconds H)"
  shows "snd (health_before_call later key (fst (health_record_failure clock now key exc H))) \<noteq> Inr ()"
  using assms
  by (simp add: health_record_failure_def health_before_call_def health_record_of_def set_record_def
      failed_record_def Let_def split: option.splits)

section \<open>Guarded providers\<close>

text \<open>\<^verbatim>\<open>providers/guarded_voice.py\<close>: a call of the wrapped provider, given its outcome; a failure is
  recorded, at a clock reading and a date, and raised again.\<close>

definition guarded_call :: "string \<Rightarrow> rat \<Rightarrow> datetime \<Rightarrow> 'a result \<Rightarrow> health_registry
    \<Rightarrow> health_registry \<times> 'a result" where
  "guarded_call key clock now outcome H =
     (case outcome of
        Inr x \<Rightarrow> (H, Inr x)
      | Inl e \<Rightarrow> (case health_record_failure clock now key e H of
            (H1, Inl e') \<Rightarrow> (H1, Inl e')
          | (H1, Inr _) \<Rightarrow> (H1, Inl e)))"

text \<open>Opening a stream of speech or of synthesis: the provider is asked only if the circuit lets it.\<close>

definition guarded_open :: "string \<Rightarrow> rat \<Rightarrow> rat \<Rightarrow> datetime \<Rightarrow> 'a result \<Rightarrow> health_registry
    \<Rightarrow> health_registry \<times> 'a result" where
  "guarded_open key clock clock2 now outcome H =
     (case health_before_call clock key H of
        (H1, Inl e) \<Rightarrow> (H1, Inl e)
      | (H1, Inr _) \<Rightarrow> guarded_call key clock2 now outcome H1)"

definition mark_healthy :: "string \<Rightarrow> datetime \<Rightarrow> bool \<Rightarrow> health_registry
    \<Rightarrow> bool \<times> health_registry \<times> unit result" where
  "mark_healthy key now healthy H =
     (if healthy then (True, H, Inr ())
      else case health_record_success now key H of (H1, r) \<Rightarrow> (True, H1, r))"

text \<open>The events of a guarded session: what is passed on, up to the provider's exception, if any.\<close>

fun guarded_events :: "string \<Rightarrow> rat \<Rightarrow> datetime \<Rightarrow> 'a list \<Rightarrow> exn option \<Rightarrow> bool \<Rightarrow> health_registry
    \<Rightarrow> 'a list \<times> bool \<times> health_registry \<times> unit result" where
  "guarded_events key clock now [] failure healthy H =
     (case guarded_call key clock now (case failure of None \<Rightarrow> Inr () | Some e \<Rightarrow> Inl e) H of
        (H1, r) \<Rightarrow> ([], healthy, H1, r))"
| "guarded_events key clock now (x # xs) failure healthy H =
     (case mark_healthy key now healthy H of
        (h, H1, Inl e) \<Rightarrow> (case guarded_call key clock now (Inl e) H1 of (H2, r) \<Rightarrow> ([], h, H2, r))
      | (h, H1, Inr _) \<Rightarrow>
          (case guarded_events key clock now xs failure h H1 of (ys, rest) \<Rightarrow> (x # ys, rest)))"

lemma guarded_open_refused:
  assumes "health_record_of H key = Inr r" and "\<not> health_disabled r" and "clock < open_until r"
  shows "\<exists>m. guarded_open key clock clock2 now outcome H = (H, Inl (ProviderCircuitOpenError m))"
  using assms by (auto simp: guarded_open_def health_before_call_def)

lemma health_record_set: "health_record_of (set_record key r H) k = (if k = key then Inr r else health_record_of H k)"
  by (simp add: health_record_of_def set_record_def)

text \<open>After a failed opening at the threshold, openings are refused until the provider has cooled down.\<close>

lemma guarded_open_trips:
  assumes "health_record_of H key = Inr r" and "\<not> health_disabled r" and "open_until r \<le> clock"
    and "health_failure_threshold H \<le> health_consecutive_failures r + 1"
    and "later < fl (clock2 + health_cooldown_seconds H)"
  shows "\<exists>m. snd (guarded_open key later clock3 now2 outcome2
    (fst (guarded_open key clock clock2 now (Inl e :: 'b result) H))) = Inl (ProviderCircuitOpenError m)"
proof -
  let ?r = "failed_record (health_failure_threshold H) (health_cooldown_seconds H) clock2 now e (r\<lparr>open_until := 0\<rparr>)"
  let ?H = "fst (guarded_open key clock clock2 now (Inl e :: 'b result) H)"
  have "health_record_of ?H key = Inr ?r"
    using assms(1-3) by (simp add: guarded_open_def health_before_call_def guarded_call_def
        health_record_failure_def health_record_set) (simp add: set_record_def health_record_of_def)
  moreover have "\<not> health_disabled ?r" "later < open_until ?r"
    using assms by (simp_all add: failed_record_def Let_def)
  ultimately obtain m where "guarded_open key later clock3 now2 outcome2 ?H = (?H, Inl (ProviderCircuitOpenError m))"
    using guarded_open_refused [of ?H key ?r later clock3 now2 outcome2] by blast
  then show ?thesis by (intro exI [of _ m]) simp
qed

end
