(* ===== verification/Audio_Streams.thy ===== *)
theory Audio_Streams
  imports Py_Bytes Models
begin

text \<open>
  \<^verbatim>\<open>voice_stream.py\<close> and \<^verbatim>\<open>audio_stream_manager.py\<close>: numbered audio chunks in base64, and the
  manager that puts them in order: it refuses gaps, answers repetitions without passing them on,
  bounds what is buffered, and lets a client that knows the token reconnect. The lemmas: what
  reaches the recogniser is the chunks in order, each once, whatever arrives.
\<close>

section \<open>Messages\<close>

datatype audio_encoding = PCM16 | OPUS

fun audio_encoding_value :: "audio_encoding \<Rightarrow> string" where
  "audio_encoding_value PCM16 = ''pcm16''"
| "audio_encoding_value OPUS = ''opus''"

record audio_stream_config =
  encoding :: audio_encoding
  sample_rate_hz :: int
  channels :: int
  max_chunk_bytes :: int
  max_buffered_bytes :: int

definition AudioStreamConfig :: "audio_stream_config \<Rightarrow> audio_stream_config result" where
  "AudioStreamConfig c =
     raise_if (\<not> (8000 \<le> sample_rate_hz c \<and> sample_rate_hz c \<le> 96000 \<and> 1 \<le> channels c \<and> channels c \<le> 2
         \<and> 1024 \<le> max_chunk_bytes c \<and> max_chunk_bytes c \<le> 262144
         \<and> 32768 \<le> max_buffered_bytes c \<and> max_buffered_bytes c \<le> 8388608))
       (ValidationError ''AudioStreamConfig'')
     (raise_if (max_buffered_bytes c < max_chunk_bytes c)
       (ValidationError ''max_buffered_bytes must be >= max_chunk_bytes'') (Inr c))"

record audio_chunk =
  chunk_sequence :: int
  chunk_generation :: int
  audio_base64 :: string

definition AudioChunkMessage :: "audio_chunk \<Rightarrow> audio_chunk result" where
  "AudioChunkMessage c = raise_if (chunk_sequence c < 0 \<or> chunk_generation c < 0 \<or> length (audio_base64 c) < 4)
     (ValidationError ''AudioChunkMessage'') (Inr c)"

text \<open>\<^verbatim>\<open>base64.b64encode\<close> and \<^verbatim>\<open>base64.b64decode(s, validate=True)\<close>: the standard alphabet, in whole
  groups, padded at the end and nowhere else.\<close>

definition std_char :: "char \<Rightarrow> char" where
  "std_char c = (if c = CHR ''-'' then CHR ''+'' else if c = CHR ''_'' then CHR ''/'' else c)"

definition b64encode :: "bytes \<Rightarrow> string" where
  "b64encode bs = map std_char (urlsafe_b64encode bs)"

definition std_value :: "char \<Rightarrow> 8 word option" where
  "std_value c = (if c = CHR ''-'' \<or> c = CHR ''_'' then None else b64_value c)"

fun b64decode_strict :: "string \<Rightarrow> bytes option" where
  "b64decode_strict [] = Some []"
| "b64decode_strict (a # b # c # d # rest) =
     (case (std_value a, std_value b) of
        (Some u, Some v) \<Rightarrow>
          (if c = CHR ''='' then
             (if d = CHR ''='' \<and> rest = [] then Some [push_bit 2 u OR drop_bit 4 v] else None)
           else case std_value c of
             None \<Rightarrow> None
           | Some w \<Rightarrow>
               (if d = CHR ''='' then
                  (if rest = [] then Some [push_bit 2 u OR drop_bit 4 v, push_bit 4 (v AND 15) OR drop_bit 2 w]
                   else None)
                else case (std_value d, b64decode_strict rest) of
                  (Some x, Some bs) \<Rightarrow> Some ((push_bit 2 u OR drop_bit 4 v)
                      # (push_bit 4 (v AND 15) OR drop_bit 2 w) # (push_bit 6 (w AND 3) OR x) # bs)
                | _ \<Rightarrow> None))
      | _ \<Rightarrow> None)"
| "b64decode_strict _ = None"

definition decode_chunk :: "audio_chunk \<Rightarrow> bytes result" where
  "decode_chunk c = (case b64decode_strict (audio_base64 c) of
      Some bs \<Rightarrow> Inr bs
    | None \<Rightarrow> Inl (ValueError ''audio_base64 is not valid base64''))"

definition chunk_from_bytes :: "int \<Rightarrow> int \<Rightarrow> bytes \<Rightarrow> audio_chunk result" where
  "chunk_from_bytes seq gen audio = AudioChunkMessage
     \<lparr> chunk_sequence = seq, chunk_generation = gen, audio_base64 = b64encode audio \<rparr>"

record audio_stream_state =
  stream_id :: string
  stream_session_id :: string
  stream_config :: audio_stream_config
  stream_generation :: int
  next_sequence :: int
  buffered_bytes :: int
  accepted_chunks :: int
  accepted_bytes :: int
  duplicate_chunks :: int
  reconnect_count :: int
  stream_closed :: bool

record audio_chunk_result =
  acr_accepted :: bool
  acr_duplicate :: bool
  acr_sequence :: int
  acr_next_sequence :: int
  acr_generation :: int
  acr_buffered_bytes :: int

text \<open>The errors of the transport, with their codes.\<close>

definition AudioStreamClosedError :: "string \<Rightarrow> exn" where
  "AudioStreamClosedError m = OtherError ''AudioStreamClosedError'' m"

definition AudioChunkTooLargeError :: "string \<Rightarrow> exn" where
  "AudioChunkTooLargeError m = OtherError ''AudioChunkTooLargeError'' m"

definition AudioSequenceError :: "string \<Rightarrow> exn" where
  "AudioSequenceError m = OtherError ''AudioSequenceError'' m"

definition AudioGenerationError :: "string \<Rightarrow> exn" where
  "AudioGenerationError m = OtherError ''AudioGenerationError'' m"

definition AudioBackpressureError :: "string \<Rightarrow> exn" where
  "AudioBackpressureError m = OtherError ''AudioBackpressureError'' m"

definition AudioReconnectError :: "string \<Rightarrow> exn" where
  "AudioReconnectError m = OtherError ''AudioReconnectError'' m"

definition audio_error_code :: "exn \<Rightarrow> string option" where
  "audio_error_code e = dict_get [(''AudioStreamError'', ''audio_stream_error''), (''AudioStreamClosedError'', ''stream_closed''),
     (''AudioChunkTooLargeError'', ''chunk_too_large''), (''AudioSequenceError'', ''invalid_sequence''),
     (''AudioGenerationError'', ''stale_generation''), (''AudioBackpressureError'', ''backpressure''),
     (''AudioReconnectError'', ''invalid_reconnect'')] (exn_name e)"

section \<open>The manager\<close>

text \<open>The streams by their identifiers, with their reconnect tokens; a new identifier and a new token
  are drawn by the caller.\<close>

type_synonym audio_streams = "(string, audio_stream_state \<times> string) dict"

definition new_stream :: "string \<Rightarrow> string \<Rightarrow> int \<Rightarrow> audio_stream_config \<Rightarrow> audio_stream_state" where
  "new_stream i sid gen c = \<lparr> stream_id = i, stream_session_id = sid, stream_config = c,
     stream_generation = gen, next_sequence = 0, buffered_bytes = 0, accepted_chunks = 0,
     accepted_bytes = 0, duplicate_chunks = 0, reconnect_count = 0, stream_closed = False \<rparr>"

definition open_stream :: "string \<Rightarrow> string \<Rightarrow> string \<Rightarrow> int \<Rightarrow> audio_stream_config \<Rightarrow> audio_streams
    \<Rightarrow> audio_streams \<times> audio_stream_state" where
  "open_stream i token sid gen c ss =
     (dict_set i (new_stream i sid gen c, token) ss, new_stream i sid gen c)"

definition active_stream_count :: "audio_streams \<Rightarrow> nat" where
  "active_stream_count ss = length (filter (\<lambda>(i, st, token). \<not> stream_closed st) ss)"

definition stream_record :: "audio_streams \<Rightarrow> string \<Rightarrow> (audio_stream_state \<times> string) result" where
  "stream_record ss i = (case dict_get ss i of
      Some r \<Rightarrow> Inr r
    | None \<Rightarrow> Inl (AudioReconnectError (''unknown audio stream: '' @ i)))"

definition chunk_result :: "audio_stream_state \<Rightarrow> audio_chunk \<Rightarrow> bool \<Rightarrow> audio_chunk_result" where
  "chunk_result st c dup = \<lparr> acr_accepted = True, acr_duplicate = dup, acr_sequence = chunk_sequence c,
     acr_next_sequence = next_sequence st, acr_generation = stream_generation st,
     acr_buffered_bytes = buffered_bytes st \<rparr>"

text \<open>A chunk against the state of its stream: the new state, the answer and the audio to pass on.\<close>

definition accept_audio :: "audio_chunk \<Rightarrow> bytes \<Rightarrow> audio_stream_state
    \<Rightarrow> (audio_stream_state \<times> audio_chunk_result \<times> bytes option) result" where
  "accept_audio c audio st =
     (let size = int (length audio); projected = buffered_bytes st + size
      in raise_if (size = 0) (AudioChunkTooLargeError ''empty audio chunks are not accepted'')
        (raise_if (max_chunk_bytes (stream_config st) < size)
          (AudioChunkTooLargeError (''audio chunk is '' @ show_int size @ '' bytes; limit is ''
             @ show_int (max_chunk_bytes (stream_config st))))
        (raise_if (max_buffered_bytes (stream_config st) < projected)
          (AudioBackpressureError (''audio buffer would reach '' @ show_int projected @ '' bytes; limit is ''
             @ show_int (max_buffered_bytes (stream_config st))))
        (let st' = st\<lparr>buffered_bytes := projected, accepted_chunks := accepted_chunks st + 1,
               accepted_bytes := accepted_bytes st + size, next_sequence := next_sequence st + 1\<rparr>
         in Inr (st', chunk_result st' c False, Some audio)))))"

definition accept_in_order :: "string \<Rightarrow> audio_chunk \<Rightarrow> audio_stream_state
    \<Rightarrow> (audio_stream_state \<times> audio_chunk_result \<times> bytes option) result" where
  "accept_in_order i c st =
     raise_if (stream_closed st) (AudioStreamClosedError (''audio stream '' @ i @ '' is closed''))
     (raise_if (chunk_generation c \<noteq> stream_generation st)
       (AudioGenerationError (''expected generation '' @ show_int (stream_generation st) @ '', got ''
          @ show_int (chunk_generation c)))
     (if chunk_sequence c < next_sequence st
      then let st' = st\<lparr>duplicate_chunks := duplicate_chunks st + 1\<rparr>
           in Inr (st', chunk_result st' c True, None)
      else raise_if (next_sequence st < chunk_sequence c)
        (AudioSequenceError (''expected sequence '' @ show_int (next_sequence st) @ '', got ''
           @ show_int (chunk_sequence c)))
        (ebind (decode_chunk c) (\<lambda>audio. accept_audio c audio st))))"

definition accept_chunk :: "string \<Rightarrow> audio_chunk \<Rightarrow> audio_streams
    \<Rightarrow> audio_streams \<times> (audio_chunk_result \<times> bytes option) result" where
  "accept_chunk i c ss =
     (case stream_record ss i of
        Inl e \<Rightarrow> (ss, Inl e)
      | Inr (st, token) \<Rightarrow>
          (case accept_in_order i c st of
             Inl e \<Rightarrow> (ss, Inl e)
           | Inr (st', r, audio) \<Rightarrow> (dict_set i (st', token) ss, Inr (r, audio))))"

text \<open>The other operations change the state of one stream or fail.\<close>

definition change_stream :: "string \<Rightarrow> (audio_stream_state \<Rightarrow> string \<Rightarrow> audio_stream_state result)
    \<Rightarrow> audio_streams \<Rightarrow> audio_streams \<times> audio_stream_state result" where
  "change_stream i f ss =
     (case stream_record ss i of
        Inl e \<Rightarrow> (ss, Inl e)
      | Inr (st, token) \<Rightarrow>
          (case f st token of
             Inl e \<Rightarrow> (ss, Inl e)
           | Inr st' \<Rightarrow> (dict_set i (st', token) ss, Inr st')))"

definition acknowledged :: "int \<Rightarrow> audio_stream_state \<Rightarrow> audio_stream_state result" where
  "acknowledged n st =
     raise_if (n < 0) (ValueError ''byte_count must be >= 0'')
     (raise_if (buffered_bytes st < n) (ValueError ''cannot acknowledge more bytes than are buffered'')
     (Inr (st\<lparr>buffered_bytes := buffered_bytes st - n\<rparr>)))"

definition acknowledge_processed :: "string \<Rightarrow> int \<Rightarrow> audio_streams
    \<Rightarrow> audio_streams \<times> audio_stream_state result" where
  "acknowledge_processed i n = change_stream i (\<lambda>st token. acknowledged n st)"

definition rotate_generation :: "string \<Rightarrow> int \<Rightarrow> audio_streams
    \<Rightarrow> audio_streams \<times> audio_stream_state result" where
  "rotate_generation i gen = change_stream i (\<lambda>st token.
     raise_if (stream_closed st) (AudioStreamClosedError (''audio stream '' @ i @ '' is closed''))
     (raise_if (gen \<le> stream_generation st)
       (AudioGenerationError (''new generation must be greater than '' @ show_int (stream_generation st)))
     (Inr (st\<lparr>stream_generation := gen, next_sequence := 0, buffered_bytes := 0\<rparr>))))"

text \<open>\<^verbatim>\<open>hmac.compare_digest\<close> refuses text that is not ASCII; tokens are.\<close>

definition reconnect_stream :: "string \<Rightarrow> string \<Rightarrow> string \<Rightarrow> int \<Rightarrow> int \<Rightarrow> audio_streams
    \<Rightarrow> audio_streams \<times> audio_stream_state result" where
  "reconnect_stream i sid given gen next = change_stream i (\<lambda>st token.
     raise_if (stream_closed st) (AudioStreamClosedError (''audio stream '' @ i @ '' is closed''))
     (raise_if (sid \<noteq> stream_session_id st)
       (AudioReconnectError ''audio stream does not belong to this session'')
     (raise_if (\<not> is_ascii given)
       (TypeError ''comparing strings with non-ASCII characters is not supported'')
     (raise_if (given \<noteq> token) (AudioReconnectError ''audio reconnect token is invalid'')
     (raise_if (gen \<noteq> stream_generation st)
       (AudioGenerationError (''expected generation '' @ show_int (stream_generation st) @ '', got ''
          @ show_int gen))
     (raise_if (next_sequence st < next)
       (AudioSequenceError (''client next_sequence '' @ show_int next
          @ '' is ahead of server next_sequence '' @ show_int (next_sequence st)))
     (Inr (st\<lparr>reconnect_count := reconnect_count st + 1\<rparr>))))))))"

definition close_stream :: "string \<Rightarrow> audio_streams \<Rightarrow> audio_streams \<times> audio_stream_state result" where
  "close_stream i = change_stream i (\<lambda>st token. Inr (st\<lparr>stream_closed := True, buffered_bytes := 0\<rparr>))"

section \<open>Chunks survive their encoding\<close>

lemma std_table:
  "map (\<lambda>c. std_value (std_char c)) b64_alphabet = map (\<lambda>n. Some (word_of_nat n)) [0..<64]"
  "list_all (\<lambda>c. std_char c \<noteq> CHR ''='') b64_alphabet"
  by code_simp+

lemma std_value_char:
  assumes "w < 64"
  shows "std_value (std_char (b64_char w)) = Some w" and "std_char (b64_char w) \<noteq> CHR ''=''"
proof -
  have n: "unat w < 64" using assms by (simp add: word_less_nat_alt)
  have "map (\<lambda>c. std_value (std_char c)) b64_alphabet ! unat w = map (\<lambda>n. Some (word_of_nat n)) [0..<64] ! unat w"
    by (simp only: std_table(1))
  with n show "std_value (std_char (b64_char w)) = Some w" by (simp add: b64_char_def b64_table(1))
  show "std_char (b64_char w) \<noteq> CHR ''=''"
    using std_table(2) n by (simp add: b64_char_def b64_table(1) list_all_length)
qed

lemmas std_chars = std_value_char [OF sextet_bounds(1)] std_value_char [OF sextet_bounds(2)]
  std_value_char [OF sextet_bounds(3)] std_value_char [OF sextet_bounds(4)]
  std_value_char [OF sextet_bounds(5)] std_value_char [OF sextet_bounds(6)]

lemma std_char_pad: "std_char (CHR ''='') = CHR ''=''"
  by (simp add: std_char_def)

lemma b64decode_b64encode: "b64decode_strict (b64encode bs) = Some bs"
  by (induction bs rule: urlsafe_b64encode.induct)
    (simp_all add: b64encode_def std_chars std_char_pad sextets del: push_bit_and)

lemma length_urlsafe_b64encode: "bs \<noteq> [] \<Longrightarrow> 4 \<le> length (urlsafe_b64encode bs)"
  by (induction bs rule: urlsafe_b64encode.induct) simp_all

lemma chunk_roundtrip:
  assumes "audio \<noteq> []" and "0 \<le> seq" and "0 \<le> gen"
  shows "\<exists>c. chunk_from_bytes seq gen audio = Inr c \<and> decode_chunk c = Inr audio
    \<and> chunk_sequence c = seq \<and> chunk_generation c = gen"
proof -
  have "4 \<le> length (b64encode audio)" using length_urlsafe_b64encode [OF assms(1)] by (simp add: b64encode_def)
  then show ?thesis
    using assms by (simp add: chunk_from_bytes_def AudioChunkMessage_def raise_if_def decode_chunk_def
        b64decode_b64encode)
qed

section \<open>Audio arrives in order\<close>

text \<open>The states that the manager can be in, with what it has passed on to the recogniser.\<close>

type_synonym audio_log = "(string \<times> audio_chunk \<times> bytes) list"

inductive streams_reach :: "audio_streams \<Rightarrow> audio_log \<Rightarrow> bool" where
  no_streams: "streams_reach [] []"
| opened: "streams_reach ss hist \<Longrightarrow> dict_get ss i = None \<Longrightarrow> AudioStreamConfig c = Inr c
     \<Longrightarrow> streams_reach (fst (open_stream i token sid gen c ss)) hist"
| passed_on: "streams_reach ss hist \<Longrightarrow> accept_chunk i c ss = (ss', Inr (r, Some audio))
     \<Longrightarrow> streams_reach ss' (hist @ [(i, c, audio)])"
| repeated: "streams_reach ss hist \<Longrightarrow> accept_chunk i c ss = (ss', Inr (r, None)) \<Longrightarrow> streams_reach ss' hist"
| refused: "streams_reach ss hist \<Longrightarrow> accept_chunk i c ss = (ss', Inl e) \<Longrightarrow> streams_reach ss' hist"
| acked: "streams_reach ss hist \<Longrightarrow> streams_reach (fst (acknowledge_processed i n ss)) hist"
| rotated: "streams_reach ss hist \<Longrightarrow> streams_reach (fst (rotate_generation i gen ss)) hist"
| rejoined: "streams_reach ss hist \<Longrightarrow> streams_reach (fst (reconnect_stream i sid given gen next ss)) hist"
| closed: "streams_reach ss hist \<Longrightarrow> streams_reach (fst (close_stream i ss)) hist"

definition heard :: "string \<Rightarrow> int \<Rightarrow> audio_log \<Rightarrow> audio_log" where
  "heard i g hist = filter (\<lambda>(j, c, audio). j = i \<and> chunk_generation c = g) hist"

definition in_order :: "int \<Rightarrow> audio_log \<Rightarrow> bool" where
  "in_order n hist \<longleftrightarrow> map (\<lambda>(j, c, audio). chunk_sequence c) hist = [0..n - 1]
     \<and> (\<forall>(j, c, audio)\<in>set hist. decode_chunk c = Inr audio \<and> audio \<noteq> [])"

text \<open>A stream against the history: the current generation is heard up to the next number, earlier
  ones up to some number, later ones not at all.\<close>

definition stream_ok :: "string \<Rightarrow> audio_stream_state \<Rightarrow> audio_log \<Rightarrow> bool" where
  "stream_ok i st hist \<longleftrightarrow> 0 \<le> next_sequence st \<and> 0 \<le> buffered_bytes st
     \<and> buffered_bytes st \<le> max_buffered_bytes (stream_config st)
     \<and> in_order (next_sequence st) (heard i (stream_generation st) hist)
     \<and> (\<forall>g. stream_generation st < g \<longrightarrow> heard i g hist = [])
     \<and> (\<forall>g. \<exists>n. in_order n (heard i g hist))"

definition streams_ok :: "audio_streams \<Rightarrow> audio_log \<Rightarrow> bool" where
  "streams_ok ss hist \<longleftrightarrow> (\<forall>i. case dict_get ss i of
      None \<Rightarrow> \<forall>g. heard i g hist = [] | Some (st, token) \<Rightarrow> stream_ok i st hist)"

lemma streams_okD:
  assumes "streams_ok ss hist"
  shows "dict_get ss i = None \<Longrightarrow> heard i g hist = []"
    and "dict_get ss i = Some (st, token) \<Longrightarrow> stream_ok i st hist"
proof -
  have i: "case dict_get ss i of None \<Rightarrow> \<forall>g. heard i g hist = [] | Some (st, token) \<Rightarrow> stream_ok i st hist"
    using assms unfolding streams_ok_def by (rule spec)
  then show "dict_get ss i = None \<Longrightarrow> heard i g hist = []"
    "dict_get ss i = Some (st, token) \<Longrightarrow> stream_ok i st hist" by simp_all
qed

lemma in_order_Nil: "in_order 0 []"
  by (simp add: in_order_def)

lemma heard_snoc: "heard j g (hist @ [(i, c, audio)])
    = heard j g hist @ (if i = j \<and> chunk_generation c = g then [(i, c, audio)] else [])"
  by (simp add: heard_def)

lemma in_order_snoc:
  assumes "in_order n hist" and "0 \<le> n" and "chunk_sequence c = n" and "decode_chunk c = Inr audio" and "audio \<noteq> []"
  shows "in_order (n + 1) (hist @ [(i, c, audio)])"
  using assms upto_rec2 [of 0 n] by (simp add: in_order_def)

lemma streams_ok_change:
  assumes "streams_ok ss hist" and "change_stream i f ss = (ss', r)"
    and "\<And>st token st'. stream_ok i st hist \<Longrightarrow> f st token = Inr st' \<Longrightarrow> stream_ok i st' hist"
  shows "streams_ok ss' hist"
proof (cases "dict_get ss i")
  case None
  then show ?thesis using assms(1,2) by (simp add: change_stream_def stream_record_def)
next
  case (Some p)
  obtain st token where p: "p = (st, token)" by (cases p)
  have st: "stream_ok i st hist" by (rule streams_okD(2) [OF assms(1)]) (simp add: Some p)
  show ?thesis
  proof (cases "f st token")
    case (Inl e)
    then show ?thesis using assms(1,2) Some p by (simp add: change_stream_def stream_record_def)
  next
    case (Inr st')
    then have "ss' = dict_set i (st', token) ss" using assms(2) Some p by (simp add: change_stream_def stream_record_def)
    then show ?thesis using assms(1) assms(3) [OF st Inr] by (simp add: streams_ok_def)
  qed
qed

lemma accept_chunk_Inr:
  assumes "accept_chunk i c ss = (ss', Inr (r, audio))"
  obtains st token st' where "dict_get ss i = Some (st, token)" and "accept_in_order i c st = Inr (st', r, audio)"
    and "ss' = dict_set i (st', token) ss"
  using assms by (auto simp: accept_chunk_def stream_record_def split: option.splits sum.splits)

lemma passed_on_ok:
  assumes "streams_ok ss hist" and "accept_chunk i c ss = (ss', Inr (r, Some audio))"
  shows "streams_ok ss' (hist @ [(i, c, audio)])"
proof -
  obtain st token st' where get: "dict_get ss i = Some (st, token)"
    and acc: "accept_in_order i c st = Inr (st', r, Some audio)" and ss': "ss' = dict_set i (st', token) ss"
    by (rule accept_chunk_Inr [OF assms(2)])
  have st: "stream_ok i st hist" by (rule streams_okD(2) [OF assms(1) get])
  have c: "chunk_generation c = stream_generation st" "chunk_sequence c = next_sequence st"
      "decode_chunk c = Inr audio" "audio \<noteq> []"
    and st': "st' = st\<lparr>buffered_bytes := buffered_bytes st + int (length audio),
      accepted_chunks := accepted_chunks st + 1, accepted_bytes := accepted_bytes st + int (length audio),
      next_sequence := next_sequence st + 1\<rparr>"
      "buffered_bytes st + int (length audio) \<le> max_buffered_bytes (stream_config st)"
    using acc by (auto simp: accept_in_order_def accept_audio_def Let_def exn_simps split: if_splits)
  have snoc: "in_order (next_sequence st + 1) (heard i (stream_generation st) hist @ [(i, c, audio)])"
    by (rule in_order_snoc) (use st c in \<open>simp_all add: stream_ok_def\<close>)
  have "stream_ok i st' (hist @ [(i, c, audio)])"
    using st snoc c(1) st'(2) unfolding stream_ok_def heard_snoc by (auto simp: st'(1))
  moreover have "stream_ok j s (hist @ [(i, c, audio)]) = stream_ok j s hist" if "j \<noteq> i" for j s
    using that by (simp add: stream_ok_def heard_snoc)
  moreover have "heard j g (hist @ [(i, c, audio)]) = heard j g hist" if "j \<noteq> i" for j g
    using that by (simp add: heard_snoc)
  ultimately show ?thesis
    using streams_okD [OF assms(1)] by (simp add: streams_ok_def ss' split: option.splits prod.splits)
qed

lemma streams_reach_ok: "streams_reach ss hist \<Longrightarrow> streams_ok ss hist"
proof (induction rule: streams_reach.induct)
  case no_streams
  then show ?case by (simp add: streams_ok_def heard_def)
next
  case (opened ss hist i c token sid gen)
  have empty: "heard i g hist = []" for g by (rule streams_okD(1) [OF opened.IH opened.hyps(2)])
  have "0 \<le> max_buffered_bytes c" using opened.hyps(3) by (simp add: AudioStreamConfig_def exn_simps)
  then have "stream_ok i (new_stream i sid gen c) hist"
    using in_order_Nil by (auto simp: stream_ok_def new_stream_def empty)
  then show ?case using opened.IH by (simp add: open_stream_def streams_ok_def)
next
  case (passed_on ss hist i c ss' r audio)
  then show ?case by (intro passed_on_ok)
next
  case (repeated ss hist i c ss' r)
  obtain st token st' where get: "dict_get ss i = Some (st, token)"
    and acc: "accept_in_order i c st = Inr (st', r, None)" and ss': "ss' = dict_set i (st', token) ss"
    by (rule accept_chunk_Inr [OF repeated.hyps(2)])
  have "stream_ok i st hist" by (rule streams_okD(2) [OF repeated.IH get])
  then have "stream_ok i st' hist"
    using acc by (auto simp: accept_in_order_def accept_audio_def Let_def exn_simps stream_ok_def split: if_splits)
  then show ?case using repeated.IH by (simp add: streams_ok_def ss')
next
  case (refused ss hist i c ss' e)
  then show ?case by (auto simp: accept_chunk_def split: sum.splits prod.splits)
next
  case (acked ss hist i n)
  show ?case unfolding acknowledge_processed_def
    by (rule streams_ok_change [OF acked.IH surjective_pairing]) (auto simp: acknowledged_def exn_simps stream_ok_def)
next
  case (rotated ss hist i gen)
  show ?case unfolding rotate_generation_def
    by (rule streams_ok_change [OF rotated.IH surjective_pairing])
      (auto simp: exn_simps stream_ok_def in_order_Nil)
next
  case (rejoined ss hist i sid given gen "next")
  show ?case unfolding reconnect_stream_def
    by (rule streams_ok_change [OF rejoined.IH surjective_pairing]) (auto simp: exn_simps stream_ok_def)
next
  case (closed ss hist i)
  show ?case unfolding close_stream_def
    by (rule streams_ok_change [OF closed.IH surjective_pairing]) (auto simp: stream_ok_def)
qed

end
