(* ===== verification/Voice_Bridges.thy ===== *)
theory Voice_Bridges
  imports Voice Audio_Streams Resilience
begin

text \<open>
  \<^verbatim>\<open>voice_stream_bridge.py\<close> and \<^verbatim>\<open>voice_output_bridge.py\<close> (with \<^verbatim>\<open>voice_output.py\<close>): audio from the
  candidate goes through the stream manager to a recogniser whose transcripts are voice
  operations; the interviewer's turns go to a synthesiser whose chunks are passed on as long as the
  voice session is at the generation and turn they are for. What the providers answer is an argument of each step, and so
  are the voice states that a step finds. The lemmas: a session has one output stream at most;
  and after a barge-in no chunk of the old generation is passed on.
\<close>

section \<open>The world of the bridges\<close>

record 'st voice_world =
  vw_store :: "'st \<times> challenges"
  vw_voice :: voice_states
  vw_audio :: audio_streams

text \<open>One voice operation.\<close>

definition voice_do :: "('st \<Rightarrow> string \<Rightarrow> interview_session option)
    \<Rightarrow> (interview_session \<Rightarrow> 'st \<Rightarrow> 'st result) \<Rightarrow> voice_env \<Rightarrow> string \<Rightarrow> voice_op
    \<Rightarrow> ('st, 'm) voice_world_scheme \<Rightarrow> ('st, 'm) voice_world_scheme \<times> voice_state result" where
  "voice_do get put X sid op w =
     (case voice_transact get put X sid op (fst (vw_store w), vw_voice w) of
        ((st, vs), r) \<Rightarrow> (w\<lparr>vw_store := (st, snd (vw_store w)), vw_voice := vs\<rparr>, r))"

text \<open>\<^verbatim>\<open>provider_failed\<close> in a \<^verbatim>\<open>try\<close> that swallows its exceptions.\<close>

definition report_failure :: "('st \<Rightarrow> string \<Rightarrow> interview_session option)
    \<Rightarrow> (interview_session \<Rightarrow> 'st \<Rightarrow> 'st result) \<Rightarrow> voice_env \<Rightarrow> string \<Rightarrow> string \<Rightarrow> string \<Rightarrow> exn
    \<Rightarrow> ('st, 'm) voice_world_scheme \<Rightarrow> ('st, 'm) voice_world_scheme" where
  "report_failure get put X sid direction provider e w =
     fst (voice_do get put X sid (ProviderFailed direction provider (exn_name e) (exn_str e)) w)"

definition server_transport :: "string \<Rightarrow> string \<Rightarrow> transport_selection result" where
  "server_transport direction provider =
     (let sel = \<lparr> sel_direction = direction, sel_transport = ''server'', sel_provider_id = Some provider,
            sel_reason = None \<rparr>
      in raise_if (\<not> transport_selection_ok sel) (ValidationError ''VoiceTransportSelectionEvent'') (Inr sel))"

section \<open>Speech to text\<close>

record recognition_event =
  rec_text :: string
  rec_is_final :: bool
  rec_confidence :: "rat option"

datatype bridge_event =
    PartialTranscript recognition_event voice_state
  | FinalTranscript recognition_event voice_turn_result
  | ProviderFailure string string
  | EndOfEvents

record stt_stream =
  stt_locale :: string
  stt_queue :: "bridge_event list"
  stt_vad :: "vad option"
  stt_committed :: bool

record 'st input_world = "'st voice_world" +
  iw_streams :: "(string, stt_stream) dict"

record stt_settings =
  stt_provider_id :: string
  stt_vad_config :: "vad_config option"
  stt_sqrt :: "rat \<Rightarrow> rat"

definition stream_bridge_init :: "int \<Rightarrow> int result" where
  "stream_bridge_init event_queue_size =
     raise_if (event_queue_size < 1) (ValueError ''event_queue_size must be >= 1'') (Inr event_queue_size)"

text \<open>Opening: the outcomes are those of opening the provider and of cancelling it; the two voice
  environments are those of the two operations. A failure of the second leaves the stream behind.\<close>

definition bridge_open :: "('st \<Rightarrow> string \<Rightarrow> interview_session option)
    \<Rightarrow> (interview_session \<Rightarrow> 'st \<Rightarrow> 'st result) \<Rightarrow> stt_settings \<Rightarrow> unit result \<Rightarrow> unit result
    \<Rightarrow> voice_env \<Rightarrow> voice_env \<Rightarrow> string \<Rightarrow> string \<Rightarrow> string \<Rightarrow> string \<Rightarrow> audio_stream_config
    \<Rightarrow> 'st input_world \<Rightarrow> 'st input_world \<times> (audio_stream_state \<times> string) result" where
  "bridge_open get put B opening cancelling X X2 i token sid loc c w =
     (case opening of
        Inl e \<Rightarrow> (w, Inl e)
      | Inr _ \<Rightarrow>
          (case voice_do get put X sid SpeechStarted w of
             (w1, Inl e) \<Rightarrow> (w1, Inl (case cancelling of Inl e' \<Rightarrow> e' | Inr _ \<Rightarrow> e))
           | (w1, Inr v) \<Rightarrow>
               (case open_stream i token sid (generation v) c (vw_audio w1) of
                  (ss, st) \<Rightarrow>
                    (case server_transport ''stt'' (stt_provider_id B) of
                       Inl e \<Rightarrow> (w1\<lparr>vw_audio := ss\<rparr>, Inl e)
                     | Inr sel \<Rightarrow>
                         (case voice_do get put X2 sid (TransportSelected sel) (w1\<lparr>vw_audio := ss\<rparr>) of
                            (w2, Inl e) \<Rightarrow> (w2, Inl e)
                          | (w2, Inr _) \<Rightarrow>
                              (w2\<lparr>iw_streams := dict_set i \<lparr> stt_locale = loc, stt_queue = [],
                                 stt_vad = (if stt_vad_config B \<noteq> None \<and> encoding c = PCM16
                                            then Some vad_reset else None),
                                 stt_committed = False \<rparr> (iw_streams w2)\<rparr>, Inr (st, token)))))))"

definition enqueue :: "string \<Rightarrow> bridge_event list \<Rightarrow> 'st input_world \<Rightarrow> 'st input_world" where
  "enqueue i items w = (case dict_get (iw_streams w) i of
      None \<Rightarrow> w
    | Some r \<Rightarrow> w\<lparr>iw_streams := dict_set i (r\<lparr>stt_queue := stt_queue r @ items\<rparr>) (iw_streams w)\<rparr>)"

definition plain_transcript :: "recognition_event \<Rightarrow> transcript_event result" where
  "plain_transcript ev =
     (let tr = \<lparr> tre_text = rec_text ev, tre_confidence = rec_confidence ev, tre_locale = None,
            tre_dialect = None, tre_packs = [], tre_reference_text = None, tre_critical_terms = [] \<rparr>
      in raise_if (\<not> transcript_event_ok tr) (ValidationError ''TranscriptEvent'') (Inr tr))"

text \<open>One event of the provider in \<^verbatim>\<open>_pump_provider\<close>: the world, and the event to put in the queue; no
  event if the stream is closed or at another generation.\<close>

definition pump_event :: "('st \<Rightarrow> string \<Rightarrow> interview_session option)
    \<Rightarrow> ('st \<Rightarrow> string \<Rightarrow> job_spec option) \<Rightarrow> (interview_session \<Rightarrow> 'st \<Rightarrow> 'st result)
    \<Rightarrow> service_config \<Rightarrow> voice_env \<Rightarrow> env \<Rightarrow> string \<Rightarrow> int \<Rightarrow> recognition_event
    \<Rightarrow> 'st input_world \<Rightarrow> 'st input_world \<times> bridge_event option result" where
  "pump_event get get_job put C X E i gen ev w =
     (case stream_record (vw_audio w) i of
        Inl e \<Rightarrow> (w, Inl e)
      | Inr (current, token) \<Rightarrow>
          if stream_closed current \<or> stream_generation current \<noteq> gen then (w, Inr None)
          else (case plain_transcript ev of
             Inl e \<Rightarrow> (w, Inl e)
           | Inr tr \<Rightarrow>
               if rec_is_final ev
               then (case transcript_final get get_job put C X E (stream_session_id current) tr
                       (vw_store w, vw_voice w) of
                       ((stp, vs), r) \<Rightarrow> (w\<lparr>vw_store := stp, vw_voice := vs\<rparr>,
                          map_sum id (\<lambda>res. Some (FinalTranscript ev res)) r))
               else (case voice_do get put X (stream_session_id current) (TranscriptPartial tr) w of
                       (w1, r) \<Rightarrow> (w1, map_sum id (\<lambda>v. Some (PartialTranscript ev v)) r))))"

text \<open>The exception handler of the pump, and its end.\<close>

definition pump_failed :: "('st \<Rightarrow> string \<Rightarrow> interview_session option)
    \<Rightarrow> (interview_session \<Rightarrow> 'st \<Rightarrow> 'st result) \<Rightarrow> stt_settings \<Rightarrow> voice_env \<Rightarrow> string \<Rightarrow> exn
    \<Rightarrow> 'st input_world \<Rightarrow> 'st input_world" where
  "pump_failed get put B X i e w =
     (let w1 = (case stream_record (vw_audio w) i of
            Inl _ \<Rightarrow> w
          | Inr (st, token) \<Rightarrow> report_failure get put X (stream_session_id st) ''stt'' (stt_provider_id B) e w)
      in enqueue i [ProviderFailure (exn_name e) (take 1000 (exn_str e)), EndOfEvents] w1)"

text \<open>The pump over the events of the provider, each with the environments of its operations, and
  then the provider's exception, if it ends with one.\<close>

fun pump_provider :: "('st \<Rightarrow> string \<Rightarrow> interview_session option)
    \<Rightarrow> ('st \<Rightarrow> string \<Rightarrow> job_spec option) \<Rightarrow> (interview_session \<Rightarrow> 'st \<Rightarrow> 'st result)
    \<Rightarrow> service_config \<Rightarrow> stt_settings \<Rightarrow> voice_env \<Rightarrow> string \<Rightarrow> int
    \<Rightarrow> (voice_env \<times> env \<times> recognition_event) list \<Rightarrow> exn option \<Rightarrow> 'st input_world \<Rightarrow> 'st input_world" where
  "pump_provider get get_job put C B Xf i gen [] failure w =
     (case failure of None \<Rightarrow> enqueue i [EndOfEvents] w | Some e \<Rightarrow> pump_failed get put B Xf i e w)"
| "pump_provider get get_job put C B Xf i gen ((X, E, ev) # evs) failure w =
     (case pump_event get get_job put C X E i gen ev w of
        (w1, Inl e) \<Rightarrow> pump_failed get put B Xf i e w1
      | (w1, Inr None) \<Rightarrow> enqueue i [EndOfEvents] w1
      | (w1, Inr (Some item)) \<Rightarrow>
          if rec_is_final ev then enqueue i [item, EndOfEvents] w1
          else pump_provider get get_job put C B Xf i gen evs failure (enqueue i [item] w1))"

definition stt_record :: "'st input_world \<Rightarrow> string \<Rightarrow> stt_stream result" where
  "stt_record w i = (case dict_get (iw_streams w) i of
      Some r \<Rightarrow> Inr r
    | None \<Rightarrow> Inl (OtherError ''RuntimeError'' (''no STT provider session for audio stream '' @ i)))"

definition acknowledge_in :: "string \<Rightarrow> int \<Rightarrow> 'st input_world
    \<Rightarrow> 'st input_world \<times> audio_stream_state result" where
  "acknowledge_in i n w = (case acknowledge_processed i n (vw_audio w) of
      (ss, r) \<Rightarrow> (w\<lparr>vw_audio := ss\<rparr>, r))"

text \<open>\<^verbatim>\<open>push_chunk\<close>, given what the provider does with the audio. The bytes are acknowledged in a
  \<^verbatim>\<open>finally\<close>, whose own exception replaces the provider's.\<close>

definition push_chunk :: "('st \<Rightarrow> string \<Rightarrow> interview_session option)
    \<Rightarrow> (interview_session \<Rightarrow> 'st \<Rightarrow> 'st result) \<Rightarrow> stt_settings \<Rightarrow> unit result \<Rightarrow> voice_env
    \<Rightarrow> string \<Rightarrow> audio_chunk \<Rightarrow> 'st input_world
    \<Rightarrow> 'st input_world \<times> (audio_chunk_result \<times> vad_observation option) result" where
  "push_chunk get put B pushing X i c w =
     (case accept_chunk i c (vw_audio w) of
        (ss, Inl e) \<Rightarrow> (w\<lparr>vw_audio := ss\<rparr>, Inl e)
      | (ss, Inr (res, audio)) \<Rightarrow>
          (let w1 = w\<lparr>vw_audio := ss\<rparr>
           in case stt_record w1 i of
             Inl e \<Rightarrow> (w1, Inl e)
           | Inr r \<Rightarrow>
               (case audio of
                  None \<Rightarrow> (w1, Inr (res, None))
                | Some bytes \<Rightarrow>
                    if stt_committed r
                    then (case acknowledge_in i (int (length bytes)) w1 of
                       (w2, Inl e) \<Rightarrow> (w2, Inl e)
                     | (w2, Inr st) \<Rightarrow> (w2, Inr (res\<lparr>acr_buffered_bytes := buffered_bytes st\<rparr>, None)))
                    else (case pushing of
                       Inl e \<Rightarrow>
                         (let w2 = (case stream_record (vw_audio w1) i of
                                Inl _ \<Rightarrow> w1
                              | Inr (st, token) \<Rightarrow>
                                  report_failure get put X (stream_session_id st) ''stt'' (stt_provider_id B) e w1)
                          in case acknowledge_in i (int (length bytes)) w2 of
                               (w3, Inl e') \<Rightarrow> (w3, Inl e')
                             | (w3, Inr _) \<Rightarrow> (w3, Inl e))
                     | Inr _ \<Rightarrow>
                         (case acknowledge_in i (int (length bytes)) w1 of
                            (w2, Inl e) \<Rightarrow> (w2, Inl e)
                          | (w2, Inr st) \<Rightarrow>
                              (case (stt_vad r, stt_vad_config B) of
                                 (Some v, Some cfg) \<Rightarrow>
                                   (case vad_observe (stt_sqrt B) cfg bytes (sample_rate_hz (stream_config st))
                                           (nat (channels (stream_config st))) v of
                                      (v', obs) \<Rightarrow>
                                        (w2\<lparr>iw_streams := dict_set i (r\<lparr>stt_vad := Some v'\<rparr>) (iw_streams w2)\<rparr>,
                                         ebind obs (\<lambda>ob. Inr (res\<lparr>acr_buffered_bytes := buffered_bytes st\<rparr>,
                                           Some ob))))
                               | _ \<Rightarrow> (w2, Inr (res\<lparr>acr_buffered_bytes := buffered_bytes st\<rparr>, None))))))))"

text \<open>\<^verbatim>\<open>commit\<close>: the report of a failure is in a \<^verbatim>\<open>try\<close> whose \<^verbatim>\<open>finally\<close> raises what is being handled.\<close>

definition commit_stream :: "('st \<Rightarrow> string \<Rightarrow> interview_session option)
    \<Rightarrow> (interview_session \<Rightarrow> 'st \<Rightarrow> 'st result) \<Rightarrow> stt_settings \<Rightarrow> unit result \<Rightarrow> voice_env \<Rightarrow> string
    \<Rightarrow> 'st input_world \<Rightarrow> 'st input_world \<times> unit result" where
  "commit_stream get put B committing X i w =
     (case stt_record w i of
        Inl e \<Rightarrow> (w, Inl e)
      | Inr r \<Rightarrow>
          if stt_committed r then (w, Inr ())
          else (case committing of
             Inr _ \<Rightarrow> (w\<lparr>iw_streams := dict_set i (r\<lparr>stt_committed := True\<rparr>) (iw_streams w)\<rparr>, Inr ())
           | Inl e \<Rightarrow>
               (case stream_record (vw_audio w) i of
                  Inl e' \<Rightarrow> (w, Inl e')
                | Inr (st, token) \<Rightarrow>
                    (case voice_do get put X (stream_session_id st)
                            (ProviderFailed ''stt'' (stt_provider_id B) (exn_name e) (exn_str e)) w of
                       (w1, Inl e') \<Rightarrow> (w1, Inl e')
                     | (w1, Inr _) \<Rightarrow> (w1, Inl e)))))"

text \<open>The next event: \<open>None\<close> if the queue is empty, where the program waits.\<close>

definition next_event :: "string \<Rightarrow> 'st input_world
    \<Rightarrow> ('st input_world \<times> bridge_event option) result option" where
  "next_event i w =
     (case stt_record w i of
        Inl e \<Rightarrow> Some (Inl e)
      | Inr r \<Rightarrow>
          (case stt_queue r of
             [] \<Rightarrow> None
           | item # items \<Rightarrow> Some (Inr (w\<lparr>iw_streams := dict_set i (r\<lparr>stt_queue := items\<rparr>) (iw_streams w)\<rparr>,
               if item = EndOfEvents then None else Some item))))"

definition bridge_reconnect :: "string \<Rightarrow> string \<Rightarrow> string \<Rightarrow> int \<Rightarrow> int \<Rightarrow> 'st input_world
    \<Rightarrow> 'st input_world \<times> voice_state result" where
  "bridge_reconnect i sid token gen next w =
     (case reconnect_stream i sid token gen next (vw_audio w) of
        (ss, r) \<Rightarrow>
          (let w1 = w\<lparr>vw_audio := ss\<rparr>
           in case r of
             Inl e \<Rightarrow> (w1, Inl e)
           | Inr st \<Rightarrow>
               (case stt_record w1 i of
                  Inl e \<Rightarrow> (w1, Inl e)
                | Inr _ \<Rightarrow>
                    (w1\<lparr>vw_voice := dict_setdefault (stream_session_id st)
                        (new_voice_state (stream_session_id st)) (vw_voice w1)\<rparr>,
                     Inr (state_ref (vw_voice w1) (stream_session_id st))))))"

definition bridge_close :: "unit result \<Rightarrow> string \<Rightarrow> 'st input_world \<Rightarrow> 'st input_world \<times> unit result" where
  "bridge_close closing i w =
     (case close_stream i (vw_audio w) of
        (ss, Inl e) \<Rightarrow> (w\<lparr>vw_audio := ss\<rparr>, Inl e)
      | (ss, Inr _) \<Rightarrow>
          (let w1 = w\<lparr>vw_audio := ss, iw_streams := dict_del i (iw_streams w)\<rparr>
           in if dict_get (iw_streams w) i = None then (w1, Inr ()) else (w1, closing)))"

section \<open>Text to speech\<close>

datatype tts_encoding = TtsPCM16 | TtsMP3 | TtsOPUS

record tts_audio_config =
  tts_encoding_of :: tts_encoding
  tts_sample_rate_hz :: int
  tts_channels :: int

definition TtsAudioConfig :: "tts_audio_config \<Rightarrow> tts_audio_config result" where
  "TtsAudioConfig c = raise_if (\<not> (8000 \<le> tts_sample_rate_hz c \<and> tts_sample_rate_hz c \<le> 96000
       \<and> 1 \<le> tts_channels c \<and> tts_channels c \<le> 2)) (ValidationError ''TtsAudioConfig'') (Inr c)"

record tts_chunk =
  tts_sequence :: int
  tts_chunk_generation :: int
  tts_audio :: bytes

record tts_stream =
  tts_stream_id :: string
  tts_session_id :: string
  tts_turn_id :: string
  tts_generation :: int
  tts_config :: tts_audio_config
  tts_closed :: bool
  tts_cancelled :: bool
  chunks_sent :: int
  bytes_sent :: int

definition TtsStreamNotFoundError :: "string \<Rightarrow> exn" where
  "TtsStreamNotFoundError m = OtherError ''TtsStreamNotFoundError'' m"

definition TtsStreamConflictError :: "string \<Rightarrow> exn" where
  "TtsStreamConflictError m = OtherError ''TtsStreamConflictError'' m"

record 'st output_world = "'st voice_world" +
  ow_streams :: "(string, tts_stream) dict"
  ow_active :: "(string, string) dict"
  ow_opening :: "string list"

definition interviewer_turn :: "interview_session \<Rightarrow> string \<Rightarrow> turn result" where
  "interviewer_turn s tid = (case find (\<lambda>t. turn_id t = tid) (turns s) of
      None \<Rightarrow> Inl (http 404 ''Interviewer turn not found'')
    | Some t \<Rightarrow> raise_if (speaker t \<noteq> INTERVIEWER)
        (http 400 ''Streaming TTS requires an interviewer turn'') (Inr t))"

text \<open>Claiming the session, before the provider is asked.\<close>

definition claim_output :: "string \<Rightarrow> 'st output_world \<Rightarrow> 'st output_world result" where
  "claim_output sid w =
     raise_if (dict_get (ow_active w) sid \<noteq> None \<or> sid \<in> set (ow_opening w))
       (TtsStreamConflictError ''session already has an active TTS stream'')
     (Inr (w\<lparr>ow_opening := List.insert sid (ow_opening w)\<rparr>))"

text \<open>After the claim: synthesis, the two voice operations, the new stream. The result says whether
  the provider has to be cancelled.\<close>

definition open_claimed :: "('st \<Rightarrow> string \<Rightarrow> interview_session option)
    \<Rightarrow> (interview_session \<Rightarrow> 'st \<Rightarrow> 'st result) \<Rightarrow> string \<Rightarrow> unit result \<Rightarrow> voice_env \<Rightarrow> voice_env
    \<Rightarrow> string \<Rightarrow> string \<Rightarrow> turn \<Rightarrow> tts_audio_config \<Rightarrow> 'st output_world
    \<Rightarrow> 'st output_world \<times> (bool \<times> exn + tts_stream)" where
  "open_claimed get put provider synthesizing X X2 i sid t c w =
     (let gen = generation (state_ref (vw_voice w) sid)
      in case synthesizing of
        Inl e \<Rightarrow> (if exn_name e = ''ProviderCircuitOpenError'' then w
                   else report_failure get put X sid ''tts'' provider e w, Inl (False, e))
      | Inr _ \<Rightarrow>
          (case voice_do get put X sid (TtsStarted (turn_id t)) w of
             (w1, Inl e) \<Rightarrow> (w1, Inl (True, e))
           | (w1, Inr _) \<Rightarrow>
               (case server_transport ''tts'' provider of
                  Inl e \<Rightarrow> (w1, Inl (True, e))
                | Inr sel \<Rightarrow>
                    (case voice_do get put X2 sid (TransportSelected sel) w1 of
                       (w2, Inl e) \<Rightarrow> (w2, Inl (True, e))
                     | (w2, Inr _) \<Rightarrow>
                         (let st = \<lparr> tts_stream_id = i, tts_session_id = sid, tts_turn_id = turn_id t,
                                tts_generation = gen, tts_config = c, tts_closed = False,
                                tts_cancelled = False, chunks_sent = 0, bytes_sent = 0 \<rparr>
                          in (w2\<lparr>ow_streams := dict_set i st (ow_streams w2),
                                ow_active := dict_set sid i (ow_active w2)\<rparr>, Inr st))))))"

definition output_open :: "('st \<Rightarrow> string \<Rightarrow> interview_session option)
    \<Rightarrow> (interview_session \<Rightarrow> 'st \<Rightarrow> 'st result) \<Rightarrow> string \<Rightarrow> unit result \<Rightarrow> unit result \<Rightarrow> voice_env
    \<Rightarrow> voice_env \<Rightarrow> string \<Rightarrow> string \<Rightarrow> string \<Rightarrow> tts_audio_config \<Rightarrow> 'st output_world
    \<Rightarrow> 'st output_world \<times> tts_stream result" where
  "output_open get put provider synthesizing cancelling X X2 i sid tid c w =
     (case ebind (load_session get sid (fst (vw_store w))) (\<lambda>s. ebind (interviewer_turn s tid) (\<lambda>t.
            ebind (claim_output sid w) (\<lambda>w1. Inr (t, w1)))) of
        Inl e \<Rightarrow> (w, Inl e)
      | Inr (t, w1) \<Rightarrow>
          (case open_claimed get put provider synthesizing X X2 i sid t c w1 of
             (w2, r) \<Rightarrow> (w2\<lparr>ow_opening := removeAll sid (ow_opening w2)\<rparr>,
               case r of
                 Inr st \<Rightarrow> Inr st
               | Inl (opened, e) \<Rightarrow> Inl (case cancelling of Inl e' \<Rightarrow> if opened then e' else e | Inr _ \<Rightarrow> e))))"

text \<open>One chunk of the provider, against the voice states as they are when it comes.\<close>

datatype chunk_outcome = YieldChunk tts_chunk | ChunkStale exn | ChunkStopped

definition current_for :: "voice_states \<Rightarrow> tts_stream \<Rightarrow> bool" where
  "current_for vs st = (generation (state_ref vs (tts_session_id st)) = tts_generation st
     \<and> active_tts_turn_id (state_ref vs (tts_session_id st)) = Some (tts_turn_id st))"

definition chunk_step :: "voice_states \<Rightarrow> tts_chunk \<Rightarrow> tts_stream \<Rightarrow> tts_stream \<times> chunk_outcome" where
  "chunk_step vs ch st =
     (if tts_chunk_generation ch \<noteq> tts_generation st
      then (st, ChunkStale (OtherError ''RuntimeError'' ''TTS provider emitted a stale generation''))
      else if \<not> current_for vs st then (st\<lparr>tts_cancelled := True\<rparr>, ChunkStopped)
      else (st\<lparr>chunks_sent := chunks_sent st + 1, bytes_sent := bytes_sent st + int (length (tts_audio ch))\<rparr>,
            YieldChunk ch))"

text \<open>How the loop over the chunks ends: stopped, by an exception, or with the provider's stream.\<close>

datatype chunks_end = EndStopped | EndFailed exn | EndNormal

fun chunk_loop :: "(voice_states \<times> tts_chunk) list \<Rightarrow> exn option \<Rightarrow> tts_stream
    \<Rightarrow> tts_stream \<times> tts_chunk list \<times> chunks_end" where
  "chunk_loop [] failure st = (st, [], case failure of None \<Rightarrow> EndNormal | Some e \<Rightarrow> EndFailed e)"
| "chunk_loop ((vs, ch) # rest) failure st =
     (case chunk_step vs ch st of
        (st1, ChunkStale e) \<Rightarrow> (st1, [], EndFailed e)
      | (st1, ChunkStopped) \<Rightarrow> (st1, [], EndStopped)
      | (st1, YieldChunk c) \<Rightarrow>
          (case chunk_loop rest failure st1 of (st2, sent, why) \<Rightarrow> (st2, c # sent, why)))"

definition release_stream :: "tts_stream \<Rightarrow> 'st output_world \<Rightarrow> 'st output_world" where
  "release_stream st w = w\<lparr>ow_streams := dict_del (tts_stream_id st) (ow_streams w),
     ow_active := (if dict_get (ow_active w) (tts_session_id st) = Some (tts_stream_id st)
                   then dict_del (tts_session_id st) (ow_active w) else ow_active w)\<rparr>"

text \<open>\<^verbatim>\<open>_mark_cancelled\<close>: cancelling the provider, and in a \<^verbatim>\<open>finally\<close> the voice event.\<close>

definition mark_cancelled :: "('st \<Rightarrow> string \<Rightarrow> interview_session option)
    \<Rightarrow> (interview_session \<Rightarrow> 'st \<Rightarrow> 'st result) \<Rightarrow> unit result \<Rightarrow> voice_env \<Rightarrow> string \<Rightarrow> tts_stream
    \<Rightarrow> 'st output_world \<Rightarrow> 'st output_world \<times> tts_stream \<times> unit result" where
  "mark_cancelled get put cancelling X reason st w =
     (if tts_cancelled st then (w, st, Inr ())
      else let st1 = st\<lparr>tts_cancelled := True\<rparr>
           in if active_tts_turn_id (state_ref (vw_voice w) (tts_session_id st)) = Some (tts_turn_id st)
              then (case voice_do get put X (tts_session_id st) (TtsCancelled (tts_turn_id st) reason) w of
                      (w1, Inl e) \<Rightarrow> (w1, st1, Inl e)
                    | (w1, Inr _) \<Rightarrow> (w1, st1, cancelling))
              else (w, st1, cancelling))"

text \<open>\<^verbatim>\<open>chunks\<close>, to its end: what was passed on, and the exception, if any. The environments are those
  of the report and of the voice event.\<close>

definition output_chunks :: "('st \<Rightarrow> string \<Rightarrow> interview_session option)
    \<Rightarrow> (interview_session \<Rightarrow> 'st \<Rightarrow> 'st result) \<Rightarrow> string \<Rightarrow> unit result \<Rightarrow> voice_env \<Rightarrow> voice_env
    \<Rightarrow> tts_stream \<Rightarrow> (voice_states \<times> tts_chunk) list \<Rightarrow> exn option \<Rightarrow> 'st output_world
    \<Rightarrow> 'st output_world \<times> tts_chunk list \<times> unit result" where
  "output_chunks get put provider cancelling X X2 st chunks failure w =
     (case chunk_loop chunks failure st of
        (st1, sent, EndStopped) \<Rightarrow> (release_stream st1 w, sent, cancelling)
      | (st1, sent, EndNormal) \<Rightarrow>
          (if current_for (vw_voice w) st1
           then case voice_do get put X (tts_session_id st1) (TtsCompleted (tts_turn_id st1)) w of
                  (w1, Inl e) \<Rightarrow> (w1, sent, Inl e)
                | (w1, Inr _) \<Rightarrow> (release_stream st1 w1, sent, Inr ())
           else (release_stream st1 w, sent, Inr ()))
      | (st1, sent, EndFailed e) \<Rightarrow>
          (let w1 = (if exn_name e = ''ProviderCircuitOpenError'' then w
                     else report_failure get put X (tts_session_id st1) ''tts'' provider e w)
           in case mark_cancelled get put cancelling X2 ''tts_provider_failure'' st1 w1 of
                (w2, st2, Inl e') \<Rightarrow> (release_stream st2 w2, sent, Inl e')
              | (w2, st2, Inr _) \<Rightarrow> (release_stream st2 w2, sent, Inl e)))"

text \<open>Closing a stream. If that fails, the stream stays, marked.\<close>

definition close_output :: "('st \<Rightarrow> string \<Rightarrow> interview_session option)
    \<Rightarrow> (interview_session \<Rightarrow> 'st \<Rightarrow> 'st result) \<Rightarrow> unit result \<Rightarrow> voice_env \<Rightarrow> string \<Rightarrow> tts_stream
    \<Rightarrow> 'st output_world \<Rightarrow> 'st output_world \<times> unit result" where
  "close_output get put cancelling X reason st w =
     (case mark_cancelled get put cancelling X reason st w of
        (w1, st1, Inl e) \<Rightarrow> (w1\<lparr>ow_streams := dict_set (tts_stream_id st1) st1 (ow_streams w1)\<rparr>, Inl e)
      | (w1, st1, Inr _) \<Rightarrow> (release_stream st1 w1, Inr ()))"

definition cancel_active :: "('st \<Rightarrow> string \<Rightarrow> interview_session option)
    \<Rightarrow> (interview_session \<Rightarrow> 'st \<Rightarrow> 'st result) \<Rightarrow> unit result \<Rightarrow> voice_env \<Rightarrow> string \<Rightarrow> string
    \<Rightarrow> 'st output_world \<Rightarrow> 'st output_world \<times> bool result" where
  "cancel_active get put cancelling X sid reason w =
     (case Option.bind (dict_get (ow_active w) sid) (dict_get (ow_streams w)) of
        None \<Rightarrow> (w, Inr False)
      | Some st \<Rightarrow> (case close_output get put cancelling X reason st w of
            (w1, r) \<Rightarrow> (w1, map_sum id (\<lambda>_. True) r)))"

definition output_close :: "('st \<Rightarrow> string \<Rightarrow> interview_session option)
    \<Rightarrow> (interview_session \<Rightarrow> 'st \<Rightarrow> 'st result) \<Rightarrow> unit result \<Rightarrow> voice_env \<Rightarrow> string \<Rightarrow> string
    \<Rightarrow> 'st output_world \<Rightarrow> 'st output_world \<times> unit result" where
  "output_close get put cancelling X i reason w =
     (case dict_get (ow_streams w) i of
        None \<Rightarrow> (w, Inl (TtsStreamNotFoundError (''unknown TTS stream '' @ i)))
      | Some st \<Rightarrow> close_output get put cancelling X reason st w)"

section \<open>What is passed on\<close>

text \<open>A chunk is passed on only while the voice session is at the stream's generation and turn.\<close>

lemma chunk_loop_current:
  "chunk_loop chunks failure st = (st', sent, why) \<Longrightarrow>
     \<exists>n. sent = map snd (take n chunks) \<and> n \<le> length chunks
       \<and> (\<forall>(vs, ch)\<in>set (take n chunks). current_for vs st \<and> tts_chunk_generation ch = tts_generation st)
       \<and> chunks_sent st' = chunks_sent st + int n \<and> tts_session_id st' = tts_session_id st
       \<and> tts_stream_id st' = tts_stream_id st \<and> tts_generation st' = tts_generation st
       \<and> tts_turn_id st' = tts_turn_id st"
proof (induction chunks failure st arbitrary: st' sent why rule: chunk_loop.induct)
  case (2 vs ch rest failure st)
  show ?case
  proof (cases "tts_chunk_generation ch = tts_generation st \<and> current_for vs st")
    case True
    let ?st = "st\<lparr>chunks_sent := chunks_sent st + 1, bytes_sent := bytes_sent st + int (length (tts_audio ch))\<rparr>"
    have step: "chunk_step vs ch st = (?st, YieldChunk ch)" using True by (simp add: chunk_step_def)
    obtain sent' where run: "chunk_loop rest failure ?st = (st', sent', why)" and sent: "sent = ch # sent'"
      using "2.prems" by (auto simp: step split: prod.splits)
    have same: "current_for vs' ?st = current_for vs' st" for vs' by (simp add: current_for_def)
    obtain n where "sent' = map snd (take n rest)" "n \<le> length rest"
      "\<forall>(vs, ch)\<in>set (take n rest). current_for vs st \<and> tts_chunk_generation ch = tts_generation st"
      "chunks_sent st' = chunks_sent st + 1 + int n" "tts_session_id st' = tts_session_id st"
      "tts_stream_id st' = tts_stream_id st" "tts_generation st' = tts_generation st"
      "tts_turn_id st' = tts_turn_id st"
      using "2.IH" [OF step [symmetric] refl run] unfolding same by auto
    then show ?thesis using True sent by (intro exI [of _ "Suc n"]) auto
  next
    case False
    then show ?thesis using "2.prems"
      by (intro exI [of _ 0]) (auto simp: chunk_step_def split: if_splits)
  qed
qed auto

text \<open>Once the generation of the session has gone past the stream's, nothing more is passed on.\<close>

lemma nothing_after_barge_in:
  assumes "chunk_loop (before @ after) failure st = (st', sent, why)"
    and "\<forall>(vs, ch)\<in>set after. tts_generation st < generation (state_ref vs (tts_session_id st))"
  shows "\<exists>n \<le> length before. sent = map snd (take n before)"
proof -
  obtain n where n: "sent = map snd (take n (before @ after))" "n \<le> length (before @ after)"
    "\<forall>(vs, ch)\<in>set (take n (before @ after)). current_for vs st"
    using chunk_loop_current [OF assms(1)] by auto
  have "n \<le> length before"
  proof (rule ccontr)
    assume "\<not> n \<le> length before"
    then obtain k where "n - length before = Suc k" by (cases "n - length before") auto
    moreover obtain p ps where "after = p # ps"
      using \<open>\<not> n \<le> length before\<close> n(2) by (cases after) auto
    ultimately have "p \<in> set (take n (before @ after))" "p \<in> set after" by simp_all
    moreover obtain vs ch where p: "p = (vs, ch)" by (cases p)
    ultimately have "current_for vs st" "tts_generation st < generation (state_ref vs (tts_session_id st))"
      using bspec [OF n(3), of p] bspec [OF assms(2), of p] by auto
    then show False by (simp add: current_for_def)
  qed
  then show ?thesis using n(1) by auto
qed

text \<open>A barge-in is such a moment, from then on.\<close>

lemma speech_started_barge_in:
  assumes "voice_transact get put X sid SpeechStarted (st, vs) = ((st', vs'), Inr v)"
    and "phase (state_ref vs sid) = SPEAKING"
  shows "generation (state_ref vs' sid) = generation (state_ref vs sid) + 1"
    and "active_tts_turn_id (state_ref vs' sid) = None" and "phase (state_ref vs' sid) = LISTENING"
    and "interruption_count (state_ref vs' sid) = interruption_count (state_ref vs sid) + 1"
  using assms
  by (auto simp: voice_transact_def voice_op_step_def voice_op_end_def speech_started_step_def
      ensure_input_allowed_def Let_def voice_log_def state_ref_set
      split: sum.splits if_splits option.splits)

section \<open>One output stream for a session\<close>

text \<open>The active stream of a session is one of its streams, and no other stream of it is held.\<close>

definition output_ok :: "'st output_world \<Rightarrow> bool" where
  "output_ok w \<longleftrightarrow>
     (\<forall>sid i. dict_get (ow_active w) sid = Some i \<longrightarrow>
        (\<exists>st. dict_get (ow_streams w) i = Some st \<and> tts_session_id st = sid))
   \<and> (\<forall>i st. dict_get (ow_streams w) i = Some st \<longrightarrow>
        tts_stream_id st = i \<and> dict_get (ow_active w) (tts_session_id st) = Some i)"

lemma output_okD:
  assumes "output_ok w"
  shows "dict_get (ow_active w) sid = Some i \<Longrightarrow> \<exists>st. dict_get (ow_streams w) i = Some st \<and> tts_session_id st = sid"
    and "dict_get (ow_streams w) i = Some st \<Longrightarrow> tts_stream_id st = i"
    and "dict_get (ow_streams w) i = Some st \<Longrightarrow> dict_get (ow_active w) (tts_session_id st) = Some i"
  using assms unfolding output_ok_def by blast+

lemma voice_do_frame:
  "voice_do get put X sid op w = (w', r) \<Longrightarrow> ow_streams w' = ow_streams w \<and> ow_active w' = ow_active w
     \<and> ow_opening w' = ow_opening w"
  by (auto simp: voice_do_def split: prod.splits)

lemma report_failure_frame [simp]:
  "ow_streams (report_failure get put X sid d p e w) = ow_streams w"
  "ow_active (report_failure get put X sid d p e w) = ow_active w"
  by (auto simp: report_failure_def voice_do_def split: prod.splits)

lemma output_ok_frame: "ow_streams w' = ow_streams w \<Longrightarrow> ow_active w' = ow_active w \<Longrightarrow> output_ok w' = output_ok w"
  by (simp add: output_ok_def)

lemma output_ok_release: "output_ok w \<Longrightarrow> dict_get (ow_streams w) (tts_stream_id st) = Some st0
    \<Longrightarrow> tts_session_id st0 = tts_session_id st \<Longrightarrow> output_ok (release_stream st w)"
proof -
  assume ok: "output_ok w" and st: "dict_get (ow_streams w) (tts_stream_id st) = Some st0"
    "tts_session_id st0 = tts_session_id st"
  have act: "dict_get (ow_active w) (tts_session_id st) = Some (tts_stream_id st)"
    using output_okD(3) [OF ok st(1)] st(2) by simp
  have one: "tts_session_id st' = sid" if a: "dict_get (ow_active w) sid = Some i" and b: "dict_get (ow_streams w) i = Some st'"
    for sid i st'
  proof -
    obtain st2 where "dict_get (ow_streams w) i = Some st2" "tts_session_id st2 = sid"
      using output_okD(1) [OF ok a] by blast
    then show ?thesis using b by simp
  qed
  show ?thesis
    unfolding output_ok_def
  proof (intro conjI allI impI)
    fix sid i
    assume "dict_get (ow_active (release_stream st w)) sid = Some i"
    then have sid: "sid \<noteq> tts_session_id st" "dict_get (ow_active w) sid = Some i"
      by (auto simp: release_stream_def act split: if_splits)
    then obtain st' where "dict_get (ow_streams w) i = Some st'" "tts_session_id st' = sid"
      using output_okD(1) [OF ok] by blast
    moreover from this have "i \<noteq> tts_stream_id st" using st sid(1) by auto
    ultimately show "\<exists>st'. dict_get (ow_streams (release_stream st w)) i = Some st' \<and> tts_session_id st' = sid"
      by (simp add: release_stream_def)
  next
    fix i st'
    assume "dict_get (ow_streams (release_stream st w)) i = Some st'"
    then have i: "i \<noteq> tts_stream_id st" "dict_get (ow_streams w) i = Some st'"
      by (auto simp: release_stream_def split: if_splits)
    then have st': "tts_stream_id st' = i" "dict_get (ow_active w) (tts_session_id st') = Some i"
      using output_okD(2,3) [OF ok] by blast+
    then have "tts_session_id st' \<noteq> tts_session_id st" using act i(1) by auto
    with st' show "tts_stream_id st' = i"
      "dict_get (ow_active (release_stream st w)) (tts_session_id st') = Some i"
      by (simp_all add: release_stream_def act)
  qed
qed

lemma output_ok_add:
  assumes ok: "output_ok w" and free: "dict_get (ow_active w) (tts_session_id st) = None"
    and fresh: "dict_get (ow_streams w) (tts_stream_id st) = None"
  shows "output_ok (w\<lparr>ow_streams := dict_set (tts_stream_id st) st (ow_streams w),
     ow_active := dict_set (tts_session_id st) (tts_stream_id st) (ow_active w)\<rparr>)" (is "output_ok ?w")
  unfolding output_ok_def
proof (intro conjI allI impI)
  fix sid i
  assume a: "dict_get (ow_active ?w) sid = Some i"
  show "\<exists>st'. dict_get (ow_streams ?w) i = Some st' \<and> tts_session_id st' = sid"
  proof (cases "sid = tts_session_id st")
    case False
    then obtain st' where "dict_get (ow_streams w) i = Some st'" "tts_session_id st' = sid"
      using a output_okD(1) [OF ok, of sid i] by auto
    then show ?thesis using fresh by auto
  qed (use a in auto)
next
  fix i st'
  assume a: "dict_get (ow_streams ?w) i = Some st'"
  have "tts_stream_id st' = i \<and> dict_get (ow_active ?w) (tts_session_id st') = Some i"
  proof (cases "i = tts_stream_id st")
    case False
    then have "tts_stream_id st' = i" "dict_get (ow_active w) (tts_session_id st') = Some i"
      using a output_okD(2,3) [OF ok, of i st'] by auto
    then show ?thesis using free by auto
  qed (use a in auto)
  then show "tts_stream_id st' = i" "dict_get (ow_active ?w) (tts_session_id st') = Some i" by simp_all
qed

lemma open_claimed_ok:
  assumes "open_claimed get put provider syn X X2 i sid t c w = (w', r)" and "output_ok w"
    and "dict_get (ow_active w) sid = None" and "dict_get (ow_streams w) i = None"
  shows "output_ok w'" and "r = Inr st \<Longrightarrow> dict_get (ow_active w') sid = Some i \<and> dict_get (ow_streams w') i = Some st"
proof -
  have "output_ok w' \<and> (r = Inr st \<longrightarrow> dict_get (ow_active w') sid = Some i \<and> dict_get (ow_streams w') i = Some st)"
  proof (cases syn)
    case (Inl e)
    then have "ow_streams w' = ow_streams w \<and> ow_active w' = ow_active w \<and> (\<forall>x. r \<noteq> Inr x)"
      using assms(1) by (auto simp: open_claimed_def Let_def)
    then show ?thesis using assms(2) output_ok_frame by metis
  next
    case (Inr u)
    obtain w1 r1 where one: "voice_do get put X sid (TtsStarted (turn_id t)) w = (w1, r1)" by fastforce
    note f1 = voice_do_frame [OF one]
    show ?thesis
    proof (cases r1)
      case (Inl e)
      then have "w' = w1 \<and> (\<forall>x. r \<noteq> Inr x)" using assms(1) by (auto simp: open_claimed_def Let_def \<open>syn = Inr u\<close> one)
      then show ?thesis using assms(2) f1 output_ok_frame by metis
    next
      case (Inr v)
      note r1 = this
      show ?thesis
      proof (cases "server_transport ''tts'' provider")
        case (Inl e)
        then have "w' = w1 \<and> (\<forall>x. r \<noteq> Inr x)"
          using assms(1) by (auto simp: open_claimed_def Let_def \<open>syn = Inr u\<close> one r1)
        then show ?thesis using assms(2) f1 output_ok_frame by metis
      next
        case (Inr sel)
        obtain w2 r2 where two: "voice_do get put X2 sid (TransportSelected sel) w1 = (w2, r2)" by fastforce
        note f2 = voice_do_frame [OF two]
        note open_simps = open_claimed_def Let_def \<open>syn = Inr u\<close> one r1 Inr two
        show ?thesis
        proof (cases r2)
          case (Inl e)
          then have "w' = w2 \<and> (\<forall>x. r \<noteq> Inr x)" using assms(1) by (auto simp: open_simps)
          then show ?thesis using assms(2) f1 f2 output_ok_frame by metis
        next
          case (Inr v2)
          let ?st = "\<lparr> tts_stream_id = i, tts_session_id = sid, tts_turn_id = turn_id t,
            tts_generation = generation (state_ref (vw_voice w) sid), tts_config = c, tts_closed = False,
            tts_cancelled = False, chunks_sent = 0, bytes_sent = 0 \<rparr>"
          have "output_ok w2" using assms(2) f1 f2 output_ok_frame [of w2 w] by simp
          from output_ok_add [OF this, of ?st]
          have "output_ok (w2\<lparr>ow_streams := dict_set i ?st (ow_streams w2), ow_active := dict_set sid i (ow_active w2)\<rparr>)"
            using assms(3,4) f1 f2 by simp
          then show ?thesis using assms(1) by (auto simp: open_simps \<open>r2 = Inr v2\<close>)
        qed
      qed
    qed
  qed
  then show "output_ok w'"
    "r = Inr st \<Longrightarrow> dict_get (ow_active w') sid = Some i \<and> dict_get (ow_streams w') i = Some st" by simp_all
qed

text \<open>A second stream is refused while one is active, and opening keeps one stream at most.\<close>

lemma output_open_ok:
  assumes "output_open get put provider syn canc X X2 i sid tid c w = (w', r)" and "output_ok w"
    and "dict_get (ow_streams w) i = None"
  shows "output_ok w'" and "dict_get (ow_active w) sid \<noteq> None \<Longrightarrow> w' = w \<and> (\<exists>e. r = Inl e)"
    and "r = Inr st \<Longrightarrow> dict_get (ow_active w) sid = None \<and> dict_get (ow_active w') sid = Some i
      \<and> dict_get (ow_streams w') i = Some st"
proof -
  let ?claim = "ebind (load_session get sid (fst (vw_store w))) (\<lambda>s. ebind (interviewer_turn s tid) (\<lambda>t.
            ebind (claim_output sid w) (\<lambda>w1. Inr (t, w1))))"
  have "output_ok w' \<and> (dict_get (ow_active w) sid \<noteq> None \<longrightarrow> w' = w \<and> (\<exists>e. r = Inl e))
    \<and> (r = Inr st \<longrightarrow> dict_get (ow_active w) sid = None \<and> dict_get (ow_active w') sid = Some i
         \<and> dict_get (ow_streams w') i = Some st)"
  proof (cases ?claim)
    case (Inl e)
    then show ?thesis using assms by (auto simp: output_open_def)
  next
    case (Inr p)
    then obtain t w1 where p: "p = (t, w1)" and free: "dict_get (ow_active w) sid = None"
      and w1: "w1 = w\<lparr>ow_opening := List.insert sid (ow_opening w)\<rparr>"
      by (auto simp: claim_output_def exn_simps)
    obtain w2 r2 where two: "open_claimed get put provider syn X X2 i sid t c w1 = (w2, r2)" by fastforce
    have ok1: "output_ok w1" "dict_get (ow_active w1) sid = None" "dict_get (ow_streams w1) i = None"
      using assms(2,3) free by (simp_all add: w1 output_ok_def)
    note opened = open_claimed_ok [OF two ok1]
    have res: "w' = w2\<lparr>ow_opening := removeAll sid (ow_opening w2)\<rparr>" "r = Inr st \<Longrightarrow> r2 = Inr st"
      using assms(1) by (auto simp: output_open_def Inr p two split: sum.splits)
    have "output_ok w'" using opened(1) output_ok_frame [of w' w2] by (simp add: res(1))
    moreover have "r = Inr st \<Longrightarrow> dict_get (ow_active w') sid = Some i \<and> dict_get (ow_streams w') i = Some st"
      using opened(2) [OF res(2)] by (simp add: res(1))
    ultimately show ?thesis using free by simp
  qed
  then show "output_ok w'" "dict_get (ow_active w) sid \<noteq> None \<Longrightarrow> w' = w \<and> (\<exists>e. r = Inl e)"
    "r = Inr st \<Longrightarrow> dict_get (ow_active w) sid = None \<and> dict_get (ow_active w') sid = Some i
      \<and> dict_get (ow_streams w') i = Some st" by simp_all
qed

end
