(* ===== verification/Metrics.thy ===== *)
theory Metrics
  imports Resilience Review_Service Voice_Bridges
begin

text \<open>
  \<^verbatim>\<open>http_metrics.py\<close>, \<^verbatim>\<open>websocket_metrics.py\<close>, \<^verbatim>\<open>operations.py\<close> and \<^verbatim>\<open>slo.py\<close>: request metrics with
  bounded labels, the snapshot of the running service, its exposition as text and its assessment
  against an operational policy. Clock readings are arguments, the \<^verbatim>\<open>:g\<close> format of a number is a
  parameter. The lemmas: what the counters count; that a label is one line that reads back; and
  what the assessment says.
\<close>

section \<open>HTTP requests\<close>

record route_metrics =
  rm_method :: string
  rm_route :: string
  rm_status_class :: string
  rm_requests :: int
  rm_duration_sum :: rat
  rm_buckets :: "int list"

record http_metrics =
  latency_buckets :: "rat list"
  http_series :: "(string \<times> string \<times> string, route_metrics) dict"
  requests_total :: int
  in_flight :: int

definition default_latency_buckets :: "rat list" where
  "default_latency_buckets = map fl [5/1000, 1/100, 25/1000, 5/100, 1/10, 25/100, 5/10, 1, 5/2, 5]"

fun increasing :: "rat list \<Rightarrow> bool" where
  "increasing (x # y # zs) = (x < y \<and> increasing (y # zs))"
| "increasing _ = True"

text \<open>\<^verbatim>\<open>tuple(sorted(set(buckets))) == buckets\<close> holds of the strictly increasing tuples.\<close>

definition http_metrics_init :: "rat list \<Rightarrow> http_metrics result" where
  "http_metrics_init buckets =
     raise_if (buckets = []) (ValueError ''latency_buckets_seconds cannot be empty'')
     (raise_if (list_ex (\<lambda>b. b \<le> 0) buckets) (ValueError ''latency buckets must be positive'')
     (raise_if (\<not> increasing buckets) (ValueError ''latency buckets must be unique and increasing'')
     (Inr \<lparr> latency_buckets = buckets, http_series = [], requests_total = 0, in_flight = 0 \<rparr>)))"

definition request_started :: "http_metrics \<Rightarrow> http_metrics" where
  "request_started M = M\<lparr>in_flight := in_flight M + 1\<rparr>"

text \<open>\<^verbatim>\<open>str.upper\<close>: of a character that is not ASCII it is a parameter.\<close>

definition py_upper :: "(char \<Rightarrow> string) \<Rightarrow> string \<Rightarrow> string" where
  "py_upper other t = concat (map (\<lambda>c. let n = (of_char c :: nat) in
     if 97 \<le> n \<and> n \<le> 122 then [char_of (n - 32)] else if n < 128 then [c] else other c) t)"

definition status_class :: "int \<Rightarrow> string" where
  "status_class code = (if 100 \<le> code \<and> code \<le> 599 then show_int (code div 100) @ ''xx'' else ''other'')"

definition counted :: "rat list \<Rightarrow> rat \<Rightarrow> route_metrics \<Rightarrow> route_metrics" where
  "counted bounds duration r = r\<lparr>rm_requests := rm_requests r + 1,
     rm_duration_sum := fl (rm_duration_sum r + duration),
     rm_buckets := map2 (\<lambda>bound n. if duration \<le> bound then n + 1 else n) bounds (rm_buckets r)\<rparr>"

definition request_finished :: "(char \<Rightarrow> string) \<Rightarrow> rat \<Rightarrow> string \<Rightarrow> string \<Rightarrow> int \<Rightarrow> rat
    \<Rightarrow> http_metrics \<Rightarrow> http_metrics" where
  "request_finished other clock method route code started_at M =
     (let duration = max 0 (fl (clock - started_at));
          method_label = (let m = strip (py_upper other method) in if m = [] then ''UNKNOWN'' else m);
          route_label = (let r = strip route in if r = [] then ''<unmatched>'' else r);
          key = (method_label, route_label, status_class code);
          current = (case dict_get (http_series M) key of
              Some r \<Rightarrow> r
            | None \<Rightarrow> \<lparr> rm_method = method_label, rm_route = route_label, rm_status_class = status_class code,
                rm_requests = 0, rm_duration_sum = 0, rm_buckets = map (\<lambda>b. 0) (latency_buckets M) \<rparr>)
      in M\<lparr>in_flight := max 0 (in_flight M - 1), requests_total := requests_total M + 1,
            http_series := dict_set key (counted (latency_buckets M) duration current) (http_series M)\<rparr>)"

definition request_aborted :: "(char \<Rightarrow> string) \<Rightarrow> rat \<Rightarrow> string \<Rightarrow> string \<Rightarrow> rat \<Rightarrow> http_metrics
    \<Rightarrow> http_metrics" where
  "request_aborted other clock method route started_at =
     request_finished other clock method route 500 started_at"

record http_metric_series =
  hms_method :: string
  hms_route :: string
  hms_status_class :: string
  hms_requests :: int
  hms_duration_sum :: rat
  hms_buckets :: "(string, int) dict"

record http_snapshot =
  hs_requests_total :: int
  hs_in_flight :: int
  hs_series :: "http_metric_series list"
  hs_latency_buckets :: "rat list"

definition empty_http_snapshot :: http_snapshot where
  "empty_http_snapshot = \<lparr> hs_requests_total = 0, hs_in_flight = 0, hs_series = [], hs_latency_buckets = [] \<rparr>"

text \<open>A dictionary of bounds: two bounds of the same text are one entry.\<close>

definition series_snapshot :: "(rat \<Rightarrow> string) \<Rightarrow> rat list \<Rightarrow> route_metrics \<Rightarrow> http_metric_series" where
  "series_snapshot g bounds r = \<lparr> hms_method = rm_method r, hms_route = rm_route r,
     hms_status_class = rm_status_class r, hms_requests = rm_requests r,
     hms_duration_sum = py_round (rm_duration_sum r) 9,
     hms_buckets = dict_set ''+Inf'' (rm_requests r)
       (fold (\<lambda>(bound, n). dict_set (g bound) n) (zip bounds (rm_buckets r)) []) \<rparr>"

definition http_snapshot_of :: "(rat \<Rightarrow> string) \<Rightarrow> http_metrics \<Rightarrow> http_snapshot" where
  "http_snapshot_of g M = \<lparr> hs_requests_total = requests_total M, hs_in_flight = in_flight M,
     hs_series = map (\<lambda>kr. series_snapshot g (latency_buckets M) (snd kr)) (sort_key fst (http_series M)),
     hs_latency_buckets = latency_buckets M \<rparr>"

section \<open>WebSocket connections\<close>

definition allowed_channels :: "string list" where
  "allowed_channels = [''audio'', ''interview'', ''other'', ''tts'']"

definition classify_websocket_channel :: "string \<Rightarrow> string" where
  "classify_websocket_channel path =
     (if startswith path ''/v1/ws/interviews/'' then ''interview''
      else if startswith path ''/v1/ws/audio/'' then ''audio''
      else if startswith path ''/v1/ws/tts/'' then ''tts'' else ''other'')"

record channel_metrics =
  ch_active :: int
  ch_opened_total :: int
  ch_closed_total :: int
  ch_errors_total :: int
  ch_duration_sum :: rat

type_synonym websocket_metrics = "(string, channel_metrics) dict"

definition websocket_metrics_init :: websocket_metrics where
  "websocket_metrics_init = map (\<lambda>c. (c, \<lparr> ch_active = 0, ch_opened_total = 0, ch_closed_total = 0,
     ch_errors_total = 0, ch_duration_sum = 0 \<rparr>)) allowed_channels"

definition normalize_channel :: "string \<Rightarrow> string" where
  "normalize_channel c = (if c \<in> set allowed_channels then c else ''other'')"

text \<open>The channel that is counted is always there.\<close>

definition update_channel :: "string \<Rightarrow> (channel_metrics \<Rightarrow> channel_metrics) \<Rightarrow> websocket_metrics
    \<Rightarrow> websocket_metrics" where
  "update_channel c f W = (case dict_get W c of None \<Rightarrow> W | Some m \<Rightarrow> dict_set c (f m) W)"

definition channel_opened :: "string \<Rightarrow> websocket_metrics \<Rightarrow> websocket_metrics" where
  "channel_opened c = update_channel (normalize_channel c)
     (\<lambda>m. m\<lparr>ch_active := ch_active m + 1, ch_opened_total := ch_opened_total m + 1\<rparr>)"

definition channel_closed :: "string \<Rightarrow> rat \<Rightarrow> rat \<Rightarrow> bool \<Rightarrow> websocket_metrics \<Rightarrow> websocket_metrics" where
  "channel_closed c clock started_at error = update_channel (normalize_channel c)
     (\<lambda>m. m\<lparr>ch_active := max 0 (ch_active m - 1), ch_closed_total := ch_closed_total m + 1,
        ch_duration_sum := fl (ch_duration_sum m + max 0 (fl (clock - started_at))),
        ch_errors_total := (if error then ch_errors_total m + 1 else ch_errors_total m)\<rparr>)"

record channel_snapshot =
  cs_channel :: string
  cs_active :: int
  cs_opened_total :: int
  cs_closed_total :: int
  cs_errors_total :: int
  cs_duration_sum :: rat

definition websocket_snapshot :: "websocket_metrics \<Rightarrow> channel_snapshot list" where
  "websocket_snapshot W = map (\<lambda>(c, m). \<lparr> cs_channel = c, cs_active = ch_active m,
       cs_opened_total = ch_opened_total m, cs_closed_total = ch_closed_total m,
       cs_errors_total = ch_errors_total m, cs_duration_sum = py_round (ch_duration_sum m) 9 \<rparr>)
     (filter (\<lambda>(c, m). ch_active m \<noteq> 0 \<or> ch_opened_total m \<noteq> 0 \<or> ch_closed_total m \<noteq> 0
        \<or> ch_errors_total m \<noteq> 0) (sort_key fst W))"

text \<open>The middleware, over the messages that the application sends for one connection, with the clock
  readings at their sending, and how the application ends.\<close>

datatype ws_message = WsAccept | WsClose int | WsOther

record ws_connection =
  ws_accepted :: bool
  ws_started_at :: rat
  ws_error :: bool

definition ws_send :: "string \<Rightarrow> rat \<Rightarrow> ws_message \<Rightarrow> ws_connection \<times> websocket_metrics
    \<Rightarrow> ws_connection \<times> websocket_metrics" where
  "ws_send channel clock msg cw =
     (case cw of (c, W) \<Rightarrow>
      (case msg of
         WsAccept \<Rightarrow> if ws_accepted c then (c, W)
                     else (c\<lparr>ws_accepted := True, ws_started_at := clock\<rparr>, channel_opened channel W)
       | WsClose code \<Rightarrow> (if (if code = 0 then 1000 else code) \<notin> {1000, 1001} then c\<lparr>ws_error := True\<rparr> else c, W)
       | WsOther \<Rightarrow> (c, W)))"

definition ws_middleware :: "string \<Rightarrow> (rat \<times> ws_message) list \<Rightarrow> bool \<Rightarrow> rat \<Rightarrow> websocket_metrics
    \<Rightarrow> websocket_metrics" where
  "ws_middleware path msgs failed clock W =
     (let channel = classify_websocket_channel path
      in case fold (\<lambda>(t, msg). ws_send channel t msg) msgs
           (\<lparr> ws_accepted = False, ws_started_at = 0, ws_error = False \<rparr>, W) of
        (c, W1) \<Rightarrow> if ws_accepted c then channel_closed channel clock (ws_started_at c) (ws_error c \<or> failed) W1
                    else W1)"

section \<open>The operational snapshot\<close>

record operational_snapshot =
  os_sessions_total :: nat
  os_session_statuses :: "(string, nat) dict"
  os_review :: dashboard
  os_voice_providers :: "health_snapshot list"
  os_active_audio_streams :: nat
  os_tracked_audio_streams :: nat
  os_active_tts_streams :: nat
  os_session_events :: nat
  os_voice_events :: nat
  os_tool_invocations :: nat
  os_judge_runs :: nat
  os_http :: http_snapshot
  os_websockets :: "channel_snapshot list"

definition count_statuses :: "interview_session list \<Rightarrow> (string, nat) dict" where
  "count_statuses ss = map (\<lambda>v. (v, length (filter (\<lambda>s. status_value (status s) = v) ss)))
     (sorted_set (map (\<lambda>s. status_value (status s)) ss))"

text \<open>The services of the process, at the moment of the snapshot.\<close>

record 'st running_services =
  svc_health :: health_registry
  svc_clock :: "nat \<Rightarrow> rat"
  svc_audio :: audio_streams
  svc_output :: "'st output_world"
  svc_http :: "http_metrics option"
  svc_websockets :: "websocket_metrics option"

definition operational_snapshot_of :: "runtime \<Rightarrow> (rat \<Rightarrow> string) \<Rightarrow> (string \<Rightarrow> job_spec option)
    \<Rightarrow> interview_session list \<Rightarrow> 'st running_services \<Rightarrow> operational_snapshot result" where
  "operational_snapshot_of R g get_job ss V =
     ebind (review_summary R get_job None ss) (\<lambda>review.
     Inr \<lparr> os_sessions_total = length ss, os_session_statuses = count_statuses ss, os_review = review,
           os_voice_providers = registry_snapshots (svc_clock V) (svc_health V),
           os_active_audio_streams = active_stream_count (svc_audio V),
           os_tracked_audio_streams = length (svc_audio V),
           os_active_tts_streams = length (ow_active (svc_output V)),
           os_session_events = sum_list (map (\<lambda>s. length (events s)) ss),
           os_voice_events = sum_list (map (\<lambda>s. length (filter
              (\<lambda>e. startswith (event_type_value (event_type e)) ''voice_'') (events s))) ss),
           os_tool_invocations = sum_list (map (\<lambda>s. length (tools s)) ss),
           os_judge_runs = sum_list (map (\<lambda>s. length (evidence_judge_runs s)) ss),
           os_http = (case svc_http V of None \<Rightarrow> empty_http_snapshot | Some M \<Rightarrow> http_snapshot_of g M),
           os_websockets = (case svc_websockets V of None \<Rightarrow> [] | Some W \<Rightarrow> websocket_snapshot W) \<rparr>)"

section \<open>Assessment\<close>

datatype slo_status = SloHEALTHY | SloDEGRADED | SloBREACHED

fun slo_status_value :: "slo_status \<Rightarrow> string" where
  "slo_status_value SloHEALTHY = ''healthy''"
| "slo_status_value SloDEGRADED = ''degraded''"
| "slo_status_value SloBREACHED = ''breached''"

datatype slo_severity = SloWARNING | SloCRITICAL

fun slo_severity_value :: "slo_severity \<Rightarrow> string" where
  "slo_severity_value SloWARNING = ''warning''"
| "slo_severity_value SloCRITICAL = ''critical''"

record slo_policy =
  max_http_5xx_ratio :: rat
  min_http_requests :: int
  max_unassigned_review :: int
  max_failed_runs :: int

definition SloPolicy :: "slo_policy \<Rightarrow> slo_policy result" where
  "SloPolicy p = raise_if (\<not> (0 \<le> max_http_5xx_ratio p \<and> max_http_5xx_ratio p \<le> 1 \<and> 1 \<le> min_http_requests p
       \<and> 0 \<le> max_unassigned_review p \<and> 0 \<le> max_failed_runs p))
     (ValidationError ''OperationalSloPolicy'') (Inr p)"

definition default_slo_policy :: slo_policy where
  "default_slo_policy = \<lparr> max_http_5xx_ratio = fl (5/100), min_http_requests = 20, max_unassigned_review = 20,
     max_failed_runs = 5 \<rparr>"

record slo_signal =
  slo_code :: string
  slo_severity :: slo_severity
  slo_summary :: string
  slo_value :: rat
  slo_threshold :: rat

record slo_assessment =
  slo_state :: slo_status
  slo_http_requests :: int
  slo_http_5xx :: int
  slo_http_ratio :: rat
  slo_signals :: "slo_signal list"

definition http_requests_of :: "operational_snapshot \<Rightarrow> int" where
  "http_requests_of o' = sum_list (map hms_requests (hs_series (os_http o')))"

definition http_5xx_of :: "operational_snapshot \<Rightarrow> int" where
  "http_5xx_of o' = sum_list (map hms_requests (filter (\<lambda>x. hms_status_class x = ''5xx'') (hs_series (os_http o'))))"

definition http_ratio_of :: "operational_snapshot \<Rightarrow> rat" where
  "http_ratio_of o' = (if http_requests_of o' \<noteq> 0 then fl (of_int (http_5xx_of o') / of_int (http_requests_of o')) else 0)"

definition http_signals :: "slo_policy \<Rightarrow> operational_snapshot \<Rightarrow> slo_signal list" where
  "http_signals p o' =
     (if min_http_requests p \<le> http_requests_of o' \<and> max_http_5xx_ratio p < http_ratio_of o'
      then [\<lparr> slo_code = ''http_5xx_ratio'', slo_severity = SloCRITICAL,
              slo_summary = ''HTTP 5xx ratio is above the configured '' @ ''operational threshold.'',
              slo_value = py_round (http_ratio_of o') 6, slo_threshold = max_http_5xx_ratio p \<rparr>] else [])"

definition provider_signals :: "health_snapshot \<Rightarrow> slo_signal list" where
  "provider_signals x =
     (if hsnap_state x = HealthOPEN
      then [\<lparr> slo_code = ''voice_provider_circuit_open:'' @ hsnap_key x, slo_severity = SloCRITICAL,
              slo_summary = ''Voice provider circuit is open '' @ ''for '' @ hsnap_key x @ ''.'',
              slo_value = hsnap_open_seconds_remaining x, slo_threshold = 0 \<rparr>]
      else if hsnap_state x = DEGRADED
      then [\<lparr> slo_code = ''voice_provider_degraded:'' @ hsnap_key x, slo_severity = SloWARNING,
              slo_summary = ''Voice provider has consecutive '' @ ''failures for '' @ hsnap_key x @ ''.'',
              slo_value = fl (of_int (hsnap_consecutive_failures x)), slo_threshold = 0 \<rparr>] else [])"

definition backlog_signals :: "slo_policy \<Rightarrow> operational_snapshot \<Rightarrow> slo_signal list" where
  "backlog_signals p o' =
     (let n = int (unassigned_review_required (os_review o'))
      in if max_unassigned_review p < n
         then [\<lparr> slo_code = ''unassigned_review_backlog'', slo_severity = SloWARNING,
                 slo_summary = ''Unassigned human-review backlog is '' @ ''above the configured threshold.'',
                 slo_value = fl (of_int n), slo_threshold = fl (of_int (max_unassigned_review p)) \<rparr>] else [])"

definition failed_run_signals :: "slo_policy \<Rightarrow> operational_snapshot \<Rightarrow> slo_signal list" where
  "failed_run_signals p o' =
     (let n = int (failed_evidence_runs (os_review o'))
      in if max_failed_runs p < n
         then [\<lparr> slo_code = ''failed_evidence_runs'', slo_severity = SloWARNING,
                 slo_summary = ''Failed semantic evidence runs are '' @ ''above the configured threshold.'',
                 slo_value = fl (of_int n), slo_threshold = fl (of_int (max_failed_runs p)) \<rparr>] else [])"

definition assess_operational_slo :: "operational_snapshot \<Rightarrow> slo_policy option \<Rightarrow> slo_assessment" where
  "assess_operational_slo o' policy =
     (let p = (case policy of Some p \<Rightarrow> p | None \<Rightarrow> default_slo_policy);
          signals = http_signals p o' @ concat (map provider_signals (os_voice_providers o'))
            @ backlog_signals p o' @ failed_run_signals p o'
      in \<lparr> slo_state = (if list_ex (\<lambda>x. slo_severity x = SloCRITICAL) signals then SloBREACHED
             else if signals \<noteq> [] then SloDEGRADED else SloHEALTHY),
           slo_http_requests = http_requests_of o', slo_http_5xx = http_5xx_of o',
           slo_http_ratio = py_round (http_ratio_of o') 6, slo_signals = signals \<rparr>)"

section \<open>Exposition\<close>

definition replace_char :: "char \<Rightarrow> string \<Rightarrow> string \<Rightarrow> string" where
  "replace_char c r t = concat (map (\<lambda>x. if x = c then r else [x]) t)"

definition prom_label :: "string \<Rightarrow> string" where
  "prom_label v = replace_char (CHR 0x22) [CHR 0x5C, CHR 0x22] (replace_char (CHR 0x0A) [CHR 0x5C, CHR ''n'']
     (replace_char (CHR 0x5C) [CHR 0x5C, CHR 0x5C] v))"

definition labelled :: "string \<Rightarrow> string \<Rightarrow> string" where
  "labelled name v = name @ ''='' @ [CHR 0x22] @ prom_label v @ [CHR 0x22]"

definition metric :: "string \<Rightarrow> string list \<Rightarrow> string \<Rightarrow> string" where
  "metric name labels v = name @ [CHR 0x7B] @ join '','' labels @ [CHR 0x7D] @ '' '' @ v"

definition gauges :: "operational_snapshot \<Rightarrow> (string \<times> nat) list" where
  "gauges o' = (let r = os_review o' in
     [(''nora_review_required_sessions'', review_required r), (''nora_pending_appeals'', dash_pending_appeals r),
      (''nora_pending_integrity_signals'', pending_integrity_signals r),
      (''nora_unresolved_tool_reviews'', dash_unresolved_tools r),
      (''nora_stale_evidence_runs'', stale_evidence_runs r),
      (''nora_failed_evidence_runs'', failed_evidence_runs r), (''nora_assigned_reviews'', assigned_reviews r),
      (''nora_unassigned_review_required'', unassigned_review_required r),
      (''nora_active_audio_streams'', os_active_audio_streams o'),
      (''nora_tracked_audio_streams'', os_tracked_audio_streams o'),
      (''nora_active_tts_streams'', os_active_tts_streams o'),
      (''nora_session_events_current'', os_session_events o'),
      (''nora_voice_events_current'', os_voice_events o'),
      (''nora_tool_invocations_current'', os_tool_invocations o'),
      (''nora_evidence_judge_runs_current'', os_judge_runs o')])"

definition provider_lines :: "(rat \<Rightarrow> string) \<Rightarrow> health_snapshot \<Rightarrow> string list" where
  "provider_lines g x = (let key = labelled ''key'' (hsnap_key x) in
     [metric ''nora_voice_provider_info'' [key, labelled ''provider_id'' (hsnap_provider_id x),
        labelled ''state'' (provider_health_value (hsnap_state x))] ''1'',
      metric ''nora_voice_provider_consecutive_failures'' [key] (show_int (hsnap_consecutive_failures x)),
      metric ''nora_voice_provider_total_failures'' [key] (show_int (hsnap_total_failures x)),
      metric ''nora_voice_provider_total_successes'' [key] (show_int (hsnap_total_successes x)),
      metric ''nora_voice_provider_circuit_open_seconds'' [key] (g (hsnap_open_seconds_remaining x))])"

definition http_lines :: "(rat \<Rightarrow> string) \<Rightarrow> http_metric_series \<Rightarrow> string list" where
  "http_lines g x =
     (let labels = [labelled ''method'' (hms_method x), labelled ''route'' (hms_route x),
            labelled ''status_class'' (hms_status_class x)]
      in metric ''nora_http_requests_total'' labels (show_int (hms_requests x))
         # map (\<lambda>(bound, n). metric ''nora_http_request_duration_seconds_bucket''
              (labels @ [labelled ''le'' bound]) (show_int n)) (hms_buckets x)
         @ [metric ''nora_http_request_duration_seconds_sum'' labels (g (hms_duration_sum x)),
            metric ''nora_http_request_duration_seconds_count'' labels (show_int (hms_requests x))])"

definition channel_lines :: "(rat \<Rightarrow> string) \<Rightarrow> channel_snapshot \<Rightarrow> string list" where
  "channel_lines g x = (let label = labelled ''channel'' (cs_channel x) in
     [metric ''nora_websocket_connections_active'' [label] (show_int (cs_active x)),
      metric ''nora_websocket_connections_opened_total'' [label] (show_int (cs_opened_total x)),
      metric ''nora_websocket_connections_closed_total'' [label] (show_int (cs_closed_total x)),
      metric ''nora_websocket_errors_total'' [label] (show_int (cs_errors_total x)),
      metric ''nora_websocket_connection_duration_seconds_sum'' [label] (g (cs_duration_sum x))])"

definition slo_lines :: "(rat \<Rightarrow> string) \<Rightarrow> slo_assessment \<Rightarrow> string list" where
  "slo_lines g a =
     [''# HELP nora_operational_slo_status Current operational SLO state.'',
      ''# TYPE nora_operational_slo_status gauge'']
     @ map (\<lambda>v. metric ''nora_operational_slo_status'' [''status='' @ [CHR 0x22] @ v @ [CHR 0x22]]
          (if slo_status_value (slo_state a) = v then ''1'' else ''0'')) [''healthy'', ''degraded'', ''breached'']
     @ [''# HELP nora_operational_slo_signal Active bounded operational SLO signals.'',
        ''# TYPE nora_operational_slo_signal gauge'']
     @ map (\<lambda>x. metric ''nora_operational_slo_signal'' [labelled ''code'' (slo_code x),
          labelled ''severity'' (slo_severity_value (slo_severity x))] ''1'') (slo_signals a)
     @ [''# TYPE nora_http_5xx_ratio gauge'', ''nora_http_5xx_ratio '' @ g (slo_http_ratio a)]"

definition prometheus_lines :: "(rat \<Rightarrow> string) \<Rightarrow> operational_snapshot \<Rightarrow> slo_assessment option \<Rightarrow> string list" where
  "prometheus_lines g o' slo =
     [''# HELP nora_sessions_current Current interview sessions retained by Nora.'',
      ''# TYPE nora_sessions_current gauge'', ''nora_sessions_current '' @ show_nat (os_sessions_total o')]
     @ map (\<lambda>(v, n). metric ''nora_sessions_by_status'' [labelled ''status'' v] (show_nat n)) (os_session_statuses o')
     @ concat (map (\<lambda>(name, n). [''# TYPE '' @ name @ '' gauge'', name @ '' '' @ show_nat n]) (gauges o'))
     @ concat (map (provider_lines g) (os_voice_providers o'))
     @ [''# HELP nora_http_requests_total HTTP requests by bounded route template and status class.'',
        ''# TYPE nora_http_requests_total counter'',
        ''# HELP nora_http_requests_in_flight HTTP requests currently being processed.'',
        ''# TYPE nora_http_requests_in_flight gauge'',
        ''nora_http_requests_in_flight '' @ show_int (hs_in_flight (os_http o')),
        ''# HELP nora_http_request_duration_seconds HTTP request duration by bounded route template.'',
        ''# TYPE nora_http_request_duration_seconds histogram'']
     @ concat (map (http_lines g) (hs_series (os_http o')))
     @ [''# HELP nora_websocket_connections_active Active accepted WebSocket connections by bounded channel.'',
        ''# TYPE nora_websocket_connections_active gauge'',
        ''# HELP nora_websocket_connections_opened_total Accepted WebSocket connections by bounded channel.'',
        ''# TYPE nora_websocket_connections_opened_total counter'',
        ''# HELP nora_websocket_connections_closed_total Closed accepted WebSocket connections by bounded channel.'',
        ''# TYPE nora_websocket_connections_closed_total counter'',
        ''# HELP nora_websocket_errors_total WebSocket application failures by bounded channel.'',
        ''# TYPE nora_websocket_errors_total counter'',
        ''# HELP nora_websocket_connection_duration_seconds_sum Aggregate accepted WebSocket connection duration.'',
        ''# TYPE nora_websocket_connection_duration_seconds_sum counter'']
     @ concat (map (channel_lines g) (os_websockets o'))
     @ (case slo of None \<Rightarrow> [] | Some a \<Rightarrow> slo_lines g a)"

definition render_prometheus :: "(rat \<Rightarrow> string) \<Rightarrow> operational_snapshot \<Rightarrow> slo_assessment option \<Rightarrow> string" where
  "render_prometheus g o' slo = join [CHR 0x0A] (prometheus_lines g o' slo) @ [CHR 0x0A]"

section \<open>What is counted\<close>

text \<open>The total is the sum over the series, no bucket counts more than the requests, a wider bucket
  counts no less, and the series are those of their keys.\<close>

definition series_ok :: "rat list \<Rightarrow> route_metrics \<Rightarrow> bool" where
  "series_ok bounds r \<longleftrightarrow> length (rm_buckets r) = length bounds \<and> 0 \<le> rm_requests r \<and> 0 \<le> rm_duration_sum r
     \<and> (\<forall>n\<in>set (rm_buckets r). 0 \<le> n \<and> n \<le> rm_requests r) \<and> sorted (rm_buckets r)"

definition http_metrics_ok :: "http_metrics \<Rightarrow> bool" where
  "http_metrics_ok M \<longleftrightarrow> sorted_wrt (<) (latency_buckets M) \<and> 0 \<le> in_flight M
     \<and> distinct (map fst (http_series M))
     \<and> requests_total M = sum_list (map (\<lambda>kr. rm_requests (snd kr)) (http_series M))
     \<and> (\<forall>(k, r)\<in>set (http_series M). series_ok (latency_buckets M) r)"

lemma increasing_iff: "increasing xs \<longleftrightarrow> sorted_wrt (<) xs"
proof (induction xs rule: increasing.induct)
  case (1 x y zs)
  then show ?case by (auto intro: less_trans)
qed simp_all

lemma http_metrics_init_ok: "http_metrics_init buckets = Inr M \<Longrightarrow> http_metrics_ok M"
  by (auto simp: http_metrics_init_def exn_simps http_metrics_ok_def increasing_iff)

lemma request_started_ok: "http_metrics_ok M \<Longrightarrow> http_metrics_ok (request_started M)"
  by (simp add: http_metrics_ok_def request_started_def)

lemma counted_ok:
  assumes "series_ok bounds r" and "sorted_wrt (<) bounds" and "0 \<le> duration"
  shows "series_ok bounds (counted bounds duration r)"
proof -
  let ?b = "map2 (\<lambda>bound n. if duration \<le> bound then n + 1 else n) bounds (rm_buckets r)"
  have len: "length (rm_buckets r) = length bounds" using assms(1) by (simp add: series_ok_def)
  have "0 \<le> n \<and> n \<le> rm_requests r + 1" if n: "n \<in> set ?b" for n
  proof -
    obtain bound m where "(bound, m) \<in> set (zip bounds (rm_buckets r))" and nm: "n = (if duration \<le> bound then m + 1 else m)"
      using n by auto
    then have "m \<in> set (rm_buckets r)" by (simp add: set_zip_rightD)
    then have "0 \<le> m" "m \<le> rm_requests r" using assms(1) by (auto simp: series_ok_def)
    then show ?thesis using nm by simp
  qed
  moreover have "sorted ?b"
  proof (unfold sorted_iff_nth_mono, intro allI impI)
    fix i j
    assume ij: "i \<le> j" "j < length ?b"
    have "rm_buckets r ! i \<le> rm_buckets r ! j"
      using assms(1) ij len by (auto simp: series_ok_def sorted_iff_nth_mono)
    moreover have "bounds ! i \<le> bounds ! j"
      using sorted_wrt_nth_less [OF assms(2), of i j] ij by (cases "i = j") auto
    ultimately show "?b ! i \<le> ?b ! j" using ij len by auto
  qed
  ultimately show ?thesis
    using assms(1,3) len fl_nonneg [of "rm_duration_sum r + duration"] by (simp add: series_ok_def counted_def)
qed

lemma sum_dict_set:
  fixes f :: "'v \<Rightarrow> int"
  assumes "distinct (map fst d)"
  shows "sum_list (map (\<lambda>kr. f (snd kr)) (dict_set k v d))
    = sum_list (map (\<lambda>kr. f (snd kr)) d) - (case dict_get d k of None \<Rightarrow> 0 | Some u \<Rightarrow> f u) + f v"
  using assms
proof (induction d)
  case (Cons p d)
  obtain k' u where p: "p = (k', u)" by (cases p)
  show ?case
  proof (cases "k' = k")
    case True
    then have "dict_get d k = None" using Cons.prems p by (simp add: map_of_eq_None_iff)
    then show ?thesis using True by (simp add: p)
  qed (use Cons p in auto)
qed simp

lemma request_finished_ok:
  assumes "http_metrics_ok M"
  shows "http_metrics_ok (request_finished other clock method route code started_at M)"
    and "requests_total (request_finished other clock method route code started_at M) = requests_total M + 1"
proof -
  let ?duration = "max 0 (fl (clock - started_at))"
  let ?m = "let m = strip (py_upper other method) in if m = [] then ''UNKNOWN'' else m"
  let ?r = "let r = strip route in if r = [] then ''<unmatched>'' else r"
  let ?key = "(?m, ?r, status_class code)"
  let ?new = "\<lparr> rm_method = ?m, rm_route = ?r, rm_status_class = status_class code,
                rm_requests = 0, rm_duration_sum = 0, rm_buckets = map (\<lambda>b. 0) (latency_buckets M) \<rparr>"
  let ?cur = "case dict_get (http_series M) ?key of Some r \<Rightarrow> r | None \<Rightarrow> ?new"
  let ?M = "request_finished other clock method route code started_at M"
  have M: "?M = M\<lparr>in_flight := max 0 (in_flight M - 1), requests_total := requests_total M + 1,
      http_series := dict_set ?key (counted (latency_buckets M) ?duration ?cur) (http_series M)\<rparr>"
    by (simp only: request_finished_def Let_def)
  show "requests_total ?M = requests_total M + 1" by (simp add: M)
  have new: "series_ok (latency_buckets M) ?new"
    by (auto simp: series_ok_def sorted_iff_nth_mono)
  have "series_ok (latency_buckets M) ?cur"
  proof (cases "dict_get (http_series M) ?key")
    case None
    then show ?thesis using new by simp
  next
    case (Some r)
    then have "(?key, r) \<in> set (http_series M)" by (rule map_of_SomeD)
    then show ?thesis using assms Some by (auto simp: http_metrics_ok_def)
  qed
  from counted_ok [OF this _ max.cobounded1]
  have cur: "series_ok (latency_buckets M) (counted (latency_buckets M) ?duration ?cur)"
    using assms by (simp add: http_metrics_ok_def)
  have "sum_list (map (\<lambda>kr. rm_requests (snd kr)) (dict_set ?key (counted (latency_buckets M) ?duration ?cur) (http_series M)))
      = requests_total M + 1"
    using assms sum_dict_set [of "http_series M" rm_requests ?key "counted (latency_buckets M) ?duration ?cur"]
    by (simp add: http_metrics_ok_def counted_def split: option.splits)
  moreover have "series_ok (latency_buckets M) r'"
    if "(k, r') \<in> set (dict_set ?key (counted (latency_buckets M) ?duration ?cur) (http_series M))" for k r'
    using mem_dict_set [OF that] cur assms by (auto simp: http_metrics_ok_def)
  ultimately show "http_metrics_ok ?M"
    using assms unfolding M by (auto simp: http_metrics_ok_def distinct_dict_set)
qed

text \<open>Requests as they come: begun, or ended in one of the two ways.\<close>

datatype request_step =
    RequestBegins
  | RequestEnds rat string string int rat
  | RequestAborts rat string string rat

fun serve :: "(char \<Rightarrow> string) \<Rightarrow> request_step \<Rightarrow> http_metrics \<Rightarrow> http_metrics" where
  "serve other RequestBegins M = request_started M"
| "serve other (RequestEnds clock method route code t) M = request_finished other clock method route code t M"
| "serve other (RequestAborts clock method route t) M = request_aborted other clock method route t M"

lemma serve_ok: "http_metrics_ok M \<Longrightarrow> http_metrics_ok (fold (serve other) steps M)
    \<and> requests_total (fold (serve other) steps M)
      = requests_total M + int (length (filter (\<lambda>x. x \<noteq> RequestBegins) steps))
    \<and> latency_buckets (fold (serve other) steps M) = latency_buckets M"
proof (induction steps arbitrary: M)
  case (Cons x steps)
  have same: "latency_buckets (request_finished other c m r k t M) = latency_buckets M" for c m r k t
    by (simp add: request_finished_def Let_def)
  have "http_metrics_ok (serve other x M) \<and> latency_buckets (serve other x M) = latency_buckets M
      \<and> requests_total (serve other x M) = requests_total M + (if x = RequestBegins then 0 else 1)"
    using request_finished_ok [OF Cons.prems] request_started_ok [OF Cons.prems]
    by (cases x) (simp_all add: same request_aborted_def, simp_all add: request_started_def)
  then show ?case using Cons.IH [of "serve other x M"] by simp
qed simp

section \<open>Labels\<close>

lemma replace_char_append: "replace_char c r (s @ t) = replace_char c r s @ replace_char c r t"
  by (simp add: replace_char_def)

text \<open>Each character of a label by itself.\<close>

definition label_char :: "char \<Rightarrow> string" where
  "label_char c = (if c = CHR 0x5C then [CHR 0x5C, CHR 0x5C] else if c = CHR 0x0A then [CHR 0x5C, CHR ''n'']
     else if c = CHR 0x22 then [CHR 0x5C, CHR 0x22] else [c])"

lemma prom_label_chars: "prom_label v = concat (map label_char v)"
proof (induction v)
  case (Cons c v)
  have "prom_label (c # v) = prom_label [c] @ prom_label v"
    unfolding prom_label_def
    by (simp flip: replace_char_append add: append_Cons [of c "[]" v, symmetric, simplified])
  moreover have "prom_label [c] = label_char c"
    by (simp add: prom_label_def replace_char_def label_char_def)
  ultimately show ?case using Cons by simp
qed (simp add: prom_label_def replace_char_def)

text \<open>Reading a label back: a backslash escapes what follows.\<close>

fun read_label :: "string \<Rightarrow> string" where
  "read_label [] = []"
| "read_label [c] = [c]"
| "read_label (c # d # cs) = (if c = CHR 0x5C then (if d = CHR ''n'' then CHR 0x0A else d) # read_label cs
     else c # read_label (d # cs))"

lemma read_label_label_char: "read_label (label_char c @ t) = c # read_label t"
  by (cases t) (simp_all add: label_char_def)

lemma read_prom_label: "read_label (prom_label v) = v"
  unfolding prom_label_chars by (induction v) (simp_all add: read_label_label_char)

lemma prom_label_one_line: "CHR 0x0A \<notin> set (prom_label v)"
  by (auto simp: prom_label_chars label_char_def split: if_splits)

section \<open>The assessment\<close>

lemma assess_iff:
  "slo_state (assess_operational_slo o' (Some p)) = SloBREACHED \<longleftrightarrow>
     (min_http_requests p \<le> http_requests_of o' \<and> max_http_5xx_ratio p < http_ratio_of o')
     \<or> (\<exists>x\<in>set (os_voice_providers o'). hsnap_state x = HealthOPEN)"
  "slo_state (assess_operational_slo o' (Some p)) = SloHEALTHY \<longleftrightarrow>
     \<not> (min_http_requests p \<le> http_requests_of o' \<and> max_http_5xx_ratio p < http_ratio_of o')
     \<and> (\<forall>x\<in>set (os_voice_providers o'). hsnap_state x \<notin> {HealthOPEN, DEGRADED})
     \<and> int (unassigned_review_required (os_review o')) \<le> max_unassigned_review p
     \<and> int (failed_evidence_runs (os_review o')) \<le> max_failed_runs p"
proof -
  have crit: "list_ex (\<lambda>x. slo_severity x = SloCRITICAL) (concat (map provider_signals xs))
      \<longleftrightarrow> (\<exists>x\<in>set xs. hsnap_state x = HealthOPEN)" for xs
    by (induction xs) (auto simp: provider_signals_def)
  have none: "concat (map provider_signals xs) = [] \<longleftrightarrow> (\<forall>x\<in>set xs. hsnap_state x \<notin> {HealthOPEN, DEGRADED})" for xs
    by (induction xs) (auto simp: provider_signals_def)
  have quiet: "\<not> list_ex (\<lambda>x. slo_severity x = SloCRITICAL) (backlog_signals p o')"
    "\<not> list_ex (\<lambda>x. slo_severity x = SloCRITICAL) (failed_run_signals p o')"
    by (simp_all add: backlog_signals_def failed_run_signals_def Let_def)
  have http: "list_ex (\<lambda>x. slo_severity x = SloCRITICAL) (http_signals p o') \<longleftrightarrow> http_signals p o' \<noteq> []"
    "http_signals p o' \<noteq> [] \<longleftrightarrow> min_http_requests p \<le> http_requests_of o' \<and> max_http_5xx_ratio p < http_ratio_of o'"
    by (simp_all add: http_signals_def)
  show "slo_state (assess_operational_slo o' (Some p)) = SloBREACHED \<longleftrightarrow>
     (min_http_requests p \<le> http_requests_of o' \<and> max_http_5xx_ratio p < http_ratio_of o')
     \<or> (\<exists>x\<in>set (os_voice_providers o'). hsnap_state x = HealthOPEN)"
    using quiet http by (auto simp: assess_operational_slo_def Let_def crit)
  show "slo_state (assess_operational_slo o' (Some p)) = SloHEALTHY \<longleftrightarrow>
     \<not> (min_http_requests p \<le> http_requests_of o' \<and> max_http_5xx_ratio p < http_ratio_of o')
     \<and> (\<forall>x\<in>set (os_voice_providers o'). hsnap_state x \<notin> {HealthOPEN, DEGRADED})
     \<and> int (unassigned_review_required (os_review o')) \<le> max_unassigned_review p
     \<and> int (failed_evidence_runs (os_review o')) \<le> max_failed_runs p"
  proof -
    have "backlog_signals p o' = [] \<longleftrightarrow> int (unassigned_review_required (os_review o')) \<le> max_unassigned_review p"
      "failed_run_signals p o' = [] \<longleftrightarrow> int (failed_evidence_runs (os_review o')) \<le> max_failed_runs p"
      by (auto simp: backlog_signals_def failed_run_signals_def Let_def)
    then show ?thesis using quiet http none [of "os_voice_providers o'"] crit [of "os_voice_providers o'"]
      by (auto simp: assess_operational_slo_def Let_def)
  qed
qed

end
