(* ===== verification/Runtime_Properties.thy ===== *)
theory Runtime_Properties
  imports Samples Webhooks Authentication Metrics
begin

text \<open>
  The properties of the runtime around the interview: webhooks, identities, the streams of audio
  in both directions, the survey of providers and the request metrics.
\<close>

section \<open>Identities\<close>

text \<open>C35. An organisation's resolver, once constructed, accepts only tokens that the token library
  has verified with the configured keys, asymmetric algorithms, audience and issuer. The
  principal belongs to the configured organisation, has the one role that its groups map to, which
  is never the service, and the access policy lets it at sessions of that organisation only (and a
  candidate only at its own).\<close>

theorem organization_identity_confined:
  assumes "oidc_init True given = Inr O1" and "resolve lib hs (OidcResolver O1) = Inr p"
    and "organization = strip (oidc_organization_id given)"
  shows "principal_organization_id p = Some organization \<and> principal_role p \<noteq> RoleSERVICE
    \<and> set (jwt_algorithms O1) \<subseteq> set allowed_asymmetric
    \<and> (\<exists>claims. token_verified lib hs (jwt_settings.truncate O1) claims
       \<and> organization \<in> set (claim_values (jget claims (organization_claim O1)))
       \<and> {r. \<exists>g\<in>set (claim_values (jget claims (groups_claim O1))). dict_get (role_mapping O1) g = Some r}
           = {principal_role p})
    \<and> (\<forall>perm s. require_access p perm (Some s) = Inr () \<longrightarrow> organization_id s = Some organization
         \<and> role_permits (principal_role p) perm
         \<and> (principal_role p = RoleCANDIDATE \<longrightarrow> principal_candidate_ref p = Some (candidate_ref s)))"
proof -
  note ok = oidc_init_ok [OF assms(1)]
  then have org: "oidc_organization_id O1 = organization" by (simp add: assms(3))
  obtain claims where claims: "token_verified lib hs (jwt_settings.truncate O1) claims"
    and made: "oidc_claims_to_principal O1 claims = Inr p"
    using assms(2) unfolding resolve_oidc_Inr by blast
  note p = oidc_principal [OF made conjunct1 [OF ok], unfolded org]
  have "set (jwt_algorithms O1) \<subseteq> set allowed_asymmetric" using ok by (simp add: oidc_ok_def)
  with claims p(2-5) oidc_access [OF assms(2) conjunct1 [OF ok], unfolded org] show ?thesis by blast
qed

text \<open>A configuration, and a library that accepts one token.\<close>

definition sample_oidc :: oidc_settings where
  "sample_oidc = \<lparr> jwks_url = ''https://id.test/keys'', jwt_issuer = ''https://id.test'', jwt_audience = ''nora'',
     jwt_algorithms = [''RS256''], principal_claim = ''sub'', role_claim = [], candidate_ref_claim = ''candidate_ref'',
     leeway_seconds = 30, allow_service_role = False, oidc_organization_id = ''org'',
     organization_claim = ''org_id'', groups_claim = ''groups'',
     role_mapping = [(''hr'', RoleRECRUITER)], candidate_ref_from_subject = True \<rparr>"

definition sample_library :: jwt_library where
  "sample_library opts token = Inr (JObj [(''sub'', JStr ''ann''), (''org_id'', JStr ''org''),
     (''groups'', JList [JStr ''hr''])])"

definition sample_resolver :: oidc_settings where
  "sample_resolver = sample_oidc\<lparr>role_claim := ''__oidc_mapped_role__''\<rparr>"

definition sample_recruiter :: principal where
  "sample_recruiter = \<lparr> principal_id = ''ann'', principal_role = RoleRECRUITER, principal_candidate_ref = None,
     principal_organization_id = Some ''org'' \<rparr>"

lemma sample_resolved:
  "resolve sample_library [(''authorization'', ''Bearer t'')] (OidcResolver sample_resolver) = Inr sample_recruiter"
  unfolding sample_resolver_def sample_recruiter_def by code_simp

theorem organization_identity_confined_witness:
  "resolve sample_library [(''authorization'', ''Bearer t'')] (OidcResolver sample_resolver) = Inr sample_recruiter
     \<and> require_access sample_recruiter READ_SESSION (Some sample_started) = Inr ()
     \<and> organization_id sample_started = Some ''org''"
proof -
  have init: "oidc_init True sample_oidc = Inr sample_resolver"
    unfolding sample_resolver_def by code_simp
  note run = sample_resolved
  have acc: "require_access sample_recruiter READ_SESSION (Some sample_started) = Inr ()"
    by (simp add: require_access_iff may_access_def session_simps sample_recruiter_def)
  have "strip ''org'' = ''org''" by code_simp
  then have "''org'' = strip (oidc_organization_id sample_oidc)" by (simp add: sample_oidc_def)
  from organization_identity_confined [OF init run this] acc run show ?thesis by blast
qed

text \<open>A candidate of the same organisation.\<close>

definition candidate_library :: jwt_library where
  "candidate_library opts token = Inr (JObj [(''sub'', JStr ''cand''), (''org_id'', JStr ''org''),
     (''groups'', JList [JStr ''hr''])])"

definition candidate_resolver :: oidc_settings where
  "candidate_resolver = sample_resolver\<lparr>role_mapping := [(''hr'', RoleCANDIDATE)]\<rparr>"

definition sample_candidate :: principal where
  "sample_candidate = \<lparr> principal_id = ''cand'', principal_role = RoleCANDIDATE,
     principal_candidate_ref = Some ''cand'', principal_organization_id = Some ''org'' \<rparr>"

lemma candidate_resolved:
  "resolve candidate_library [(''authorization'', ''Bearer t'')] (OidcResolver candidate_resolver) = Inr sample_candidate"
  unfolding sample_resolver_def candidate_resolver_def sample_candidate_def by code_simp

section \<open>Webhooks\<close>

text \<open>C36. A delivery ends: with the attempts of a dispatcher (at least one), whatever the receiver
  answers, there is a result unless the HTTP client raises an exception that is not caught. The result
  was reached at one of the attempts, delivered exactly if that attempt got a 2xx answer; every
  earlier attempt was one to be retried; and the back-off doubles between attempts, with no wait after
  the last.\<close>

theorem webhook_delivery_ends:
  assumes "webhook_dispatcher_init D = Inr D'" and "\<forall>i exc. post D' (webhook_message R D' s e sub) i \<noteq> PostRaised exc"
  shows "\<exists>d. deliver_one R D' s e sub = (map (\<lambda>i. fl (retry_base_seconds D' * of_int (2 ^ nat (i - 1)))) [1..wd_attempts d - 1], Inr d)
    \<and> 1 \<le> wd_attempts d \<and> wd_attempts d \<le> max_attempts D' \<and> max_attempts D' \<le> 5
    \<and> (wd_delivered d \<longleftrightarrow> (\<exists>code. post D' (webhook_message R D' s e sub) (wd_attempts d) = Responded code
         \<and> 200 \<le> code \<and> code < 300))
    \<and> (\<forall>i. 1 \<le> i \<longrightarrow> i < wd_attempts d \<longrightarrow> retried (post D' (webhook_message R D' s e sub) i))"
proof -
  let ?send = "post D' (webhook_message R D' s e sub)"
  have bounds: "1 \<le> max_attempts D'" "max_attempts D' \<le> 5"
    using assms(1) by (auto simp: webhook_dispatcher_init_def exn_simps)
  obtain sleeps d where run: "deliver_attempts D' ?send (delivery_result e sub) [1..max_attempts D'] None None = (sleeps, Inr d)"
    using deliver_attempts_total assms(2) by blast
  note ends = deliver_attempts_ends [OF run bounds(1)]
  have "deliver_one R D' s e sub = (map (\<lambda>i. fl (retry_base_seconds D' * of_int (2 ^ nat (i - 1)))) [1..wd_attempts d - 1], Inr d)"
    using run ends(3) by (simp add: deliver_one_def back_off_def [abs_def])
  with ends(1,2,4,5) bounds(2) show ?thesis by blast
qed

definition sample_dispatcher :: webhook_dispatcher where
  "sample_dispatcher = \<lparr> subscriptions = [\<lparr> sub_id = ''hook'', sub_url = ''https://hooks.test'', sub_secret = replicate 32 1,
       sub_organization_id = None, sub_event_types = [SESSION_CREATED] \<rparr>],
     timeout_seconds = 5, max_attempts = 3, retry_base_seconds = 1,
     post = (\<lambda>r i. if i < 3 then Responded 503 else Responded 200), hmac_hex = (\<lambda>k m. ''00'') \<rparr>"

theorem webhook_delivery_ends_witness:
  "\<exists>d. snd (deliver_one sample_runtime sample_dispatcher sample_created (hd created_events)
      (hd (subscriptions sample_dispatcher))) = Inr d \<and> 1 \<le> wd_attempts d \<and> wd_attempts d \<le> 3"
proof -
  have "webhook_dispatcher_init sample_dispatcher = Inr sample_dispatcher"
    by (simp add: webhook_dispatcher_init_def sample_dispatcher_def)
  moreover have "\<forall>i exc. post sample_dispatcher m i \<noteq> PostRaised exc" for m
    by (simp add: sample_dispatcher_def)
  ultimately obtain d where "deliver_one sample_runtime sample_dispatcher sample_created (hd created_events)
      (hd (subscriptions sample_dispatcher))
        = (map (\<lambda>i. fl (retry_base_seconds sample_dispatcher * of_int (2 ^ nat (i - 1)))) [1..wd_attempts d - 1], Inr d)"
    "1 \<le> wd_attempts d" "wd_attempts d \<le> max_attempts sample_dispatcher"
    using webhook_delivery_ends by blast
  then show ?thesis by (auto simp: sample_dispatcher_def)
qed

text \<open>C37. The SQLite store with webhooks refines the SQLite store. It refuses what the store refuses,
  with nothing sent or changed. What the store accepts is stored, under the session's identifier
  only; the stored session is the given one but for a later version and, perhaps, delivery events
  after its own, and its audit chain still verifies. If the save returns, the caller's session is
  the stored one, and its new events are the deliveries of exactly those new events that are safe to
  send, to exactly the subscriptions that ask for them in the session's organisation, in order.\<close>

theorem webhook_store_refines:
  assumes "sql_ok st" and "1 \<le> max_attempts D" and "audit_ok (rt E) s"
    and "webhook_put_session sql_get_session sqlite_put_session E D s st = (st', r)"
  shows "(\<exists>e. sqlite_put_session s st = Inl e \<and> st' = st \<and> r = Inl e)
    \<or> (\<exists>st1 s' new. sqlite_put_session s st = Inr st1 \<and> sql_ok st'
         \<and> sql_get_session st' (session_id s) = Some (serialised s')
         \<and> (\<forall>k. k \<noteq> session_id s \<longrightarrow> sql_get_session st' k = sql_get_session st k)
         \<and> s' = s\<lparr>version := version s', events := events s @ new\<rparr> \<and> version s < version s'
         \<and> audit_ok (rt E) s' \<and> (\<forall>e\<in>set new. event_type e = WEBHOOK_DELIVERY)
         \<and> (\<forall>t. r = Inr t \<longrightarrow> t = s' \<and> map reported new = map (\<lambda>(e, sub). (JStr (sub_id sub), JInt (event_seq e)))
              (webhooks_due D s (new_webhook_events (previous_seq (sql_get_session st (session_id s))) s))))"
  using sqlite.webhook_put_effect [OF assms(1,4)]
proof (elim disjE exE conjE)
  fix st1 s'
  assume a: "sqlite_put_session s st = Inr st1" "sql_ok st'"
    "sql_get_session st' (session_id s) = Some (serialised s')"
    "\<forall>k. k \<noteq> session_id s \<longrightarrow> sql_get_session st' k = sql_get_session st k"
    "s' = s\<lparr>version := version s', events := events s'\<rparr>" "version s < version s'"
    "\<forall>t. r = Inr t \<longrightarrow> t = s'"
    and chain: "audit_ok (rt E) s \<longrightarrow> audit_ok (rt E) s'
      \<and> (\<exists>new. events s' = events s @ new \<and> (\<forall>e\<in>set new. event_type e = WEBHOOK_DELIVERY))"
  obtain new where ok: "audit_ok (rt E) s'" and new: "events s' = events s @ new"
    "\<forall>e\<in>set new. event_type e = WEBHOOK_DELIVERY"
    using chain assms(3) by blast
  have "map reported new = map (\<lambda>(e, sub). (JStr (sub_id sub), JInt (event_seq e)))
      (webhooks_due D s (new_webhook_events (previous_seq (sql_get_session st (session_id s))) s))"
    if "r = Inr t" for t
  proof -
    have t: "t = s'" using a(7) that by blast
    from sqlite.webhook_put_reports [OF assms(4) [unfolded that] assms(3,2)]
    show ?thesis unfolding t new(1) by simp
  qed
  with a ok new show ?thesis by (intro disjI2 exI [of _ st1] exI [of _ s'] exI [of _ new]) auto
qed blast

theorem webhook_store_refines_witness:
  "\<exists>st' r. webhook_put_session sql_get_session sqlite_put_session sample_env sample_dispatcher sample_created
       \<lparr> sql_jobs = [], sql_drafts = [], sql_sessions = [], sql_clock = 0 \<rparr> = (st', r)
     \<and> (\<exists>s'. sql_get_session st' ''session0'' = Some (serialised s') \<and> version sample_created < version s')"
proof -
  let ?st = "\<lparr> sql_jobs = [], sql_drafts = [], sql_sessions = [], sql_clock = 0 \<rparr>"
  obtain st' r where run: "webhook_put_session sql_get_session sqlite_put_session sample_env sample_dispatcher sample_created
      ?st = (st', r)" by (rule prod.exhaust)
  have "sql_ok ?st" by (simp add: sql_ok_def)
  moreover have "1 \<le> max_attempts sample_dispatcher" by (simp add: sample_dispatcher_def)
  moreover have "audit_ok (rt sample_env) sample_created"
    by (simp add: audit_ok_def seq_ok_def session_simps created_events_def sample_event_def HASH_VERSION_def)
  ultimately have "(\<exists>e. sqlite_put_session sample_created ?st = Inl e)
     \<or> (\<exists>s'. sql_get_session st' (session_id sample_created) = Some (serialised s') \<and> version sample_created < version s')"
    using webhook_store_refines [OF _ _ _ run] by blast
  moreover have "sqlite_put_session sample_created ?st \<noteq> Inl e" for e
    by (simp add: sqlite_put_session_def Let_def session_simps)
  moreover have "session_id sample_created = ''session0''" by (simp add: session_simps)
  ultimately show ?thesis using run by auto
qed

section \<open>Audio\<close>

text \<open>C38. In every state that the stream manager can reach, by opening, chunks in any order and any
  number of times, acknowledgements, rotations, reconnections and closings: what was passed on for a
  stream and generation are the chunks 0, 1, 2, ... in order, each once, none skipped, each as decoded
  and none empty; for the current generation they end just before the number expected next, and
  nothing of a later generation was passed on; and the bytes buffered are between 0 and the limit.\<close>

theorem audio_in_order:
  assumes "streams_reach ss hist"
  shows "(\<forall>i g. \<exists>n. map (\<lambda>(j, c, audio). chunk_sequence c) (heard i g hist) = [0..n - 1])
    \<and> (\<forall>(i, c, audio)\<in>set hist. decode_chunk c = Inr audio \<and> audio \<noteq> [])
    \<and> (\<forall>i st token. dict_get ss i = Some (st, token) \<longrightarrow>
         map (\<lambda>(j, c, audio). chunk_sequence c) (heard i (stream_generation st) hist) = [0..next_sequence st - 1]
         \<and> (\<forall>g. stream_generation st < g \<longrightarrow> heard i g hist = [])
         \<and> 0 \<le> buffered_bytes st \<and> buffered_bytes st \<le> max_buffered_bytes (stream_config st))"
proof -
  note ok = streams_reach_ok [OF assms]
  have every: "\<exists>n. in_order n (heard i g hist)" for i g
  proof (cases "dict_get ss i")
    case None
    then show ?thesis using streams_okD(1) [OF ok None] in_order_Nil by metis
  next
    case (Some p)
    then obtain st token where "dict_get ss i = Some (st, token)" by (cases p) auto
    from streams_okD(2) [OF ok this] show ?thesis by (simp add: stream_ok_def)
  qed
  have "decode_chunk c = Inr audio \<and> audio \<noteq> []" if "(i, c, audio) \<in> set hist" for i c audio
  proof -
    have "(i, c, audio) \<in> set (heard i (chunk_generation c) hist)" using that by (simp add: heard_def)
    then show ?thesis using every [of i "chunk_generation c"] by (auto simp: in_order_def)
  qed
  moreover have "\<exists>n. map (\<lambda>(j, c, audio). chunk_sequence c) (heard i g hist) = [0..n - 1]" for i g
    using every [of i g] by (auto simp: in_order_def)
  moreover have "stream_ok i st hist" if "dict_get ss i = Some (st, token)" for i st token
    by (rule streams_okD(2) [OF ok that])
  ultimately show ?thesis unfolding stream_ok_def in_order_def by blast
qed

theorem audio_in_order_witness:
  "\<exists>ss hist. streams_reach ss hist \<and> map (\<lambda>(j, c, audio). audio) hist = [[1, 2]]
     \<and> map (\<lambda>(j, c, audio). chunk_sequence c) (heard ''a'' 0 hist) = [0]"
proof -
  let ?cfg = "\<lparr> encoding = PCM16, sample_rate_hz = 16000, channels = 1, max_chunk_bytes = 4096, max_buffered_bytes = 65536 \<rparr>"
  let ?ss = "fst (open_stream ''a'' ''token'' ''session0'' 0 ?cfg [])"
  obtain c where c: "chunk_from_bytes 0 0 [1, 2] = Inr c" "decode_chunk c = Inr [1, 2]"
    "chunk_sequence c = 0" "chunk_generation c = 0"
    using chunk_roundtrip [of "[1, 2]" 0 0] by auto
  have "streams_reach ?ss []"
    by (rule streams_reach.opened [OF streams_reach.no_streams]) (simp_all add: AudioStreamConfig_def)
  moreover obtain ss' r where run: "accept_chunk ''a'' c ?ss = (ss', Inr (r, Some [1, 2]))"
    by (simp add: accept_chunk_def stream_record_def open_stream_def new_stream_def accept_in_order_def c
        accept_audio_def Let_def)
  ultimately have reach: "streams_reach ss' ([] @ [(''a'', c, [1, 2])])" by (rule streams_reach.passed_on)
  from audio_in_order [OF this] have "\<exists>n. map (\<lambda>(j, c, audio). chunk_sequence c) (heard ''a'' 0 ([] @ [(''a'', c, [1, 2])])) = [0..n - 1]"
    by blast
  then have "map (\<lambda>(j, c, audio). chunk_sequence c) (heard ''a'' 0 [(''a'', c, [1, 2])]) = [0]"
    by (simp add: heard_def c)
  then show ?thesis using reach by (intro exI [of _ ss'] exI [of _ "[(''a'', c, [1, 2])]"]) simp
qed

text \<open>C39. A candidate who speaks while the interviewer's turn is played interrupts it: the operation
  takes the session to listening with no active turn and a generation past that of the output stream,
  and of the chunks that the provider sends while the session is at that generation or a later one,
  none is passed on: the listener hears a prefix of the chunks before the interruption.\<close>

theorem barge_in_stops_audio:
  assumes "voice_transact get put X sid SpeechStarted (st, vs) = ((st', vs'), Inr v)"
    and "phase (state_ref vs sid) = SPEAKING"
    and "tts_session_id out = sid" and "tts_generation out \<le> generation (state_ref vs sid)"
    and "\<forall>(now, ch)\<in>set after. generation (state_ref vs' sid) \<le> generation (state_ref now sid)"
    and "output_chunks get put provider cancelling X1 X2 out (before @ after) failure w = (w', sent, r)"
  shows "phase (state_ref vs' sid) = LISTENING \<and> active_tts_turn_id (state_ref vs' sid) = None
    \<and> interruption_count (state_ref vs' sid) = interruption_count (state_ref vs sid) + 1
    \<and> (\<exists>n \<le> length before. sent = map snd (take n before))"
proof -
  note barge = speech_started_barge_in [OF assms(1,2)]
  obtain out' why where run: "chunk_loop (before @ after) failure out = (out', sent, why)"
    using assms(6) by (cases "chunk_loop (before @ after) failure out")
      (auto simp: output_chunks_def Let_def split: chunks_end.splits if_splits prod.splits sum.splits)
  have "\<forall>(now, ch)\<in>set after. tts_generation out < generation (state_ref now (tts_session_id out))"
    using assms(3-5) barge(1) by fastforce
  from nothing_after_barge_in [OF run this] barge show ?thesis by blast
qed

definition sample_playing :: voice_states where
  "sample_playing = [(''session0'', (new_voice_state ''session0'')\<lparr>phase := SPEAKING,
     active_tts_turn_id := Some ''turn0''\<rparr>)]"

definition sample_voice :: voice_env where
  "sample_voice = \<lparr> venv = sample_env, clock_ms = (\<lambda>n. 100), fold_other = (\<lambda>c. [c]), of_unicode = map char_of \<rparr>"

definition sample_output :: tts_stream where
  "sample_output = \<lparr> tts_stream_id = ''o'', tts_session_id = ''session0'', tts_turn_id = ''turn0'', tts_generation = 0,
     tts_config = \<lparr> tts_encoding_of = TtsPCM16, tts_sample_rate_hz = 24000, tts_channels = 1 \<rparr>,
     tts_closed = False, tts_cancelled = False, chunks_sent = 0, bytes_sent = 0 \<rparr>"

lemma sample_started_audit: "audit_ok (rt sample_env) sample_started"
  by (simp add: audit_ok_def seq_ok_def session_simps created_events_def started_events_def
      sample_event_def HASH_VERSION_def upt_rec)

lemma log_succeeds:
  assumes "audit_ok (rt E) s" and "\<And>s1. audit_ok (rt E) s1 \<Longrightarrow> \<exists>v' s'. k s1 = (v', Inr s')"
  shows "\<exists>v' s'. voice_log v (append_event E ty t p s) k = (v', Inr s')"
proof -
  obtain s1 where s1: "append_event E ty t p s = Inr s1" using append_event_total [OF assms(1)] by blast
  have "audit_ok (rt E) s1" by (rule append_event_audit_ok [OF s1]) (use assms(1) in \<open>simp add: audit_ok_def\<close>)
  from assms(2) [OF this] show ?thesis by (simp add: voice_log_def s1)
qed

lemma sample_interrupts:
  "\<exists>vs' v. voice_transact (\<lambda>st k. Some sample_started) (\<lambda>s st. Inr st) sample_voice ''session0'' SpeechStarted
     ((), sample_playing) = (((), vs'), Inr v)"
proof -
  let ?v = "state_ref sample_playing ''session0''"
  have v: "phase ?v = SPEAKING" by (simp add: state_ref_def sample_playing_def dict_get_or_def)
  have "\<exists>v' s'. speech_started_step sample_voice sample_started ?v = (v', Inr s')"
  proof -
    have st: "status sample_started = RUNNING" and env: "venv sample_voice = sample_env"
      by (simp_all add: session_simps sample_voice_def)
    show ?thesis
      unfolding speech_started_step_def ensure_input_allowed_def Let_def
      by (simp only: v st env simp_thms if_True if_False session_status.distinct voice_phase.distinct)
        (intro log_succeeds sample_started_audit; (assumption | simp add: append_event_total))
  qed
  then show ?thesis
    by (auto simp: voice_transact_def load_session_def voice_op_step_def persist_voice_def)
qed

theorem barge_in_stops_audio_witness:
  "\<exists>vs' v sent w' r. voice_transact (\<lambda>st k. Some sample_started) (\<lambda>s st. Inr st) sample_voice ''session0''
       SpeechStarted ((), sample_playing) = (((), vs'), Inr v)
     \<and> output_chunks (\<lambda>st k. Some sample_started) (\<lambda>s st. Inr st) ''tts'' (Inr ()) sample_voice sample_voice
         sample_output ([] @ [(vs', \<lparr> tts_sequence = 0, tts_chunk_generation = 0, tts_audio = [1] \<rparr>)]) None
         \<lparr> vw_store = ((), []), vw_voice = vs', vw_audio = [], ow_streams = [], ow_active = [], ow_opening = [] \<rparr>
       = (w', sent, r) \<and> sent = []"
proof -
  obtain vs' v where run: "voice_transact (\<lambda>st k. Some sample_started) (\<lambda>s st. Inr st) sample_voice ''session0''
      SpeechStarted ((), sample_playing) = (((), vs'), Inr v)"
    using sample_interrupts by blast
  obtain w' sent r where out: "output_chunks (\<lambda>st k. Some sample_started) (\<lambda>s st. Inr st) ''tts'' (Inr ()) sample_voice
      sample_voice sample_output ([] @ [(vs', \<lparr> tts_sequence = 0, tts_chunk_generation = 0, tts_audio = [1] \<rparr>)]) None
      \<lparr> vw_store = ((), []), vw_voice = vs', vw_audio = [], ow_streams = [], ow_active = [], ow_opening = [] \<rparr>
      = (w', sent, r)"
    by (rule prod_cases3)
  have "phase (state_ref sample_playing ''session0'') = SPEAKING"
    by (simp add: state_ref_def sample_playing_def dict_get_or_def)
  moreover have "tts_session_id sample_output = ''session0''"
    "tts_generation sample_output \<le> generation (state_ref sample_playing ''session0'')"
    by (simp_all add: sample_output_def state_ref_def sample_playing_def dict_get_or_def new_voice_state_def)
  ultimately have "\<exists>n \<le> length ([] :: (voice_states \<times> tts_chunk) list). sent = map snd (take n ([] :: (voice_states \<times> tts_chunk) list))"
    using barge_in_stops_audio [OF run _ _ _ _ out] by simp
  then show ?thesis using run out by auto
qed

section \<open>Request metrics\<close>

text \<open>C40. Whatever requests are served, the metrics stay well formed: a series for each method,
  route and class of status; in each, one counter for each of the increasing bounds, the counters
  rising with the bounds and never above the requests of the series; no negative count, duration or
  number in flight; the total is the sum over the series and the number of requests that have
  ended.\<close>

theorem request_metrics_well_formed:
  assumes "http_metrics_init buckets = Inr M"
  shows "sorted_wrt (<) buckets \<and> distinct (map fst (http_series (fold (serve other) steps M)))
    \<and> requests_total (fold (serve other) steps M) = int (length (filter (\<lambda>x. x \<noteq> RequestBegins) steps))
    \<and> requests_total (fold (serve other) steps M)
        = (\<Sum>kr\<leftarrow>http_series (fold (serve other) steps M). rm_requests (snd kr))
    \<and> 0 \<le> in_flight (fold (serve other) steps M)
    \<and> (\<forall>(k, r)\<in>set (http_series (fold (serve other) steps M)). length (rm_buckets r) = length buckets
         \<and> sorted (rm_buckets r) \<and> (\<forall>n\<in>set (rm_buckets r). 0 \<le> n \<and> n \<le> rm_requests r)
         \<and> 0 \<le> rm_duration_sum r)"
proof -
  let ?M = "fold (serve other) steps M"
  have start: "latency_buckets M = buckets" "requests_total M = 0"
    using assms by (auto simp: http_metrics_init_def exn_simps)
  from serve_ok [OF http_metrics_init_ok [OF assms], of other steps]
  have ok: "http_metrics_ok ?M" and total: "requests_total ?M = int (length (filter (\<lambda>x. x \<noteq> RequestBegins) steps))"
    and bounds: "latency_buckets ?M = buckets" by (simp_all add: start)
  from ok show ?thesis
    unfolding http_metrics_ok_def bounds series_ok_def using total by (auto simp: case_prod_beta)
qed

theorem request_metrics_well_formed_witness:
  "\<exists>M. http_metrics_init [1 / 2, 1] = Inr M
     \<and> requests_total (fold (serve (\<lambda>c. [c])) [RequestBegins, RequestEnds 2 ''get'' ''/v1'' 200 1] M) = 1"
proof -
  obtain M where M: "http_metrics_init [1 / 2, 1] = Inr M"
    by (simp add: http_metrics_init_def)
  from request_metrics_well_formed [OF this, of "\<lambda>c. [c]" "[RequestBegins, RequestEnds 2 ''get'' ''/v1'' 200 1]"] M
  show ?thesis by auto
qed

end
