(* ===== verification/Trace_Export.thy ===== *)
theory Trace_Export
  imports Audit_Chain Review_Service Artifacts
begin

text \<open>
  What leaves the system about a session: the VoxRubric trace (\<^verbatim>\<open>service.py\<close>, \<^verbatim>\<open>export_voxrubric\<close>), the
  review bundle (\<^verbatim>\<open>review_bundle.py\<close>) and the portable evidence bundle (\<^verbatim>\<open>evidence_bundle.py\<close>) with its
  canonical checksum. A model's \<^verbatim>\<open>model_dump\<close> is a JSON object with its fields in order; how pydantic
  prints a time is a parameter. The lemmas: an export succeeds exactly if the audit log verifies;
  the trace holds the transcript and the log; the bundle holds exactly the active evidence, and its
  checksums can be computed again from what it holds.
\<close>

section \<open>Models as JSON\<close>

record printing =
  prt :: runtime
  json_time :: "datetime \<Rightarrow> string"

definition jopt_time :: "printing \<Rightarrow> datetime option \<Rightarrow> json" where
  "jopt_time P t = (case t of None \<Rightarrow> JNull | Some x \<Rightarrow> JStr (json_time P x))"

definition dump_item :: "evidence_item \<Rightarrow> json" where
  "dump_item i = JObj [(''id'', JStr (ev_id i)), (''turn_id'', JStr (ev_turn_id i)),
     (''state'', JStr (evidence_state_value (ev_state i))), (''confidence'', JFloat (ev_confidence i)),
     (''quote'', jopt_str (ev_quote i)), (''note'', JStr (ev_note i)), (''source'', JStr (ev_source i)),
     (''judge_run_id'', jopt_str (ev_judge_run_id i)), (''active'', JBool (ev_active i))]"

definition dump_node :: "competency_evidence \<Rightarrow> json" where
  "dump_node n = JObj [(''competency_id'', JStr (node_competency_id n)),
     (''state'', JStr (evidence_state_value (node_state n))), (''confidence'', jopt_float (node_confidence n)),
     (''evidence'', JList (map dump_item (node_evidence n)))]"

definition dump_run :: "printing \<Rightarrow> evidence_judge_run \<Rightarrow> json" where
  "dump_run P r = JObj [(''id'', JStr (run_id r)), (''judge_id'', JStr (run_judge_id r)),
     (''question_turn_id'', JStr (run_question_turn_id r)), (''answer_turn_id'', JStr (run_answer_turn_id r)),
     (''competency_ids'', jstrs (run_competency_ids r)), (''created_at'', JStr (json_time P (run_created_at r))),
     (''transcript_revision_count'', JInt (run_transcript_revision_count r)),
     (''observation_ids'', jstrs (run_observation_ids r)), (''audit'', JObj (run_audit r)),
     (''error_type'', jopt_str (run_error_type r)), (''error'', jopt_str (run_error r)),
     (''supersedes_run_id'', jopt_str (run_supersedes_run_id r))]"

definition dump_revision :: "transcript_revision \<Rightarrow> json" where
  "dump_revision r = JObj [(''id'', JStr (rev_id r)), (''turn_id'', JStr (rev_turn_id r)),
     (''original_text'', JStr (rev_original_text r)), (''corrected_text'', JStr (rev_corrected_text r)),
     (''reason'', jopt_str (rev_reason r))]"

definition dump_appeal :: "candidate_appeal \<Rightarrow> json" where
  "dump_appeal a = JObj [(''id'', JStr (appeal_id a)), (''message'', JStr (appeal_message a)),
     (''turn_ids'', jstrs (appeal_turn_ids a)),
     (''status'', JStr (case appeal_status a of AppealPENDING \<Rightarrow> ''pending'' | AppealREVIEWED \<Rightarrow> ''reviewed'')),
     (''reviewed_by'', jopt_str (appeal_reviewed_by a)), (''review_note'', jopt_str (appeal_review_note a))]"

definition dump_signal :: "integrity_signal \<Rightarrow> json" where
  "dump_signal g = JObj [(''id'', JStr (signal_id g)), (''kind'', JStr (signal_kind g)),
     (''confidence'', JFloat (signal_confidence g)), (''note'', JStr (signal_note g)),
     (''evidence'', JObj (signal_evidence g)), (''requires_human_review'', JBool (requires_human_review g)),
     (''review_status'', JStr (case signal_review_status g of
        IntegrityPENDING \<Rightarrow> ''pending'' | IntegrityREVIEWED \<Rightarrow> ''reviewed'')),
     (''reviewed_by'', jopt_str (signal_reviewed_by g)), (''review_note'', jopt_str (signal_review_note g))]"

definition dump_tool :: "tool_invocation \<Rightarrow> json" where
  "dump_tool t = JObj [(''id'', JStr (tool_id t)), (''kind'', JStr (tool_kind_value (tool_kind t))),
     (''title'', JStr (tool_title t)), (''instructions'', JStr (tool_instructions t)),
     (''competency_tags'', jstrs (tool_competency_tags t)),
     (''status'', JStr (tool_status_value (tool_status t))), (''payload'', JObj (tool_payload t)),
     (''opened_from_turn_id'', jopt_str (opened_from_turn_id t))]"

definition dump_submission :: "tool_submission \<Rightarrow> json" where
  "dump_submission s = JObj [(''id'', JStr (sub_id s)), (''tool_id'', JStr (sub_tool_id s)),
     (''content'', JObj (sub_content s))]"

definition dump_evaluation :: "tool_evaluation \<Rightarrow> json" where
  "dump_evaluation v = JObj [(''tool_id'', JStr (eval_tool_id v)), (''submission_id'', JStr (eval_submission_id v)),
     (''passed'', jopt_bool (eval_passed v)), (''score'', jopt_float (eval_score v)),
     (''summary'', JStr (eval_summary v)), (''evidence'', JObj (eval_evidence v))]"

section \<open>The trace\<close>

record trace =
  trace_session_id :: string
  trace_role :: string
  trace_locale :: string
  trace_turns :: "jdict list"
  trace_scorecards :: "jdict list"
  trace_metadata :: jdict

definition trace_turn :: "turn \<Rightarrow> jdict" where
  "trace_turn t = [(''id'', JStr (turn_id t)), (''speaker'', JStr (speaker_value (speaker t))),
     (''text'', JStr (turn_text t)), (''parent_turn_id'', jopt_str (parent_turn_id t)),
     (''rubric_tags'', jstrs (competency_tags t)), (''response_latency_ms'', jopt_int (response_latency_ms t)),
     (''metadata'', JObj (metadata t))]"

definition anchor_turns :: "interview_session \<Rightarrow> nat" where
  "anchor_turns s = length (filter (\<lambda>t. speaker t = INTERVIEWER
     \<and> jget (metadata t) ''question_lane'' = JStr (lane_value ANCHOR)) (turns s))"

definition candidate_controls :: "interview_session \<Rightarrow> json list" where
  "candidate_controls s = map (\<lambda>e. JObj (event_payload e))
     (filter (\<lambda>e. event_type e = CANDIDATE_CONTROL) (events s))"

definition voice_event_dump :: "interview_event \<Rightarrow> json" where
  "voice_event_dump e = JObj [(''seq'', JInt (event_seq e)), (''type'', JStr (event_type_value (event_type e))),
     (''turn_id'', jopt_str (event_turn_id e)), (''payload'', JObj (event_payload e))]"

definition judge_failure_dump :: "interview_event \<Rightarrow> json" where
  "judge_failure_dump e = JObj [(''seq'', JInt (event_seq e)), (''turn_id'', jopt_str (event_turn_id e)),
     (''payload'', JObj (event_payload e))]"

definition profiled :: "turn \<Rightarrow> bool" where
  "profiled t = (speaker t = CANDIDATE \<and> (dict_get (metadata t) ''asr_locale'' \<noteq> None
     \<or> dict_get (metadata t) ''asr_reference_text'' \<noteq> None
     \<or> dict_get (metadata t) ''asr_critical_terms'' \<noteq> None))"

definition language_profile :: "turn \<Rightarrow> jdict" where
  "language_profile t = [(''turn_id'', JStr (turn_id t)), (''locale'', jget (metadata t) ''asr_locale''),
     (''dialect'', jget (metadata t) ''asr_dialect''),
     (''code_switch_detected'', jget (metadata t) ''code_switch_detected''),
     (''code_switch_expected'', jget (metadata t) ''code_switch_expected''),
     (''technical_vocabulary_packs'', dict_get_or (metadata t) ''technical_vocabulary_packs'' (JList [])),
     (''technical_terms_detected'', dict_get_or (metadata t) ''technical_terms_detected'' (JList [])),
     (''asr_reference_text'', jget (metadata t) ''asr_reference_text''),
     (''asr_critical_terms'', dict_get_or (metadata t) ''asr_critical_terms'' (JList []))]"

definition audit_event_dump :: "runtime \<Rightarrow> interview_event \<Rightarrow> json" where
  "audit_event_dump R e = JObj [(''seq'', JInt (event_seq e)), (''type'', JStr (event_type_value (event_type e))),
     (''turn_id'', jopt_str (event_turn_id e)), (''payload'', JObj (event_payload e)),
     (''created_at'', JStr (isoformat R (event_created_at e))), (''hash_version'', jopt_int (hash_version e)),
     (''prev_hash'', jopt_str (prev_hash e)), (''event_hash'', jopt_str (event_hash e))]"

definition audit_anchor :: "interview_session \<Rightarrow> string option \<Rightarrow> jdict" where
  "audit_anchor s head = [(''verified'', if head \<noteq> None then JBool True else JNull),
     (''head_hash'', jopt_str head), (''event_count'', JInt (int (length (events s)))),
     (''hash_version'', if head \<noteq> None then JInt 1 else JNull)]"

definition trace_metadata_of :: "printing \<Rightarrow> interview_session \<Rightarrow> job_spec \<Rightarrow> string option \<Rightarrow> jdict" where
  "trace_metadata_of P s job head =
     (let profiles = map language_profile (filter profiled (turns s))
      in [(''source'', JStr ''nora-interviewer''), (''job_id'', JStr (job_key job)),
          (''candidate_ref'', JStr (candidate_ref s)), (''status'', JStr (status_value (status s))),
          (''anchor_ratio_target'', JFloat (anchor_ratio job)), (''anchor_turns'', JInt (int (anchor_turns s))),
          (''interviewer_turns'', JInt (asked_questions s)), (''candidate_controls'', JList (candidate_controls s)),
          (''voice_events'', JList (map voice_event_dump
             (filter (\<lambda>e. startswith (event_type_value (event_type e)) ''voice_'') (events s)))),
          (''language_profiles'', JList (map JObj profiles)),
          (''asr_preservation_turn_ids'', JList (map (\<lambda>p. jget p ''turn_id'')
             (filter (\<lambda>p. jget p ''asr_reference_text'' \<noteq> JNull \<or> truthy (jget p ''asr_critical_terms'')) profiles))),
          (''code_switch_turn_ids'', JList (map (\<lambda>p. jget p ''turn_id'')
             (filter (\<lambda>p. truthy (jget p ''code_switch_detected'')) profiles))),
          (''evidence_judge_failures'', JList (map judge_failure_dump
             (filter (\<lambda>e. event_type e = EVIDENCE_JUDGE_FAILED) (events s)))),
          (''audit_chain'', JObj (audit_anchor s head)),
          (''audit_events'', JList (map (audit_event_dump (prt P)) (events s))),
          (''evidence_graph'', JObj (map (\<lambda>kn. (fst kn, dump_node (snd kn))) (evidence_graph s))),
          (''evidence_judge_runs'', JList (map (dump_run P) (evidence_judge_runs s))),
          (''transcript_revisions'', JList (map dump_revision (transcript_revisions s))),
          (''appeals'', JList (map dump_appeal (appeals s))),
          (''integrity_level'', JStr (integrity_level_value (integrity_level s))),
          (''integrity_signals'', JList (map dump_signal (integrity_signals s))),
          (''tools'', JList (map dump_tool (tools s))),
          (''tool_submissions'', JList (map dump_submission (tool_submissions s))),
          (''tool_evaluations'', JList (map dump_evaluation (tool_evaluations s))),
          (''event_count'', JInt (int (length (events s))))])"

definition export_trace :: "printing \<Rightarrow> interview_session \<Rightarrow> job_spec \<Rightarrow> trace result" where
  "export_trace P s job = ebind (verify_event_chain (prt P) (events s)) (\<lambda>head.
     Inr \<lparr> trace_session_id = session_id s, trace_role = job_title job, trace_locale = session_locale s,
       trace_turns = map trace_turn (turns s), trace_scorecards = [],
       trace_metadata = trace_metadata_of P s job head \<rparr>)"

definition export_voxrubric :: "printing \<Rightarrow> ('st \<Rightarrow> string \<Rightarrow> interview_session option)
    \<Rightarrow> ('st \<Rightarrow> string \<Rightarrow> job_spec option) \<Rightarrow> string \<Rightarrow> 'st \<Rightarrow> trace result" where
  "export_voxrubric P get get_job sid st =
     ebind (get_session_and_job get get_job sid st) (\<lambda>(s, job). export_trace P s job)"

definition dump_trace :: "trace \<Rightarrow> json" where
  "dump_trace t = JObj [(''session_id'', JStr (trace_session_id t)), (''role'', JStr (trace_role t)),
     (''locale'', JStr (trace_locale t)), (''turns'', JList (map JObj (trace_turns t))),
     (''scorecards'', JList (map JObj (trace_scorecards t))), (''metadata'', JObj (trace_metadata t))]"

section \<open>The review bundle\<close>

record audit_summary =
  sum_verified :: "bool option"
  sum_head_hash :: "string option"
  sum_event_count :: int
  sum_hash_version :: "int option"

definition AuditSummary :: "audit_summary \<Rightarrow> audit_summary result" where
  "AuditSummary a = raise_if (\<not> (opt_all is_hex_digest (sum_head_hash a) \<and> 0 \<le> sum_event_count a
     \<and> opt_all (\<lambda>v. 1 \<le> v) (sum_hash_version a))) (ValidationError ''AuditBundleSummary'') (Inr a)"

record review_bundle =
  bundle_generated_at :: datetime
  bundle_report :: session_report
  bundle_trace :: trace
  bundle_audit :: audit_summary

text \<open>Reading the anchor back. The trace is one that was exported: values of other types, which pydantic
  would turn into the type asked for or refuse, do not come up, and are refused here.\<close>

definition read_bool :: "json \<Rightarrow> bool option result" where
  "read_bool v = (case v of JNull \<Rightarrow> Inr None | JBool b \<Rightarrow> Inr (Some b)
     | _ \<Rightarrow> Inl (ValidationError ''AuditBundleSummary''))"

definition read_text :: "json \<Rightarrow> string option result" where
  "read_text v = (case v of JNull \<Rightarrow> Inr None | JStr t \<Rightarrow> Inr (Some t)
     | _ \<Rightarrow> Inl (ValidationError ''AuditBundleSummary''))"

definition read_int :: "json \<Rightarrow> int option result" where
  "read_int v = (case v of JNull \<Rightarrow> Inr None | JInt i \<Rightarrow> Inr (Some i)
     | _ \<Rightarrow> Inl (ValidationError ''AuditBundleSummary''))"

definition build_review_bundle :: "env \<Rightarrow> session_report \<Rightarrow> trace \<Rightarrow> review_bundle result" where
  "build_review_bundle E report t =
     (let raw = (case dict_get_or (trace_metadata t) ''audit_chain'' (JObj []) of JObj d \<Rightarrow> d | _ \<Rightarrow> []);
          n = dict_get_or raw ''event_count'' (dict_get_or (trace_metadata t) ''event_count'' (JInt 0))
      in ebind (read_bool (jget raw ''verified'')) (\<lambda>verified.
         ebind (read_text (jget raw ''head_hash'')) (\<lambda>head.
         ebind (if truthy n then read_int n else Inr (Some 0)) (\<lambda>num.
         ebind (read_int (jget raw ''hash_version'')) (\<lambda>ver.
         ebind (AuditSummary \<lparr> sum_verified = verified, sum_head_hash = head,
                  sum_event_count = (case num of None \<Rightarrow> 0 | Some k \<Rightarrow> k), sum_hash_version = ver \<rparr>) (\<lambda>a.
         Inr \<lparr> bundle_generated_at = now_at E ''bundle'' 0, bundle_report = report, bundle_trace = t,
               bundle_audit = a \<rparr>))))))"

section \<open>The portable bundle\<close>

record artifact_reference =
  aref_artifact_id :: string
  aref_kind :: string
  aref_media_type :: string
  aref_size_bytes :: int
  aref_sha256 :: string
  aref_deleted :: bool

record evidence_record =
  erec_competency_id :: string
  erec_state :: string
  erec_confidence :: "rat option"
  erec_turn_id :: string
  erec_source :: string
  erec_note :: string
  erec_quote :: "string option"
  erec_quote_sha256 :: "string option"

record voxrubric_anchor =
  vox_trace_sha256 :: string
  vox_turn_count :: int
  vox_scorecard_count :: int

record evidence_bundle =
  eb_generated_at :: datetime
  eb_organization_id :: "string option"
  eb_session_id :: string
  eb_job_id :: string
  eb_role :: string
  eb_locale :: string
  eb_evidence :: "evidence_record list"
  eb_artifacts :: "artifact_reference list"
  eb_audit :: audit_summary
  eb_voxrubric :: voxrubric_anchor
  eb_bundle_sha256 :: string

definition canonical_sha256 :: "runtime \<Rightarrow> json \<Rightarrow> string" where
  "canonical_sha256 R payload = sha256_hex R (json_dumps (float_repr R) payload)"

definition portable_record :: "runtime \<Rightarrow> string \<Rightarrow> evidence_item \<Rightarrow> evidence_record" where
  "portable_record R cid i = \<lparr> erec_competency_id = cid, erec_state = evidence_state_value (ev_state i),
     erec_confidence = Some (ev_confidence i), erec_turn_id = ev_turn_id i, erec_source = ev_source i,
     erec_note = ev_note i, erec_quote = ev_quote i,
     erec_quote_sha256 = map_option (sha256_hex R) (ev_quote i) \<rparr>"

definition evidence_record_of :: "runtime \<Rightarrow> string \<Rightarrow> evidence_item \<Rightarrow> evidence_record result" where
  "evidence_record_of R cid i =
     raise_if (\<not> (0 \<le> ev_confidence i \<and> ev_confidence i \<le> 1
         \<and> opt_all is_hex_digest (erec_quote_sha256 (portable_record R cid i))))
       (ValidationError ''PortableEvidenceRecord'') (Inr (portable_record R cid i))"

definition active_evidence :: "interview_session \<Rightarrow> (string \<times> evidence_item) list" where
  "active_evidence s = concat (map (\<lambda>cid. case dict_get (evidence_graph s) cid of
      None \<Rightarrow> [] | Some n \<Rightarrow> map (Pair cid) (filter ev_active (node_evidence n)))
    (sort (map fst (evidence_graph s))))"

definition evidence_records :: "runtime \<Rightarrow> interview_session \<Rightarrow> evidence_record list result" where
  "evidence_records R s = emap (\<lambda>(cid, i). evidence_record_of R cid i) (active_evidence s)"

definition artifact_reference_of :: "artifact_record \<Rightarrow> artifact_reference result" where
  "artifact_reference_of a =
     raise_if (\<not> (0 \<le> art_size_bytes a \<and> is_hex_digest (art_sha256 a)))
       (ValidationError ''PortableArtifactReference'')
       (Inr \<lparr> aref_artifact_id = art_id a, aref_kind = art_kind a, aref_media_type = art_media_type a,
          aref_size_bytes = art_size_bytes a, aref_sha256 = art_sha256 a,
          aref_deleted = (art_deleted_at a \<noteq> None) \<rparr>)"

definition artifact_references :: "interview_session \<Rightarrow> artifact_reference list result" where
  "artifact_references s = emap artifact_reference_of (sort_key art_id (artifacts s))"

definition dump_record :: "evidence_record \<Rightarrow> json" where
  "dump_record r = JObj [(''competency_id'', JStr (erec_competency_id r)), (''state'', JStr (erec_state r)),
     (''confidence'', jopt_float (erec_confidence r)), (''turn_id'', JStr (erec_turn_id r)),
     (''source'', JStr (erec_source r)), (''note'', JStr (erec_note r)), (''quote'', jopt_str (erec_quote r)),
     (''quote_sha256'', jopt_str (erec_quote_sha256 r))]"

definition dump_reference :: "artifact_reference \<Rightarrow> json" where
  "dump_reference a = JObj [(''artifact_id'', JStr (aref_artifact_id a)), (''kind'', JStr (aref_kind a)),
     (''media_type'', JStr (aref_media_type a)), (''size_bytes'', JInt (aref_size_bytes a)),
     (''sha256'', JStr (aref_sha256 a)), (''deleted'', JBool (aref_deleted a))]"

definition dump_audit :: "audit_summary \<Rightarrow> json" where
  "dump_audit a = JObj [(''verified'', jopt_bool (sum_verified a)), (''head_hash'', jopt_str (sum_head_hash a)),
     (''event_count'', JInt (sum_event_count a)), (''hash_version'', jopt_int (sum_hash_version a))]"

definition dump_anchor :: "voxrubric_anchor \<Rightarrow> json" where
  "dump_anchor v = JObj [(''schema'', JStr ''nora.voxrubric.anchor.v1''),
     (''trace_sha256'', JStr (vox_trace_sha256 v)), (''turn_count'', JInt (vox_turn_count v)),
     (''scorecard_count'', JInt (vox_scorecard_count v))]"

text \<open>What the checksum is of.\<close>

definition unsigned_bundle :: "string option \<Rightarrow> string \<Rightarrow> string \<Rightarrow> string \<Rightarrow> string
    \<Rightarrow> evidence_record list \<Rightarrow> artifact_reference list \<Rightarrow> audit_summary \<Rightarrow> voxrubric_anchor \<Rightarrow> json" where
  "unsigned_bundle org sid jid role loc recs refs audit vox =
     JObj [(''schema'', JStr ''nora.evidence.bundle.v1''), (''organization_id'', jopt_str org),
       (''session_id'', JStr sid), (''job_id'', JStr jid), (''role'', JStr role), (''locale'', JStr loc),
       (''evidence'', JList (map dump_record recs)), (''artifacts'', JList (map dump_reference refs)),
       (''audit'', dump_audit audit), (''voxrubric'', dump_anchor vox)]"

definition build_evidence_bundle :: "env \<Rightarrow> interview_session \<Rightarrow> job_spec \<Rightarrow> trace \<Rightarrow> evidence_bundle result" where
  "build_evidence_bundle E s job t =
     ebind (verify_event_chain (rt E) (events s)) (\<lambda>head.
     ebind (AuditSummary \<lparr> sum_verified = (if head \<noteq> None then Some True else None), sum_head_hash = head,
              sum_event_count = int (length (events s)),
              sum_hash_version = (if head \<noteq> None then Some 1 else None) \<rparr>) (\<lambda>audit.
     let sum = canonical_sha256 (rt E) (dump_trace t);
         vox = \<lparr> vox_trace_sha256 = sum, vox_turn_count = int (length (trace_turns t)),
           vox_scorecard_count = int (length (trace_scorecards t)) \<rparr>
     in raise_if (\<not> is_hex_digest sum) (ValidationError ''PortableVoxRubricAnchor'')
       (ebind (evidence_records (rt E) s) (\<lambda>recs.
        ebind (artifact_references s) (\<lambda>refs.
        let total = canonical_sha256 (rt E) (unsigned_bundle (organization_id s) (session_id s) (job_key job)
              (job_title job) (session_locale s) recs refs audit vox)
        in raise_if (\<not> is_hex_digest total) (ValidationError ''PortableEvidenceBundle'')
          (Inr \<lparr> eb_generated_at = now_at E ''bundle'' 0, eb_organization_id = organization_id s,
             eb_session_id = session_id s, eb_job_id = job_key job, eb_role = job_title job,
             eb_locale = session_locale s, eb_evidence = recs, eb_artifacts = refs, eb_audit = audit,
             eb_voxrubric = vox, eb_bundle_sha256 = total \<rparr>))))))"

section \<open>Exports\<close>

lemma export_trace_iff: "(\<exists>t. export_trace P s job = Inr t) \<longleftrightarrow> (\<exists>head. verify_event_chain (prt P) (events s) = Inr head)"
  by (auto simp: export_trace_def exn_simps)

lemma export_trace_Inr:
  assumes "export_trace P s job = Inr t"
  obtains head where "verify_event_chain (prt P) (events s) = Inr head"
    and "trace_turns t = map trace_turn (turns s)"
    and "jget (trace_metadata t) ''audit_chain'' = JObj (audit_anchor s head)"
    and "jget (trace_metadata t) ''audit_events'' = JList (map (audit_event_dump (prt P)) (events s))"
  using assms by (auto simp: export_trace_def exn_simps trace_metadata_of_def jget_def Let_def)

lemma evidence_records_Inr:
  "evidence_records R s = Inr recs \<longleftrightarrow>
     (\<forall>(cid, i)\<in>set (active_evidence s). 0 \<le> ev_confidence i \<and> ev_confidence i \<le> 1
        \<and> opt_all is_hex_digest (map_option (sha256_hex R) (ev_quote i)))
   \<and> recs = map (\<lambda>(cid, i). portable_record R cid i) (active_evidence s)"
  unfolding evidence_records_def
  by (subst emap_Inr_map [where P = "\<lambda>(cid, i). 0 \<le> ev_confidence i \<and> ev_confidence i \<le> 1
        \<and> opt_all is_hex_digest (map_option (sha256_hex R) (ev_quote i))"
      and g = "\<lambda>(cid, i). portable_record R cid i"])
    (auto simp: evidence_record_of_def portable_record_def raise_if_def split: if_splits)

lemma artifact_references_Inr:
  "artifact_references s = Inr refs \<longleftrightarrow>
     (\<forall>a\<in>set (artifacts s). 0 \<le> art_size_bytes a \<and> is_hex_digest (art_sha256 a))
   \<and> refs = map (\<lambda>a. \<lparr> aref_artifact_id = art_id a, aref_kind = art_kind a, aref_media_type = art_media_type a,
          aref_size_bytes = art_size_bytes a, aref_sha256 = art_sha256 a,
          aref_deleted = (art_deleted_at a \<noteq> None) \<rparr>) (sort_key art_id (artifacts s))"
  unfolding artifact_references_def
  by (subst emap_Inr_map [where P = "\<lambda>a. 0 \<le> art_size_bytes a \<and> is_hex_digest (art_sha256 a)"
      and g = "\<lambda>a. \<lparr> aref_artifact_id = art_id a, aref_kind = art_kind a, aref_media_type = art_media_type a,
          aref_size_bytes = art_size_bytes a, aref_sha256 = art_sha256 a,
          aref_deleted = (art_deleted_at a \<noteq> None) \<rparr>"])
    (auto simp: artifact_reference_of_def raise_if_def split: if_splits)

lemma mem_active_evidence:
  assumes "distinct (map fst (evidence_graph s))"
  shows "(cid, i) \<in> set (active_evidence s) \<longleftrightarrow>
     (\<exists>n. (cid, n) \<in> set (evidence_graph s) \<and> i \<in> set (node_evidence n) \<and> ev_active i)"
  using assms by (auto simp: active_evidence_def split: option.splits) (force dest: map_of_SomeD)+

lemma build_evidence_bundle_Inr:
  assumes "build_evidence_bundle E s job t = Inr b"
  shows "evidence_records (rt E) s = Inr (eb_evidence b)" and "artifact_references s = Inr (eb_artifacts b)"
    and "vox_trace_sha256 (eb_voxrubric b) = canonical_sha256 (rt E) (dump_trace t)"
    and "verify_event_chain (rt E) (events s) = Inr (sum_head_hash (eb_audit b))"
    and "sum_event_count (eb_audit b) = int (length (events s))"
    and "eb_bundle_sha256 b = canonical_sha256 (rt E) (unsigned_bundle (eb_organization_id b) (eb_session_id b)
      (eb_job_id b) (eb_role b) (eb_locale b) (eb_evidence b) (eb_artifacts b) (eb_audit b) (eb_voxrubric b))"
    and "eb_session_id b = session_id s" and "eb_organization_id b = organization_id s"
  using assms by (auto simp: build_evidence_bundle_def exn_simps Let_def AuditSummary_def)

lemma review_bundle_anchor:
  assumes "export_trace P s job = Inr t" and "build_review_bundle E report t = Inr b"
  shows "verify_event_chain (prt P) (events s) = Inr (sum_head_hash (bundle_audit b))
    \<and> sum_event_count (bundle_audit b) = int (length (events s))
    \<and> (sum_verified (bundle_audit b) = Some True \<longleftrightarrow> sum_head_hash (bundle_audit b) \<noteq> None)"
proof -
  obtain head where head: "verify_event_chain (prt P) (events s) = Inr head"
    and anchor: "jget (trace_metadata t) ''audit_chain'' = JObj (audit_anchor s head)"
    by (rule export_trace_Inr [OF assms(1)])
  then have "dict_get_or (trace_metadata t) ''audit_chain'' (JObj []) = JObj (audit_anchor s head)"
    by (auto simp: jget_def dict_get_or_def split: option.splits)
  then show ?thesis
    using assms(2) head
    by (cases head) (auto simp: build_review_bundle_def exn_simps Let_def AuditSummary_def audit_anchor_def jget_def
        read_bool_def read_text_def read_int_def jopt_str_def dict_get_or_def split: if_splits)
qed

end
