(* ===== verification/Counterfactual.thy ===== *)
theory Counterfactual
  imports Py_Float Brains
begin

text \<open>
  \<^verbatim>\<open>counterfactual.py\<close>: another brain is asked for the decisions that were recorded in a session, with the
  answers held fixed, and its questions are compared with the recorded ones. The lemmas: which answers
  are compared, with which question and on which transcript; and that what is not rebuilt from the
  transcript is that of the end of the session.
\<close>

section \<open>Similarity\<close>

text \<open>\<^verbatim>\<open>str.casefold\<close>: of the characters below 256, \<^verbatim>\<open>0xDF\<close> becomes two letters and \<^verbatim>\<open>0xB5\<close> a letter that
  no other character becomes, for which it stands itself.\<close>

definition fold_char :: "char \<Rightarrow> string" where
  "fold_char c = (let n = (of_char c :: nat) in
     if 65 \<le> n \<and> n \<le> 90 \<or> 192 \<le> n \<and> n \<le> 222 \<and> n \<noteq> 215 then [char_of (n + 32)]
     else if n = 223 then ''ss'' else [c])"

definition word_tokens :: "string \<Rightarrow> string list" where
  "word_tokens t = remdups (map (\<lambda>w. concat (map fold_char w)) (findall_words t))"

text \<open>Sets as lists without duplicates.\<close>

definition jaccard :: "string list \<Rightarrow> string list \<Rightarrow> rat" where
  "jaccard l r =
     (if l = [] \<and> r = [] then 1
      else fl (of_nat (length (filter (\<lambda>x. x \<in> set r) l)) / of_nat (length (remdups (l @ r)))))"

text \<open>\<^verbatim>\<open>statistics.fmean\<close>: the sum is rounded once, then the quotient.\<close>

definition fmean :: "rat list \<Rightarrow> rat" where
  "fmean xs = fl (fl (sum_list xs) / of_nat (length xs))"

section \<open>The state of a decision\<close>

definition derived_covered :: "turn list \<Rightarrow> string list" where
  "derived_covered past = fold (\<lambda>t covered.
     if speaker t \<noteq> CANDIDATE then covered
     else case parent_turn_id t of
       None \<Rightarrow> covered
     | Some pid \<Rightarrow>
         if pid = [] then covered
         else case find_last (\<lambda>q. turn_id q = pid) past of
           None \<Rightarrow> covered
         | Some q \<Rightarrow> fold (\<lambda>tag acc. if tag \<in> set acc then acc else acc @ [tag]) (competency_tags q) covered)
     past []"

definition count_follow_up :: "turn \<Rightarrow> (string, int) dict \<Rightarrow> (string, int) dict" where
  "count_follow_up t d =
     (case (parent_turn_id t, competency_tags t) of
        (Some pid, key # _) \<Rightarrow>
          if is_evaluative_question t \<and> pid \<noteq> [] then dict_set key (dict_get_or d key 0 + 1) d else d
      | _ \<Rightarrow> d)"

text \<open>The recorded list of covered competencies, whose entries the service writes as strings.\<close>

definition recorded_covered :: "interview_session \<Rightarrow> turn \<Rightarrow> string list option" where
  "recorded_covered s nxt =
     (case find (\<lambda>e. event_turn_id e = Some (turn_id nxt) \<and> event_type e = INTERVIEWER_TURN) (events s) of
        None \<Rightarrow> None
      | Some e \<Rightarrow> (case jget (event_payload e) ''covered_competencies'' of
            JList vs \<Rightarrow> Some (List.map_filter (\<lambda>v. case v of JStr t \<Rightarrow> Some t | _ \<Rightarrow> None) vs)
          | _ \<Rightarrow> None))"

definition snapshot_for_decision :: "interview_session \<Rightarrow> turn list \<Rightarrow> turn \<Rightarrow> interview_session" where
  "snapshot_for_decision s past nxt =
     s\<lparr>turns := past, status := RUNNING, paused := False,
       asked_questions := int (length (filter is_evaluative_question past)),
       asked_anchor_competencies := concat (map competency_tags
         (filter (\<lambda>t. is_evaluative_question t \<and> jget (metadata t) ''question_lane'' = JStr ''anchor'') past)),
       followups_by_competency := fold count_follow_up past [],
       covered_competencies := (case recorded_covered s nxt of
           Some cs \<Rightarrow> cs | None \<Rightarrow> derived_covered past)\<rparr>"

section \<open>The comparison\<close>

record decision_comparison =
  cmp_candidate_turn_id :: string
  cmp_original_turn_id :: string
  cmp_original_text :: string
  cmp_alternate_text :: string
  cmp_original_competencies :: "string list"
  cmp_alternate_competencies :: "string list"
  cmp_competency_jaccard :: rat
  cmp_question_jaccard :: rat
  cmp_original_followup :: bool
  cmp_alternate_followup :: bool
  cmp_original_complete :: bool
  cmp_alternate_complete :: bool

record counterfactual_report =
  cfr_session_id :: string
  cfr_comparisons :: "decision_comparison list"
  cfr_followup_agreement :: "rat option"
  cfr_completion_agreement :: "rat option"
  cfr_mean_competency :: "rat option"
  cfr_mean_question :: "rat option"
  cfr_state_reconstruction :: string

definition compare_decision :: "turn \<Rightarrow> turn \<Rightarrow> agent_decision \<Rightarrow> decision_comparison" where
  "compare_decision answer nxt alt =
     \<lparr> cmp_candidate_turn_id = turn_id answer, cmp_original_turn_id = turn_id nxt,
       cmp_original_text = turn_text nxt, cmp_alternate_text = decision_text alt,
       cmp_original_competencies = sorted_set (competency_tags nxt),
       cmp_alternate_competencies = sorted_set (decision_tags alt),
       cmp_competency_jaccard = py_round (jaccard (remdups (competency_tags nxt)) (remdups (decision_tags alt))) 4,
       cmp_question_jaccard = py_round (jaccard (word_tokens (turn_text nxt)) (word_tokens (decision_text alt))) 4,
       cmp_original_followup = (parent_turn_id nxt = Some (turn_id answer)),
       cmp_alternate_followup = (decision_parent alt = Some (turn_id answer)),
       cmp_original_complete = (jget (metadata nxt) ''question_lane'' = JStr ''closing''),
       cmp_alternate_complete = completes_interview alt \<rparr>"

text \<open>The turns before, and those still to come. What the brain changes in its copy is dropped.\<close>

fun compare_turns :: "brain \<Rightarrow> interview_session \<Rightarrow> job_spec \<Rightarrow> turn list \<Rightarrow> turn list
    \<Rightarrow> decision_comparison list result" where
  "compare_turns B s job before [] = Inr []"
| "compare_turns B s job before (t # later) =
     (if speaker t \<noteq> CANDIDATE then compare_turns B s job (before @ [t]) later
      else case find is_evaluative_question later of
        None \<Rightarrow> compare_turns B s job (before @ [t]) later
      | Some nxt \<Rightarrow>
          ebind (fst (after_answer B (snapshot_for_decision s (before @ [t]) nxt) job)) (\<lambda>alt.
          ebind (compare_turns B s job (before @ [t]) later) (\<lambda>rest.
            Inr (compare_decision t nxt alt # rest))))"

definition agreement :: "(decision_comparison \<Rightarrow> bool) \<Rightarrow> (decision_comparison \<Rightarrow> bool)
    \<Rightarrow> decision_comparison list \<Rightarrow> rat" where
  "agreement f g cs = py_round (fmean (map (\<lambda>c. if f c = g c then 1 else 0) cs)) 4"

definition compare_brains :: "brain \<Rightarrow> interview_session \<Rightarrow> job_spec \<Rightarrow> counterfactual_report result" where
  "compare_brains B s job =
     ebind (compare_turns B s job [] (turns s)) (\<lambda>cs.
       let none = \<lparr> cfr_session_id = session_id s, cfr_comparisons = cs, cfr_followup_agreement = None,
             cfr_completion_agreement = None, cfr_mean_competency = None, cfr_mean_question = None,
             cfr_state_reconstruction = ''event_snapshot_or_prefix_derivation'' \<rparr>
       in if cs = [] then Inr none
          else Inr (none\<lparr>
            cfr_followup_agreement := Some (agreement cmp_original_followup cmp_alternate_followup cs),
            cfr_completion_agreement := Some (agreement cmp_original_complete cmp_alternate_complete cs),
            cfr_mean_competency := Some (py_round (fmean (map cmp_competency_jaccard cs)) 4),
            cfr_mean_question := Some (py_round (fmean (map cmp_question_jaccard cs)) 4)\<rparr>))"

section \<open>Lemmas\<close>

lemma is_float_1: "is_float 1"
  using is_float_int [of 1] by simp

lemma jaccard_bounds: "distinct l \<Longrightarrow> distinct r \<Longrightarrow> 0 \<le> jaccard l r \<and> jaccard l r \<le> 1"
proof (cases "l = [] \<and> r = []")
  case False
  let ?m = "length (filter (\<lambda>x. x \<in> set r) l)"
  let ?n = "length (remdups (l @ r))"
  assume "distinct l" "distinct r"
  then have "?m = card (set l \<inter> set r)" by (simp add: distinct_length_filter Int_commute)
  moreover have n: "?n = card (set l \<union> set r)" by (simp only: length_remdups_card_conv set_append)
  moreover have "card (set l \<inter> set r) \<le> card (set l \<union> set r)" by (rule card_mono) auto
  ultimately have "?m \<le> ?n" by simp
  moreover have "0 < ?n" using False unfolding n by (auto simp: card_gt_0_iff)
  ultimately have "(of_nat ?m :: rat) / of_nat ?n \<le> 1" by simp
  then have "fl (of_nat ?m / of_nat ?n) \<le> 1" by (rule fl_le_float [OF is_float_1])
  then show ?thesis using False fl_nonneg [of "of_nat ?m / of_nat ?n"] by (auto simp: jaccard_def)
qed (simp add: jaccard_def)

text \<open>Each comparison is of an answer with the next question of the interview, and of what the brain
  decides on the transcript up to that answer.\<close>

definition compared :: "brain \<Rightarrow> interview_session \<Rightarrow> job_spec \<Rightarrow> decision_comparison \<Rightarrow> nat \<Rightarrow> bool" where
  "compared B s job c k \<longleftrightarrow> k < length (turns s) \<and> speaker (turns s ! k) = CANDIDATE
     \<and> (\<exists>nxt alt. find is_evaluative_question (drop (Suc k) (turns s)) = Some nxt
          \<and> fst (after_answer B (snapshot_for_decision s (take (Suc k) (turns s)) nxt) job) = Inr alt
          \<and> c = compare_decision (turns s ! k) nxt alt)"

definition answered_at :: "turn list \<Rightarrow> nat \<Rightarrow> bool" where
  "answered_at ts k \<longleftrightarrow> speaker (ts ! k) = CANDIDATE \<and> find is_evaluative_question (drop (Suc k) ts) \<noteq> None"

lemma compare_turns_Inr:
  "compare_turns B s job before later = Inr cs \<Longrightarrow> turns s = before @ later \<Longrightarrow>
     list_all2 (compared B s job) cs (filter (answered_at (turns s)) [length before..<length (turns s)])"
proof (induction later arbitrary: before cs)
  case (Cons t later)
  let ?ts = "turns s"
  let ?k = "length before"
  have ts: "?ts = (before @ [t]) @ later" using Cons.prems(2) by simp
  then have at: "?ts ! ?k = t" "drop (Suc ?k) ?ts = later" "take (Suc ?k) ?ts = before @ [t]" "?k < length ?ts"
    by (simp_all add: nth_append)
  have split: "[?k..<length ?ts] = ?k # [length (before @ [t])..<length ?ts]"
    using at(4) by (simp add: upt_conv_Cons)
  show ?case
  proof (cases "speaker t = CANDIDATE \<and> find is_evaluative_question later \<noteq> None")
    case False
    then have run: "compare_turns B s job (before @ [t]) later = Inr cs" using Cons.prems(1) by (auto split: if_splits)
    moreover have "\<not> answered_at ?ts ?k" using False at by (simp add: answered_at_def)
    ultimately show ?thesis using Cons.IH [OF run ts] unfolding split by (simp only: filter.simps if_False)
  next
    case True
    then obtain nxt alt rest where nxt: "find is_evaluative_question later = Some nxt"
      and alt: "fst (after_answer B (snapshot_for_decision s (before @ [t]) nxt) job) = Inr alt"
      and rest: "compare_turns B s job (before @ [t]) later = Inr rest"
      and cs: "cs = compare_decision t nxt alt # rest"
      using Cons.prems(1) by (auto simp: exn_simps)
    have "compared B s job (compare_decision t nxt alt) ?k"
      using True nxt alt at by (auto simp: compared_def)
    moreover have "answered_at ?ts ?k" using True at by (simp add: answered_at_def)
    ultimately show ?thesis using Cons.IH [OF rest ts] unfolding split cs
      by (simp only: filter.simps if_True list_all2_Cons)
  qed
qed simp

lemma compare_brains_Inr:
  assumes "compare_brains B s job = Inr rep"
  shows "cfr_session_id rep = session_id s"
    "list_all2 (compared B s job) (cfr_comparisons rep) (filter (answered_at (turns s)) [0..<length (turns s)])"
    "cfr_followup_agreement rep = None \<longleftrightarrow> cfr_comparisons rep = []"
proof -
  obtain cs where cs: "compare_turns B s job [] (turns s) = Inr cs"
    using assms by (auto simp: compare_brains_def exn_simps)
  have "list_all2 (compared B s job) cs (filter (answered_at (turns s)) [0..<length (turns s)])"
    using compare_turns_Inr [OF cs] by simp
  then show "cfr_session_id rep = session_id s"
    "list_all2 (compared B s job) (cfr_comparisons rep) (filter (answered_at (turns s)) [0..<length (turns s)])"
    "cfr_followup_agreement rep = None \<longleftrightarrow> cfr_comparisons rep = []"
    using assms by (auto simp: compare_brains_def cs Let_def split: if_splits)
qed

text \<open>The tools, the evidence and the runs are not rebuilt: the brain sees those of the end of the session.\<close>

lemma snapshot_shows_later_state:
  "tools (snapshot_for_decision s past nxt) = tools s"
  "tool_evaluations (snapshot_for_decision s past nxt) = tool_evaluations s"
  "evidence_graph (snapshot_for_decision s past nxt) = evidence_graph s"
  "evidence_judge_runs (snapshot_for_decision s past nxt) = evidence_judge_runs s"
  by (simp_all add: snapshot_for_decision_def)

end
