(* ===== verification/Api.thy ===== *)
theory Api
  imports Voice_Bridges Authentication Metrics Rubric_Service Retention Trace_Export Counterfactual Feedback Replay
begin

text \<open>
  \<^verbatim>\<open>api.py\<close>: the HTTP endpoints over the services. An endpoint resolves the caller, loads the session
  and checks permission, organisation and \<^verbatim>\<open>If-Match\<close>, and then calls one service; the services are the
  ones of the other theories, over one store, one set of voice and synthesis streams and one object
  store. Requests are what FastAPI hands to an endpoint, that is, parsed and validated; a token, a
  clock, new identifiers and what outside services answer come with the call.
\<close>

section \<open>The application\<close>

text \<open>A store, with the operations of \<^verbatim>\<open>storage.Store\<close>.\<close>

record 'st store_ops =
  so_get :: "'st \<Rightarrow> string \<Rightarrow> interview_session option"
  so_put :: "interview_session \<Rightarrow> 'st \<Rightarrow> 'st result"
  so_list :: "'st \<Rightarrow> interview_session list"
  so_delete :: "string \<Rightarrow> 'st \<Rightarrow> 'st \<times> bool"
  so_get_job :: "'st \<Rightarrow> string \<Rightarrow> job_spec option"
  so_put_job :: "job_spec \<Rightarrow> 'st \<Rightarrow> 'st"
  so_get_draft :: "'st \<Rightarrow> string \<Rightarrow> rubric_draft option"
  so_put_draft :: "rubric_draft \<Rightarrow> 'st \<Rightarrow> 'st result"
  so_approve :: "string \<Rightarrow> rubric_draft \<Rightarrow> job_spec \<Rightarrow> 'st \<Rightarrow> 'st result"

definition sqlite_ops :: "sql_store store_ops" where
  "sqlite_ops = \<lparr> so_get = sql_get_session, so_put = sqlite_put_session, so_list = sql_list_sessions,
     so_delete = sql_delete_session, so_get_job = sql_get_job, so_put_job = sql_put_job,
     so_get_draft = sql_get_rubric_draft, so_put_draft = sql_put_rubric_draft,
     so_approve = sql_approve_rubric_draft \<rparr>"

text \<open>What is built when the module is imported.\<close>

record ('st, 'o) api =
  api_store :: "'st store_ops"
  api_resolver :: resolver
  api_jwt :: jwt_library
  api_config :: service_config
  api_artifacts :: "'o artifact_service"
  api_drafter :: rubric_drafter
  api_slo_policy :: slo_policy
  api_components :: "(string, nat) dict"
  api_heap :: object_heap
  api_stt_provider :: string
  api_tts_provider :: string
  api_vad :: "vad_config option"
  api_sqrt :: "rat \<Rightarrow> rat"
  api_json_time :: "datetime \<Rightarrow> string"
  api_format_g :: "rat \<Rightarrow> string"

text \<open>The tasks that close an audio stream when nobody reconnects: the handles that are kept by stream,
  and the tasks that run.\<close>

record expiry =
  expiry_handles :: "(string, nat) dict"
  expiry_tasks :: "(nat, string) dict"
  expiry_next :: nat

text \<open>What changes while it runs.\<close>

record ('st, 'o) api_state =
  api_world :: "'st output_world"
  api_inputs :: "(string, stt_stream) dict"
  api_objects :: 'o
  api_health :: health_registry
  api_http :: http_metrics
  api_sockets :: websocket_metrics
  api_expiry :: expiry

text \<open>A call: its headers, the clock and identifiers of its first and its second write, the readings of
  the monotonic clock, and what the synthesiser answers when it is cancelled.\<close>

record call =
  call_headers :: headers
  call_env :: voice_env
  call_next :: voice_env
  call_clock :: "nat \<Rightarrow> rat"
  call_cancelling :: "unit result"

abbreviation env_of :: "call \<Rightarrow> env" where "env_of Q \<equiv> venv (call_env Q)"

abbreviation stored :: "('st, 'o) api_state \<Rightarrow> 'st" where "stored g \<equiv> fst (vw_store (api_world g))"

text \<open>Operations on a part of the state.\<close>

definition on_store :: "('st \<times> challenges \<Rightarrow> ('st \<times> challenges) \<times> 'a result) \<Rightarrow> ('st, 'o) api_state
    \<Rightarrow> ('st, 'o) api_state \<times> 'a result" where
  "on_store f g = (case f (vw_store (api_world g)) of
      (stp, r) \<Rightarrow> (g\<lparr>api_world := (api_world g)\<lparr>vw_store := stp\<rparr>\<rparr>, r))"

definition on_table :: "('st \<Rightarrow> 'st \<times> 'a result) \<Rightarrow> ('st, 'o) api_state \<Rightarrow> ('st, 'o) api_state \<times> 'a result" where
  "on_table f = on_store (\<lambda>(st, priv). case f st of (st', r) \<Rightarrow> ((st', priv), r))"

definition on_world :: "('st output_world \<Rightarrow> 'st output_world \<times> 'a result) \<Rightarrow> ('st, 'o) api_state
    \<Rightarrow> ('st, 'o) api_state \<times> 'a result" where
  "on_world f g = (case f (api_world g) of (w, r) \<Rightarrow> (g\<lparr>api_world := w\<rparr>, r))"

definition on_objects :: "('st \<times> 'o \<Rightarrow> ('st \<times> 'o) \<times> 'a result) \<Rightarrow> ('st, 'o) api_state
    \<Rightarrow> ('st, 'o) api_state \<times> 'a result" where
  "on_objects f g = (case f (stored g, api_objects g) of
      ((st, ob), r) \<Rightarrow> (g\<lparr>api_world := (api_world g)\<lparr>vw_store := (st, snd (vw_store (api_world g)))\<rparr>,
                           api_objects := ob\<rparr>, r))"

definition reading :: "'a result \<Rightarrow> ('st, 'o) api_state \<Rightarrow> ('st, 'o) api_state \<times> 'a result" where
  "reading r g = (g, r)"

text \<open>A write that fails changes nothing.\<close>

definition committed :: "('st \<Rightarrow> ('st \<times> 'a) result) \<Rightarrow> 'st \<Rightarrow> 'st \<times> 'a result" where
  "committed f st = (case f st of Inl e \<Rightarrow> (st, Inl e) | Inr (st', a) \<Rightarrow> (st', Inr a))"

section \<open>The caller\<close>

definition current_principal :: "('st, 'o) api \<Rightarrow> call \<Rightarrow> principal result" where
  "current_principal A Q = resolve (api_jwt A) (call_headers Q) (api_resolver A)"

definition require_session_permission :: "('st, 'o) api \<Rightarrow> string \<Rightarrow> principal \<Rightarrow> permission
    \<Rightarrow> ('st, 'o) api_state \<Rightarrow> interview_session result" where
  "require_session_permission A sid p perm g =
     ebind (load_session (so_get (api_store A)) sid (stored g)) (\<lambda>s.
     ebind (require_access p perm (Some s)) (\<lambda>_. Inr s))"

definition require_global_permission :: "principal \<Rightarrow> permission \<Rightarrow> unit result" where
  "require_global_permission p perm = require_access p perm None"

definition session_etag :: "interview_session \<Rightarrow> string" where
  "session_etag s = CHR 0x22 # ''nora-session-'' @ session_id s @ ''-v'' @ show_int (version s) @ [CHR 0x22]"

text \<open>The detail of the response also names the current tag and version.\<close>

definition enforce_session_precondition :: "interview_session \<Rightarrow> string option \<Rightarrow> unit result" where
  "enforce_session_precondition s if_match =
     (case if_match of
        None \<Rightarrow> Inr ()
      | Some tag \<Rightarrow> raise_if (tag \<noteq> ''*'' \<and> strip tag \<noteq> session_etag s)
          (http 412 (''Session version precondition failed. ''
            @ ''Reload the session and retry with the current ETag.'')) (Inr ()))"

definition session_call :: "('st, 'o) api \<Rightarrow> call \<Rightarrow> permission \<Rightarrow> string \<Rightarrow> string option
    \<Rightarrow> (principal \<Rightarrow> interview_session \<Rightarrow> ('st, 'o) api_state \<Rightarrow> ('st, 'o) api_state \<times> 'a result)
    \<Rightarrow> ('st, 'o) api_state \<Rightarrow> ('st, 'o) api_state \<times> 'a result" where
  "session_call A Q perm sid if_match k g =
     (case ebind (current_principal A Q) (\<lambda>p.
           ebind (require_session_permission A sid p perm g) (\<lambda>s.
           ebind (enforce_session_precondition s if_match) (\<lambda>_. Inr (p, s)))) of
        Inl e \<Rightarrow> (g, Inl e)
      | Inr (p, s) \<Rightarrow> k p s g)"

definition global_call :: "('st, 'o) api \<Rightarrow> call \<Rightarrow> permission
    \<Rightarrow> (principal \<Rightarrow> ('st, 'o) api_state \<Rightarrow> ('st, 'o) api_state \<times> 'a result)
    \<Rightarrow> ('st, 'o) api_state \<Rightarrow> ('st, 'o) api_state \<times> 'a result" where
  "global_call A Q perm k g =
     (case ebind (current_principal A Q) (\<lambda>p. ebind (require_global_permission p perm) (\<lambda>_. Inr p)) of
        Inl e \<Rightarrow> (g, Inl e)
      | Inr p \<Rightarrow> k p g)"

text \<open>The handlers of the services over the state.\<close>

definition interview_call :: "('st, 'o) api \<Rightarrow> string
    \<Rightarrow> (interview_session \<Rightarrow> job_spec \<Rightarrow> challenges \<Rightarrow> challenges \<times> 'a step)
    \<Rightarrow> ('st, 'o) api_state \<Rightarrow> ('st, 'o) api_state \<times> 'a result" where
  "interview_call A sid h =
     on_store (transact (so_get (api_store A)) (so_get_job (api_store A)) (so_put (api_store A)) sid h)"

definition read_call :: "('st, 'o) api \<Rightarrow> string \<Rightarrow> (interview_session \<Rightarrow> job_spec \<Rightarrow> 'a result)
    \<Rightarrow> ('st, 'o) api_state \<Rightarrow> ('st, 'o) api_state \<times> 'a result" where
  "read_call A sid f g = reading (ebind (get_session_and_job (so_get (api_store A)) (so_get_job (api_store A))
     sid (stored g)) (\<lambda>(s, job). f s job)) g"

definition review_call :: "('st, 'o) api \<Rightarrow> call \<Rightarrow> string \<Rightarrow> review_op
    \<Rightarrow> ('st, 'o) api_state \<Rightarrow> ('st, 'o) api_state \<times> review_assignment result" where
  "review_call A Q sid op = on_table (review_transact (so_get (api_store A)) (so_get_job (api_store A))
     (so_put (api_store A)) (env_of Q) sid op)"

definition voice_call :: "('st, 'o) api \<Rightarrow> voice_env \<Rightarrow> string \<Rightarrow> voice_op
    \<Rightarrow> ('st, 'o) api_state \<Rightarrow> ('st, 'o) api_state \<times> voice_state result" where
  "voice_call A X sid op = on_world (voice_do (so_get (api_store A)) (so_put (api_store A)) X sid op)"

section \<open>System endpoints\<close>

text \<open>\<^verbatim>\<open>lifespan\<close>, its start: both providers are registered.\<close>

definition api_startup :: "('st, 'o) api \<Rightarrow> ('st, 'o) api_state \<Rightarrow> ('st, 'o) api_state" where
  "api_startup A g = g\<lparr>api_health :=
     register ''streaming_tts'' (api_tts_provider A) (api_tts_provider A = ''disabled'')
    (register ''streaming_stt'' (api_stt_provider A) (api_stt_provider A = ''disabled'') (api_health g))\<rparr>"

definition api_readiness :: "string \<Rightarrow> unit result \<Rightarrow> (string, string) dict result" where
  "api_readiness store_class ping = (case ping of
      Inl e \<Rightarrow> Inl (http 503 ''Storage backend is not ready'')
    | Inr _ \<Rightarrow> Inr [(''status'', ''ready''), (''storage'', store_class), (''api_version'', ''0.6.0'')])"

definition running_of :: "call \<Rightarrow> ('st, 'o) api_state \<Rightarrow> 'st running_services" where
  "running_of Q g = \<lparr> svc_health = api_health g, svc_clock = call_clock Q, svc_audio = vw_audio (api_world g),
     svc_output = api_world g, svc_http = Some (api_http g), svc_websockets = Some (api_sockets g) \<rparr>"

definition operations_snapshot :: "('st, 'o) api \<Rightarrow> call \<Rightarrow> ('st, 'o) api_state \<Rightarrow> operational_snapshot result" where
  "operations_snapshot A Q g = operational_snapshot_of (rt (env_of Q)) (api_format_g A)
     (so_get_job (api_store A) (stored g)) (so_list (api_store A) (stored g)) (running_of Q g)"

definition api_operational_snapshot :: "('st, 'o) api \<Rightarrow> call \<Rightarrow> ('st, 'o) api_state
    \<Rightarrow> ('st, 'o) api_state \<times> operational_snapshot result" where
  "api_operational_snapshot A Q = global_call A Q READ_SYSTEM (\<lambda>p g. reading (operations_snapshot A Q g) g)"

definition api_operational_slo :: "('st, 'o) api \<Rightarrow> call \<Rightarrow> ('st, 'o) api_state
    \<Rightarrow> ('st, 'o) api_state \<times> slo_assessment result" where
  "api_operational_slo A Q = global_call A Q READ_SYSTEM (\<lambda>p g.
     reading (ebind (operations_snapshot A Q g) (\<lambda>snap.
       Inr (assess_operational_slo snap (Some (api_slo_policy A))))) g)"

definition api_operational_metrics :: "('st, 'o) api \<Rightarrow> call \<Rightarrow> ('st, 'o) api_state
    \<Rightarrow> ('st, 'o) api_state \<times> string result" where
  "api_operational_metrics A Q = global_call A Q READ_SYSTEM (\<lambda>p g.
     reading (ebind (operations_snapshot A Q g) (\<lambda>snap.
       Inr (render_prometheus (api_format_g A) snap
         (Some (assess_operational_slo snap (Some (api_slo_policy A))))))) g)"

definition api_provider_resilience :: "('st, 'o) api \<Rightarrow> call \<Rightarrow> ('st, 'o) api_state
    \<Rightarrow> ('st, 'o) api_state \<times> resilience_snapshot list result" where
  "api_provider_resilience A Q = global_call A Q READ_SYSTEM (\<lambda>p.
     reading (Inr (collect_provider_resilience (api_heap A) (api_components A))))"

definition api_voice_health :: "('st, 'o) api \<Rightarrow> call \<Rightarrow> ('st, 'o) api_state
    \<Rightarrow> ('st, 'o) api_state \<times> health_snapshot list result" where
  "api_voice_health A Q = global_call A Q READ_SYSTEM (\<lambda>p g.
     reading (Inr (registry_snapshots (call_clock Q) (api_health g))) g)"

section \<open>Rubrics, retention and the review queues\<close>

definition api_draft_rubric :: "('st, 'o) api \<Rightarrow> call \<Rightarrow> rubric_draft_request \<Rightarrow> ('st, 'o) api_state
    \<Rightarrow> ('st, 'o) api_state \<times> rubric_draft result" where
  "api_draft_rubric A Q req = global_call A Q DRAFT_RUBRIC (\<lambda>p g.
     case on_table (committed (draft_rubric (api_drafter A) (so_put_draft (api_store A)) (env_of Q) req
            (principal_organization_id p))) g of
       (g', Inl (RubricDraftError m)) \<Rightarrow> (g', Inl (http 422 m))
     | (g', r) \<Rightarrow> (g', r))"

definition api_get_rubric_draft :: "('st, 'o) api \<Rightarrow> call \<Rightarrow> string \<Rightarrow> ('st, 'o) api_state
    \<Rightarrow> ('st, 'o) api_state \<times> rubric_draft result" where
  "api_get_rubric_draft A Q did = global_call A Q READ_RUBRIC_DRAFT (\<lambda>p g.
     reading (get_rubric (so_get_draft (api_store A)) did (principal_organization_id p) (stored g)) g)"

definition api_approve_rubric :: "('st, 'o) api \<Rightarrow> call \<Rightarrow> string \<Rightarrow> rubric_approval_request
    \<Rightarrow> ('st, 'o) api_state \<Rightarrow> ('st, 'o) api_state \<times> (rubric_draft \<times> job_spec) result" where
  "api_approve_rubric A Q did req = global_call A Q APPROVE_RUBRIC (\<lambda>p.
     on_table (committed (approve_rubric (so_get_draft (api_store A)) (so_approve (api_store A)) (env_of Q)
       did req (principal_id p) (principal_organization_id p))))"

text \<open>The retention run deletes over the store and the object store together.\<close>

definition retention_purge :: "('st, 'o) api \<Rightarrow> env \<Rightarrow> string \<Rightarrow> 'st \<times> 'o \<Rightarrow> ('st \<times> 'o) \<times> unit result" where
  "retention_purge A E sid stp =
     (case purge_session (so_get (api_store A)) (so_put (api_store A)) (api_artifacts A) E ''retention''
             ''session_retention'' sid stp of (stp', r) \<Rightarrow> (stp', map_sum id (\<lambda>_. ()) r))"

definition retention_delete_session :: "('st, 'o) api \<Rightarrow> string \<Rightarrow> 'st \<times> 'o \<Rightarrow> ('st \<times> 'o) \<times> bool" where
  "retention_delete_session A sid stp =
     (case stp of (st, ob) \<Rightarrow> (case so_delete (api_store A) sid st of (st', b) \<Rightarrow> ((st', ob), b)))"

definition api_run_retention :: "('st, 'o) api \<Rightarrow> call \<Rightarrow> retention_request \<Rightarrow> ('st, 'o) api_state
    \<Rightarrow> ('st, 'o) api_state \<times> retention_report result" where
  "api_run_retention A Q req = global_call A Q RUN_RETENTION (\<lambda>p.
     on_objects (retention_run (\<lambda>stp. so_list (api_store A) (fst stp))
       (Some (retention_purge A (env_of Q))) (retention_delete_session A)
       (now_at (env_of Q) ''retention'' 0) req))"

definition api_review_summary :: "('st, 'o) api \<Rightarrow> call \<Rightarrow> ('st, 'o) api_state
    \<Rightarrow> ('st, 'o) api_state \<times> dashboard result" where
  "api_review_summary A Q = global_call A Q READ_REVIEW_QUEUE (\<lambda>p g.
     reading (review_summary (rt (env_of Q)) (so_get_job (api_store A) (stored g))
       (principal_organization_id p) (so_list (api_store A) (stored g))) g)"

definition api_reevaluation_queue :: "('st, 'o) api \<Rightarrow> call \<Rightarrow> string option \<Rightarrow> ('st, 'o) api_state
    \<Rightarrow> ('st, 'o) api_state \<times> reevaluation_item list result" where
  "api_reevaluation_queue A Q jid = global_call A Q READ_REVIEW_QUEUE (\<lambda>p g.
     reading (evidence_reevaluation_queue (rt (env_of Q)) (so_get_job (api_store A) (stored g)) jid
       (principal_organization_id p) (so_list (api_store A) (stored g))) g)"

definition api_review_queue :: "('st, 'o) api \<Rightarrow> call \<Rightarrow> bool \<Rightarrow> string option \<Rightarrow> ('st, 'o) api_state
    \<Rightarrow> ('st, 'o) api_state \<times> queue_item list result" where
  "api_review_queue A Q only jid = global_call A Q READ_REVIEW_QUEUE (\<lambda>p g.
     reading (review_queue (rt (env_of Q)) (so_get_job (api_store A) (stored g)) only jid
       (principal_organization_id p) (so_list (api_store A) (stored g))) g)"

end
