(* ===== verification/Api_Sessions.thy ===== *)
theory Api_Sessions
  imports Api
begin

text \<open>
  The endpoints of \<^verbatim>\<open>api.py\<close> that are about one session, in the order of the file, and the datatype of
  their requests. Each checks its own permission; those that change the interview also check
  \<^verbatim>\<open>If-Match\<close>.
\<close>

section \<open>Review\<close>

definition api_assign_review :: "('st, 'o) api \<Rightarrow> call \<Rightarrow> string \<Rightarrow> string option \<Rightarrow> assignment_request
    \<Rightarrow> ('st, 'o) api_state \<Rightarrow> ('st, 'o) api_state \<times> review_assignment result" where
  "api_assign_review A Q sid im req = session_call A Q ASSIGN_REVIEW sid im (\<lambda>p s.
     review_call A Q sid (AssignReview req (principal_id p)))"

definition api_start_review :: "('st, 'o) api \<Rightarrow> call \<Rightarrow> string \<Rightarrow> string option \<Rightarrow> string
    \<Rightarrow> ('st, 'o) api_state \<Rightarrow> ('st, 'o) api_state \<times> review_assignment result" where
  "api_start_review A Q sid im aid = session_call A Q WORK_REVIEW_ASSIGNMENT sid im (\<lambda>p s.
     review_call A Q sid (StartReview aid (principal_id p)))"

definition api_complete_review :: "('st, 'o) api \<Rightarrow> call \<Rightarrow> string \<Rightarrow> string option \<Rightarrow> string \<Rightarrow> string option
    \<Rightarrow> ('st, 'o) api_state \<Rightarrow> ('st, 'o) api_state \<times> review_assignment result" where
  "api_complete_review A Q sid im aid note = session_call A Q WORK_REVIEW_ASSIGNMENT sid im (\<lambda>p s.
     review_call A Q sid (CompleteReview aid note (principal_id p)))"

definition api_cancel_review :: "('st, 'o) api \<Rightarrow> call \<Rightarrow> string \<Rightarrow> string option \<Rightarrow> string \<Rightarrow> string option
    \<Rightarrow> ('st, 'o) api_state \<Rightarrow> ('st, 'o) api_state \<times> review_assignment result" where
  "api_cancel_review A Q sid im aid note = session_call A Q CANCEL_REVIEW_ASSIGNMENT sid im (\<lambda>p s.
     review_call A Q sid (CancelReview aid note (principal_id p)))"

definition report_of :: "('st, 'o) api \<Rightarrow> call \<Rightarrow> string \<Rightarrow> ('st, 'o) api_state \<Rightarrow> session_report result" where
  "report_of A Q sid g = session_report_of (rt (env_of Q)) (so_get (api_store A)) (so_get_job (api_store A))
     sid (stored g)"

definition api_recruiter_report :: "('st, 'o) api \<Rightarrow> call \<Rightarrow> string \<Rightarrow> ('st, 'o) api_state
    \<Rightarrow> ('st, 'o) api_state \<times> session_report result" where
  "api_recruiter_report A Q sid = session_call A Q READ_RECRUITER_REPORT sid None (\<lambda>p s g.
     reading (report_of A Q sid g) g)"

definition printing_of :: "('st, 'o) api \<Rightarrow> call \<Rightarrow> printing" where
  "printing_of A Q = \<lparr> prt = rt (env_of Q), json_time = api_json_time A \<rparr>"

definition trace_of :: "('st, 'o) api \<Rightarrow> call \<Rightarrow> string \<Rightarrow> ('st, 'o) api_state \<Rightarrow> trace result" where
  "trace_of A Q sid g = export_voxrubric (printing_of A Q) (so_get (api_store A)) (so_get_job (api_store A))
     sid (stored g)"

definition api_evidence_bundle :: "('st, 'o) api \<Rightarrow> call \<Rightarrow> string \<Rightarrow> ('st, 'o) api_state
    \<Rightarrow> ('st, 'o) api_state \<times> evidence_bundle result" where
  "api_evidence_bundle A Q sid = session_call A Q EXPORT_EVIDENCE_BUNDLE sid None (\<lambda>p s g.
     reading (case so_get_job (api_store A) (stored g) (session_job_id s) of
         None \<Rightarrow> Inl (http 500 ''Session references a missing job'')
       | Some job \<Rightarrow> ebind (trace_of A Q sid g) (\<lambda>t. build_evidence_bundle (env_of Q) s job t)) g)"

definition api_review_bundle :: "('st, 'o) api \<Rightarrow> call \<Rightarrow> string \<Rightarrow> ('st, 'o) api_state
    \<Rightarrow> ('st, 'o) api_state \<times> review_bundle result" where
  "api_review_bundle A Q sid = session_call A Q EXPORT_REVIEW_BUNDLE sid None (\<lambda>p s g.
     reading (ebind (report_of A Q sid g) (\<lambda>rep. ebind (trace_of A Q sid g) (build_review_bundle (env_of Q) rep))) g)"

section \<open>Jobs, sessions and artifacts\<close>

definition api_create_job :: "('st, 'o) api \<Rightarrow> call \<Rightarrow> job_spec \<Rightarrow> ('st, 'o) api_state
    \<Rightarrow> ('st, 'o) api_state \<times> job_spec result" where
  "api_create_job A Q job = global_call A Q CREATE_JOB (\<lambda>p.
     on_table (committed (\<lambda>st. ebind (create_job_step (cfg_templates (api_config A)) job
       (principal_organization_id p)) (\<lambda>j. Inr (so_put_job (api_store A) j st, j)))))"

definition api_create_session :: "('st, 'o) api \<Rightarrow> call \<Rightarrow> create_session_request \<Rightarrow> ('st, 'o) api_state
    \<Rightarrow> ('st, 'o) api_state \<times> interview_session result" where
  "api_create_session A Q req = global_call A Q CREATE_SESSION (\<lambda>p.
     on_table (committed (\<lambda>st.
       ebind (create_session_step (env_of Q) req (principal_organization_id p)
         (so_get_job (api_store A) st (req_job_id req))) (\<lambda>s.
       ebind (persist_session (so_put (api_store A)) s st) (\<lambda>st'. Inr (st', written s))))))"

text \<open>The upload is read chunk by chunk, no further than the limit.\<close>

fun read_upload :: "int \<Rightarrow> int \<Rightarrow> bytes list \<Rightarrow> bytes \<Rightarrow> bytes result" where
  "read_upload limit sofar [] data = Inr data"
| "read_upload limit sofar (chunk # chunks) data =
     raise_if (limit < sofar + int (length chunk)) (http 413 ''Artifact exceeds configured size limit'')
       (read_upload limit (sofar + int (length chunk)) chunks (data @ chunk))"

definition api_create_artifact :: "('st, 'o) api \<Rightarrow> call \<Rightarrow> string \<Rightarrow> string \<Rightarrow> string \<Rightarrow> bytes list
    \<Rightarrow> ('st, 'o) api_state \<Rightarrow> ('st, 'o) api_state \<times> artifact_record result" where
  "api_create_artifact A Q sid kind media_type chunks = session_call A Q CREATE_ARTIFACT sid None (\<lambda>p s g.
     case read_upload (max_artifact_bytes (api_artifacts A)) 0 chunks [] of
       Inl e \<Rightarrow> (g, Inl e)
     | Inr data \<Rightarrow> on_objects (create_artifact (so_get (api_store A)) (so_put (api_store A)) (api_artifacts A)
         (env_of Q) sid data kind media_type (principal_id p)) g)"

definition api_list_artifacts :: "('st, 'o) api \<Rightarrow> call \<Rightarrow> string \<Rightarrow> ('st, 'o) api_state
    \<Rightarrow> ('st, 'o) api_state \<times> artifact_record list result" where
  "api_list_artifacts A Q sid = session_call A Q READ_ARTIFACT sid None (\<lambda>p s g.
     reading (list_artifacts (so_get (api_store A)) sid (stored g)) g)"

definition api_issue_access :: "('st, 'o) api \<Rightarrow> call \<Rightarrow> string \<Rightarrow> string \<Rightarrow> ('st, 'o) api_state
    \<Rightarrow> ('st, 'o) api_state \<times> access_grant result" where
  "api_issue_access A Q sid aid = session_call A Q READ_ARTIFACT sid None (\<lambda>p s g.
     reading (issue_access (so_get (api_store A)) (api_artifacts A) (env_of Q) sid aid (stored g)) g)"

text \<open>Reading with a token asks for no principal.\<close>

definition api_read_content :: "('st, 'o) api \<Rightarrow> call \<Rightarrow> string \<Rightarrow> ('st, 'o) api_state
    \<Rightarrow> ('st, 'o) api_state \<times> (artifact_record \<times> bytes) result" where
  "api_read_content A Q token g = on_table (\<lambda>st. read_token (so_get (api_store A)) (so_put (api_store A))
     (api_artifacts A) (env_of Q) token (st, api_objects g)) g"

definition api_delete_artifact :: "('st, 'o) api \<Rightarrow> call \<Rightarrow> string \<Rightarrow> string \<Rightarrow> string option
    \<Rightarrow> ('st, 'o) api_state \<Rightarrow> ('st, 'o) api_state \<times> artifact_record result" where
  "api_delete_artifact A Q sid aid why = session_call A Q DELETE_ARTIFACT sid None (\<lambda>p s.
     on_objects (delete_artifact (so_get (api_store A)) (so_put (api_store A)) (api_artifacts A) (env_of Q)
       sid aid (principal_id p) why))"

section \<open>The interview\<close>

text \<open>Two operations in sequence: the second only if the first succeeds.\<close>

definition then_call :: "(('st, 'o) api_state \<Rightarrow> ('st, 'o) api_state \<times> 'a result)
    \<Rightarrow> ('a \<Rightarrow> ('st, 'o) api_state \<Rightarrow> ('st, 'o) api_state \<times> 'b result)
    \<Rightarrow> ('st, 'o) api_state \<Rightarrow> ('st, 'o) api_state \<times> 'b result" where
  "then_call f k g = (case f g of (g', Inl e) \<Rightarrow> (g', Inl e) | (g', Inr a) \<Rightarrow> k a g')"

definition api_cancel_session :: "('st, 'o) api \<Rightarrow> call \<Rightarrow> string \<Rightarrow> string option \<Rightarrow> string
    \<Rightarrow> ('st, 'o) api_state \<Rightarrow> ('st, 'o) api_state \<times> interview_session result" where
  "api_cancel_session A Q sid im why = session_call A Q CANCEL_SESSION sid im (\<lambda>p s.
     then_call (interview_call A sid (plain (\<lambda>s job. cancel_step (env_of Q) why s))) (\<lambda>_.
     then_call (voice_call A (call_next Q) sid (CloseVoice ''session_cancelled'')) (\<lambda>_ g.
       reading (load_session (so_get (api_store A)) sid (stored g)) g)))"

definition api_start_session :: "('st, 'o) api \<Rightarrow> call \<Rightarrow> string \<Rightarrow> string option
    \<Rightarrow> ('st, 'o) api_state \<Rightarrow> ('st, 'o) api_state \<times> session_step result" where
  "api_start_session A Q sid im = session_call A Q RUN_INTERVIEW sid im (\<lambda>p s.
     interview_call A sid (start_step (api_config A) (env_of Q)))"

definition answer_call :: "('st, 'o) api \<Rightarrow> env \<Rightarrow> string \<Rightarrow> string \<Rightarrow> ('st, 'o) api_state
    \<Rightarrow> ('st, 'o) api_state \<times> session_step result" where
  "answer_call A E sid answer = on_store (answer_handler (so_get (api_store A)) (so_get_job (api_store A))
     (so_put (api_store A)) (api_config A) E sid answer [])"

definition api_submit_response :: "('st, 'o) api \<Rightarrow> call \<Rightarrow> string \<Rightarrow> string option \<Rightarrow> string
    \<Rightarrow> ('st, 'o) api_state \<Rightarrow> ('st, 'o) api_state \<times> session_step result" where
  "api_submit_response A Q sid im answer = session_call A Q RUN_INTERVIEW sid im (\<lambda>p s.
     answer_call A (env_of Q) sid answer)"

definition api_candidate_control :: "('st, 'o) api \<Rightarrow> call \<Rightarrow> string \<Rightarrow> string option
    \<Rightarrow> candidate_control_request \<Rightarrow> ('st, 'o) api_state \<Rightarrow> ('st, 'o) api_state \<times> candidate_control_result result" where
  "api_candidate_control A Q sid im req = session_call A Q USE_CANDIDATE_CONTROL sid im (\<lambda>p s.
     interview_call A sid (plain (\<lambda>s job. control_step (env_of Q) req s)))"

definition api_open_coding_challenge :: "('st, 'o) api \<Rightarrow> call \<Rightarrow> string \<Rightarrow> string option \<Rightarrow> coding_request
    \<Rightarrow> ('st, 'o) api_state \<Rightarrow> ('st, 'o) api_state \<times> tool_invocation result" where
  "api_open_coding_challenge A Q sid im req = session_call A Q OPEN_PRACTICAL_TOOL sid im (\<lambda>p s.
     interview_call A sid (open_coding_step (env_of Q) req))"

definition api_open_tool :: "('st, 'o) api \<Rightarrow> call \<Rightarrow> string \<Rightarrow> string option \<Rightarrow> tool_invocation
    \<Rightarrow> ('st, 'o) api_state \<Rightarrow> ('st, 'o) api_state \<times> tool_invocation result" where
  "api_open_tool A Q sid im invo = session_call A Q OPEN_PRACTICAL_TOOL sid im (\<lambda>p s.
     interview_call A sid (plain (open_tool_step (env_of Q) invo)))"

definition api_submit_tool :: "('st, 'o) api \<Rightarrow> call \<Rightarrow> string \<Rightarrow> string option \<Rightarrow> string \<Rightarrow> jdict
    \<Rightarrow> ('st, 'o) api_state \<Rightarrow> ('st, 'o) api_state \<times> tool_step result" where
  "api_submit_tool A Q sid im tid content = session_call A Q SUBMIT_TOOL sid im (\<lambda>p s.
     interview_call A sid (submit_tool_step (api_config A) (env_of Q) tid content))"

text \<open>The session, with the headers of the response.\<close>

definition api_get_session :: "('st, 'o) api \<Rightarrow> call \<Rightarrow> string \<Rightarrow> ('st, 'o) api_state
    \<Rightarrow> ('st, 'o) api_state \<times> (interview_session \<times> headers) result" where
  "api_get_session A Q sid = session_call A Q READ_SESSION sid None (\<lambda>p s. reading (Inr (s,
     [(''ETag'', session_etag s), (''X-Nora-Session-Version'', show_int (version s)),
      (''Cache-Control'', ''no-store'')])))"

definition api_correct_transcript :: "('st, 'o) api \<Rightarrow> call \<Rightarrow> string \<Rightarrow> string option
    \<Rightarrow> transcript_correction_request \<Rightarrow> ('st, 'o) api_state \<Rightarrow> ('st, 'o) api_state \<times> transcript_revision result" where
  "api_correct_transcript A Q sid im req = session_call A Q CORRECT_TRANSCRIPT sid im (\<lambda>p s.
     interview_call A sid (plain (\<lambda>s job. correct_step (env_of Q) req s)))"

definition api_submit_appeal :: "('st, 'o) api \<Rightarrow> call \<Rightarrow> string \<Rightarrow> string option \<Rightarrow> appeal_request
    \<Rightarrow> ('st, 'o) api_state \<Rightarrow> ('st, 'o) api_state \<times> candidate_appeal result" where
  "api_submit_appeal A Q sid im req = session_call A Q SUBMIT_APPEAL sid im (\<lambda>p s.
     interview_call A sid (plain (\<lambda>s job. submit_appeal_step (env_of Q) req s)))"

definition api_review_appeal :: "('st, 'o) api \<Rightarrow> call \<Rightarrow> string \<Rightarrow> string option \<Rightarrow> string \<Rightarrow> string
    \<Rightarrow> ('st, 'o) api_state \<Rightarrow> ('st, 'o) api_state \<times> candidate_appeal result" where
  "api_review_appeal A Q sid im aid note = session_call A Q REVIEW_APPEAL sid im (\<lambda>p s.
     interview_call A sid (plain (\<lambda>s job. review_appeal_step (env_of Q) aid
       \<lparr> reviewer_id = principal_id p, review_note = note \<rparr> s)))"

definition api_submit_integrity_signal :: "('st, 'o) api \<Rightarrow> call \<Rightarrow> string \<Rightarrow> string option
    \<Rightarrow> integrity_signal_request \<Rightarrow> ('st, 'o) api_state \<Rightarrow> ('st, 'o) api_state \<times> integrity_signal result" where
  "api_submit_integrity_signal A Q sid im req = session_call A Q WRITE_INTEGRITY sid im (\<lambda>p s.
     interview_call A sid (plain (\<lambda>s job. submit_signal_step (env_of Q) req s)))"

definition api_review_integrity_signal :: "('st, 'o) api \<Rightarrow> call \<Rightarrow> string \<Rightarrow> string option \<Rightarrow> string \<Rightarrow> string
    \<Rightarrow> ('st, 'o) api_state \<Rightarrow> ('st, 'o) api_state \<times> integrity_signal result" where
  "api_review_integrity_signal A Q sid im gid note = session_call A Q REVIEW_INTEGRITY sid im (\<lambda>p s.
     interview_call A sid (plain (\<lambda>s job. review_signal_step (env_of Q) gid
       \<lparr> reviewer_id = principal_id p, review_note = note \<rparr> s)))"

definition api_reevaluate_evidence :: "('st, 'o) api \<Rightarrow> call \<Rightarrow> string \<Rightarrow> string option \<Rightarrow> string
    \<Rightarrow> ('st, 'o) api_state \<Rightarrow> ('st, 'o) api_state \<times> evidence_judge_run result" where
  "api_reevaluate_evidence A Q sid im tid = session_call A Q REEVALUATE_EVIDENCE sid im (\<lambda>p s.
     interview_call A sid (plain (reevaluate_step (api_config A) (env_of Q) tid)))"

definition api_observe_evidence :: "('st, 'o) api \<Rightarrow> call \<Rightarrow> string \<Rightarrow> string option \<Rightarrow> evidence_observation
    \<Rightarrow> ('st, 'o) api_state \<Rightarrow> ('st, 'o) api_state \<times> competency_evidence result" where
  "api_observe_evidence A Q sid im ob = session_call A Q WRITE_EVIDENCE sid im (\<lambda>p s.
     interview_call A sid (plain (observe_step (env_of Q) ob)))"

section \<open>Reading a session\<close>

definition api_candidate_feedback :: "('st, 'o) api \<Rightarrow> call \<Rightarrow> string \<Rightarrow> ('st, 'o) api_state
    \<Rightarrow> ('st, 'o) api_state \<times> feedback_report result" where
  "api_candidate_feedback A Q sid = session_call A Q READ_FEEDBACK sid None (\<lambda>p s.
     read_call A sid (\<lambda>s job. Inr (build_candidate_feedback s job)))"

definition api_get_events :: "('st, 'o) api \<Rightarrow> call \<Rightarrow> string \<Rightarrow> ('st, 'o) api_state
    \<Rightarrow> ('st, 'o) api_state \<times> interview_event list result" where
  "api_get_events A Q sid = session_call A Q READ_EVENTS sid None (\<lambda>p s.
     read_call A sid (\<lambda>s job. Inr (events s)))"

definition api_replay_session :: "('st, 'o) api \<Rightarrow> call \<Rightarrow> string \<Rightarrow> ('st, 'o) api_state
    \<Rightarrow> ('st, 'o) api_state \<times> replay_state result" where
  "api_replay_session A Q sid = session_call A Q READ_REPLAY sid None (\<lambda>p s.
     read_call A sid (\<lambda>s job. replay_events (rt (env_of Q)) (session_id s) (events s)))"

definition api_decision_replay :: "('st, 'o) api \<Rightarrow> call \<Rightarrow> string \<Rightarrow> ('st, 'o) api_state
    \<Rightarrow> ('st, 'o) api_state \<times> counterfactual_report result" where
  "api_decision_replay A Q sid = session_call A Q RUN_DECISION_REPLAY sid None (\<lambda>p s.
     read_call A sid (compare_brains (cfg_brain (api_config A))))"

definition api_export_voxrubric :: "('st, 'o) api \<Rightarrow> call \<Rightarrow> string \<Rightarrow> ('st, 'o) api_state
    \<Rightarrow> ('st, 'o) api_state \<times> trace result" where
  "api_export_voxrubric A Q sid = session_call A Q EXPORT_TRACE sid None (\<lambda>p s g.
     reading (trace_of A Q sid g) g)"

end
