(* ===== verification/Api_Voice.thy ===== *)
theory Api_Voice
  imports Api_Sessions
begin

text \<open>
  The voice endpoints of \<^verbatim>\<open>api.py\<close>, and the datatype \<open>session_request\<close> with one constructor per endpoint
  that is about a session. \<open>serve_session\<close> serves a request; \<open>endpoint_permission\<close> and
  \<open>endpoint_tag\<close> say what permission it needs and whether it is conditional.
\<close>

section \<open>Voice\<close>

record voice_capabilities =
  vcap_stt_enabled :: bool
  vcap_stt_available :: bool
  vcap_tts_enabled :: bool
  vcap_tts_available :: bool
  vcap_stt_health :: provider_health_state
  vcap_tts_health :: provider_health_state
  vcap_vad_enabled :: bool
  vcap_vad_backend :: "string option"
  vcap_stt_protocol :: "string option"
  vcap_tts_protocol :: "string option"
  vcap_stt_config :: audio_stream_config
  vcap_tts_config :: tts_audio_config

definition default_audio_config :: audio_stream_config where
  "default_audio_config = \<lparr> encoding = PCM16, sample_rate_hz = 16000, channels = 1,
     max_chunk_bytes = 32768, max_buffered_bytes = 524288 \<rparr>"

definition default_tts_config :: tts_audio_config where
  "default_tts_config = \<lparr> tts_encoding_of = TtsPCM16, tts_sample_rate_hz = 24000, tts_channels = 1 \<rparr>"

definition voice_capabilities_of :: "('st, 'o) api \<Rightarrow> (nat \<Rightarrow> rat) \<Rightarrow> health_registry \<Rightarrow> voice_capabilities result" where
  "voice_capabilities_of A clock H =
     (let stt = (api_stt_provider A \<noteq> ''disabled''); tts = (api_tts_provider A \<noteq> ''disabled'')
      in ebind (registry_snapshot (clock 0) ''streaming_stt'' H) (\<lambda>hs.
         ebind (registry_snapshot (clock 1) ''streaming_tts'' H) (\<lambda>ht.
         Inr \<lparr> vcap_stt_enabled = stt, vcap_stt_available = (stt \<and> hsnap_state hs \<noteq> HealthOPEN),
               vcap_tts_enabled = tts, vcap_tts_available = (tts \<and> hsnap_state ht \<noteq> HealthOPEN),
               vcap_stt_health = hsnap_state hs, vcap_tts_health = hsnap_state ht,
               vcap_vad_enabled = (api_vad A \<noteq> None),
               vcap_vad_backend = (if api_vad A \<noteq> None then Some ''pcm16-energy'' else None),
               vcap_stt_protocol = (if stt then Some ''nora.stt.v1'' else None),
               vcap_tts_protocol = (if tts then Some ''nora.tts.v1'' else None),
               vcap_stt_config = default_audio_config, vcap_tts_config = default_tts_config \<rparr>)))"

definition api_voice_capabilities :: "('st, 'o) api \<Rightarrow> call \<Rightarrow> string \<Rightarrow> ('st, 'o) api_state
    \<Rightarrow> ('st, 'o) api_state \<times> voice_capabilities result" where
  "api_voice_capabilities A Q sid = session_call A Q USE_VOICE sid None (\<lambda>p s g.
     reading (voice_capabilities_of A (call_clock Q) (api_health g)) g)"

text \<open>Reading the state of a voice session that has none makes one.\<close>

definition api_voice_state :: "('st, 'o) api \<Rightarrow> call \<Rightarrow> string \<Rightarrow> ('st, 'o) api_state
    \<Rightarrow> ('st, 'o) api_state \<times> voice_state result" where
  "api_voice_state A Q sid = session_call A Q USE_VOICE sid None (\<lambda>p s. on_world (\<lambda>w.
     (w\<lparr>vw_voice := dict_setdefault sid (new_voice_state sid) (vw_voice w)\<rparr>, Inr (state_ref (vw_voice w) sid))))"

text \<open>What the candidate interrupts is cancelled.\<close>

definition barge_in :: "('st, 'o) api \<Rightarrow> call \<Rightarrow> string \<Rightarrow> ('st, 'o) api_state
    \<Rightarrow> ('st, 'o) api_state \<times> bool result" where
  "barge_in A Q sid = on_world (cancel_active (so_get (api_store A)) (so_put (api_store A))
     (call_cancelling Q) (call_next Q) sid ''barge_in'')"

definition speech_started_call :: "('st, 'o) api \<Rightarrow> call \<Rightarrow> string \<Rightarrow> ('st, 'o) api_state
    \<Rightarrow> ('st, 'o) api_state \<times> voice_state result" where
  "speech_started_call A Q sid = then_call (voice_call A (call_env Q) sid SpeechStarted) (\<lambda>v.
     then_call (barge_in A Q sid) (\<lambda>_. reading (Inr v)))"

definition api_voice_speech_started :: "('st, 'o) api \<Rightarrow> call \<Rightarrow> string \<Rightarrow> ('st, 'o) api_state
    \<Rightarrow> ('st, 'o) api_state \<times> voice_state result" where
  "api_voice_speech_started A Q sid = session_call A Q USE_VOICE sid None (\<lambda>p s.
     speech_started_call A Q sid)"

definition api_voice_transcript_partial :: "('st, 'o) api \<Rightarrow> call \<Rightarrow> string \<Rightarrow> transcript_event
    \<Rightarrow> ('st, 'o) api_state \<Rightarrow> ('st, 'o) api_state \<times> voice_state result" where
  "api_voice_transcript_partial A Q sid ev = session_call A Q USE_VOICE sid None (\<lambda>p s.
     voice_call A (call_env Q) sid (TranscriptPartial ev))"

definition final_call :: "('st, 'o) api \<Rightarrow> call \<Rightarrow> string \<Rightarrow> transcript_event \<Rightarrow> ('st, 'o) api_state
    \<Rightarrow> ('st, 'o) api_state \<times> voice_turn_result result" where
  "final_call A Q sid ev = on_world (\<lambda>w.
     case transcript_final (so_get (api_store A)) (so_get_job (api_store A)) (so_put (api_store A))
            (api_config A) (call_env Q) (env_of Q) sid ev (vw_store w, vw_voice w) of
       ((stp, vs), r) \<Rightarrow> (w\<lparr>vw_store := stp, vw_voice := vs\<rparr>, r))"

definition api_voice_transcript_final :: "('st, 'o) api \<Rightarrow> call \<Rightarrow> string \<Rightarrow> transcript_event
    \<Rightarrow> ('st, 'o) api_state \<Rightarrow> ('st, 'o) api_state \<times> voice_turn_result result" where
  "api_voice_transcript_final A Q sid ev = session_call A Q USE_VOICE sid None (\<lambda>p s. final_call A Q sid ev)"

definition api_voice_tts_started :: "('st, 'o) api \<Rightarrow> call \<Rightarrow> string \<Rightarrow> string \<Rightarrow> ('st, 'o) api_state
    \<Rightarrow> ('st, 'o) api_state \<times> voice_state result" where
  "api_voice_tts_started A Q sid tid = session_call A Q USE_VOICE sid None (\<lambda>p s.
     voice_call A (call_env Q) sid (TtsStarted tid))"

definition api_voice_tts_completed :: "('st, 'o) api \<Rightarrow> call \<Rightarrow> string \<Rightarrow> string \<Rightarrow> ('st, 'o) api_state
    \<Rightarrow> ('st, 'o) api_state \<times> voice_state result" where
  "api_voice_tts_completed A Q sid tid = session_call A Q USE_VOICE sid None (\<lambda>p s.
     voice_call A (call_env Q) sid (TtsCompleted tid))"

definition api_voice_tts_cancelled :: "('st, 'o) api \<Rightarrow> call \<Rightarrow> string \<Rightarrow> string \<Rightarrow> ('st, 'o) api_state
    \<Rightarrow> ('st, 'o) api_state \<times> voice_state result" where
  "api_voice_tts_cancelled A Q sid tid = session_call A Q USE_VOICE sid None (\<lambda>p s.
     voice_call A (call_env Q) sid (TtsCancelled tid ''provider_cancelled''))"

section \<open>The requests\<close>

datatype session_request =
    AssignReviewRequest assignment_request
  | StartReviewRequest string
  | CompleteReviewRequest string "string option"
  | CancelReviewRequest string "string option"
  | ReportRequest
  | EvidenceBundleRequest
  | ReviewBundleRequest
  | CreateArtifactRequest string string "bytes list"
  | ListArtifactsRequest
  | IssueAccessRequest string
  | DeleteArtifactRequest string "string option"
  | CancelSessionRequest string
  | StartSessionRequest
  | ResponseRequest string
  | ControlRequest candidate_control_request
  | CodingChallengeRequest coding_request
  | OpenToolRequest tool_invocation
  | SubmitToolRequest string jdict
  | GetSessionRequest
  | CorrectionRequest transcript_correction_request
  | AppealRequest appeal_request
  | ReviewAppealRequest string string
  | IntegritySignalRequest integrity_signal_request
  | ReviewSignalRequest string string
  | ReevaluateRequest string
  | ObserveRequest evidence_observation
  | FeedbackRequest
  | EventsRequest
  | ReplayRequest
  | DecisionReplayRequest
  | TraceRequest
  | VoiceCapabilitiesRequest
  | VoiceStateRequest
  | SpeechStartedRequest
  | TranscriptPartialRequest transcript_event
  | TranscriptFinalRequest transcript_event
  | TtsStartedRequest string
  | TtsCompletedRequest string
  | TtsCancelledRequest string

text \<open>The outcome of a call without its result.\<close>

definition quiet :: "('st, 'o) api_state \<times> 'a result \<Rightarrow> ('st, 'o) api_state \<times> unit result" where
  "quiet x = (fst x, map_sum id (\<lambda>_. ()) (snd x))"

fun serve_session :: "('st, 'o) api \<Rightarrow> call \<Rightarrow> string \<Rightarrow> string option \<Rightarrow> session_request
    \<Rightarrow> ('st, 'o) api_state \<Rightarrow> ('st, 'o) api_state \<times> unit result" where
  "serve_session A Q sid im (AssignReviewRequest req) g = quiet (api_assign_review A Q sid im req g)"
| "serve_session A Q sid im (StartReviewRequest aid) g = quiet (api_start_review A Q sid im aid g)"
| "serve_session A Q sid im (CompleteReviewRequest aid note) g = quiet (api_complete_review A Q sid im aid note g)"
| "serve_session A Q sid im (CancelReviewRequest aid note) g = quiet (api_cancel_review A Q sid im aid note g)"
| "serve_session A Q sid im ReportRequest g = quiet (api_recruiter_report A Q sid g)"
| "serve_session A Q sid im EvidenceBundleRequest g = quiet (api_evidence_bundle A Q sid g)"
| "serve_session A Q sid im ReviewBundleRequest g = quiet (api_review_bundle A Q sid g)"
| "serve_session A Q sid im (CreateArtifactRequest kind media chunks) g =
     quiet (api_create_artifact A Q sid kind media chunks g)"
| "serve_session A Q sid im ListArtifactsRequest g = quiet (api_list_artifacts A Q sid g)"
| "serve_session A Q sid im (IssueAccessRequest aid) g = quiet (api_issue_access A Q sid aid g)"
| "serve_session A Q sid im (DeleteArtifactRequest aid why) g = quiet (api_delete_artifact A Q sid aid why g)"
| "serve_session A Q sid im (CancelSessionRequest why) g = quiet (api_cancel_session A Q sid im why g)"
| "serve_session A Q sid im StartSessionRequest g = quiet (api_start_session A Q sid im g)"
| "serve_session A Q sid im (ResponseRequest answer) g = quiet (api_submit_response A Q sid im answer g)"
| "serve_session A Q sid im (ControlRequest req) g = quiet (api_candidate_control A Q sid im req g)"
| "serve_session A Q sid im (CodingChallengeRequest req) g = quiet (api_open_coding_challenge A Q sid im req g)"
| "serve_session A Q sid im (OpenToolRequest invo) g = quiet (api_open_tool A Q sid im invo g)"
| "serve_session A Q sid im (SubmitToolRequest tid content) g = quiet (api_submit_tool A Q sid im tid content g)"
| "serve_session A Q sid im GetSessionRequest g = quiet (api_get_session A Q sid g)"
| "serve_session A Q sid im (CorrectionRequest req) g = quiet (api_correct_transcript A Q sid im req g)"
| "serve_session A Q sid im (AppealRequest req) g = quiet (api_submit_appeal A Q sid im req g)"
| "serve_session A Q sid im (ReviewAppealRequest aid note) g = quiet (api_review_appeal A Q sid im aid note g)"
| "serve_session A Q sid im (IntegritySignalRequest req) g = quiet (api_submit_integrity_signal A Q sid im req g)"
| "serve_session A Q sid im (ReviewSignalRequest i note) g = quiet (api_review_integrity_signal A Q sid im i note g)"
| "serve_session A Q sid im (ReevaluateRequest tid) g = quiet (api_reevaluate_evidence A Q sid im tid g)"
| "serve_session A Q sid im (ObserveRequest ob) g = quiet (api_observe_evidence A Q sid im ob g)"
| "serve_session A Q sid im FeedbackRequest g = quiet (api_candidate_feedback A Q sid g)"
| "serve_session A Q sid im EventsRequest g = quiet (api_get_events A Q sid g)"
| "serve_session A Q sid im ReplayRequest g = quiet (api_replay_session A Q sid g)"
| "serve_session A Q sid im DecisionReplayRequest g = quiet (api_decision_replay A Q sid g)"
| "serve_session A Q sid im TraceRequest g = quiet (api_export_voxrubric A Q sid g)"
| "serve_session A Q sid im VoiceCapabilitiesRequest g = quiet (api_voice_capabilities A Q sid g)"
| "serve_session A Q sid im VoiceStateRequest g = quiet (api_voice_state A Q sid g)"
| "serve_session A Q sid im SpeechStartedRequest g = quiet (api_voice_speech_started A Q sid g)"
| "serve_session A Q sid im (TranscriptPartialRequest ev) g = quiet (api_voice_transcript_partial A Q sid ev g)"
| "serve_session A Q sid im (TranscriptFinalRequest ev) g = quiet (api_voice_transcript_final A Q sid ev g)"
| "serve_session A Q sid im (TtsStartedRequest tid) g = quiet (api_voice_tts_started A Q sid tid g)"
| "serve_session A Q sid im (TtsCompletedRequest tid) g = quiet (api_voice_tts_completed A Q sid tid g)"
| "serve_session A Q sid im (TtsCancelledRequest tid) g = quiet (api_voice_tts_cancelled A Q sid tid g)"

text \<open>The permission that each request needs, and whether \<^verbatim>\<open>If-Match\<close> counts.\<close>

fun endpoint_permission :: "session_request \<Rightarrow> permission" where
  "endpoint_permission (AssignReviewRequest req) = ASSIGN_REVIEW"
| "endpoint_permission (StartReviewRequest aid) = WORK_REVIEW_ASSIGNMENT"
| "endpoint_permission (CompleteReviewRequest aid note) = WORK_REVIEW_ASSIGNMENT"
| "endpoint_permission (CancelReviewRequest aid note) = CANCEL_REVIEW_ASSIGNMENT"
| "endpoint_permission ReportRequest = READ_RECRUITER_REPORT"
| "endpoint_permission EvidenceBundleRequest = EXPORT_EVIDENCE_BUNDLE"
| "endpoint_permission ReviewBundleRequest = EXPORT_REVIEW_BUNDLE"
| "endpoint_permission (CreateArtifactRequest kind media chunks) = CREATE_ARTIFACT"
| "endpoint_permission ListArtifactsRequest = READ_ARTIFACT"
| "endpoint_permission (IssueAccessRequest aid) = READ_ARTIFACT"
| "endpoint_permission (DeleteArtifactRequest aid why) = DELETE_ARTIFACT"
| "endpoint_permission (CancelSessionRequest why) = CANCEL_SESSION"
| "endpoint_permission StartSessionRequest = RUN_INTERVIEW"
| "endpoint_permission (ResponseRequest answer) = RUN_INTERVIEW"
| "endpoint_permission (ControlRequest req) = USE_CANDIDATE_CONTROL"
| "endpoint_permission (CodingChallengeRequest req) = OPEN_PRACTICAL_TOOL"
| "endpoint_permission (OpenToolRequest invo) = OPEN_PRACTICAL_TOOL"
| "endpoint_permission (SubmitToolRequest tid content) = SUBMIT_TOOL"
| "endpoint_permission GetSessionRequest = READ_SESSION"
| "endpoint_permission (CorrectionRequest req) = CORRECT_TRANSCRIPT"
| "endpoint_permission (AppealRequest req) = SUBMIT_APPEAL"
| "endpoint_permission (ReviewAppealRequest aid note) = REVIEW_APPEAL"
| "endpoint_permission (IntegritySignalRequest req) = WRITE_INTEGRITY"
| "endpoint_permission (ReviewSignalRequest i note) = REVIEW_INTEGRITY"
| "endpoint_permission (ReevaluateRequest tid) = REEVALUATE_EVIDENCE"
| "endpoint_permission (ObserveRequest ob) = WRITE_EVIDENCE"
| "endpoint_permission FeedbackRequest = READ_FEEDBACK"
| "endpoint_permission EventsRequest = READ_EVENTS"
| "endpoint_permission ReplayRequest = READ_REPLAY"
| "endpoint_permission DecisionReplayRequest = RUN_DECISION_REPLAY"
| "endpoint_permission TraceRequest = EXPORT_TRACE"
| "endpoint_permission VoiceCapabilitiesRequest = USE_VOICE"
| "endpoint_permission VoiceStateRequest = USE_VOICE"
| "endpoint_permission SpeechStartedRequest = USE_VOICE"
| "endpoint_permission (TranscriptPartialRequest ev) = USE_VOICE"
| "endpoint_permission (TranscriptFinalRequest ev) = USE_VOICE"
| "endpoint_permission (TtsStartedRequest tid) = USE_VOICE"
| "endpoint_permission (TtsCompletedRequest tid) = USE_VOICE"
| "endpoint_permission (TtsCancelledRequest tid) = USE_VOICE"

fun is_conditional :: "session_request \<Rightarrow> bool" where
  "is_conditional (AssignReviewRequest req) = True"
| "is_conditional (StartReviewRequest aid) = True"
| "is_conditional (CompleteReviewRequest aid note) = True"
| "is_conditional (CancelReviewRequest aid note) = True"
| "is_conditional (CancelSessionRequest why) = True"
| "is_conditional StartSessionRequest = True"
| "is_conditional (ResponseRequest answer) = True"
| "is_conditional (ControlRequest req) = True"
| "is_conditional (CodingChallengeRequest req) = True"
| "is_conditional (OpenToolRequest invo) = True"
| "is_conditional (SubmitToolRequest tid content) = True"
| "is_conditional (CorrectionRequest req) = True"
| "is_conditional (AppealRequest req) = True"
| "is_conditional (ReviewAppealRequest aid note) = True"
| "is_conditional (IntegritySignalRequest req) = True"
| "is_conditional (ReviewSignalRequest i note) = True"
| "is_conditional (ReevaluateRequest tid) = True"
| "is_conditional (ObserveRequest ob) = True"
| "is_conditional _ = False"

definition endpoint_tag :: "session_request \<Rightarrow> string option \<Rightarrow> string option" where
  "endpoint_tag req im = (if is_conditional req then im else None)"

end
