(* ===== verification/Api_Frame.thy ===== *)
theory Api_Frame
  imports Api_Voice Concurrency
begin

text \<open>
  What the endpoints may do. First, over any store: an endpoint that gets past its checks has a caller
  who may access the session and a tag that matches; one that does not changes nothing. Second, in the
  contract of a store and a brain: a handler writes at most the session of its request and keeps every
  stored session sound.
\<close>

section \<open>The guard\<close>

definition admitted :: "('st, 'o) api \<Rightarrow> call \<Rightarrow> permission \<Rightarrow> string \<Rightarrow> string option \<Rightarrow> ('st, 'o) api_state
    \<Rightarrow> principal \<Rightarrow> interview_session \<Rightarrow> bool" where
  "admitted A Q perm sid im g p s \<longleftrightarrow> current_principal A Q = Inr p
     \<and> so_get (api_store A) (stored g) sid = Some s \<and> may_access p perm s
     \<and> enforce_session_precondition s im = Inr ()"

definition refused :: "('st, 'o) api_state \<Rightarrow> ('st, 'o) api_state \<times> 'a result \<Rightarrow> bool" where
  "refused g x \<longleftrightarrow> fst x = g \<and> (\<exists>e. snd x = Inl e)"

lemma require_access_unit: "require_access p perm s = Inr u \<longleftrightarrow> require_access p perm s = Inr ()"
  by (cases u) simp

lemma session_call_cases:
  obtains "refused g (session_call A Q perm sid im k g)"
  | p s where "admitted A Q perm sid im g p s" and "session_call A Q perm sid im k g = k p s g"
proof (cases "ebind (current_principal A Q) (\<lambda>p.
           ebind (require_session_permission A sid p perm g) (\<lambda>s.
           ebind (enforce_session_precondition s im) (\<lambda>_. Inr (p, s))))")
  case (Inl e)
  then show thesis by (intro that(1)) (simp add: session_call_def refused_def)
next
  case (Inr x)
  obtain p s where x: "x = (p, s)" by (cases x) simp
  have "admitted A Q perm sid im g p s"
    using Inr unfolding x
    by (auto simp: admitted_def require_session_permission_def load_session_def exn_simps
        require_access_iff [symmetric] split: option.splits)
  moreover have "session_call A Q perm sid im k g = k p s g" using Inr unfolding x by (simp add: session_call_def)
  ultimately show thesis by (rule that(2))
qed

lemma quiet_refused: "refused g x \<Longrightarrow> refused g (quiet x)"
  by (auto simp: refused_def quiet_def)

lemmas endpoint_defs = api_assign_review_def api_start_review_def api_complete_review_def api_cancel_review_def
  api_recruiter_report_def api_evidence_bundle_def api_review_bundle_def api_create_artifact_def
  api_list_artifacts_def api_issue_access_def api_delete_artifact_def api_cancel_session_def
  api_start_session_def api_submit_response_def api_candidate_control_def api_open_coding_challenge_def
  api_open_tool_def api_submit_tool_def api_get_session_def api_correct_transcript_def api_submit_appeal_def
  api_review_appeal_def api_submit_integrity_signal_def api_review_integrity_signal_def
  api_reevaluate_evidence_def api_observe_evidence_def api_candidate_feedback_def api_get_events_def
  api_replay_session_def api_decision_replay_def api_export_voxrubric_def api_voice_capabilities_def
  api_voice_state_def api_voice_speech_started_def api_voice_transcript_partial_def
  api_voice_transcript_final_def api_voice_tts_started_def api_voice_tts_completed_def
  api_voice_tts_cancelled_def

text \<open>A call that is not refused was admitted.\<close>

lemma guarded:
  assumes "\<not> refused g (quiet (session_call A Q perm sid im k g))"
  shows "\<exists>p s. admitted A Q perm sid im g p s"
  by (rule session_call_cases [of g A Q perm sid im k]) (use assms quiet_refused in blast)+

lemma session_guard:
  assumes "\<not> refused g (serve_session A Q sid im req g)"
  shows "\<exists>p s. admitted A Q (endpoint_permission req) sid (endpoint_tag req im) g p s"
  using assms by (cases req) (auto simp: endpoint_defs endpoint_tag_def dest!: guarded)

section \<open>Handlers on the store\<close>

lemma persisted_iff:
  "persist_session put s st = Inr st' \<longleftrightarrow> put s st = Inr st'"
  "persist_review put s st = Inr st' \<longleftrightarrow> put s st = Inr st'"
  "persist_voice put s st = Inr st' \<longleftrightarrow> put s st = Inr st'"
  "persist_artifacts put s st = Inr st' \<longleftrightarrow> put s st = Inr st'"
  by (auto simp: persist_session_def persist_review_def persist_voice_def persist_artifacts_def
      split: sum.splits exn.splits)

context service_store begin

definition touches :: "string \<Rightarrow> 'st \<Rightarrow> 'st \<Rightarrow> bool" where
  "touches sid st st' \<longleftrightarrow> sound_store st' \<and> (\<forall>k. k \<noteq> sid \<longrightarrow> get st' k = get st k)"

lemma touches_refl: "sound_store st \<Longrightarrow> touches sid st st"
  by (simp add: touches_def)

lemma touches_trans: "touches sid st st1 \<Longrightarrow> touches sid st1 st2 \<Longrightarrow> touches sid st st2"
  by (simp add: touches_def)

lemma touches_sound: "touches sid st st' \<Longrightarrow> sound_store st'"
  by (simp add: touches_def)

lemma loaded:
  assumes "sound_store st" and "get st sid = Some s"
  shows "session_id s = sid" and "session_ok R s" and "closed_ok s"
  using assms get_id unfolding sound_store_def by blast+

lemma put_touches:
  assumes "sound_store st" and "get st sid = Some s" and "step_keeps R s s'" and "put s' st = Inr st'"
  shows "touches sid st st'"
proof -
  have ok: "okst st" using assms(1) by (simp add: sound_store_def)
  have "session_ok R s'" "closed_ok s'" "session_id s' = sid"
    using assms(3) loaded [OF assms(1,2)] by (simp_all add: step_keeps_def)
  then show ?thesis
    using put_sound [OF assms(1,4)] put_get [OF ok assms(4)] by (simp add: touches_def)
qed

lemma persist_touches:
  assumes "sound_store st" and "get st sid = Some s" and "step_keeps R s s'" and "persist_session put s' st = Inr st'"
  shows "touches sid st st'"
  using put_touches [OF assms(1-3)] assms(4)
  by (simp add: persisted_iff)

lemma transact_touches:
  assumes "transact get get_job put sid h (st, priv) = ((st', priv'), r)" and "sound_store st"
    and "\<And>s job. forget (h s job priv) = request_step C E req s job priv" and "rt E = R"
  shows "touches sid st st'"
proof (cases "get_session_and_job get get_job sid st")
  case (Inl e)
  then show ?thesis using assms(1,2) by (simp add: transact_def touches_refl)
next
  case (Inr x)
  obtain s job where x: "x = (s, job)" by (cases x) simp
  have s: "get st sid = Some s" using Inr x by (auto simp: get_session_and_job_def split: option.splits)
  obtain priv1 out where h: "h s job priv = (priv1, out)" by (cases "h s job priv") simp
  show ?thesis
  proof (cases out)
    case (Inl e)
    then show ?thesis using assms(1,2) Inr x h by (simp add: transact_def touches_refl)
  next
    case (Inr y)
    obtain so a where y: "y = (so, a)" by (cases y) simp
    show ?thesis
    proof (cases so)
      case None
      then show ?thesis using assms(1,2) \<open>get_session_and_job get get_job sid st = Inr x\<close> x h Inr y
        by (simp add: transact_def touches_refl)
    next
      case (Some s')
      have "forget (h s job priv) = (priv1, Inr (Some s'))" using h Inr y Some by (simp add: forget_def)
      then have "request_step C E req s job priv = (priv1, Inr (Some s'))" using assms(3) by simp
      then have keeps: "step_keeps R s s'"
        using request_keeps [OF _ brain] loaded(2,3) [OF assms(2) s] assms(4) by metis
      show ?thesis
      proof (cases "persist_session put s' st")
        case (Inl e)
        then show ?thesis using assms(1,2) \<open>get_session_and_job get get_job sid st = Inr x\<close> x h
          \<open>out = Inr y\<close> y Some by (simp add: transact_def touches_refl)
      next
        case (Inr st1)
        have "st' = st1" using assms(1) \<open>get_session_and_job get get_job sid st = Inr x\<close> x h
          \<open>out = Inr y\<close> y Some Inr by (simp add: transact_def)
        then show ?thesis using persist_touches [OF assms(2) s keeps] Inr by simp
      qed
    qed
  qed
qed

lemma answer_touches:
  assumes "answer_handler get get_job put C E sid answer meta (st, priv) = ((st', priv'), r)" and "sound_store st"
    and "rt E = R"
  shows "touches sid st st'"
proof -
  have one: "forget (start_step C E s job p) = request_step C E StartInterview s job p"
    "forget (answer_step C E answer meta s job p) = request_step C E (AnswerQuestion answer meta) s job p" for s job p
    by (simp_all add: request_step_def)
  note start = transact_touches [where h = "start_step C E", OF _ _ one(1) assms(3)]
  note answer = transact_touches [where h = "answer_step C E answer meta", OF _ _ one(2) assms(3)]
  show ?thesis
  proof (cases "get_session_and_job get get_job sid st")
    case (Inl e)
    then show ?thesis using assms(1,2) by (simp add: answer_handler_def touches_refl)
  next
    case (Inr x)
    obtain s job where x: "x = (s, job)" by (cases x) simp
    show ?thesis
    proof (cases "status s = CREATED")
      case False
      then show ?thesis using assms(1) Inr x answer [OF _ assms(2)] by (simp add: answer_handler_def)
    next
      case True
      obtain st1 priv1 r1 where run: "transact get get_job put sid (start_step C E) (st, priv) = ((st1, priv1), r1)"
        by (metis surj_pair)
      have first: "touches sid st st1" by (rule start [OF run assms(2)])
      show ?thesis
      proof (cases r1)
        case Inl
        then show ?thesis using assms(1) \<open>get_session_and_job get get_job sid st = Inr x\<close> x True run first
          by (simp add: answer_handler_def)
      next
        case (Inr step)
        then have "transact get get_job put sid (answer_step C E answer meta) (st1, priv1) = ((st', priv'), r)"
          using assms(1) \<open>get_session_and_job get get_job sid st = Inr x\<close> x True run by (simp add: answer_handler_def)
        then show ?thesis using answer [OF _ touches_sound [OF first]] first by (blast intro: touches_trans)
      qed
    qed
  qed
qed

text \<open>The other handlers write at most once.\<close>

lemma wrote:
  assumes "st' = st \<or> (\<exists>s s'. get st sid = Some s \<and> step_keeps R s s' \<and> put s' st = Inr st')"
    and "sound_store st"
  shows "touches sid st st'"
  using assms put_touches touches_refl by blast

lemma review_touches:
  assumes "review_transact get get_job put E sid op st = (st', r)" and "sound_store st" and "rt E = R"
  shows "touches sid st st'"
proof (rule wrote [OF _ assms(2)])
  have "step_keeps R s s'"
    if "get st sid = Some s" "review_op_step E op s = Inr (Some s', a)" for s s' a
    using review_keeps [OF that(2)] loaded(2,3) [OF assms(2) that(1)] assms(3) by simp
  then show "st' = st \<or> (\<exists>s s'. get st sid = Some s \<and> step_keeps R s s' \<and> put s' st = Inr st')"
    using assms(1)
    by (auto simp: review_transact_def get_session_and_job_def persisted_iff split: sum.splits option.splits)
qed

lemma voice_touches:
  assumes "voice_transact get put X sid op (st, vs) = ((st', vs'), r)" and "sound_store st" and "rt (venv X) = R"
  shows "touches sid st st'"
proof (rule wrote [OF _ assms(2)])
  have "step_keeps R s s'"
    if "get st sid = Some s" "voice_op_step X op s v = (v', Inr (Some s'))" for s s' v v'
    using voice_op_keeps [OF that(2)] loaded(2,3) [OF assms(2) that(1)] assms(3) by simp
  then show "st' = st \<or> (\<exists>s s'. get st sid = Some s \<and> step_keeps R s s' \<and> put s' st = Inr st')"
    using assms(1)
    by (fastforce simp: voice_transact_def load_session_def persisted_iff
        split: sum.splits option.splits prod.splits)
qed

lemma final_touches:
  assumes "transcript_final get get_job put C X E sid ev ((st, priv), vs) = (((st', priv'), vs'), r)"
    and "sound_store st" and "rt (venv X) = R" and "rt E = R"
  shows "touches sid st st'"
proof (cases "load_session get sid st")
  case (Inl e)
  then show ?thesis using assms(1) touches_refl [OF assms(2)] by (simp add: transcript_final_def)
next
  case (Inr s)
  obtain st1 vs1 r1 where v1: "voice_transact get put X sid (TranscriptFinal ev) (st, vs) = ((st1, vs1), r1)"
    by (metis surj_pair)
  have t1: "touches sid st st1" by (rule voice_touches [OF v1 assms(2,3)])
  show ?thesis
  proof (cases r1)
    case Inl
    then show ?thesis using assms(1) \<open>load_session get sid st = Inr s\<close> v1 t1 by (simp add: transcript_final_def)
  next
    case r1: (Inr w1)
    show ?thesis
    proof (cases "language_of X ev s")
      case (Inl e)
      then show ?thesis using assms(1) \<open>load_session get sid st = Inr s\<close> v1 t1 r1
        by (simp add: transcript_final_def)
    next
      case m: (Inr m)
      obtain st2 priv2 r2 where a: "answer_handler get get_job put C E sid (tre_text ev)
          (metadata_dict (of_unicode X) m) (st1, priv) = ((st2, priv2), r2)"
        by (metis surj_pair)
      have t2: "touches sid st st2"
        using touches_trans [OF t1 answer_touches [OF a touches_sound [OF t1] assms(4)]] .
      show ?thesis
      proof (cases r2)
        case (Inl e)
        then show ?thesis using assms(1) \<open>load_session get sid st = Inr s\<close> v1 t2 r1 m a
          by (simp add: transcript_final_def)
      next
        case (Inr step)
        obtain st3 vs3 r3 where v3: "voice_transact get put X sid (ResponseReady step) (st2, vs1) = ((st3, vs3), r3)"
          by (metis surj_pair)
        have "touches sid st st3"
          using touches_trans [OF t2 voice_touches [OF v3 touches_sound [OF t2] assms(3)]] .
        then show ?thesis using assms(1) \<open>load_session get sid st = Inr s\<close> v1 t2 r1 m a v3 Inr
          by (auto simp: transcript_final_def split: sum.splits)
      qed
    qed
  qed
qed

lemma create_artifact_touches:
  assumes "create_artifact get put A E sid data kind media who (st, ob) = ((st', ob'), r)"
    and "sound_store st" and "rt E = R"
  shows "touches sid st st'"
proof (rule wrote [OF _ assms(2)])
  have "step_keeps R s s'" if "get st sid = Some s" "record_artifact_step E a s = Inr s'" for s s' a
    using artifact_keeps [of E "RecordArtifact a" s s'] that(2) loaded(2,3) [OF assms(2) that(1)] assms(3)
    by (simp add: artifact_op_step_def)
  then show "st' = st \<or> (\<exists>s s'. get st sid = Some s \<and> step_keeps R s s' \<and> put s' st = Inr st')"
    using assms(1)
    by (fastforce simp: create_artifact_def load_session_def persisted_iff exn_simps
        split: sum.splits option.splits prod.splits)
qed

lemma delete_artifact_touches:
  assumes "delete_artifact get put A E sid aid who why (st, ob) = ((st', ob'), r)"
    and "sound_store st" and "rt E = R"
  shows "touches sid st st'"
proof (rule wrote [OF _ assms(2)])
  have "step_keeps R s s'"
    if "get st sid = Some s" "find_artifact s aid = Inr a" "art_deleted_at a = None"
      "delete_artifact_step E aid who why a s = Inr s'" for s s' a
    using artifact_keeps [of E "DeleteArtifact aid who why" s s'] that loaded(2,3) [OF assms(2) that(1)] assms(3)
    by (simp add: artifact_op_step_def)
  then show "st' = st \<or> (\<exists>s s'. get st sid = Some s \<and> step_keeps R s s' \<and> put s' st = Inr st')"
    using assms(1)
    by (fastforce simp: delete_artifact_def load_session_def persisted_iff exn_simps
        split: sum.splits option.splits prod.splits if_splits)
qed

lemma voice_do_touches:
  assumes "voice_do get put X sid op w = (w', r)" and "sound_store (fst (vw_store w))" and "rt (venv X) = R"
  shows "touches sid (fst (vw_store w)) (fst (vw_store w'))"
    and "\<exists>v b. w' = w\<lparr>vw_store := b, vw_voice := v\<rparr>"
  using voice_touches [OF _ assms(2,3)] assms(1) by (fastforce simp: voice_do_def split: prod.splits)+

end

section \<open>Streams of synthesised speech\<close>

text \<open>The active stream of a session is one of that session.\<close>

definition streams_matched :: "'st output_world \<Rightarrow> bool" where
  "streams_matched w \<longleftrightarrow> (\<forall>sid i x. dict_get (ow_active w) sid = Some i \<longrightarrow> dict_get (ow_streams w) i = Some x
     \<longrightarrow> tts_session_id x = sid \<and> tts_stream_id x = i)"

lemma streams_matched_cong:
  "ow_active w' = ow_active w \<Longrightarrow> ow_streams w' = ow_streams w \<Longrightarrow> streams_matched w' = streams_matched w"
  by (simp add: streams_matched_def)

lemma streams_matchedD:
  assumes "streams_matched w" and "dict_get (ow_active w) sid = Some i" and "dict_get (ow_streams w) i = Some x"
  shows "tts_session_id x = sid" and "tts_stream_id x = i"
  using assms unfolding streams_matched_def by blast+

lemma released_matched:
  assumes "streams_matched w"
  shows "streams_matched (release_stream x w)"
  unfolding streams_matched_def
proof (intro allI impI)
  fix sid i z
  assume a: "dict_get (ow_active (release_stream x w)) sid = Some i"
    "dict_get (ow_streams (release_stream x w)) i = Some z"
  have "dict_get (ow_active w) sid = Some i" "dict_get (ow_streams w) i = Some z"
    using a by (auto simp: release_stream_def split: if_splits)
  then show "tts_session_id z = sid \<and> tts_stream_id z = i" using streams_matchedD [OF assms] by blast
qed

lemma restored_matched:
  assumes "streams_matched w" and "dict_get (ow_streams w) (tts_stream_id x) = Some y"
    and "tts_session_id x = tts_session_id y" and "tts_stream_id x = tts_stream_id y"
  shows "streams_matched (w\<lparr>ow_streams := dict_set (tts_stream_id x) x (ow_streams w)\<rparr>)"
  unfolding streams_matched_def
proof (intro allI impI)
  fix sid i z
  let ?w = "w\<lparr>ow_streams := dict_set (tts_stream_id x) x (ow_streams w)\<rparr>"
  assume a: "dict_get (ow_active ?w) sid = Some i" "dict_get (ow_streams ?w) i = Some z"
  show "tts_session_id z = sid \<and> tts_stream_id z = i"
  proof (cases "i = tts_stream_id x")
    case True
    have "tts_session_id y = sid" by (rule streams_matchedD [OF assms(1)]) (use a(1) assms(2) True in simp_all)
    then show ?thesis using a(2) True assms(3) by simp
  next
    case False
    have "dict_get (ow_active w) sid = Some i" "dict_get (ow_streams w) i = Some z" using a False by simp_all
    then show ?thesis using streams_matchedD [OF assms(1)] by blast
  qed
qed

section \<open>Every endpoint\<close>

context service_store begin

lemma mark_cancelled_touches:
  assumes "mark_cancelled get put cancelling X why x w = (w', x', r)" and "sound_store (fst (vw_store w))"
    and "rt (venv X) = R"
  shows "touches (tts_session_id x) (fst (vw_store w)) (fst (vw_store w'))"
    and "ow_active w' = ow_active w" and "ow_streams w' = ow_streams w"
    and "tts_session_id x' = tts_session_id x" and "tts_stream_id x' = tts_stream_id x"
proof -
  have "(w' = w \<or> (\<exists>op r1. voice_do get put X (tts_session_id x) op w = (w', r1)))
      \<and> tts_session_id x' = tts_session_id x \<and> tts_stream_id x' = tts_stream_id x"
    using assms(1) by (auto simp: mark_cancelled_def Let_def split: if_splits prod.splits sum.splits)
  then show "touches (tts_session_id x) (fst (vw_store w)) (fst (vw_store w'))"
    "ow_active w' = ow_active w" "ow_streams w' = ow_streams w"
    "tts_session_id x' = tts_session_id x" "tts_stream_id x' = tts_stream_id x"
    using voice_do_touches [OF _ assms(2,3)] touches_refl [OF assms(2)] by fastforce+
qed

lemma cancel_active_touches:
  assumes "cancel_active get put cancelling X sid why w = (w', r)" and "sound_store (fst (vw_store w))"
    and "rt (venv X) = R" and "streams_matched w"
  shows "touches sid (fst (vw_store w)) (fst (vw_store w'))" and "streams_matched w'"
proof -
  have "touches sid (fst (vw_store w)) (fst (vw_store w')) \<and> streams_matched w'"
  proof (cases "Option.bind (dict_get (ow_active w) sid) (dict_get (ow_streams w))")
    case None
    then show ?thesis using assms touches_refl by (simp add: cancel_active_def)
  next
    case (Some x)
    then obtain i where i: "dict_get (ow_active w) sid = Some i" "dict_get (ow_streams w) i = Some x"
      by (cases "dict_get (ow_active w) sid") auto
    have x: "tts_session_id x = sid" "tts_stream_id x = i"
      using streams_matchedD [OF assms(4) i] by simp_all
    obtain w1 x1 r1 where m: "mark_cancelled get put cancelling X why x w = (w1, x1, r1)" by (metis surj_pair)
    note t = mark_cancelled_touches [OF m assms(2,3)]
    have matched: "streams_matched w1" using assms(4) t(2,3) streams_matched_cong by blast
    have "w' = w1\<lparr>ow_streams := dict_set (tts_stream_id x1) x1 (ow_streams w1)\<rparr> \<or> w' = release_stream x1 w1"
      using assms(1) Some m by (auto simp: cancel_active_def close_output_def split: sum.splits)
    moreover have "streams_matched (w1\<lparr>ow_streams := dict_set (tts_stream_id x1) x1 (ow_streams w1)\<rparr>)"
      by (rule restored_matched [OF matched, where y = x]) (use t x i in simp_all)
    ultimately show ?thesis using t(1) x released_matched [OF matched] by (auto simp: release_stream_def)
  qed
  then show "touches sid (fst (vw_store w)) (fst (vw_store w'))" and "streams_matched w'" by simp_all
qed

text \<open>A call that writes at most one session.\<close>

definition contained :: "string \<Rightarrow> (('st, 'o) api_state \<Rightarrow> ('st, 'o) api_state \<times> 'a result) \<Rightarrow> bool" where
  "contained sid f \<longleftrightarrow> (\<forall>g. sound_store (stored g) \<and> streams_matched (api_world g) \<longrightarrow>
     touches sid (stored g) (stored (fst (f g))) \<and> streams_matched (api_world (fst (f g))))"

lemma contained_reading: "contained sid (\<lambda>g. reading (f g) g)" "contained sid (reading x)"
  by (simp_all add: contained_def reading_def touches_refl)

lemma contained_refused: "contained sid (\<lambda>g. (g, f g))"
  by (simp add: contained_def touches_refl)

lemma contained_quiet: "contained sid f \<Longrightarrow> contained sid (\<lambda>g. quiet (f g))"
  by (simp add: contained_def quiet_def)

lemma contained_session_call:
  fixes k :: "principal \<Rightarrow> interview_session \<Rightarrow> ('st, 'o) api_state \<Rightarrow> ('st, 'o) api_state \<times> 'a result"
  assumes "\<And>p s. contained sid (k p s)"
  shows "contained sid (session_call A Q perm sid im k)"
  unfolding contained_def
proof (intro allI impI)
  fix g :: "('st, 'o) api_state"
  assume g: "sound_store (stored g) \<and> streams_matched (api_world g)"
  show "touches sid (stored g) (stored (fst (session_call A Q perm sid im k g)))
      \<and> streams_matched (api_world (fst (session_call A Q perm sid im k g)))"
    by (rule session_call_cases [of g A Q perm sid im k])
      (use assms g in \<open>auto simp: contained_def refused_def touches_refl\<close>)
qed

lemma contained_then:
  fixes f :: "('st, 'o) api_state \<Rightarrow> ('st, 'o) api_state \<times> 'a result"
  assumes "contained sid f" and "\<And>a. contained sid (k a)"
  shows "contained sid (then_call f k)"
  unfolding contained_def
proof (intro allI impI)
  fix g :: "('st, 'o) api_state"
  assume g: "sound_store (stored g) \<and> streams_matched (api_world g)"
  obtain g1 r1 where f: "f g = (g1, r1)" by (metis surj_pair)
  have one: "touches sid (stored g) (stored g1)" "streams_matched (api_world g1)"
    using assms(1) g f by (force simp: contained_def)+
  show "touches sid (stored g) (stored (fst (then_call f k g)))
      \<and> streams_matched (api_world (fst (then_call f k g)))"
  proof (cases r1)
    case Inl
    then show ?thesis using one f by (simp add: then_call_def)
  next
    case (Inr a)
    have "touches sid (stored g1) (stored (fst (k a g1)))" "streams_matched (api_world (fst (k a g1)))"
      using assms(2) one touches_sound by (auto simp: contained_def)
    then show ?thesis using one(1) f Inr by (auto simp: then_call_def intro: touches_trans)
  qed
qed

text \<open>The model's services, and the clocks of a call.\<close>

definition fits :: "('st, 'o) api \<Rightarrow> call \<Rightarrow> bool" where
  "fits A Q \<longleftrightarrow> so_get (api_store A) = get \<and> so_put (api_store A) = put \<and> so_get_job (api_store A) = get_job
     \<and> api_config A = C \<and> rt (env_of Q) = R \<and> rt (venv (call_next Q)) = R"

lemma contained_on_store:
  fixes f :: "'st \<times> challenges \<Rightarrow> ('st \<times> challenges) \<times> 'a result"
  assumes "\<And>st priv st' priv' r. f (st, priv) = ((st', priv'), r) \<Longrightarrow> sound_store st \<Longrightarrow> touches sid st st'"
  shows "contained sid (on_store f :: ('st, 'o) api_state \<Rightarrow> _)"
  unfolding contained_def
proof (intro allI impI)
  fix g :: "('st, 'o) api_state"
  assume g: "sound_store (stored g) \<and> streams_matched (api_world g)"
  obtain st priv where w: "vw_store (api_world g) = (st, priv)" by (cases "vw_store (api_world g)") simp
  obtain st' priv' r where f: "f (st, priv) = ((st', priv'), r)" by (metis surj_pair)
  show "touches sid (stored g) (stored (fst (on_store f g))) \<and> streams_matched (api_world (fst (on_store f g)))"
    using assms [OF f] g w f by (simp add: on_store_def streams_matched_def)
qed

lemma contained_on_world:
  fixes f :: "'st output_world \<Rightarrow> 'st output_world \<times> 'a result"
  assumes "\<And>w w' r. f w = (w', r) \<Longrightarrow> sound_store (fst (vw_store w)) \<Longrightarrow> streams_matched w
      \<Longrightarrow> touches sid (fst (vw_store w)) (fst (vw_store w')) \<and> streams_matched w'"
  shows "contained sid (on_world f :: ('st, 'o) api_state \<Rightarrow> _)"
  unfolding contained_def
proof (intro allI impI)
  fix g :: "('st, 'o) api_state"
  assume g: "sound_store (stored g) \<and> streams_matched (api_world g)"
  obtain w' r where f: "f (api_world g) = (w', r)" by (metis surj_pair)
  show "touches sid (stored g) (stored (fst (on_world f g))) \<and> streams_matched (api_world (fst (on_world f g)))"
    using assms [OF f] g f by (simp add: on_world_def)
qed

lemma contained_on_objects:
  fixes f :: "'st \<times> 'o \<Rightarrow> ('st \<times> 'o) \<times> 'a result"
  assumes "\<And>st ob st' ob' r. f (st, ob) = ((st', ob'), r) \<Longrightarrow> sound_store st \<Longrightarrow> touches sid st st'"
  shows "contained sid (on_objects f)"
  unfolding contained_def
proof (intro allI impI)
  fix g :: "('st, 'o) api_state"
  assume g: "sound_store (stored g) \<and> streams_matched (api_world g)"
  obtain st' ob' r where f: "f (stored g, api_objects g) = ((st', ob'), r)" by (metis surj_pair)
  show "touches sid (stored g) (stored (fst (on_objects f g)))
      \<and> streams_matched (api_world (fst (on_objects f g)))"
    using assms [OF f] g f by (simp add: on_objects_def streams_matched_def)
qed

lemma contained_interview:
  assumes "fits A Q" and "\<And>priv s job. forget (h s job priv) = request_step (api_config A) (env_of Q) req s job priv"
  shows "contained sid (interview_call A sid h)"
  unfolding interview_call_def
proof (rule contained_on_store)
  fix st st' :: 'st and priv priv' r
  assume "transact (so_get (api_store A)) (so_get_job (api_store A)) (so_put (api_store A)) sid h (st, priv)
      = ((st', priv'), r)" and st: "sound_store st"
  then have "transact get get_job put sid h (st, priv) = ((st', priv'), r)" "rt (env_of Q) = R"
    using assms(1) by (simp_all add: fits_def)
  moreover have "api_config A = C" using assms(1) by (simp add: fits_def)
  ultimately show "touches sid st st'" using transact_touches [OF _ st] assms(2) by blast
qed

lemma contained_voice:
  assumes "fits A Q" and "X = call_env Q \<or> X = call_next Q"
  shows "contained sid (voice_call A X sid op)"
  unfolding voice_call_def
proof (rule contained_on_world)
  fix w w' :: "'st output_world" and r
  assume run: "voice_do (so_get (api_store A)) (so_put (api_store A)) X sid op w = (w', r)"
    and w: "sound_store (fst (vw_store w))" "streams_matched w"
  have "voice_do get put X sid op w = (w', r)" "rt (venv X) = R" using run assms by (auto simp: fits_def)
  from voice_do_touches [OF this(1) w(1) this(2)]
  show "touches sid (fst (vw_store w)) (fst (vw_store w')) \<and> streams_matched w'"
    using w(2) by (auto simp: streams_matched_def)
qed

lemma contained_barge_in:
  assumes "fits A Q"
  shows "contained sid (barge_in A Q sid)"
  unfolding barge_in_def
  by (rule contained_on_world) (use assms cancel_active_touches in \<open>auto simp: fits_def\<close>)

lemma contained_final:
  assumes "fits A Q"
  shows "contained sid (final_call A Q sid ev)"
  unfolding final_call_def
proof (rule contained_on_world)
  fix w w' :: "'st output_world" and r
  assume run: "(case transcript_final (so_get (api_store A)) (so_get_job (api_store A)) (so_put (api_store A))
            (api_config A) (call_env Q) (env_of Q) sid ev (vw_store w, vw_voice w) of
       ((stp, vs), r) \<Rightarrow> (w\<lparr>vw_store := stp, vw_voice := vs\<rparr>, r)) = (w', r)"
    and w: "sound_store (fst (vw_store w))" "streams_matched w"
  obtain st priv where st: "vw_store w = (st, priv)" by (cases "vw_store w") simp
  obtain st' priv' vs' r' where f: "transcript_final get get_job put C (call_env Q) (env_of Q) sid ev
      ((st, priv), vw_voice w) = (((st', priv'), vs'), r')" by (metis surj_pair)
  have "w' = w\<lparr>vw_store := (st', priv'), vw_voice := vs'\<rparr>"
    using run f st assms by (simp add: fits_def)
  then show "touches sid (fst (vw_store w)) (fst (vw_store w')) \<and> streams_matched w'"
    using final_touches [OF f] w st assms by (simp add: fits_def streams_matched_def)
qed

lemma contained_quietI: "(\<And>g. h g = quiet (f g)) \<Longrightarrow> contained sid f \<Longrightarrow> contained sid h"
  by (simp add: contained_def quiet_def)

lemma contained_case:
  assumes "\<And>d. contained sid (f d)"
  shows "contained sid (\<lambda>g. case x of Inl e \<Rightarrow> (g, Inl e) | Inr d \<Rightarrow> f d g)"
  using assms by (cases x) (simp_all add: contained_refused)

lemma contained_read_call: "contained sid (read_call A k f)"
  by (simp add: contained_def read_call_def reading_def touches_refl)

lemma contained_review:
  assumes "fits A Q"
  shows "contained sid (review_call A Q sid op)"
  unfolding review_call_def on_table_def
proof (rule contained_on_store)
  fix st st' :: 'st and priv priv' r
  assume run: "(\<lambda>(st, priv). case review_transact (so_get (api_store A)) (so_get_job (api_store A))
      (so_put (api_store A)) (env_of Q) sid op st of (st', r) \<Rightarrow> ((st', priv), r)) (st, priv) = ((st', priv'), r)"
    and st: "sound_store st"
  then have "review_transact get get_job put (env_of Q) sid op st = (st', r)"
    using assms by (auto simp: fits_def split: prod.splits)
  from review_touches [OF this st] show "touches sid st st'" using assms by (simp add: fits_def)
qed

lemma contained_answer:
  assumes "fits A Q"
  shows "contained sid (answer_call A (env_of Q) sid answer)"
  unfolding answer_call_def
  by (rule contained_on_store) (use assms answer_touches in \<open>auto simp: fits_def\<close>)

lemma contained_create:
  assumes "fits A Q"
  shows "contained sid (on_objects (create_artifact (so_get (api_store A)) (so_put (api_store A))
     (api_artifacts A) (env_of Q) sid data kind media who))"
proof (rule contained_on_objects)
  fix st st' and ob ob' :: 'a and r
  assume "create_artifact (so_get (api_store A)) (so_put (api_store A)) (api_artifacts A) (env_of Q)
      sid data kind media who (st, ob) = ((st', ob'), r)" and st: "sound_store st"
  then have "create_artifact get put (api_artifacts A) (env_of Q) sid data kind media who (st, ob) = ((st', ob'), r)"
    and "rt (env_of Q) = R"
    using assms by (simp_all add: fits_def)
  then show "touches sid st st'" by (rule create_artifact_touches [OF _ st])
qed

lemma contained_delete:
  assumes "fits A Q"
  shows "contained sid (on_objects (delete_artifact (so_get (api_store A)) (so_put (api_store A))
     (api_artifacts A) (env_of Q) sid aid who why))"
proof (rule contained_on_objects)
  fix st st' and ob ob' :: 'a and r
  assume "delete_artifact (so_get (api_store A)) (so_put (api_store A)) (api_artifacts A) (env_of Q)
      sid aid who why (st, ob) = ((st', ob'), r)" and st: "sound_store st"
  then have "delete_artifact get put (api_artifacts A) (env_of Q) sid aid who why (st, ob) = ((st', ob'), r)"
    and "rt (env_of Q) = R"
    using assms by (simp_all add: fits_def)
  then show "touches sid st st'" by (rule delete_artifact_touches [OF _ st])
qed

lemma contained_voice_state: "contained sid (on_world (\<lambda>w. (w\<lparr>vw_voice := f w\<rparr>, r w)))"
  by (rule contained_on_world) (auto simp: touches_refl streams_matched_def)

lemma forget_steps:
  "forget (start_step D E s job p) = request_step D E StartInterview s job p"
  "forget (plain (\<lambda>s job. cancel_step E why s) s job p) = request_step D E (CancelSession why) s job p"
  "forget (plain (\<lambda>s job. control_step E creq s) s job p) = request_step D E (CandidateControl creq) s job p"
  "forget (open_coding_step E oreq s job p) = request_step D E (OpenCodingChallenge oreq) s job p"
  "forget (plain (open_tool_step E invo) s job p) = request_step D E (OpenTool invo) s job p"
  "forget (submit_tool_step D E tid content s job p) = request_step D E (SubmitTool tid content) s job p"
  "forget (plain (\<lambda>s job. correct_step E treq s) s job p) = request_step D E (CorrectTranscript treq) s job p"
  "forget (plain (\<lambda>s job. submit_appeal_step E areq s) s job p) = request_step D E (SubmitAppeal areq) s job p"
  "forget (plain (\<lambda>s job. review_appeal_step E i rreq s) s job p) = request_step D E (ReviewAppeal i rreq) s job p"
  "forget (plain (\<lambda>s job. submit_signal_step E sreq s) s job p) = request_step D E (SubmitSignal sreq) s job p"
  "forget (plain (\<lambda>s job. review_signal_step E i rreq s) s job p) = request_step D E (ReviewSignal i rreq) s job p"
  "forget (plain (reevaluate_step D E tid) s job p) = request_step D E (ReevaluateEvidence tid) s job p"
  "forget (plain (observe_step E ob) s job p) = request_step D E (ObserveEvidence ob) s job p"
  by (simp_all add: request_step_def plain_def)

lemmas contained_rules = contained_session_call contained_then contained_interview contained_review
  contained_answer contained_voice contained_barge_in contained_final contained_create contained_delete
  contained_case contained_read_call contained_reading contained_voice_state forget_steps

lemma serve_contained:
  assumes "fits A Q"
  shows "contained sid (serve_session A Q sid im req)"
proof -
  note fits = assms
  show ?thesis
    by (cases req; hypsubst; rule contained_quietI, rule serve_session.simps,
        (unfold endpoint_defs speech_started_call_def)?;
        (assumption | rule contained_rules fits refl disjI1 [OF refl] disjI2 [OF refl])+)
qed

end

end
