(* ===== verification/Api_Sockets.thy ===== *)
theory Api_Sockets
  imports Api_Voice
begin

text \<open>
  The three WebSocket endpoints of \<^verbatim>\<open>api.py\<close>: the interview, the synthesised speech and the candidate's
  audio. A socket is a fold of a step over the messages that come, each with its call; a step
  gives what is sent and whether the socket goes on. What a client sends is typed, with \<open>None\<close> for
  data that the models refuse; what pydantic prints is the printed value. Background tasks send between
  messages: a step of their own.
\<close>

section \<open>Messages\<close>

datatype sent =
    SentPong
  | SentInterviewerTurn turn
  | SentToolOpened tool_invocation
  | SentControlAck candidate_control_result
  | SentSelectionAck transport_selection
  | SentFallbackAck transport_fallback
  | SentVoiceState voice_state
  | SentCandidateAck
  | SentCompleted string
  | SentText string
  | SentError string string
  | SentTtsOpened tts_stream
  | SentAudio string tts_chunk
  | SentTtsCancelled "(string \<times> string) option"
  | SentTtsEnded string string int bool
  | SentStreamOpened audio_stream_state string
  | SentReconnected audio_stream_state
  | SentChunkAck audio_chunk_result "vad_observation option"
  | SentCommitted string "(string \<times> vad_observation) option"
  | SentClosed "string option"
  | SentPartial recognition_event voice_state
  | SentFinal recognition_event voice_turn_result
  | SentProviderFailure string string

text \<open>Waiting for a message; ended; the client went away; an exception; closed with code 1008.\<close>

datatype socket_end = SocketWaits | SocketEnded | SocketGone | SocketRaised exn | SocketRefused

text \<open>One message after the other, as long as the socket goes on.\<close>

fun socket_loop :: "('m \<Rightarrow> 's \<Rightarrow> 'g \<Rightarrow> ('s \<times> 'g) \<times> sent list \<times> socket_end) \<Rightarrow> 'm list \<Rightarrow> 's \<Rightarrow> 'g
    \<Rightarrow> ('s \<times> 'g) \<times> sent list \<times> socket_end" where
  "socket_loop step [] s g = ((s, g), [], SocketWaits)"
| "socket_loop step (m # ms) s g =
     (case step m s g of
        ((s1, g1), out, SocketWaits) \<Rightarrow>
          (case socket_loop step ms s1 g1 of (sg, out', fin) \<Rightarrow> (sg, out @ out', fin))
      | other \<Rightarrow> other)"

text \<open>Before the socket is accepted: \<open>None\<close> if it is closed with code 1008.\<close>

definition socket_handshake :: "('st, 'o) api \<Rightarrow> call \<Rightarrow> permission \<Rightarrow> string \<Rightarrow> ('st, 'o) api_state
    \<Rightarrow> (principal \<times> interview_session) option result" where
  "socket_handshake A Q perm sid g =
     (case current_principal A Q of
        Inl (HTTPException c d) \<Rightarrow> Inr None
      | Inl e \<Rightarrow> Inl e
      | Inr p \<Rightarrow>
          (case so_get (api_store A) (stored g) sid of
             None \<Rightarrow> Inr None
           | Some s \<Rightarrow> (case require_access p perm (Some s) of Inl e \<Rightarrow> Inr None | Inr _ \<Rightarrow> Inr (Some (p, s)))))"

text \<open>An operation, what was sent before it, and what follows if it succeeds.\<close>

definition sends :: "sent list \<Rightarrow> 's \<times> 'a result \<Rightarrow> ('a \<Rightarrow> sent list \<times> socket_end)
    \<Rightarrow> 's \<times> sent list \<times> socket_end" where
  "sends before x k = (case x of
      (g, Inl e) \<Rightarrow> (g, before, SocketRaised e)
    | (g, Inr a) \<Rightarrow> (g, before @ fst (k a), snd (k a)))"

definition when_allowed :: "principal \<Rightarrow> permission \<Rightarrow> interview_session \<Rightarrow> 's
    \<Rightarrow> 's \<times> sent list \<times> socket_end \<Rightarrow> 's \<times> sent list \<times> socket_end" where
  "when_allowed p perm s g x = (case require_access p perm (Some s) of
      Inl e \<Rightarrow> (g, [], SocketRaised e) | Inr _ \<Rightarrow> x)"

section \<open>The interview\<close>

datatype interview_received =
    GotPing
  | GotControl "candidate_control_request option"
  | GotTransportSelected "transport_selection option"
  | GotTransportFallback "transport_fallback option"
  | GotSpeechStarted
  | GotPartial "transcript_event option"
  | GotFinal "transcript_event option"
  | GotTtsStarted "string option"
  | GotTtsCompleted "string option"
  | GotTtsCancelled "string option"
  | GotText string
  | GotOther
  | GotDisconnect

definition invalid_message :: "string \<Rightarrow> 's \<Rightarrow> 's \<times> sent list \<times> socket_end" where
  "invalid_message model g = (g, [], SocketRaised (ValidationError model))"

definition step_messages :: "turn option \<Rightarrow> tool_invocation option \<Rightarrow> sent list" where
  "step_messages t tool = (case t of None \<Rightarrow> [] | Some x \<Rightarrow> [SentInterviewerTurn x])
     @ (case tool of None \<Rightarrow> [] | Some x \<Rightarrow> [SentToolOpened x])"

definition completed_messages :: "string \<Rightarrow> bool \<Rightarrow> sent list \<times> socket_end" where
  "completed_messages sid finished = (if finished then ([SentCompleted sid], SocketEnded) else ([], SocketWaits))"

text \<open>A message about the voice: allowed, read, done, and its state sent.\<close>

definition voice_message :: "principal \<Rightarrow> interview_session \<Rightarrow> string \<Rightarrow> 'a option
    \<Rightarrow> ('a \<Rightarrow> ('st, 'o) api_state \<Rightarrow> ('st, 'o) api_state \<times> voice_state result) \<Rightarrow> ('a \<Rightarrow> voice_state \<Rightarrow> sent)
    \<Rightarrow> ('st, 'o) api_state \<Rightarrow> ('st, 'o) api_state \<times> sent list \<times> socket_end" where
  "voice_message p s model data f reply g = when_allowed p USE_VOICE s g
     (case data of None \<Rightarrow> invalid_message model g
      | Some d \<Rightarrow> sends [] (f d g) (\<lambda>v. ([reply d v], SocketWaits)))"

fun interview_message :: "('st, 'o) api \<Rightarrow> string \<Rightarrow> principal \<Rightarrow> interview_session \<Rightarrow> call \<Rightarrow> interview_received
    \<Rightarrow> ('st, 'o) api_state \<Rightarrow> ('st, 'o) api_state \<times> sent list \<times> socket_end" where
  "interview_message A sid p s Q GotPing g = (g, [SentPong], SocketWaits)"
| "interview_message A sid p s Q (GotControl data) g = when_allowed p USE_CANDIDATE_CONTROL s g
     (case data of None \<Rightarrow> invalid_message ''CandidateControlRequest'' g
      | Some req \<Rightarrow> sends [] (interview_call A sid (plain (\<lambda>s job. control_step (env_of Q) req s)) g)
          (\<lambda>r. (SentControlAck r # step_messages (result_turn r) None, SocketWaits)))"
| "interview_message A sid p s Q (GotTransportSelected data) g =
     voice_message p s ''VoiceTransportSelectionEvent'' data
       (\<lambda>sel. voice_call A (call_env Q) sid (TransportSelected sel)) (\<lambda>sel v. SentSelectionAck sel) g"
| "interview_message A sid p s Q (GotTransportFallback data) g =
     voice_message p s ''VoiceTransportFallbackEvent'' data
       (\<lambda>x. voice_call A (call_env Q) sid (TransportFallback x)) (\<lambda>x v. SentFallbackAck x) g"
| "interview_message A sid p s Q GotSpeechStarted g =
     voice_message p s [] (Some ()) (\<lambda>_. speech_started_call A Q sid) (\<lambda>_. SentVoiceState) g"
| "interview_message A sid p s Q (GotPartial data) g =
     voice_message p s ''TranscriptEvent'' data
       (\<lambda>ev. voice_call A (call_env Q) sid (TranscriptPartial ev)) (\<lambda>_. SentVoiceState) g"
| "interview_message A sid p s Q (GotFinal data) g = when_allowed p USE_VOICE s g
     (case data of None \<Rightarrow> invalid_message ''TranscriptEvent'' g
      | Some ev \<Rightarrow> sends [SentCandidateAck] (final_call A Q sid ev g) (\<lambda>r.
          case completed_messages sid (vtr_completed r) of (fin, go) \<Rightarrow>
            (SentVoiceState (vtr_state r) # step_messages (vtr_interviewer_turn r) (vtr_tool_invocation r) @ fin, go)))"
| "interview_message A sid p s Q (GotTtsStarted data) g = voice_message p s ''TtsLifecycleEvent'' data
       (\<lambda>tid. voice_call A (call_env Q) sid (TtsStarted tid)) (\<lambda>_. SentVoiceState) g"
| "interview_message A sid p s Q (GotTtsCompleted data) g = voice_message p s ''TtsLifecycleEvent'' data
       (\<lambda>tid. voice_call A (call_env Q) sid (TtsCompleted tid)) (\<lambda>_. SentVoiceState) g"
| "interview_message A sid p s Q (GotTtsCancelled data) g = voice_message p s ''TtsLifecycleEvent'' data
       (\<lambda>tid. voice_call A (call_env Q) sid (TtsCancelled tid ''provider_cancelled'')) (\<lambda>_. SentVoiceState) g"
| "interview_message A sid p s Q (GotText answer) g =
     (if strip answer = []
      then (g, [SentText ''Expected candidate_text, candidate_control, or supported voice event.''], SocketWaits)
      else when_allowed p RUN_INTERVIEW s g
        (sends [SentCandidateAck] (answer_call A (env_of Q) sid (strip answer) g) (\<lambda>r.
          case completed_messages sid (step_status r = COMPLETED) of (fin, go) \<Rightarrow>
            (step_messages (step_turn r) (step_tool r) @ fin, go))))"
| "interview_message A sid p s Q GotOther g =
     (g, [SentText ''Expected candidate_text, candidate_control, or supported voice event.''], SocketWaits)"
| "interview_message A sid p s Q GotDisconnect g = (g, [], SocketGone)"

text \<open>HTTP errors are sent and close the socket; other exceptions end the connection.\<close>

definition report_http :: "'s \<times> sent list \<times> socket_end \<Rightarrow> 's \<times> sent list \<times> socket_end" where
  "report_http x = (case x of
      (g, out, SocketRaised (HTTPException c d)) \<Rightarrow> (g, out @ [SentText d], SocketRefused)
    | _ \<Rightarrow> x)"

definition interview_socket :: "('st, 'o) api \<Rightarrow> string \<Rightarrow> call \<Rightarrow> (call \<times> interview_received) list
    \<Rightarrow> ('st, 'o) api_state \<Rightarrow> ('st, 'o) api_state \<times> sent list \<times> socket_end" where
  "interview_socket A sid Q ms g =
     (case socket_handshake A Q RUN_INTERVIEW sid g of
        Inl e \<Rightarrow> (g, [], SocketRaised e)
      | Inr None \<Rightarrow> (g, [], SocketRefused)
      | Inr (Some (p, s)) \<Rightarrow> report_http
          (case interview_call A sid (start_step (api_config A) (env_of Q)) g of
             (g1, Inl e) \<Rightarrow> (g1, [], SocketRaised e)
           | (g1, Inr st) \<Rightarrow>
               if step_status st = COMPLETED then (g1, step_messages (step_turn st) (step_tool st), SocketEnded)
               else (case socket_loop (\<lambda>(Q', m) _ g'. case interview_message A sid p s Q' m g' of
                       (g'', out, fin) \<Rightarrow> (((), g''), out, fin)) ms () g1 of
                       ((_, g2), out, fin) \<Rightarrow> (g2, step_messages (step_turn st) (step_tool st) @ out, fin))))"

section \<open>Errors of the streams\<close>

definition tts_error_code :: "string \<Rightarrow> string option" where
  "tts_error_code name = dict_get [(''TtsStreamError'', ''tts_stream_error''),
     (''TtsStreamNotFoundError'', ''tts_stream_not_found''), (''TtsStreamConflictError'', ''tts_stream_conflict'')] name"

definition audio_error_payload :: "exn \<Rightarrow> sent" where
  "audio_error_payload e =
     (if exn_name e = ''ProviderCircuitOpenError'' then SentError ''stt_circuit_open'' (exn_str e)
      else if exn_name e = ''StreamingSpeechUnavailableError'' then SentError ''stt_unavailable'' (exn_str e)
      else case audio_error_code e of
        Some c \<Rightarrow> SentError c (exn_str e)
      | None \<Rightarrow> (case e of
          ValidationError _ \<Rightarrow> SentError ''invalid_audio_message'' ''Audio transport message failed validation''
        | HTTPException c d \<Rightarrow> SentError (''http_'' @ show_int c) d
        | _ \<Rightarrow> SentError ''audio_transport_error'' (take 1000 (exn_str e))))"

definition tts_error_payload :: "exn \<Rightarrow> sent" where
  "tts_error_payload e =
     (if exn_name e = ''ProviderCircuitOpenError'' then SentError ''tts_circuit_open'' (exn_str e)
      else if exn_name e = ''StreamingTtsUnavailableError'' then SentError ''tts_unavailable'' (exn_str e)
      else case tts_error_code (exn_name e) of
        Some c \<Rightarrow> SentError c (exn_str e)
      | None \<Rightarrow> (case e of
          ValidationError _ \<Rightarrow> SentError ''invalid_tts_message'' ''TTS transport message failed validation''
        | HTTPException c d \<Rightarrow> SentError (''http_'' @ show_int c) d
        | _ \<Rightarrow> SentError ''tts_transport_error'' (take 1000 (exn_str e))))"

end
