(* ===== verification/Api_Streams.thy ===== *)
theory Api_Streams
  imports Api_Sockets
begin

text \<open>
  The sockets of \<^verbatim>\<open>api.py\<close> for synthesised speech and for the candidate's audio, with the tasks that close
  an abandoned stream. What the providers answer, the identifiers of new streams and further clocks come
  with a message. The pump of a socket, a task that sends what a bridge yields, is a message of its own.
\<close>

section \<open>Replies of the providers\<close>

record provider_reply =
  provider_answer :: "unit result"
  provider_cancel :: "unit result"
  third_env :: voice_env
  new_stream_id :: string
  new_token :: string

section \<open>Synthesised speech\<close>

text \<open>The stream of the socket, and whether a pump runs.\<close>

record tts_socket =
  ts_active :: "string option"
  ts_pumping :: bool

datatype tts_received =
    TtsPing
  | TtsOpen "(string \<times> tts_audio_config) option"
  | TtsCancel
  | TtsOther
  | TtsPump "(voice_states \<times> tts_chunk) list" "exn option"
  | TtsDisconnect

definition tts_close :: "('st, 'o) api \<Rightarrow> call \<Rightarrow> provider_reply \<Rightarrow> string \<Rightarrow> string \<Rightarrow> ('st, 'o) api_state
    \<Rightarrow> ('st, 'o) api_state \<times> unit result" where
  "tts_close A Q W i why = on_world (output_close (so_get (api_store A)) (so_put (api_store A))
     (provider_cancel W) (call_env Q) i why)"

text \<open>Closing what is still open, where a stream that is gone does not matter.\<close>

definition tts_close_active :: "('st, 'o) api \<Rightarrow> call \<Rightarrow> provider_reply \<Rightarrow> string \<Rightarrow> tts_socket \<Rightarrow> ('st, 'o) api_state
    \<Rightarrow> ('st, 'o) api_state \<times> unit result" where
  "tts_close_active A Q W why s g = (case ts_active s of
      None \<Rightarrow> (g, Inr ())
    | Some i \<Rightarrow> (case tts_close A Q W i why g of
          (g', Inl e) \<Rightarrow> (g', if exn_name e = ''TtsStreamNotFoundError'' then Inr () else Inl e)
        | (g', Inr _) \<Rightarrow> (g', Inr ())))"

definition tts_pump :: "('st, 'o) api \<Rightarrow> call \<Rightarrow> provider_reply \<Rightarrow> string \<Rightarrow> string
    \<Rightarrow> (voice_states \<times> tts_chunk) list \<Rightarrow> exn option \<Rightarrow> ('st, 'o) api_state \<Rightarrow> ('st, 'o) api_state \<times> sent list" where
  "tts_pump A Q W sid i chunks failure g =
     (case dict_get (ow_streams (api_world g)) i of
        None \<Rightarrow> (g, [tts_error_payload (TtsStreamNotFoundError (''unknown TTS stream '' @ i))])
      | Some x \<Rightarrow>
          (case output_chunks (so_get (api_store A)) (so_put (api_store A)) (api_tts_provider A)
                 (provider_cancel W) (call_env Q) (call_next Q) x chunks failure (api_world g) of
             (w, yielded, Inl e) \<Rightarrow> (g\<lparr>api_world := w\<rparr>, map (SentAudio i) yielded @ [tts_error_payload e])
           | (w, yielded, Inr _) \<Rightarrow> (g\<lparr>api_world := w\<lparr>vw_voice :=
                 dict_setdefault sid (new_voice_state sid) (vw_voice w)\<rparr>\<rparr>,
               map (SentAudio i) yielded @ [SentTtsEnded i (tts_turn_id x) (tts_generation x)
                 (generation (state_ref (vw_voice w) sid) \<noteq> tts_generation x)])))"

fun tts_message :: "('st, 'o) api \<Rightarrow> string \<Rightarrow> call \<Rightarrow> provider_reply \<Rightarrow> tts_received \<Rightarrow> tts_socket
    \<Rightarrow> ('st, 'o) api_state \<Rightarrow> (tts_socket \<times> ('st, 'o) api_state) \<times> sent list \<times> socket_end" where
  "tts_message A sid Q W TtsPing s g = ((s, g), [SentPong], SocketWaits)"
| "tts_message A sid Q W (TtsOpen data) s g =
     (if ts_active s \<noteq> None
      then ((s, g), [SentError ''tts_stream_already_open''
        (''Cancel the active TTS stream '' @ ''before opening another one.'')], SocketWaits)
      else (case data of
          None \<Rightarrow> invalid_message ''TtsStreamOpenRequest'' (s, g)
        | Some (tid, c) \<Rightarrow>
            (case on_world (output_open (so_get (api_store A)) (so_put (api_store A)) (api_tts_provider A)
                    (provider_answer W) (provider_cancel W) (call_env Q) (call_next Q) (new_stream_id W) sid tid c) g of
               (g', Inl e) \<Rightarrow> ((s, g'), [], SocketRaised e)
             | (g', Inr x) \<Rightarrow> ((\<lparr> ts_active = Some (tts_stream_id x), ts_pumping = True \<rparr>, g'),
                 [SentTtsOpened x], SocketWaits))))"
| "tts_message A sid Q W TtsCancel s g =
     (case ts_active s of
        None \<Rightarrow> ((s, g), [SentTtsCancelled None], SocketWaits)
      | Some i \<Rightarrow>
          (case tts_close A Q W i ''client_cancelled'' g of
             (g', Inl e) \<Rightarrow> ((s, g'), [], SocketRaised e)
           | (g', Inr _) \<Rightarrow> ((\<lparr> ts_active = None, ts_pumping = False \<rparr>, g'),
               [SentTtsCancelled (Some (i, ''client_cancelled''))], SocketWaits)))"
| "tts_message A sid Q W TtsOther s g =
     ((s, g), [SentError ''unknown_tts_message'' ''Expected open, cancel, or ping.''], SocketWaits)"
| "tts_message A sid Q W (TtsPump chunks failure) s g =
     (case ts_active s of
        None \<Rightarrow> ((s, g), [], SocketWaits)
      | Some i \<Rightarrow>
          if \<not> ts_pumping s then ((s, g), [], SocketWaits)
          else (case tts_pump A Q W sid i chunks failure g of
             (g', out) \<Rightarrow> ((\<lparr> ts_active = None, ts_pumping = False \<rparr>, g'), out, SocketWaits)))"
| "tts_message A sid Q W TtsDisconnect s g =
     (case tts_close_active A Q W ''client_disconnect'' s g of
        (g', Inl e) \<Rightarrow> ((s, g'), [], SocketRaised e)
      | (g', Inr _) \<Rightarrow> ((s, g'), [], SocketGone))"

text \<open>The exceptions that the socket reports before it closes. (A disconnect is handled outside.)\<close>

definition tts_reported :: "exn \<Rightarrow> bool" where
  "tts_reported e = (exn_name e \<in> {''ProviderCircuitOpenError'', ''StreamingTtsUnavailableError''}
     \<or> tts_error_code (exn_name e) \<noteq> None \<or> (case e of ValidationError _ \<Rightarrow> True | HTTPException _ _ \<Rightarrow> True | _ \<Rightarrow> False))"

definition serve_tts_socket :: "('st, 'o) api \<Rightarrow> string \<Rightarrow> call \<Rightarrow> provider_reply
    \<Rightarrow> (call \<times> provider_reply \<times> tts_received) list \<Rightarrow> ('st, 'o) api_state
    \<Rightarrow> ('st, 'o) api_state \<times> sent list \<times> socket_end" where
  "serve_tts_socket A sid Q W ms g =
     (case socket_handshake A Q USE_VOICE sid g of
        Inl e \<Rightarrow> (g, [], SocketRaised e)
      | Inr None \<Rightarrow> (g, [], SocketRefused)
      | Inr (Some _) \<Rightarrow>
          (case socket_loop (\<lambda>(Q', W', m). tts_message A sid Q' W' m) ms \<lparr> ts_active = None, ts_pumping = False \<rparr> g of
             ((s, g1), out, SocketRaised e) \<Rightarrow>
               if tts_reported e
               then (case tts_close_active A Q W ''transport_error'' s g1 of
                   (g2, Inl e') \<Rightarrow> (g2, out @ [tts_error_payload e], SocketRaised e')
                 | (g2, Inr _) \<Rightarrow> (g2, out @ [tts_error_payload e], SocketRefused))
               else (g1, out, SocketRaised e)
           | ((s, g1), out, fin) \<Rightarrow> (g1, out, fin)))"

section \<open>Abandoned audio streams\<close>

text \<open>\<^verbatim>\<open>_cancel_audio_expiry\<close>: the handle is forgotten and the task cancelled.\<close>

definition cancel_expiry :: "string \<Rightarrow> expiry \<Rightarrow> expiry" where
  "cancel_expiry i x = (case dict_get (expiry_handles x) i of
      None \<Rightarrow> x
    | Some n \<Rightarrow> x\<lparr>expiry_handles := dict_del i (expiry_handles x), expiry_tasks := dict_del n (expiry_tasks x)\<rparr>)"

text \<open>\<^verbatim>\<open>_schedule_audio_expiry\<close>. A task that is cancelled forgets, in its \<^verbatim>\<open>finally\<close>, the handle of its
  stream: it runs after the new handle is set.\<close>

definition schedule_expiry :: "string \<Rightarrow> expiry \<Rightarrow> expiry" where
  "schedule_expiry i x =
     (let x1 = cancel_expiry i x; n = expiry_next x1;
          x2 = x1\<lparr>expiry_handles := dict_set i n (expiry_handles x1),
                  expiry_tasks := dict_set n i (expiry_tasks x1), expiry_next := n + 1\<rparr>
      in if dict_get (expiry_handles x) i = None then x2
         else x2\<lparr>expiry_handles := dict_del i (expiry_handles x2)\<rparr>)"

section \<open>The candidate's audio\<close>

definition input_of :: "('st, 'o) api_state \<Rightarrow> 'st input_world" where
  "input_of g = voice_world.extend (voice_world.truncate (api_world g)) (input_world.fields (api_inputs g))"

definition on_input :: "('st input_world \<Rightarrow> 'st input_world \<times> 'a result) \<Rightarrow> ('st, 'o) api_state
    \<Rightarrow> ('st, 'o) api_state \<times> 'a result" where
  "on_input f g = (case f (input_of g) of
      (w, r) \<Rightarrow> (g\<lparr>api_world := (api_world g)\<lparr>vw_store := vw_store w, vw_voice := vw_voice w, vw_audio := vw_audio w\<rparr>,
                    api_inputs := iw_streams w\<rparr>, r))"

text \<open>The task of a stream, after its time: it closes the stream, whatever happens, and forgets the handle.\<close>

definition run_expiry :: "nat \<Rightarrow> unit result \<Rightarrow> ('st, 'o) api_state \<Rightarrow> ('st, 'o) api_state" where
  "run_expiry n closing g = (case dict_get (expiry_tasks (api_expiry g)) n of
      None \<Rightarrow> g
    | Some i \<Rightarrow> (fst (on_input (bridge_close closing i) g))\<lparr>api_expiry := (api_expiry g)\<lparr>
        expiry_handles := dict_del i (expiry_handles (api_expiry g)),
        expiry_tasks := dict_del n (expiry_tasks (api_expiry g))\<rparr>\<rparr>)"

definition settings_of :: "('st, 'o) api \<Rightarrow> stt_settings" where
  "settings_of A = \<lparr> stt_provider_id = api_stt_provider A, stt_vad_config = api_vad A, stt_sqrt = api_sqrt A \<rparr>"

record audio_socket =
  as_active :: "string option"
  as_pump :: "string option"

datatype audio_received =
    AudioPing
  | AudioOpen "(string \<times> audio_stream_config) option"
  | AudioReconnect "(string \<times> string \<times> int \<times> int) option"
  | AudioChunk "audio_chunk option"
  | AudioCommit
  | AudioClose "(string \<times> bool) option option"
  | AudioOther
  | AudioPump
  | AudioDisconnect

definition audio_commit :: "('st, 'o) api \<Rightarrow> voice_env \<Rightarrow> provider_reply \<Rightarrow> string \<Rightarrow> ('st, 'o) api_state
    \<Rightarrow> ('st, 'o) api_state \<times> unit result" where
  "audio_commit A X W i = on_input (commit_stream (so_get (api_store A)) (so_put (api_store A)) (settings_of A)
     (provider_cancel W) X i)"

text \<open>What the detector recommends after a chunk: the end of the utterance is recorded and the stream
  committed. (Here \<^term>\<open>provider_cancel\<close> is what the provider answers to the commit.)\<close>

definition commit_after :: "('st, 'o) api \<Rightarrow> string \<Rightarrow> call \<Rightarrow> provider_reply \<Rightarrow> string \<Rightarrow> vad_observation option
    \<Rightarrow> ('st, 'o) api_state \<Rightarrow> ('st, 'o) api_state \<times> sent list result" where
  "commit_after A sid Q W i vad = (case vad of
      None \<Rightarrow> reading (Inr [])
    | Some ob \<Rightarrow>
        if \<not> auto_commit_recommended ob then reading (Inr [])
        else then_call (voice_call A (call_next Q) sid (VadEndpoint ob)) (\<lambda>_.
             then_call (audio_commit A (third_env W) W i) (\<lambda>_.
               reading (Inr [SentCommitted i (Some (if vad_obs_state ob = VadMAX_DURATION then ''vad_max_duration''
                 else ''vad_silence'', ob))]))))"

definition audio_open :: "('st, 'o) api \<Rightarrow> string \<Rightarrow> call \<Rightarrow> provider_reply \<Rightarrow> string \<Rightarrow> audio_stream_config
    \<Rightarrow> ('st, 'o) api_state \<Rightarrow> ('st, 'o) api_state \<times> (audio_stream_state \<times> string) result" where
  "audio_open A sid Q W loc c =
     then_call (on_input (bridge_open (so_get (api_store A)) (so_put (api_store A)) (settings_of A)
         (provider_answer W) (provider_cancel W) (call_env Q) (call_next Q) (new_stream_id W) (new_token W) sid loc c))
       (\<lambda>opened. then_call (on_world (cancel_active (so_get (api_store A)) (so_put (api_store A))
            (call_cancelling Q) (third_env W) sid ''barge_in'')) (\<lambda>_. reading (Inr opened)))"

definition pumped :: "bridge_event \<Rightarrow> sent list" where
  "pumped ev = (case ev of
      PartialTranscript r v \<Rightarrow> [SentPartial r v]
    | FinalTranscript r res \<Rightarrow> [SentFinal r res]
    | ProviderFailure name m \<Rightarrow> [SentProviderFailure name m]
    | EndOfEvents \<Rightarrow> [])"

definition opening_first :: exn where
  "opening_first = AudioReconnectError ''open or reconnect an audio stream first''"

fun audio_message :: "('st, 'o) api \<Rightarrow> string \<Rightarrow> call \<Rightarrow> provider_reply \<Rightarrow> audio_received \<Rightarrow> audio_socket
    \<Rightarrow> ('st, 'o) api_state \<Rightarrow> (audio_socket \<times> ('st, 'o) api_state) \<times> sent list \<times> socket_end" where
  "audio_message A sid Q W AudioPing s g = ((s, g), [SentPong], SocketWaits)"
| "audio_message A sid Q W (AudioOpen data) s g =
     (if as_active s \<noteq> None
      then ((s, g), [SentError ''stream_already_open''
        (''Close the active audio stream '' @ ''before opening another one.'')], SocketWaits)
      else (case data of
          None \<Rightarrow> invalid_message ''AudioStreamOpenRequest'' (s, g)
        | Some (loc, c) \<Rightarrow>
            (case audio_open A sid Q W loc c g of
               (g', Inl e) \<Rightarrow> ((s, g'), [], SocketRaised e)
             | (g', Inr (st, token)) \<Rightarrow> ((\<lparr> as_active = Some (stream_id st), as_pump = Some (stream_id st) \<rparr>, g'),
                 [SentStreamOpened st token], SocketWaits))))"
| "audio_message A sid Q W (AudioReconnect data) s g =
     (if as_active s \<noteq> None
      then ((s, g), [SentError ''stream_already_open''
        (''This socket already has an '' @ ''active audio stream.'')], SocketWaits)
      else (case data of
          None \<Rightarrow> invalid_message ''AudioStreamReconnectRequest'' (s, g)
        | Some (i, token, gen, nxt) \<Rightarrow>
            (case on_input (bridge_reconnect i sid token gen nxt) g of
               (g', Inl e) \<Rightarrow> ((s, g'), [], SocketRaised e)
             | (g', Inr v) \<Rightarrow>
                 (let g2 = g'\<lparr>api_expiry := cancel_expiry i (api_expiry g')\<rparr>
                  in case stream_record (vw_audio (api_world g2)) i of
                       Inl e \<Rightarrow> ((s\<lparr>as_active := Some i\<rparr>, g2), [], SocketRaised e)
                     | Inr (st, _) \<Rightarrow> ((\<lparr> as_active = Some i, as_pump = Some i \<rparr>, g2),
                         [SentReconnected st], SocketWaits)))))"
| "audio_message A sid Q W (AudioChunk data) s g =
     (case as_active s of
        None \<Rightarrow> ((s, g), [], SocketRaised opening_first)
      | Some i \<Rightarrow>
          (case data of
             None \<Rightarrow> invalid_message ''AudioChunkMessage'' (s, g)
           | Some c \<Rightarrow>
               (case on_input (push_chunk (so_get (api_store A)) (so_put (api_store A)) (settings_of A)
                       (provider_answer W) (call_env Q) i c) g of
                  (g', Inl e) \<Rightarrow> ((s, g'), [], SocketRaised e)
                | (g', Inr (res, vad)) \<Rightarrow>
                    (case commit_after A sid Q W i vad g' of
                       (g2, Inl e) \<Rightarrow> ((s, g2), [SentChunkAck res vad], SocketRaised e)
                     | (g2, Inr out) \<Rightarrow> ((s, g2), SentChunkAck res vad # out, SocketWaits)))))"
| "audio_message A sid Q W AudioCommit s g =
     (case as_active s of
        None \<Rightarrow> ((s, g), [], SocketRaised opening_first)
      | Some i \<Rightarrow>
          (case audio_commit A (call_env Q) W i g of
             (g', Inl e) \<Rightarrow> ((s, g'), [], SocketRaised e)
           | (g', Inr _) \<Rightarrow> ((s, g'), [SentCommitted i None], SocketWaits)))"
| "audio_message A sid Q W (AudioClose data) s g =
     (case as_active s of
        None \<Rightarrow> ((s, g), [SentClosed None], SocketWaits)
      | Some i \<Rightarrow>
          (case (case data of None \<Rightarrow> Some (i, False) | Some given \<Rightarrow> given) of
             None \<Rightarrow> invalid_message ''AudioStreamCloseRequest'' (s, g)
           | Some (j, cancelling) \<Rightarrow>
               if j \<noteq> i
               then ((s, g), [], SocketRaised (AudioReconnectError
                 (''close request references '' @ ''a different audio stream'')))
               else (case on_input (bridge_close (if cancelling then provider_cancel W else provider_answer W) i)
                            (g\<lparr>api_expiry := cancel_expiry i (api_expiry g)\<rparr>) of
                  (g', Inl e) \<Rightarrow> ((s, g'), [], SocketRaised e)
                | (g', Inr _) \<Rightarrow> ((\<lparr> as_active = None, as_pump = None \<rparr>, g'), [SentClosed (Some i)], SocketWaits))))"
| "audio_message A sid Q W AudioOther s g =
     ((s, g), [SentError ''unknown_audio_message''
       (''Expected open, reconnect, chunk, commit, '' @ ''close, or ping.'')], SocketWaits)"
| "audio_message A sid Q W AudioPump s g =
     (case as_pump s of
        None \<Rightarrow> ((s, g), [], SocketWaits)
      | Some i \<Rightarrow>
          (case next_event i (input_of g) of
             None \<Rightarrow> ((s, g), [], SocketWaits)
           | Some (Inl e) \<Rightarrow> ((s\<lparr>as_pump := None\<rparr>, g), [audio_error_payload e], SocketWaits)
           | Some (Inr (w, None)) \<Rightarrow> ((s\<lparr>as_pump := None\<rparr>, g\<lparr>api_inputs := iw_streams w\<rparr>), [], SocketWaits)
           | Some (Inr (w, Some ev)) \<Rightarrow> ((s, g\<lparr>api_inputs := iw_streams w\<rparr>), pumped ev, SocketWaits)))"
| "audio_message A sid Q W AudioDisconnect s g = ((s, g), [], SocketGone)"

definition audio_reported :: "exn \<Rightarrow> bool" where
  "audio_reported e = (exn_name e \<in> {''ProviderCircuitOpenError'', ''StreamingSpeechUnavailableError''}
     \<or> audio_error_code e \<noteq> None
     \<or> (case e of ValidationError _ \<Rightarrow> True | HTTPException _ _ \<Rightarrow> True | _ \<Rightarrow> False))"

text \<open>A socket that goes away or fails leaves its stream for a while; after an exception that is not
  reported it leaves it for good.\<close>

definition leave_stream :: "audio_socket \<Rightarrow> ('st, 'o) api_state \<Rightarrow> ('st, 'o) api_state" where
  "leave_stream s g = (case as_active s of
      None \<Rightarrow> g | Some i \<Rightarrow> g\<lparr>api_expiry := schedule_expiry i (api_expiry g)\<rparr>)"

definition serve_audio_socket :: "('st, 'o) api \<Rightarrow> string \<Rightarrow> call \<Rightarrow> (call \<times> provider_reply \<times> audio_received) list
    \<Rightarrow> ('st, 'o) api_state \<Rightarrow> ('st, 'o) api_state \<times> sent list \<times> socket_end" where
  "serve_audio_socket A sid Q ms g =
     (case socket_handshake A Q USE_VOICE sid g of
        Inl e \<Rightarrow> (g, [], SocketRaised e)
      | Inr None \<Rightarrow> (g, [], SocketRefused)
      | Inr (Some _) \<Rightarrow>
          (case socket_loop (\<lambda>(Q', W', m). audio_message A sid Q' W' m) ms \<lparr> as_active = None, as_pump = None \<rparr> g of
             ((s, g1), out, SocketRaised e) \<Rightarrow>
               if audio_reported e then (leave_stream s g1, out @ [audio_error_payload e], SocketRefused)
               else (g1, out, SocketRaised e)
           | ((s, g1), out, SocketGone) \<Rightarrow> (leave_stream s g1, out, SocketGone)
           | ((s, g1), out, fin) \<Rightarrow> (g1, out, fin)))"

end
