(* ===== verification/Api_Socket_Frame.thy ===== *)
theory Api_Socket_Frame
  imports Api_Frame Api_Streams
begin

text \<open>
  What the interview socket may do: whatever a client sends over it, in whatever order, at most the
  session of the socket is written, and what is stored stays sound. And the tasks that close abandoned
  audio streams: cancelling a task works as long as it is scheduled once.
\<close>

section \<open>The interview socket\<close>

context service_store begin

text \<open>A step that writes at most one session, whatever else it gives.\<close>

definition steady :: "string \<Rightarrow> (('st, 'o) api_state \<Rightarrow> ('st, 'o) api_state \<times> 'c) \<Rightarrow> bool" where
  "steady sid f \<longleftrightarrow> (\<forall>g. sound_store (stored g) \<and> streams_matched (api_world g) \<longrightarrow>
     touches sid (stored g) (stored (fst (f g))) \<and> streams_matched (api_world (fst (f g))))"

lemma steady_same: "steady sid (\<lambda>g. (g, f g))"
  by (simp add: steady_def touches_refl)

lemma steady_invalid: "steady sid (invalid_message model)"
  by (simp add: steady_def invalid_message_def touches_refl)

lemma steady_sends: "contained sid f \<Longrightarrow> steady sid (\<lambda>g. sends before (f g) k)"
  by (auto simp: contained_def steady_def sends_def split: prod.splits sum.splits)

lemma steady_allowed: "steady sid f \<Longrightarrow> steady sid (\<lambda>g. when_allowed p perm s g (f g))"
  by (auto simp: steady_def when_allowed_def touches_refl split: sum.splits)

lemma steady_option:
  "steady sid f \<Longrightarrow> (\<And>d. steady sid (h d)) \<Longrightarrow> steady sid (\<lambda>g. case data of None \<Rightarrow> f g | Some d \<Rightarrow> h d g)"
  by (cases data) simp_all

lemma steady_voice_message: "(\<And>d. contained sid (f d)) \<Longrightarrow> steady sid (voice_message p s model data f reply)"
  unfolding voice_message_def
  by (intro steady_allowed steady_option steady_invalid steady_sends)

lemma steady_if: "steady sid f \<Longrightarrow> steady sid h \<Longrightarrow> steady sid (\<lambda>g. if b then f g else h g)"
  by (cases b) simp_all

lemma steadyD:
  assumes "steady sid f" and "sound_store (stored g)" and "streams_matched (api_world g)"
  shows "touches sid (stored g) (stored (fst (f g)))" and "streams_matched (api_world (fst (f g)))"
  using assms by (auto simp: steady_def)

lemma steady_eqI: "(\<And>g. h g = f g) \<Longrightarrow> steady sid f \<Longrightarrow> steady sid h"
  by (simp add: steady_def)

lemma contained_speech_started:
  assumes "fits A Q"
  shows "contained sid (speech_started_call A Q sid)"
  unfolding speech_started_call_def
  by (rule contained_then) (use contained_voice [OF assms disjI1 [OF refl]] contained_barge_in [OF assms]
    in \<open>auto intro!: contained_then contained_reading\<close>)

lemma contained_control:
  assumes "fits A Q"
  shows "contained sid (interview_call A sid (plain (\<lambda>s job. control_step (env_of Q) req s)))"
  by (rule contained_interview [OF assms]) (rule forget_steps)

lemma interview_message_steady:
  assumes "fits A Q"
  shows "steady sid (interview_message A sid p s Q m)"
proof -
  note rules = steady_same steady_invalid steady_sends steady_allowed steady_option steady_voice_message steady_if
    contained_control [OF assms] contained_voice [OF assms disjI1 [OF refl]] contained_speech_started [OF assms]
    contained_final [OF assms] contained_answer [OF assms]
  show ?thesis
    by (cases m; hypsubst; rule steady_eqI, rule interview_message.simps; (assumption | rule rules)+)
qed

lemma interview_loop_steady:
  assumes "\<forall>a\<in>set ms. fits A (fst a)"
    and "sound_store (stored g)" and "streams_matched (api_world g)"
    and "socket_loop (\<lambda>(Q', m) _ g'. case interview_message A sid p s Q' m g' of
           (g'', out, fin) \<Rightarrow> (((), g''), out, fin)) ms u g = ((u', g1), out, fin)"
  shows "touches sid (stored g) (stored g1) \<and> streams_matched (api_world g1)"
  using assms
proof (induction ms arbitrary: g u out)
  case Nil
  then show ?case by (simp add: touches_refl)
next
  case (Cons a ms)
  obtain Q m where a: "a = (Q, m)" by (metis surj_pair)
  obtain g2 out2 fin2 where m: "interview_message A sid p s Q m g = (g2, out2, fin2)" by (metis surj_pair)
  have "fits A Q" using Cons.prems(1) a by simp
  from steadyD [OF interview_message_steady [OF this] Cons.prems(2,3)]
  have one: "touches sid (stored g) (stored g2)" "streams_matched (api_world g2)"
    using m by (metis fst_conv)+
  show ?case
  proof (cases "fin2 = SocketWaits")
    case True
    then obtain out3 where "socket_loop (\<lambda>(Q', m) _ g'. case interview_message A sid p s Q' m g' of
           (g'', out, fin) \<Rightarrow> (((), g''), out, fin)) ms () g2 = ((u', g1), out3, fin)"
      using Cons.prems(4) a m by (auto split: prod.splits)
    from Cons.IH [OF _ touches_sound [OF one(1)] one(2) this] Cons.prems(1)
    have "touches sid (stored g2) (stored g1)" "streams_matched (api_world g1)" by auto
    then show ?thesis using one touches_trans by blast
  next
    case False
    then have "g1 = g2" using Cons.prems(4) a m by (auto split: socket_end.splits)
    then show ?thesis using one by simp
  qed
qed

text \<open>The whole conversation writes at most the session of the socket.\<close>

lemma interview_socket_steady:
  assumes "fits A Q" and "\<forall>a\<in>set ms. fits A (fst a)"
  shows "steady sid (interview_socket A sid Q ms)"
  unfolding steady_def
proof (intro allI impI)
  fix g :: "('st, 'a) api_state"
  assume g: "sound_store (stored g) \<and> streams_matched (api_world g)"
  let ?ok = "\<lambda>g'. touches sid (stored g) (stored g') \<and> streams_matched (api_world g')"
  show "?ok (fst (interview_socket A sid Q ms g))"
  proof (cases "\<exists>p s. socket_handshake A Q RUN_INTERVIEW sid g = Inr (Some (p, s))")
    case False
    then show ?thesis using g by (auto simp: interview_socket_def touches_refl split: sum.splits option.splits)
  next
    case True
    then obtain p s where h: "socket_handshake A Q RUN_INTERVIEW sid g = Inr (Some (p, s))" by blast
    obtain g1 r1 where start: "interview_call A sid (start_step (api_config A) (env_of Q)) g = (g1, r1)"
      by (metis surj_pair)
    have "contained sid (interview_call A sid (start_step (api_config A) (env_of Q)))"
      by (rule contained_interview [OF assms(1)]) (rule forget_steps)
    then have one: "?ok g1" using g start by (auto simp: contained_def dest!: spec [of _ g])
    obtain u g2 out fin where loop: "socket_loop (\<lambda>(Q', m) _ g'. case interview_message A sid p s Q' m g' of
           (g'', out, fin) \<Rightarrow> (((), g''), out, fin)) ms () g1 = ((u, g2), out, fin)" by (metis surj_pair)
    have two: "?ok g2"
      using interview_loop_steady [OF assms(2) touches_sound [OF conjunct1 [OF one]] conjunct2 [OF one] loop]
        one touches_trans by blast
    have "fst (interview_socket A sid Q ms g) = g1 \<or> fst (interview_socket A sid Q ms g) = g2"
      using h start loop
      by (auto simp: interview_socket_def report_http_def split: sum.splits socket_end.splits exn.splits)
    then show ?thesis using one two by metis
  qed
qed

end

section \<open>The end of an interview\<close>

text \<open>The completion of the interview is announced last, and then the socket ends.\<close>

definition ends_well :: "string \<Rightarrow> sent list \<times> socket_end \<Rightarrow> bool" where
  "ends_well sid x \<longleftrightarrow> (\<forall>i. SentCompleted i \<in> set (fst x) \<longrightarrow> snd x = SocketEnded \<and> last (fst x) = SentCompleted sid)"

lemma ends_well_none: "(\<And>i. SentCompleted i \<notin> set out) \<Longrightarrow> ends_well sid (out, fin)"
  by (simp add: ends_well_def)

lemma ends_well_voice: "(\<And>d v i. SentCompleted i \<noteq> reply d v) \<Longrightarrow> ends_well sid (snd (voice_message p s model data f reply g))"
  by (auto simp: voice_message_def when_allowed_def sends_def invalid_message_def ends_well_def
      split: sum.splits option.splits prod.splits)

lemma step_messages_uncompleted: "SentCompleted i \<notin> set (step_messages t tool)"
  by (simp add: step_messages_def split: option.splits)

lemma ends_well_completed:
  assumes "\<And>i. SentCompleted i \<notin> set before" and "\<And>i a. SentCompleted i \<notin> set (mid a)"
  shows "ends_well sid (snd (sends before x (\<lambda>r. case completed_messages sid (fin r) of (out, go) \<Rightarrow> (mid r @ out, go))))"
  using assms by (auto simp: sends_def completed_messages_def ends_well_def split: prod.splits sum.splits)

lemma ends_well_allowed: "ends_well sid (snd x) \<Longrightarrow> ends_well sid (snd (when_allowed p perm s g x))"
  by (simp add: when_allowed_def ends_well_def split: sum.splits)

lemma ends_well_option:
  "(\<And>x. data = Some x \<Longrightarrow> ends_well sid (snd (h x)))
    \<Longrightarrow> ends_well sid (snd (case data of None \<Rightarrow> invalid_message model g | Some x \<Rightarrow> h x))"
  by (cases data) (simp_all add: invalid_message_def ends_well_none)

lemma interview_message_ends_well: "ends_well sid (snd (interview_message A sid p s Q m g))"
proof (cases m)
  case (GotControl data)
  have "ends_well sid (snd (sends [] x (\<lambda>r. (SentControlAck r # step_messages (result_turn r) None, SocketWaits))))"
    for x :: "'c \<times> candidate_control_result result"
    by (auto simp: sends_def ends_well_def step_messages_uncompleted split: prod.splits sum.splits)
  then show ?thesis unfolding GotControl interview_message.simps
    by (intro ends_well_allowed ends_well_option)
next
  case (GotFinal data)
  show ?thesis unfolding GotFinal interview_message.simps
    using ends_well_completed [of "[SentCandidateAck]"
        "\<lambda>r. SentVoiceState (vtr_state r) # step_messages (vtr_interviewer_turn r) (vtr_tool_invocation r)"]
    by (intro ends_well_allowed ends_well_option) (simp add: step_messages_uncompleted)
next
  case (GotText answer)
  have "ends_well sid (snd (when_allowed p RUN_INTERVIEW s g
        (sends [SentCandidateAck] (answer_call A (env_of Q) sid (strip answer) g) (\<lambda>r.
          case completed_messages sid (step_status r = COMPLETED) of (fin, go) \<Rightarrow>
            (step_messages (step_turn r) (step_tool r) @ fin, go)))))"
    by (rule ends_well_allowed, rule ends_well_completed) (simp_all add: step_messages_uncompleted)
  then show ?thesis unfolding GotText interview_message.simps by (simp add: ends_well_none)
qed (simp_all add: ends_well_voice ends_well_none)

lemma interview_loop_ends_well:
  "ends_well sid (snd (socket_loop (\<lambda>(Q', m) _ g'. case interview_message A sid p s Q' m g' of
     (g'', out, fin) \<Rightarrow> (((), g''), out, fin)) ms u g))"
proof (induction ms arbitrary: g u)
  case Nil
  then show ?case by (simp add: ends_well_none)
next
  case (Cons a ms)
  obtain Q m where a: "a = (Q, m)" by (metis surj_pair)
  obtain g2 out fin where m: "interview_message A sid p s Q m g = (g2, out, fin)" by (metis surj_pair)
  have one: "ends_well sid (out, fin)" using interview_message_ends_well [of sid A p s Q m g] m by simp
  show ?case
  proof (cases "fin = SocketWaits")
    case True
    then have "SentCompleted i \<notin> set out" for i using one by (auto simp: ends_well_def)
    then show ?thesis using Cons.IH [of "()" g2] a m True
      by (auto simp: ends_well_def last_append split: prod.splits)
  next
    case False
    then show ?thesis using one a m by (cases fin) simp_all
  qed
qed

lemma interview_socket_ends_well: "ends_well sid (snd (interview_socket A sid Q ms g))"
proof (cases "\<exists>p s. socket_handshake A Q RUN_INTERVIEW sid g = Inr (Some (p, s))")
  case False
  then show ?thesis by (auto simp: interview_socket_def ends_well_def split: sum.splits option.splits)
next
  case True
  then obtain p s where h: "socket_handshake A Q RUN_INTERVIEW sid g = Inr (Some (p, s))" by blast
  have report: "ends_well sid (snd x) \<Longrightarrow> ends_well sid (snd (report_http x))" for x :: "'c \<times> sent list \<times> socket_end"
    by (auto simp: report_http_def ends_well_def split: prod.splits socket_end.splits exn.splits)
  obtain g1 r1 where start: "interview_call A sid (start_step (api_config A) (env_of Q)) g = (g1, r1)"
    by (metis surj_pair)
  obtain u g2 out fin where loop: "socket_loop (\<lambda>(Q', m) _ g'. case interview_message A sid p s Q' m g' of
         (g'', out, fin) \<Rightarrow> (((), g''), out, fin)) ms () g1 = ((u, g2), out, fin)" by (metis surj_pair)
  have "ends_well sid (out, fin)" using interview_loop_ends_well [of sid A p s ms "()" g1] loop by simp
  then have "ends_well sid (step_messages t tool @ out, fin)" for t tool
    by (auto simp: ends_well_def step_messages_uncompleted last_append)
  moreover have "ends_well sid (step_messages t tool, SocketEnded)" for t tool
    by (simp add: ends_well_none step_messages_uncompleted)
  ultimately show ?thesis using h start loop
    by (cases r1) (auto simp: interview_socket_def ends_well_none intro!: report)
qed

section \<open>Closing abandoned streams\<close>

text \<open>As long as a stream is scheduled once, a reconnect cancels its task: nothing closes it.\<close>

lemma scheduled_cancelled:
  assumes "dict_get (expiry_handles x) i = None" and "dict_get (expiry_tasks x) (expiry_next x) = None"
  shows "dict_get (expiry_tasks (cancel_expiry i (schedule_expiry i x))) (expiry_next x) = None"
  using assms by (simp add: schedule_expiry_def cancel_expiry_def Let_def)

text \<open>Scheduled again while its task waits, the stream's handle is forgotten: the reconnect cancels nothing
  and the task goes on to close the stream.\<close>

lemma rescheduled_not_cancelled:
  assumes "dict_get (expiry_handles x) i = Some n" and "n < expiry_next x"
  shows "cancel_expiry i (schedule_expiry i x) = schedule_expiry i x
    \<and> dict_get (expiry_tasks (schedule_expiry i x)) (expiry_next x) = Some i"
  using assms by (simp add: schedule_expiry_def cancel_expiry_def Let_def)

end
