(* ===== verification/Interface_Properties.thy ===== *)
theory Interface_Properties
  imports Session_Properties Runtime_Properties Api_Socket_Frame
begin

text \<open>
  The properties of what leaves the system and of the interface over which it is used: the portable
  evidence bundle, the comparison of brains and the HTTP endpoints.
\<close>

section \<open>The portable evidence bundle\<close>

text \<open>C25. A portable evidence bundle of an exported session lists exactly the active evidence of the
  graph and one reference per artifact, says of each whether it was deleted, names the head of the
  audit chain that its verifier computed, and carries checksums that can be computed again from
  the trace and from its own contents.\<close>

theorem evidence_bundle_faithful:
  assumes "export_trace P s job = Inr t" and "build_evidence_bundle E s job t = Inr b" and "prt P = rt E"
    and "distinct (map fst (evidence_graph s))"
  shows "eb_evidence b = map (\<lambda>(cid, i). portable_record (rt E) cid i) (active_evidence s)
    \<and> (\<forall>cid i. (cid, i) \<in> set (active_evidence s) \<longleftrightarrow>
         (\<exists>n. (cid, n) \<in> set (evidence_graph s) \<and> i \<in> set (node_evidence n) \<and> ev_active i))
    \<and> map (\<lambda>r. (aref_artifact_id r, aref_sha256 r, aref_deleted r)) (eb_artifacts b)
        = map (\<lambda>a. (art_id a, art_sha256 a, art_deleted_at a \<noteq> None)) (sort_key art_id (artifacts s))
    \<and> verify_event_chain (rt E) (events s) = Inr (sum_head_hash (eb_audit b))
    \<and> jget (trace_metadata t) ''audit_chain'' = JObj (audit_anchor s (sum_head_hash (eb_audit b)))
    \<and> vox_trace_sha256 (eb_voxrubric b) = canonical_sha256 (rt E) (dump_trace t)
    \<and> eb_bundle_sha256 b = canonical_sha256 (rt E) (unsigned_bundle (eb_organization_id b) (eb_session_id b)
        (eb_job_id b) (eb_role b) (eb_locale b) (eb_evidence b) (eb_artifacts b) (eb_audit b) (eb_voxrubric b))"
proof -
  note built = build_evidence_bundle_Inr [OF assms(2)]
  obtain head where "verify_event_chain (rt E) (events s) = Inr head"
    and "jget (trace_metadata t) ''audit_chain'' = JObj (audit_anchor s head)"
    by (rule export_trace_Inr [OF assms(1)]) (simp add: assms(3))
  then show ?thesis
    using built mem_active_evidence [OF assms(4)] unfolding evidence_records_Inr artifact_references_Inr
    by (auto simp: comp_def)
qed

text \<open>A digest of 64 digits, and the events of the sample sealed with it.\<close>

definition zero_digest :: string where
  "zero_digest = replicate 64 (CHR ''0'')"

definition zero_runtime :: runtime where
  "zero_runtime = sample_runtime\<lparr>sha256_hex := \<lambda>t. zero_digest\<rparr>"

definition zero_sealed :: interview_session where
  "zero_sealed = sample_answered\<lparr>events := map (\<lambda>e. e\<lparr>event_hash := Some zero_digest,
      prev_hash := map_option (\<lambda>h. zero_digest) (prev_hash e)\<rparr>) answered_events\<rparr>"

lemma zero_runtime_simps [simp]: "sha256_hex zero_runtime t = zero_digest" "is_hex_digest zero_digest"
  "compute_event_hash zero_runtime e p = zero_digest"
  by (simp_all add: zero_runtime_def compute_event_hash_def) (code_simp)

lemma zero_sealed_verifies: "verify_event_chain zero_runtime (events zero_sealed) = Inr (Some zero_digest)"
  by (simp add: zero_sealed_def event_simps)

lemma zero_active: "active_evidence zero_sealed = [(''api'', sample_claim)]"
  by code_simp

theorem evidence_bundle_faithful_witness:
  "\<exists>t b. export_trace \<lparr> prt = zero_runtime, json_time = show_int \<rparr> zero_sealed sample_job = Inr t
    \<and> build_evidence_bundle (sample_env\<lparr>rt := zero_runtime\<rparr>) zero_sealed sample_job t = Inr b
    \<and> eb_evidence b = [portable_record zero_runtime ''api'' sample_claim]"
proof -
  let ?E = "sample_env\<lparr>rt := zero_runtime\<rparr>"
  obtain t where t: "export_trace \<lparr> prt = zero_runtime, json_time = show_int \<rparr> zero_sealed sample_job = Inr t"
    using zero_sealed_verifies by (auto simp: export_trace_def exn_simps)
  have "\<exists>recs. evidence_records zero_runtime zero_sealed = Inr recs"
    unfolding evidence_records_Inr zero_active by (simp add: sample_claim_def opt_all_def)
  moreover have "artifact_references zero_sealed = Inr []"
    by (simp add: artifact_references_def zero_sealed_def session_simps)
  ultimately obtain b where b: "build_evidence_bundle ?E zero_sealed sample_job t = Inr b"
    by (auto simp: build_evidence_bundle_def zero_sealed_verifies AuditSummary_def exn_simps opt_all_def
        canonical_sha256_def Let_def)
  have "distinct (map fst (evidence_graph zero_sealed))" by code_simp
  then have "eb_evidence b = [portable_record zero_runtime ''api'' sample_claim]"
    using evidence_bundle_faithful [OF t b] by (simp add: zero_active)
  then show ?thesis using t b by blast
qed

section \<open>The endpoints\<close>









section \<open>The interview socket\<close>





end
