(* ===== verification/Providers.thy ===== *)
theory Providers
  imports Voice_Bridges
begin

text \<open>
  The providers over the network: \<^verbatim>\<open>providers/completion.py\<close>, a language model with bounded retries
  behind a circuit breaker, and \<^verbatim>\<open>providers/websocket_speech.py\<close> and \<^verbatim>\<open>providers/websocket_tts.py\<close>, which
  recognise and synthesise speech over JSON frames (with \<^verbatim>\<open>streaming_speech.py\<close> and
  \<^verbatim>\<open>streaming_tts.py\<close>). What the other side answers is a parameter: the reply to each attempt, the frames of a
  connection and the outcomes of its calls.
\<close>

section \<open>Attempts behind a circuit breaker\<close>

text \<open>An attempt works, fails in a way that the breaker records (and that may be retried), or ends with an
  exception that nothing catches.\<close>

datatype 'a attempt = Worked 'a | Failed exn bool | Broke exn

text \<open>The loop of the completion provider and of the remote sandbox: the clock is read before an attempt and
  when a failure is recorded, and the sleeps are listed beside the result. An open breaker has an
  exception of its own.\<close>

fun guarded_attempts :: "int \<Rightarrow> (int \<Rightarrow> rat) \<Rightarrow> (exn \<Rightarrow> exn) \<Rightarrow> (int \<Rightarrow> 'a attempt) \<Rightarrow> (int \<Rightarrow> rat) \<Rightarrow> (int \<Rightarrow> rat)
    \<Rightarrow> int list \<Rightarrow> circuit_breaker \<Rightarrow> circuit_breaker \<times> rat list \<times> 'a result" where
  "guarded_attempts m pause refusal outcome before after [] b = (b, [], Inl (OtherError ''AssertionError'' []))"
| "guarded_attempts m pause refusal outcome before after (k # ks) b =
     (case before_call (before k) b of
        (b1, Inl e) \<Rightarrow> (b1, [], Inl (refusal e))
      | (b1, Inr _) \<Rightarrow>
          (case outcome k of
             Worked x \<Rightarrow> (record_success b1, [], Inr x)
           | Broke e \<Rightarrow> (b1, [], Inl e)
           | Failed e again \<Rightarrow>
               if \<not> again \<or> m \<le> k then (record_failure (after k) b1, [], Inl e)
               else (case guarded_attempts m pause refusal outcome before after ks (record_failure (after k) b1) of
                 (b2, sleeps, r) \<Rightarrow> (b2, pause k # sleeps, r))))"

text \<open>The attempts that were made before the last one failed in a way that is retried, each followed by its
  sleep; a result is that of the last attempt and leaves the breaker closed.\<close>

lemma guarded_attempts_bounded:
  assumes "guarded_attempts n pause refusal outcome before after [k..n] b = (b', sleeps, r)" and "k \<le> n"
  shows "int (length sleeps) \<le> n - k
    \<and> sleeps = map pause [k..k + int (length sleeps) - 1]
    \<and> (\<forall>a\<in>{k..<k + int (length sleeps)}. \<exists>e. outcome a = Failed e True)
    \<and> (\<forall>x. r = Inr x \<longrightarrow> outcome (k + int (length sleeps)) = Worked x
         \<and> circuit b' = CircuitCLOSED \<and> cb_consecutive_failures b' = 0)"
  using assms
proof (induction "nat (n - k)" arbitrary: k b sleeps)
  case 0
  then have "[k..n] = [k]" by simp
  with 0 show ?case
    by (cases "before_call (before k) b")
      (auto simp: record_success_def split: sum.splits attempt.splits if_splits)
next
  case (Suc m)
  then have l: "[k..n] = k # [k + 1..n]" by (simp add: upto_rec1)
  obtain b1 r0 where b: "before_call (before k) b = (b1, r0)" by (metis surj_pair)
  show ?case
  proof (cases "r0 = Inr () \<and> (\<exists>e. outcome k = Failed e True)")
    case False
    then have "sleeps = []" "r = Inr x \<Longrightarrow> outcome k = Worked x \<and> circuit b' = CircuitCLOSED
        \<and> cb_consecutive_failures b' = 0" for x
      using Suc.prems(1) b unfolding l
      by (auto simp: record_success_def split: sum.splits attempt.splits prod.splits if_splits)
    then show ?thesis using Suc.prems by simp
  next
    case True
    then obtain e where e: "outcome k = Failed e True" and r0: "r0 = Inr ()" by blast
    have "k < n" using Suc.hyps(2) by simp
    then obtain s' where loop: "guarded_attempts n pause refusal outcome before after [k + 1..n]
        (record_failure (after k) b1) = (b', s', r)" and s: "sleeps = pause k # s'"
      using Suc.prems(1) b r0 e unfolding l by (auto split: prod.splits)
    have "m = nat (n - (k + 1))" "k + 1 \<le> n" using Suc.hyps(2) by simp_all
    note IH = Suc.hyps(1) [OF this(1) loop this(2)]
    have "map pause [k..k + int (length s')] = pause k # map pause [k + 1..k + int (length s')]"
      by (simp add: upto_rec1)
    moreover have "{k..<k + 1 + int (length s')} = insert k {k + 1..<k + 1 + int (length s')}" by auto
    ultimately show ?thesis using IH e unfolding s by (auto simp: ac_simps)
  qed
qed

section \<open>Completions\<close>

record chat_provider =
  cp_base_url :: string
  cp_model :: string
  cp_api_key :: "string option"
  cp_timeout :: rat
  cp_max_attempts :: int
  cp_retry_base :: rat
  cp_circuit :: circuit_breaker

definition chat_provider_init :: "string \<Rightarrow> string \<Rightarrow> string option \<Rightarrow> rat \<Rightarrow> int \<Rightarrow> rat \<Rightarrow> int \<Rightarrow> rat
    \<Rightarrow> chat_provider result" where
  "chat_provider_init base_url model api_key timeout attempts retry_base threshold cooldown =
     raise_if (timeout \<le> 0) (ValueError ''timeout_seconds must be positive'')
     (raise_if (\<not> (1 \<le> attempts \<and> attempts \<le> 5)) (ValueError ''max_attempts must be between 1 and 5'')
     (raise_if (retry_base < 0 \<or> 5 < retry_base) (ValueError ''retry_base_seconds must be between 0 and 5'')
     (ebind (circuit_breaker_init (''openai-compatible:'' @ model) threshold cooldown) (\<lambda>b.
       Inr \<lparr> cp_base_url = rstrip_char (CHR ''/'') base_url, cp_model = model, cp_api_key = api_key,
             cp_timeout = timeout, cp_max_attempts = attempts, cp_retry_base = retry_base, cp_circuit = b \<rparr>))))"

record chat_request =
  chr_url :: string
  chr_headers :: "(string, string) dict"
  chr_body :: jdict

definition bearer :: "string option \<Rightarrow> (string, string) dict" where
  "bearer token = (case token of
      None \<Rightarrow> [] | Some t \<Rightarrow> if t = [] then [] else [(''Authorization'', ''Bearer '' @ t)])"

definition chat_request_of :: "chat_provider \<Rightarrow> string \<Rightarrow> string \<Rightarrow> chat_request" where
  "chat_request_of P system_prompt user_prompt =
     \<lparr> chr_url = cp_base_url P @ ''/chat/completions'',
       chr_headers = [(''Content-Type'', ''application/json'')] @ bearer (cp_api_key P),
       chr_body = [(''model'', JStr (cp_model P)), (''temperature'', JFloat (fl (1 / 5))),
         (''messages'', JList [JObj [(''role'', JStr ''system''), (''content'', JStr system_prompt)],
                               JObj [(''role'', JStr ''user''), (''content'', JStr user_prompt)]])] \<rparr>"

text \<open>The reply to an attempt: a status with the JSON of the body, if it is JSON; one of the client's two
  exceptions that are caught; or another exception.\<close>

datatype chat_reply = ChatAnswered int "json option" | ChatFailed exn | ChatRaised exn

text \<open>\<^verbatim>\<open>data["choices"][0]["message"]["content"]\<close>, or \<open>None\<close> where an index fails.\<close>

definition reply_content :: "json option \<Rightarrow> json option" where
  "reply_content body = (case body of
      Some (JObj d) \<Rightarrow> (case dict_get d ''choices'' of
          Some (JList (JObj c # _)) \<Rightarrow> (case dict_get c ''message'' of
              Some (JObj m) \<Rightarrow> dict_get m ''content'' | _ \<Rightarrow> None)
        | _ \<Rightarrow> None)
    | _ \<Rightarrow> None)"

definition HTTPStatusError :: "int \<Rightarrow> exn" where
  "HTTPStatusError code = OtherError ''HTTPStatusError'' (''Completion provider returned HTTP '' @ show_int code)"

definition unusable_reply :: "json option \<Rightarrow> exn option" where
  "unusable_reply content = (case content of
      None \<Rightarrow> Some (OtherError ''RuntimeError'' (''Completion provider returned an '' @ ''unsupported response shape''))
    | Some (JStr t) \<Rightarrow> if strip t \<noteq> [] then None
        else Some (OtherError ''RuntimeError'' (''Completion provider returned an '' @ ''empty response''))
    | Some _ \<Rightarrow> Some (OtherError ''RuntimeError'' (''Completion provider returned an '' @ ''empty response'')))"

definition chat_back_off :: "chat_provider \<Rightarrow> int \<Rightarrow> rat" where
  "chat_back_off P attempt = fl (cp_retry_base P * of_int (2 ^ nat (attempt - 1)))"

definition judged :: "chat_reply \<Rightarrow> string attempt" where
  "judged reply = (case reply of
      ChatRaised e \<Rightarrow> Broke e
    | ChatFailed e \<Rightarrow> Failed e True
    | ChatAnswered code body \<Rightarrow>
        if code < 200 \<or> 300 \<le> code then Failed (HTTPStatusError code) (retryable_http_status code)
        else (case unusable_reply (reply_content body) of
          Some e \<Rightarrow> Failed e False
        | None \<Rightarrow> (case reply_content body of Some (JStr t) \<Rightarrow> Worked t | _ \<Rightarrow> Worked [])))"

definition complete :: "(chat_request \<Rightarrow> int \<Rightarrow> chat_reply) \<Rightarrow> (int \<Rightarrow> rat) \<Rightarrow> (int \<Rightarrow> rat) \<Rightarrow> string \<Rightarrow> string
    \<Rightarrow> chat_provider \<Rightarrow> chat_provider \<times> rat list \<times> string result" where
  "complete send before after system_prompt user_prompt P =
     (case guarded_attempts (cp_max_attempts P) (chat_back_off P) id
             (\<lambda>k. judged (send (chat_request_of P system_prompt user_prompt) k)) before after
             [1..cp_max_attempts P] (cp_circuit P) of
        (b, sleeps, r) \<Rightarrow> (P\<lparr>cp_circuit := b\<rparr>, sleeps, r))"

section \<open>Frames\<close>

datatype frame = TextFrame string | BinaryFrame bytes

text \<open>\<^verbatim>\<open>json.loads\<close>, the printing of floats, and what pydantic reads as a float.\<close>

record wire =
  wire_loads :: "string \<Rightarrow> json option"
  wire_repr :: "rat \<Rightarrow> string"
  wire_number :: "json \<Rightarrow> rat option"

text \<open>\<^verbatim>\<open>json.dumps(v, separators=(",", ":"), ensure_ascii=False)\<close>.\<close>

fun json_compact :: "(rat \<Rightarrow> string) \<Rightarrow> json \<Rightarrow> string" where
  "json_compact fr JNull = ''null''"
| "json_compact fr (JBool b) = (if b then ''true'' else ''false'')"
| "json_compact fr (JInt i) = show_int i"
| "json_compact fr (JFloat q) = fr q"
| "json_compact fr (JStr s) = json_quote s"
| "json_compact fr (JList xs) = ''['' @ join '','' (map (json_compact fr) xs) @ '']''"
| "json_compact fr (JObj kvs) = CHR 0x7B # join '',''
     (map (\<lambda>kv. json_quote (fst kv) @ '':'' @ json_compact fr (snd kv)) kvs) @ [CHR 0x7D]"

text \<open>A session over a connection: the frames that were sent, and whether it is closed.\<close>

record ws_session =
  ws_sent :: "frame list"
  ws_closed :: bool

definition frame_send :: "unit result \<Rightarrow> frame \<Rightarrow> ws_session \<Rightarrow> ws_session \<times> unit result" where
  "frame_send sending f s = (case sending of Inl e \<Rightarrow> (s, Inl e) | Inr _ \<Rightarrow> (s\<lparr>ws_sent := ws_sent s @ [f]\<rparr>, Inr ()))"

definition send_control :: "wire \<Rightarrow> exn \<Rightarrow> unit result \<Rightarrow> jdict \<Rightarrow> ws_session \<Rightarrow> ws_session \<times> unit result" where
  "send_control W closed_error sending payload s =
     (if ws_closed s then (s, Inl closed_error)
      else frame_send sending (TextFrame (json_compact (wire_repr W) (JObj payload))) s)"

text \<open>\<^verbatim>\<open>close\<close> and \<^verbatim>\<open>cancel\<close>: once, and the connection is closed even if the frame could not be sent.\<close>

definition end_session :: "wire \<Rightarrow> exn \<Rightarrow> unit result \<Rightarrow> unit result \<Rightarrow> jdict \<Rightarrow> ws_session \<Rightarrow> ws_session \<times> unit result" where
  "end_session W closed_error sending closing payload s =
     (if ws_closed s then (s, Inr ())
      else (case send_control W closed_error sending payload s of
        (s1, r) \<Rightarrow> (s1\<lparr>ws_closed := True\<rparr>, case closing of Inl e \<Rightarrow> Inl e | Inr _ \<Rightarrow> r)))"

text \<open>Opening: a start frame is sent and a ready frame awaited; otherwise the connection is closed.\<close>

definition ready_frame :: "wire \<Rightarrow> (string \<Rightarrow> exn) \<Rightarrow> string \<Rightarrow> frame \<Rightarrow> unit result" where
  "ready_frame W err kind f = (case f of
      BinaryFrame _ \<Rightarrow> Inl (err (kind @ '' provider ready frame must be JSON text''))
    | TextFrame t \<Rightarrow> (case wire_loads W t of
          None \<Rightarrow> Inl (err (kind @ '' provider returned invalid ready JSON''))
        | Some (JObj d) \<Rightarrow> raise_if (jget d ''type'' \<noteq> JStr ''ready'')
            (err (kind @ '' provider did not acknowledge start with type=ready'')) (Inr ())
        | Some _ \<Rightarrow> Inl (err (kind @ '' provider did not acknowledge start with type=ready''))))"

record dial =
  dial_connecting :: "unit result"
  dial_sending :: "unit result"
  dial_receiving :: "frame result"
  dial_closing :: "unit result"

definition ws_open :: "wire \<Rightarrow> (string \<Rightarrow> exn) \<Rightarrow> string \<Rightarrow> dial \<Rightarrow> jdict \<Rightarrow> ws_session result" where
  "ws_open W err kind D start =
     ebind (dial_connecting D) (\<lambda>_.
       (case ebind (dial_sending D) (\<lambda>_. ebind (dial_receiving D) (ready_frame W err kind)) of
          Inr _ \<Rightarrow> Inr \<lparr> ws_sent = [TextFrame (json_compact (wire_repr W) (JObj start))], ws_closed = False \<rparr>
        | Inl e \<Rightarrow> Inl (case dial_closing D of Inl e' \<Rightarrow> e' | Inr _ \<Rightarrow> e)))"

record connect_call =
  cc_url :: string
  cc_headers :: "(string, string) dict option"
  cc_open_timeout :: rat
  cc_max_size :: int

record ws_provider =
  wp_url :: string
  wp_token :: "string option"
  wp_voice :: "string option"
  wp_open_timeout :: rat
  wp_max_message_bytes :: int

definition ws_provider_init :: "string \<Rightarrow> ws_provider \<Rightarrow> ws_provider result" where
  "ws_provider_init kind P =
     raise_if (\<not> startswith (wp_url P) ''wss://'' \<and> \<not> startswith (wp_url P) ''ws://'')
       (ValueError (''streaming '' @ kind @ '' URL must start with wss:// or ws://''))
     (raise_if (wp_open_timeout P \<le> 0) (ValueError ''open_timeout_seconds must be > 0'')
     (raise_if (wp_max_message_bytes P < 1024) (ValueError ''max_message_bytes must be >= 1024'')
     (Inr P)))"

text \<open>The call of the library, if it is installed.\<close>

definition connect_call_of :: "bool \<Rightarrow> (string \<Rightarrow> exn) \<Rightarrow> string \<Rightarrow> ws_provider \<Rightarrow> connect_call result" where
  "connect_call_of installed unavailable kind P =
     raise_if (\<not> installed) (unavailable (''websocket-json '' @ kind @ '' requires the optional ''
         @ repr_str ''voice'' @ '' dependency''))
     (Inr \<lparr> cc_url = wp_url P,
            cc_headers = (case bearer (wp_token P) of [] \<Rightarrow> None | hs \<Rightarrow> Some hs),
            cc_open_timeout = wp_open_timeout P, cc_max_size = wp_max_message_bytes P \<rparr>)"

text \<open>\<^verbatim>\<open>value in {...}\<close> for texts: a list or a dictionary cannot be looked up in a set.\<close>

definition in_set :: "json \<Rightarrow> string list \<Rightarrow> bool result" where
  "in_set v names = (case v of
      JList _ \<Rightarrow> Inl (TypeError (''unhashable type: '' @ repr_str ''list''))
    | JObj _ \<Rightarrow> Inl (TypeError (''unhashable type: '' @ repr_str ''dict''))
    | JStr t \<Rightarrow> Inr (t \<in> set names)
    | _ \<Rightarrow> Inr False)"

definition event_object :: "wire \<Rightarrow> (string \<Rightarrow> exn) \<Rightarrow> string \<Rightarrow> string \<Rightarrow> jdict result" where
  "event_object W err kind t = (case wire_loads W t of
      None \<Rightarrow> Inl (err (kind @ '' provider sent invalid JSON''))
    | Some (JObj d) \<Rightarrow> Inr d
    | Some _ \<Rightarrow> Inl (err (kind @ '' provider event must be a JSON object'')))"

definition reported_error :: "wire \<Rightarrow> (string \<Rightarrow> exn) \<Rightarrow> string \<Rightarrow> jdict \<Rightarrow> exn" where
  "reported_error W err kind d = err (py_str (wire_repr W)
     (dict_get_or d ''message'' (JStr (kind @ '' provider returned an error''))))"

definition unsupported_event :: "wire \<Rightarrow> (string \<Rightarrow> exn) \<Rightarrow> string \<Rightarrow> json \<Rightarrow> exn" where
  "unsupported_event W err kind ty = err (''unsupported '' @ kind @ '' provider event: '' @ py_repr (wire_repr W) ty)"

section \<open>Speech to text\<close>

definition StreamingSpeechUnavailableError :: "string \<Rightarrow> exn" where
  "StreamingSpeechUnavailableError m = OtherError ''StreamingSpeechUnavailableError'' m"

definition StreamingSpeechProtocolError :: "string \<Rightarrow> exn" where
  "StreamingSpeechProtocolError m = OtherError ''StreamingSpeechProtocolError'' m"

definition disabled_speech_open :: "ws_session result" where
  "disabled_speech_open = Inl (StreamingSpeechUnavailableError
     (''Streaming STT is disabled. Configure a streaming speech provider ''
      @ ''before opening the audio WebSocket transport.''))"

definition speech_start :: "string \<Rightarrow> audio_stream_config \<Rightarrow> jdict" where
  "speech_start loc c = [(''type'', JStr ''start''), (''schema'', JStr ''nora.stt.v1''), (''locale'', JStr loc),
     (''audio'', JObj [(''encoding'', JStr (audio_encoding_value (encoding c))),
        (''sample_rate_hz'', JInt (sample_rate_hz c)), (''channels'', JInt (channels c))])]"

definition speech_open :: "wire \<Rightarrow> dial \<Rightarrow> string \<Rightarrow> audio_stream_config \<Rightarrow> ws_session result" where
  "speech_open W D loc c = ws_open W StreamingSpeechProtocolError ''STT'' D (speech_start loc c)"

definition speech_push :: "unit result \<Rightarrow> bytes \<Rightarrow> ws_session \<Rightarrow> ws_session \<times> unit result" where
  "speech_push sending audio s =
     (if ws_closed s then (s, Inl (StreamingSpeechProtocolError ''cannot push audio after STT session is closed''))
      else if audio = [] then (s, Inr ())
      else frame_send sending (BinaryFrame audio) s)"

definition speech_closed_error :: exn where
  "speech_closed_error = StreamingSpeechProtocolError ''cannot send control event after STT session is closed''"

definition speech_commit :: "wire \<Rightarrow> unit result \<Rightarrow> ws_session \<Rightarrow> ws_session \<times> unit result" where
  "speech_commit W sending = send_control W speech_closed_error sending [(''type'', JStr ''commit'')]"

definition speech_close :: "wire \<Rightarrow> unit result \<Rightarrow> unit result \<Rightarrow> ws_session \<Rightarrow> ws_session \<times> unit result" where
  "speech_close W sending closing = end_session W speech_closed_error sending closing [(''type'', JStr ''close'')]"

definition speech_cancel :: "wire \<Rightarrow> unit result \<Rightarrow> unit result \<Rightarrow> ws_session \<Rightarrow> ws_session \<times> unit result" where
  "speech_cancel W sending closing = end_session W speech_closed_error sending closing [(''type'', JStr ''cancel'')]"

definition recognition_event_ok :: "recognition_event \<Rightarrow> bool" where
  "recognition_event_ok ev = (1 \<le> length (rec_text ev) \<and> length (rec_text ev) \<le> 20000
     \<and> (case rec_confidence ev of None \<Rightarrow> True | Some q \<Rightarrow> 0 \<le> q \<and> q \<le> 1))"

definition SpeechRecognitionEvent :: "recognition_event \<Rightarrow> recognition_event result" where
  "SpeechRecognitionEvent ev = raise_if (\<not> recognition_event_ok ev) (ValidationError ''SpeechRecognitionEvent'') (Inr ev)"

definition transcript_of :: "wire \<Rightarrow> bool \<Rightarrow> jdict \<Rightarrow> recognition_event result" where
  "transcript_of W final d =
     (let ev = \<lparr> rec_text = py_str (wire_repr W) (dict_get_or d ''text'' (JStr [])), rec_is_final = final,
            rec_confidence = None \<rparr>
      in case jget d ''confidence'' of
        JNull \<Rightarrow> SpeechRecognitionEvent ev
      | v \<Rightarrow> (case wire_number W v of
            None \<Rightarrow> Inl (ValidationError ''SpeechRecognitionEvent'')
          | Some q \<Rightarrow> SpeechRecognitionEvent (ev\<lparr>rec_confidence := Some q\<rparr>)))"

text \<open>One event of the provider: a transcript, nothing, the end, or an error.\<close>

datatype speech_read = SpeechText recognition_event | SpeechNothing | SpeechEnd

definition read_speech :: "wire \<Rightarrow> jdict \<Rightarrow> speech_read result" where
  "read_speech W d =
     (let ty = jget d ''type''
      in if ty = JStr ''partial'' then map_sum id SpeechText (transcript_of W False d)
         else if ty = JStr ''final'' then map_sum id SpeechText (transcript_of W True d)
         else ebind (in_set ty [''committed'', ''keepalive'']) (\<lambda>skip.
           if skip then Inr SpeechNothing
           else if ty = JStr ''error'' then Inl (reported_error W StreamingSpeechProtocolError ''STT'' d)
           else if ty = JStr ''closed'' then Inr SpeechEnd
           else Inl (unsupported_event W StreamingSpeechProtocolError ''STT'' ty)))"

text \<open>The events of a connection, from the frames that come and the exception that ends it, if any.\<close>

fun speech_events :: "wire \<Rightarrow> frame list \<Rightarrow> exn option \<Rightarrow> recognition_event list \<times> exn option" where
  "speech_events W [] failure = ([], failure)"
| "speech_events W (f # fs) failure =
     (case f of
        BinaryFrame _ \<Rightarrow> ([], Some (StreamingSpeechProtocolError ''STT provider sent unexpected binary response''))
      | TextFrame t \<Rightarrow>
          (case ebind (event_object W StreamingSpeechProtocolError ''STT'' t) (read_speech W) of
             Inl e \<Rightarrow> ([], Some e)
           | Inr SpeechEnd \<Rightarrow> ([], None)
           | Inr SpeechNothing \<Rightarrow> speech_events W fs failure
           | Inr (SpeechText ev) \<Rightarrow> (case speech_events W fs failure of (evs, e) \<Rightarrow> (ev # evs, e))))"

definition speech_run :: "wire \<Rightarrow> frame list \<Rightarrow> exn option \<Rightarrow> unit result \<Rightarrow> ws_session
    \<Rightarrow> ws_session \<times> recognition_event list \<times> exn option" where
  "speech_run W fs failure closing s = (case speech_events W fs failure of
      (evs, e) \<Rightarrow> (s\<lparr>ws_closed := True\<rparr>, evs, case closing of Inl e' \<Rightarrow> Some e' | Inr _ \<Rightarrow> e))"

section \<open>Text to speech\<close>

definition StreamingTtsUnavailableError :: "string \<Rightarrow> exn" where
  "StreamingTtsUnavailableError m = OtherError ''StreamingTtsUnavailableError'' m"

definition StreamingTtsProtocolError :: "string \<Rightarrow> exn" where
  "StreamingTtsProtocolError m = OtherError ''StreamingTtsProtocolError'' m"

definition disabled_synthesize :: "ws_session result" where
  "disabled_synthesize = Inl (StreamingTtsUnavailableError
     (''Production streaming TTS is disabled. '' @ ''Configure NORA_STREAMING_TTS_MODE.''))"

fun tts_encoding_value :: "tts_encoding \<Rightarrow> string" where
  "tts_encoding_value TtsPCM16 = ''pcm16''"
| "tts_encoding_value TtsMP3 = ''mp3''"
| "tts_encoding_value TtsOPUS = ''opus''"

definition tts_start :: "ws_provider \<Rightarrow> string \<Rightarrow> string \<Rightarrow> int \<Rightarrow> tts_audio_config \<Rightarrow> jdict" where
  "tts_start P words loc gen c =
     [(''type'', JStr ''start''), (''schema'', JStr ''nora.tts.v1''), (''text'', JStr words), (''locale'', JStr loc),
      (''generation'', JInt gen),
      (''audio'', JObj [(''encoding'', JStr (tts_encoding_value (tts_encoding_of c))),
         (''sample_rate_hz'', JInt (tts_sample_rate_hz c)), (''channels'', JInt (tts_channels c))])]
     @ (case wp_voice P of None \<Rightarrow> [] | Some v \<Rightarrow> if v = [] then [] else [(''voice'', JStr v)])"

definition synthesize :: "wire \<Rightarrow> dial \<Rightarrow> ws_provider \<Rightarrow> string \<Rightarrow> string \<Rightarrow> int \<Rightarrow> tts_audio_config
    \<Rightarrow> ws_session result" where
  "synthesize W D P words loc gen c =
     (let clean = strip words
      in raise_if (clean = []) (ValueError ''TTS text cannot be empty'')
        (ws_open W StreamingTtsProtocolError ''TTS'' D (tts_start P clean loc gen c)))"

definition tts_closed_error :: exn where
  "tts_closed_error = StreamingTtsProtocolError ''cannot send control event after TTS session is closed''"

definition tts_end :: "string \<Rightarrow> wire \<Rightarrow> int \<Rightarrow> unit result \<Rightarrow> unit result \<Rightarrow> ws_session \<Rightarrow> ws_session \<times> unit result" where
  "tts_end kind W gen sending closing =
     end_session W tts_closed_error sending closing [(''type'', JStr kind), (''generation'', JInt gen)]"

definition TtsAudioChunk :: "tts_chunk \<Rightarrow> tts_chunk result" where
  "TtsAudioChunk c = raise_if (\<not> (0 \<le> tts_sequence c \<and> 0 \<le> tts_chunk_generation c \<and> tts_audio c \<noteq> []))
     (ValidationError ''TtsAudioChunk'') (Inr c)"

text \<open>A text frame: whether the stream goes on.\<close>

definition read_tts :: "wire \<Rightarrow> jdict \<Rightarrow> bool result" where
  "read_tts W d =
     (let ty = jget d ''type''
      in ebind (in_set ty [''keepalive'', ''metadata'']) (\<lambda>skip.
        if skip then Inr True
        else ebind (in_set ty [''done'', ''closed'']) (\<lambda>over.
          if over then Inr False
          else if ty = JStr ''error'' then Inl (reported_error W StreamingTtsProtocolError ''TTS'' d)
          else Inl (unsupported_event W StreamingTtsProtocolError ''TTS'' ty))))"

text \<open>The chunks of a connection, numbered as they come.\<close>

fun tts_chunks :: "wire \<Rightarrow> int \<Rightarrow> int \<Rightarrow> frame list \<Rightarrow> exn option \<Rightarrow> tts_chunk list \<times> exn option" where
  "tts_chunks W gen n [] failure = ([], failure)"
| "tts_chunks W gen n (f # fs) failure =
     (case f of
        BinaryFrame audio \<Rightarrow>
          if audio = [] then tts_chunks W gen n fs failure
          else (case TtsAudioChunk \<lparr> tts_sequence = n, tts_chunk_generation = gen, tts_audio = audio \<rparr> of
             Inl e \<Rightarrow> ([], Some e)
           | Inr c \<Rightarrow> (case tts_chunks W gen (n + 1) fs failure of (cs, e) \<Rightarrow> (c # cs, e)))
      | TextFrame t \<Rightarrow>
          (case ebind (event_object W StreamingTtsProtocolError ''TTS'' t) (read_tts W) of
             Inl e \<Rightarrow> ([], Some e)
           | Inr True \<Rightarrow> tts_chunks W gen n fs failure
           | Inr False \<Rightarrow> ([], None)))"

definition tts_run :: "wire \<Rightarrow> int \<Rightarrow> frame list \<Rightarrow> exn option \<Rightarrow> unit result \<Rightarrow> ws_session
    \<Rightarrow> ws_session \<times> tts_chunk list \<times> exn option" where
  "tts_run W gen fs failure closing s = (case tts_chunks W gen 0 fs failure of
      (cs, e) \<Rightarrow> (s\<lparr>ws_closed := True\<rparr>, cs, case closing of Inl e' \<Rightarrow> Some e' | Inr _ \<Rightarrow> e))"

section \<open>What the providers guarantee\<close>

lemma judged_Worked: "judged reply = Worked t \<longleftrightarrow> (\<exists>code body. reply = ChatAnswered code body \<and> 200 \<le> code
    \<and> code < 300 \<and> reply_content body = Some (JStr t) \<and> strip t \<noteq> [])"
  by (auto simp: judged_def unusable_reply_def split: chat_reply.splits option.splits json.splits if_splits)

lemmas complete_bounded = guarded_attempts_bounded [where k = 1]

text \<open>While the breaker is open and has not cooled down nothing is sent.\<close>

lemma complete_refused:
  assumes "circuit (cp_circuit P) = CircuitOPEN" and "opened_at (cp_circuit P) = Some t"
    and "fl (before 1 - t) < cb_cooldown_seconds (cp_circuit P)" and "1 \<le> cp_max_attempts P"
  shows "complete send before after sys usr P = (P, [], Inl (ProviderCircuitOpenError
     (''Provider circuit is open: '' @ cb_provider_id (cp_circuit P))))"
proof -
  have "[1..cp_max_attempts P] = 1 # [2..cp_max_attempts P]" using assms(4) by (simp add: upto_rec1)
  then show ?thesis using assms by (simp add: complete_def before_call_def not_le)
qed

text \<open>The chunks of a synthesised stream are the audio frames up to the first frame that ends it, numbered
  from 0 and of the generation that was asked for.\<close>

lemma tts_chunks_numbered:
  "tts_chunks W gen n fs failure = (cs, e) \<Longrightarrow> map tts_sequence cs = [n..n + int (length cs) - 1]
    \<and> (\<forall>c\<in>set cs. tts_chunk_generation c = gen \<and> BinaryFrame (tts_audio c) \<in> set fs \<and> tts_audio c \<noteq> [])"
proof (induction fs arbitrary: n cs)
  case (Cons f fs)
  show ?case
  proof (cases f)
    case (TextFrame t)
    then show ?thesis
    proof (cases "ebind (event_object W StreamingTtsProtocolError ''TTS'' t) (read_tts W) = Inr True")
      case True
      then have "tts_chunks W gen n fs failure = (cs, e)" using Cons.prems TextFrame by simp
      then show ?thesis using Cons.IH by auto
    next
      case False
      then have "cs = []" using Cons.prems TextFrame by (auto split: sum.splits bool.splits)
      then show ?thesis by simp
    qed
  next
    case (BinaryFrame audio)
    consider "audio = []" "tts_chunks W gen n fs failure = (cs, e)" | "cs = []"
      | cs' where "audio \<noteq> []" "tts_chunks W gen (n + 1) fs failure = (cs', e)"
          "cs = \<lparr> tts_sequence = n, tts_chunk_generation = gen, tts_audio = audio \<rparr> # cs'"
      using Cons.prems BinaryFrame
      by (cases "audio = []") (auto simp: TtsAudioChunk_def raise_if_def split: if_splits prod.splits)
    then show ?thesis
    proof cases
      case 3
      then show ?thesis using Cons.IH [OF 3(2)] BinaryFrame by (auto simp: upto_rec1 add.assoc)
    qed (use Cons.IH in auto)
  qed
qed simp

lemma transcript_of_ok: "transcript_of W b d = Inr ev \<Longrightarrow> recognition_event_ok ev"
  by (auto simp: transcript_of_def SpeechRecognitionEvent_def exn_simps Let_def split: json.splits option.splits)

lemma read_speech_ok: "read_speech W d = Inr (SpeechText ev) \<Longrightarrow> recognition_event_ok ev"
  by (cases "transcript_of W True d"; cases "transcript_of W False d")
    (auto simp: read_speech_def exn_simps Let_def transcript_of_ok split: if_splits)

lemma speech_events_ok: "speech_events W fs failure = (evs, e) \<Longrightarrow> ev \<in> set evs \<Longrightarrow> recognition_event_ok ev"
proof (induction fs arbitrary: evs)
  case (Cons f fs)
  show ?case
  proof (cases f)
    case (TextFrame t)
    show ?thesis
    proof (cases "ebind (event_object W StreamingSpeechProtocolError ''STT'' t) (read_speech W)")
      case (Inr x)
      have ok: "x = SpeechText ev' \<Longrightarrow> recognition_event_ok ev'" for ev'
        using Inr read_speech_ok by (auto simp: exn_simps)
      show ?thesis using Cons TextFrame Inr ok by (cases x) (auto split: prod.splits)
    qed (use Cons.prems TextFrame in auto)
  qed (use Cons.prems in auto)
qed simp

end
