(* ===== verification/Configuration.thy ===== *)
theory Configuration
  imports Providers Authentication Webhooks Ensemble Artifacts Vad Metrics
begin

text \<open>
  \<^verbatim>\<open>config.py\<close>: what is built from the environment's variables, and in \<^verbatim>\<open>api.py\<close> the composition of it.
  A builder gives a description of the object that the code constructs, once the constructor's own checks
  have passed. Python's reading of numbers and of JSON, the optional packages that are installed, and the
  printing of floats are parameters. A setting that \<^verbatim>\<open>float\<close> reads as a NaN or an infinity is where
  the model ends: it has its own outcome, which is no exception of the code.
\<close>

section \<open>The environment\<close>

datatype number = Finite rat | NonFinite

record environ =
  env_var :: "string \<Rightarrow> string option"
  read_float :: "string \<Rightarrow> number option"
  read_int :: "string \<Rightarrow> int option"
  read_json :: "string \<Rightarrow> json option"
  environ_repr :: "rat \<Rightarrow> string"
  extra_installed :: "string \<Rightarrow> bool"

definition RuntimeError :: "string \<Rightarrow> exn" where
  "RuntimeError m = OtherError ''RuntimeError'' m"

definition beyond_the_model :: exn where
  "beyond_the_model = OtherError ''a number that is not finite'' []"

definition getenv :: "environ \<Rightarrow> string \<Rightarrow> string \<Rightarrow> string" where
  "getenv S name dflt = (case env_var S name of None \<Rightarrow> dflt | Some v \<Rightarrow> v)"

definition setting :: "environ \<Rightarrow> string \<Rightarrow> string \<Rightarrow> string" where
  "setting S name dflt = strip (getenv S name dflt)"

definition mode_of :: "environ \<Rightarrow> string \<Rightarrow> string \<Rightarrow> string" where
  "mode_of S name dflt = py_lower (setting S name dflt)"

definition flag :: "environ \<Rightarrow> string \<Rightarrow> string \<Rightarrow> bool" where
  "flag S name dflt = (mode_of S name dflt \<in> {''1'', ''true'', ''yes'', ''on''})"

definition listed :: "environ \<Rightarrow> string \<Rightarrow> string \<Rightarrow> string list" where
  "listed S name dflt = filter (\<lambda>x. x \<noteq> []) (map strip (split_comma (getenv S name dflt)))"

text \<open>\<^verbatim>\<open>x.strip() or dflt\<close>.\<close>

definition setting_or :: "environ \<Rightarrow> string \<Rightarrow> string \<Rightarrow> string" where
  "setting_or S name dflt = (let v = setting S name dflt in if v = [] then dflt else v)"

definition float_of :: "environ \<Rightarrow> string \<Rightarrow> rat result" where
  "float_of S v = (case read_float S v of
      None \<Rightarrow> Inl (ValueError (''could not convert string to float: '' @ repr_str v))
    | Some NonFinite \<Rightarrow> Inl beyond_the_model
    | Some (Finite q) \<Rightarrow> Inr q)"

definition int_of_setting :: "environ \<Rightarrow> string \<Rightarrow> int result" where
  "int_of_setting S v = (case read_int S v of
      None \<Rightarrow> Inl (ValueError (''invalid literal for int() with base 10: '' @ repr_str v)) | Some i \<Rightarrow> Inr i)"

definition float_setting :: "environ \<Rightarrow> string \<Rightarrow> string \<Rightarrow> rat result" where
  "float_setting S name dflt = float_of S (getenv S name dflt)"

definition int_setting :: "environ \<Rightarrow> string \<Rightarrow> string \<Rightarrow> int result" where
  "int_setting S name dflt = int_of_setting S (getenv S name dflt)"

text \<open>\<^verbatim>\<open>except ValueError as exc: raise RuntimeError(...)\<close>, where the message may quote the exception.\<close>

definition on_value_error :: "(string \<Rightarrow> string) \<Rightarrow> 'a result \<Rightarrow> 'a result" where
  "on_value_error m x = (case x of
      Inl e \<Rightarrow> if is_value_error e then Inl (RuntimeError (m (exn_str e))) else Inl e | Inr a \<Rightarrow> Inr a)"

definition unsupported_mode :: "string \<Rightarrow> string \<Rightarrow> 'a result" where
  "unsupported_mode name mode = Inl (RuntimeError (''Unsupported '' @ name @ '': '' @ mode))"

section \<open>Artifacts\<close>

datatype artifact_choice = NoArtifacts | S3Artifacts s3_config | LocalArtifacts string bytes string

fun artifact_provider_id :: "artifact_choice \<Rightarrow> string" where
  "artifact_provider_id NoArtifacts = ''disabled''"
| "artifact_provider_id (S3Artifacts c) = ''s3''"
| "artifact_provider_id (LocalArtifacts folder key key_id) = ''encrypted-local''"

definition build_s3_artifacts :: "environ \<Rightarrow> artifact_choice result" where
  "build_s3_artifacts S =
     (let bucket = setting S ''NORA_ARTIFACT_S3_BUCKET'' [];
          endpoint = env_var S ''NORA_ARTIFACT_S3_ENDPOINT_URL''
      in raise_if (bucket = []) (RuntimeError ''NORA_ARTIFACT_S3_BUCKET is required in s3 artifact mode'')
        (raise_if ((case endpoint of None \<Rightarrow> False | Some u \<Rightarrow> startswith (strip u) ''http://'')
            \<and> \<not> flag S ''NORA_ARTIFACT_S3_ALLOW_INSECURE'' ''false'')
          (RuntimeError (''NORA_ARTIFACT_S3_ENDPOINT_URL must use https:// unless ''
             @ ''NORA_ARTIFACT_S3_ALLOW_INSECURE=true''))
        (on_value_error (\<lambda>m. ''Invalid S3 artifact storage configuration: '' @ m)
          (raise_if (\<not> extra_installed S ''s3'') (RuntimeError (''S3 artifact storage requires the ''
               @ repr_str ''s3'' @ '' extra: pip install -e '' @ repr_str ''.[s3]''))
          (map_sum id S3Artifacts (s3_init \<lparr> s3_bucket = bucket, s3_prefix = setting S ''NORA_ARTIFACT_S3_PREFIX'' [],
             s3_region = env_var S ''NORA_ARTIFACT_S3_REGION'', s3_endpoint_url = endpoint,
             s3_sse_mode = setting S ''NORA_ARTIFACT_S3_SSE_MODE'' ''AES256'',
             s3_kms_key_id = env_var S ''NORA_ARTIFACT_S3_KMS_KEY_ID'' \<rparr>))))))"

definition build_local_artifacts :: "environ \<Rightarrow> artifact_choice result" where
  "build_local_artifacts S =
     (let folder = setting S ''NORA_ARTIFACT_LOCAL_PATH'' ''.nora/artifacts'';
          raw_key = setting S ''NORA_ARTIFACT_ENCRYPTION_KEY_B64'' [];
          key_id = setting S ''NORA_ARTIFACT_ENCRYPTION_KEY_ID'' ''primary''
      in raise_if (folder = [] \<or> raw_key = [])
           (RuntimeError (''NORA_ARTIFACT_LOCAL_PATH and NORA_ARTIFACT_ENCRYPTION_KEY_B64 are required ''
              @ ''in encrypted-local artifact mode''))
        (case b64url_decode raw_key of
           Inl e \<Rightarrow> Inl (RuntimeError ''NORA_ARTIFACT_ENCRYPTION_KEY_B64 must be valid base64'')
         | Inr key \<Rightarrow> on_value_error (\<lambda>m. ''Invalid encrypted artifact storage configuration: '' @ m)
             (raise_if (\<not> extra_installed S ''artifacts'') (RuntimeError (''Encrypted artifact storage requires the ''
                  @ repr_str ''artifacts'' @ '' extra: pip install -e '' @ repr_str ''.[artifacts]''))
             (map_sum id (LocalArtifacts folder key) (local_store_init key key_id)))))"

definition build_artifact_store :: "environ \<Rightarrow> artifact_choice result" where
  "build_artifact_store S =
     (let mode = mode_of S ''NORA_ARTIFACT_STORE_MODE'' ''disabled''
      in if mode = ''disabled'' then Inr NoArtifacts
         else if mode = ''s3'' then build_s3_artifacts S
         else if mode = ''encrypted-local'' then build_local_artifacts S
         else unsupported_mode ''NORA_ARTIFACT_STORE_MODE'' mode)"

text \<open>The service for a store, given what it is built around (the store and the library's digests).\<close>

definition build_artifact_service :: "environ \<Rightarrow> 'o artifact_service \<Rightarrow> 'o artifact_service result" where
  "build_artifact_service S A =
     ebind (if backend_id (backend A) = ''disabled'' then Inr None
            else (let secret = utf8_encode (getenv S ''NORA_ARTIFACT_SIGNING_SECRET'' [])
                  in raise_if (length secret < 32)
                       (RuntimeError (''NORA_ARTIFACT_SIGNING_SECRET must be at least 32 bytes ''
                          @ ''when artifact storage is enabled'')) (Inr (Some secret)))) (\<lambda>secret.
     ebind (on_value_error (\<lambda>_. ''Artifact size and access TTL settings must be integers'')
              (ebind (int_setting S ''NORA_ARTIFACT_MAX_BYTES'' ''52428800'') (\<lambda>m.
               ebind (int_setting S ''NORA_ARTIFACT_ACCESS_TTL_SECONDS'' ''300'') (\<lambda>t. Inr (m, t))))) (\<lambda>(m, t).
     on_value_error (\<lambda>msg. ''Invalid artifact service configuration: '' @ msg)
       (artifact_service_init (A\<lparr>signing_secret := secret, max_artifact_bytes := m, access_ttl_seconds := t\<rparr>))))"

section \<open>Language models\<close>

text \<open>\<^verbatim>\<open>_completion_resilience_kwargs\<close> and the provider it is for. The checks of the provider's
  constructor are not caught by most builders.\<close>

definition completion_resilience :: "environ \<Rightarrow> string \<Rightarrow> (rat \<times> int \<times> rat \<times> int \<times> rat) result" where
  "completion_resilience S pre = on_value_error (\<lambda>_. ''Invalid resilience setting for '' @ pre)
     (ebind (float_setting S (pre @ ''_TIMEOUT_SECONDS'') ''30'') (\<lambda>timeout.
      ebind (int_setting S (pre @ ''_MAX_ATTEMPTS'') ''2'') (\<lambda>attempts.
      ebind (float_setting S (pre @ ''_RETRY_BASE_SECONDS'') ''0.25'') (\<lambda>retry_base.
      ebind (int_setting S (pre @ ''_FAILURE_THRESHOLD'') ''3'') (\<lambda>threshold.
      ebind (float_setting S (pre @ ''_COOLDOWN_SECONDS'') ''20'') (\<lambda>cooldown.
        Inr (timeout, attempts, retry_base, threshold, cooldown)))))))"

definition build_completion :: "environ \<Rightarrow> string \<Rightarrow> string \<Rightarrow> string \<Rightarrow> string option \<Rightarrow> chat_provider result" where
  "build_completion S pre base_url model api_key =
     ebind (completion_resilience S pre) (\<lambda>(timeout, attempts, retry_base, threshold, cooldown).
       chat_provider_init base_url model api_key timeout attempts retry_base threshold cooldown)"

datatype brain_choice = RuleBrain | ModelBrain chat_provider

definition build_brain :: "environ \<Rightarrow> brain_choice result" where
  "build_brain S =
     (let mode = mode_of S ''NORA_BRAIN_MODE'' ''rule''
      in if mode = ''rule'' then Inr RuleBrain
         else if mode = ''openai-compatible''
         then (let base_url = setting S ''NORA_LLM_BASE_URL'' []; model = setting S ''NORA_LLM_MODEL'' []
               in raise_if (base_url = [] \<or> model = [])
                    (RuntimeError (''NORA_LLM_BASE_URL and NORA_LLM_MODEL are required for openai-compatible mode''))
                  (map_sum id ModelBrain (build_completion S ''NORA_LLM'' base_url model (env_var S ''NORA_LLM_API_KEY''))))
         else unsupported_mode ''NORA_BRAIN_MODE'' mode)"

datatype judge_choice = NoJudge | ModelJudge chat_provider | JudgeEnsemble "chat_provider list" rat

text \<open>The ensemble over the judges' identifiers: the checks of its constructor.\<close>

definition silent_judge :: "chat_provider \<Rightarrow> evidence_judge" where
  "silent_judge P = disabled_judge\<lparr>judge_id := ''openai-compatible:'' @ cp_model P\<rparr>"

definition build_judge_ensemble :: "environ \<Rightarrow> judge_choice result" where
  "build_judge_ensemble S =
     (let base_url = setting S ''NORA_EVIDENCE_JUDGE_BASE_URL'' [];
          models = listed S ''NORA_EVIDENCE_JUDGE_MODELS'' []
      in raise_if (base_url = [] \<or> length models < 2)
           (RuntimeError (''NORA_EVIDENCE_JUDGE_BASE_URL and at least two comma-separated ''
              @ ''NORA_EVIDENCE_JUDGE_MODELS are required when '' @ ''NORA_EVIDENCE_JUDGE_MODE=ensemble''))
        (raise_if (\<not> distinct models) (RuntimeError ''NORA_EVIDENCE_JUDGE_MODELS must contain unique model ids'')
        (ebind (on_value_error (\<lambda>_. ''NORA_EVIDENCE_JUDGE_AGREEMENT_THRESHOLD must be a number'')
                 (float_of S (setting S ''NORA_EVIDENCE_JUDGE_AGREEMENT_THRESHOLD'' (environ_repr S (fl (2/3)))))) (\<lambda>threshold.
         raise_if (\<not> (1/2 < threshold \<and> threshold \<le> 1))
           (RuntimeError ''NORA_EVIDENCE_JUDGE_AGREEMENT_THRESHOLD must be in (0.5, 1.0]'')
         (ebind (emap (\<lambda>model. build_completion S ''NORA_EVIDENCE_JUDGE'' base_url model
                   (env_var S ''NORA_EVIDENCE_JUDGE_API_KEY'')) models) (\<lambda>ps.
          ebind (EvidenceJudgeEnsemble (map silent_judge ps) threshold) (\<lambda>_.
            Inr (JudgeEnsemble ps threshold))))))))"

definition build_evidence_judge :: "environ \<Rightarrow> judge_choice result" where
  "build_evidence_judge S =
     (let mode = mode_of S ''NORA_EVIDENCE_JUDGE_MODE'' ''disabled''
      in if mode = ''disabled'' then Inr NoJudge
         else if mode = ''openai-compatible''
         then (let base_url = setting S ''NORA_EVIDENCE_JUDGE_BASE_URL'' [];
                   model = setting S ''NORA_EVIDENCE_JUDGE_MODEL'' []
               in raise_if (base_url = [] \<or> model = [])
                    (RuntimeError (''NORA_EVIDENCE_JUDGE_BASE_URL and NORA_EVIDENCE_JUDGE_MODEL are required when ''
                       @ ''NORA_EVIDENCE_JUDGE_MODE=openai-compatible''))
                  (map_sum id ModelJudge (build_completion S ''NORA_EVIDENCE_JUDGE'' base_url model
                     (env_var S ''NORA_EVIDENCE_JUDGE_API_KEY''))))
         else if mode = ''ensemble'' then build_judge_ensemble S
         else unsupported_mode ''NORA_EVIDENCE_JUDGE_MODE'' mode)"

datatype drafter_choice = NoDrafter | ModelDrafter chat_provider

definition build_rubric_drafter :: "environ \<Rightarrow> drafter_choice result" where
  "build_rubric_drafter S =
     (let mode = mode_of S ''NORA_RUBRIC_DRAFTER_MODE'' ''disabled''
      in if mode = ''disabled'' then Inr NoDrafter
         else if mode = ''openai-compatible''
         then (let base_url = setting S ''NORA_RUBRIC_DRAFTER_BASE_URL'' [];
                   model = setting S ''NORA_RUBRIC_DRAFTER_MODEL'' []
               in raise_if (base_url = [] \<or> model = [])
                    (RuntimeError (''NORA_RUBRIC_DRAFTER_BASE_URL and NORA_RUBRIC_DRAFTER_MODEL are required when ''
                       @ ''NORA_RUBRIC_DRAFTER_MODE=openai-compatible''))
                  (map_sum id ModelDrafter (build_completion S ''NORA_RUBRIC_DRAFTER'' base_url model
                     (env_var S ''NORA_RUBRIC_DRAFTER_API_KEY''))))
         else unsupported_mode ''NORA_RUBRIC_DRAFTER_MODE'' mode)"

end
