(* ===== verification/Sandbox.thy ===== *)
theory Sandbox
  imports Providers Tools
begin

text \<open>
  \<^verbatim>\<open>sandbox.py\<close>: where a candidate's code runs, not at all, in a container of Docker or by a remote service.
  What Docker and the service answer, the reading of a result by the model's validation and the decoding
  of output are parameters. The lemmas: a remote run that does not give a result that keeps the contract is
  unavailable.
\<close>

section \<open>Limits\<close>

record sandbox_limits =
  limit_timeout :: rat
  limit_memory_mb :: int
  limit_cpus :: rat
  limit_pids :: int

definition sandbox_limits_ok :: "sandbox_limits \<Rightarrow> bool" where
  "sandbox_limits_ok l = (0 < limit_timeout l \<and> limit_timeout l \<le> 30
     \<and> 64 \<le> limit_memory_mb l \<and> limit_memory_mb l \<le> 2048
     \<and> 0 < limit_cpus l \<and> limit_cpus l \<le> 4 \<and> 16 \<le> limit_pids l \<and> limit_pids l \<le> 512)"

definition SandboxLimits :: "sandbox_limits \<Rightarrow> sandbox_limits result" where
  "SandboxLimits l = raise_if (\<not> sandbox_limits_ok l) (ValidationError ''SandboxLimits'') (Inr l)"

text \<open>The limits that are not given.\<close>

definition limits_within :: "rat \<Rightarrow> sandbox_limits" where
  "limits_within timeout = \<lparr> limit_timeout = timeout, limit_memory_mb = 256, limit_cpus = 1/2, limit_pids = 64 \<rparr>"

definition SandboxUnavailable :: "string \<Rightarrow> exn" where
  "SandboxUnavailable m = OtherError ''SandboxUnavailable'' m"

definition disabled_run :: "string \<Rightarrow> string \<Rightarrow> sandbox_limits \<Rightarrow> sandbox_result result" where
  "disabled_run src harness l = Inl (SandboxUnavailable
     (''Code execution is disabled. Configure NORA_SANDBOX_MODE=docker ''
      @ ''or provide an external SandboxRunner.''))"

text \<open>The last 20000 characters.\<close>

definition last_output :: "string \<Rightarrow> string" where
  "last_output t = drop (length t - 20000) t"

section \<open>Docker\<close>

definition docker_command :: "(rat \<Rightarrow> string) \<Rightarrow> string \<Rightarrow> string \<Rightarrow> sandbox_limits \<Rightarrow> string list" where
  "docker_command fr img folder l =
     [''docker'', ''run'', ''--rm'', ''--network'', ''none'', ''--read-only'', ''--cap-drop'', ''ALL'',
      ''--security-opt'', ''no-new-privileges'', ''--pids-limit'', show_int (limit_pids l),
      ''--ulimit'', ''nofile=64:64'', ''--env'', ''PYTHONDONTWRITEBYTECODE=1'',
      ''--memory'', show_int (limit_memory_mb l) @ ''m'', ''--cpus'', fr (limit_cpus l),
      ''--user'', ''65534:65534'', ''--tmpfs'', ''/tmp:rw,noexec,nosuid,size=64m'',
      ''--mount'', ''type=bind,src='' @ folder @ '',dst=/workspace,readonly'',
      ''--workdir'', ''/workspace'', img, ''python'', ''/workspace/harness.py'']"

text \<open>What comes of the command on two files in a folder: the executable is missing; or an exit code with
  the output and whether the process was killed after its time.\<close>

datatype process_outcome = NoExecutable | ProcessRaised exn | ProcessEnded "int option" bytes bytes bool

record docker =
  docker_image :: string
  docker_folder :: string
  docker_repr :: "rat \<Rightarrow> string"
  docker_decode :: "bytes \<Rightarrow> string"
  docker_process :: "string list \<Rightarrow> bytes \<Rightarrow> bytes \<Rightarrow> rat \<Rightarrow> process_outcome"
  docker_elapsed :: rat

definition docker_run :: "docker \<Rightarrow> string \<Rightarrow> string \<Rightarrow> sandbox_limits \<Rightarrow> sandbox_result result" where
  "docker_run D src harness l =
     (case docker_process D (docker_command (docker_repr D) (docker_image D) (docker_folder D) l)
             (utf8_encode src) (utf8_encode harness) (limit_timeout l) of
        NoExecutable \<Rightarrow> Inl (SandboxUnavailable ''Docker executable was not found.'')
      | ProcessRaised e \<Rightarrow> Inl e
      | ProcessEnded code out err killed \<Rightarrow> Inr \<lparr> exit_code = code,
          stdout = last_output (docker_decode D out), stderr = last_output (docker_decode D err),
          timed_out = killed, duration_ms = max 0 (rne (fl (docker_elapsed D * 1000))),
          provider_id = ''docker'', execution_id = None, produced_artifacts = [] \<rparr>)"

section \<open>The remote service\<close>

record remote_sandbox =
  rs_base_url :: string
  rs_token :: "string option"
  rs_timeout :: rat
  rs_max_attempts :: int
  rs_retry_base :: rat
  rs_circuit :: circuit_breaker

definition remote_sandbox_init :: "string \<Rightarrow> string option \<Rightarrow> rat \<Rightarrow> int \<Rightarrow> rat \<Rightarrow> int \<Rightarrow> rat
    \<Rightarrow> remote_sandbox result" where
  "remote_sandbox_init base_url token timeout attempts retry_base threshold cooldown =
     (let url = rstrip_char (CHR ''/'') base_url
      in raise_if (url = []) (ValueError ''remote sandbox base_url is required'')
        (raise_if (timeout \<le> 0) (ValueError ''remote sandbox request timeout must be positive'')
        (raise_if (\<not> (1 \<le> attempts \<and> attempts \<le> 5))
          (ValueError ''remote sandbox max_attempts must be between 1 and 5'')
        (raise_if (retry_base < 0 \<or> 5 < retry_base)
          (ValueError ''remote sandbox retry base must be between 0 and 5'')
        (ebind (circuit_breaker_init ''remote-sandbox'' threshold cooldown) (\<lambda>b.
          Inr \<lparr> rs_base_url = url, rs_token = token, rs_timeout = timeout, rs_max_attempts = attempts,
                rs_retry_base = retry_base, rs_circuit = b \<rparr>))))))"

definition remote_request :: "remote_sandbox \<Rightarrow> string \<Rightarrow> string \<Rightarrow> sandbox_limits \<Rightarrow> chat_request" where
  "remote_request P src harness l =
     \<lparr> chr_url = rs_base_url P @ ''/v1/executions/python'',
       chr_headers = [(''Content-Type'', ''application/json''), (''Accept'', ''application/json'')] @ bearer (rs_token P),
       chr_body = [(''protocol'', JStr ''nora.sandbox.v1''), (''language'', JStr ''python''), (''source'', JStr src),
         (''harness'', JStr harness),
         (''limits'', JObj [(''timeout_seconds'', JFloat (limit_timeout l)), (''memory_mb'', JInt (limit_memory_mb l)),
            (''cpus'', JFloat (limit_cpus l)), (''pids_limit'', JInt (limit_pids l))]),
         (''policy'', JObj [(''network_access'', JBool False), (''filesystem'', JStr ''ephemeral''),
            (''privileged'', JBool False), (''max_output_bytes'', JInt 20000)])] \<rparr>"

text \<open>The result in a reply: \<open>validate\<close> is the model's validation, and \<open>fr\<close> prints floats.\<close>

definition remote_result :: "(rat \<Rightarrow> string) \<Rightarrow> (jdict \<Rightarrow> sandbox_result option) \<Rightarrow> json option \<Rightarrow> sandbox_result result" where
  "remote_result fr validate body =
     (case body of
        None \<Rightarrow> Inl (SandboxUnavailable ''Remote sandbox returned invalid JSON'')
      | Some (JObj d) \<Rightarrow>
          raise_if (jget d ''protocol'' \<noteq> JStr ''nora.sandbox.v1'')
            (SandboxUnavailable ''Remote sandbox protocol version mismatch'')
          (case jget d ''result'' of
             JObj payload \<Rightarrow>
               (let provider = jget d ''provider_id'';
                    p1 = dict_set ''provider_id'' (JStr (if truthy provider then py_str fr provider else ''remote'')) payload;
                    p2 = (case jget d ''execution_id'' of JNull \<Rightarrow> p1 | v \<Rightarrow> dict_set ''execution_id'' (JStr (py_str fr v)) p1)
                in case validate p2 of
                  None \<Rightarrow> Inl (SandboxUnavailable ''Remote sandbox result failed contract validation'')
                | Some res \<Rightarrow> Inr (res\<lparr>stdout := last_output (stdout res), stderr := last_output (stderr res)\<rparr>))
           | _ \<Rightarrow> Inl (SandboxUnavailable ''Remote sandbox response is missing result''))
      | Some _ \<Rightarrow> Inl (SandboxUnavailable ''Remote sandbox returned an invalid response''))"

definition remote_attempt :: "(rat \<Rightarrow> string) \<Rightarrow> (jdict \<Rightarrow> sandbox_result option) \<Rightarrow> chat_reply \<Rightarrow> sandbox_result attempt" where
  "remote_attempt fr validate reply = (case reply of
      ChatRaised e \<Rightarrow> Broke e
    | ChatFailed e \<Rightarrow> Failed (SandboxUnavailable ''Remote sandbox is unavailable'') True
    | ChatAnswered code body \<Rightarrow>
        if code < 200 \<or> 300 \<le> code
        then (if retryable_http_status code
              then Failed (SandboxUnavailable ''Remote sandbox is temporarily unavailable'') True
              else Failed (SandboxUnavailable ''Remote sandbox rejected the execution request'') False)
        else (case remote_result fr validate body of Inl e \<Rightarrow> Failed e False | Inr res \<Rightarrow> Worked res))"

definition remote_refusal :: "exn \<Rightarrow> exn" where
  "remote_refusal e = (if exn_name e = ''ProviderCircuitOpenError'' then SandboxUnavailable ''Remote sandbox circuit is open''
     else e)"

definition remote_back_off :: "remote_sandbox \<Rightarrow> int \<Rightarrow> rat" where
  "remote_back_off P attempt = fl (rs_retry_base P * of_int (2 ^ nat (attempt - 1)))"

definition remote_run :: "(rat \<Rightarrow> string) \<Rightarrow> (jdict \<Rightarrow> sandbox_result option) \<Rightarrow> (chat_request \<Rightarrow> int \<Rightarrow> chat_reply)
    \<Rightarrow> (int \<Rightarrow> rat) \<Rightarrow> (int \<Rightarrow> rat) \<Rightarrow> string \<Rightarrow> string \<Rightarrow> sandbox_limits \<Rightarrow> remote_sandbox
    \<Rightarrow> remote_sandbox \<times> rat list \<times> sandbox_result result" where
  "remote_run fr validate send before after src harness l P =
     (case guarded_attempts (rs_max_attempts P) (remote_back_off P) remote_refusal
             (\<lambda>k. remote_attempt fr validate (send (remote_request P src harness l) k)) before after
             [1..rs_max_attempts P] (rs_circuit P) of
        (b, sleeps, r) \<Rightarrow> (P\<lparr>rs_circuit := b\<rparr>, sleeps, r))"

section \<open>The sandbox of the coding challenges\<close>

text \<open>The runner as the evaluator of code calls it: with the challenge's time and the other limits that are not given.\<close>

definition sandbox_with :: "(string \<Rightarrow> string \<Rightarrow> sandbox_limits \<Rightarrow> sandbox_result result) \<Rightarrow> sandbox \<Rightarrow> sandbox" where
  "sandbox_with run SB = SB\<lparr>run_python := (\<lambda>src harness timeout.
     ebind (SandboxLimits (limits_within timeout)) (\<lambda>l. run src harness l))\<rparr>"

section \<open>What a run means\<close>

lemma last_output_short: "length (last_output t) \<le> 20000"
  by (simp add: last_output_def)

text \<open>An accepted result was validated, under the protocol, and its output is bounded.\<close>

lemma remote_result_Inr:
  assumes "remote_result fr validate body = Inr res"
  shows "\<exists>d p res0. body = Some (JObj d) \<and> jget d ''protocol'' = JStr ''nora.sandbox.v1'' \<and> validate p = Some res0
    \<and> res = res0\<lparr>stdout := last_output (stdout res0), stderr := last_output (stderr res0)\<rparr>
    \<and> (\<exists>who. dict_get p ''provider_id'' = Some (JStr who))"
proof -
  obtain d payload where d: "body = Some (JObj d)" "jget d ''protocol'' = JStr ''nora.sandbox.v1''"
    "jget d ''result'' = JObj payload"
    using assms by (auto simp: remote_result_def raise_if_def split: option.splits json.splits if_splits)
  let ?who = "if truthy (jget d ''provider_id'') then py_str fr (jget d ''provider_id'') else ''remote''"
  let ?p = "case jget d ''execution_id'' of JNull \<Rightarrow> dict_set ''provider_id'' (JStr ?who) payload
    | v \<Rightarrow> dict_set ''execution_id'' (JStr (py_str fr v)) (dict_set ''provider_id'' (JStr ?who) payload)"
  have "dict_get ?p ''provider_id'' = Some (JStr ?who)" by (simp split: json.split)
  moreover obtain res0 where "validate ?p = Some res0"
    "res = res0\<lparr>stdout := last_output (stdout res0), stderr := last_output (stderr res0)\<rparr>"
    using assms d by (cases "validate ?p") (simp_all add: remote_result_def raise_if_def Let_def)
  ultimately show ?thesis using d by blast
qed

text \<open>A remote run raises only that the sandbox is unavailable, but for exceptions of the client that it
  does not catch.\<close>

lemma remote_attempt_Failed: "remote_attempt fr validate reply = Failed e again \<Longrightarrow> exn_name e = ''SandboxUnavailable''"
  by (auto simp: remote_attempt_def remote_result_def SandboxUnavailable_def raise_if_def Let_def
      split: chat_reply.splits if_splits sum.splits option.splits json.splits)

end
