(* ===== verification/Deployment.thy ===== *)
theory Deployment
  imports Configuration Sandbox
begin

text \<open>
  The rest of \<^verbatim>\<open>config.py\<close> (the resolvers of callers, the streaming providers, voice activity, health,
  objectives, the store and its webhooks), the choice of a sandbox in \<^verbatim>\<open>sandbox.py\<close>, the composition of
  it all at the top of \<^verbatim>\<open>api.py\<close>, and \<^verbatim>\<open>capabilities.py\<close>, which describes it.
\<close>

section \<open>Resolvers\<close>

definition leeway_of :: "environ \<Rightarrow> string \<Rightarrow> rat result" where
  "leeway_of S name = ebind (on_value_error (\<lambda>_. name @ '' must be numeric'') (float_setting S name ''30'')) (\<lambda>q.
     raise_if (q < 0 \<or> 300 < q) (RuntimeError (name @ '' must be between 0 and 300'')) (Inr q))"

definition secure_jwks :: "environ \<Rightarrow> string \<Rightarrow> string \<Rightarrow> string \<Rightarrow> 'a result \<Rightarrow> 'a result" where
  "secure_jwks S url url_name flag_name k =
     raise_if (\<not> startswith url ''https://'' \<and> \<not> flag S flag_name ''false'')
       (RuntimeError (url_name @ '' must use https:// unless '' @ flag_name @ ''=true'')) k"

definition build_workload_resolver :: "environ \<Rightarrow> resolver result" where
  "build_workload_resolver S =
     (let url = setting S ''NORA_WORKLOAD_JWKS_URL'' []; issuer = setting S ''NORA_WORKLOAD_ISSUER'' [];
          audience = setting S ''NORA_WORKLOAD_AUDIENCE'' []
      in raise_if (url = [] \<or> issuer = [] \<or> audience = [])
           (RuntimeError (''NORA_WORKLOAD_JWKS_URL, NORA_WORKLOAD_ISSUER, and ''
              @ ''NORA_WORKLOAD_AUDIENCE are required for workload JWT auth''))
        (secure_jwks S url ''NORA_WORKLOAD_JWKS_URL'' ''NORA_WORKLOAD_ALLOW_INSECURE_JWKS''
        (ebind (leeway_of S ''NORA_WORKLOAD_LEEWAY_SECONDS'') (\<lambda>leeway.
         on_value_error (\<lambda>m. ''Invalid workload JWT configuration: '' @ m)
           (map_sum id WorkloadResolver (workload_init (extra_installed S ''auth'')
             \<lparr> jwks_url = url, jwt_issuer = issuer, jwt_audience = audience,
               jwt_algorithms = listed S ''NORA_WORKLOAD_ALGORITHMS'' ''RS256'',
               principal_claim = setting_or S ''NORA_WORKLOAD_PRINCIPAL_CLAIM'' ''sub'',
               role_claim = [], candidate_ref_claim = [], leeway_seconds = leeway, allow_service_role = False,
               workload_organization_claim = (case env_var S ''NORA_WORKLOAD_ORGANIZATION_CLAIM'' of
                  None \<Rightarrow> None | Some c \<Rightarrow> if strip c = [] then None else Some (strip c)) \<rparr>))))))"

text \<open>The mapping of external groups to roles, entry by entry.\<close>

definition read_role :: "string \<times> json \<Rightarrow> (string, actor_role) dict \<Rightarrow> (string, actor_role) dict result" where
  "read_role entry m = (case snd entry of
      JStr name \<Rightarrow> (case actor_role_of (py_lower (strip name)) of
          None \<Rightarrow> Inl (RuntimeError ''NORA_OIDC_ROLE_MAPPING contains an unknown Nora role'')
        | Some r \<Rightarrow> Inr (dict_set (fst entry) r m))
    | _ \<Rightarrow> Inl (RuntimeError ''NORA_OIDC_ROLE_MAPPING keys and values must be strings''))"

definition read_role_mapping :: "environ \<Rightarrow> string \<Rightarrow> (string, actor_role) dict result" where
  "read_role_mapping S raw = (case read_json S raw of
      Some (JObj entries) \<Rightarrow> efold read_role entries []
    | _ \<Rightarrow> Inl (RuntimeError ''NORA_OIDC_ROLE_MAPPING must be a JSON object''))"

text \<open>Both builders of the code are this one, up to the words for which it is required.\<close>

definition oidc_resolver :: "string \<Rightarrow> environ \<Rightarrow> resolver result" where
  "oidc_resolver purpose S =
     (let url = setting S ''NORA_OIDC_JWKS_URL'' []; issuer = setting S ''NORA_OIDC_ISSUER'' [];
          audience = setting S ''NORA_OIDC_AUDIENCE'' []; org = setting S ''NORA_OIDC_ORGANIZATION_ID'' [];
          raw = setting S ''NORA_OIDC_ROLE_MAPPING'' []
      in raise_if (url = [] \<or> issuer = [] \<or> audience = [] \<or> org = [] \<or> raw = [])
           (RuntimeError (''NORA_OIDC_JWKS_URL, NORA_OIDC_ISSUER, NORA_OIDC_AUDIENCE, NORA_OIDC_ORGANIZATION_ID, and ''
              @ ''NORA_OIDC_ROLE_MAPPING are required '' @ purpose))
        (secure_jwks S url ''NORA_OIDC_JWKS_URL'' ''NORA_OIDC_ALLOW_INSECURE_JWKS''
        (ebind (read_role_mapping S raw) (\<lambda>m.
         ebind (leeway_of S ''NORA_OIDC_LEEWAY_SECONDS'') (\<lambda>leeway.
         on_value_error (\<lambda>msg. ''Invalid OIDC configuration: '' @ msg)
           (map_sum id OidcResolver (oidc_init (extra_installed S ''auth'')
             \<lparr> jwks_url = url, jwt_issuer = issuer, jwt_audience = audience,
               jwt_algorithms = listed S ''NORA_OIDC_ALGORITHMS'' ''RS256'',
               principal_claim = setting_or S ''NORA_OIDC_PRINCIPAL_CLAIM'' ''sub'',
               role_claim = [], candidate_ref_claim = setting_or S ''NORA_OIDC_CANDIDATE_REF_CLAIM'' ''candidate_ref'',
               leeway_seconds = leeway, allow_service_role = False,
               oidc_organization_id = org,
               organization_claim = setting_or S ''NORA_OIDC_ORGANIZATION_CLAIM'' ''org_id'',
               groups_claim = setting_or S ''NORA_OIDC_GROUPS_CLAIM'' ''groups'', role_mapping = m,
               candidate_ref_from_subject = flag S ''NORA_OIDC_CANDIDATE_REF_FROM_SUBJECT'' ''true'' \<rparr>)))))))"

definition build_oidc_resolver :: "environ \<Rightarrow> resolver result" where
  "build_oidc_resolver = oidc_resolver ''for OIDC auth''"

definition build_oidc_mode :: "environ \<Rightarrow> resolver result" where
  "build_oidc_mode = oidc_resolver ''in oidc mode''"

definition build_jwt_mode :: "environ \<Rightarrow> resolver result" where
  "build_jwt_mode S =
     (let url = setting S ''NORA_AUTH_JWKS_URL'' []; issuer = setting S ''NORA_AUTH_ISSUER'' [];
          audience = setting S ''NORA_AUTH_AUDIENCE'' []
      in raise_if (url = [] \<or> issuer = [] \<or> audience = [])
           (RuntimeError (''NORA_AUTH_JWKS_URL, NORA_AUTH_ISSUER, and ''
              @ ''NORA_AUTH_AUDIENCE are required in jwt-jwks mode''))
        (secure_jwks S url ''NORA_AUTH_JWKS_URL'' ''NORA_AUTH_ALLOW_INSECURE_JWKS''
        (ebind (leeway_of S ''NORA_AUTH_LEEWAY_SECONDS'') (\<lambda>leeway.
         on_value_error (\<lambda>m. ''Invalid jwt-jwks configuration: '' @ m)
           (map_sum id JwtResolver (jwt_init (extra_installed S ''auth'')
             \<lparr> jwks_url = url, jwt_issuer = issuer, jwt_audience = audience,
               jwt_algorithms = listed S ''NORA_AUTH_ALGORITHMS'' ''RS256'',
               principal_claim = setting_or S ''NORA_AUTH_PRINCIPAL_CLAIM'' ''sub'',
               role_claim = setting_or S ''NORA_AUTH_ROLE_CLAIM'' ''nora_role'',
               candidate_ref_claim = setting_or S ''NORA_AUTH_CANDIDATE_REF_CLAIM'' ''candidate_ref'',
               leeway_seconds = leeway,
               allow_service_role = flag S ''NORA_AUTH_ALLOW_SERVICE_ROLE'' ''false'' \<rparr>))))))"

definition build_principal_resolver :: "environ \<Rightarrow> resolver result" where
  "build_principal_resolver S =
     (let mode = mode_of S ''NORA_AUTH_MODE'' ''disabled''
      in if mode = ''disabled'' then Inr DisabledResolver
         else if mode = ''dev-header'' then Inr DevHeaderResolver
         else if mode = ''workload-jwt'' then build_workload_resolver S
         else if mode = ''oidc+workload''
         then ebind (build_oidc_resolver S) (\<lambda>r1. ebind (build_workload_resolver S) (\<lambda>r2. composite_init [r1, r2]))
         else if mode = ''oidc'' then build_oidc_mode S
         else if mode = ''jwt-jwks'' then build_jwt_mode S
         else unsupported_mode ''NORA_AUTH_MODE'' mode)"

section \<open>Streaming and voice\<close>

datatype streaming_choice = StreamingDisabled | StreamingOver ws_provider

definition build_streaming :: "string \<Rightarrow> string \<Rightarrow> string \<Rightarrow> bool \<Rightarrow> environ \<Rightarrow> streaming_choice result" where
  "build_streaming kind pre message_bytes voiced S =
     (let mode = mode_of S (pre @ ''_MODE'') ''disabled''
      in if mode = ''disabled'' then Inr StreamingDisabled
         else if mode = ''websocket-json''
         then (let url = setting S (pre @ ''_URL'') []
               in raise_if (url = []) (RuntimeError (pre @ ''_URL is required in websocket-json mode''))
                 (raise_if (startswith url ''ws://'' \<and> \<not> flag S (pre @ ''_ALLOW_INSECURE'') ''false'')
                   (RuntimeError (pre @ ''_URL must use wss:// unless '' @ pre @ ''_ALLOW_INSECURE=true''))
                 (raise_if (\<not> startswith url ''wss://'' \<and> \<not> startswith url ''ws://'')
                   (RuntimeError (pre @ ''_URL must start with wss:// or ws://''))
                 (ebind (on_value_error (\<lambda>_. ''Streaming '' @ kind @ '' timeout must be numeric and max message size ''
                             @ ''must be an integer'')
                          (ebind (float_setting S (pre @ ''_OPEN_TIMEOUT_SECONDS'') ''10'') (\<lambda>t.
                           ebind (int_setting S (pre @ ''_MAX_MESSAGE_BYTES'') message_bytes) (\<lambda>n. Inr (t, n))))) (\<lambda>(t, n).
                  on_value_error (\<lambda>m. ''Invalid websocket-json '' @ kind @ '' configuration: '' @ m)
                    (map_sum id StreamingOver (ws_provider_init kind
                      \<lparr> wp_url = url, wp_token = env_var S (pre @ ''_TOKEN''),
                        wp_voice = (if voiced then env_var S (pre @ ''_VOICE'') else None),
                        wp_open_timeout = t, wp_max_message_bytes = n \<rparr>)))))))
         else unsupported_mode (pre @ ''_MODE'') mode)"

definition build_streaming_speech_provider :: "environ \<Rightarrow> streaming_choice result" where
  "build_streaming_speech_provider = build_streaming ''STT'' ''NORA_STREAMING_STT'' ''1048576'' False"

definition build_streaming_tts_provider :: "environ \<Rightarrow> streaming_choice result" where
  "build_streaming_tts_provider = build_streaming ''TTS'' ''NORA_STREAMING_TTS'' ''2097152'' True"

definition build_vad_config :: "environ \<Rightarrow> vad_config option result" where
  "build_vad_config S =
     (let mode = mode_of S ''NORA_VAD_MODE'' ''disabled''
      in if mode = ''disabled'' then Inr None
         else if mode \<noteq> ''energy'' then unsupported_mode ''NORA_VAD_MODE'' mode
         else on_value_error (\<lambda>m. ''Invalid energy VAD configuration: '' @ m)
           (ebind (float_setting S ''NORA_VAD_SPEECH_THRESHOLD'' ''0.02'') (\<lambda>speech.
            ebind (float_setting S ''NORA_VAD_RELEASE_THRESHOLD'' ''0.012'') (\<lambda>release.
            ebind (int_setting S ''NORA_VAD_SPEECH_START_MS'' ''120'') (\<lambda>start.
            ebind (int_setting S ''NORA_VAD_END_SILENCE_MS'' ''700'') (\<lambda>silence.
            ebind (int_setting S ''NORA_VAD_MAX_UTTERANCE_MS'' ''120000'') (\<lambda>longest.
              map_sum id Some (VadConfig \<lparr> speech_threshold = speech, release_threshold = release,
                speech_start_ms = start, speech_end_silence_ms = silence, max_utterance_ms = longest \<rparr>))))))))"

definition build_voice_health_registry :: "environ \<Rightarrow> health_registry result" where
  "build_voice_health_registry S =
     ebind (on_value_error (\<lambda>_. ''Voice provider failure threshold must be an integer and '' @ ''cooldown must be numeric'')
              (ebind (int_setting S ''NORA_VOICE_PROVIDER_FAILURE_THRESHOLD'' ''3'') (\<lambda>n.
               ebind (float_setting S ''NORA_VOICE_PROVIDER_COOLDOWN_SECONDS'' ''20'') (\<lambda>t. Inr (n, t))))) (\<lambda>(n, t).
     on_value_error (\<lambda>m. ''Invalid voice provider health configuration: '' @ m) (health_registry_init n t))"

definition build_operational_slo_policy :: "environ \<Rightarrow> slo_policy result" where
  "build_operational_slo_policy S = on_value_error (\<lambda>m. ''Invalid operational SLO configuration: '' @ m)
     (ebind (float_setting S ''NORA_SLO_MAX_HTTP_5XX_RATIO'' ''0.05'') (\<lambda>ratio.
      ebind (int_setting S ''NORA_SLO_MIN_HTTP_REQUESTS'' ''20'') (\<lambda>n.
      ebind (int_setting S ''NORA_SLO_MAX_UNASSIGNED_REVIEWS'' ''20'') (\<lambda>unassigned.
      ebind (int_setting S ''NORA_SLO_MAX_FAILED_EVIDENCE_RUNS'' ''5'') (\<lambda>runs.
        SloPolicy \<lparr> max_http_5xx_ratio = ratio, min_http_requests = n, max_unassigned_review = unassigned,
          max_failed_runs = runs \<rparr>)))))"

section \<open>The store and its webhooks\<close>

datatype store_choice =
    MemoryStore
  | SqliteFile string
  | PostgresPool string int int rat
  | WithWebhooks store_choice webhook_dispatcher

definition postgres_store_init :: "bool \<Rightarrow> string \<Rightarrow> int \<Rightarrow> int \<Rightarrow> rat \<Rightarrow> store_choice result" where
  "postgres_store_init installed dsn min_size max_size timeout =
     raise_if (strip dsn = []) (ValueError ''PostgreSQL DSN cannot be empty'')
     (raise_if (min_size < 0) (ValueError ''PostgreSQL pool min_size must be >= 0'')
     (raise_if (max_size < 1) (ValueError ''PostgreSQL pool max_size must be >= 1'')
     (raise_if (max_size < min_size) (ValueError ''PostgreSQL pool min_size cannot exceed max_size'')
     (raise_if (\<not> installed) (RuntimeError (''PostgreSQL storage requires the '' @ repr_str ''postgres''
        @ '' extra: pip install -e '' @ repr_str ''.[postgres]''))
     (Inr (PostgresPool dsn min_size max_size timeout))))))"

definition build_store :: "environ \<Rightarrow> store_choice result" where
  "build_store S =
     (let mode = mode_of S ''NORA_STORE_MODE'' ''memory''
      in if mode = ''memory'' then Inr MemoryStore
         else if mode = ''sqlite''
         then (let path = setting S ''NORA_SQLITE_PATH'' ''.nora/nora.db''
               in raise_if (path = []) (RuntimeError ''NORA_SQLITE_PATH cannot be empty in sqlite mode'')
                  (Inr (SqliteFile path)))
         else if mode = ''postgres''
         then (let dsn = setting S ''NORA_POSTGRES_DSN'' []
               in raise_if (dsn = []) (RuntimeError ''NORA_POSTGRES_DSN is required in postgres mode'')
                 (ebind (on_value_error (\<lambda>_. ''PostgreSQL pool sizes must be integers and timeout must be numeric'')
                          (ebind (int_setting S ''NORA_POSTGRES_MIN_SIZE'' ''1'') (\<lambda>lo.
                           ebind (int_setting S ''NORA_POSTGRES_MAX_SIZE'' ''10'') (\<lambda>hi.
                           ebind (float_setting S ''NORA_POSTGRES_TIMEOUT_SECONDS'' ''30'') (\<lambda>t. Inr (lo, hi, t)))))) (\<lambda>(lo, hi, t).
                  on_value_error (\<lambda>m. ''Invalid postgres storage configuration: '' @ m)
                    (postgres_store_init (extra_installed S ''postgres'') dsn lo hi t))))
         else unsupported_mode ''NORA_STORE_MODE'' mode)"

text \<open>\<^verbatim>\<open>EventType(v)\<close>.\<close>

definition event_types :: "event_type list" where
  "event_types = [SESSION_CREATED, INTERVIEW_STARTED, INTERVIEWER_TURN, CANDIDATE_TURN, CANDIDATE_CONTROL,
     TRANSCRIPT_CORRECTED, APPEAL_SUBMITTED, APPEAL_REVIEWED, EVIDENCE_OBSERVED, EVIDENCE_JUDGE_FAILED,
     EVIDENCE_JUDGE_DISAGREEMENT, EVIDENCE_JUDGE_RUN_RECORDED, EVIDENCE_SUPERSEDED, INTEGRITY_SIGNAL,
     INTEGRITY_REVIEWED, REVIEW_ASSIGNED, REVIEW_STARTED, REVIEW_COMPLETED, REVIEW_ASSIGNMENT_CANCELLED,
     TOOL_OPENED, TOOL_SUBMITTED, TOOL_EVALUATED, TOOL_CANCELLED, VOICE_SPEECH_STARTED, VOICE_TRANSCRIPT_PARTIAL,
     VOICE_TRANSCRIPT_FINAL, VOICE_RESPONSE_READY, VOICE_TTS_STARTED, VOICE_TTS_COMPLETED, VOICE_TTS_CANCELLED,
     VOICE_BARGE_IN, VOICE_PROVIDER_FAILED, VOICE_TRANSPORT_SELECTED, VOICE_TRANSPORT_FALLBACK, VOICE_VAD_ENDPOINT,
     ARTIFACT_CREATED, ARTIFACT_ACCESSED, ARTIFACT_DELETED, WEBHOOK_DELIVERY, SESSION_COMPLETED, SESSION_CANCELLED]"

definition event_type_named :: "string \<Rightarrow> event_type option" where
  "event_type_named v = find (\<lambda>t. event_type_value t = v) event_types"

definition read_event_types :: "environ \<Rightarrow> json \<Rightarrow> event_type list result" where
  "read_event_types S v = (case v of
      JNull \<Rightarrow> Inr webhook_safe_event_types
    | JList vs \<Rightarrow> map_sum id remdups (emap (\<lambda>x. case event_type_named (py_str (environ_repr S) x) of
          None \<Rightarrow> Inl (RuntimeError ''Webhook subscription contains an unknown event type'')
        | Some t \<Rightarrow> Inr t) vs)
    | _ \<Rightarrow> Inl (RuntimeError ''Webhook event_types must be a JSON array''))"

text \<open>One subscription, after those that were read.\<close>

definition read_subscription :: "environ \<Rightarrow> json \<Rightarrow> webhook_subscription list \<Rightarrow> webhook_subscription list result" where
  "read_subscription S item subs = (case item of
      JObj d \<Rightarrow>
        (let str = py_str (environ_repr S);
             i = strip (str (dict_get_or d ''id'' (JStr []))); url = strip (str (dict_get_or d ''url'' (JStr [])));
             secret = utf8_encode (str (dict_get_or d ''secret'' (JStr [])));
             org = jget d ''organization_id''
         in raise_if (i = [] \<or> i \<in> sub_id ` set subs)
              (RuntimeError ''Webhook subscription ids must be non-empty and unique'')
           (raise_if (startswith url ''http://'' \<and> \<not> flag S ''NORA_WEBHOOK_ALLOW_INSECURE'' ''false'')
              (RuntimeError (''Webhook URLs must use https:// unless '' @ ''NORA_WEBHOOK_ALLOW_INSECURE=true''))
           (ebind (read_event_types S (jget d ''event_types'')) (\<lambda>tys.
            on_value_error (\<lambda>m. ''Invalid webhook subscription '' @ repr_str i @ '': '' @ m)
              (ebind (WebhookSubscription \<lparr> sub_id = i, sub_url = url, sub_secret = secret,
                 sub_organization_id = (if org \<noteq> JNull \<and> strip (str org) \<noteq> [] then Some (strip (str org)) else None),
                 sub_event_types = tys \<rparr>) (\<lambda>sub. Inr (subs @ [sub])))))))
    | _ \<Rightarrow> Inl (RuntimeError ''Webhook subscriptions must be JSON objects''))"

text \<open>The store with webhooks: the dispatcher's client and its digest are those of the given one.\<close>

definition build_webhook_store :: "environ \<Rightarrow> webhook_dispatcher \<Rightarrow> store_choice \<Rightarrow> store_choice result" where
  "build_webhook_store S D st =
     (let raw = setting S ''NORA_WEBHOOK_SUBSCRIPTIONS_JSON'' []
      in if raw = [] then Inr st
         else (case read_json S raw of
           None \<Rightarrow> Inl (RuntimeError ''NORA_WEBHOOK_SUBSCRIPTIONS_JSON must be valid JSON'')
         | Some (JList items) \<Rightarrow>
             ebind (efold (read_subscription S) items []) (\<lambda>subs.
             ebind (on_value_error (\<lambda>_. ''Webhook timeout/retry settings are invalid'')
                      (ebind (float_setting S ''NORA_WEBHOOK_TIMEOUT_SECONDS'' ''8'') (\<lambda>t.
                       ebind (int_setting S ''NORA_WEBHOOK_MAX_ATTEMPTS'' ''3'') (\<lambda>n.
                       ebind (float_setting S ''NORA_WEBHOOK_RETRY_BASE_SECONDS'' ''0.25'') (\<lambda>r. Inr (t, n, r)))))) (\<lambda>(t, n, r).
             map_sum id (WithWebhooks st) (on_value_error (\<lambda>m. ''Invalid webhook dispatcher configuration: '' @ m)
               (webhook_dispatcher_init (D\<lparr>subscriptions := subs, webhook_dispatcher.timeout_seconds := t, max_attempts := n,
                  retry_base_seconds := r\<rparr>)))))
         | Some _ \<Rightarrow> Inl (RuntimeError ''NORA_WEBHOOK_SUBSCRIPTIONS_JSON must be a JSON array'')))"

section \<open>The sandbox\<close>

datatype runner_choice = NoRunner | DockerRunner string | RemoteRunner remote_sandbox

definition build_remote_runner :: "environ \<Rightarrow> runner_choice result" where
  "build_remote_runner S =
     (let url = setting S ''NORA_SANDBOX_REMOTE_URL'' []
      in raise_if (url = []) (RuntimeError ''NORA_SANDBOX_REMOTE_URL is required in remote mode'')
        (raise_if (\<not> startswith url ''https://'' \<and> \<not> flag S ''NORA_SANDBOX_REMOTE_ALLOW_INSECURE'' ''false'')
          (RuntimeError (''NORA_SANDBOX_REMOTE_URL must use https:// unless ''
             @ ''NORA_SANDBOX_REMOTE_ALLOW_INSECURE=true''))
        (ebind (on_value_error (\<lambda>_. ''NORA_SANDBOX_REMOTE_TIMEOUT_SECONDS must be numeric'')
                 (float_setting S ''NORA_SANDBOX_REMOTE_TIMEOUT_SECONDS'' ''35'')) (\<lambda>t.
         on_value_error (\<lambda>m. ''Invalid remote sandbox configuration: '' @ m)
           (ebind (int_setting S ''NORA_SANDBOX_REMOTE_MAX_ATTEMPTS'' ''2'') (\<lambda>n.
            ebind (float_setting S ''NORA_SANDBOX_REMOTE_RETRY_BASE_SECONDS'' ''0.25'') (\<lambda>r.
            ebind (int_setting S ''NORA_SANDBOX_REMOTE_FAILURE_THRESHOLD'' ''3'') (\<lambda>k.
            ebind (float_setting S ''NORA_SANDBOX_REMOTE_COOLDOWN_SECONDS'' ''20'') (\<lambda>c.
              map_sum id RemoteRunner
                (remote_sandbox_init url (env_var S ''NORA_SANDBOX_REMOTE_TOKEN'') t n r k c))))))))))"

definition default_sandbox_runner :: "environ \<Rightarrow> runner_choice result" where
  "default_sandbox_runner S =
     (let mode = mode_of S ''NORA_SANDBOX_MODE'' ''disabled''
      in if mode = ''disabled'' then Inr NoRunner
         else if mode = ''docker'' then Inr (DockerRunner (setting S ''NORA_SANDBOX_IMAGE'' ''python:3.12-alpine''))
         else if mode = ''remote'' then build_remote_runner S
         else unsupported_mode ''NORA_SANDBOX_MODE'' mode)"

section \<open>The deployment\<close>

text \<open>What the top of \<^verbatim>\<open>api.py\<close> builds, in its order. (The service builds the sandbox when it is constructed,
  after the brain and the judge.)\<close>

record 'o deployment =
  dep_store :: store_choice
  dep_artifacts :: artifact_choice
  dep_artifact_service :: "'o artifact_service"
  dep_brain :: brain_choice
  dep_judge :: judge_choice
  dep_runner :: runner_choice
  dep_resolver :: resolver
  dep_drafter :: drafter_choice
  dep_speech :: streaming_choice
  dep_tts :: streaming_choice
  dep_health :: health_registry
  dep_vad :: "vad_config option"
  dep_slo :: slo_policy

text \<open>The object store of a choice and the digests come from the caller.\<close>

definition deploy :: "environ \<Rightarrow> webhook_dispatcher \<Rightarrow> (artifact_choice \<Rightarrow> 'o artifact_service) \<Rightarrow> 'o deployment result" where
  "deploy S D service_for =
     ebind (ebind (build_store S) (build_webhook_store S D)) (\<lambda>st.
     ebind (build_artifact_store S) (\<lambda>arts.
     ebind (build_artifact_service S (service_for arts)) (\<lambda>asv.
     ebind (build_brain S) (\<lambda>brain.
     ebind (build_evidence_judge S) (\<lambda>judge.
     ebind (default_sandbox_runner S) (\<lambda>run.
     ebind (build_principal_resolver S) (\<lambda>res.
     ebind (build_rubric_drafter S) (\<lambda>draft.
     ebind (build_streaming_speech_provider S) (\<lambda>speech.
     ebind (build_streaming_tts_provider S) (\<lambda>tts.
     ebind (build_voice_health_registry S) (\<lambda>health.
     ebind (build_vad_config S) (\<lambda>vad.
     ebind (build_operational_slo_policy S) (\<lambda>slo.
       Inr \<lparr> dep_store = st, dep_artifacts = arts, dep_artifact_service = asv, dep_brain = brain, dep_judge = judge,
             dep_runner = run, dep_resolver = res, dep_drafter = draft, dep_speech = speech, dep_tts = tts,
             dep_health = health, dep_vad = vad, dep_slo = slo \<rparr>)))))))))))))"

section \<open>Capabilities\<close>

text \<open>The names of the classes.\<close>

fun store_class :: "store_choice \<Rightarrow> string" where
  "store_class MemoryStore = ''InMemoryStore''"
| "store_class (SqliteFile _) = ''SqliteStore''"
| "store_class (PostgresPool _ _ _ _) = ''PostgresStore''"
| "store_class (WithWebhooks _ _) = ''WebhookDispatchingStore''"

fun resolver_class :: "resolver \<Rightarrow> string" where
  "resolver_class DisabledResolver = ''DisabledPrincipalResolver''"
| "resolver_class DevHeaderResolver = ''DevHeaderPrincipalResolver''"
| "resolver_class (JwtResolver _) = ''JwtJwksPrincipalResolver''"
| "resolver_class (OidcResolver _) = ''OrganizationOidcPrincipalResolver''"
| "resolver_class (WorkloadResolver _) = ''WorkloadJwtPrincipalResolver''"
| "resolver_class (CompositeResolver _) = ''CompositePrincipalResolver''"

fun brain_class :: "brain_choice \<Rightarrow> string" where
  "brain_class RuleBrain = ''RuleBasedBrain''"
| "brain_class (ModelBrain _) = ''FallbackBrain''"

fun judge_class :: "judge_choice \<Rightarrow> string" where
  "judge_class NoJudge = ''DisabledEvidenceJudge''"
| "judge_class (ModelJudge _) = ''LLMEvidenceJudge''"
| "judge_class (JudgeEnsemble _ _) = ''EvidenceJudgeEnsemble''"

fun judge_choice_id :: "judge_choice \<Rightarrow> string" where
  "judge_choice_id NoJudge = ''disabled''"
| "judge_choice_id (ModelJudge P) = judge_id (silent_judge P)"
| "judge_choice_id (JudgeEnsemble ps _) = ensemble_id (map silent_judge ps)"

fun drafter_class :: "drafter_choice \<Rightarrow> string" where
  "drafter_class NoDrafter = ''DisabledRubricDrafter''"
| "drafter_class (ModelDrafter _) = ''LLMRubricDrafter''"

definition streaming_class :: "string \<Rightarrow> streaming_choice \<Rightarrow> string" where
  "streaming_class kind c = (case c of
      StreamingDisabled \<Rightarrow> ''DisabledStreaming'' @ kind @ ''Provider''
    | StreamingOver _ \<Rightarrow> ''JsonWebSocket'' @ kind @ ''Provider'')"

fun encrypted_at_rest :: "artifact_choice \<Rightarrow> bool" where
  "encrypted_at_rest NoArtifacts = False"
| "encrypted_at_rest _ = True"

text \<open>The fields that depend on the deployment; the others are constants.\<close>

record capabilities =
  cap_storage_backend :: string
  cap_auth_resolver :: string
  cap_interview_brain :: string
  cap_judge_enabled :: bool
  cap_judge_backend :: string
  cap_sandbox_mode :: string
  cap_jwt_auth :: bool
  cap_oidc_auth :: bool
  cap_workload_auth :: bool
  cap_hybrid_auth :: bool
  cap_webhooks :: bool
  cap_judge_ensemble :: bool
  cap_stt_enabled :: bool
  cap_stt_backend :: string
  cap_tts_enabled :: bool
  cap_tts_backend :: string
  cap_drafter_enabled :: bool
  cap_drafter_backend :: string
  cap_artifacts_enabled :: bool
  cap_artifact_backend :: string
  cap_encrypted :: bool
  cap_signed_access :: bool

definition describe_capabilities :: "environ \<Rightarrow> 'o deployment \<Rightarrow> capabilities" where
  "describe_capabilities S d =
     (let res = resolver_class (dep_resolver d); jb = judge_class (dep_judge d);
          stt = streaming_class ''Speech'' (dep_speech d); tts = streaming_class ''Tts'' (dep_tts d);
          draft = drafter_class (dep_drafter d); arts = artifact_provider_id (dep_artifacts d)
      in \<lparr> cap_storage_backend = store_class (dep_store d), cap_auth_resolver = res,
           cap_interview_brain = brain_class (dep_brain d),
           cap_judge_enabled = (judge_choice_id (dep_judge d) \<noteq> ''disabled''), cap_judge_backend = jb,
           cap_sandbox_mode = mode_of S ''NORA_SANDBOX_MODE'' ''disabled'',
           cap_jwt_auth = (res = ''JwtJwksPrincipalResolver''),
           cap_oidc_auth = (res \<in> {''OrganizationOidcPrincipalResolver'', ''CompositePrincipalResolver''}),
           cap_workload_auth = (res \<in> {''WorkloadJwtPrincipalResolver'', ''CompositePrincipalResolver''}),
           cap_hybrid_auth = (res = ''CompositePrincipalResolver''),
           cap_webhooks = (store_class (dep_store d) = ''WebhookDispatchingStore''),
           cap_judge_ensemble = (jb = ''EvidenceJudgeEnsemble''),
           cap_stt_enabled = (stt \<noteq> ''DisabledStreamingSpeechProvider''), cap_stt_backend = stt,
           cap_tts_enabled = (tts \<noteq> ''DisabledStreamingTtsProvider''), cap_tts_backend = tts,
           cap_drafter_enabled = (draft \<noteq> ''DisabledRubricDrafter''), cap_drafter_backend = draft,
           cap_artifacts_enabled = (arts \<noteq> ''disabled''), cap_artifact_backend = arts,
           cap_encrypted = encrypted_at_rest (dep_artifacts d), cap_signed_access = (arts \<noteq> ''disabled'') \<rparr>)"

end
