(* ===== verification/Deployment_Properties.thy ===== *)
theory Deployment_Properties
  imports Deployment
begin

text \<open>
  What a configuration that is accepted guarantees, whatever the variables of the environment are.
\<close>

section \<open>Builders that succeed\<close>

lemma on_value_error_Inr [simp]: "on_value_error m x = Inr y \<longleftrightarrow> x = Inr y"
  by (simp add: on_value_error_def split: sum.split)

lemma built_Inr [simp]: "map_sum id f x = Inr y \<longleftrightarrow> (\<exists>a. x = Inr a \<and> f a = y)"
  by (cases x) auto

lemma unsupported_Inr [simp]: "unsupported_mode n m \<noteq> Inr y"
  by (simp add: unsupported_mode_def)

lemma secure_jwks_Inr [simp]:
  "secure_jwks S url n f k = Inr y \<longleftrightarrow> (startswith url ''https://'' \<or> flag S f ''false'') \<and> k = Inr y"
  by (auto simp: secure_jwks_def raise_if_def)









section \<open>Connections\<close>






section \<open>Webhooks and artifacts\<close>









section \<open>The deployment\<close>







end
