(* ===== verification/Tracing.thy ===== *)
theory Tracing
  imports Api
begin

text \<open>
  \<^verbatim>\<open>trace_context.py\<close> and the middleware of \<^verbatim>\<open>api.py\<close> around every HTTP request: the correlation
  identifier, which the events of the request carry and the response returns, and the request metrics.
  The context variable is an argument of the handler, since it is reset when the request ends.
\<close>

section \<open>Correlation identifiers\<close>

definition is_alnum_ascii :: "char \<Rightarrow> bool" where
  "is_alnum_ascii c = (let n = (of_char c :: nat) in
     48 \<le> n \<and> n \<le> 57 \<or> 65 \<le> n \<and> n \<le> 90 \<or> 97 \<le> n \<and> n \<le> 122)"

text \<open>The regular expression \<^verbatim>\<open>[A-Za-z0-9][A-Za-z0-9._:-]{7,63}\<close>.\<close>

definition allowed_correlation :: "string \<Rightarrow> bool" where
  "allowed_correlation t = (case t of
      [] \<Rightarrow> False
    | c # cs \<Rightarrow> is_alnum_ascii c \<and> 7 \<le> length cs \<and> length cs \<le> 63
        \<and> (\<forall>d\<in>set cs. is_alnum_ascii d \<or> d \<in> set ''._:-''))"

definition new_correlation_id :: "string \<Rightarrow> string \<Rightarrow> string" where
  "new_correlation_id pre uuid = pre @ ''_'' @ uuid"

definition resolve_correlation_id :: "string option \<Rightarrow> string \<Rightarrow> string \<Rightarrow> string" where
  "resolve_correlation_id value pre uuid =
     (let candidate = strip (case value of None \<Rightarrow> [] | Some v \<Rightarrow> v)
      in if allowed_correlation candidate then candidate else new_correlation_id pre uuid)"

text \<open>Whatever the caller sends, the identifier is short and safe, if identifiers that are drawn are.\<close>

lemma resolved_correlation_safe:
  assumes "\<forall>c\<in>set uuid. is_alnum_ascii c" and "length uuid = 32" and "pre \<in> {''req'', ''ws''}"
  shows "allowed_correlation (resolve_correlation_id value pre uuid)"
proof -
  have "is_alnum_ascii (CHR ''r'')" "is_alnum_ascii (CHR ''e'')" "is_alnum_ascii (CHR ''q'')"
    "is_alnum_ascii (CHR ''w'')" "is_alnum_ascii (CHR ''s'')" by code_simp+
  then have "allowed_correlation (new_correlation_id pre uuid)"
    using assms by (auto simp: allowed_correlation_def new_correlation_id_def)
  then show ?thesis by (simp add: resolve_correlation_id_def Let_def)
qed

section \<open>The middleware\<close>

text \<open>A request with its method, the template of its route and its identifier, between two readings of the clock.
  The handler gives a status and a response, or an exception that no handler of the framework turns into one.\<close>

definition traced_request :: "(char \<Rightarrow> string) \<Rightarrow> rat \<Rightarrow> rat \<Rightarrow> string \<Rightarrow> string \<Rightarrow> string option \<Rightarrow> string
    \<Rightarrow> (string \<Rightarrow> ('st, 'o) api_state \<Rightarrow> ('st, 'o) api_state \<times> (int \<times> 'r) result)
    \<Rightarrow> ('st, 'o) api_state \<Rightarrow> ('st, 'o) api_state \<times> (int \<times> string \<times> 'r) result" where
  "traced_request other started ended verb route request_id uuid handler g =
     (let cid = resolve_correlation_id request_id ''req'' uuid
      in case handler cid (g\<lparr>api_http := request_started (api_http g)\<rparr>) of
        (g', Inr (code, r)) \<Rightarrow>
          (g'\<lparr>api_http := request_finished other ended verb route code started (api_http g')\<rparr>, Inr (code, cid, r))
      | (g', Inl e) \<Rightarrow>
          (g'\<lparr>api_http := request_aborted other ended verb ''<exception>'' started (api_http g')\<rparr>, Inl e))"

text \<open>A request that is served by a handler that leaves the metrics alone is no longer in flight, and was counted once.\<close>

lemma traced_request_counted:
  assumes "\<And>c h h' r. handler c h = (h', r) \<Longrightarrow> api_http h' = api_http h"
    and "traced_request other started ended verb route request_id uuid handler g = (g', r)"
    and "0 \<le> http_metrics.in_flight (api_http g)"
  shows "http_metrics.in_flight (api_http g') = http_metrics.in_flight (api_http g)
    \<and> requests_total (api_http g') = requests_total (api_http g) + 1"
proof -
  obtain h r0 where h: "handler (resolve_correlation_id request_id ''req'' uuid)
      (g\<lparr>api_http := request_started (api_http g)\<rparr>) = (h, r0)" by (metis surj_pair)
  have "api_http h = request_started (api_http g)" using assms(1) [OF h] by simp
  moreover obtain m t code where "api_http g' = request_finished other ended m t code started (api_http h)"
  proof (cases r0)
    case (Inl e)
    then show thesis using assms(2) h that [of verb "''<exception>''" 500]
      by (auto simp: traced_request_def request_aborted_def)
  next
    case (Inr x)
    then show thesis using assms(2) h that [of verb route "fst x"]
      by (cases x) (auto simp: traced_request_def)
  qed
  ultimately show ?thesis using assms(3)
    by (auto simp: request_finished_def request_started_def Let_def)
qed

end
