(* ===== verification/Postgres.thy ===== *)
theory Postgres
  imports Stores
begin

text \<open>
  \<^verbatim>\<open>postgres_store.py\<close>: the store over a connection pool that is opened, and whose tables are created, before
  the first operation. An operation is one transaction over the tables of the SQL stores. What the server
  answers when it is opened, asked for its tables or probed is a parameter; the order in which JSONB keeps the keys
  of an object is not modelled. The lemmas: once the pool can be
  opened, each operation does to the tables what that of the SQLite store does.
\<close>

section \<open>The pool\<close>

record pg_store =
  pg_opened :: bool
  pg_schema_ready :: bool
  pg_tables :: sql_store

record pg_server =
  opening_pool :: "unit result"
  creating_tables :: "unit result"
  closing_pool :: "unit result"

text \<open>\<^verbatim>\<open>_ensure_open\<close>: tables that exist are left alone.\<close>

definition ensure_open :: "pg_server \<Rightarrow> pg_store \<Rightarrow> pg_store \<times> unit result" where
  "ensure_open V p =
     (if pg_opened p \<and> pg_schema_ready p then (p, Inr ())
      else case (if pg_opened p then Inr () else opening_pool V) of
        Inl e \<Rightarrow> (p, Inl e)
      | Inr _ \<Rightarrow>
          (let p1 = p\<lparr>pg_opened := True\<rparr>
           in if pg_schema_ready p1 then (p1, Inr ())
              else case creating_tables V of
                Inl e \<Rightarrow> (p1, Inl e)
              | Inr _ \<Rightarrow> (p1\<lparr>pg_schema_ready := True\<rparr>, Inr ())))"

definition pg_read :: "pg_server \<Rightarrow> (sql_store \<Rightarrow> 'a) \<Rightarrow> pg_store \<Rightarrow> pg_store \<times> 'a result" where
  "pg_read V f p = (case ensure_open V p of
      (p1, Inl e) \<Rightarrow> (p1, Inl e) | (p1, Inr _) \<Rightarrow> (p1, Inr (f (pg_tables p1))))"

text \<open>A transaction that raises is rolled back.\<close>

definition pg_write :: "pg_server \<Rightarrow> (sql_store \<Rightarrow> (sql_store \<times> 'a) result) \<Rightarrow> pg_store \<Rightarrow> pg_store \<times> 'a result" where
  "pg_write V f p = (case ensure_open V p of
      (p1, Inl e) \<Rightarrow> (p1, Inl e)
    | (p1, Inr _) \<Rightarrow> (case f (pg_tables p1) of
        Inl e \<Rightarrow> (p1, Inl e)
      | Inr (st, a) \<Rightarrow> (p1\<lparr>pg_tables := st\<rparr>, Inr a)))"

section \<open>Operations\<close>

text \<open>\<^verbatim>\<open>INSERT ... ON CONFLICT(id) DO UPDATE\<close>.\<close>

definition pg_put_job :: "pg_server \<Rightarrow> job_spec \<Rightarrow> pg_store \<Rightarrow> pg_store \<times> unit result" where
  "pg_put_job V j = pg_write V (\<lambda>st. Inr (st\<lparr>sql_jobs := dict_set (job_key j) j (sql_jobs st)\<rparr>, ()))"

definition pg_get_job :: "pg_server \<Rightarrow> string \<Rightarrow> pg_store \<Rightarrow> pg_store \<times> job_spec option result" where
  "pg_get_job V k = pg_read V (\<lambda>st. dict_get (sql_jobs st) k)"

definition pg_put_rubric_draft :: "pg_server \<Rightarrow> rubric_draft \<Rightarrow> pg_store \<Rightarrow> pg_store \<times> unit result" where
  "pg_put_rubric_draft V d = pg_write V (\<lambda>st.
     case dict_get (sql_drafts st) (draft_id d) of
       Some _ \<Rightarrow> Inl (StoreConflictError (''rubric draft '' @ draft_id d @ '' already exists''))
     | None \<Rightarrow> Inr (st\<lparr>sql_drafts := dict_set (draft_id d)
         \<lparr> drow_approved_job_id = None, drow_payload = d \<rparr> (sql_drafts st)\<rparr>, ()))"

definition pg_get_rubric_draft :: "pg_server \<Rightarrow> string \<Rightarrow> pg_store \<Rightarrow> pg_store \<times> rubric_draft option result" where
  "pg_get_rubric_draft V k = pg_read V (\<lambda>st. map_option drow_payload (dict_get (sql_drafts st) k))"

text \<open>The row of the draft is locked; the job is inserted and then the draft updated where it is not approved.\<close>

definition pg_insert_job :: "job_spec \<Rightarrow> sql_store \<Rightarrow> sql_store result" where
  "pg_insert_job j st = (case dict_get (sql_jobs st) (job_key j) of
      Some _ \<Rightarrow> Inl (StoreConflictError (''job '' @ job_key j @ '' already exists''))
    | None \<Rightarrow> Inr (st\<lparr>sql_jobs := dict_set (job_key j) j (sql_jobs st)\<rparr>))"

definition pg_mark_approved :: "string \<Rightarrow> rubric_draft \<Rightarrow> job_spec \<Rightarrow> sql_store \<Rightarrow> sql_store result" where
  "pg_mark_approved k approved j st = (case dict_get (sql_drafts st) k of
      Some row \<Rightarrow>
        if drow_approved_job_id row = None
        then Inr (st\<lparr>sql_drafts := dict_set k \<lparr> drow_approved_job_id = Some (job_key j), drow_payload = approved \<rparr>
               (sql_drafts st)\<rparr>)
        else Inl (StoreConflictError (''rubric draft '' @ k @ '' was approved concurrently''))
    | None \<Rightarrow> Inl (StoreConflictError (''rubric draft '' @ k @ '' was approved concurrently'')))"

definition pg_approve_rubric_draft :: "pg_server \<Rightarrow> string \<Rightarrow> rubric_draft \<Rightarrow> job_spec
    \<Rightarrow> pg_store \<Rightarrow> pg_store \<times> unit result" where
  "pg_approve_rubric_draft V k approved j = pg_write V (\<lambda>st.
     case dict_get (sql_drafts st) k of
       None \<Rightarrow> Inl (KeyError (''rubric draft '' @ k @ '' not found''))
     | Some row \<Rightarrow>
         raise_if (drow_approved_job_id row \<noteq> None)
           (StoreConflictError (''rubric draft '' @ k @ '' is already approved''))
         (ebind (pg_insert_job j st) (\<lambda>st1.
          ebind (pg_mark_approved k approved j st1) (\<lambda>st2. Inr (st2, ())))))"

definition pg_put_session :: "pg_server \<Rightarrow> interview_session \<Rightarrow> pg_store \<Rightarrow> pg_store \<times> unit result" where
  "pg_put_session V s = pg_write V (\<lambda>st. ebind (postgres_put_session s st) (\<lambda>st1. Inr (st1, ())))"

definition pg_get_session :: "pg_server \<Rightarrow> string \<Rightarrow> pg_store \<Rightarrow> pg_store \<times> interview_session option result" where
  "pg_get_session V k = pg_read V (\<lambda>st. map_option row_payload (dict_get (sql_sessions st) k))"

definition pg_list_sessions :: "pg_server \<Rightarrow> pg_store \<Rightarrow> pg_store \<times> interview_session list result" where
  "pg_list_sessions V = pg_read V (\<lambda>st. map (\<lambda>kr. row_payload (snd kr))
     (sort_key (\<lambda>kr. row_updated_at (snd kr)) (sort_key fst (sql_sessions st))))"

definition pg_delete_session :: "pg_server \<Rightarrow> string \<Rightarrow> pg_store \<Rightarrow> pg_store \<times> bool result" where
  "pg_delete_session V k = pg_write V (\<lambda>st.
     Inr (st\<lparr>sql_sessions := dict_del k (sql_sessions st)\<rparr>, dict_get (sql_sessions st) k \<noteq> None))"

text \<open>\<^verbatim>\<open>SELECT 1\<close>: the row that comes back.\<close>

definition pg_ping :: "pg_server \<Rightarrow> int option result \<Rightarrow> pg_store \<Rightarrow> pg_store \<times> unit result" where
  "pg_ping V probe p = (case ensure_open V p of
      (p1, Inl e) \<Rightarrow> (p1, Inl e)
    | (p1, Inr _) \<Rightarrow> (p1, ebind probe (\<lambda>row.
        raise_if (row \<noteq> Some 1) (OtherError ''RuntimeError'' ''PostgreSQL readiness probe failed'') (Inr ()))))"

definition pg_close :: "pg_server \<Rightarrow> pg_store \<Rightarrow> pg_store \<times> unit result" where
  "pg_close V p =
     (if pg_opened p
      then case closing_pool V of
        Inl e \<Rightarrow> (p, Inl e)
      | Inr _ \<Rightarrow> (p\<lparr>pg_opened := False, pg_schema_ready := False\<rparr>, Inr ())
      else (p, Inr ()))"

section \<open>The tables are those of the SQLite store\<close>

lemma ensure_open_tables: "ensure_open V p = (p1, r) \<Longrightarrow> pg_tables p1 = pg_tables p"
  by (auto simp: ensure_open_def Let_def split: sum.splits if_splits)

text \<open>A server that lets itself be opened.\<close>

definition reachable_server :: "pg_server \<Rightarrow> bool" where
  "reachable_server V \<longleftrightarrow> opening_pool V = Inr () \<and> creating_tables V = Inr ()"

lemma ensure_open_reachable:
  assumes "reachable_server V"
  shows "ensure_open V p = (p\<lparr>pg_opened := True, pg_schema_ready := True\<rparr>, Inr ())"
  using assms by (cases p) (auto simp: ensure_open_def reachable_server_def Let_def)

lemma pg_read_reachable:
  assumes "reachable_server V"
  shows "pg_read V f p = (p\<lparr>pg_opened := True, pg_schema_ready := True\<rparr>, Inr (f (pg_tables p)))"
  by (simp add: pg_read_def ensure_open_reachable [OF assms])

lemma pg_write_reachable:
  assumes "reachable_server V"
  shows "pg_write V f p = (case f (pg_tables p) of
      Inl e \<Rightarrow> (p\<lparr>pg_opened := True, pg_schema_ready := True\<rparr>, Inl e)
    | Inr (st, a) \<Rightarrow> (p\<lparr>pg_opened := True, pg_schema_ready := True, pg_tables := st\<rparr>, Inr a))"
  by (cases p) (auto simp: pg_write_def ensure_open_reachable [OF assms] split: sum.split)

text \<open>What is left of a result for a caller that only asks if it is an error.\<close>

definition succeeds_as :: "pg_store \<times> 'a result \<Rightarrow> (sql_store \<times> 'a) option" where
  "succeeds_as x = (case x of (p, Inl e) \<Rightarrow> None | (p, Inr a) \<Rightarrow> Some (pg_tables p, a))"

definition result_as :: "sql_store result \<Rightarrow> (sql_store \<times> unit) option" where
  "result_as r = (case r of Inl e \<Rightarrow> None | Inr st \<Rightarrow> Some (st, ()))"

lemma pg_reads_as_sqlite:
  assumes "reachable_server V"
  shows "snd (pg_get_session V k p) = Inr (sql_get_session (pg_tables p) k)"
    and "snd (pg_list_sessions V p) = Inr (sql_list_sessions (pg_tables p))"
    and "snd (pg_get_job V k p) = Inr (sql_get_job (pg_tables p) k)"
    and "snd (pg_get_rubric_draft V k p) = Inr (sql_get_rubric_draft (pg_tables p) k)"
  by (simp_all add: pg_get_session_def pg_list_sessions_def pg_get_job_def pg_get_rubric_draft_def
      pg_read_reachable [OF assms] sql_get_session_def sql_list_sessions_def sql_get_job_def sql_get_rubric_draft_def)

lemma pg_put_job_as_sqlite:
  assumes "reachable_server V"
  shows "succeeds_as (pg_put_job V j p) = Some (sql_put_job j (pg_tables p), ())"
  by (simp add: pg_put_job_def pg_write_reachable [OF assms] succeeds_as_def sql_put_job_def)

lemma pg_put_rubric_draft_as_sqlite:
  assumes "reachable_server V"
  shows "succeeds_as (pg_put_rubric_draft V d p) = result_as (sql_put_rubric_draft d (pg_tables p))"
  by (cases "dict_get (sql_drafts (pg_tables p)) (draft_id d)")
    (simp_all add: pg_put_rubric_draft_def pg_write_reachable [OF assms] succeeds_as_def result_as_def
      sql_put_rubric_draft_def)

lemma pg_approve_rubric_draft_as_sqlite:
  assumes "reachable_server V"
  shows "succeeds_as (pg_approve_rubric_draft V k d j p) = result_as (sql_approve_rubric_draft k d j (pg_tables p))"
  by (cases "dict_get (sql_drafts (pg_tables p)) k"; cases "dict_get (sql_jobs (pg_tables p)) (job_key j)")
    (simp_all add: pg_approve_rubric_draft_def pg_write_reachable [OF assms] succeeds_as_def result_as_def
      sql_approve_rubric_draft_def pg_insert_job_def pg_mark_approved_def raise_if_def ebind_def)

lemma pg_delete_session_as_sqlite:
  assumes "reachable_server V"
  shows "succeeds_as (pg_delete_session V k p) = Some (sql_delete_session k (pg_tables p))"
  by (simp add: pg_delete_session_def pg_write_reachable [OF assms] succeeds_as_def sql_delete_session_def)

lemma pg_put_session_as_sqlite:
  assumes "reachable_server V" and "sql_ok (pg_tables p)"
  shows "succeeds_as (pg_put_session V s p) = result_as (sqlite_put_session s (pg_tables p))"
proof -
  have same: "postgres_put_session s (pg_tables p) = Inr st \<longleftrightarrow> sqlite_put_session s (pg_tables p) = Inr st" for st
    by (rule postgres_sqlite_put) (use assms in auto)
  have left: "succeeds_as (pg_put_session V s p) = result_as (postgres_put_session s (pg_tables p))"
    by (cases "postgres_put_session s (pg_tables p)")
      (simp_all add: pg_put_session_def pg_write_reachable [OF assms(1)] succeeds_as_def result_as_def)
  have right: "result_as (postgres_put_session s (pg_tables p)) = result_as (sqlite_put_session s (pg_tables p))"
  proof (cases "postgres_put_session s (pg_tables p)")
    case (Inr st)
    then have "sqlite_put_session s (pg_tables p) = Inr st" by (rule same [THEN iffD1])
    with Inr show ?thesis by (simp only:)
  next
    case (Inl e)
    then have "sqlite_put_session s (pg_tables p) \<noteq> Inr st" for st using same [of st] by (metis Inl_Inr_False)
    then obtain e' where "sqlite_put_session s (pg_tables p) = Inl e'" by (metis sumE)
    with Inl show ?thesis by (simp only: result_as_def sum.case)
  qed
  from left right show ?thesis by (rule trans)
qed

text \<open>When the server cannot be opened, or not be asked for its tables, nothing is read or written.\<close>

lemma pg_unreachable:
  assumes "\<not> (pg_opened p \<and> pg_schema_ready p)" and "opening_pool V = Inl e" and "\<not> pg_opened p"
  shows "pg_write V f p = (p, Inl e)" and "pg_read V h p = (p, Inl e)"
  using assms by (simp_all add: pg_write_def pg_read_def ensure_open_def)

end
