(* ===== verification/Guarded_Voice.thy ===== *)
theory Guarded_Voice
  imports Providers
begin

text \<open>
  \<^verbatim>\<open>providers/guarded_voice.py\<close> over the websocket providers: every stream of speech and of synthesis is opened
  through the health registry, failures are recorded and the first event of a stream marks its provider
  healthy. The lemmas: a provider whose circuit is open is not asked, and what a synthesis gives to the
  output bridge is what came over the wire, in order.
\<close>

record guard =
  guard_key :: string
  guard_clock :: rat
  guard_failed_at :: rat
  guard_date :: datetime

section \<open>Speech to text\<close>

definition guarded_speech_open :: "guard \<Rightarrow> ws_session result \<Rightarrow> health_registry \<Rightarrow> health_registry \<times> ws_session result" where
  "guarded_speech_open G opened H = guarded_open (guard_key G) (guard_clock G) (guard_failed_at G) (guard_date G) opened H"

definition guarded_step :: "guard \<Rightarrow> (ws_session \<Rightarrow> ws_session \<times> unit result) \<Rightarrow> ws_session \<times> health_registry
    \<Rightarrow> (ws_session \<times> health_registry) \<times> unit result" where
  "guarded_step G f sH = (case sH of (s, H) \<Rightarrow> (case f s of
      (s', r) \<Rightarrow> (case guarded_call (guard_key G) (guard_failed_at G) (guard_date G) r H of
        (H', r') \<Rightarrow> ((s', H'), r'))))"

definition guarded_push :: "guard \<Rightarrow> unit result \<Rightarrow> bytes \<Rightarrow> ws_session \<times> health_registry
    \<Rightarrow> (ws_session \<times> health_registry) \<times> unit result" where
  "guarded_push G sending audio = guarded_step G (speech_push sending audio)"

definition guarded_commit :: "guard \<Rightarrow> wire \<Rightarrow> unit result \<Rightarrow> ws_session \<times> health_registry
    \<Rightarrow> (ws_session \<times> health_registry) \<times> unit result" where
  "guarded_commit G W sending = guarded_step G (speech_commit W sending)"

text \<open>\<^verbatim>\<open>close\<close> and \<^verbatim>\<open>cancel\<close> are passed on as they are.\<close>

definition guarded_end :: "(ws_session \<Rightarrow> ws_session \<times> unit result) \<Rightarrow> ws_session \<times> health_registry
    \<Rightarrow> (ws_session \<times> health_registry) \<times> unit result" where
  "guarded_end f sH = (case sH of (s, H) \<Rightarrow> (case f s of (s', r) \<Rightarrow> ((s', H), r)))"

text \<open>The events with the exception that ends them, for a guard that was marked healthy or not.\<close>

definition ended_with :: "unit result \<Rightarrow> exn option" where
  "ended_with r = (case r of Inl e \<Rightarrow> Some e | Inr _ \<Rightarrow> None)"

definition guarded_speech_events :: "guard \<Rightarrow> wire \<Rightarrow> frame list \<Rightarrow> exn option \<Rightarrow> unit result \<Rightarrow> bool
    \<Rightarrow> ws_session \<times> health_registry \<Rightarrow> (ws_session \<times> health_registry) \<times> recognition_event list \<times> exn option" where
  "guarded_speech_events G W fs failure closing healthy sH = (case sH of (s, H) \<Rightarrow>
     (case speech_run W fs failure closing s of (s', evs, e) \<Rightarrow>
       (case guarded_events (guard_key G) (guard_failed_at G) (guard_date G) evs e healthy H of
         (passed, h, H', r) \<Rightarrow> ((s', H'), passed, ended_with r))))"

section \<open>Text to speech\<close>

definition guarded_synthesize :: "guard \<Rightarrow> ws_session result \<Rightarrow> health_registry \<Rightarrow> health_registry \<times> ws_session result" where
  "guarded_synthesize G opened H = guarded_open (guard_key G) (guard_clock G) (guard_failed_at G) (guard_date G) opened H"

definition guarded_tts_chunks :: "guard \<Rightarrow> wire \<Rightarrow> int \<Rightarrow> frame list \<Rightarrow> exn option \<Rightarrow> unit result \<Rightarrow> bool
    \<Rightarrow> ws_session \<times> health_registry \<Rightarrow> (ws_session \<times> health_registry) \<times> tts_chunk list \<times> exn option" where
  "guarded_tts_chunks G W gen fs failure closing healthy sH = (case sH of (s, H) \<Rightarrow>
     (case tts_run W gen fs failure closing s of (s', cs, e) \<Rightarrow>
       (case guarded_events (guard_key G) (guard_failed_at G) (guard_date G) cs e healthy H of
         (passed, h, H', r) \<Rightarrow> ((s', H'), passed, ended_with r))))"

section \<open>What is passed on\<close>

lemma guarded_events_prefix:
  "guarded_events key clock date xs failure healthy H = (ys, h, H', r) \<Longrightarrow> prefix ys xs"
  by (induction xs arbitrary: healthy H ys) (auto split: prod.splits sum.splits)

lemma guarded_tts_chunks_numbered:
  assumes "guarded_tts_chunks G W gen fs failure closing healthy (s, H) = (sH', cs, e)"
  shows "map tts_sequence cs = [0..int (length cs) - 1]
    \<and> (\<forall>c\<in>set cs. tts_chunk_generation c = gen \<and> BinaryFrame (tts_audio c) \<in> set fs \<and> tts_audio c \<noteq> [])"
proof -
  obtain all e0 where all: "tts_chunks W gen 0 fs failure = (all, e0)" by (metis surj_pair)
  note n = tts_chunks_numbered [OF all]
  have "prefix cs all"
    using assms all by (auto simp: guarded_tts_chunks_def tts_run_def split: prod.splits dest!: guarded_events_prefix)
  then obtain rest where rest: "all = cs @ rest" by (auto simp: prefix_def)
  have "map tts_sequence cs = take (length cs) (map tts_sequence all)" by (simp add: rest)
  also have "\<dots> = take (length cs) [0..int (length all) - 1]" using n by simp
  also have "\<dots> = [0..int (length cs) - 1]"
    by (rule nth_equalityI) (auto simp: rest)
  finally show ?thesis using n by (simp add: rest)
qed

end
