(* ===== verification/Spec2Isabelle.thy ===== *)
theory Spec2Isabelle
  imports Session_Properties Evidence_Properties Interview_Properties Tool_Properties
    Replay_Properties Workflow_Properties Media_Properties Runtime_Properties Interface_Properties
    Deployment_Properties Tracing Postgres Guarded_Voice
begin

text \<open>
  Verification of \<^verbatim>\<open>nora_interviewer\<close> (\<^verbatim>\<open>src/src/nora_interviewer\<close>), a service that runs interviews by a language
  model, gathers evidence about the candidate and leaves the decision to people.

  \<^bold>\<open>The program.\<close> An \<^verbatim>\<open>InterviewService\<close> (\<^verbatim>\<open>service.py\<close>) handles one request on one session at a time: it loads
  the session from a \<^verbatim>\<open>Store\<close>, computes on a private copy and writes it back under the next version. What a
  request computes comes from its parts: a brain chooses the next question or tool (\<^verbatim>\<open>providers/\<close>), the
  planner mixes in standardised anchors, a judge or an ensemble of judges turns answers into findings, a gate
  accepts only those that quote the transcript, the evidence graph collects them, a sandbox evaluates code,
  and every step appends to a hash chain of events. Around the service are the review queue, the drafting of
  rubrics, retention, artifacts, realtime voice over bridges to providers of speech, webhooks, metrics,
  authentication and access control, the configuration that composes a deployment out of the environment,
  and the HTTP and WebSocket interface (\<^verbatim>\<open>api.py\<close>) through which all of this is called.

  \<^bold>\<open>How the code is modelled.\<close> A class with fields is a record, an enumeration a datatype, a union of messages a
  datatype or a dictionary of JSON. An operation is a function from its inputs and the state to the new state and a
  result, \<open>Inl\<close> an exception or \<open>Inr\<close> a value; \<open>ebind\<close>, \<open>raise_if\<close>, \<open>efold\<close> are sequencing, guards and loops whose body may
  raise. Where the code has changed something before it raises, the state is returned beside the exception. A dictionary
  is an association list in insertion order, a float the rational it denotes with every operation rounded to
  binary64 (\<open>fl\<close>, theory \<open>Py_Float\<close>), bytes are lists of 8-bit words, an integer is \<open>int\<close>, time is microseconds since the
  epoch. Strings are lists of code points below 256; the few typographic characters in fixed sentences are written
  in ASCII, and \<open>Language_Profiles\<close> has lists of code points where scripts matter. Identifiers that are drawn and the times
  that are read come from an environment that is threaded through. The text of a \<^verbatim>\<open>ValidationError\<close> is the name of its
  model. A request of the interface arrives as \<^verbatim>\<open>FastAPI\<close> has parsed and validated it.

  \<^bold>\<open>The theories\<close>, in the order in which they build on each other, with the files they model:

  \<^item> \<open>Prelude\<close>: exceptions, sequencing, dictionaries, lists. \<open>Py_Text\<close>, \<open>Py_Bytes\<close>, \<open>Py_Float\<close>: the text, byte and float operations of Python
    that the sources call; round trips of UTF-8 and base64, bounds of the rounding.
  \<^item> \<open>Models\<close> (\<^verbatim>\<open>models.py\<close>): jobs, turns, evidence, tools, events, sessions and requests, with the validations of the fields.
  \<^item> \<open>Audit_Chain\<close> (\<^verbatim>\<open>audit.py\<close>): what is hashed, verification and appending. Lemmas: appending keeps a verified chain,
    and what a verified chain is.
  \<^item> \<open>Evidence\<close> (\<^verbatim>\<open>evidence.py\<close>): claims, observations, recomputation; each keeps the graph consistent with the turns.
  \<^item> \<open>Planner\<close> (\<^verbatim>\<open>planner.py\<close>), \<open>Controls\<close> (\<^verbatim>\<open>controls.py\<close>), \<open>Judge\<close> (\<^verbatim>\<open>evidence_judge.py\<close>), \<open>Ensemble\<close> (\<^verbatim>\<open>evidence_ensemble.py\<close>),
    \<open>Tools\<close> (\<^verbatim>\<open>tools.py\<close>, \<^verbatim>\<open>coding.py\<close>, \<^verbatim>\<open>domain_evaluators.py\<close>), \<open>Tool_Templates\<close> (\<^verbatim>\<open>tool_templates.py\<close>), \<open>Brains\<close> (\<^verbatim>\<open>providers/base.py\<close>, \<^verbatim>\<open>rule_based.py\<close>,
    \<^verbatim>\<open>llm_brain.py\<close>, \<^verbatim>\<open>fallback.py\<close>): what the service calls to decide. The locale \<open>interview_brain\<close> is what it relies on.
  \<^item> \<open>Rubric_Drafting\<close>, \<open>Rubric_Service\<close> (\<^verbatim>\<open>rubric_drafting.py\<close>, \<^verbatim>\<open>rubric_service.py\<close>): drafts, their drafters and approval.
  \<^item> \<open>Stores\<close> (\<^verbatim>\<open>storage.py\<close>, \<^verbatim>\<open>sqlite_store.py\<close>), \<open>Postgres\<close> (\<^verbatim>\<open>postgres_store.py\<close>): the locale \<open>session_store\<close> is the contract of
    optimistic concurrency; it is interpreted on the in-memory, SQLite and PostgreSQL stores. \<open>Postgres\<close> has the
    pool that opens itself and shows that each operation does to the tables what that of SQLite does.
  \<^item> \<open>Service_Core\<close>, \<open>Service\<close> (\<^verbatim>\<open>service.py\<close>): first the private operations, then the handlers (\<open>..._step\<close> between the load and
    the write, \<open>transact\<close> around it). \<open>Service_Inv\<close>, \<open>Service_Steps\<close>: every handler keeps \<open>session_ok\<close> (chain, graph, closed sessions) and
    \<open>progress\<close> (identity, job, version and the order of the states).
  \<^item> \<open>Replay\<close>, \<open>Replay_Refines\<close> (\<^verbatim>\<open>replay.py\<close>): the replay of the log, and one lemma for each operation that replaying gives the session.
  \<^item> \<open>Counterfactual\<close> (\<^verbatim>\<open>counterfactual.py\<close>), \<open>Feedback\<close> (\<^verbatim>\<open>feedback.py\<close>), \<open>Trace_Export\<close> (\<^verbatim>\<open>evidence_bundle.py\<close>, \<^verbatim>\<open>review_bundle.py\<close>, the export of
    \<^verbatim>\<open>service.py\<close>): what is derived from a session.
  \<^item> \<open>Review\<close>, \<open>Review_Service\<close> (\<^verbatim>\<open>review.py\<close>, \<^verbatim>\<open>review_service.py\<close>): reports, dashboard, the life cycle of assignments.
  \<^item> \<open>Retention\<close> (\<^verbatim>\<open>retention.py\<close>) over the locale \<open>session_catalog\<close>; \<open>Authorization\<close> (\<^verbatim>\<open>authorization.py\<close>), \<open>Authentication\<close> (\<^verbatim>\<open>authn.py\<close>).
  \<^item> \<open>Artifact_Storage\<close> (\<^verbatim>\<open>artifact_storage.py\<close>, \<^verbatim>\<open>s3_artifact_storage.py\<close>) with the locale \<open>object_store\<close>, interpreted on all
    three stores; \<open>Artifacts\<close> (\<^verbatim>\<open>artifact_service.py\<close>): creation, access tokens, deletion, in the locale \<open>artifact_world\<close>.
  \<^item> \<open>Language_Profiles\<close>, \<open>Vad\<close>, \<open>Voice\<close> (\<^verbatim>\<open>language_profiles.py\<close>, \<^verbatim>\<open>vad.py\<close>, \<^verbatim>\<open>voice.py\<close>), \<open>Audio_Streams\<close> (\<^verbatim>\<open>voice_stream.py\<close>,
    \<^verbatim>\<open>audio_stream_manager.py\<close>), \<open>Voice_Bridges\<close> (\<^verbatim>\<open>voice_stream_bridge.py\<close>, \<^verbatim>\<open>voice_output.py\<close>, \<^verbatim>\<open>voice_output_bridge.py\<close>), \<open>Providers\<close>
    (\<^verbatim>\<open>providers/completion.py\<close>, \<^verbatim>\<open>websocket_speech.py\<close>, \<^verbatim>\<open>websocket_tts.py\<close>), \<open>Guarded_Voice\<close> (\<^verbatim>\<open>providers/guarded_voice.py\<close>): speech in both directions.
  \<^item> \<open>Resilience\<close> (\<^verbatim>\<open>resilience.py\<close>, \<^verbatim>\<open>provider_health.py\<close>), \<open>Metrics\<close> (\<^verbatim>\<open>operations.py\<close>, \<^verbatim>\<open>slo.py\<close>, \<^verbatim>\<open>http_metrics.py\<close>, \<^verbatim>\<open>websocket_metrics.py\<close>),
    \<open>Webhooks\<close> (\<^verbatim>\<open>webhooks.py\<close>), \<open>Sandbox\<close> (\<^verbatim>\<open>sandbox.py\<close>).
  \<^item> \<open>Configuration\<close>, \<open>Deployment\<close> (\<^verbatim>\<open>config.py\<close>, \<^verbatim>\<open>capabilities.py\<close>): every builder, and the deployment they compose.
  \<^item> \<open>Concurrency\<close>: the step relation of requests that load, compute and write in any interleaving, over any store and
    brain of the locale \<open>service_store\<close>; every session it can reach satisfies the invariants.
  \<^item> \<open>Api\<close>, \<open>Api_Sessions\<close>, \<open>Api_Voice\<close>, \<open>Api_Sockets\<close>, \<open>Api_Streams\<close>, \<open>Tracing\<close> (\<^verbatim>\<open>api.py\<close>, \<^verbatim>\<open>trace_context.py\<close>): the endpoints, the three
    sockets with their background tasks, the middleware. \<open>Api_Frame\<close>, \<open>Api_Socket_Frame\<close>: what an endpoint or a message may change.
  \<^item> \<open>Samples\<close>: concrete inputs, with the lemmas that evaluate the handlers on them. The theories named \<open>..._Properties\<close> hold
    the properties C1 to C40, each with the witness that applies it to a concrete input; they rest on the
    lemmas of the components and on the facts of the interpretations.

  \<^bold>\<open>What the properties show.\<close> Sessions: whatever runs concurrently, stored sessions stay sound, no update is lost, and
  the log replays to the session. Evidence: only what is quoted from the transcript counts, contradictions stay,
  corrections retire what they must, tampering with the log is found, ensembles need agreement. Interviews: anchors stay
  within budget, closed interviews refuse, controls are not answers, tools respect the job, hidden tests stay
  hidden, only code is decided by a machine. Workflows: access exactly by role and organisation, retention exactly of what is due,
  one approval, one reviewer at a time, reports that call for review exactly when they must. Media:
  what is uploaded is read back and, once deleted, is unreachable; utterances end, voice states are sound, audio is passed on in
  order and stops when interrupted. Runtime: deliveries of webhooks end and refine the store, identities stay in their
  organisation, metrics are well formed, endpoints and sockets reach nothing before the access checks, and a
  configuration that is accepted keeps its security rules.

  \<^bold>\<open>Bounds.\<close> There is no fuel: loops recurse on lists, on the number of attempts that are left, or on a measure. What
  comes from outside (frames of a socket, chunks of a provider, answers of a webhook) is a finite list, the part that
  has come so far; statements hold for all of them.

  \<^bold>\<open>Parameters.\<close> Code that is not in the repository is an argument, and the hypotheses about it are named: SHA-256,
  HMAC and AES-GCM, decoding and verification of tokens by the JWT library, \<^verbatim>\<open>json.loads\<close> and the coercions of the validation library,
  the answers of the language models, the speech services, Docker and the remote sandbox, the HTTP and S3
  clients, the PostgreSQL server, how floats and times are printed (\<^verbatim>\<open>repr\<close>, \<^verbatim>\<open>:g\<close>), \<^verbatim>\<open>math.sqrt\<close>, case mapping of characters outside ASCII.
  Each property with such a hypothesis has a witness in which the parameter is a concrete function.

  \<^bold>\<open>Not modelled.\<close> The static pages (\<^verbatim>\<open>web.py\<close>), the start of the server (\<^verbatim>\<open>main.py\<close>), the route table and the constant
  health page are input and output only; interfaces declared as \<^verbatim>\<open>Protocol\<close> have no code. Connecting to SQLite, its locking and its
  encoding of rows are the library's; a transaction is one step. Floats that are NaN or infinite are where the
  model of the configuration ends (\<open>beyond_the_model\<close>). The details of an HTTP 412 are reduced to its message, and response headers of refused
  requests are left out. A background task of a socket acts between two messages, and cancellation inside the
  library's own awaits is not modelled. The cost of time is a reading of the clock, so latencies are inputs.
\<close>

end
